(* ===== verification/Prelude.thy ===== *)
theory Prelude
  imports Main
begin

text \<open>
  Generic material of the development: results of code that may raise, the rows of a
  database table kept in a list, Python's stable sort by a comparison function, and the
  interface locales that several components provide.
\<close>

named_theorems res_simps "rewriting of results of code that may raise"
named_theorems res_elims "inversion of successful results"
named_theorems row_simps "reading and writing rows of a table"

section \<open>Results of code that may raise\<close>

text \<open>\<open>Inl e\<close> is a raised exception, \<open>Inr x\<close> a returned value.\<close>

definition rbind :: "'e + 'a \<Rightarrow> ('a \<Rightarrow> 'e + 'b) \<Rightarrow> 'e + 'b" where
  "rbind m f = (case m of Inl e \<Rightarrow> Inl e | Inr x \<Rightarrow> f x)"

definition require :: "bool \<Rightarrow> 'e \<Rightarrow> 'e + unit" where
  "require b e = (if b then Inr () else Inl e)"

definition or_raise :: "'a option \<Rightarrow> 'e \<Rightarrow> 'e + 'a" where
  "or_raise x e = (case x of None \<Rightarrow> Inl e | Some v \<Rightarrow> Inr v)"

definition reraise :: "('e \<Rightarrow> 'f) \<Rightarrow> 'e + 'a \<Rightarrow> 'f + 'a" where
  "reraise h m = (case m of Inl e \<Rightarrow> Inl (h e) | Inr x \<Rightarrow> Inr x)"

lemma rbind_simps [simp, res_simps]:
  "rbind (Inl e) f = Inl e"
  "rbind (Inr x) f = f x"
  by (simp_all add: rbind_def)

lemma rbind_Inr_iff [res_simps]:
  "rbind m f = Inr y \<longleftrightarrow> (\<exists>x. m = Inr x \<and> f x = Inr y)"
  by (cases m) simp_all

lemma rbind_Inl_iff:
  "rbind m f = Inl e \<longleftrightarrow> m = Inl e \<or> (\<exists>x. m = Inr x \<and> f x = Inl e)"
  by (cases m) simp_all

lemma rbind_InrE [res_elims]:
  assumes "rbind m f = Inr y"
  obtains x where "m = Inr x" and "f x = Inr y"
  using assms by (cases m) simp_all

lemma rbind_assoc: "rbind (rbind m f) g = rbind m (\<lambda>x. rbind (f x) g)"
  by (cases m) simp_all

lemma require_simps [simp, res_simps]:
  "require b e = Inr u \<longleftrightarrow> b"
  "require b e = Inl d \<longleftrightarrow> \<not> b \<and> d = e"
  "require True e = Inr ()"
  "require False e = Inl e"
  by (auto simp: require_def)

lemma or_raise_simps [simp, res_simps]:
  "or_raise x e = Inr v \<longleftrightarrow> x = Some v"
  "or_raise x e = Inl d \<longleftrightarrow> x = None \<and> d = e"
  "or_raise (Some v) e = Inr v"
  "or_raise None e = Inl e"
  by (auto simp: or_raise_def split: option.splits)

lemma reraise_simps [simp, res_simps]:
  "reraise h m = Inr v \<longleftrightarrow> m = Inr v"
  "reraise h (Inr v) = Inr v"
  "reraise h (Inl e) = Inl (h e)"
  by (auto simp: reraise_def split: sum.splits)

text \<open>A loop whose body may raise stops at the first exception.\<close>

fun fold_res :: "('a \<Rightarrow> 's \<Rightarrow> 'e + 's) \<Rightarrow> 'a list \<Rightarrow> 's \<Rightarrow> 'e + 's" where
  "fold_res f [] s = Inr s"
| "fold_res f (x # xs) s = rbind (f x s) (fold_res f xs)"

fun map_res :: "('a \<Rightarrow> 'e + 'b) \<Rightarrow> 'a list \<Rightarrow> 'e + 'b list" where
  "map_res f [] = Inr []"
| "map_res f (x # xs) = rbind (f x) (\<lambda>y. rbind (map_res f xs) (\<lambda>ys. Inr (y # ys)))"

lemma fold_res_invariant:
  assumes "fold_res f xs s = Inr t" and "I s"
    and "\<And>x s s'. x \<in> set xs \<Longrightarrow> I s \<Longrightarrow> f x s = Inr s' \<Longrightarrow> I s'"
  shows "I t"
  using assms by (induction xs arbitrary: s) (auto simp: res_simps)

lemma map_res_Inr: "map_res f xs = Inr ys \<longleftrightarrow> map f xs = map Inr ys"
  by (induction xs arbitrary: ys) (auto simp: res_simps map_eq_Cons_conv)

section \<open>Rows of a table\<close>

text \<open>
  A table is the list of its rows in the order they were inserted; \<open>rid\<close> reads the
  primary key. \<open>select\<close> with a \<open>where\<close> is a filter, \<open>db.get\<close> is \<open>row_get\<close>,
  \<open>update ... where\<close> is \<open>row_update\<close> and its \<open>rowcount\<close> is \<open>row_count\<close>.
\<close>

definition row_get :: "('r \<Rightarrow> int) \<Rightarrow> 'r list \<Rightarrow> int \<Rightarrow> 'r option" where
  "row_get rid t i = find (\<lambda>r. rid r = i) t"

definition row_update :: "('r \<Rightarrow> bool) \<Rightarrow> ('r \<Rightarrow> 'r) \<Rightarrow> 'r list \<Rightarrow> 'r list" where
  "row_update p f t = map (\<lambda>r. if p r then f r else r) t"

definition row_count :: "('r \<Rightarrow> bool) \<Rightarrow> 'r list \<Rightarrow> nat" where
  "row_count p t = length (filter p t)"

definition row_set :: "('r \<Rightarrow> int) \<Rightarrow> 'r \<Rightarrow> 'r list \<Rightarrow> 'r list" where
  "row_set rid r t = row_update (\<lambda>q. rid q = rid r) (\<lambda>_. r) t"

text \<open>SQLite gives a new row of an integer primary key the largest key plus one.\<close>

definition next_id :: "('r \<Rightarrow> int) \<Rightarrow> 'r list \<Rightarrow> int" where
  "next_id rid t = foldr (\<lambda>r m. max (rid r) m) t 0 + 1"

definition rows_ok :: "('r \<Rightarrow> int) \<Rightarrow> 'r list \<Rightarrow> bool" where
  "rows_ok rid t \<longleftrightarrow> distinct (map rid t)"

text \<open>The last row in key order among those selected, i.e. \<open>order_by(id.desc()) limit 1\<close>.\<close>

definition last_where :: "('r \<Rightarrow> int) \<Rightarrow> ('r \<Rightarrow> bool) \<Rightarrow> 'r list \<Rightarrow> 'r option" where
  "last_where rid p t =
     (case sort_key rid (filter p t) of [] \<Rightarrow> None | q # qs \<Rightarrow> Some (last (q # qs)))"

definition first_where :: "('r \<Rightarrow> int) \<Rightarrow> ('r \<Rightarrow> bool) \<Rightarrow> 'r list \<Rightarrow> 'r option" where
  "first_where rid p t =
     (case sort_key rid (filter p t) of [] \<Rightarrow> None | q # qs \<Rightarrow> Some q)"

lemma next_id_greater: "r \<in> set t \<Longrightarrow> rid r < next_id rid t"
  by (induction t) (auto simp: next_id_def)

lemma next_id_positive: "0 < next_id rid t"
proof -
  have "0 \<le> foldr (\<lambda>r m. max (rid r) m) t 0"
    by (induction t) auto
  then show ?thesis by (simp add: next_id_def)
qed

lemma row_get_Some: "row_get rid t i = Some r \<Longrightarrow> r \<in> set t \<and> rid r = i"
  by (induction t) (auto simp: row_get_def split: if_splits)

lemma row_get_None: "row_get rid t i = None \<longleftrightarrow> i \<notin> rid ` set t"
  by (induction t) (auto simp: row_get_def)

lemma row_get_unique:
  assumes "rows_ok rid t" and "r \<in> set t"
  shows "row_get rid t (rid r) = Some r"
  using assms by (induction t) (auto simp: row_get_def rows_ok_def)

lemma row_get_next_id [simp]: "row_get rid t (next_id rid t) = None"
  by (auto simp: row_get_None dest: next_id_greater [of _ _ rid])

lemma row_get_append [row_simps]:
  "row_get rid (t @ u) i = (case row_get rid t i of None \<Rightarrow> row_get rid u i | Some r \<Rightarrow> Some r)"
  by (induction t) (auto simp: row_get_def)

lemma row_get_single [row_simps]: "row_get rid [r] i = (if rid r = i then Some r else None)"
  by (simp add: row_get_def)

lemma row_get_update [row_simps]:
  assumes "\<And>r. rid (f r) = rid r"
  shows "row_get rid (row_update p f t) i =
           map_option (\<lambda>r. if p r then f r else r) (row_get rid t i)"
  using assms by (induction t) (auto simp: row_get_def row_update_def)

lemma row_get_set [row_simps]:
  "row_get rid (row_set rid r t) i =
     (if i = rid r then map_option (\<lambda>_. r) (row_get rid t i) else row_get rid t i)"
  by (induction t) (auto simp: row_get_def row_set_def row_update_def)

lemma row_update_ids: "(\<And>r. rid (f r) = rid r) \<Longrightarrow> map rid (row_update p f t) = map rid t"
  by (induction t) (auto simp: row_update_def)

lemma row_set_ids: "map rid (row_set rid r t) = map rid t"
  by (induction t) (auto simp: row_set_def row_update_def)

lemma rows_ok_update [intro]:
  "(\<And>r. rid (f r) = rid r) \<Longrightarrow> rows_ok rid t \<Longrightarrow> rows_ok rid (row_update p f t)"
  by (simp add: rows_ok_def row_update_ids)

lemma rows_ok_set [intro]: "rows_ok rid t \<Longrightarrow> rows_ok rid (row_set rid r t)"
  by (simp add: rows_ok_def row_set_ids)

lemma rows_ok_insert [intro]:
  "rows_ok rid t \<Longrightarrow> rid r = next_id rid t \<Longrightarrow> rows_ok rid (t @ [r])"
  using next_id_greater [of _ t rid] by (fastforce simp: rows_ok_def)

lemma rows_ok_map: "(\<And>r. rid (f r) = rid r) \<Longrightarrow> rows_ok rid (map f t) = rows_ok rid t"
  by (simp add: rows_ok_def comp_def)

lemma set_row_set: "set (row_set rid r t) \<subseteq> insert r (set t)"
  by (auto simp: row_set_def row_update_def)

lemma rows_ok_id_eq:
  "rows_ok rid t \<Longrightarrow> q \<in> set t \<Longrightarrow> r \<in> set t \<Longrightarrow> rid q = rid r \<Longrightarrow> q = r"
  by (auto simp: rows_ok_def distinct_map dest: inj_onD)

lemma rows_ok_Nil [simp]: "rows_ok rid []"
  by (simp add: rows_ok_def)

lemma last_where_Some: "last_where rid p t = Some r \<Longrightarrow> r \<in> set t \<and> p r"
proof -
  assume a: "last_where rid p t = Some r"
  then obtain q qs where s: "sort_key rid (filter p t) = q # qs" and r: "r = last (q # qs)"
    by (auto simp: last_where_def split: list.splits)
  have "r \<in> set (sort_key rid (filter p t))"
    unfolding s r by (rule last_in_set) simp
  then show ?thesis by simp
qed

lemma last_where_None: "last_where rid p t = None \<longleftrightarrow> (\<forall>r \<in> set t. \<not> p r)"
proof -
  have "last_where rid p t = None \<longleftrightarrow> sort_key rid (filter p t) = []"
    by (simp add: last_where_def split: list.splits)
  also have "\<dots> \<longleftrightarrow> set (sort_key rid (filter p t)) = {}" by (simp only: set_empty)
  also have "\<dots> \<longleftrightarrow> (\<forall>r \<in> set t. \<not> p r)" by auto
  finally show ?thesis .
qed

lemma first_where_Some: "first_where rid p t = Some r \<Longrightarrow> r \<in> set t \<and> p r"
proof -
  assume a: "first_where rid p t = Some r"
  then obtain qs where s: "sort_key rid (filter p t) = r # qs"
    by (auto simp: first_where_def split: list.splits)
  then have "r \<in> set (sort_key rid (filter p t))" by simp
  then show ?thesis by simp
qed

lemma first_where_None: "first_where rid p t = None \<longleftrightarrow> (\<forall>r \<in> set t. \<not> p r)"
proof -
  have "first_where rid p t = None \<longleftrightarrow> sort_key rid (filter p t) = []"
    by (simp add: first_where_def split: list.splits)
  also have "\<dots> \<longleftrightarrow> set (sort_key rid (filter p t)) = {}" by (simp only: set_empty)
  also have "\<dots> \<longleftrightarrow> (\<forall>r \<in> set t. \<not> p r)" by auto
  finally show ?thesis .
qed

lemma first_where_least:
  assumes "first_where rid p t = Some r" and "q \<in> set t" and "p q"
  shows "rid r \<le> rid q"
proof -
  obtain qs where s: "sort_key rid (filter p t) = r # qs"
    using assms(1) by (auto simp: first_where_def split: list.splits)
  have "sorted (map rid (r # qs))" using sorted_sort_key [of rid "filter p t"] by (simp only: s)
  moreover have "q \<in> set (r # qs)"
    using assms(2,3) by (simp flip: s)
  ultimately show ?thesis by auto
qed

lemma last_where_unique:
  assumes "r \<in> set t" and "p r" and "\<And>q. q \<in> set t \<Longrightarrow> p q \<Longrightarrow> q = r"
  shows "last_where rid p t = Some r"
proof (cases "last_where rid p t")
  case None
  with assms(1,2) show ?thesis by (simp add: last_where_None)
next
  case (Some q)
  with assms(3) [of q] last_where_Some [OF Some] show ?thesis by simp
qed

lemma first_where_unique:
  assumes "r \<in> set t" and "p r" and "\<And>q. q \<in> set t \<Longrightarrow> p q \<Longrightarrow> q = r"
  shows "first_where rid p t = Some r"
proof (cases "first_where rid p t")
  case None
  with assms(1,2) show ?thesis by (simp add: first_where_None)
next
  case (Some q)
  with assms(3) [of q] first_where_Some [OF Some] show ?thesis by simp
qed

lemma last_where_greatest:
  assumes "last_where rid p t = Some r" and "q \<in> set t" and "p q"
  shows "rid q \<le> rid r"
proof -
  define l where "l = sort_key rid (filter p t)"
  have q: "q \<in> set l" using assms(2,3) by (simp add: l_def)
  then have ne: "l \<noteq> []" by auto
  with assms(1) have r: "r = last l"
    by (auto simp: last_where_def l_def split: list.splits)
  have "sorted (map rid l)" by (simp add: l_def)
  moreover obtain i where i: "i < length l" "l ! i = q"
    using q by (auto simp: in_set_conv_nth)
  ultimately have "map rid l ! i \<le> map rid l ! (length l - 1)"
    by (intro sorted_nth_mono) simp_all
  with i ne r show ?thesis by (simp add: last_conv_nth)
qed

lemma distinct_map_eq:
  "distinct (map f t) \<Longrightarrow> x \<in> set t \<Longrightarrow> y \<in> set t \<Longrightarrow> f x = f y \<Longrightarrow> x = y"
  by (auto simp: distinct_map dest: inj_onD)

lemma filter_unique:
  "distinct (map f t) \<Longrightarrow> r \<in> set t \<Longrightarrow> filter (\<lambda>q. f q = f r) t = [r]"
proof (induction t)
  case Nil
  then show ?case by simp
next
  case (Cons q t)
  have "f q \<notin> f ` set t" using Cons.prems(1) by simp
  then have "filter (\<lambda>x. f x = f q) t = []"
    by (auto simp: filter_empty_conv) (metis image_eqI)
  with Cons show ?case by auto
qed

lemma row_set_map:
  assumes "rows_ok rid t" and "q \<in> set t" and "rid r = rid q" and "f r = f q"
  shows "map f (row_set rid r t) = map f t"
proof -
  have "f (if rid x = rid r then r else x) = f x" if "x \<in> set t" for x
    using rows_ok_id_eq [OF assms(1) that assms(2)] assms(3,4) by auto
  then show ?thesis by (simp add: row_set_def row_update_def)
qed

lemma row_set_fresh:
  assumes "rid e = next_id rid t" and "rid e' = rid e"
  shows "row_set rid e' (t @ [e]) = t @ [e']"
proof -
  have "rid x \<noteq> rid e'" if "x \<in> set t" for x
    using next_id_greater [OF that, of rid] assms by simp
  then have "row_set rid e' t = t"
    unfolding row_set_def row_update_def by (intro map_idI) simp
  then show ?thesis using assms(2) by (simp add: row_set_def row_update_def)
qed

text \<open>A row replaced by one with the same key: who is in the table afterwards.\<close>

lemma in_row_set:
  assumes "rows_ok rid t" and "e \<in> set t" and "rid e' = rid e"
  shows "x \<in> set (row_set rid e' t) \<longleftrightarrow> x = e' \<or> (x \<in> set t \<and> x \<noteq> e)"
  using assms rows_ok_id_eq [OF assms(1)]
  by (auto simp: row_set_def row_update_def image_iff)

lemma row_set_same_ids: "rid ` set (row_set rid e t) = rid ` set t"
  using row_set_ids [of rid e t] by (metis set_map)

lemma row_count_key:
  assumes "rows_ok rid t" and "g \<in> set t"
  shows "row_count (\<lambda>x. rid x = rid g \<and> p x) t = (if p g then 1 else 0)"
proof -
  have "filter (\<lambda>x. rid x = rid g) t = [g]"
    using filter_unique [of rid t g] assms by (simp add: rows_ok_def)
  then have "filter p (filter (\<lambda>x. rid x = rid g) t) = filter p [g]" by simp
  then have "filter (\<lambda>x. rid x = rid g \<and> p x) t = (if p g then [g] else [])"
    by (simp add: conj_commute split: if_splits)
  then show ?thesis by (simp add: row_count_def)
qed

text \<open>An update restricted to one key is the replacement of that row.\<close>

lemma row_update_key:
  assumes "rows_ok rid t" and "g \<in> set t" and "p g" and "rid (f g) = rid g"
  shows "row_update (\<lambda>x. rid x = rid g \<and> p x) f t = row_set rid (f g) t"
  unfolding row_set_def row_update_def
proof (rule map_cong [OF refl])
  fix x
  assume "x \<in> set t"
  then show "(if rid x = rid g \<and> p x then f x else x) = (if rid x = rid (f g) then f g else x)"
    using rows_ok_id_eq [OF assms(1) _ assms(2), of x] assms(3,4) by auto
qed

end
