(* ===== verification/PyText.thy ===== *)
theory PyText
  imports Prelude "HOL-Library.Char_ord" "HOL-Library.List_Lexorder" "HOL-Library.Product_Lexorder"
begin

text \<open>
  The text operations of Python that the program uses, on \<open>string\<close> (a list of characters
  with code points below 256, i.e. Latin-1 text), and the order Python gives strings and
  tuples: lexicographic, by code point (\<open>Char_ord\<close>, \<open>List_Lexorder\<close>,
  \<open>Product_Lexorder\<close>).  Text outside Latin-1 is not represented.
\<close>

section \<open>Characters\<close>

definition code :: "char \<Rightarrow> nat" where
  "code c = of_char c"

definition is_space :: "char \<Rightarrow> bool" where
  "is_space c \<longleftrightarrow> (let n = code c in (9 \<le> n \<and> n \<le> 13) \<or> (28 \<le> n \<and> n \<le> 32) \<or> n = 133 \<or> n = 160)"

definition is_digit :: "char \<Rightarrow> bool" where
  "is_digit c \<longleftrightarrow> 48 \<le> code c \<and> code c \<le> 57"

definition is_upper :: "char \<Rightarrow> bool" where
  "is_upper c \<longleftrightarrow> (let n = code c in (65 \<le> n \<and> n \<le> 90) \<or> (192 \<le> n \<and> n \<le> 222 \<and> n \<noteq> 215))"

definition lower_char :: "char \<Rightarrow> char" where
  "lower_char c = (if is_upper c then char_of (code c + 32) else c)"

definition is_lower_ascii :: "char \<Rightarrow> bool" where
  "is_lower_ascii c \<longleftrightarrow> 97 \<le> code c \<and> code c \<le> 122"

definition is_alpha_ascii :: "char \<Rightarrow> bool" where
  "is_alpha_ascii c \<longleftrightarrow> is_lower_ascii c \<or> (65 \<le> code c \<and> code c \<le> 90)"

definition digit_value :: "char \<Rightarrow> nat" where
  "digit_value c = code c - 48"

definition digit_char :: "nat \<Rightarrow> char" where
  "digit_char d = char_of (48 + d)"

section \<open>Strings\<close>

definition lstrip :: "string \<Rightarrow> string" where
  "lstrip s = dropWhile is_space s"

definition rstrip :: "string \<Rightarrow> string" where
  "rstrip s = rev (dropWhile is_space (rev s))"

definition strip :: "string \<Rightarrow> string" where
  "strip s = rstrip (lstrip s)"

definition lower :: "string \<Rightarrow> string" where
  "lower s = map lower_char s"

definition starts_with :: "string \<Rightarrow> string \<Rightarrow> bool" where
  "starts_with p s \<longleftrightarrow> take (length p) s = p"

definition remove_prefix :: "string \<Rightarrow> string \<Rightarrow> string" where
  "remove_prefix p s = (if starts_with p s then drop (length p) s else s)"

fun contains :: "string \<Rightarrow> string \<Rightarrow> bool" where
  "contains p [] = (p = [])"
| "contains p (c # s) = (starts_with p (c # s) \<or> contains p s)"

definition replace_char :: "char \<Rightarrow> char \<Rightarrow> string \<Rightarrow> string" where
  "replace_char a b s = map (\<lambda>c. if c = a then b else c) s"

text \<open>\<open>s.split(sep)\<close> for a one-character separator: empty pieces are kept.\<close>

fun split_on :: "char \<Rightarrow> string \<Rightarrow> string list" where
  "split_on d [] = [[]]"
| "split_on d (c # s) =
     (if c = d then [] # split_on d s
      else (case split_on d s of [] \<Rightarrow> [[c]] | w # ws \<Rightarrow> (c # w) # ws))"

text \<open>\<open>s.split()\<close>: the maximal runs of characters that are not white space.\<close>

fun words :: "string \<Rightarrow> string list" where
  "words [] = []"
| "words (c # s) =
     (if is_space c then words s
      else (case s of
              [] \<Rightarrow> [[c]]
            | d # t \<Rightarrow>
                if is_space d then [c] # words s
                else (case words s of [] \<Rightarrow> [[c]] | w # ws \<Rightarrow> (c # w) # ws)))"

fun join :: "string \<Rightarrow> string list \<Rightarrow> string" where
  "join sep [] = []"
| "join sep [w] = w"
| "join sep (w # ws) = w @ sep @ join sep ws"

text \<open>\<open>s.partition(d)\<close>: the text before the separator, whether it was found, the rest.\<close>

definition partition_on :: "char \<Rightarrow> string \<Rightarrow> string \<times> bool \<times> string" where
  "partition_on d s =
     (let a = takeWhile (\<lambda>c. c \<noteq> d) s; b = dropWhile (\<lambda>c. c \<noteq> d) s
      in (a, b \<noteq> [], tl b))"

text \<open>\<open>a or b\<close> on strings: the empty string is false.\<close>

definition str_or :: "string \<Rightarrow> string \<Rightarrow> string" where
  "str_or a b = (if a = [] then b else a)"

section \<open>Numbers in text\<close>

function digits_of :: "nat \<Rightarrow> string" where
  "digits_of n = (if n < 10 then [digit_char n] else digits_of (n div 10) @ [digit_char (n mod 10)])"
  by pat_completeness auto
termination
  by (relation "measure id") auto

declare digits_of.simps [simp del]

definition str_of_int :: "int \<Rightarrow> string" where
  "str_of_int i = (if i < 0 then CHR ''-'' # digits_of (nat (- i)) else digits_of (nat i))"

definition nat_of_digits :: "string \<Rightarrow> nat" where
  "nat_of_digits s = foldl (\<lambda>n c. 10 * n + digit_value c) 0 s"

text \<open>
  \<open>int(s)\<close> of a text: surrounding white space, an optional sign, decimal digits with
  single underscores between digits; anything else raises ValueError (\<open>None\<close>).
\<close>

fun underscores_ok :: "string \<Rightarrow> bool" where
  "underscores_ok [] = False"
| "underscores_ok [c] = is_digit c"
| "underscores_ok (c # d # s) =
     (is_digit c \<and> (if d = CHR ''_'' then underscores_ok s else underscores_ok (d # s)))"

definition int_of_text :: "string \<Rightarrow> int option" where
  "int_of_text s =
     (let t = strip s;
          neg = (t \<noteq> [] \<and> hd t = CHR ''-'');
          body = (if t \<noteq> [] \<and> (hd t = CHR ''-'' \<or> hd t = CHR ''+'') then tl t else t)
      in if underscores_ok body
         then (let n = int (nat_of_digits (filter (\<lambda>c. c \<noteq> CHR ''_'') body))
               in Some (if neg then - n else n))
         else None)"

text \<open>
  \<open>repr\<close> of a text: single quotes unless it holds one and no double quote; backslashes, the
  quote, control characters and the other non-printable Latin-1 characters are escaped.
\<close>

definition hex_char :: "nat \<Rightarrow> char" where
  "hex_char d = (if d < 10 then digit_char d else char_of (87 + d))"

definition repr_char :: "nat \<Rightarrow> char \<Rightarrow> string" where
  "repr_char q c =
     (let n = code c in
      if n = q \<or> n = 92 then [CHR 0x5C, c]
      else if n = 10 then [CHR 0x5C, CHR ''n'']
      else if n = 13 then [CHR 0x5C, CHR ''r'']
      else if n = 9 then [CHR 0x5C, CHR ''t'']
      else if n < 32 \<or> (127 \<le> n \<and> n \<le> 160) \<or> n = 173
        then [CHR 0x5C, CHR ''x'', hex_char (n div 16), hex_char (n mod 16)]
      else [c])"

definition py_repr :: "string \<Rightarrow> string" where
  "py_repr s =
     (let q = (if list_ex (\<lambda>c. code c = 39) s \<and> \<not> list_ex (\<lambda>c. code c = 34) s then 34 else 39 :: nat)
      in [char_of q] @ concat (map (repr_char q) s) @ [char_of q])"

definition ends_with :: "string \<Rightarrow> string \<Rightarrow> bool" where
  "ends_with suffix s \<longleftrightarrow> starts_with (rev suffix) (rev s)"

section \<open>Facts\<close>

lemma lower_length [simp]: "length (lower s) = length s"
  by (simp add: lower_def)

lemma split_on_not_Nil [simp]: "split_on d s \<noteq> []"
  by (cases s) (auto split: list.splits)

lemma join_split_on: "join [d] (split_on d s) = s"
proof (induction s)
  case Nil
  then show ?case by simp
next
  case (Cons c s)
  obtain w ws where w: "split_on d s = w # ws"
    by (cases "split_on d s") simp_all
  with Cons.IH have "join [d] (w # ws) = s" by simp
  with w show ?case by (cases ws) auto
qed

lemma digit_char_props:
  assumes "d < 10"
  shows "is_digit (digit_char d) \<and> digit_value (digit_char d) = d"
  using assms by (simp add: is_digit_def digit_value_def digit_char_def code_def)

lemma nat_of_digits_append:
  "nat_of_digits (s @ [c]) = 10 * nat_of_digits s + digit_value c"
  by (simp add: nat_of_digits_def)

lemma digits_of_inverse: "nat_of_digits (digits_of n) = n"
proof (induction n rule: digits_of.induct)
  case (1 n)
  show ?case
  proof (cases "n < 10")
    case True
    then show ?thesis
      by (subst digits_of.simps) (simp add: nat_of_digits_def digit_char_props)
  next
    case False
    then have "digits_of n = digits_of (n div 10) @ [digit_char (n mod 10)]"
      by (subst digits_of.simps) simp
    with False "1.IH" show ?thesis
      by (simp add: nat_of_digits_append digit_char_props)
  qed
qed

lemma digits_of_digits: "\<forall>c \<in> set (digits_of n). is_digit c"
proof (induction n rule: digits_of.induct)
  case (1 n)
  show ?case
    by (subst digits_of.simps) (use "1.IH" in \<open>auto simp: digit_char_props\<close>)
qed

lemma digits_of_not_Nil [simp]: "digits_of n \<noteq> []"
  by (subst digits_of.simps) simp

lemma digits_of_inj: "digits_of m = digits_of n \<longleftrightarrow> m = n"
  by (metis digits_of_inverse)

lemma minus_not_digit: "is_digit c \<Longrightarrow> c \<noteq> CHR ''-''"
  by (auto simp: is_digit_def code_def)

lemma digits_of_no_minus: "digits_of n \<noteq> CHR ''-'' # s"
  using digits_of_digits [of n] minus_not_digit by fastforce

lemma str_of_int_inj: "str_of_int i = str_of_int j \<longleftrightarrow> i = j"
proof -
  have "i = j" if "str_of_int i = str_of_int j"
    using that digits_of_no_minus digits_of_no_minus [symmetric]
    by (auto simp: str_of_int_def digits_of_inj split: if_splits)
  then show ?thesis by auto
qed

text \<open>Two labels with the same prefix are equal only for the same number.\<close>

lemma label_inj: "p @ str_of_int i = p @ str_of_int j \<longleftrightarrow> i = j"
  by (simp add: str_of_int_inj)

lemma rstrip_Cons: "\<not> is_space c \<Longrightarrow> rstrip (c # t) = c # rstrip t"
  by (cases "\<forall>x \<in> set t. is_space x") (auto simp: rstrip_def dropWhile_append)

lemma rstrip_rstrip: "rstrip (rstrip t) = rstrip t"
  by (simp add: rstrip_def)

lemma strip_strip [simp]: "strip (strip s) = strip s"
proof (cases "lstrip s")
  case Nil
  then have "strip s = []" by (simp add: strip_def rstrip_def)
  moreover have "strip [] = []" by (simp add: strip_def rstrip_def lstrip_def)
  ultimately show ?thesis by (simp only:)
next
  case (Cons c t)
  then have c: "\<not> is_space c" by (simp add: lstrip_def dropWhile_eq_Cons_conv)
  then have "lstrip (rstrip (c # t)) = rstrip (c # t)"
    by (simp add: rstrip_Cons lstrip_def)
  then show ?thesis by (simp add: strip_def Cons rstrip_rstrip)
qed

end
