(* ===== verification/PyJson.thy ===== *)
theory PyJson
  imports PyText
begin

text \<open>
  JSON values as Python's \<open>json\<close> module decodes them, and text columns that hold JSON.
  \<open>JFloat m k\<close> is the number \<open>m / 10 ^ k\<close> written with a decimal point or an exponent,
  which Python decodes to a \<open>float\<close>.  An object is the list of its members in order, each
  key once.
\<close>

datatype json =
    JNull
  | JBool bool
  | JInt int
  | JFloat int nat
  | JStr string
  | JList "json list"
  | JObj "(string \<times> json) list"

text \<open>
  A text column written by \<open>json.dumps\<close>: either a text that \<open>json.loads\<close> decodes to a
  value, or any other text, on which \<open>json.loads\<close> raises \<open>JSONDecodeError\<close>.  The empty
  text is one of those.
\<close>

datatype json_text = JText json | NotJson string

definition json_dumps :: "json \<Rightarrow> json_text" where
  "json_dumps j = JText j"

definition json_loads :: "json_text \<Rightarrow> json option" where
  "json_loads t = (case t of JText j \<Rightarrow> Some j | NotJson _ \<Rightarrow> None)"

text \<open>\<open>json.loads(text or "{}")\<close>: the empty text is read as the empty object.\<close>

definition loads_or_empty :: "json_text \<Rightarrow> json option" where
  "loads_or_empty t = (if t = NotJson [] then Some (JObj []) else json_loads t)"

definition is_obj :: "json \<Rightarrow> bool" where
  "is_obj j = (case j of JObj _ \<Rightarrow> True | _ \<Rightarrow> False)"

text \<open>The decoded object of a column, \<open>{}\<close> for a text that is not JSON or not an object.\<close>

definition object_or_empty :: "json_text \<Rightarrow> (string \<times> json) list" where
  "object_or_empty t =
     (case loads_or_empty t of Some (JObj m) \<Rightarrow> m | _ \<Rightarrow> [])"

definition jget :: "(string \<times> json) list \<Rightarrow> string \<Rightarrow> json" where
  "jget m k = (case map_of m k of None \<Rightarrow> JNull | Some v \<Rightarrow> v)"

fun truthy :: "json \<Rightarrow> bool" where
  "truthy JNull = False"
| "truthy (JBool b) = b"
| "truthy (JInt i) = (i \<noteq> 0)"
| "truthy (JFloat m k) = (m \<noteq> 0)"
| "truthy (JStr s) = (s \<noteq> [])"
| "truthy (JList xs) = (xs \<noteq> [])"
| "truthy (JObj m) = (m \<noteq> [])"

definition json_or :: "json \<Rightarrow> json \<Rightarrow> json" where
  "json_or a b = (if truthy a then a else b)"

text \<open>\<open>isinstance(x, int)\<close>, which holds of the two booleans as well, with the integer it is.\<close>

fun int_instance :: "json \<Rightarrow> int option" where
  "int_instance (JInt i) = Some i"
| "int_instance (JBool b) = Some (if b then 1 else 0)"
| "int_instance _ = None"

text \<open>\<open>int(x)\<close>; \<open>None\<close> where it raises TypeError or ValueError.\<close>

fun int_of_json :: "json \<Rightarrow> int option" where
  "int_of_json (JInt i) = Some i"
| "int_of_json (JBool b) = Some (if b then 1 else 0)"
| "int_of_json (JFloat m k) = Some (sgn m * (\<bar>m\<bar> div 10 ^ k))"
| "int_of_json (JStr s) = int_of_text s"
| "int_of_json _ = None"

definition jstr :: "json \<Rightarrow> string option" where
  "jstr j = (case j of JStr s \<Rightarrow> Some s | _ \<Rightarrow> None)"

definition jopt :: "('a \<Rightarrow> json) \<Rightarrow> 'a option \<Rightarrow> json" where
  "jopt f x = (case x of None \<Rightarrow> JNull | Some v \<Rightarrow> f v)"

section \<open>Printing, for the texts that are put into a log\<close>

definition hex_digit :: "nat \<Rightarrow> char" where
  "hex_digit d = (if d < 10 then digit_char d else char_of (87 + d))"

definition escape_char :: "char \<Rightarrow> string" where
  "escape_char c =
     (let n = code c in
      if n = 34 then [CHR 0x5C, CHR 0x22]
      else if n = 92 then [CHR 0x5C, CHR 0x5C]
      else if n = 10 then [CHR 0x5C, CHR ''n'']
      else if n = 13 then [CHR 0x5C, CHR ''r'']
      else if n = 9 then [CHR 0x5C, CHR ''t'']
      else if n = 12 then [CHR 0x5C, CHR ''f'']
      else if n = 8 then [CHR 0x5C, CHR ''b'']
      else if n < 32 then CHR 0x5C # ''u00'' @ [hex_digit (n div 16), hex_digit (n mod 16)]
      else [c])"

definition quote :: "string \<Rightarrow> string" where
  "quote s = CHR 0x22 # concat (map escape_char s) @ [CHR 0x22]"

definition pad_left :: "nat \<Rightarrow> string \<Rightarrow> string" where
  "pad_left n s = replicate (n - length s) (CHR ''0'') @ s"

definition print_float :: "int \<Rightarrow> nat \<Rightarrow> string" where
  "print_float m k =
     (let a = nat \<bar>m\<bar>; i = digits_of (a div 10 ^ k); f = pad_left k (digits_of (a mod 10 ^ k))
      in (if m < 0 then ''-'' else []) @ i @ ''.'' @ f)"

text \<open>\<open>json.dumps(j, ensure_ascii=False, sort_keys=True)\<close> as a text.\<close>

fun print_json :: "json \<Rightarrow> string" where
  "print_json JNull = ''null''"
| "print_json (JBool b) = (if b then ''true'' else ''false'')"
| "print_json (JInt i) = str_of_int i"
| "print_json (JFloat m k) = print_float m k"
| "print_json (JStr s) = quote s"
| "print_json (JList xs) = ''['' @ join '', '' (map print_json xs) @ '']''"
| "print_json (JObj m) =
     ''{'' @ join '', '' (map snd (sort_key fst
        (map (\<lambda>p. (fst p, quote (fst p) @ '': '' @ print_json (snd p))) m))) @ ''}''"

text \<open>\<open>str(x)\<close> of a decoded value; a \<open>float\<close> is printed without an exponent.\<close>

fun py_repr_json :: "json \<Rightarrow> string" where
  "py_repr_json JNull = ''None''"
| "py_repr_json (JBool b) = (if b then ''True'' else ''False'')"
| "py_repr_json (JInt i) = str_of_int i"
| "py_repr_json (JFloat m k) = print_float m k"
| "py_repr_json (JStr s) = py_repr s"
| "py_repr_json (JList xs) = ''['' @ join '', '' (map py_repr_json xs) @ '']''"
| "py_repr_json (JObj m) =
     ''{'' @ join '', '' (map (\<lambda>p. py_repr (fst p) @ '': '' @ py_repr_json (snd p)) m) @ ''}''"

definition py_str :: "json \<Rightarrow> string" where
  "py_str j = (case j of JStr s \<Rightarrow> s | _ \<Rightarrow> py_repr_json j)"

lemma json_loads_dumps [simp]: "json_loads (json_dumps j) = Some j"
  by (simp add: json_loads_def json_dumps_def)

lemma loads_or_empty_dumps [simp]: "loads_or_empty (json_dumps j) = Some j"
  by (simp add: loads_or_empty_def json_dumps_def json_loads_def)

lemma object_or_empty_dumps [simp]: "object_or_empty (json_dumps (JObj m)) = m"
  by (simp add: object_or_empty_def)

lemma jget_Cons [simp]: "jget ((k, v) # m) x = (if x = k then v else jget m x)"
  by (simp add: jget_def)

lemma jget_Nil [simp]: "jget [] x = JNull"
  by (simp add: jget_def)

end
