(* ===== verification/PyTime.thy ===== *)
theory PyTime
  imports PyText
begin

text \<open>
  Timestamps.  A UTC \<open>datetime\<close> is the number of microseconds since 1970-01-01T00:00:00Z;
  \<open>iso_format\<close> is the helper of \<open>server/modules/shared/formatting.py\<close>.
\<close>

type_synonym time = int

definition seconds :: "int \<Rightarrow> time" where
  "seconds n = 1000000 * n"

definition minutes :: "int \<Rightarrow> time" where
  "minutes n = seconds (60 * n)"

definition hours :: "int \<Rightarrow> time" where
  "hours n = minutes (60 * n)"

definition days :: "int \<Rightarrow> time" where
  "days n = hours (24 * n)"

text \<open>The proleptic Gregorian date of a day number, by 400-year eras that start on 1 March.\<close>

definition civil_of_days :: "int \<Rightarrow> int \<times> int \<times> int" where
  "civil_of_days n =
     (let z = n + 719468;
          era = z div 146097;
          doe = z mod 146097;
          yoe = (doe - doe div 1460 + doe div 36524 - doe div 146096) div 365;
          doy = doe - (365 * yoe + yoe div 4 - yoe div 100);
          mp = (5 * doy + 2) div 153;
          d = doy - (153 * mp + 2) div 5 + 1;
          m = (if mp < 10 then mp + 3 else mp - 9);
          y = yoe + era * 400 + (if m \<le> 2 then 1 else 0)
      in (y, m, d))"

definition padded :: "nat \<Rightarrow> int \<Rightarrow> string" where
  "padded w n = (let s = str_of_int n in replicate (w - length s) (CHR ''0'') @ s)"

definition isoformat_z :: "time \<Rightarrow> string" where
  "isoformat_z t =
     (let (y, m, d) = civil_of_days (t div 86400000000);
          r = t mod 86400000000;
          s = r div 1000000;
          u = r mod 1000000
      in padded 4 y @ ''-'' @ padded 2 m @ ''-'' @ padded 2 d @ ''T'' @
         padded 2 (s div 3600) @ '':'' @ padded 2 (s div 60 mod 60) @ '':'' @ padded 2 (s mod 60) @
         (if u = 0 then [] else ''.'' @ padded 6 u) @ ''Z'')"

definition iso_format :: "time option \<Rightarrow> string option" where
  "iso_format v = map_option isoformat_z v"

lemma time_units [simp]:
  "minutes n = seconds (60 * n)"
  "hours n = seconds (3600 * n)"
  "days n = seconds (86400 * n)"
  by (simp_all add: minutes_def hours_def days_def)

lemma seconds_mono [simp]: "seconds m \<le> seconds n \<longleftrightarrow> m \<le> n"
  by (simp add: seconds_def)

lemma seconds_less [simp]: "seconds m < seconds n \<longleftrightarrow> m < n"
  by (simp add: seconds_def)

end
