(* ===== verification/ServerDb.thy ===== *)
theory ServerDb
  imports PyJson PyTime
begin

text \<open>
  The database of the hosted control plane: one record per ORM model of
  \<open>server/modules/*/models.py\<close>, one list of rows per table, the exceptions the services
  raise, the transaction boundary of \<open>server/db.py\<close>, and the audit log.  A column whose
  every write in the program is one of a fixed set of literals is a \<open>datatype\<close>; times are
  microseconds since the epoch.
\<close>

type_synonym id = int

section \<open>Exceptions\<close>

text \<open>
  Each service module subclasses the base exceptions of \<open>server/exceptions_base.py\<close>; a
  router or a calling service only looks at which base class was raised and at its message.
\<close>

datatype svc_error =
    NotFound string
  | Forbidden string
  | Conflict string
  | Expired string
  | IntegrityError string
  | ValueError string
  | QuotaExceeded string
  | RepoOpError string
  | RuntimeError string
  | ContentInvalid string
  | OSError string
  | AttributeError string

section \<open>Identity tables\<close>

record user =
  usr_id :: id
  usr_username :: string
  usr_display_name :: string
  usr_role :: string
  usr_password_hash :: "string option"

datatype principal_kind = UserPrincipal | ServiceKind | TeamPrincipal

record principal =
  prn_id :: id
  prn_kind :: principal_kind
  prn_slug :: string
  prn_display_name :: string
  prn_updated_at :: time

record team =
  tm_id :: id
  tm_principal_id :: id
  tm_slug :: string

record membership =
  mem_id :: id
  mem_user_id :: id
  mem_team_id :: id
  mem_role :: string

datatype agent_state = AgentActive | AgentSuspended | AgentRevoked

record service_principal =
  svc_id :: id
  svc_principal_id :: id
  svc_slug :: string
  svc_description :: string
  svc_enrollment_id :: "id option"
  svc_state :: agent_state
  svc_policy_json :: json_text
  svc_approved_at :: "time option"
  svc_suspended_at :: "time option"
  svc_revoked_at :: "time option"

datatype reservation_state = Reserved | Claimed | Released

record reservation =
  rsv_id :: id
  rsv_slug :: string
  rsv_display_name :: string
  rsv_state :: reservation_state
  rsv_created_by :: id
  rsv_claimed_service_id :: "id option"
  rsv_released_by :: "id option"
  rsv_released_at :: "time option"

datatype invitation_state = InvOpen | InvConsumed | InvRevoked | InvExpired
datatype invitation_purpose = Enroll | Recover

record invitation =
  inv_id :: id
  inv_public_id :: string
  inv_reservation_id :: id
  inv_purpose :: invitation_purpose
  inv_target_service_id :: "id option"
  inv_hash :: string
  inv_nonce_hash :: string
  inv_policy_json :: json_text
  inv_state :: invitation_state
  inv_expires_at :: time
  inv_consumed_at :: "time option"
  inv_revoked_at :: "time option"
  inv_created_by :: id

datatype enrollment_state = EnrPending | EnrApproved | EnrRejected

record enrollment =
  enr_id :: id
  enr_public_id :: string
  enr_invitation_id :: id
  enr_status_hash :: string
  enr_api_key_hash :: string
  enr_fingerprint :: string
  enr_runtime_json :: json_text
  enr_state :: enrollment_state
  enr_decision_note :: string
  enr_decision_by :: "id option"
  enr_decided_at :: "time option"

datatype credential_type =
    PersonalToken | ProductToken | GrantToken | AgentToken
  | SessionCredential | SharePassword | ShareCapability

record credential =
  crd_id :: id
  crd_principal_id :: "id option"
  crd_grant_id :: "id option"
  crd_type :: credential_type
  crd_token_name :: string
  crd_token_type :: string
  crd_object_id :: "id option"
  crd_scope_type :: string
  crd_scope_id :: "id option"
  crd_issued_for :: string
  crd_hashed_secret :: string
  crd_scopes_json :: json_text
  crd_selector_json :: json_text
  crd_expires_at :: "time option"
  crd_revoked_at :: "time option"
  crd_last_used_at :: "time option"
  crd_created_at :: time

section \<open>Authoring tables\<close>

datatype skill_status = SkillActive | SkillArchived

record skill =
  skl_id :: id
  skl_namespace_id :: id
  skl_slug :: string
  skl_display_name :: string
  skl_summary :: string
  skl_status :: skill_status
  skl_visibility :: "string option"
  skl_latest_digest :: "string option"
  skl_created_by :: "id option"

datatype content_state = CntValidated | CntConsumed | CntExpired

record skill_content =
  cnt_id :: id
  cnt_public_id :: string
  cnt_skill_id :: id
  cnt_storage_uri :: string
  cnt_sha256 :: string
  cnt_size_bytes :: int
  cnt_declared_version :: string
  cnt_metadata_json :: json_text
  cnt_state :: content_state
  cnt_created_by :: id
  cnt_created_at :: time
  cnt_consumed_at :: "time option"

record skill_version =
  ver_id :: id
  ver_skill_id :: id
  ver_content_id :: id
  ver_version :: string
  ver_content_digest :: string
  ver_metadata_digest :: string
  ver_manifest_json :: json_text
  ver_created_by :: "id option"
  ver_created_at :: time

datatype change_set_state = CsOpen | CsSubmitted | CsAccepted | CsSuperseded | CsRejected

record change_set =
  chg_id :: id
  chg_public_id :: string
  chg_skill_id :: id
  chg_base_version_id :: "id option"
  chg_content_id :: id
  chg_proposed_version :: string
  chg_state :: change_set_state
  chg_created_by :: id
  chg_actor_json :: json_text
  chg_created_at :: time
  chg_submitted_at :: "time option"
  chg_decided_at :: "time option"

record data_snapshot =
  dsp_id :: id
  dsp_public_id :: string
  dsp_skill_id :: id
  dsp_version_id :: id
  dsp_parent_id :: "id option"
  dsp_schema_version :: int
  dsp_object_uri :: string
  dsp_ciphertext_sha256 :: string
  dsp_ciphertext_size :: int
  dsp_manifest_digest :: string
  dsp_encryption :: string
  dsp_created_by :: id
  dsp_actor_json :: json_text
  dsp_created_at :: time

section \<open>Release, exposure and review tables\<close>

datatype release_state = RelPreparing | RelReady | RelFailed

record release =
  rel_id :: id
  rel_version_id :: id
  rel_skill_id :: "id option"
  rel_state :: release_state
  rel_manifest_artifact :: "id option"
  rel_bundle_artifact :: "id option"
  rel_signature_artifact :: "id option"
  rel_provenance_artifact :: "id option"
  rel_ready_at :: "time option"
  rel_compatibility_json :: json_text
  rel_created_by :: "id option"

record artifact =
  art_id :: id
  art_release_id :: "id option"
  art_kind :: string
  art_storage_uri :: string
  art_sha256 :: string
  art_size_bytes :: int

datatype intent_state = IntentPending | IntentActivated | IntentSuppressed

record publish_intent =
  int_id :: id
  int_release_id :: id
  int_principal_id :: id
  int_credential_id :: id
  int_policy_json :: json_text
  int_state :: intent_state
  int_reason :: string
  int_quota_key :: string
  int_activated_at :: "time option"

datatype audience = Private | Grant | Authenticated | Public
datatype listing_mode = Listed | DirectOnly
datatype install_mode = InstallEnabled | InstallDisabled
datatype review_mode = NoReview | Advisory | Blocking
datatype exposure_state =
    ExpDraft | ExpPendingPolicy | ExpReviewOpen | ExpActive | ExpRevoked | ExpRejected

record exposure =
  exp_id :: id
  exp_release_id :: id
  exp_audience :: audience
  exp_listing :: listing_mode
  exp_install :: install_mode
  exp_requirement :: review_mode
  exp_state :: exposure_state
  exp_requested_by :: "id option"
  exp_policy_json :: json_text
  exp_activated_at :: "time option"
  exp_ended_at :: "time option"

record review_policy =
  pol_id :: id
  pol_name :: string
  pol_version :: string
  pol_active :: bool
  pol_rules_json :: json_text

datatype case_state = CaseOpen | CaseApproved | CaseRejected | CaseClosed

record review_case =
  cas_id :: id
  cas_exposure_id :: id
  cas_policy_id :: "id option"
  cas_mode :: review_mode
  cas_state :: case_state
  cas_opened_by :: "id option"
  cas_closed_at :: "time option"

datatype decision = Approve | Reject | Comment

record review_decision =
  dec_id :: id
  dec_case_id :: id
  dec_reviewer :: "id option"
  dec_decision :: decision
  dec_note :: string
  dec_evidence_json :: json_text

section \<open>Access, job and audit tables\<close>

datatype grant_type = LinkGrant | TokenGrant
datatype grant_state = GrantActive | GrantRevoked

record access_grant =
  grt_id :: id
  grt_exposure_id :: id
  grt_type :: grant_type
  grt_subject_ref :: string
  grt_constraints_json :: json_text
  grt_state :: grant_state
  grt_expires_at :: "time option"
  grt_usage_limit :: "int option"
  grt_usage_count :: int
  grt_created_by :: "id option"
  grt_created_at :: time

record rate_entry =
  rte_id :: id
  rte_key :: string
  rte_window_start :: time
  rte_attempts :: int

datatype job_status = JobQueued | JobRunning | JobCompleted | JobFailed

record job =
  job_id :: id
  job_kind :: string
  job_status :: job_status
  job_payload :: json_text
  job_release_id :: "id option"
  job_requested_by :: "id option"
  job_note :: string
  job_log :: string
  job_started_at :: "time option"
  job_heartbeat_at :: "time option"
  job_lease_expires_at :: "time option"
  job_finished_at :: "time option"
  job_attempts :: int
  job_error :: string
  job_updated_at :: time

record audit_event =
  evt_aggregate_type :: string
  evt_aggregate_id :: string
  evt_type :: string
  evt_actor_ref :: string
  evt_owner :: "id option"
  evt_payload :: json_text

record db =
  db_users :: "user list"
  db_principals :: "principal list"
  db_teams :: "team list"
  db_memberships :: "membership list"
  db_services :: "service_principal list"
  db_reservations :: "reservation list"
  db_invitations :: "invitation list"
  db_enrollments :: "enrollment list"
  db_credentials :: "credential list"
  db_skills :: "skill list"
  db_contents :: "skill_content list"
  db_versions :: "skill_version list"
  db_change_sets :: "change_set list"
  db_snapshots :: "data_snapshot list"
  db_releases :: "release list"
  db_artifacts :: "artifact list"
  db_intents :: "publish_intent list"
  db_exposures :: "exposure list"
  db_policies :: "review_policy list"
  db_cases :: "review_case list"
  db_decisions :: "review_decision list"
  db_grants :: "access_grant list"
  db_rates :: "rate_entry list"
  db_jobs :: "job list"
  db_audit :: "audit_event list"

definition empty_db :: db where
  "empty_db = \<lparr>db_users = [], db_principals = [], db_teams = [], db_memberships = [],
     db_services = [], db_reservations = [], db_invitations = [], db_enrollments = [],
     db_credentials = [], db_skills = [], db_contents = [], db_versions = [],
     db_change_sets = [], db_snapshots = [], db_releases = [], db_artifacts = [],
     db_intents = [], db_exposures = [], db_policies = [], db_cases = [],
     db_decisions = [], db_grants = [], db_rates = [], db_jobs = [], db_audit = []\<rparr>"

section \<open>Transactions\<close>

text \<open>
  \<open>get_db\<close> and \<open>session_scope\<close>: what the body left in the session is committed when it
  returns, and rolled back when it raises.
\<close>

definition run_transaction :: "(db \<Rightarrow> 'e + 'a \<times> db) \<Rightarrow> db \<Rightarrow> ('e + 'a) \<times> db" where
  "run_transaction body d =
     (case body d of Inl e \<Rightarrow> (Inl e, d) | Inr (x, d') \<Rightarrow> (Inr x, d'))"

lemma run_transaction_rollback: "fst (run_transaction body d) = Inl e \<Longrightarrow> snd (run_transaction body d) = d"
  by (auto simp: run_transaction_def split: sum.splits prod.splits)

section \<open>Actors and the audit log\<close>

record actor =
  act_principal :: principal
  act_maintainer :: bool
  act_credential_id :: "id option"
  act_issued_for :: string
  act_request_id :: string

definition actor_ref_label :: "actor \<Rightarrow> string" where
  "actor_ref_label a =
     (let p = ''principal:'' @ prn_slug (act_principal a) in
      case act_credential_id a of
        None \<Rightarrow> p
      | Some c \<Rightarrow> p @ '';credential:'' @ str_of_int c)"

definition actor_audit_payload :: "actor option \<Rightarrow> (string \<times> json) list" where
  "actor_audit_payload a =
     (case a of
        None \<Rightarrow> []
      | Some a \<Rightarrow>
          (case act_credential_id a of None \<Rightarrow> [] | Some c \<Rightarrow> [(''credential_id'', JInt c)]) @
          (if act_issued_for a \<noteq> [] then [(''issued_for'', JStr (act_issued_for a))] else []) @
          (if act_request_id a \<noteq> [] then [(''request_id'', JStr (act_request_id a))] else []))"

text \<open>
  \<open>actor_ref=actor_ref_label(actor) if actor is not None else f"principal:{id}"\<close>, the form
  every service uses for an optional actor.
\<close>

definition actor_or_principal :: "actor option \<Rightarrow> id \<Rightarrow> string" where
  "actor_or_principal a i =
     (case a of None \<Rightarrow> ''principal:'' @ str_of_int i | Some a \<Rightarrow> actor_ref_label a)"

definition append_audit_event ::
    "string \<Rightarrow> string \<Rightarrow> string \<Rightarrow> string \<Rightarrow> id option \<Rightarrow> (string \<times> json) list \<Rightarrow> db \<Rightarrow> db" where
  "append_audit_event agg_type agg_id ev_type actor_ref owner payload d =
     d\<lparr>db_audit := db_audit d @
         [\<lparr>evt_aggregate_type = strip agg_type, evt_aggregate_id = strip agg_id,
           evt_type = strip ev_type, evt_actor_ref = strip actor_ref, evt_owner = owner,
           evt_payload = json_dumps (JObj payload)\<rparr>]\<rparr>"

text \<open>Only the audit log grows, and by one event.\<close>

lemma audit_frame [simp]:
  "db_users (append_audit_event a b c e f g d) = db_users d"
  "db_principals (append_audit_event a b c e f g d) = db_principals d"
  "db_teams (append_audit_event a b c e f g d) = db_teams d"
  "db_memberships (append_audit_event a b c e f g d) = db_memberships d"
  "db_services (append_audit_event a b c e f g d) = db_services d"
  "db_reservations (append_audit_event a b c e f g d) = db_reservations d"
  "db_invitations (append_audit_event a b c e f g d) = db_invitations d"
  "db_enrollments (append_audit_event a b c e f g d) = db_enrollments d"
  "db_credentials (append_audit_event a b c e f g d) = db_credentials d"
  "db_skills (append_audit_event a b c e f g d) = db_skills d"
  "db_contents (append_audit_event a b c e f g d) = db_contents d"
  "db_versions (append_audit_event a b c e f g d) = db_versions d"
  "db_change_sets (append_audit_event a b c e f g d) = db_change_sets d"
  "db_snapshots (append_audit_event a b c e f g d) = db_snapshots d"
  "db_releases (append_audit_event a b c e f g d) = db_releases d"
  "db_artifacts (append_audit_event a b c e f g d) = db_artifacts d"
  "db_intents (append_audit_event a b c e f g d) = db_intents d"
  "db_exposures (append_audit_event a b c e f g d) = db_exposures d"
  "db_policies (append_audit_event a b c e f g d) = db_policies d"
  "db_cases (append_audit_event a b c e f g d) = db_cases d"
  "db_decisions (append_audit_event a b c e f g d) = db_decisions d"
  "db_grants (append_audit_event a b c e f g d) = db_grants d"
  "db_rates (append_audit_event a b c e f g d) = db_rates d"
  "db_jobs (append_audit_event a b c e f g d) = db_jobs d"
  by (simp_all add: append_audit_event_def)

lemma audit_appends:
  "\<exists>ev. db_audit (append_audit_event a b c e f g d) = db_audit d @ [ev] \<and> evt_type ev = strip c
        \<and> evt_owner ev = f \<and> evt_aggregate_id ev = strip b"
  by (simp add: append_audit_event_def)

text \<open>
  The form in which the frame of an operation is stated: the database it leaves is the old
  one with some tables replaced.
\<close>

lemma audit_only: "\<exists>evs. append_audit_event a b c e f g d = d\<lparr>db_audit := evs\<rparr>"
  by (auto simp: append_audit_event_def)

lemma audit_after:
  "\<lbrakk>d' = append_audit_event a b c e f g d1; \<And>evs. d' = d1\<lparr>db_audit := evs\<rparr> \<Longrightarrow> thesis\<rbrakk> \<Longrightarrow> thesis"
  using audit_only [of a b c e f g d1] by blast

end
