(* ===== verification/Jobs.thy ===== *)
theory Jobs
  imports ServerDb
begin

text \<open>
  The job queue, \<open>server/jobs.py\<close>: enqueueing, claiming with a lease, reclaiming a stale
  lease, heartbeats, completion, failure with bounded retries.  Every operation takes the
  current time \<open>now\<close> where the source reads the clock.
\<close>

definition default_job_lease_seconds :: int where
  "default_job_lease_seconds = 1800"

definition max_job_attempts :: int where
  "max_job_attempts = 10"

definition max_retry_attempts :: int where
  "max_retry_attempts = 3"

section \<open>Operations\<close>

definition load_job_payload :: "job \<Rightarrow> (string \<times> json) list" where
  "load_job_payload j = object_or_empty (job_payload j)"

text \<open>Only an \<open>int\<close>, \<open>str\<close> or \<open>bytes\<close> is converted; a boolean is an \<open>int\<close>.\<close>

definition optional_positive_int :: "json \<Rightarrow> int option" where
  "optional_positive_int v =
     (let candidate = (case v of
            JInt i \<Rightarrow> Some i
          | JBool b \<Rightarrow> int_of_json v
          | JStr s \<Rightarrow> int_of_json v
          | _ \<Rightarrow> None)
      in case candidate of None \<Rightarrow> None | Some c \<Rightarrow> if c > 0 then Some c else None)"

definition lease_deadline :: "time \<Rightarrow> int \<Rightarrow> time" where
  "lease_deadline claimed_at lease_seconds = claimed_at + seconds (max lease_seconds 1)"

definition running_job_is_stale :: "time \<Rightarrow> job \<Rightarrow> bool" where
  "running_job_is_stale now j \<longleftrightarrow>
     job_status j = JobRunning \<and>
     (case job_lease_expires_at j of None \<Rightarrow> True | Some t \<Rightarrow> t \<le> now)"

definition active_status_clause :: "job_status \<Rightarrow> time \<Rightarrow> job \<Rightarrow> bool" where
  "active_status_clause st now j \<longleftrightarrow>
     (if st \<noteq> JobRunning then job_status j = st
      else job_status j = JobRunning \<and>
           (case job_lease_expires_at j of None \<Rightarrow> False | Some t \<Rightarrow> t > now))"

definition append_job_log :: "job \<Rightarrow> string list \<Rightarrow> job" where
  "append_job_log j lines =
     (let existing = job_log j;
          parts = (if strip existing \<noteq> [] then [rstrip existing] else []) @
                  filter (\<lambda>t. t \<noteq> []) (map rstrip lines)
      in j\<lparr>job_log := strip (join [CHR 0x0A] parts) @ (if parts \<noteq> [] then [CHR 0x0A] else [])\<rparr>)"

definition id_or :: "id option \<Rightarrow> id option \<Rightarrow> id option" where
  "id_or a b = (case a of Some i \<Rightarrow> if i \<noteq> 0 then Some i else b | None \<Rightarrow> b)"

definition enqueue_job ::
    "string \<Rightarrow> (string \<times> json) list option \<Rightarrow> id option \<Rightarrow> id option \<Rightarrow> string \<Rightarrow> time \<Rightarrow> db \<Rightarrow> job \<times> db" where
  "enqueue_job kind payload requested_by release_id note now d =
     (let normalized = (case payload of None \<Rightarrow> [] | Some p \<Rightarrow> p);
          j0 = \<lparr>job_id = next_id job_id (db_jobs d), job_kind = kind, job_status = JobQueued,
                job_payload = json_dumps (JObj normalized),
                job_release_id = id_or release_id (optional_positive_int (jget normalized ''release_id'')),
                job_requested_by = requested_by, job_note = note, job_log = [],
                job_started_at = None, job_heartbeat_at = None, job_lease_expires_at = None,
                job_finished_at = None, job_attempts = 0, job_error = [], job_updated_at = now\<rparr>;
          j = append_job_log j0
                [''queued job '' @ kind, ''payload='' @ print_json (JObj normalized)]
      in (j, d\<lparr>db_jobs := db_jobs d @ [j]\<rparr>))"

definition has_active_job ::
    "string \<Rightarrow> id option \<Rightarrow> job_status list \<Rightarrow> time \<Rightarrow> db \<Rightarrow> bool" where
  "has_active_job kind release_id statuses now d =
     list_ex (\<lambda>j. job_kind j = kind \<and>
                  (statuses = [] \<or> list_ex (\<lambda>st. active_status_clause st now j) statuses) \<and>
                  (case release_id of None \<Rightarrow> True | Some r \<Rightarrow> job_release_id j = Some r))
             (db_jobs d)"

text \<open>
  \<open>update(Job).where(Job.id == subquery).where(guard).values(...).returning(Job.id)\<close>: the
  least row of the subquery is claimed when the guard still holds of it.
\<close>

definition claim_row :: "time \<Rightarrow> int \<Rightarrow> job \<Rightarrow> job" where
  "claim_row now lease_seconds j =
     j\<lparr>job_status := JobRunning, job_started_at := Some now, job_heartbeat_at := Some now,
       job_lease_expires_at := Some (lease_deadline now lease_seconds),
       job_attempts := job_attempts j + 1, job_updated_at := now\<rparr>"

definition claim_update ::
    "(job \<Rightarrow> bool) \<Rightarrow> (job \<Rightarrow> bool) \<Rightarrow> time \<Rightarrow> int \<Rightarrow> db \<Rightarrow> id option \<times> db" where
  "claim_update subquery guard now lease_seconds d =
     (case first_where job_id subquery (db_jobs d) of
        None \<Rightarrow> (None, d)
      | Some j \<Rightarrow>
          (let p = (\<lambda>r. job_id r = job_id j \<and> guard r) in
           if row_count p (db_jobs d) = 0 then (None, d)
           else (Some (job_id j),
                 d\<lparr>db_jobs := row_update p (claim_row now lease_seconds) (db_jobs d)\<rparr>)))"

definition claim_next_job :: "int \<Rightarrow> time \<Rightarrow> db \<Rightarrow> svc_error + job option \<times> db" where
  "claim_next_job lease_seconds now d =
     (let (queued_id, d1) = claim_update (\<lambda>j. job_status j = JobQueued)
             (\<lambda>j. job_status j = JobQueued) now lease_seconds d;
          (claimed_id, reclaimed, d2) =
            (case queued_id of
               Some i \<Rightarrow> (Some i, False, d1)
             | None \<Rightarrow>
                 (let (stale_id, ds) = claim_update
                        (\<lambda>j. running_job_is_stale now j \<and> job_attempts j < max_job_attempts)
                        (running_job_is_stale now) now lease_seconds d1
                  in (stale_id, stale_id \<noteq> None, ds)))
      in case claimed_id of
           None \<Rightarrow> Inr (None, d2)
         | Some i \<Rightarrow>
             rbind (or_raise (row_get job_id (db_jobs d2) i)
                      (RuntimeError (''claimed job '' @ str_of_int i @ '' disappeared before refresh'')))
               (\<lambda>j. let j' = append_job_log j
                          [(if reclaimed then ''reclaimed stale lease at '' else ''claimed at '') @
                             isoformat_z now,
                           ''lease_expires_at='' @ isoformat_z (lease_deadline now lease_seconds)]
                    in Inr (Some j', d2\<lparr>db_jobs := row_set job_id j' (db_jobs d2)\<rparr>)))"

definition heartbeat_job :: "job \<Rightarrow> int \<Rightarrow> time \<Rightarrow> db \<Rightarrow> job \<times> db" where
  "heartbeat_job j lease_seconds now d =
     (let j' = j\<lparr>job_heartbeat_at := Some now,
                 job_lease_expires_at := Some (lease_deadline now lease_seconds),
                 job_updated_at := now\<rparr>
      in (j', d\<lparr>db_jobs := row_set job_id j' (db_jobs d)\<rparr>))"

definition complete_job :: "job \<Rightarrow> time \<Rightarrow> db \<Rightarrow> job \<times> db" where
  "complete_job j now d =
     (let j' = append_job_log
                 (j\<lparr>job_status := JobCompleted, job_finished_at := Some now,
                    job_heartbeat_at := None, job_lease_expires_at := None, job_error := [],
                    job_updated_at := now\<rparr>)
                 [''completed at '' @ isoformat_z now]
      in (j', d\<lparr>db_jobs := row_set job_id j' (db_jobs d)\<rparr>))"

definition fail_job :: "job \<Rightarrow> string \<Rightarrow> bool \<Rightarrow> time \<Rightarrow> db \<Rightarrow> job \<times> db" where
  "fail_job j error_message retryable now d =
     (let should_retry = (retryable \<and> job_attempts j < max_retry_attempts);
          j' = (if should_retry
                then append_job_log
                  (j\<lparr>job_status := JobQueued, job_started_at := None, job_heartbeat_at := None,
                     job_lease_expires_at := None, job_finished_at := None,
                     job_error := error_message, job_updated_at := now\<rparr>)
                  [''RETRYABLE ERROR (attempt '' @ str_of_int (job_attempts j) @ ''/'' @
                     str_of_int max_retry_attempts @ ''): '' @ error_message,
                   ''re-queued at '' @ isoformat_z now]
                else append_job_log
                  (j\<lparr>job_status := JobFailed, job_finished_at := Some now,
                     job_heartbeat_at := None, job_lease_expires_at := None,
                     job_error := error_message, job_updated_at := now\<rparr>)
                  [''ERROR: '' @ error_message])
      in (j', d\<lparr>db_jobs := row_set job_id j' (db_jobs d)\<rparr>))"

section \<open>Logs and identifiers are untouched by the bookkeeping\<close>

lemma append_job_log_fields [simp]:
  "job_id (append_job_log j ls) = job_id j"
  "job_kind (append_job_log j ls) = job_kind j"
  "job_status (append_job_log j ls) = job_status j"
  "job_payload (append_job_log j ls) = job_payload j"
  "job_release_id (append_job_log j ls) = job_release_id j"
  "job_started_at (append_job_log j ls) = job_started_at j"
  "job_heartbeat_at (append_job_log j ls) = job_heartbeat_at j"
  "job_lease_expires_at (append_job_log j ls) = job_lease_expires_at j"
  "job_finished_at (append_job_log j ls) = job_finished_at j"
  "job_attempts (append_job_log j ls) = job_attempts j"
  "job_error (append_job_log j ls) = job_error j"
  by (simp_all add: append_job_log_def Let_def)

lemma claim_row_fields [simp]:
  "job_id (claim_row now l j) = job_id j"
  "job_kind (claim_row now l j) = job_kind j"
  "job_status (claim_row now l j) = JobRunning"
  "job_started_at (claim_row now l j) = Some now"
  "job_lease_expires_at (claim_row now l j) = Some (lease_deadline now l)"
  "job_finished_at (claim_row now l j) = job_finished_at j"
  "job_attempts (claim_row now l j) = job_attempts j + 1"
  by (simp_all add: claim_row_def)

lemma lease_deadline_future: "now < lease_deadline now l"
  by (simp add: lease_deadline_def seconds_def)

section \<open>What a claim does\<close>

text \<open>The row a claim takes: the oldest queued job, else the oldest stale one below the bound.\<close>

definition claimable :: "time \<Rightarrow> job list \<Rightarrow> job option" where
  "claimable now t =
     (case first_where job_id (\<lambda>j. job_status j = JobQueued) t of
        Some j \<Rightarrow> Some j
      | None \<Rightarrow> first_where job_id
                  (\<lambda>j. running_job_is_stale now j \<and> job_attempts j < max_job_attempts) t)"

lemma row_count_id:
  assumes "j \<in> set t" and "g j"
  shows "row_count (\<lambda>r. rid r = rid j \<and> g r) t \<noteq> 0"
proof -
  from assms have "j \<in> set (filter (\<lambda>r. rid r = rid j \<and> g r) t)" by simp
  then show ?thesis by (metis length_0_conv list.set(1) empty_iff row_count_def)
qed

lemma claim_update_cases:
  assumes "\<And>j. sub j \<Longrightarrow> g j"
  shows "claim_update sub g now l d =
           (case first_where job_id sub (db_jobs d) of
              None \<Rightarrow> (None, d)
            | Some j \<Rightarrow> (Some (job_id j),
                d\<lparr>db_jobs := row_update (\<lambda>r. job_id r = job_id j \<and> g r) (claim_row now l) (db_jobs d)\<rparr>))"
proof (cases "first_where job_id sub (db_jobs d)")
  case None
  then show ?thesis by (simp add: claim_update_def)
next
  case (Some j)
  then have "row_count (\<lambda>r. job_id r = job_id j \<and> g r) (db_jobs d) \<noteq> 0"
    using row_count_id [of j "db_jobs d" g job_id] first_where_Some [OF Some] assms by blast
  with Some show ?thesis by (simp add: claim_update_def)
qed

lemmas claim_queued = claim_update_cases
  [of "\<lambda>j. job_status j = JobQueued" "\<lambda>j. job_status j = JobQueued", simplified]

lemma claim_stale:
  "claim_update (\<lambda>j. running_job_is_stale now j \<and> job_attempts j < max_job_attempts)
     (running_job_is_stale now) now l d =
     (case first_where job_id (\<lambda>j. running_job_is_stale now j \<and> job_attempts j < max_job_attempts)
             (db_jobs d) of
        None \<Rightarrow> (None, d)
      | Some j \<Rightarrow> (Some (job_id j),
          d\<lparr>db_jobs := row_update (\<lambda>r. job_id r = job_id j \<and> running_job_is_stale now r)
                (claim_row now l) (db_jobs d)\<rparr>))"
  by (rule claim_update_cases) simp

text \<open>
  A claim returns the claimable row with one more attempt and a fresh lease, leaves every
  other row as it is, and returns nothing exactly when no row is claimable.
\<close>

lemma claim_next_job_None:
  "claimable now (db_jobs d) = None \<Longrightarrow> claim_next_job l now d = Inr (None, d)"
  by (auto simp: claim_next_job_def claim_queued claim_stale claimable_def split: option.splits)

lemma claim_next_job_row:
  assumes ok: "rows_ok job_id (db_jobs d)" and j: "j \<in> set (db_jobs d)" and g: "g j"
  shows "row_get job_id (row_update (\<lambda>r. job_id r = job_id j \<and> g r) (claim_row now l) (db_jobs d))
           (job_id j) = Some (claim_row now l j)"
    and "job_id q = job_id j \<Longrightarrow>
         row_set job_id q (row_update (\<lambda>r. job_id r = job_id j \<and> g r) (claim_row now l) (db_jobs d))
           = map (\<lambda>r. if job_id r = job_id j then q else r) (db_jobs d)"
  using row_get_unique [OF ok j] g
  by (simp_all add: row_get_update) (simp add: row_set_def row_update_def)

lemma claim_next_job_Some:
  assumes ok: "rows_ok job_id (db_jobs d)" and c: "claimable now (db_jobs d) = Some j"
  shows "\<exists>j' d'. claim_next_job l now d = Inr (Some j', d') \<and> job_id j' = job_id j \<and>
           job_status j' = JobRunning \<and> job_attempts j' = job_attempts j + 1 \<and>
           job_started_at j' = Some now \<and>
           job_lease_expires_at j' = Some (lease_deadline now l) \<and>
           job_finished_at j' = job_finished_at j \<and> job_kind j' = job_kind j \<and>
           d' = d\<lparr>db_jobs := map (\<lambda>r. if job_id r = job_id j then j' else r) (db_jobs d)\<rparr>"
proof (cases "first_where job_id (\<lambda>j. job_status j = JobQueued) (db_jobs d)")
  case (Some q)
  with c have q: "q = j" by (simp add: claimable_def)
  note j = first_where_Some [OF Some, unfolded q]
  from Some q j show ?thesis
    using claim_next_job_row [OF ok, where j = j and g = "\<lambda>j. job_status j = JobQueued" and now = now and l = l]
    by (simp add: claim_next_job_def claim_queued Let_def)
next
  case None
  with c have s: "first_where job_id
     (\<lambda>j. running_job_is_stale now j \<and> job_attempts j < max_job_attempts) (db_jobs d) = Some j"
    by (simp add: claimable_def)
  note j = first_where_Some [OF s]
  from None s j show ?thesis
    using claim_next_job_row [OF ok, where j = j and g = "running_job_is_stale now" and now = now and l = l]
    by (simp add: claim_next_job_def claim_queued claim_stale Let_def)
qed

lemma claim_next_job_total: "rows_ok job_id (db_jobs d) \<Longrightarrow> \<exists>r. claim_next_job l now d = Inr r"
  using claim_next_job_None [of now d l] claim_next_job_Some [of d now _ l]
  by (cases "claimable now (db_jobs d)") fastforce+

end
