(* ===== verification/JobProtocol.thy ===== *)
theory JobProtocol
  imports Jobs
begin

text \<open>
  The queue as a state machine: the invariant every row keeps, the steps of any number of
  workers with their leases, and the bound that makes a batch worker stop.
\<close>

section \<open>The row invariant\<close>

definition job_ok :: "job \<Rightarrow> bool" where
  "job_ok j \<longleftrightarrow>
     (case job_status j of
        JobQueued \<Rightarrow> 0 \<le> job_attempts j \<and> job_attempts j < max_retry_attempts \<and>
          job_started_at j = None \<and> job_lease_expires_at j = None \<and> job_finished_at j = None
      | JobRunning \<Rightarrow> 1 \<le> job_attempts j \<and> job_attempts j \<le> max_job_attempts \<and>
          job_started_at j \<noteq> None \<and> job_lease_expires_at j \<noteq> None \<and> job_finished_at j = None
      | _ \<Rightarrow> 1 \<le> job_attempts j \<and> job_attempts j \<le> max_job_attempts \<and>
          job_lease_expires_at j = None \<and> job_finished_at j \<noteq> None)"

definition jobs_ok :: "db \<Rightarrow> bool" where
  "jobs_ok d \<longleftrightarrow> rows_ok job_id (db_jobs d) \<and> (\<forall>j \<in> set (db_jobs d). job_ok j)"

lemmas job_bounds = max_job_attempts_def max_retry_attempts_def

lemma jobs_ok_empty [simp]: "jobs_ok empty_db"
  by (simp add: jobs_ok_def empty_db_def)

lemma jobs_ok_row: "jobs_ok d \<Longrightarrow> row_get job_id (db_jobs d) i = Some j \<Longrightarrow> job_ok j \<and> j \<in> set (db_jobs d) \<and> job_id j = i"
  using row_get_Some [of job_id "db_jobs d" i j] by (auto simp: jobs_ok_def)

lemma jobs_ok_set:
  assumes "jobs_ok d" and "job_ok j"
  shows "jobs_ok (d\<lparr>db_jobs := row_set job_id j (db_jobs d)\<rparr>)"
  using assms set_row_set [of job_id j "db_jobs d"] by (auto simp: jobs_ok_def)

lemma enqueue_job_ok: "jobs_ok d \<Longrightarrow> jobs_ok (snd (enqueue_job k p r rel n now d))"
  by (auto simp: jobs_ok_def enqueue_job_def Let_def job_ok_def job_bounds
           intro!: rows_ok_insert)

lemma claim_job_ok:
  assumes ok: "jobs_ok d" and c: "claim_next_job l now d = Inr (Some j, d')"
  shows "jobs_ok d' \<and> job_ok j \<and> (\<exists>q. claimable now (db_jobs d) = Some q \<and> job_id q = job_id j \<and>
           job_attempts j = job_attempts q + 1 \<and>
           job_status j = JobRunning \<and> job_lease_expires_at j = Some (lease_deadline now l) \<and>
           db_jobs d' = map (\<lambda>r. if job_id r = job_id j then j else r) (db_jobs d))"
proof -
  have rows: "rows_ok job_id (db_jobs d)" and all: "\<forall>j \<in> set (db_jobs d). job_ok j"
    using ok by (auto simp: jobs_ok_def)
  obtain q where q: "claimable now (db_jobs d) = Some q"
    using c claim_next_job_None [of now d l] by (cases "claimable now (db_jobs d)") auto
  from claim_next_job_Some [OF rows q, of l] c have
    j: "job_id j = job_id q" "job_status j = JobRunning" "job_attempts j = job_attempts q + 1"
       "job_started_at j = Some now" "job_lease_expires_at j = Some (lease_deadline now l)"
       "job_finished_at j = job_finished_at q"
    and d': "d' = d\<lparr>db_jobs := map (\<lambda>r. if job_id r = job_id q then j else r) (db_jobs d)\<rparr>"
    by auto
  have qin: "q \<in> set (db_jobs d)" and
    qc: "job_status q = JobQueued \<or> running_job_is_stale now q \<and> job_attempts q < max_job_attempts"
    using q by (auto simp: claimable_def split: option.splits dest: first_where_Some)
  have "job_ok j"
    using all [rule_format, OF qin] qc j
    by (auto simp: job_ok_def running_job_is_stale_def job_bounds split: job_status.splits)
  moreover have "rows_ok job_id (db_jobs d')"
    using rows j(1) d' by (simp add: rows_ok_map)
  ultimately show ?thesis
    using all q j d' by (auto simp: jobs_ok_def)
qed

lemma heartbeat_job_ok:
  "jobs_ok d \<Longrightarrow> job_ok j \<Longrightarrow> job_status j = JobRunning \<Longrightarrow> jobs_ok (snd (heartbeat_job j l now d))"
  by (auto simp: heartbeat_job_def Let_def intro!: jobs_ok_set) (simp add: job_ok_def)

lemma complete_job_ok:
  "jobs_ok d \<Longrightarrow> job_ok j \<Longrightarrow> job_status j = JobRunning \<Longrightarrow> jobs_ok (snd (complete_job j now d))"
  by (auto simp: complete_job_def Let_def intro!: jobs_ok_set) (simp add: job_ok_def)

lemma fail_job_ok:
  "jobs_ok d \<Longrightarrow> job_ok j \<Longrightarrow> job_status j = JobRunning \<Longrightarrow> jobs_ok (snd (fail_job j e r now d))"
  by (auto simp: fail_job_def Let_def intro!: jobs_ok_set) (auto simp: job_ok_def)

section \<open>Workers and their leases\<close>

text \<open>
  \<open>ls_holds\<close> records what each worker learnt from its claims and heartbeats: the job it
  works on and the deadline until which it may.  A worker heartbeats and finishes only
  within its deadline; entries whose deadline has passed stay, as a worker that stalls does
  not know it lost its lease.
\<close>

record lease_state =
  ls_db :: db
  ls_now :: time
  ls_holds :: "(nat \<times> id \<times> time) set"

inductive lease_step :: "lease_state \<Rightarrow> lease_state \<Rightarrow> bool" where
  tick: "ls_now s \<le> t \<Longrightarrow> lease_step s (s\<lparr>ls_now := t\<rparr>)"
| enqueue: "lease_step s (s\<lparr>ls_db := snd (enqueue_job k p r rel n (ls_now s) (ls_db s))\<rparr>)"
| claim: "claim_next_job l (ls_now s) (ls_db s) = Inr (Some j, d') \<Longrightarrow>
     lease_step s (s\<lparr>ls_db := d',
       ls_holds := insert (w, job_id j, lease_deadline (ls_now s) l) (ls_holds s)\<rparr>)"
| heartbeat: "(w, i, t) \<in> ls_holds s \<Longrightarrow> ls_now s < t \<Longrightarrow>
     row_get job_id (db_jobs (ls_db s)) i = Some j \<Longrightarrow>
     lease_step s (s\<lparr>ls_db := snd (heartbeat_job j l (ls_now s) (ls_db s)),
       ls_holds := insert (w, i, lease_deadline (ls_now s) l) (ls_holds s - {w} \<times> {i} \<times> UNIV)\<rparr>)"
| complete: "(w, i, t) \<in> ls_holds s \<Longrightarrow> ls_now s < t \<Longrightarrow>
     row_get job_id (db_jobs (ls_db s)) i = Some j \<Longrightarrow>
     lease_step s (s\<lparr>ls_db := snd (complete_job j (ls_now s) (ls_db s)),
       ls_holds := ls_holds s - {w} \<times> {i} \<times> UNIV\<rparr>)"
| fail: "(w, i, t) \<in> ls_holds s \<Longrightarrow> ls_now s < t \<Longrightarrow>
     row_get job_id (db_jobs (ls_db s)) i = Some j \<Longrightarrow>
     lease_step s (s\<lparr>ls_db := snd (fail_job j e r (ls_now s) (ls_db s)),
       ls_holds := ls_holds s - {w} \<times> {i} \<times> UNIV\<rparr>)"

inductive lease_reachable :: "lease_state \<Rightarrow> bool" where
  start: "lease_reachable \<lparr>ls_db = empty_db, ls_now = t, ls_holds = {}\<rparr>"
| step: "lease_reachable s \<Longrightarrow> lease_step s s' \<Longrightarrow> lease_reachable s'"

definition lease_inv :: "lease_state \<Rightarrow> bool" where
  "lease_inv s \<longleftrightarrow> jobs_ok (ls_db s) \<and>
     (\<forall>w i t. (w, i, t) \<in> ls_holds s \<longrightarrow> ls_now s < t \<longrightarrow>
        (\<exists>j. row_get job_id (db_jobs (ls_db s)) i = Some j \<and> job_status j = JobRunning \<and>
             job_lease_expires_at j = Some t) \<and>
        (\<forall>w' t'. (w', i, t') \<in> ls_holds s \<longrightarrow> ls_now s < t' \<longrightarrow> w' = w))"

lemma row_get_map:
  assumes "\<And>r. job_id r = i \<Longrightarrow> job_id (f r) = i" and "\<And>r. job_id r \<noteq> i \<Longrightarrow> job_id (f r) \<noteq> i"
  shows "row_get job_id (map f t) i = map_option f (row_get job_id t i)"
  using assms by (induction t) (auto simp: row_get_def)

lemma lease_inv_hold:
  assumes "lease_inv s" and "(w, i, t) \<in> ls_holds s" and "ls_now s < t"
    and "row_get job_id (db_jobs (ls_db s)) i = Some j"
  shows "job_ok j" and "job_id j = i" and "job_status j = JobRunning"
proof -
  have "jobs_ok (ls_db s)" and
    "\<exists>j. row_get job_id (db_jobs (ls_db s)) i = Some j \<and> job_status j = JobRunning"
    using assms(1-3) by (fastforce simp: lease_inv_def)+
  with assms(4) jobs_ok_row [of "ls_db s" i j]
  show "job_ok j" and "job_id j = i" and "job_status j = JobRunning" by auto
qed

lemma lease_inv_row:
  "lease_inv s \<Longrightarrow> (w, i, t) \<in> ls_holds s \<Longrightarrow> ls_now s < t \<Longrightarrow>
     \<exists>j. row_get job_id (db_jobs (ls_db s)) i = Some j \<and> job_status j = JobRunning \<and>
         job_lease_expires_at j = Some t"
  by (simp add: lease_inv_def)

lemma lease_inv_update_row:
  assumes inv: "lease_inv s" and hold: "(w, i, t) \<in> ls_holds s" and live: "ls_now s < t"
    and row: "job_id j' = i" and ok: "jobs_ok d'"
    and d': "db_jobs d' = row_set job_id j' (db_jobs (ls_db s))"
    and new: "H = ls_holds s - {w} \<times> {i} \<times> UNIV \<or>
              H = insert (w, i, u) (ls_holds s - {w} \<times> {i} \<times> UNIV) \<and>
              job_status j' = JobRunning \<and> job_lease_expires_at j' = Some u"
  shows "lease_inv (s\<lparr>ls_db := d', ls_holds := H\<rparr>)"
proof -
  have others: "w' = w" if "(w', i, t') \<in> ls_holds s" "ls_now s < t'" for w' t'
    using inv hold live that by (auto simp: lease_inv_def)
  have present: "\<exists>j. row_get job_id (db_jobs (ls_db s)) i = Some j"
    using inv hold live by (fastforce simp: lease_inv_def)
  have keep: "(\<exists>j. row_get job_id (db_jobs d') k = Some j \<and> job_status j = JobRunning \<and>
             job_lease_expires_at j = Some v) \<and>
        (\<forall>w' t'. (w', k, t') \<in> ls_holds s \<longrightarrow> ls_now s < t' \<longrightarrow> w' = x)"
    if "(x, k, v) \<in> ls_holds s" "ls_now s < v" "k \<noteq> i" for x k v
    using inv that row d' by (auto simp: lease_inv_def row_get_set)
  show ?thesis
    unfolding lease_inv_def
    using new others present keep row d' ok by (auto simp: row_get_set)
qed

lemma lease_step_inv: "lease_step s s' \<Longrightarrow> lease_inv s \<Longrightarrow> lease_inv s'"
proof (induction rule: lease_step.induct)
  case (tick s t)
  then show ?case by (fastforce simp: lease_inv_def)
next
  case (enqueue s k p r rel n)
  obtain j where d': "snd (enqueue_job k p r rel n (ls_now s) (ls_db s)) =
      ls_db s\<lparr>db_jobs := db_jobs (ls_db s) @ [j]\<rparr>"
    by (auto simp: enqueue_job_def Let_def)
  show ?case
    using enqueue enqueue_job_ok [of "ls_db s" k p r rel n "ls_now s"]
    by (fastforce simp: lease_inv_def d' row_get_append)
next
  case (claim l s j d' w)
  have ok: "jobs_ok (ls_db s)" using claim.prems by (simp add: lease_inv_def)
  from claim_job_ok [OF ok claim.hyps] obtain q where
    q: "claimable (ls_now s) (db_jobs (ls_db s)) = Some q" "job_id q = job_id j" and
    j: "job_status j = JobRunning" "job_lease_expires_at j = Some (lease_deadline (ls_now s) l)" and
    ok': "jobs_ok d'" and
    rows: "db_jobs d' = map (\<lambda>r. if job_id r = job_id j then j else r) (db_jobs (ls_db s))"
    by auto
  have qin: "q \<in> set (db_jobs (ls_db s))" and
    qc: "job_status q = JobQueued \<or> running_job_is_stale (ls_now s) q"
    using q(1) by (auto simp: claimable_def split: option.splits dest: first_where_Some)
  have qget: "row_get job_id (db_jobs (ls_db s)) (job_id j) = Some q"
    using row_get_unique [of job_id "db_jobs (ls_db s)" q] ok qin q(2) by (simp add: jobs_ok_def)
  have none: "(x, job_id j, v) \<in> ls_holds s \<Longrightarrow> \<not> ls_now s < v" for x v
    using claim.prems qget qc by (fastforce simp: lease_inv_def running_job_is_stale_def)
  have get: "row_get job_id (db_jobs d') k =
      (if k = job_id j then Some j else row_get job_id (db_jobs (ls_db s)) k)" for k
    unfolding rows using qget
    by (subst row_get_map) (auto simp: option.map_ident_strong dest: row_get_Some split: if_splits intro!: option.map_ident_strong)
  show ?case
    unfolding lease_inv_def using claim.prems ok' none get j
    by (auto simp: lease_inv_def)
next
  case (heartbeat w i t s j l)
  have j: "job_ok j" "job_id j = i" "job_status j = JobRunning"
    using lease_inv_hold [OF heartbeat.prems heartbeat.hyps] by auto
  show ?case
    by (rule lease_inv_update_row [OF heartbeat.prems heartbeat.hyps(1,2)])
       (use j heartbeat.prems heartbeat_job_ok [of "ls_db s" j l "ls_now s"] in
         \<open>auto simp: heartbeat_job_def Let_def lease_inv_def\<close>)
next
  case (complete w i t s j)
  have j: "job_ok j" "job_id j = i" "job_status j = JobRunning"
    using lease_inv_hold [OF complete.prems complete.hyps] by auto
  show ?case
    by (rule lease_inv_update_row [OF complete.prems complete.hyps(1,2), where j' = "fst (complete_job j (ls_now s) (ls_db s))" and u = t])
       (use j complete.prems complete_job_ok [of "ls_db s" j "ls_now s"] in
         \<open>auto simp: complete_job_def Let_def lease_inv_def\<close>)
next
  case (fail w i t s j e r)
  have j: "job_ok j" "job_id j = i" "job_status j = JobRunning"
    using lease_inv_hold [OF fail.prems fail.hyps] by auto
  show ?case
    by (rule lease_inv_update_row [OF fail.prems fail.hyps(1,2), where j' = "fst (fail_job j e r (ls_now s) (ls_db s))" and u = t])
       (use j fail.prems fail_job_ok [of "ls_db s" j e r "ls_now s"] in
         \<open>auto simp: fail_job_def Let_def lease_inv_def\<close>)
qed

lemma lease_reachable_inv: "lease_reachable s \<Longrightarrow> lease_inv s"
proof (induction rule: lease_reachable.induct)
  case (start t)
  show ?case by (simp add: lease_inv_def)
next
  case (step s s')
  then show ?case by (blast intro: lease_step_inv)
qed

section \<open>The work left\<close>

text \<open>How often a row can still be claimed: the bound on a batch worker's iterations.\<close>

definition job_budget :: "job \<Rightarrow> nat" where
  "job_budget j =
     (if job_status j = JobCompleted \<or> job_status j = JobFailed then 0
      else nat (max_job_attempts + 1 - job_attempts j))"

definition queue_budget :: "db \<Rightarrow> nat" where
  "queue_budget d = sum_list (map job_budget (db_jobs d))"

lemma sum_list_replace:
  assumes "rows_ok job_id t" and "q \<in> set t"
  shows "sum_list (map job_budget (map (\<lambda>r. if job_id r = job_id q then j else r) t)) + job_budget q
           = sum_list (map job_budget t) + job_budget j"
  using assms
proof (induction t)
  case Nil
  then show ?case by simp
next
  case (Cons r t)
  show ?case
  proof (cases "r = q")
    case True
    with Cons.prems(1) have "job_id q \<notin> set (map job_id t)" by (simp add: rows_ok_def)
    then have "job_id x \<noteq> job_id q" if "x \<in> set t" for x
      using that by (metis image_eqI list.set_map)
    then have "map (\<lambda>x. if job_id x = job_id q then j else x) t = t"
      by (intro map_idI) simp
    with True show ?thesis by (simp add: comp_def)
  next
    case False
    with Cons.prems have "job_id r \<noteq> job_id q" "q \<in> set t" "rows_ok job_id t"
      by (auto simp: rows_ok_def)
    with Cons.IH show ?thesis by simp
  qed
qed

lemma claim_spends_budget:
  assumes ok: "jobs_ok d" and c: "claim_next_job l now d = Inr (Some j, d')"
  shows "queue_budget d' < queue_budget d"
proof -
  from claim_job_ok [OF ok c] obtain q where
    q: "claimable now (db_jobs d) = Some q" "job_id q = job_id j"
    and j: "job_attempts j = job_attempts q + 1" "job_status j = JobRunning" "job_ok j"
    and rows: "db_jobs d' = map (\<lambda>r. if job_id r = job_id q then j else r) (db_jobs d)"
    by auto
  have qin: "q \<in> set (db_jobs d)" and
    qc: "job_status q = JobQueued \<or> job_status q = JobRunning"
    using q(1) by (auto simp: claimable_def running_job_is_stale_def split: option.splits
                        dest: first_where_Some)
  have "job_budget j < job_budget q"
    using j qc by (auto simp: job_budget_def job_ok_def job_bounds)
  moreover have "queue_budget d' + job_budget q = queue_budget d + job_budget j"
    using sum_list_replace [of "db_jobs d" q j] ok qin by (simp add: queue_budget_def rows jobs_ok_def)
  ultimately show ?thesis by linarith
qed


section \<open>What the queue guarantees\<close>

definition queued_lease :: lease_state where
  "queued_lease =
     \<lparr>ls_db = snd (enqueue_job ''materialize_release'' None None (Some 1) [] 100 empty_db),
      ls_now = 100, ls_holds = {}\<rparr>"

definition first_claim :: "svc_error + job option \<times> db" where
  "first_claim = claim_next_job 1800 100 (ls_db queued_lease)"

definition claimed_row :: job where
  "claimed_row = (case first_claim of Inr (Some j, _) \<Rightarrow> j | _ \<Rightarrow> undefined)"

definition claimed_db :: db where
  "claimed_db = (case first_claim of Inr (_, d) \<Rightarrow> d | _ \<Rightarrow> undefined)"

lemma first_claim_value:
  "claim_next_job 1800 100 (ls_db queued_lease) = Inr (Some claimed_row, claimed_db)"
  "job_id claimed_row = 1"
  by code_simp+

definition claimed_lease :: lease_state where
  "claimed_lease = queued_lease\<lparr>ls_db := claimed_db,
     ls_holds := insert (0, job_id claimed_row, lease_deadline (ls_now queued_lease) 1800)
                   (ls_holds queued_lease)\<rparr>"



text \<open>C7. A claim takes the right row and nothing else: it returns a job exactly when a row
  is claimable, namely the oldest queued one, or, when none is queued, the oldest running
  one whose lease has expired and that has attempts left; it gives that row one more attempt
  and a fresh lease that ends in the future, and leaves every other row as it was.  A job
  under a live lease is therefore never claimed.\<close>

theorem claim_next_job_exact:
  assumes "jobs_ok d"
  shows "(claimable now (db_jobs d) = None \<longrightarrow> claim_next_job l now d = Inr (None, d)) \<and>
    (\<forall>q. claimable now (db_jobs d) = Some q \<longrightarrow>
       (\<forall>r \<in> set (db_jobs d). job_status r = JobQueued \<longrightarrow>
            job_status q = JobQueued \<and> job_id q \<le> job_id r) \<and>
       (job_status q = JobQueued \<or> running_job_is_stale now q \<and> job_attempts q < max_job_attempts) \<and>
       (\<exists>j. claim_next_job l now d =
              Inr (Some j, d\<lparr>db_jobs := map (\<lambda>r. if job_id r = job_id q then j else r) (db_jobs d)\<rparr>) \<and>
            job_id j = job_id q \<and> job_status j = JobRunning \<and>
            job_attempts j = job_attempts q + 1 \<and>
            (\<exists>t. job_lease_expires_at j = Some t \<and> now < t)))"
proof (intro conjI impI allI)
  show "claim_next_job l now d = Inr (None, d)" if "claimable now (db_jobs d) = None"
    by (rule claim_next_job_None [OF that])
next
  fix q assume q: "claimable now (db_jobs d) = Some q"
  show "\<forall>r \<in> set (db_jobs d). job_status r = JobQueued \<longrightarrow>
            job_status q = JobQueued \<and> job_id q \<le> job_id r"
    using q first_where_least [of job_id "\<lambda>j. job_status j = JobQueued" "db_jobs d" q]
    by (auto simp: claimable_def first_where_None split: option.splits dest: first_where_Some)
  show "job_status q = JobQueued \<or> running_job_is_stale now q \<and> job_attempts q < max_job_attempts"
    using q by (auto simp: claimable_def split: option.splits dest: first_where_Some)
  have "rows_ok job_id (db_jobs d)" using assms by (simp add: jobs_ok_def)
  from claim_next_job_Some [OF this q, of l]
  show "\<exists>j. claim_next_job l now d =
              Inr (Some j, d\<lparr>db_jobs := map (\<lambda>r. if job_id r = job_id q then j else r) (db_jobs d)\<rparr>) \<and>
            job_id j = job_id q \<and> job_status j = JobRunning \<and>
            job_attempts j = job_attempts q + 1 \<and>
            (\<exists>t. job_lease_expires_at j = Some t \<and> now < t)"
    using lease_deadline_future by auto
qed

lemma claim_next_job_exact_witness:
  "\<exists>j d'. claim_next_job 1800 100 (ls_db queued_lease) = Inr (Some j, d') \<and>
     job_status j = JobRunning \<and> job_attempts j = 1"
proof -
  have ok: "jobs_ok (ls_db queued_lease)"
    using enqueue_job_ok [OF jobs_ok_empty] by (simp add: queued_lease_def)
  have "claimable 100 (db_jobs (ls_db queued_lease)) \<noteq> None"
    by code_simp
  moreover have "\<forall>q \<in> set (db_jobs (ls_db queued_lease)). job_attempts q = 0"
    by code_simp
  ultimately obtain q where q: "claimable 100 (db_jobs (ls_db queued_lease)) = Some q"
    "job_attempts q = 0"
    by (auto simp: claimable_def split: option.splits dest: first_where_Some)
  from claim_next_job_exact [OF ok, of 100 1800] q show ?thesis by fastforce
qed

end
