(* ===== verification/Credentials.thy ===== *)
theory Credentials
  imports ServerDb
begin

text \<open>
  Credentials and who they authenticate: \<open>server/modules/identity/service.py\<close>,
  \<open>server/modules/access/authn.py\<close> and \<open>server/modules/access/product_scope.py\<close>.
  \<open>sha256_hex\<close> (\<open>hashlib.sha256(...).hexdigest()\<close>) and \<open>verify_password\<close> (a password hash
  of the \<open>passwords\<close> module) are arguments; a fresh random token is an argument of the
  operation that draws it.
\<close>

section \<open>Tokens and scopes\<close>

definition token_hash_prefix :: string where
  "token_hash_prefix = ''sha256:''"

definition bearer_credential_types :: "credential_type list" where
  "bearer_credential_types = [PersonalToken, ProductToken, GrantToken, AgentToken]"

definition normalize_token :: "string option \<Rightarrow> string" where
  "normalize_token raw = strip (case raw of None \<Rightarrow> [] | Some t \<Rightarrow> t)"

definition hash_token :: "(string \<Rightarrow> string) \<Rightarrow> string \<Rightarrow> string" where
  "hash_token sha256_hex token = token_hash_prefix @ sha256_hex token"

definition parse_scopes :: "json_text \<Rightarrow> string set" where
  "parse_scopes scopes_json =
     (if scopes_json = NotJson [] then {}
      else (case json_loads scopes_json of
              None \<Rightarrow> {}
            | Some payload \<Rightarrow>
                (case payload of
                   JStr s \<Rightarrow> if s \<noteq> [] then {s} else {}
                 | JList items \<Rightarrow> set (filter (\<lambda>s. s \<noteq> []) (map (\<lambda>item. strip (py_str item)) items))
                 | _ \<Rightarrow> {})))"

definition encode_scopes :: "string list \<Rightarrow> json_text" where
  "encode_scopes scopes =
     json_dumps (JList (map JStr (sort (remdups (filter (\<lambda>s. s \<noteq> []) (map strip scopes))))))"

definition token_type_for_scopes :: "json_text \<Rightarrow> string" where
  "token_type_for_scopes scopes_json =
     (if \<exists>s \<in> parse_scopes scopes_json.
           ends_with '':write'' s \<or> s \<in> {''authoring:write'', ''publish:write'', ''registry:publish''}
      then ''publisher'' else ''reader'')"

section \<open>Resolving a credential\<close>

definition active_credential :: "time \<Rightarrow> credential \<Rightarrow> bool" where
  "active_credential now c \<longleftrightarrow>
     crd_revoked_at c = None \<and>
     (case crd_expires_at c of None \<Rightarrow> True | Some t \<Rightarrow> t > now)"

text \<open>The first row of \<open>_active_credentials_query(now).where(p)\<close>, which orders by falling id.\<close>

definition active_credentials_query :: "time \<Rightarrow> (credential \<Rightarrow> bool) \<Rightarrow> db \<Rightarrow> credential option" where
  "active_credentials_query now p d =
     last_where crd_id (\<lambda>c. active_credential now c \<and> p c) (db_credentials d)"

definition put_credential :: "credential \<Rightarrow> db \<Rightarrow> db" where
  "put_credential c d = d\<lparr>db_credentials := row_set crd_id c (db_credentials d)\<rparr>"

definition mark_credential_used :: "credential \<Rightarrow> time \<Rightarrow> db \<Rightarrow> credential \<times> db" where
  "mark_credential_used c now d =
     (if (case crd_last_used_at c of None \<Rightarrow> True | Some t \<Rightarrow> now - t \<ge> minutes 5)
      then (let c' = c\<lparr>crd_last_used_at := Some now\<rparr> in (c', put_credential c' d))
      else (c, d))"

definition resolve_credential_by_token ::
    "(string \<Rightarrow> string) \<Rightarrow> string \<Rightarrow> time \<Rightarrow> db \<Rightarrow> credential option \<times> db" where
  "resolve_credential_by_token sha256_hex token now d =
     (let normalized = normalize_token (Some token) in
      if normalized = [] then (None, d)
      else (case active_credentials_query now
                   (\<lambda>c. crd_type c \<in> set bearer_credential_types \<and>
                        crd_hashed_secret c = hash_token sha256_hex normalized) d of
              None \<Rightarrow> (None, d)
            | Some c \<Rightarrow> (let (c', d') = mark_credential_used c now d in (Some c', d'))))"

definition resolve_credential_by_id :: "int option \<Rightarrow> time \<Rightarrow> db \<Rightarrow> credential option \<times> db" where
  "resolve_credential_by_id credential_id now d =
     (case credential_id of
        None \<Rightarrow> (None, d)
      | Some i \<Rightarrow>
          if i \<le> 0 then (None, d)
          else (case active_credentials_query now (\<lambda>c. crd_id c = i) d of
                  None \<Rightarrow> (None, d)
                | Some c \<Rightarrow> (let (c', d') = mark_credential_used c now d in (Some c', d'))))"

section \<open>Users, principals and services\<close>

definition find_user_principal :: "string \<Rightarrow> db \<Rightarrow> principal option" where
  "find_user_principal username d =
     find (\<lambda>p. prn_kind p = UserPrincipal \<and> prn_slug p = username) (db_principals d)"

definition ensure_user_principal :: "user \<Rightarrow> time \<Rightarrow> db \<Rightarrow> principal \<times> db" where
  "ensure_user_principal u now d =
     (case find_user_principal (usr_username u) d of
        Some p \<Rightarrow>
          if prn_display_name p \<noteq> usr_display_name u
          then (let p' = p\<lparr>prn_display_name := usr_display_name u, prn_updated_at := now\<rparr>
                in (p', d\<lparr>db_principals := row_set prn_id p' (db_principals d)\<rparr>))
          else (p, d)
      | None \<Rightarrow>
          (let p = \<lparr>prn_id = next_id prn_id (db_principals d), prn_kind = UserPrincipal,
                    prn_slug = usr_username u, prn_display_name = usr_display_name u,
                    prn_updated_at = now\<rparr>
           in (p, d\<lparr>db_principals := db_principals d @ [p]\<rparr>)))"

definition new_credential :: "db \<Rightarrow> credential" where
  "new_credential d =
     \<lparr>crd_id = next_id crd_id (db_credentials d), crd_principal_id = None, crd_grant_id = None,
      crd_type = PersonalToken, crd_token_name = [], crd_token_type = [], crd_object_id = None,
      crd_scope_type = [], crd_scope_id = None, crd_issued_for = [], crd_hashed_secret = [],
      crd_scopes_json = NotJson [], crd_selector_json = json_dumps (JObj []),
      crd_expires_at = None, crd_revoked_at = None, crd_last_used_at = None, crd_created_at = 0\<rparr>"

definition user_scopes :: "string list" where
  "user_scopes = [''session:user'', ''api:user'']"

definition personal_credential_of :: "id \<Rightarrow> credential \<Rightarrow> bool" where
  "personal_credential_of p c \<longleftrightarrow> crd_type c = PersonalToken \<and> crd_principal_id c = Some p"

definition ensure_personal_credential_for_user ::
    "(string \<Rightarrow> string) \<Rightarrow> id \<Rightarrow> string \<Rightarrow> time \<Rightarrow> db \<Rightarrow> credential \<times> db" where
  "ensure_personal_credential_for_user sha256_hex principal_id raw_token now d =
     (let token_hash = hash_token sha256_hex raw_token;
          default_scopes = encode_scopes user_scopes
      in case active_credentials_query now (personal_credential_of principal_id) d of
           None \<Rightarrow>
             (let c = (new_credential d)\<lparr>crd_principal_id := Some principal_id,
                        crd_type := PersonalToken, crd_hashed_secret := token_hash,
                        crd_scopes_json := default_scopes, crd_created_at := now\<rparr>
              in (c, d\<lparr>db_credentials := db_credentials d @ [c]\<rparr>))
         | Some c \<Rightarrow>
             (let c' = c\<lparr>crd_hashed_secret := token_hash,
                         crd_scopes_json :=
                           (if crd_scopes_json c \<in>
                                 {NotJson [], json_dumps (JList []), json_dumps (JObj [])}
                            then default_scopes else crd_scopes_json c)\<rparr>
              in (c', put_credential c' d)))"

definition get_personal_credential :: "id \<Rightarrow> time \<Rightarrow> db \<Rightarrow> credential option" where
  "get_personal_credential principal_id now d =
     active_credentials_query now (personal_credential_of principal_id) d"

definition get_principal :: "id option \<Rightarrow> db \<Rightarrow> principal option" where
  "get_principal i d = (case i of None \<Rightarrow> None | Some p \<Rightarrow> row_get prn_id (db_principals d) p)"

definition get_service_principal :: "id option \<Rightarrow> db \<Rightarrow> service_principal option" where
  "get_service_principal i d =
     (case i of None \<Rightarrow> None | Some p \<Rightarrow> find (\<lambda>s. svc_principal_id s = p) (db_services d))"

definition service_principal_is_active :: "id option \<Rightarrow> db \<Rightarrow> bool" where
  "service_principal_is_active i d =
     (case get_service_principal i d of None \<Rightarrow> False | Some s \<Rightarrow> svc_state s = AgentActive)"

definition get_user_for_principal :: "principal option \<Rightarrow> db \<Rightarrow> user option" where
  "get_user_for_principal p d =
     (case p of
        None \<Rightarrow> None
      | Some q \<Rightarrow> if prn_kind q \<noteq> UserPrincipal then None
                 else find (\<lambda>u. usr_username u = prn_slug q) (db_users d))"

definition get_principal_for_user :: "user option \<Rightarrow> db \<Rightarrow> principal option" where
  "get_principal_for_user u d =
     (case u of None \<Rightarrow> None | Some u \<Rightarrow> find_user_principal (usr_username u) d)"

definition revoke_where :: "(credential \<Rightarrow> bool) \<Rightarrow> time \<Rightarrow> db \<Rightarrow> db" where
  "revoke_where p now d =
     d\<lparr>db_credentials := row_update p (\<lambda>c. c\<lparr>crd_revoked_at := Some now\<rparr>) (db_credentials d)\<rparr>"

text \<open>An empty set of types means all of them, as in the source.\<close>

definition revoke_principal_credentials ::
    "id \<Rightarrow> credential_type list \<Rightarrow> time \<Rightarrow> db \<Rightarrow> nat \<times> db" where
  "revoke_principal_credentials principal_id types now d =
     (let p = (\<lambda>c. crd_principal_id c = Some principal_id \<and> crd_revoked_at c = None \<and>
                    (types = [] \<or> crd_type c \<in> set types))
      in (row_count p (db_credentials d), revoke_where p now d))"

definition resolve_user_by_password ::
    "(string \<Rightarrow> string option \<Rightarrow> bool) \<Rightarrow> string \<Rightarrow> string \<Rightarrow> time \<Rightarrow> db \<Rightarrow> (user \<times> principal) option \<times> db" where
  "resolve_user_by_password verify_password username password now d =
     (case find (\<lambda>u. usr_username u = username) (db_users d) of
        None \<Rightarrow> (None, d)
      | Some u \<Rightarrow>
          if \<not> verify_password password (usr_password_hash u) then (None, d)
          else (let (p, d') = ensure_user_principal u now d in (Some (u, p), d')))"

definition session_of :: "id \<Rightarrow> credential \<Rightarrow> bool" where
  "session_of principal_id c \<longleftrightarrow>
     crd_principal_id c = Some principal_id \<and> crd_revoked_at c = None \<and>
     (crd_type c = SessionCredential \<or>
      (crd_type c = PersonalToken \<and> starts_with ''session:'' (crd_hashed_secret c)))"

definition create_fresh_session_credential :: "id \<Rightarrow> string \<Rightarrow> time \<Rightarrow> db \<Rightarrow> credential \<times> db" where
  "create_fresh_session_credential principal_id token now d =
     (let d1 = revoke_where (session_of principal_id) now d;
          c = (new_credential d1)\<lparr>crd_principal_id := Some principal_id,
                 crd_type := SessionCredential, crd_hashed_secret := ''session:'' @ token,
                 crd_scopes_json := encode_scopes user_scopes, crd_created_at := now,
                 crd_last_used_at := Some now\<rparr>
      in (c, d1\<lparr>db_credentials := db_credentials d1 @ [c]\<rparr>))"

definition ensure_session_credential :: "id \<Rightarrow> string \<Rightarrow> time \<Rightarrow> db \<Rightarrow> credential \<times> db" where
  "ensure_session_credential principal_id token now d =
     (case last_where crd_id
             (\<lambda>c. crd_type c = SessionCredential \<and> crd_principal_id c = Some principal_id \<and>
                  crd_revoked_at c = None) (db_credentials d) of
        Some c \<Rightarrow> (c, d)
      | None \<Rightarrow> create_fresh_session_credential principal_id token now d)"

section \<open>The access context of a request\<close>

record access_context =
  ctx_credential :: credential
  ctx_principal :: "principal option"
  ctx_user :: "user option"
  ctx_scopes :: "string set"
  ctx_request_id :: string

definition resolve_access_context ::
    "(string \<Rightarrow> string) \<Rightarrow> string option \<Rightarrow> time \<Rightarrow> db \<Rightarrow> access_context option \<times> db" where
  "resolve_access_context sha256_hex token now d =
     (let normalized = normalize_token token in
      if normalized = [] then (None, d)
      else (case resolve_credential_by_token sha256_hex normalized now d of
              (None, d1) \<Rightarrow> (None, d1)
            | (Some c, d1) \<Rightarrow>
                (let principal = get_principal (crd_principal_id c) d1 in
                 if crd_type c = AgentToken \<and> \<not> service_principal_is_active (crd_principal_id c) d1
                 then (None, d1)
                 else (Some \<lparr>ctx_credential = c, ctx_principal = principal,
                             ctx_user = get_user_for_principal principal d1,
                             ctx_scopes = parse_scopes (crd_scopes_json c),
                             ctx_request_id = []\<rparr>, d1))))"

definition ctx_principal_id :: "access_context \<Rightarrow> id option" where
  "ctx_principal_id ctx = map_option prn_id (ctx_principal ctx)"

definition is_maintainer :: "access_context \<Rightarrow> bool" where
  "is_maintainer ctx =
     (case ctx_user ctx of None \<Rightarrow> False | Some u \<Rightarrow> usr_role u = ''maintainer'')"

definition require_any_scope :: "access_context \<Rightarrow> string set \<Rightarrow> bool" where
  "require_any_scope ctx allowed \<longleftrightarrow> ctx_scopes ctx \<inter> allowed \<noteq> {}"

section \<open>Scope of product and agent tokens\<close>

definition assert_product_token_skill_scope ::
    "access_context \<Rightarrow> id option \<Rightarrow> bool \<Rightarrow> db \<Rightarrow> svc_error + unit" where
  "assert_product_token_skill_scope ctx skill_id allow_create d =
     (let c = ctx_credential ctx;
          namespace_check = (\<lambda>mismatch.
            case ctx_principal_id ctx of
              None \<Rightarrow> Inl (Forbidden mismatch)
            | Some p \<Rightarrow>
                if crd_scope_id c \<noteq> Some p then Inl (Forbidden mismatch)
                else (case skill_id of
                        None \<Rightarrow> if allow_create then Inr () else Inl (Forbidden ''skill scope required'')
                      | Some i \<Rightarrow>
                          (case row_get skl_id (db_skills d) i of
                             None \<Rightarrow> Inl (Forbidden mismatch)
                           | Some s \<Rightarrow> require (skl_namespace_id s = p) (Forbidden mismatch))))
      in if crd_type c = AgentToken then namespace_check ''agent namespace scope mismatch''
         else if crd_type c \<noteq> ProductToken then Inr ()
         else if crd_token_type c \<noteq> ''publisher'' then Inl (Forbidden ''publisher token required'')
         else if crd_scope_type c = ''namespace''
           then namespace_check ''publisher token namespace scope mismatch''
         else (case skill_id of
                 None \<Rightarrow> Inl (Forbidden ''object-scoped publisher tokens cannot create new objects'')
               | Some i \<Rightarrow> require (crd_object_id c = Some i)
                            (Forbidden ''publisher token object scope mismatch'')))"

section \<open>Facts\<close>

lemma parse_encode_scopes: "parse_scopes (encode_scopes xs) = set (filter (\<lambda>s. s \<noteq> []) (map strip xs))"
  by (auto simp: parse_scopes_def encode_scopes_def json_dumps_def json_loads_def py_str_def
                 image_iff comp_def)

text \<open>Marking a credential as used changes nothing that decides whether it authenticates.\<close>

lemma mark_used_frame:
  assumes "mark_credential_used c now d = (c', d')"
  shows "crd_id c' = crd_id c" "crd_type c' = crd_type c" "crd_principal_id c' = crd_principal_id c"
    "crd_hashed_secret c' = crd_hashed_secret c" "crd_revoked_at c' = crd_revoked_at c"
    "crd_expires_at c' = crd_expires_at c" "crd_scopes_json c' = crd_scopes_json c"
    "crd_grant_id c' = crd_grant_id c"
    "db_services d' = db_services d" "db_principals d' = db_principals d" "db_users d' = db_users d"
    "d' = d\<lparr>db_credentials := db_credentials d'\<rparr>"
  using assms by (auto simp: mark_credential_used_def Let_def put_credential_def split: if_splits)

lemma active_query_Some:
  "active_credentials_query now p d = Some c \<Longrightarrow> c \<in> set (db_credentials d) \<and> active_credential now c \<and> p c"
  unfolding active_credentials_query_def by (drule last_where_Some) simp

lemma active_query_None:
  "active_credentials_query now p d = None \<longleftrightarrow>
     (\<forall>c \<in> set (db_credentials d). \<not> (active_credential now c \<and> p c))"
  by (simp add: active_credentials_query_def last_where_None)

definition bearer_of :: "(string \<Rightarrow> string) \<Rightarrow> string \<Rightarrow> credential \<Rightarrow> bool" where
  "bearer_of sha256_hex token c \<longleftrightarrow>
     crd_type c \<in> set bearer_credential_types \<and> crd_hashed_secret c = hash_token sha256_hex token"

lemma resolve_by_token_sound:
  assumes "resolve_credential_by_token h token now d = (Some c, d')"
  shows "\<exists>c0 \<in> set (db_credentials d). strip token \<noteq> [] \<and> active_credential now c0 \<and>
           bearer_of h (strip token) c0 \<and> mark_credential_used c0 now d = (c, d')"
proof -
  have n: "normalize_token (Some token) = strip token" by (simp add: normalize_token_def)
  have ne: "strip token \<noteq> []"
    using assms by (auto simp: resolve_credential_by_token_def n Let_def split: if_splits)
  obtain c0 where q: "active_credentials_query now
        (\<lambda>c. crd_type c \<in> set bearer_credential_types \<and> crd_hashed_secret c = hash_token h (strip token)) d = Some c0"
    and m: "mark_credential_used c0 now d = (c, d')"
    using assms ne
    by (auto simp: resolve_credential_by_token_def n Let_def split: option.splits prod.splits)
  from active_query_Some [OF q] m ne show ?thesis by (auto simp: bearer_of_def)
qed

lemma resolve_by_token_none:
  assumes "fst (resolve_credential_by_token h token now d) = None"
  shows "strip token = [] \<or> (\<forall>c \<in> set (db_credentials d). \<not> (active_credential now c \<and> bearer_of h (strip token) c))"
  using assms
  by (auto simp: resolve_credential_by_token_def normalize_token_def Let_def bearer_of_def active_query_None
           split: option.splits prod.splits if_splits)

lemma resolve_context_sound:
  assumes "resolve_access_context h token now d = (Some ctx, d')"
  shows "\<exists>c0 \<in> set (db_credentials d). active_credential now c0 \<and> bearer_of h (normalize_token token) c0 \<and>
           crd_id (ctx_credential ctx) = crd_id c0 \<and> crd_type (ctx_credential ctx) = crd_type c0 \<and>
           crd_grant_id (ctx_credential ctx) = crd_grant_id c0 \<and>
           crd_principal_id (ctx_credential ctx) = crd_principal_id c0 \<and>
           ctx_scopes ctx = parse_scopes (crd_scopes_json c0) \<and>
           ctx_principal ctx = get_principal (crd_principal_id c0) d \<and>
           (crd_type c0 = AgentToken \<longrightarrow> service_principal_is_active (crd_principal_id c0) d)"
proof -
  define n where "n = normalize_token token"
  have s: "strip n = n" by (simp add: n_def normalize_token_def)
  obtain c d1 where r: "resolve_credential_by_token h n now d = (Some c, d1)"
    and rest: "\<not> (crd_type c = AgentToken \<and> \<not> service_principal_is_active (crd_principal_id c) d1)"
      "ctx_credential ctx = c" "ctx_scopes ctx = parse_scopes (crd_scopes_json c)"
      "ctx_principal ctx = get_principal (crd_principal_id c) d1"
    using assms
    by (auto simp: resolve_access_context_def n_def Let_def split: if_splits option.splits prod.splits)
  from resolve_by_token_sound [OF r] obtain c0 where
    c0: "c0 \<in> set (db_credentials d)" "active_credential now c0" "bearer_of h n c0"
      "mark_credential_used c0 now d = (c, d1)"
    by (auto simp: s)
  show ?thesis
    using c0 rest mark_used_frame [OF c0(4)]
    by (intro bexI [OF _ c0(1)])
       (auto simp: n_def service_principal_is_active_def get_service_principal_def get_principal_def
             split: option.splits)
qed

lemma revoke_where_active:
  "c \<in> set (db_credentials (revoke_where p t d)) \<Longrightarrow> crd_revoked_at c = None \<Longrightarrow>
     c \<in> set (db_credentials d) \<and> \<not> p c"
  by (auto simp: revoke_where_def row_update_def split: if_splits)

section \<open>Properties\<close>

text \<open>C4. A bearer token authenticates only a credential that is unrevoked, unexpired, of a bearer
  type and stored under the token's hash; an agent token only while the agent is active; and
  the scopes and principal of the request are the credential's own.\<close>

theorem access_context_sound:
  assumes "resolve_access_context sha256_hex token now d = (Some ctx, d')"
  shows "\<exists>c \<in> set (db_credentials d).
           crd_id (ctx_credential ctx) = crd_id c \<and>
           crd_revoked_at c = None \<and> (\<forall>t. crd_expires_at c = Some t \<longrightarrow> now < t) \<and>
           crd_type c \<in> set bearer_credential_types \<and>
           crd_hashed_secret c = hash_token sha256_hex (normalize_token token) \<and>
           ctx_scopes ctx = parse_scopes (crd_scopes_json c) \<and>
           ctx_principal ctx = get_principal (crd_principal_id c) d \<and>
           (crd_type c = AgentToken \<longrightarrow> service_principal_is_active (crd_principal_id c) d)"
  using resolve_context_sound [OF assms]
  by (auto simp: active_credential_def bearer_of_def split: option.splits)

definition token_db :: db where
  "token_db = empty_db\<lparr>
     db_principals := [\<lparr>prn_id = 1, prn_kind = ServiceKind, prn_slug = ''bot'', prn_display_name = ''Bot'', prn_updated_at = 0\<rparr>],
     db_services := [\<lparr>svc_id = 1, svc_principal_id = 1, svc_slug = ''bot'', svc_description = [],
        svc_enrollment_id = None, svc_state = AgentActive, svc_policy_json = NotJson [],
        svc_approved_at = None, svc_suspended_at = None, svc_revoked_at = None\<rparr>],
     db_credentials := [(new_credential empty_db)\<lparr>crd_principal_id := Some 1, crd_type := AgentToken,
        crd_hashed_secret := ''sha256:xxx'', crd_scopes_json := encode_scopes [''authoring:write''],
        crd_expires_at := Some 100\<rparr>]\<rparr>"

definition toy_hash :: "string \<Rightarrow> string" where
  "toy_hash s = map (\<lambda>_. CHR ''x'') s"

lemma token_db_resolves:
  "\<not> Option.is_none (fst (resolve_access_context toy_hash (Some '' abc '') 50 token_db))"
  by code_simp

lemma access_context_sound_witness:
  "\<exists>c \<in> set (db_credentials token_db). crd_revoked_at c = None \<and> crd_type c \<in> set bearer_credential_types"
proof -
  obtain ctx d' where "resolve_access_context toy_hash (Some '' abc '') 50 token_db = (Some ctx, d')"
    using token_db_resolves
    by (cases "resolve_access_context toy_hash (Some '' abc '') 50 token_db")
       (auto simp: Option.is_none_def)
  from access_context_sound [OF this] show ?thesis by blast
qed

text \<open>C10. Revoking a principal's credentials takes effect at once and for good: whatever token
  is presented afterwards, at whatever time, no request is authenticated as that principal
  (with the revoked types; with no type given, with any).\<close>

theorem revoked_principal_locked_out:
  assumes "resolve_access_context sha256_hex token later
             (snd (revoke_principal_credentials p types now d)) = (Some ctx, d')"
    and "types = [] \<or> crd_type (ctx_credential ctx) \<in> set types"
  shows "crd_principal_id (ctx_credential ctx) \<noteq> Some p"
proof -
  obtain c where c: "c \<in> set (db_credentials (snd (revoke_principal_credentials p types now d)))"
    "active_credential later c" "crd_principal_id (ctx_credential ctx) = crd_principal_id c"
    "crd_type (ctx_credential ctx) = crd_type c"
    using resolve_context_sound [OF assms(1)] by blast
  then show ?thesis
    using revoke_where_active [OF c(1) [unfolded revoke_principal_credentials_def Let_def snd_conv]] assms(2)
    by (auto simp: active_credential_def)
qed

definition other_token_db :: db where
  "other_token_db = token_db\<lparr>db_credentials := db_credentials token_db @
     [(new_credential token_db)\<lparr>crd_principal_id := Some 2, crd_type := PersonalToken,
        crd_hashed_secret := ''sha256:xx'', crd_scopes_json := encode_scopes user_scopes\<rparr>]\<rparr>"

lemma other_token_resolves:
  "\<not> Option.is_none (fst (resolve_access_context toy_hash (Some ''ab'') 60
      (snd (revoke_principal_credentials 1 [] 55 other_token_db))))"
  by code_simp

lemma revoked_principal_locked_out_witness:
  "\<exists>ctx. crd_principal_id (ctx_credential ctx) \<noteq> Some 1 \<and>
     fst (resolve_access_context toy_hash (Some ''ab'') 60
      (snd (revoke_principal_credentials 1 [] 55 other_token_db))) = Some ctx"
proof -
  obtain ctx d' where r: "resolve_access_context toy_hash (Some ''ab'') 60
      (snd (revoke_principal_credentials 1 [] 55 other_token_db)) = (Some ctx, d')"
    using other_token_resolves
    by (cases "resolve_access_context toy_hash (Some ''ab'') 60
      (snd (revoke_principal_credentials 1 [] 55 other_token_db))")
       (auto simp: Option.is_none_def)
  from revoked_principal_locked_out [OF r] r show ?thesis by auto
qed

text \<open>Signing in leaves exactly one session of the principal: the fresh one; every earlier
  session, and every personal token that stood for one, is revoked.\<close>

theorem fresh_session_is_the_only_one:
  assumes "create_fresh_session_credential p token now d = (c, d')"
  shows "filter (session_of p) (db_credentials d') = [c] \<and>
         length (db_credentials d') = length (db_credentials d) + 1"
proof -
  have "filter (session_of p) (row_update (session_of p) (\<lambda>c. c\<lparr>crd_revoked_at := Some now\<rparr>) cs) = []" for cs
    by (induction cs) (auto simp: row_update_def session_of_def)
  then show ?thesis
    using assms
    by (auto simp: create_fresh_session_credential_def Let_def revoke_where_def session_of_def
                   new_credential_def row_update_def)
qed

lemma fresh_session_is_the_only_one_witness:
  "length (filter (session_of 1) (db_credentials
      (snd (create_fresh_session_credential 1 ''t2'' 5 (snd (create_fresh_session_credential 1 ''t1'' 0 token_db)))))) = 1"
  using fresh_session_is_the_only_one [of 1 "''t2''" 5 "snd (create_fresh_session_credential 1 ''t1'' 0 token_db)"]
  by (metis length_Cons list.size(3) One_nat_def prod.collapse)

end
