(* ===== verification/RateLimit.thy ===== *)
theory RateLimit
  imports ServerDb "HOL-Library.AList"
begin

text \<open>
  Rate limiting, \<open>server/rate_limit.py\<close>: the abstract limiter as an interface, the in-memory
  sliding window, and the fixed window kept in the \<open>rate_limit_entries\<close> table.
\<close>

section \<open>The abstract limiter\<close>

text \<open>
  \<open>consume\<close> answers whether the attempt is within the limit and records it when it is;
  \<open>used s k w now\<close> is the number of attempts the limiter counts against \<open>k\<close> at that time.
\<close>

locale rate_limiter =
  fixes consume :: "string \<Rightarrow> int \<Rightarrow> int \<Rightarrow> time \<Rightarrow> 's \<Rightarrow> bool \<times> 's"
    and used :: "'s \<Rightarrow> string \<Rightarrow> int \<Rightarrow> time \<Rightarrow> int"
    and inv :: "'s \<Rightarrow> bool"
    and window_ok :: "int \<Rightarrow> bool"
  assumes consume_inv: "inv s \<Longrightarrow> inv (snd (consume k m w now s))"
    and consume_iff: "inv s \<Longrightarrow> window_ok w \<Longrightarrow> fst (consume k m w now s) \<longleftrightarrow> used s k w now < m"
    and consume_records:
      "inv s \<Longrightarrow> window_ok w \<Longrightarrow> used s k w now < m \<Longrightarrow>
         used (snd (consume k m w now s)) k w now = used s k w now + 1"
    and consume_other:
      "inv s \<Longrightarrow> window_ok w \<Longrightarrow> k' \<noteq> k \<Longrightarrow>
         used (snd (consume k m w now s)) k' w now = used s k' w now"
    and used_nonneg: "inv s \<Longrightarrow> 0 \<le> used s k w now"
    and denied_keeps: "inv s \<Longrightarrow> window_ok w \<Longrightarrow> m \<le> used s k w now \<Longrightarrow>
         used (snd (consume k m w now s)) k' w now = used s k' w now"
begin

fun burst :: "nat \<Rightarrow> string \<Rightarrow> int \<Rightarrow> int \<Rightarrow> time \<Rightarrow> 's \<Rightarrow> nat \<times> 's" where
  "burst 0 k m w now s = (0, s)"
| "burst (Suc n) k m w now s =
     (let (ok, s') = consume k m w now s; (c, s'') = burst n k m w now s'
      in ((if ok then Suc c else c), s''))"

text \<open>A burst of \<open>n\<close> simultaneous attempts is admitted up to the capacity that is left.\<close>

lemma burst_admits:
  assumes "inv s" and "window_ok w"
  shows "int (fst (burst n k m w now s)) = min (int n) (max 0 (m - used s k w now))"
  using assms(1)
proof (induction n arbitrary: s)
  case 0
  then show ?case by simp
next
  case (Suc n)
  let ?s' = "snd (consume k m w now s)"
  obtain ok s' where c: "consume k m w now s = (ok, s')" by fastforce
  have inv': "inv s'" using consume_inv [OF Suc.prems, of k m w now] c by simp
  have ih: "int (fst (burst n k m w now s')) = min (int n) (max 0 (m - used s' k w now))"
    by (rule Suc.IH [OF inv'])
  show ?case
  proof (cases "used s k w now < m")
    case True
    have "ok" using consume_iff [OF Suc.prems assms(2), of k m now] True c by simp
    moreover have "used s' k w now = used s k w now + 1"
      using consume_records [OF Suc.prems assms(2) True] c by simp
    moreover obtain n' s'' where b: "burst n k m w now s' = (n', s'')" by fastforce
    ultimately show ?thesis using ih True by (simp add: c)
  next
    case False
    have "\<not> ok" using consume_iff [OF Suc.prems assms(2), of k m now] False c by simp
    moreover have "used s' k w now = used s k w now"
      using denied_keeps [OF Suc.prems assms(2), of m k now k] False c by simp
    ultimately show ?thesis using ih False by (simp add: c split: prod.splits)
  qed
qed

lemma burst_bounded:
  assumes "inv s" and "window_ok w" and "0 \<le> m"
  shows "int (fst (burst n k m w now s)) \<le> m"
  using burst_admits [OF assms(1,2), of n k m now] used_nonneg [OF assms(1), of k w now] assms(3)
  by linarith

end

section \<open>The in-memory sliding window\<close>

record memory_limiter =
  mem_attempts :: "(string \<times> time list) list"
  mem_total :: nat

definition prune_threshold :: nat where
  "prune_threshold = 10000"

definition mem_init :: memory_limiter where
  "mem_init = \<lparr>mem_attempts = [], mem_total = 0\<rparr>"

definition attempts_of :: "memory_limiter \<Rightarrow> string \<Rightarrow> time list" where
  "attempts_of s k = (case map_of (mem_attempts s) k of None \<Rightarrow> [] | Some ts \<Rightarrow> ts)"

definition prune_all_stale :: "time \<Rightarrow> memory_limiter \<Rightarrow> memory_limiter" where
  "prune_all_stale now s =
     (let surviving = filter (\<lambda>(k, fresh). fresh \<noteq> [])
            (map (\<lambda>(k, ts). (k, filter (\<lambda>t. t > now - seconds 3600) ts)) (mem_attempts s))
      in \<lparr>mem_attempts = surviving,
          mem_total = sum_list (map (\<lambda>(k, fresh). length fresh) surviving)\<rparr>)"

definition maybe_prune :: "time \<Rightarrow> memory_limiter \<Rightarrow> memory_limiter" where
  "maybe_prune now s = (if mem_total s > prune_threshold then prune_all_stale now s else s)"

definition mem_check :: "string \<Rightarrow> int \<Rightarrow> int \<Rightarrow> time \<Rightarrow> memory_limiter \<Rightarrow> bool" where
  "mem_check k max_attempts window_seconds now s =
     (let cutoff = now - seconds window_seconds
      in int (length (filter (\<lambda>t. t > cutoff) (attempts_of s k))) < max_attempts)"

definition mem_record :: "string \<Rightarrow> time \<Rightarrow> memory_limiter \<Rightarrow> memory_limiter" where
  "mem_record k now s =
     maybe_prune now
       (s\<lparr>mem_attempts := AList.update k (attempts_of s k @ [now]) (mem_attempts s),
          mem_total := mem_total s + 1\<rparr>)"

definition mem_consume :: "string \<Rightarrow> int \<Rightarrow> int \<Rightarrow> time \<Rightarrow> memory_limiter \<Rightarrow> bool \<times> memory_limiter" where
  "mem_consume k max_attempts window_seconds now s =
     (if \<not> mem_check k max_attempts window_seconds now s then (False, s)
      else (True, mem_record k now s))"

definition mem_reset :: "string \<Rightarrow> memory_limiter \<Rightarrow> memory_limiter" where
  "mem_reset k s =
     s\<lparr>mem_attempts := AList.delete k (mem_attempts s),
       mem_total := mem_total s - length (attempts_of s k)\<rparr>"

definition mem_reset_all :: "memory_limiter \<Rightarrow> memory_limiter" where
  "mem_reset_all s = \<lparr>mem_attempts = [], mem_total = 0\<rparr>"

text \<open>The counter agrees with the lists it summarises.\<close>

definition mem_ok :: "memory_limiter \<Rightarrow> bool" where
  "mem_ok s \<longleftrightarrow> distinct (map fst (mem_attempts s)) \<and>
     mem_total s = sum_list (map (\<lambda>(k, ts). length ts) (mem_attempts s))"

definition mem_used :: "memory_limiter \<Rightarrow> string \<Rightarrow> int \<Rightarrow> time \<Rightarrow> int" where
  "mem_used s k w now = int (length (filter (\<lambda>t. t > now - seconds w) (attempts_of s k)))"

lemma map_of_filter_fresh:
  assumes "distinct (map fst al)"
  shows "(case map_of (filter (\<lambda>(k, fresh). fresh \<noteq> []) (map (\<lambda>(k, ts). (k, f ts)) al)) k of
            None \<Rightarrow> [] | Some ts \<Rightarrow> ts) = (case map_of al k of None \<Rightarrow> [] | Some ts \<Rightarrow> f ts)"
  using assms
proof (induction al)
  case Nil
  then show ?case by simp
next
  case (Cons p al)
  obtain a ts where p: "p = (a, ts)" by fastforce
  have "map_of (filter (\<lambda>(k, fresh). fresh \<noteq> []) (map (\<lambda>(k, ts). (k, f ts)) al)) a = None"
    using Cons.prems p by (force simp: map_of_eq_None_iff)
  with Cons p show ?case by auto
qed

lemma attempts_of_prune:
  "mem_ok s \<Longrightarrow> attempts_of (prune_all_stale now s) k =
     filter (\<lambda>t. t > now - seconds 3600) (attempts_of s k)"
  unfolding prune_all_stale_def attempts_of_def Let_def mem_ok_def
  by (simp add: map_of_filter_fresh split: option.split)

lemma distinct_filter_values:
  assumes "distinct (map fst al)"
  shows "distinct (map fst (filter P (map (\<lambda>(k, ts). (k, f ts)) al)))"
proof (rule distinct_map_filter)
  have "map fst (map (\<lambda>(k, ts). (k, f ts)) al) = map fst al" by (induction al) auto
  with assms show "distinct (map fst (map (\<lambda>(k, ts). (k, f ts)) al))" by (simp only:)
qed

lemma prune_ok: "mem_ok s \<Longrightarrow> mem_ok (prune_all_stale now s)"
  by (simp add: mem_ok_def prune_all_stale_def Let_def distinct_filter_values)

lemma sum_list_update:
  "distinct (map fst al) \<Longrightarrow>
     sum_list (map (\<lambda>(k, ts). length ts) (AList.update a us al)) +
       length (case map_of al a of None \<Rightarrow> [] | Some ts \<Rightarrow> ts)
     = sum_list (map (\<lambda>(k, ts). length ts) al) + length us"
  by (induction al) auto

lemma sum_list_delete:
  "distinct (map fst al) \<Longrightarrow>
     sum_list (map (\<lambda>(k, ts). length ts) (AList.delete a al)) +
       length (case map_of al a of None \<Rightarrow> [] | Some ts \<Rightarrow> ts)
     = sum_list (map (\<lambda>(k, ts). length ts) al)"
proof (induction al)
  case Nil
  then show ?case by (simp add: AList.delete_eq)
next
  case (Cons p al)
  obtain b ts where p: "p = (b, ts)" by fastforce
  show ?case
  proof (cases "a = b")
    case True
    with Cons.prems p have "a \<notin> fst ` set al" by simp
    then have "AList.delete a al = al" by simp
    with True p show ?thesis by (simp add: AList.delete_eq)
  next
    case False
    with Cons p show ?thesis by (auto simp: AList.delete_eq)
  qed
qed

definition mem_appended :: "string \<Rightarrow> time \<Rightarrow> memory_limiter \<Rightarrow> memory_limiter" where
  "mem_appended k now s =
     s\<lparr>mem_attempts := AList.update k (attempts_of s k @ [now]) (mem_attempts s),
       mem_total := mem_total s + 1\<rparr>"

lemma mem_record_appended: "mem_record k now s = maybe_prune now (mem_appended k now s)"
  by (simp add: mem_record_def mem_appended_def)

lemma mem_appended_ok: "mem_ok s \<Longrightarrow> mem_ok (mem_appended k now s)"
  using sum_list_update [of "mem_attempts s" k "attempts_of s k @ [now]"]
  by (auto simp: mem_ok_def mem_appended_def attempts_of_def distinct_update split: option.splits)

lemma attempts_of_appended:
  "attempts_of (mem_appended k now s) k' =
     (if k' = k then attempts_of s k @ [now] else attempts_of s k')"
  by (simp add: attempts_of_def mem_appended_def update_conv)

lemma maybe_prune_ok: "mem_ok s \<Longrightarrow> mem_ok (maybe_prune now s)"
  by (simp add: maybe_prune_def prune_ok)

lemma mem_record_ok: "mem_ok s \<Longrightarrow> mem_ok (mem_record k now s)"
  by (simp add: mem_record_appended maybe_prune_ok mem_appended_ok)

lemma mem_consume_ok: "mem_ok s \<Longrightarrow> mem_ok (snd (mem_consume k m w now s))"
  by (simp add: mem_consume_def mem_record_ok)

lemma mem_reset_ok: "mem_ok s \<Longrightarrow> mem_ok (mem_reset k s)"
  using sum_list_delete [of "mem_attempts s" k]
  by (auto simp: mem_ok_def mem_reset_def attempts_of_def distinct_delete split: option.splits)

text \<open>Pruning forgets nothing a window of at most one hour still counts.\<close>

lemma mem_used_prune:
  assumes "mem_ok s" and "w \<le> 3600" and "now \<le> later"
  shows "mem_used (maybe_prune now s) k w later = mem_used s k w later"
proof -
  have "filter (\<lambda>t. t > later - seconds w) (filter (\<lambda>t. t > now - seconds 3600) ts) =
        filter (\<lambda>t. t > later - seconds w) ts" for ts
  proof -
    have "later - seconds w < t \<Longrightarrow> now - seconds 3600 < t" for t
      using assms(2,3) by (simp add: seconds_def)
    then show ?thesis by (auto intro: filter_cong)
  qed
  with assms(1) show ?thesis
    by (simp add: maybe_prune_def mem_used_def attempts_of_prune)
qed

interpretation memory: rate_limiter mem_consume mem_used mem_ok "\<lambda>w. 0 < w \<and> w \<le> 3600"
proof unfold_locales
  fix s :: memory_limiter and k :: string and m w :: int and now :: time
  show "mem_ok s \<Longrightarrow> mem_ok (snd (mem_consume k m w now s))" by (rule mem_consume_ok)
next
  fix s :: memory_limiter and k :: string and m w :: int and now :: time
  assume "mem_ok s"
  show "fst (mem_consume k m w now s) = (mem_used s k w now < m)"
    by (simp add: mem_consume_def mem_check_def mem_used_def)
next
  fix s :: memory_limiter and k :: string and m w :: int and now :: time
  assume "mem_ok s" and "0 < w \<and> w \<le> 3600" and "mem_used s k w now < m"
  then show "mem_used (snd (mem_consume k m w now s)) k w now = mem_used s k w now + 1"
    by (simp add: mem_consume_def mem_check_def mem_used_def [symmetric] mem_record_appended
                  mem_used_prune mem_appended_ok)
       (simp add: mem_used_def attempts_of_appended seconds_def)
next
  fix s :: memory_limiter and k k' :: string and m w :: int and now :: time
  assume "mem_ok s" and "0 < w \<and> w \<le> 3600" and "k' \<noteq> k"
  then show "mem_used (snd (mem_consume k m w now s)) k' w now = mem_used s k' w now"
    by (simp add: mem_consume_def mem_record_appended mem_used_prune mem_appended_ok)
       (simp add: mem_used_def attempts_of_appended)
next
  fix s :: memory_limiter and k :: string and w :: int and now :: time
  show "0 \<le> mem_used s k w now" by (simp add: mem_used_def)
next
  fix s :: memory_limiter and k k' :: string and m w :: int and now :: time
  assume "m \<le> mem_used s k w now"
  then show "mem_used (snd (mem_consume k m w now s)) k' w now = mem_used s k' w now"
    by (simp add: mem_consume_def mem_check_def mem_used_def)
qed

text \<open>
  A client that calls \<open>consume\<close> for one key, with the same limit and window, at times that
  never go back: \<open>mem_run\<close> also collects the times of the admitted calls.
\<close>

fun mem_run :: "string \<Rightarrow> int \<Rightarrow> int \<Rightarrow> time list \<Rightarrow> memory_limiter \<Rightarrow> time list \<times> memory_limiter" where
  "mem_run k m w [] s = ([], s)"
| "mem_run k m w (t # ts) s =
     (let (ok, s') = mem_consume k m w t s; (adm, s'') = mem_run k m w ts s'
      in (if ok then t # adm else adm, s''))"

definition in_window :: "int \<Rightarrow> time \<Rightarrow> time list \<Rightarrow> nat" where
  "in_window w u ts = length (filter (\<lambda>t. u - seconds w < t \<and> t \<le> u) ts)"

lemma in_window_append [simp]: "in_window w u (xs @ ys) = in_window w u xs + in_window w u ys"
  by (simp add: in_window_def)

text \<open>What the limiter remembers and what was admitted so far agree on every later window.\<close>

definition tracks :: "string \<Rightarrow> int \<Rightarrow> int \<Rightarrow> time \<Rightarrow> time list \<Rightarrow> memory_limiter \<Rightarrow> bool" where
  "tracks k m w now adm s \<longleftrightarrow> mem_ok s \<and> (\<forall>t \<in> set adm. t \<le> now) \<and>
     (\<forall>later \<ge> now. mem_used s k w later = int (in_window w later adm)) \<and>
     (\<forall>u. int (in_window w u adm) \<le> m)"

lemma in_window_later:
  "\<lbrakk>\<forall>t \<in> set adm. t \<le> now; now \<le> u\<rbrakk> \<Longrightarrow> in_window w u adm \<le> in_window w now adm"
  unfolding in_window_def by (induction adm) auto

lemma tracks_consume:
  assumes tr: "tracks k m w now adm s" and w: "0 < w" "w \<le> 3600" and t: "now \<le> t"
  shows "tracks k m w t (if fst (mem_consume k m w t s) then adm @ [t] else adm)
           (snd (mem_consume k m w t s))"
proof (cases "mem_used s k w t < m")
  case False
  with tr t show ?thesis
    by (auto simp: mem_consume_def mem_check_def mem_used_def tracks_def)
next
  case True
  have c: "mem_consume k m w t s = (True, mem_record k t s)"
    using True by (simp add: mem_consume_def mem_check_def mem_used_def)
  have ok: "mem_ok s" and le: "\<forall>x \<in> set adm. x \<le> now" and
    used: "\<And>later. now \<le> later \<Longrightarrow> mem_used s k w later = int (in_window w later adm)" and
    bound: "\<And>u. int (in_window w u adm) \<le> m"
    using tr by (auto simp: tracks_def)
  have "mem_used (mem_record k t s) k w later = int (in_window w later (adm @ [t]))"
    if "t \<le> later" for later
  proof -
    have "mem_used (mem_record k t s) k w later = mem_used (mem_appended k t s) k w later"
      using ok w that by (simp add: mem_record_appended mem_used_prune mem_appended_ok)
    also have "\<dots> = mem_used s k w later + (if later - seconds w < t then 1 else 0)"
      by (simp add: mem_used_def attempts_of_appended)
    finally show ?thesis using used [of later] t that by (simp add: in_window_def)
  qed
  moreover have "int (in_window w u (adm @ [t])) \<le> m" for u
  proof (cases "t \<le> u")
    case False
    then show ?thesis using bound [of u] by (simp add: in_window_def)
  next
    case True
    have "\<forall>x \<in> set adm. x \<le> t" using le t by auto
    then have "in_window w u adm \<le> in_window w t adm" using True by (rule in_window_later)
    moreover have "int (in_window w t adm) < m" using used [OF t] \<open>mem_used s k w t < m\<close> by simp
    moreover have "in_window w u [t] \<le> 1" by (simp add: in_window_def)
    ultimately show ?thesis by simp
  qed
  moreover have "\<forall>x \<in> set (adm @ [t]). x \<le> t" using le t by auto
  ultimately show ?thesis using ok by (simp add: tracks_def c mem_record_ok)
qed

lemma mem_run_tracks:
  assumes "tracks k m w now adm s" and "0 < w" "w \<le> 3600" and "sorted (now # ts)"
  shows "\<exists>now'. tracks k m w now' (adm @ fst (mem_run k m w ts s)) (snd (mem_run k m w ts s))"
  using assms
proof (induction ts arbitrary: now adm s)
  case Nil
  then show ?case by auto
next
  case (Cons t ts)
  obtain ok s' where c: "mem_consume k m w t s = (ok, s')" by fastforce
  obtain a s'' where r: "mem_run k m w ts s' = (a, s'')" by fastforce
  have "tracks k m w t (if ok then adm @ [t] else adm) s'"
    using tracks_consume [OF Cons.prems(1-3), of t] Cons.prems(4) c by simp
  from Cons.IH [OF this Cons.prems(2,3)] Cons.prems(4) show ?case
    by (auto simp: c r split: if_splits)
qed

lemma mem_init_tracks: "0 \<le> m \<Longrightarrow> tracks k m w now [] mem_init"
  by (simp add: tracks_def mem_init_def mem_ok_def mem_used_def attempts_of_def in_window_def)

section \<open>The fixed window in the database\<close>

definition window_start :: "int \<Rightarrow> time \<Rightarrow> time" where
  "window_start window_seconds now =
     (let epoch = now div 1000000 in seconds (epoch - epoch mod window_seconds))"

definition find_entry :: "string \<Rightarrow> rate_entry list \<Rightarrow> rate_entry option" where
  "find_entry k t = find (\<lambda>e. rte_key e = k) t"

definition prune_before :: "time \<Rightarrow> rate_entry list \<Rightarrow> rate_entry list" where
  "prune_before limit t = filter (\<lambda>e. \<not> rte_window_start e < limit) t"

definition db_check :: "string \<Rightarrow> int \<Rightarrow> int \<Rightarrow> time \<Rightarrow> db \<Rightarrow> bool \<times> db" where
  "db_check k max_attempts window_seconds now d =
     (let cutoff = now - seconds window_seconds;
          kept = prune_before cutoff (db_rates d);
          total = sum_list (map rte_attempts
                    (filter (\<lambda>e. rte_key e = k \<and> rte_window_start e \<ge> cutoff) kept))
      in (total < max_attempts, d\<lparr>db_rates := kept\<rparr>))"

definition db_record :: "string \<Rightarrow> time \<Rightarrow> db \<Rightarrow> db" where
  "db_record k now d =
     (case find_entry k (db_rates d) of
        Some e \<Rightarrow> d\<lparr>db_rates := row_set rte_id (e\<lparr>rte_attempts := rte_attempts e + 1\<rparr>) (db_rates d)\<rparr>
      | None \<Rightarrow>
          d\<lparr>db_rates := db_rates d @
              [\<lparr>rte_id = next_id rte_id (db_rates d), rte_key = k,
                rte_window_start = window_start 1 now, rte_attempts = 1\<rparr>]\<rparr>)"

definition db_reset :: "string \<Rightarrow> db \<Rightarrow> db" where
  "db_reset k d = d\<lparr>db_rates := filter (\<lambda>e. rte_key e \<noteq> k) (db_rates d)\<rparr>"

definition db_reset_all :: "db \<Rightarrow> db" where
  "db_reset_all d = d\<lparr>db_rates := []\<rparr>"

text \<open>The upsert of \<open>_build_consume_statement\<close>: the rows it leaves and whether it changed one.\<close>

definition consume_statement ::
    "string \<Rightarrow> time \<Rightarrow> time \<Rightarrow> int \<Rightarrow> rate_entry list \<Rightarrow> bool \<times> rate_entry list" where
  "consume_statement k now cutoff max_attempts t =
     (case find_entry k t of
        None \<Rightarrow>
          (True, t @ [\<lparr>rte_id = next_id rte_id t, rte_key = k, rte_window_start = now,
                       rte_attempts = 1\<rparr>])
      | Some e \<Rightarrow>
          if rte_window_start e < cutoff \<or> rte_attempts e < max_attempts then
            (True, row_update (\<lambda>r. rte_key r = k)
                     (\<lambda>r. r\<lparr>rte_attempts := (if rte_window_start r < cutoff then 1 else rte_attempts r + 1),
                            rte_window_start := (if rte_window_start r < cutoff then now
                                                 else rte_window_start r)\<rparr>) t)
          else (False, t))"

definition db_consume :: "string \<Rightarrow> int \<Rightarrow> int \<Rightarrow> time \<Rightarrow> db \<Rightarrow> bool \<times> db" where
  "db_consume k max_attempts window_seconds now d =
     (if max_attempts \<le> 0 then (False, d)
      else
        let cutoff = now - seconds window_seconds;
            kept = prune_before (now - seconds (window_seconds * 2)) (db_rates d);
            (ok, t) = consume_statement k now cutoff max_attempts kept
        in (ok, d\<lparr>db_rates := t\<rparr>))"

definition db_used :: "db \<Rightarrow> string \<Rightarrow> int \<Rightarrow> time \<Rightarrow> int" where
  "db_used d k w now =
     (case find_entry k (db_rates d) of
        None \<Rightarrow> 0
      | Some e \<Rightarrow> if rte_window_start e < now - seconds w then 0 else rte_attempts e)"

text \<open>The unique key of the table, and that a row stands for at least one attempt.\<close>

definition rates_ok :: "db \<Rightarrow> bool" where
  "rates_ok d \<longleftrightarrow> rows_ok rte_id (db_rates d) \<and> distinct (map rte_key (db_rates d)) \<and>
     (\<forall>e \<in> set (db_rates d). 1 \<le> rte_attempts e)"

lemma find_entry_Some: "find_entry k t = Some e \<Longrightarrow> e \<in> set t \<and> rte_key e = k"
  by (induction t) (auto simp: find_entry_def split: if_splits)

lemma find_entry_None: "find_entry k t = None \<longleftrightarrow> k \<notin> rte_key ` set t"
  by (induction t) (auto simp: find_entry_def)

lemma find_entry_append:
  "find_entry k (t @ u) = (case find_entry k t of None \<Rightarrow> find_entry k u | Some e \<Rightarrow> Some e)"
  by (induction t) (auto simp: find_entry_def)

lemma find_entry_single: "find_entry k [e] = (if rte_key e = k then Some e else None)"
  by (simp add: find_entry_def)

lemma find_entry_update:
  assumes "\<And>r. rte_key (f r) = rte_key r"
  shows "find_entry k' (row_update (\<lambda>r. rte_key r = k) f t) =
           (if k' = k then map_option f (find_entry k' t) else find_entry k' t)"
  using assms by (induction t) (auto simp: find_entry_def row_update_def)

lemma find_entry_prune:
  "distinct (map rte_key t) \<Longrightarrow>
     find_entry k (prune_before limit t) =
       (case find_entry k t of
          None \<Rightarrow> None
        | Some e \<Rightarrow> if rte_window_start e < limit then None else Some e)"
proof (induction t)
  case Nil
  then show ?case by (simp add: find_entry_def prune_before_def)
next
  case (Cons e t)
  have "find_entry (rte_key e) t = None"
    using Cons.prems by (simp add: find_entry_None)
  with Cons show ?case by (auto simp: find_entry_def prune_before_def)
qed

lemmas find_entry_simps =
  find_entry_append find_entry_single find_entry_update find_entry_prune

lemma rates_ok_keys: "rates_ok d \<Longrightarrow> distinct (map rte_key (db_rates d))"
  by (simp add: rates_ok_def)

lemma db_used_nonneg: "rates_ok d \<Longrightarrow> 0 \<le> db_used d k w now"
  by (fastforce simp: rates_ok_def db_used_def split: option.split dest: find_entry_Some)

lemma prune_rates_ok:
  "rates_ok d \<Longrightarrow> rates_ok (d\<lparr>db_rates := prune_before limit (db_rates d)\<rparr>)"
  by (auto simp: rates_ok_def prune_before_def rows_ok_def distinct_map_filter)

lemma consume_statement_ok:
  assumes "rates_ok (d\<lparr>db_rates := t\<rparr>)"
  shows "rates_ok (d\<lparr>db_rates := snd (consume_statement k now cutoff m t)\<rparr>)"
proof (cases "find_entry k t")
  case None
  then have "rte_key r \<noteq> k" if "r \<in> set t" for r
    using that by (auto simp: find_entry_None)
  with None assms show ?thesis
    by (auto simp: consume_statement_def rates_ok_def intro!: rows_ok_insert)
next
  case (Some e)
  have k: "map rte_key (row_update p f t) = map rte_key t" if "\<And>r. rte_key (f r) = rte_key r" for p f
    using that by (rule row_update_ids)
  show ?thesis
    using assms Some
    by (auto simp: consume_statement_def rates_ok_def k intro!: rows_ok_update)
       (auto simp: row_update_def split: if_splits)
qed

lemma db_consume_ok: "rates_ok d \<Longrightarrow> rates_ok (snd (db_consume k m w now d))"
  using consume_statement_ok [OF prune_rates_ok]
  by (auto simp: db_consume_def Let_def split: prod.split) (metis snd_conv)

text \<open>
  What a call leaves of the window of any key: its own is opened or incremented when the
  attempt is admitted, every other one survives unless it is older than twice the caller's
  window.
\<close>

lemma db_consume_entry:
  assumes "rates_ok d" and "0 < m" and "0 < w"
  shows "find_entry k' (db_rates (snd (db_consume k m w now d))) =
     (case find_entry k' (db_rates d) of
        None \<Rightarrow> if k' = k then Some \<lparr>rte_id = next_id rte_id (prune_before (now - seconds (w * 2)) (db_rates d)),
                                     rte_key = k, rte_window_start = now, rte_attempts = 1\<rparr> else None
      | Some e \<Rightarrow>
          if rte_window_start e < now - seconds (w * 2) then
            (if k' = k then Some \<lparr>rte_id = next_id rte_id (prune_before (now - seconds (w * 2)) (db_rates d)),
                                  rte_key = k, rte_window_start = now, rte_attempts = 1\<rparr> else None)
          else if k' \<noteq> k then Some e
          else if rte_window_start e < now - seconds w
               then Some (e\<lparr>rte_attempts := 1, rte_window_start := now\<rparr>)
          else if rte_attempts e < m then Some (e\<lparr>rte_attempts := rte_attempts e + 1\<rparr>)
          else Some e)"
  using assms(2,3) rates_ok_keys [OF assms(1)]
  by (auto simp: db_consume_def Let_def consume_statement_def find_entry_simps
           split: option.splits if_splits)

lemma db_consume_admits:
  assumes "rates_ok d" and "0 < w"
  shows "fst (db_consume k m w now d) \<longleftrightarrow> db_used d k w now < m"
proof (cases "m \<le> 0")
  case True
  with db_used_nonneg [OF assms(1), of k w now] show ?thesis by (simp add: db_consume_def)
next
  case False
  with assms(2) rates_ok_keys [OF assms(1)] show ?thesis
    by (auto simp: db_consume_def Let_def consume_statement_def find_entry_simps db_used_def seconds_def
             split: option.splits if_splits)
qed

lemma db_used_consume:
  assumes "rates_ok d" and "0 < m" and "0 < w"
  shows "db_used (snd (db_consume k m w now d)) k' w now =
     (if k' = k \<and> db_used d k w now < m then db_used d k w now + 1 else db_used d k' w now)"
  using assms(2,3) db_used_nonneg [OF assms(1), of k w now]
  by (auto simp: db_used_def db_consume_entry [OF assms] seconds_def split: option.splits if_splits)

interpretation database: rate_limiter db_consume db_used rates_ok "\<lambda>w. 0 < w"
proof unfold_locales
  fix s :: db and k k' :: string and m w :: int and now :: time
  show "rates_ok s \<Longrightarrow> rates_ok (snd (db_consume k m w now s))" by (rule db_consume_ok)
  show "rates_ok s \<Longrightarrow> 0 < w \<Longrightarrow> fst (db_consume k m w now s) = (db_used s k w now < m)"
    by (rule db_consume_admits)
  show "rates_ok s \<Longrightarrow> 0 \<le> db_used s k w now" by (rule db_used_nonneg)
  show "db_used (snd (db_consume k m w now s)) k w now = db_used s k w now + 1"
    if "rates_ok s" "0 < w" "db_used s k w now < m"
    using that db_used_consume [OF that(1), of m w k now k] db_used_nonneg [OF that(1), of k w now]
    by simp
  show "db_used (snd (db_consume k m w now s)) k' w now = db_used s k' w now"
    if "rates_ok s" "0 < w" "k' \<noteq> k"
    using that db_used_consume [OF that(1), of m w k now k'] by (cases "0 < m") (simp_all add: db_consume_def)
  show "db_used (snd (db_consume k m w now s)) k' w now = db_used s k' w now"
    if "rates_ok s" "0 < w" "m \<le> db_used s k w now"
    using that db_used_consume [OF that(1), of m w k now k'] by (cases "0 < m") (simp_all add: db_consume_def)
qed

section \<open>Keys\<close>

text \<open>
  The request is its peer address and the two forwarding headers; \<open>sha256_hex\<close> is
  \<open>hashlib.sha256(...).hexdigest()\<close>.
\<close>

definition resolve_client_ip ::
    "string list \<Rightarrow> string option \<Rightarrow> string option \<Rightarrow> string option \<Rightarrow> string" where
  "resolve_client_ip trusted_proxies client forwarded_for real_ip_header =
     (let client_host = (case client of Some h \<Rightarrow> h | None \<Rightarrow> ''unknown'');
          header = (\<lambda>h. case h of Some t \<Rightarrow> t | None \<Rightarrow> []);
          forwarded = strip (takeWhile (\<lambda>c. c \<noteq> CHR '','') (header forwarded_for));
          real_ip = strip (header real_ip_header)
      in if trusted_proxies \<noteq> [] \<and> client_host \<in> set trusted_proxies
         then (if forwarded \<noteq> [] then forwarded
               else if real_ip \<noteq> [] then real_ip else client_host)
         else client_host)"

definition resolve_rate_limit_key :: "(string \<Rightarrow> string) \<Rightarrow> string \<Rightarrow> int option \<Rightarrow> string" where
  "resolve_rate_limit_key sha256_hex client_ip user_id =
     (case user_id of
        Some u \<Rightarrow> ''user:'' @ str_of_int u
      | None \<Rightarrow> ''anon:'' @ take 32 (sha256_hex client_ip))"

section \<open>Properties\<close>

text \<open>C8. The in-memory limiter is a true sliding window: over any sequence of \<open>consume\<close> calls
  for one key at times that never go back, no window of \<open>window_seconds\<close> (at most the hour
  after which entries are pruned) ever contains more than \<open>max_attempts\<close> admitted attempts.\<close>

theorem memory_sliding_window:
  assumes "0 \<le> m" and "0 < w" and "w \<le> 3600" and "sorted ts"
  shows "int (in_window w u (fst (mem_run k m w ts mem_init))) \<le> m"
proof -
  define now where "now = (if ts = [] then 0 else hd ts)"
  have "sorted (now # ts)"
    using assms(4) by (cases ts) (auto simp: now_def)
  then obtain now' where "tracks k m w now' (fst (mem_run k m w ts mem_init)) (snd (mem_run k m w ts mem_init))"
    using mem_run_tracks [where now = now and k = k and ts = ts, OF mem_init_tracks [OF assms(1)] assms(2,3)]
    by auto
  then show ?thesis by (simp add: tracks_def)
qed

lemma memory_sliding_window_witness:
  "int (in_window 60 2000000 (fst (mem_run ''k'' 2 60 [0, 1000000, 2000000] mem_init))) \<le> 2"
  by (rule memory_sliding_window) simp_all

text \<open>C9. The database limiter admits, of \<open>n\<close> attempts of one key in a row, exactly as many as
  its fixed window has capacity left, and refuses the others.\<close>

theorem database_burst_exact:
  assumes "rates_ok d" and "0 < w"
  shows "int (fst (database.burst n k m w now d)) = min (int n) (max 0 (m - db_used d k w now))"
  by (rule database.burst_admits [OF assms])

lemma database_burst_exact_witness:
  "int (fst (database.burst 5 ''publish'' 3 86400 0 empty_db)) = min 5 (max 0 (3 - 0))"
  using database_burst_exact [of empty_db 86400 5 "''publish''" 3 0]
  by (simp add: rates_ok_def empty_db_def db_used_def find_entry_def)

text \<open>Isolation of the keys of the database limiter, and where it ends: an attempt on \<open>k\<close>
  leaves what another key \<open>k'\<close> has used of its own window unchanged as long as that window
  began less than twice \<open>k\<close>'s window ago; otherwise the prune of \<open>consume\<close>, which knows only
  the caller's window, deletes the entry, and the usage of \<open>k'\<close> is forgotten although its
  own window is still running.\<close>

theorem consume_prunes_other_windows:
  assumes "rates_ok d" and "0 < m" and "0 < w" and "k' \<noteq> k"
    and "find_entry k' (db_rates d) = Some e" and "now - seconds w' \<le> rte_window_start e"
  shows "db_used d k' w' now = rte_attempts e \<and>
         db_used (snd (db_consume k m w now d)) k' w' now =
           (if rte_window_start e < now - seconds (2 * w) then 0 else rte_attempts e)"
  using assms by (simp add: db_used_def db_consume_entry mult.commute)

definition quota_db :: db where
  "quota_db = empty_db\<lparr>db_rates := [\<lparr>rte_id = 1, rte_key = ''daily'', rte_window_start = 0, rte_attempts = 20\<rparr>]\<rparr>"

lemma consume_prunes_other_windows_witness:
  "db_used quota_db ''daily'' 86400 (seconds 300) = 20 \<and>
   db_used (snd (db_consume ''login'' 5 60 (seconds 300) quota_db)) ''daily'' 86400 (seconds 300) = 0"
  using consume_prunes_other_windows [of quota_db 5 60 "''daily''" "''login''" _ "seconds 300" 86400]
  by (simp add: quota_db_def rates_ok_def rows_ok_def find_entry_def seconds_def)

end
