(* ===== verification/CredentialPolicy.thy ===== *)
theory CredentialPolicy
  imports Credentials RateLimit
begin

text \<open>
  What a credential or an agent may publish, and how often:
  \<open>server/modules/access/credential_policy.py\<close>.  A frozen set of object kinds is a list read
  by membership.
\<close>

definition daily_window_seconds :: int where
  "daily_window_seconds = 24 * 60 * 60"

record credential_policy =
  cpl_readonly :: bool
  cpl_max_daily :: "int option"
  cpl_kinds :: "string list option"
  cpl_auto_public :: bool

definition seconds_until_next_utc_day :: "time \<Rightarrow> int" where
  "seconds_until_next_utc_day now =
     max 1 ((days 1 - now mod days 1) div 1000000)"

definition quota_message :: string where
  "quota_message = ''credential daily publish limit exceeded''"

definition load_credential_policy_mapping :: "credential \<Rightarrow> db \<Rightarrow> (string \<times> json) list" where
  "load_credential_policy_mapping c d =
     (let selector_policy =
            (case jget (object_or_empty (crd_selector_json c)) ''_policy'' of JObj m \<Rightarrow> m | _ \<Rightarrow> [])
      in case crd_grant_id c of
           None \<Rightarrow> selector_policy
         | Some g \<Rightarrow>
             (case row_get grt_id (db_grants d) g of
                Some grant \<Rightarrow> object_or_empty (grt_constraints_json grant)
              | None \<Rightarrow> selector_policy))"

text \<open>The reading that \<open>resolve_credential_policy\<close> and \<open>resolve_service_policy\<close> share.\<close>

definition policy_of_mapping :: "(string \<times> json) list \<Rightarrow> credential_policy" where
  "policy_of_mapping payload =
     \<lparr>cpl_readonly = (jget payload ''readonly'' = JBool True),
      cpl_max_daily = (case jget payload ''max_daily_publishes'' of JInt i \<Rightarrow> Some i | _ \<Rightarrow> None),
      cpl_kinds =
        (case jget payload ''allowed_object_kinds'' of
           JNull \<Rightarrow> None
         | JList items \<Rightarrow>
             Some (filter (\<lambda>s. s \<noteq> [])
                     (map (\<lambda>item. case item of JStr s \<Rightarrow> strip s | _ \<Rightarrow> []) items))
         | _ \<Rightarrow> Some []),
      cpl_auto_public = (jget payload ''auto_public_publish'' = JBool True)\<rparr>"

definition resolve_credential_policy :: "credential \<Rightarrow> db \<Rightarrow> credential_policy" where
  "resolve_credential_policy c d = policy_of_mapping (load_credential_policy_mapping c d)"

definition resolve_service_policy :: "service_principal \<Rightarrow> credential_policy" where
  "resolve_service_policy s = policy_of_mapping (object_or_empty (svc_policy_json s))"

definition check_kind :: "string \<Rightarrow> string \<Rightarrow> credential_policy \<Rightarrow> string \<Rightarrow> svc_error + unit" where
  "check_kind readonly_message kind_message policy object_kind =
     (if cpl_readonly policy then Inl (Forbidden readonly_message)
      else (case cpl_kinds policy of
              None \<Rightarrow> Inr ()
            | Some kinds \<Rightarrow>
                require (object_kind \<in> set kinds) (Forbidden (kind_message @ py_repr object_kind))))"

definition assert_agent_publish_allowed :: "service_principal \<Rightarrow> string \<Rightarrow> svc_error + unit" where
  "assert_agent_publish_allowed s object_kind =
     check_kind ''agent policy is read-only'' ''agent policy does not allow object kind ''
       (resolve_service_policy s) object_kind"

definition assert_credential_mutation_allowed :: "credential \<Rightarrow> string \<Rightarrow> db \<Rightarrow> svc_error + unit" where
  "assert_credential_mutation_allowed c object_kind d =
     check_kind ''credential is read-only'' ''credential policy does not allow object kind ''
       (resolve_credential_policy c d) object_kind"

definition consume_quota :: "string \<Rightarrow> int option \<Rightarrow> time \<Rightarrow> db \<Rightarrow> svc_error + unit \<times> db" where
  "consume_quota quota_key limit now d =
     (case limit of
        None \<Rightarrow> Inr ((), d)
      | Some n \<Rightarrow>
          if n \<le> 0 then Inl (QuotaExceeded quota_message)
          else (let (consumed, d') = db_consume quota_key n daily_window_seconds now d in
                if consumed then Inr ((), d') else Inl (QuotaExceeded quota_message)))"

definition agent_quota_key :: "id \<Rightarrow> string" where
  "agent_quota_key principal_id = ''agent-publish:'' @ str_of_int principal_id"

definition consume_publish_quota_for_principal ::
    "id \<Rightarrow> service_principal \<Rightarrow> time \<Rightarrow> db \<Rightarrow> svc_error + string \<times> db" where
  "consume_publish_quota_for_principal principal_id s now d =
     rbind (consume_quota (agent_quota_key principal_id) (cpl_max_daily (resolve_service_policy s)) now d)
       (\<lambda>(u, d'). Inr (agent_quota_key principal_id, d'))"

definition consume_credential_publish_quota ::
    "credential \<Rightarrow> time \<Rightarrow> db \<Rightarrow> svc_error + unit \<times> db" where
  "consume_credential_publish_quota c now d =
     consume_quota (''credential-publish:'' @ str_of_int (crd_id c))
       (cpl_max_daily (resolve_credential_policy c d)) now d"

section \<open>Facts\<close>

lemma db_consume_frame: "\<exists>t. snd (db_consume k m w now d) = d\<lparr>db_rates := t\<rparr>"
proof (cases "m \<le> 0")
  case True
  then show ?thesis by (intro exI [of _ "db_rates d"]) (simp add: db_consume_def)
next
  case False
  then show ?thesis by (auto simp: db_consume_def Let_def split: prod.split)
qed

lemma consume_quota_frame: "consume_quota k l now d = Inr (u, d') \<Longrightarrow> \<exists>t. d' = d\<lparr>db_rates := t\<rparr>"
proof (cases l)
  case None
  assume "consume_quota k l now d = Inr (u, d')"
  with None have "d' = d\<lparr>db_rates := db_rates d\<rparr>" by (simp add: consume_quota_def)
  then show ?thesis ..
next
  case (Some n)
  assume "consume_quota k l now d = Inr (u, d')"
  with Some show ?thesis
    using db_consume_frame [of k n daily_window_seconds now d]
    by (auto simp: consume_quota_def Let_def split: prod.splits if_splits)
qed

lemma credential_quota_frame:
  "consume_credential_publish_quota c now d = Inr (u, d') \<Longrightarrow> \<exists>t. d' = d\<lparr>db_rates := t\<rparr>"
  unfolding consume_credential_publish_quota_def by (rule consume_quota_frame)

lemma principal_quota_frame:
  "consume_publish_quota_for_principal p s now d = Inr (k, d') \<Longrightarrow> \<exists>t. d' = d\<lparr>db_rates := t\<rparr>"
  by (auto simp: consume_publish_quota_for_principal_def res_simps dest!: consume_quota_frame)

lemma consume_quota_iff:
  assumes "rates_ok d"
  shows "(\<exists>d'. consume_quota k (Some n) now d = Inr ((), d')) \<longleftrightarrow>
           db_used d k daily_window_seconds now < n"
  using database.consume_iff [OF assms, of daily_window_seconds k n now]
    database.used_nonneg [OF assms, of k daily_window_seconds now]
  by (cases "db_consume k n daily_window_seconds now d")
     (auto simp: consume_quota_def daily_window_seconds_def)

section \<open>Properties\<close>

text \<open>An agent's publication is charged to its own daily quota and admitted exactly while the
  quota of its policy has room: with a limit \<open>n\<close>, the call succeeds if and only if the agent
  has used fewer than \<open>n\<close> in the running window, it then counts one more, and no other key's
  usage of a daily window changes.\<close>

theorem publish_quota_exact:
  assumes "rates_ok d" and "cpl_max_daily (resolve_service_policy s) = Some n"
  shows "(\<exists>d'. consume_publish_quota_for_principal p s now d =
            Inr (agent_quota_key p, d') \<and>
            db_used d' (agent_quota_key p) daily_window_seconds now =
              db_used d (agent_quota_key p) daily_window_seconds now + 1 \<and>
            (\<forall>q. q \<noteq> p \<longrightarrow>
               db_used d' (agent_quota_key q) daily_window_seconds now =
               db_used d (agent_quota_key q) daily_window_seconds now))
         \<longleftrightarrow> db_used d (agent_quota_key p) daily_window_seconds now < n"
    (is "?ok \<longleftrightarrow> ?room")
proof -
  let ?k = "agent_quota_key p"
  have w: "0 < daily_window_seconds" by (simp add: daily_window_seconds_def)
  have c: "consume_publish_quota_for_principal p s now d =
      rbind (consume_quota ?k (Some n) now d) (\<lambda>(u, d'). Inr (?k, d'))"
    by (simp add: consume_publish_quota_for_principal_def assms(2))
  show ?thesis
  proof
    assume ?ok
    then have "\<exists>d'. consume_quota ?k (Some n) now d = Inr ((), d')"
      unfolding c by (auto simp: res_simps)
    then show ?room by (simp add: consume_quota_iff [OF assms(1)])
  next
    assume r: ?room
    then have "consume_quota ?k (Some n) now d = Inr ((), snd (db_consume ?k n daily_window_seconds now d))"
      using database.consume_iff [OF assms(1) w, of ?k n now]
        database.used_nonneg [OF assms(1), of ?k daily_window_seconds now]
      by (cases "db_consume ?k n daily_window_seconds now d") (auto simp: consume_quota_def)
    moreover have "q \<noteq> p \<Longrightarrow> agent_quota_key q \<noteq> ?k" for q
      by (simp add: agent_quota_key_def str_of_int_inj)
    ultimately show ?ok
      using r database.consume_records [OF assms(1) w r] database.consume_other [OF assms(1) w]
      by (simp add: c)
  qed
qed

definition quota_agent :: service_principal where
  "quota_agent = \<lparr>svc_id = 1, svc_principal_id = 7, svc_slug = ''bot'', svc_description = [],
     svc_enrollment_id = None, svc_state = AgentActive,
     svc_policy_json = json_dumps (JObj [(''max_daily_publishes'', JInt 2)]),
     svc_approved_at = None, svc_suspended_at = None, svc_revoked_at = None\<rparr>"

lemma publish_quota_exact_witness:
  "\<exists>d'. consume_publish_quota_for_principal 7 quota_agent 0 empty_db =
          Inr (agent_quota_key 7, d')"
proof -
  have ok: "rates_ok empty_db" by (simp add: rates_ok_def empty_db_def)
  have l: "cpl_max_daily (resolve_service_policy quota_agent) = Some 2"
    by (simp add: resolve_service_policy_def policy_of_mapping_def quota_agent_def)
  have "db_used empty_db (agent_quota_key 7) daily_window_seconds 0 < 2"
    by (simp add: db_used_def empty_db_def find_entry_def)
  with publish_quota_exact [OF ok l, of 7 0] show ?thesis by blast
qed

end
