(* ===== verification/SampleDb.thy ===== *)
theory SampleDb
  imports ServerDb
begin

text \<open>
  A small database on which the properties are instantiated: two users, a team and an agent,
  a personal and a team skill, one version of each, and a ready release of the first.
\<close>

definition sample_principals :: "principal list" where
  "sample_principals =
     [\<lparr>prn_id = 1, prn_kind = UserPrincipal, prn_slug = ''alice'', prn_display_name = ''Alice'', prn_updated_at = 0\<rparr>,
      \<lparr>prn_id = 2, prn_kind = UserPrincipal, prn_slug = ''bob'', prn_display_name = ''Bob'', prn_updated_at = 0\<rparr>,
      \<lparr>prn_id = 3, prn_kind = TeamPrincipal, prn_slug = ''acme'', prn_display_name = ''Acme'', prn_updated_at = 0\<rparr>,
      \<lparr>prn_id = 4, prn_kind = ServiceKind, prn_slug = ''bot'', prn_display_name = ''Bot'', prn_updated_at = 0\<rparr>]"

definition sample_users :: "user list" where
  "sample_users =
     [\<lparr>usr_id = 1, usr_username = ''alice'', usr_display_name = ''Alice'', usr_role = ''contributor'', usr_password_hash = None\<rparr>,
      \<lparr>usr_id = 2, usr_username = ''bob'', usr_display_name = ''Bob'', usr_role = ''maintainer'', usr_password_hash = None\<rparr>]"

definition sample_skill :: "id \<Rightarrow> id \<Rightarrow> string \<Rightarrow> skill" where
  "sample_skill i ns slug =
     \<lparr>skl_id = i, skl_namespace_id = ns, skl_slug = slug, skl_display_name = slug, skl_summary = [],
      skl_status = SkillActive, skl_visibility = None, skl_latest_digest = None, skl_created_by = Some ns\<rparr>"

definition sample_version :: "id \<Rightarrow> id \<Rightarrow> skill_version" where
  "sample_version i s =
     \<lparr>ver_id = i, ver_skill_id = s, ver_content_id = i, ver_version = ''1.0.0'',
      ver_content_digest = ''sha256:c'', ver_metadata_digest = ''sha256:m'',
      ver_manifest_json = json_dumps (JObj []), ver_created_by = Some 1, ver_created_at = 0\<rparr>"

definition sample_release :: "id \<Rightarrow> id \<Rightarrow> id \<Rightarrow> release" where
  "sample_release i v s =
     \<lparr>rel_id = i, rel_version_id = v, rel_skill_id = Some s, rel_state = RelReady,
      rel_manifest_artifact = Some 1, rel_bundle_artifact = Some 2, rel_signature_artifact = Some 3,
      rel_provenance_artifact = Some 4, rel_ready_at = Some 5,
      rel_compatibility_json = json_dumps (JObj []), rel_created_by = Some 1\<rparr>"

definition sample_db :: db where
  "sample_db = empty_db\<lparr>
     db_users := sample_users,
     db_principals := sample_principals,
     db_teams := [\<lparr>tm_id = 1, tm_principal_id = 3, tm_slug = ''acme''\<rparr>],
     db_memberships := [\<lparr>mem_id = 1, mem_user_id = 2, mem_team_id = 1, mem_role = ''member''\<rparr>],
     db_skills := [sample_skill 1 1 ''demo'', sample_skill 2 3 ''shared''],
     db_versions := [sample_version 1 1, sample_version 2 2],
     db_releases := [sample_release 1 1 1]\<rparr>"

lemmas sample_defs = sample_db_def empty_db_def sample_users_def sample_principals_def
  sample_skill_def sample_version_def sample_release_def

definition sample_actor :: "id \<Rightarrow> string \<Rightarrow> actor" where
  "sample_actor i slug =
     \<lparr>act_principal = \<lparr>prn_id = i, prn_kind = UserPrincipal, prn_slug = slug, prn_display_name = slug, prn_updated_at = 0\<rparr>,
      act_maintainer = False, act_credential_id = None, act_issued_for = [], act_request_id = []\<rparr>"

text \<open>The database an operation leaves, for running operations one after the other.\<close>

definition succeeded :: "'e + 'a \<Rightarrow> bool" where
  "succeeded r = (case r of Inl _ \<Rightarrow> False | Inr _ \<Rightarrow> True)"

definition db_after :: "'e + 'a \<times> db \<Rightarrow> db" where
  "db_after r = (case r of Inl _ \<Rightarrow> empty_db | Inr (_, d) \<Rightarrow> d)"

definition result_of :: "'e + 'a \<times> db \<Rightarrow> 'a" where
  "result_of r = fst (projr r)"

lemma succeededD: "succeeded r \<Longrightarrow> r = Inr (result_of r, db_after r)"
  by (auto simp: succeeded_def db_after_def result_of_def split: sum.splits)

end
