(* ===== verification/Release.thy ===== *)
theory Release
  imports CredentialPolicy Jobs SampleDb
begin

text \<open>
  Releases and their artifacts: \<open>server/modules/release/service.py\<close> and the route that creates
  a release, \<open>server/modules/release/router.py\<close>.  A service operation returns \<open>Inl\<close> of the
  exception it raises or \<open>Inr\<close> of its result and the database it leaves in the session.
\<close>

type_synonym 'a svc = "svc_error + 'a \<times> db"

record release_snapshot =
  snp_release :: release
  snp_version :: skill_version
  snp_skill :: skill
  snp_namespace :: principal
  snp_manifest :: "(string \<times> json) list"

section \<open>Reading\<close>

definition get_skill_version_or_404 :: "id \<Rightarrow> db \<Rightarrow> svc_error + skill_version" where
  "get_skill_version_or_404 i d =
     or_raise (row_get ver_id (db_versions d) i) (NotFound ''skill version not found'')"

definition get_release_or_404 :: "id \<Rightarrow> db \<Rightarrow> svc_error + release" where
  "get_release_or_404 i d =
     or_raise (row_get rel_id (db_releases d) i) (NotFound ''release not found'')"

definition get_artifacts_for_release :: "id \<Rightarrow> db \<Rightarrow> artifact list" where
  "get_artifacts_for_release i d =
     sort_key (\<lambda>a. (art_kind a, art_id a)) (filter (\<lambda>a. art_release_id a = Some i) (db_artifacts d))"

definition current_artifact_ids :: "release \<Rightarrow> id list" where
  "current_artifact_ids r =
     concat (map (\<lambda>x. case x of None \<Rightarrow> [] | Some i \<Rightarrow> [i])
       [rel_bundle_artifact r, rel_manifest_artifact r, rel_provenance_artifact r,
        rel_signature_artifact r])"

definition get_current_artifacts_for_release :: "release \<Rightarrow> db \<Rightarrow> artifact list" where
  "get_current_artifacts_for_release r d =
     (let ids = current_artifact_ids r in
      if ids = [] then []
      else sort_key (\<lambda>a. (art_kind a, art_id a)) (filter (\<lambda>a. art_id a \<in> set ids) (db_artifacts d)))"

definition get_skill_or_404 :: "id \<Rightarrow> db \<Rightarrow> svc_error + skill" where
  "get_skill_or_404 i d = or_raise (row_get skl_id (db_skills d) i) (NotFound ''skill not found'')"

definition get_namespace_or_404 :: "id \<Rightarrow> db \<Rightarrow> svc_error + principal" where
  "get_namespace_or_404 i d =
     or_raise (row_get prn_id (db_principals d) i) (NotFound ''namespace principal not found'')"

definition version_manifest :: "skill_version \<Rightarrow> (string \<times> json) list" where
  "version_manifest v = object_or_empty (ver_manifest_json v)"

text \<open>
  The namespace owner itself, or a member of a team whose principal is the namespace
  (\<open>team_memberships.user_id\<close> references \<open>principals.id\<close>).
\<close>

definition team_member :: "id \<Rightarrow> id \<Rightarrow> db \<Rightarrow> bool" where
  "team_member namespace_id principal_id d =
     list_ex (\<lambda>m. mem_user_id m = principal_id \<and>
                  list_ex (\<lambda>t. tm_id t = mem_team_id m \<and> tm_principal_id t = namespace_id) (db_teams d))
             (db_memberships d)"

definition assert_skill_owner :: "skill \<Rightarrow> id \<Rightarrow> bool \<Rightarrow> db \<Rightarrow> svc_error + unit" where
  "assert_skill_owner s principal_id maintainer d =
     (if maintainer then Inr ()
      else if skl_namespace_id s = principal_id then Inr ()
      else require (team_member (skl_namespace_id s) principal_id d)
             (Forbidden ''release namespace access denied''))"

definition get_release_snapshot :: "id \<Rightarrow> db \<Rightarrow> svc_error + release_snapshot" where
  "get_release_snapshot i d =
     rbind (get_release_or_404 i d) (\<lambda>r.
     rbind (get_skill_version_or_404 (rel_version_id r) d) (\<lambda>v.
     rbind (get_skill_or_404 (ver_skill_id v) d) (\<lambda>s.
     rbind (get_namespace_or_404 (skl_namespace_id s) d) (\<lambda>n.
     Inr \<lparr>snp_release = r, snp_version = v, snp_skill = s, snp_namespace = n,
          snp_manifest = version_manifest v\<rparr>))))"

definition assert_release_owner :: "release \<Rightarrow> id \<Rightarrow> bool \<Rightarrow> db \<Rightarrow> svc_error + unit" where
  "assert_release_owner r principal_id maintainer d =
     rbind (get_release_snapshot (rel_id r) d)
       (\<lambda>s. assert_skill_owner (snp_skill s) principal_id maintainer d)"

section \<open>Writing\<close>

definition put_release :: "release \<Rightarrow> db \<Rightarrow> db" where
  "put_release r d = d\<lparr>db_releases := row_set rel_id r (db_releases d)\<rparr>"

definition release_of_version :: "id \<Rightarrow> db \<Rightarrow> release option" where
  "release_of_version version_id d =
     last_where rel_id (\<lambda>r. rel_version_id r = version_id) (db_releases d)"

text \<open>
  The flush can violate the unique index on \<open>skill_version_id\<close> only for a version that has a
  row, and then the select before it has returned that row: in a serialised database the
  branch that handles the IntegrityError is not reached.
\<close>

definition create_or_get_release ::
    "id \<Rightarrow> id \<Rightarrow> bool \<Rightarrow> actor option \<Rightarrow> db \<Rightarrow> (release \<times> bool) svc" where
  "create_or_get_release version_id actor_principal_id maintainer audit_actor d =
     rbind (get_skill_version_or_404 version_id d) (\<lambda>v.
     rbind (get_skill_or_404 (ver_skill_id v) d) (\<lambda>s.
     rbind (assert_skill_owner s actor_principal_id maintainer d) (\<lambda>_.
     case release_of_version (ver_id v) d of
       Some existing \<Rightarrow> Inr ((existing, False), d)
     | None \<Rightarrow>
         (let r = \<lparr>rel_id = next_id rel_id (db_releases d), rel_version_id = ver_id v,
                   rel_skill_id = Some (skl_id s), rel_state = RelPreparing,
                   rel_manifest_artifact = None, rel_bundle_artifact = None,
                   rel_signature_artifact = None, rel_provenance_artifact = None,
                   rel_ready_at = None, rel_compatibility_json = json_dumps (JObj []),
                   rel_created_by = Some actor_principal_id\<rparr>;
              d1 = d\<lparr>db_releases := db_releases d @ [r]\<rparr>
          in Inr ((r, True),
               append_audit_event ''release'' (str_of_int (rel_id r)) ''release.created''
                 (actor_or_principal audit_actor actor_principal_id)
                 (Some (skl_namespace_id s))
                 ([(''object_id'', JInt (skl_id s)), (''release_id'', JInt (rel_id r)),
                   (''version_id'', JInt (ver_id v)), (''version'', JStr (ver_version v))] @
                  actor_audit_payload audit_actor) d1)))))"

definition upsert_artifact ::
    "id \<Rightarrow> string \<Rightarrow> string \<Rightarrow> string \<Rightarrow> int \<Rightarrow> db \<Rightarrow> artifact \<times> db" where
  "upsert_artifact release_id kind storage_uri sha256 size_bytes d =
     (case last_where art_id (\<lambda>a. art_release_id a = Some release_id \<and> art_kind a = kind) (db_artifacts d) of
        None \<Rightarrow>
          (let a = \<lparr>art_id = next_id art_id (db_artifacts d), art_release_id = Some release_id,
                    art_kind = kind, art_storage_uri = storage_uri, art_sha256 = sha256,
                    art_size_bytes = size_bytes\<rparr>
           in (a, d\<lparr>db_artifacts := db_artifacts d @ [a]\<rparr>))
      | Some a \<Rightarrow>
          (let a' = a\<lparr>art_storage_uri := storage_uri, art_sha256 := sha256,
                      art_size_bytes := size_bytes\<rparr>
           in (a', d\<lparr>db_artifacts := row_set art_id a' (db_artifacts d)\<rparr>)))"

definition mark_release_ready :: "release \<Rightarrow> id \<Rightarrow> id \<Rightarrow> id \<Rightarrow> id \<Rightarrow> time \<Rightarrow> db \<Rightarrow> release svc" where
  "mark_release_ready r manifest_id bundle_id signature_id provenance_id now d =
     (let r' = r\<lparr>rel_state := RelReady, rel_manifest_artifact := Some manifest_id,
                 rel_bundle_artifact := Some bundle_id, rel_signature_artifact := Some signature_id,
                 rel_provenance_artifact := Some provenance_id, rel_ready_at := Some now\<rparr>;
          d1 = put_release r' d
      in rbind (get_release_snapshot (rel_id r) d1) (\<lambda>s.
         Inr (r', append_audit_event ''release'' (str_of_int (rel_id r))
                (if rel_state r \<noteq> RelReady then ''release.ready'' else ''release.rematerialized'')
                ''system:worker'' (Some (skl_namespace_id (snp_skill s)))
                [(''object_id'', JInt (skl_id (snp_skill s))), (''release_id'', JInt (rel_id r)),
                 (''version_id'', JInt (ver_id (snp_version s))),
                 (''version'', JStr (ver_version (snp_version s))),
                 (''artifact_ids'', JObj
                    [(''manifest'', JInt manifest_id), (''bundle'', JInt bundle_id),
                     (''signature'', JInt signature_id), (''provenance'', JInt provenance_id)])] d1)))"

definition mark_release_materialization_failed :: "release \<Rightarrow> db \<Rightarrow> release \<times> db" where
  "mark_release_materialization_failed r d =
     (let r' = r\<lparr>rel_state := RelFailed, rel_ready_at := None\<rparr> in (r', put_release r' d))"

section \<open>The routes\<close>

definition actor_ref_for_context :: "access_context \<Rightarrow> bool \<Rightarrow> svc_error + actor" where
  "actor_ref_for_context ctx maintainer =
     (case ctx_principal ctx of
        None \<Rightarrow> Inl (Forbidden ''principal required'')
      | Some p \<Rightarrow>
          Inr \<lparr>act_principal = p, act_maintainer = maintainer,
               act_credential_id = Some (crd_id (ctx_credential ctx)),
               act_issued_for = strip (crd_issued_for (ctx_credential ctx)),
               act_request_id = ctx_request_id ctx\<rparr>)"

definition require_release_context :: "access_context \<Rightarrow> svc_error + principal" where
  "require_release_context ctx =
     rbind (or_raise (ctx_principal ctx) (Forbidden ''release actor must resolve to a principal'')) (\<lambda>p.
     rbind (require (require_any_scope ctx
              {''api:user'', ''release:read'', ''release:write'', ''authoring:write'', ''skill:write''})
            (Forbidden ''insufficient scope'')) (\<lambda>_. Inr p))"

text \<open>
  \<open>release_requires_materialization\<close>: the checks on the rows, and \<open>files_current\<close>, which
  stands for the verification of the files on disk.
\<close>

definition release_requires_materialization ::
    "(release_snapshot \<Rightarrow> artifact list \<Rightarrow> bool) \<Rightarrow> id \<Rightarrow> db \<Rightarrow> svc_error + bool" where
  "release_requires_materialization files_current release_id d =
     rbind (get_release_snapshot release_id d) (\<lambda>s.
       let r = snp_release s; arts = get_artifacts_for_release (rel_id r) d in
       Inr (\<not> (\<not> (rel_state r \<noteq> RelReady \<or> rel_manifest_artifact r = None \<or>
                  rel_bundle_artifact r = None \<or> rel_signature_artifact r = None \<or>
                  rel_provenance_artifact r = None \<or> length arts < 4) \<and>
               files_current s arts)))"

definition materialize_kind :: string where
  "materialize_kind = ''materialize_release''"

definition enqueue_materialization :: "principal \<Rightarrow> string \<Rightarrow> id \<Rightarrow> time \<Rightarrow> db \<Rightarrow> db" where
  "enqueue_materialization p label release_id now d =
     snd (enqueue_job materialize_kind (Some [(''release_id'', JInt release_id)]) (Some (prn_id p)) None
            (label @ str_of_int release_id) now d)"

definition create_release_route ::
    "(release_snapshot \<Rightarrow> artifact list \<Rightarrow> bool) \<Rightarrow> access_context \<Rightarrow> id \<Rightarrow> time \<Rightarrow> db \<Rightarrow> release svc" where
  "create_release_route files_current ctx version_id now d =
     rbind (require_release_context ctx) (\<lambda>p.
     rbind (or_raise (row_get ver_id (db_versions d) version_id) (NotFound ''skill version not found'')) (\<lambda>v.
     rbind (assert_product_token_skill_scope ctx (Some (ver_skill_id v)) False d) (\<lambda>_.
     rbind (assert_credential_mutation_allowed (ctx_credential ctx) ''skill'' d) (\<lambda>_.
     rbind (actor_ref_for_context ctx (is_maintainer ctx)) (\<lambda>actor.
     rbind (create_or_get_release version_id (prn_id p) (is_maintainer ctx) (Some actor) d) (\<lambda>((r, created), d1).
     if created then
       rbind (consume_credential_publish_quota (ctx_credential ctx) now d1) (\<lambda>(_, d2).
         Inr (r, enqueue_materialization p ''materialize release '' (rel_id r) now d2))
     else
       rbind (release_requires_materialization files_current (rel_id r) d1) (\<lambda>needed.
         Inr (r, if needed \<and> \<not> has_active_job materialize_kind (Some (rel_id r)) [JobQueued, JobRunning] now d1
                 then enqueue_materialization p ''rematerialize release '' (rel_id r) now d1 else d1))))))))"

definition get_release_route :: "access_context \<Rightarrow> id \<Rightarrow> db \<Rightarrow> svc_error + release" where
  "get_release_route ctx release_id d =
     rbind (require_release_context ctx) (\<lambda>p.
     rbind (get_release_or_404 release_id d) (\<lambda>r.
     rbind (assert_product_token_skill_scope ctx (rel_skill_id r) False d) (\<lambda>_.
     rbind (assert_release_owner r (prn_id p) (is_maintainer ctx) d) (\<lambda>_. Inr r))))"

definition list_release_artifacts_route :: "access_context \<Rightarrow> id \<Rightarrow> db \<Rightarrow> svc_error + artifact list" where
  "list_release_artifacts_route ctx release_id d =
     rbind (get_release_route ctx release_id d) (\<lambda>r. Inr (get_current_artifacts_for_release r d))"

section \<open>Facts\<close>

definition release_ok :: "release \<Rightarrow> bool" where
  "release_ok r \<longleftrightarrow>
     (if rel_state r = RelReady
      then rel_manifest_artifact r \<noteq> None \<and> rel_bundle_artifact r \<noteq> None \<and>
           rel_signature_artifact r \<noteq> None \<and> rel_provenance_artifact r \<noteq> None \<and> rel_ready_at r \<noteq> None
      else rel_ready_at r = None)"

definition releases_ok :: "db \<Rightarrow> bool" where
  "releases_ok d \<longleftrightarrow> rows_ok rel_id (db_releases d) \<and>
     distinct (map rel_version_id (db_releases d)) \<and> (\<forall>r \<in> set (db_releases d). release_ok r)"

lemma releases_ok_cong: "db_releases d' = db_releases d \<Longrightarrow> releases_ok d' = releases_ok d"
  by (simp add: releases_ok_def)

lemma releases_ok_audit [simp]: "releases_ok (append_audit_event a b c e f g d) = releases_ok d"
  by (rule releases_ok_cong) simp

lemma owner_allowed:
  "assert_skill_owner s p m d = Inr u \<longleftrightarrow>
     m \<or> skl_namespace_id s = p \<or> team_member (skl_namespace_id s) p d"
  by (auto simp: assert_skill_owner_def)

lemma put_release_ok:
  assumes "releases_ok d" and "q \<in> set (db_releases d)" and "rel_id r = rel_id q"
    and "rel_version_id r = rel_version_id q" and "release_ok r"
  shows "releases_ok (put_release r d)"
  using assms set_row_set [of rel_id r "db_releases d"]
    row_set_map [of rel_id "db_releases d" q r rel_version_id]
  by (auto simp: releases_ok_def put_release_def)

lemma mark_ready_ok:
  assumes "releases_ok d" and "r \<in> set (db_releases d)"
    and "mark_release_ready r a b c e now d = Inr (r', d')"
  shows "releases_ok d'"
proof -
  have "releases_ok (put_release (r\<lparr>rel_state := RelReady, rel_manifest_artifact := Some a,
          rel_bundle_artifact := Some b, rel_signature_artifact := Some c,
          rel_provenance_artifact := Some e, rel_ready_at := Some now\<rparr>) d)"
    by (rule put_release_ok [OF assms(1,2)]) (simp_all add: release_ok_def)
  with assms(3) show ?thesis
    by (auto simp: mark_release_ready_def Let_def res_simps)
qed

lemma mark_failed_ok:
  assumes "releases_ok d" and "r \<in> set (db_releases d)"
  shows "releases_ok (snd (mark_release_materialization_failed r d))"
  unfolding mark_release_materialization_failed_def Let_def snd_conv
  by (rule put_release_ok [OF assms]) (simp_all add: release_ok_def)

lemma create_or_get_cases:
  assumes "create_or_get_release v p m a d = Inr ((r, created), d')"
  shows "\<exists>ver s. row_get ver_id (db_versions d) v = Some ver \<and>
           row_get skl_id (db_skills d) (ver_skill_id ver) = Some s \<and>
           (m \<or> skl_namespace_id s = p \<or> team_member (skl_namespace_id s) p d) \<and>
           rel_version_id r = v \<and>
           (if created then release_of_version v d = None \<and> rel_state r = RelPreparing \<and>
                rel_skill_id r = Some (skl_id s) \<and> rel_ready_at r = None \<and>
                rel_id r = next_id rel_id (db_releases d) \<and>
                (\<exists>evs. d' = d\<lparr>db_releases := db_releases d @ [r], db_audit := evs\<rparr>)
            else release_of_version v d = Some r \<and> d' = d)"
proof -
  obtain ver s where v: "row_get ver_id (db_versions d) v = Some ver"
      "row_get skl_id (db_skills d) (ver_skill_id ver) = Some s"
      "m \<or> skl_namespace_id s = p \<or> team_member (skl_namespace_id s) p d"
    using assms
    by (auto simp: create_or_get_release_def get_skill_version_or_404_def get_skill_or_404_def
                   res_simps owner_allowed)
  have id: "ver_id ver = v" using row_get_Some [OF v(1)] by simp
  have own: "assert_skill_owner s p m d = Inr ()" using v(3) owner_allowed [of s p m d "()"] by simp
  note body = assms [unfolded create_or_get_release_def get_skill_version_or_404_def
      get_skill_or_404_def v(1) v(2) or_raise_simps(3) rbind_simps own id]
  show ?thesis
  proof (cases "release_of_version v d")
    case None
    have "created \<and> rel_version_id r = v \<and> rel_state r = RelPreparing \<and> rel_skill_id r = Some (skl_id s) \<and>
        rel_ready_at r = None \<and> rel_id r = next_id rel_id (db_releases d) \<and>
        (\<exists>x y z. d' = append_audit_event ''release'' x ''release.created'' y (Some (skl_namespace_id s)) z
                 (d\<lparr>db_releases := db_releases d @ [r]\<rparr>))"
      using body None by (auto simp: Let_def)
    moreover from this have "\<exists>evs. d' = d\<lparr>db_releases := db_releases d @ [r], db_audit := evs\<rparr>"
      using audit_only by fastforce
    ultimately show ?thesis using v None by auto
  next
    case (Some q)
    then have "rel_version_id q = v"
      unfolding release_of_version_def by (drule_tac last_where_Some) simp
    moreover have "created = False \<and> r = q \<and> d' = d"
      using body Some by auto
    ultimately show ?thesis using v Some by auto
  qed
qed

lemma release_of_version_in:
  "release_of_version v d = Some r \<Longrightarrow> r \<in> set (db_releases d) \<and> rel_version_id r = v"
  unfolding release_of_version_def by (drule last_where_Some) simp

lemma release_of_version_None:
  "release_of_version v d = None \<longleftrightarrow> (\<forall>q \<in> set (db_releases d). rel_version_id q \<noteq> v)"
  by (simp add: release_of_version_def last_where_None)

lemma release_of_version_unique:
  assumes "releases_ok d" and "r \<in> set (db_releases d)"
  shows "release_of_version (rel_version_id r) d = Some r"
  unfolding release_of_version_def
proof (rule last_where_unique)
  show "q = r" if "q \<in> set (db_releases d)" "rel_version_id q = rel_version_id r" for q
    using assms(1) rows_ok_id_eq [OF _ that(1) assms(2) that(2)]
    by (simp add: releases_ok_def rows_ok_def)
qed (simp_all add: assms)

lemma create_or_get_facts:
  assumes ok: "releases_ok d" and c: "create_or_get_release v p m a d = Inr ((r, created), d')"
  shows "releases_ok d' \<and> r \<in> set (db_releases d') \<and> rel_version_id r = v \<and>
         create_or_get_release v p m a d' = Inr ((r, False), d')"
proof -
  from create_or_get_cases [OF c] obtain ver s where
    v: "row_get ver_id (db_versions d) v = Some ver"
      "row_get skl_id (db_skills d) (ver_skill_id ver) = Some s"
      "m \<or> skl_namespace_id s = p \<or> team_member (skl_namespace_id s) p d" "rel_version_id r = v" and
    d': "if created then release_of_version v d = None \<and> rel_state r = RelPreparing \<and>
                rel_skill_id r = Some (skl_id s) \<and> rel_ready_at r = None \<and>
                rel_id r = next_id rel_id (db_releases d) \<and>
                (\<exists>evs. d' = d\<lparr>db_releases := db_releases d @ [r], db_audit := evs\<rparr>)
            else release_of_version v d = Some r \<and> d' = d"
    by blast
  have frame: "db_versions d' = db_versions d" "db_skills d' = db_skills d"
      "team_member n p d' = team_member n p d" for n
    using d' by (auto simp: team_member_def split: if_splits)
  have ok': "releases_ok d' \<and> r \<in> set (db_releases d')"
  proof (cases created)
    case True
    with d' obtain evs where e: "d' = d\<lparr>db_releases := db_releases d @ [r], db_audit := evs\<rparr>"
        "release_of_version v d = None" "rel_state r = RelPreparing" "rel_ready_at r = None"
        "rel_id r = next_id rel_id (db_releases d)"
      by auto
    show ?thesis
      using e(2-) ok v(4) unfolding e(1)
      by (auto simp: releases_ok_def release_of_version_None release_ok_def intro!: rows_ok_insert)
  next
    case False
    with d' ok show ?thesis by (auto dest: release_of_version_in)
  qed
  have "release_of_version v d' = Some r"
    using release_of_version_unique [of d' r] ok' v(4) by simp
  moreover have "ver_id ver = v" using row_get_Some [OF v(1)] by simp
  moreover have "assert_skill_owner s p m d' = Inr ()"
    using v(3) frame(3) owner_allowed [of s p m d' "()"] by auto
  ultimately have "create_or_get_release v p m a d' = Inr ((r, False), d')"
    using v(1,2) frame by (simp add: create_or_get_release_def get_skill_version_or_404_def get_skill_or_404_def)
  with ok' v(4) show ?thesis by simp
qed

section \<open>Properties\<close>

text \<open>C13. Creating a release is idempotent and keeps one release per skill version: the caller is a
  maintainer, the namespace or a member of its team; the release returned is the only one of
  the version afterwards; a second identical call returns the same row, reports that nothing
  was created and changes nothing; and every ready release still has its four artifacts.\<close>

theorem create_or_get_release_idempotent:
  assumes "releases_ok d" and "create_or_get_release v p m a d = Inr ((r, created), d')"
  shows "releases_ok d' \<and> filter (\<lambda>q. rel_version_id q = v) (db_releases d') = [r] \<and>
         create_or_get_release v p m a d' = Inr ((r, False), d') \<and>
         (created \<longleftrightarrow> \<not> (\<exists>q \<in> set (db_releases d). rel_version_id q = v)) \<and>
         (m \<or> (\<exists>ver s. row_get ver_id (db_versions d) v = Some ver \<and>
                 row_get skl_id (db_skills d) (ver_skill_id ver) = Some s \<and>
                 (skl_namespace_id s = p \<or> team_member (skl_namespace_id s) p d)))"
proof -
  note f = create_or_get_facts [OF assms] and c = create_or_get_cases [OF assms(2)]
  have "filter (\<lambda>q. rel_version_id q = v) (db_releases d') = [r]"
    using filter_unique [of rel_version_id "db_releases d'" r] f by (auto simp: releases_ok_def)
  moreover have "created \<longleftrightarrow> \<not> (\<exists>q \<in> set (db_releases d). rel_version_id q = v)"
    using c release_of_version_None [of v d] by (metis option.distinct(1))
  ultimately show ?thesis using f c by blast
qed

lemma sample_releases_ok: "releases_ok sample_db"
  by (simp add: releases_ok_def sample_defs rows_ok_def release_ok_def)

lemma create_or_get_release_idempotent_witness:
  "\<exists>r d'. create_or_get_release 2 2 False None sample_db = Inr ((r, True), d') \<and>
     filter (\<lambda>q. rel_version_id q = 2) (db_releases d') = [r] \<and>
     create_or_get_release 2 2 False None d' = Inr ((r, False), d')"
proof -
  have "(case create_or_get_release 2 2 False None sample_db of Inl _ \<Rightarrow> False | Inr ((r, c), d') \<Rightarrow> c)"
    by code_simp
  then obtain r d' where c: "create_or_get_release 2 2 False None sample_db = Inr ((r, True), d')"
    by (auto split: sum.splits)
  from create_or_get_release_idempotent [OF sample_releases_ok c] c show ?thesis by blast
qed

end
