(* ===== verification/Review.thy ===== *)
theory Review
  imports Release
begin

text \<open>
  Review policy and review cases: \<open>server/modules/review/policy.py\<close>, \<open>default_policy.py\<close> and
  \<open>service.py\<close>.
\<close>

section \<open>The exposure policy\<close>

definition audience_text :: "audience \<Rightarrow> string" where
  "audience_text a =
     (case a of Private \<Rightarrow> ''private'' | Grant \<Rightarrow> ''grant''
      | Authenticated \<Rightarrow> ''authenticated'' | Public \<Rightarrow> ''public'')"

definition review_mode_text :: "review_mode \<Rightarrow> string" where
  "review_mode_text m =
     (case m of NoReview \<Rightarrow> ''none'' | Advisory \<Rightarrow> ''advisory'' | Blocking \<Rightarrow> ''blocking'')"

definition exposure_state_text :: "exposure_state \<Rightarrow> string" where
  "exposure_state_text s =
     (case s of ExpDraft \<Rightarrow> ''draft'' | ExpPendingPolicy \<Rightarrow> ''pending_policy''
      | ExpReviewOpen \<Rightarrow> ''review_open'' | ExpActive \<Rightarrow> ''active''
      | ExpRevoked \<Rightarrow> ''revoked'' | ExpRejected \<Rightarrow> ''rejected'')"

definition case_state_text :: "case_state \<Rightarrow> string" where
  "case_state_text s =
     (case s of CaseOpen \<Rightarrow> ''open'' | CaseApproved \<Rightarrow> ''approved''
      | CaseRejected \<Rightarrow> ''rejected'' | CaseClosed \<Rightarrow> ''closed'')"

definition decision_text :: "decision \<Rightarrow> string" where
  "decision_text x =
     (case x of Approve \<Rightarrow> ''approve'' | Reject \<Rightarrow> ''reject'' | Comment \<Rightarrow> ''comment'')"

definition find_text :: "('a \<Rightarrow> string) \<Rightarrow> 'a list \<Rightarrow> string \<Rightarrow> 'a option" where
  "find_text f xs t = find (\<lambda>x. f x = t) xs"

definition audience_of_text :: "string \<Rightarrow> audience option" where
  "audience_of_text = find_text audience_text [Private, Grant, Public, Authenticated]"

definition review_mode_of_text :: "string \<Rightarrow> review_mode option" where
  "review_mode_of_text = find_text review_mode_text [NoReview, Advisory, Blocking]"

record policy_outcome =
  out_audience :: audience
  out_requested :: review_mode
  out_requirement :: review_mode
  out_auto_activate :: bool

definition evaluate_exposure_policy :: "string \<Rightarrow> string \<Rightarrow> svc_error + policy_outcome" where
  "evaluate_exposure_policy audience_type requested_review_mode =
     (let audience = lower (strip audience_type);
          requested = str_or (lower (strip (str_or requested_review_mode ''none''))) ''none''
      in rbind (or_raise (review_mode_of_text requested)
                 (ValueError (''unsupported requested_review_mode: '' @ py_repr requested_review_mode))) (\<lambda>m.
         rbind (or_raise (audience_of_text audience)
                 (ValueError (''unsupported audience_type: '' @ py_repr audience_type))) (\<lambda>a.
         Inr (case a of
                Public \<Rightarrow> \<lparr>out_audience = a, out_requested = Blocking, out_requirement = Blocking,
                           out_auto_activate = False\<rparr>
              | Grant \<Rightarrow> \<lparr>out_audience = a, out_requested = m, out_requirement = m,
                          out_auto_activate = (m \<noteq> Blocking)\<rparr>
              | _ \<Rightarrow> \<lparr>out_audience = a, out_requested = NoReview, out_requirement = NoReview,
                      out_auto_activate = True\<rparr>))))"

section \<open>Review cases\<close>

definition default_policy_name :: string where
  "default_policy_name = ''private-first-default''"

definition default_policy_version :: string where
  "default_policy_version = ''1''"

definition default_policy_rules :: json where
  "default_policy_rules = JObj
     [(''public'', JStr ''blocking''),
      (''grant'', JObj [(''none'', JStr ''none''), (''advisory'', JStr ''advisory''),
                        (''blocking'', JStr ''blocking'')]),
      (''private'', JStr ''none''),
      (''authenticated'', JStr ''none'')]"

definition owner_principal_id_for_exposure :: "exposure \<Rightarrow> db \<Rightarrow> id option" where
  "owner_principal_id_for_exposure e d =
     (case row_get rel_id (db_releases d) (exp_release_id e) of
        None \<Rightarrow> exp_requested_by e
      | Some r \<Rightarrow>
          (case rel_skill_id r of
             None \<Rightarrow> exp_requested_by e
           | Some i \<Rightarrow>
               (case row_get skl_id (db_skills d) i of
                  None \<Rightarrow> exp_requested_by e
                | Some s \<Rightarrow> Some (skl_namespace_id s))))"

definition principal_ref :: "id \<Rightarrow> string" where
  "principal_ref i = ''principal:'' @ str_of_int i"

definition audit_exposure_activation :: "exposure \<Rightarrow> id \<Rightarrow> db \<Rightarrow> db" where
  "audit_exposure_activation e actor_principal_id d =
     append_audit_event ''exposure'' (str_of_int (exp_id e)) ''exposure.activated''
       (principal_ref actor_principal_id) (owner_principal_id_for_exposure e d)
       [(''object_id'', case row_get rel_id (db_releases d) (exp_release_id e) of
                          None \<Rightarrow> JNull | Some r \<Rightarrow> jopt JInt (rel_skill_id r)),
        (''release_id'', JInt (exp_release_id e)), (''exposure_id'', JInt (exp_id e)),
        (''audience_type'', JStr (audience_text (exp_audience e))),
        (''state'', JStr (exposure_state_text (exp_state e)))] d"

text \<open>
  The savepoint that inserts the default policy can only fail on the unique name and version,
  which the select before it has not found.
\<close>

definition ensure_default_policy :: "db \<Rightarrow> review_policy \<times> db" where
  "ensure_default_policy d =
     (case last_where pol_id (\<lambda>p. pol_name p = default_policy_name \<and> pol_version p = default_policy_version)
             (db_policies d) of
        Some p \<Rightarrow> (p, d)
      | None \<Rightarrow>
          (let p = \<lparr>pol_id = next_id pol_id (db_policies d), pol_name = default_policy_name,
                    pol_version = default_policy_version, pol_active = True,
                    pol_rules_json = json_dumps default_policy_rules\<rparr>
           in (p, d\<lparr>db_policies := db_policies d @ [p]\<rparr>)))"

definition get_review_case_or_404 :: "id \<Rightarrow> db \<Rightarrow> svc_error + review_case" where
  "get_review_case_or_404 i d =
     or_raise (row_get cas_id (db_cases d) i) (NotFound ''review case not found'')"

definition get_review_decisions :: "id \<Rightarrow> db \<Rightarrow> review_decision list" where
  "get_review_decisions i d = sort_key dec_id (filter (\<lambda>x. dec_case_id x = i) (db_decisions d))"

definition get_open_review_case_for_exposure :: "id \<Rightarrow> db \<Rightarrow> review_case option" where
  "get_open_review_case_for_exposure i d =
     last_where cas_id (\<lambda>c. cas_exposure_id c = i \<and> cas_state c = CaseOpen) (db_cases d)"

definition get_latest_review_case_for_exposure :: "id \<Rightarrow> db \<Rightarrow> review_case option" where
  "get_latest_review_case_for_exposure i d =
     last_where cas_id (\<lambda>c. cas_exposure_id c = i) (db_cases d)"

definition put_case :: "review_case \<Rightarrow> db \<Rightarrow> db" where
  "put_case c d = d\<lparr>db_cases := row_set cas_id c (db_cases d)\<rparr>"

definition put_exposure :: "exposure \<Rightarrow> db \<Rightarrow> db" where
  "put_exposure e d = d\<lparr>db_exposures := row_set exp_id e (db_exposures d)\<rparr>"

definition close_review_case :: "review_case \<Rightarrow> time \<Rightarrow> db \<Rightarrow> db" where
  "close_review_case c now d =
     (if cas_state c \<noteq> CaseOpen then d
      else put_case (c\<lparr>cas_state := CaseClosed, cas_closed_at := Some now\<rparr>) d)"

definition open_review_case :: "exposure \<Rightarrow> id \<Rightarrow> review_mode \<Rightarrow> db \<Rightarrow> review_case \<times> db" where
  "open_review_case e actor_principal_id mode d =
     (case get_open_review_case_for_exposure (exp_id e) d of
        Some existing \<Rightarrow> (existing, d)
      | None \<Rightarrow>
          (let (policy, d1) = ensure_default_policy d;
               c = \<lparr>cas_id = next_id cas_id (db_cases d1), cas_exposure_id = exp_id e,
                    cas_policy_id = Some (pol_id policy), cas_mode = mode, cas_state = CaseOpen,
                    cas_opened_by = Some actor_principal_id, cas_closed_at = None\<rparr>;
               d2 = d1\<lparr>db_cases := db_cases d1 @ [c]\<rparr>
           in (c, append_audit_event ''review_case'' (str_of_int (cas_id c)) ''review_case.opened''
                    (principal_ref actor_principal_id) (owner_principal_id_for_exposure e d2)
                    [(''release_id'', JInt (exp_release_id e)), (''exposure_id'', JInt (exp_id e)),
                     (''review_case_id'', JInt (cas_id c)), (''mode'', JStr (review_mode_text mode))]
                    d2)))"

text \<open>
  The partial unique index \<open>uq_exposures_open_release_audience\<close>: a flush that leaves two
  exposures of one release and audience outside \<open>revoked\<close> and \<open>rejected\<close> raises.
\<close>

definition closed_states :: "exposure_state set" where
  "closed_states = {ExpRevoked, ExpRejected}"

definition open_key :: "exposure \<Rightarrow> id \<times> audience" where
  "open_key e = (exp_release_id e, exp_audience e)"

definition open_exposures_unique :: "exposure list \<Rightarrow> bool" where
  "open_exposures_unique t \<longleftrightarrow>
     distinct (map open_key (filter (\<lambda>e. exp_state e \<notin> closed_states) t))"

definition flush_exposures :: "db \<Rightarrow> svc_error + unit" where
  "flush_exposures d =
     require (open_exposures_unique (db_exposures d)) (IntegrityError ''uq_exposures_open_release_audience'')"

definition decided_case :: "decision \<Rightarrow> time \<Rightarrow> review_case \<Rightarrow> review_case" where
  "decided_case dc now c =
     (case dc of
        Approve \<Rightarrow> c\<lparr>cas_state := CaseApproved, cas_closed_at := Some now\<rparr>
      | Reject \<Rightarrow> c\<lparr>cas_state := CaseRejected, cas_closed_at := Some now\<rparr>
      | Comment \<Rightarrow> c\<lparr>cas_state := CaseOpen\<rparr>)"

definition decided_exposure :: "decision \<Rightarrow> review_mode \<Rightarrow> time \<Rightarrow> exposure \<Rightarrow> exposure" where
  "decided_exposure dc mode now e =
     (case dc of
        Approve \<Rightarrow>
          if mode = Blocking
          then e\<lparr>exp_state := ExpActive,
                 exp_activated_at := (case exp_activated_at e of None \<Rightarrow> Some now | Some t \<Rightarrow> Some t)\<rparr>
          else e
      | Reject \<Rightarrow>
          if mode = Blocking then e\<lparr>exp_state := ExpRejected, exp_ended_at := Some now\<rparr> else e
      | Comment \<Rightarrow> e)"

definition decision_of_text :: "string \<Rightarrow> decision option" where
  "decision_of_text = find_text decision_text [Approve, Reject, Comment]"

definition record_decision ::
    "id \<Rightarrow> id \<Rightarrow> string \<Rightarrow> string \<Rightarrow> (string \<times> json) list \<Rightarrow> time \<Rightarrow> db \<Rightarrow> (review_case \<times> exposure) svc" where
  "record_decision case_id reviewer decision note evidence now d =
     rbind (or_raise (decision_of_text (lower (strip decision))) (Conflict ''unsupported review decision'')) (\<lambda>dc.
     rbind (get_review_case_or_404 case_id d) (\<lambda>_.
     let p = (\<lambda>c. cas_id c = case_id \<and> cas_state c = CaseOpen);
         d1 = d\<lparr>db_cases := row_update p (decided_case dc now) (db_cases d)\<rparr>
     in rbind (require (row_count p (db_cases d) = 1) (Conflict ''review case is already closed'')) (\<lambda>_.
     rbind (get_review_case_or_404 case_id d1) (\<lambda>c.
     rbind (or_raise (row_get exp_id (db_exposures d1) (cas_exposure_id c)) (NotFound ''exposure not found'')) (\<lambda>e.
     let row = \<lparr>dec_id = next_id dec_id (db_decisions d1), dec_case_id = cas_id c,
                dec_reviewer = Some reviewer, dec_decision = dc, dec_note = note,
                dec_evidence_json = json_dumps (JObj evidence)\<rparr>;
         d2 = d1\<lparr>db_decisions := db_decisions d1 @ [row]\<rparr>;
         activated = (dc = Approve \<and> cas_mode c = Blocking \<and> exp_state e \<noteq> ExpActive);
         e' = decided_exposure dc (cas_mode c) now e;
         d3 = put_exposure e' d2
     in rbind (flush_exposures d3) (\<lambda>_.
        let d4 = append_audit_event ''review_case'' (str_of_int (cas_id c)) ''review_decision.recorded''
                   (principal_ref reviewer) (owner_principal_id_for_exposure e' d3)
                   [(''release_id'', JInt (exp_release_id e')), (''exposure_id'', JInt (exp_id e')),
                    (''review_case_id'', JInt (cas_id c)), (''decision'', JStr (decision_text dc)),
                    (''state'', JStr (case_state_text (cas_state c)))] d3
        in Inr ((c, e'), if activated then audit_exposure_activation e' reviewer d4 else d4)))))))"

end
