(* ===== verification/Exposure.thy ===== *)
theory Exposure
  imports Review
begin

text \<open>
  Exposures, \<open>server/modules/exposure/service.py\<close>, \<open>policy.py\<close> and \<open>router.py\<close>, and the
  routes of review cases, \<open>server/modules/review/router.py\<close>, which work on an exposure.
\<close>

record exposure_create_request =
  req_audience :: "audience option"
  req_listing :: listing_mode
  req_install :: install_mode
  req_review :: review_mode

record exposure_patch_request =
  pat_listing :: "listing_mode option"
  pat_install :: "install_mode option"
  pat_review :: "review_mode option"

section \<open>The service\<close>

definition compat_message :: "string \<Rightarrow> string" where
  "compat_message state =
     ''public visibility is blocked by canonical runtime compatibility state: '' @ state"

text \<open>
  A column that decodes to something other than an object makes \<open>.get\<close> raise; a state that is
  a list or an object cannot be looked up in the set.
\<close>

definition assert_public_compatibility :: "release \<Rightarrow> audience \<Rightarrow> svc_error + (string \<times> json) list" where
  "assert_public_compatibility r a =
     (case (case loads_or_empty (rel_compatibility_json r) of None \<Rightarrow> JObj [] | Some j \<Rightarrow> j) of
        JObj compatibility \<Rightarrow>
          (let state = (case jget compatibility ''canonical_runtime'' of
                          JObj m \<Rightarrow> jget m ''state'' | _ \<Rightarrow> JNull)
           in if a \<noteq> Public then Inr compatibility
              else (case state of
                      JStr s \<Rightarrow>
                        if s \<in> {''blocked'', ''broken'', ''unsupported''}
                        then Inl (Conflict (compat_message s)) else Inr compatibility
                    | JList _ \<Rightarrow> Inl (RuntimeError ''unhashable'')
                    | JObj _ \<Rightarrow> Inl (RuntimeError ''unhashable'')
                    | _ \<Rightarrow> Inr compatibility))
      | _ \<Rightarrow> Inl (RuntimeError ''no attribute get''))"

definition get_exposure_or_404 :: "id \<Rightarrow> db \<Rightarrow> svc_error + exposure" where
  "get_exposure_or_404 i d =
     or_raise (row_get exp_id (db_exposures d) i) (NotFound ''exposure not found'')"

definition list_release_exposures :: "id \<Rightarrow> id \<Rightarrow> bool \<Rightarrow> db \<Rightarrow> svc_error + exposure list" where
  "list_release_exposures release_id actor_principal_id maintainer d =
     rbind (get_release_or_404 release_id d) (\<lambda>r.
     rbind (assert_release_owner r actor_principal_id maintainer d) (\<lambda>_.
     Inr (rev (sort_key exp_id (filter (\<lambda>e. exp_release_id e = release_id) (db_exposures d))))))"

definition resolve_audience_type :: "release \<Rightarrow> audience option \<Rightarrow> db \<Rightarrow> svc_error + audience" where
  "resolve_audience_type r requested d =
     (case requested of
        Some a \<Rightarrow> Inr a
      | None \<Rightarrow>
          rbind (or_raise (rel_skill_id r)
                  (Conflict ''audience_type is required for a release without a skill'')) (\<lambda>i.
          rbind (or_raise (row_get skl_id (db_skills d) i) (NotFound ''skill not found'')) (\<lambda>s.
          or_raise (audience_of_text (strip (case skl_visibility s of None \<Rightarrow> [] | Some p \<Rightarrow> p)))
            (Conflict ''audience_type is required when the skill has no visibility profile''))))"

definition evaluate_create_policy :: "audience \<Rightarrow> review_mode \<Rightarrow> svc_error + policy_outcome" where
  "evaluate_create_policy a m =
     reraise (\<lambda>e. case e of ValueError t \<Rightarrow> Conflict t | _ \<Rightarrow> e)
       (evaluate_exposure_policy (audience_text a) (review_mode_text m))"

definition build_exposure ::
    "id \<Rightarrow> id \<Rightarrow> id \<Rightarrow> exposure_create_request \<Rightarrow> policy_outcome \<Rightarrow> (string \<times> json) list \<Rightarrow> exposure" where
  "build_exposure i release_id actor_principal_id req outcome compatibility =
     \<lparr>exp_id = i, exp_release_id = release_id, exp_audience = out_audience outcome,
      exp_listing = req_listing req, exp_install = req_install req,
      exp_requirement = out_requirement outcome, exp_state = ExpPendingPolicy,
      exp_requested_by = Some actor_principal_id,
      exp_policy_json = json_dumps (JObj
        [(''audience_type'', JStr (audience_text (out_audience outcome))),
         (''requested_review_mode'', JStr (review_mode_text (out_requested outcome))),
         (''review_requirement'', JStr (review_mode_text (out_requirement outcome))),
         (''platform_compatibility'', JObj compatibility)]),
      exp_activated_at = None, exp_ended_at = None\<rparr>"

definition audit_exposure ::
    "exposure \<Rightarrow> string \<Rightarrow> id \<Rightarrow> actor option \<Rightarrow> db \<Rightarrow> svc_error + db" where
  "audit_exposure e event_type actor_principal_id audit_actor d =
     rbind (get_release_or_404 (exp_release_id e) d) (\<lambda>r.
     rbind (get_release_snapshot (rel_id r) d) (\<lambda>s.
     Inr (append_audit_event ''exposure'' (str_of_int (exp_id e)) event_type
            (actor_or_principal audit_actor actor_principal_id)
            (Some (skl_namespace_id (snp_skill s)))
            ([(''object_id'', jopt JInt (rel_skill_id r)), (''release_id'', JInt (rel_id r)),
              (''exposure_id'', JInt (exp_id e)),
              (''audience_type'', JStr (audience_text (exp_audience e))),
              (''state'', JStr (exposure_state_text (exp_state e)))] @
             actor_audit_payload audit_actor) d)))"

definition resolve_create_policy ::
    "release \<Rightarrow> exposure_create_request \<Rightarrow> db \<Rightarrow> svc_error + policy_outcome \<times> (string \<times> json) list" where
  "resolve_create_policy r req d =
     rbind (require (rel_state r = RelReady) (Conflict ''only ready releases can be exposed'')) (\<lambda>_.
     rbind (resolve_audience_type r (req_audience req) d) (\<lambda>a.
     rbind (assert_public_compatibility r a) (\<lambda>compatibility.
     rbind (evaluate_create_policy a (req_review req)) (\<lambda>outcome.
     Inr (outcome, compatibility)))))"

definition exists_message :: "audience \<Rightarrow> string" where
  "exists_message a = ''active '' @ audience_text a @ '' exposure already exists for this release''"

definition persist_new_exposure :: "exposure \<Rightarrow> db \<Rightarrow> svc_error + db" where
  "persist_new_exposure e d =
     (let d1 = d\<lparr>db_exposures := db_exposures d @ [e]\<rparr> in
      case flush_exposures d1 of
        Inl _ \<Rightarrow> Inl (Conflict (exists_message (exp_audience e)))
      | Inr _ \<Rightarrow> Inr d1)"

definition create_exposure ::
    "id \<Rightarrow> id \<Rightarrow> bool \<Rightarrow> exposure_create_request \<Rightarrow> actor option \<Rightarrow> time \<Rightarrow> db \<Rightarrow> exposure svc" where
  "create_exposure release_id actor_principal_id maintainer req audit_actor now d =
     rbind (get_release_or_404 release_id d) (\<lambda>r.
     rbind (assert_release_owner r actor_principal_id maintainer d) (\<lambda>_.
     rbind (resolve_create_policy r req d) (\<lambda>(outcome, compatibility).
     rbind (require (\<not> list_ex (\<lambda>e. exp_release_id e = release_id \<and>
                       exp_audience e = out_audience outcome \<and> exp_state e \<notin> closed_states)
                     (db_exposures d))
            (Conflict (exists_message (out_audience outcome)))) (\<lambda>_.
     let e = build_exposure (next_id exp_id (db_exposures d)) release_id actor_principal_id req outcome compatibility
     in rbind (persist_new_exposure e d) (\<lambda>d1.
        let d2 = (if out_requirement outcome \<in> {Advisory, Blocking}
                  then snd (open_review_case e actor_principal_id (out_requirement outcome) d1) else d1);
            e' = (if out_auto_activate outcome
                  then e\<lparr>exp_state := ExpActive, exp_activated_at := Some now\<rparr>
                  else e\<lparr>exp_state := ExpReviewOpen\<rparr>);
            d3 = put_exposure e' d2
        in rbind (audit_exposure e' ''exposure.created'' actor_principal_id audit_actor d3) (\<lambda>d4.
           rbind (if exp_state e' = ExpActive
                  then audit_exposure e' ''exposure.activated'' actor_principal_id audit_actor d4
                  else Inr d4) (\<lambda>d5.
           Inr (e', d5))))))))"

text \<open>The requested mode of a decoded snapshot; no other value prints as the name of a mode.\<close>

definition snapshot_review_mode :: "(string \<times> json) list \<Rightarrow> string" where
  "snapshot_review_mode m =
     lower (strip (py_str (json_or (jget m ''requested_review_mode'') (JStr ''none''))))"

definition patched_exposure :: "exposure_patch_request \<Rightarrow> exposure \<Rightarrow> exposure" where
  "patched_exposure req e =
     e\<lparr>exp_listing := (case pat_listing req of None \<Rightarrow> exp_listing e | Some l \<Rightarrow> l),
       exp_install := (case pat_install req of None \<Rightarrow> exp_install e | Some i \<Rightarrow> i)\<rparr>"

definition patch_exposure ::
    "id \<Rightarrow> id \<Rightarrow> bool \<Rightarrow> exposure_patch_request \<Rightarrow> actor option \<Rightarrow> db \<Rightarrow> exposure svc" where
  "patch_exposure exposure_id actor_principal_id maintainer req audit_actor d =
     rbind (get_exposure_or_404 exposure_id d) (\<lambda>e.
     rbind (get_release_or_404 (exp_release_id e) d) (\<lambda>r.
     rbind (assert_release_owner r actor_principal_id maintainer d) (\<lambda>_.
     rbind (require (exp_state e \<notin> closed_states) (Conflict ''closed exposure cannot be patched'')) (\<lambda>_.
     rbind (or_raise (loads_or_empty (exp_policy_json e)) (ValueError ''JSONDecodeError'')) (\<lambda>snapshot.
     let e' = patched_exposure req e
     in rbind (case pat_review req of
                 None \<Rightarrow> Inr ()
               | Some m \<Rightarrow>
                   (case snapshot of
                      JObj s \<Rightarrow>
                        require (review_mode_text m = snapshot_review_mode s)
                          (Conflict ''requested_review_mode cannot be changed after exposure creation'')
                    | _ \<Rightarrow> Inl (RuntimeError ''no attribute get''))) (\<lambda>_.
        rbind (audit_exposure e' ''exposure.updated'' actor_principal_id audit_actor (put_exposure e' d)) (\<lambda>d1.
        Inr (e', d1))))))))"

definition activate_exposure ::
    "id \<Rightarrow> id \<Rightarrow> bool \<Rightarrow> actor option \<Rightarrow> time \<Rightarrow> db \<Rightarrow> exposure svc" where
  "activate_exposure exposure_id actor_principal_id maintainer audit_actor now d =
     rbind (get_exposure_or_404 exposure_id d) (\<lambda>e.
     rbind (get_release_or_404 (exp_release_id e) d) (\<lambda>r.
     rbind (assert_release_owner r actor_principal_id maintainer d) (\<lambda>_.
     if exp_state e = ExpActive then Inr (e, d)
     else
       rbind (require (exp_state e \<notin> closed_states)
               (Conflict ''closed exposure cannot be re-activated'')) (\<lambda>_.
       rbind (assert_public_compatibility r (exp_audience e)) (\<lambda>_.
       rbind (if exp_requirement e = Blocking then
                rbind (require (get_open_review_case_for_exposure (exp_id e) d = None)
                        (Conflict ''blocking review must be resolved before activation'')) (\<lambda>_.
                require (case get_latest_review_case_for_exposure (exp_id e) d of
                           None \<Rightarrow> False | Some c \<Rightarrow> cas_state c = CaseApproved)
                  (Conflict ''blocking review must be approved before activation''))
              else Inr ()) (\<lambda>_.
       let e' = e\<lparr>exp_state := ExpActive,
                  exp_activated_at := (case exp_activated_at e of None \<Rightarrow> Some now | Some t \<Rightarrow> Some t)\<rparr>
       in rbind (audit_exposure e' ''exposure.activated'' actor_principal_id audit_actor (put_exposure e' d)) (\<lambda>d1.
          Inr (e', d1))))))))"

definition revoke_exposure ::
    "id \<Rightarrow> id \<Rightarrow> bool \<Rightarrow> actor option \<Rightarrow> time \<Rightarrow> db \<Rightarrow> exposure svc" where
  "revoke_exposure exposure_id actor_principal_id maintainer audit_actor now d =
     rbind (get_exposure_or_404 exposure_id d) (\<lambda>e.
     rbind (get_release_or_404 (exp_release_id e) d) (\<lambda>r.
     rbind (assert_release_owner r actor_principal_id maintainer d) (\<lambda>_.
     if exp_state e = ExpRevoked then Inr (e, d)
     else
       let e' = e\<lparr>exp_state := ExpRevoked, exp_ended_at := Some now\<rparr>;
           d1 = (case get_open_review_case_for_exposure (exp_id e) d of
                   None \<Rightarrow> d | Some c \<Rightarrow> close_review_case c now d)
       in rbind (audit_exposure e' ''exposure.revoked'' actor_principal_id audit_actor (put_exposure e' d1)) (\<lambda>d2.
          Inr (e', d2)))))"

section \<open>What a client may do next\<close>

record action_state =
  can_activate :: bool
  can_revoke :: bool
  can_patch :: bool
  block_reason :: string

definition derive_exposure_action_state :: "exposure \<Rightarrow> string \<Rightarrow> action_state" where
  "derive_exposure_action_state e review_case_state =
     (let st = exp_state e;
          base = \<lparr>can_activate = False,
                  can_revoke = (st \<in> {ExpPendingPolicy, ExpReviewOpen, ExpActive}),
                  can_patch = (st \<notin> {ExpRevoked, ExpRejected}), block_reason = []\<rparr>
      in if st \<in> {ExpActive, ExpRevoked, ExpRejected} then base
         else if exp_requirement e = Blocking then
           (if review_case_state = ''approved'' then base\<lparr>can_activate := True\<rparr>
            else base\<lparr>block_reason :=
              (if review_case_state = ''open'' then ''blocking_review_open''
               else if review_case_state = ''rejected'' then ''blocking_review_rejected''
               else ''blocking_review_unapproved'')\<rparr>)
         else base\<lparr>can_activate := (st \<in> {ExpPendingPolicy, ExpReviewOpen})\<rparr>)"

section \<open>The routes\<close>

definition require_exposure_principal :: "access_context \<Rightarrow> svc_error + principal" where
  "require_exposure_principal ctx =
     rbind (or_raise (ctx_principal ctx) (Forbidden ''exposure principal required'')) (\<lambda>p.
     rbind (require (require_any_scope ctx {''api:user'', ''exposure:write'', ''authoring:write''})
            (Forbidden ''insufficient scope'')) (\<lambda>_. Inr p))"

definition require_release_scope :: "access_context \<Rightarrow> id \<Rightarrow> db \<Rightarrow> svc_error + unit" where
  "require_release_scope ctx release_id d =
     (case row_get rel_id (db_releases d) release_id of
        None \<Rightarrow> Inr ()
      | Some r \<Rightarrow> assert_product_token_skill_scope ctx (rel_skill_id r) False d)"

definition require_exposure_scope :: "access_context \<Rightarrow> id \<Rightarrow> db \<Rightarrow> svc_error + unit" where
  "require_exposure_scope ctx exposure_id d =
     (case row_get exp_id (db_exposures d) exposure_id of
        None \<Rightarrow> Inr ()
      | Some e \<Rightarrow> require_release_scope ctx (exp_release_id e) d)"

definition create_exposure_route ::
    "access_context \<Rightarrow> id \<Rightarrow> exposure_create_request \<Rightarrow> time \<Rightarrow> db \<Rightarrow> exposure svc" where
  "create_exposure_route ctx release_id req now d =
     rbind (require_exposure_principal ctx) (\<lambda>p.
     rbind (require_release_scope ctx release_id d) (\<lambda>_.
     rbind (actor_ref_for_context ctx (is_maintainer ctx)) (\<lambda>actor.
     create_exposure release_id (prn_id p) (is_maintainer ctx) req (Some actor) now d)))"

text \<open>The three routes on an existing exposure share their checks and differ in the service call.\<close>

definition exposure_route ::
    "(id \<Rightarrow> bool \<Rightarrow> actor option \<Rightarrow> db \<Rightarrow> exposure svc) \<Rightarrow> access_context \<Rightarrow> id \<Rightarrow> db \<Rightarrow> exposure svc" where
  "exposure_route call ctx exposure_id d =
     rbind (require_exposure_principal ctx) (\<lambda>p.
     rbind (require_exposure_scope ctx exposure_id d) (\<lambda>_.
     rbind (actor_ref_for_context ctx (is_maintainer ctx)) (\<lambda>actor.
     call (prn_id p) (is_maintainer ctx) (Some actor) d)))"

definition patch_exposure_route ::
    "access_context \<Rightarrow> id \<Rightarrow> exposure_patch_request \<Rightarrow> db \<Rightarrow> exposure svc" where
  "patch_exposure_route ctx exposure_id req =
     exposure_route (\<lambda>p m a. patch_exposure exposure_id p m req a) ctx exposure_id"

definition activate_exposure_route :: "access_context \<Rightarrow> id \<Rightarrow> time \<Rightarrow> db \<Rightarrow> exposure svc" where
  "activate_exposure_route ctx exposure_id now =
     exposure_route (\<lambda>p m a. activate_exposure exposure_id p m a now) ctx exposure_id"

definition revoke_exposure_route :: "access_context \<Rightarrow> id \<Rightarrow> time \<Rightarrow> db \<Rightarrow> exposure svc" where
  "revoke_exposure_route ctx exposure_id now =
     exposure_route (\<lambda>p m a. revoke_exposure exposure_id p m a now) ctx exposure_id"

definition require_review_principal :: "access_context \<Rightarrow> svc_error + principal" where
  "require_review_principal ctx =
     rbind (or_raise (ctx_principal ctx) (Forbidden ''review principal required'')) (\<lambda>p.
     rbind (require (require_any_scope ctx {''api:user'', ''review:write'', ''authoring:write''})
            (Forbidden ''insufficient scope'')) (\<lambda>_. Inr p))"

definition require_review_case_owner ::
    "id \<Rightarrow> id \<Rightarrow> bool \<Rightarrow> db \<Rightarrow> svc_error + review_case" where
  "require_review_case_owner case_id principal_id maintainer d =
     rbind (get_review_case_or_404 case_id d) (\<lambda>c.
     rbind (get_exposure_or_404 (cas_exposure_id c) d) (\<lambda>e.
     rbind (get_release_or_404 (exp_release_id e) d) (\<lambda>r.
     rbind (assert_release_owner r principal_id maintainer d) (\<lambda>_. Inr c))))"

definition get_review_case_for_reviewer ::
    "id \<Rightarrow> id \<Rightarrow> bool \<Rightarrow> db \<Rightarrow> svc_error + review_case" where
  "get_review_case_for_reviewer case_id reviewer maintainer d =
     rbind (get_review_case_or_404 case_id d) (\<lambda>c.
     rbind (get_exposure_or_404 (cas_exposure_id c) d) (\<lambda>e.
     rbind (require (exp_requested_by e \<noteq> Some reviewer) (Forbidden ''self-review is not allowed'')) (\<lambda>_.
     rbind (get_release_or_404 (exp_release_id e) d) (\<lambda>r.
     rbind (assert_release_owner r reviewer maintainer d) (\<lambda>_. Inr c)))))"

definition create_review_case_route ::
    "access_context \<Rightarrow> id \<Rightarrow> review_mode option \<Rightarrow> db \<Rightarrow> review_case svc" where
  "create_review_case_route ctx exposure_id mode d =
     rbind (require_review_principal ctx) (\<lambda>p.
     rbind (get_exposure_or_404 exposure_id d) (\<lambda>e.
     rbind (get_release_or_404 (exp_release_id e) d) (\<lambda>r.
     rbind (assert_release_owner r (prn_id p) (is_maintainer ctx) d) (\<lambda>_.
     Inr (open_review_case e (prn_id p)
            (case mode of Some m \<Rightarrow> m | None \<Rightarrow> exp_requirement e) d)))))"

definition create_review_decision_route ::
    "access_context \<Rightarrow> id \<Rightarrow> decision \<Rightarrow> string \<Rightarrow> (string \<times> json) list \<Rightarrow> time \<Rightarrow> db \<Rightarrow> review_case svc" where
  "create_review_decision_route ctx case_id dc note evidence now d =
     rbind (require_review_principal ctx) (\<lambda>p.
     rbind (get_review_case_for_reviewer case_id (prn_id p) (is_maintainer ctx) d) (\<lambda>_.
     rbind (record_decision case_id (prn_id p) (decision_text dc) note evidence now d) (\<lambda>((c, e), d').
     Inr (c, d'))))"

definition get_review_case_route ::
    "access_context \<Rightarrow> id \<Rightarrow> db \<Rightarrow> svc_error + review_case \<times> review_decision list" where
  "get_review_case_route ctx case_id d =
     rbind (require_review_principal ctx) (\<lambda>p.
     rbind (require_review_case_owner case_id (prn_id p) (is_maintainer ctx) d) (\<lambda>c.
     Inr (c, get_review_decisions (cas_id c) d)))"

end
