(* ===== verification/AgentPublish.thy ===== *)
theory AgentPublish
  imports Exposure
begin

text \<open>
  Publication by agents, \<open>server/modules/release/agent_publish_service.py\<close>: the idempotent
  publish intent, and its finalisation by the worker once the release is materialised.
\<close>

definition service_of_principal :: "id \<Rightarrow> db \<Rightarrow> service_principal option" where
  "service_of_principal p d = find (\<lambda>s. svc_principal_id s = p) (db_services d)"

definition agent_policy :: "service_principal \<Rightarrow> (string \<times> json) list" where
  "agent_policy s = object_or_empty (svc_policy_json s)"

definition intent_of_version :: "id \<Rightarrow> id \<Rightarrow> db \<Rightarrow> publish_intent option" where
  "intent_of_version principal_id version_id d =
     find (\<lambda>i. int_principal_id i = principal_id \<and>
               list_ex (\<lambda>r. rel_id r = int_release_id i \<and> rel_version_id r = version_id) (db_releases d))
          (db_intents d)"

definition put_intent :: "publish_intent \<Rightarrow> db \<Rightarrow> db" where
  "put_intent i d = d\<lparr>db_intents := row_set int_id i (db_intents d)\<rparr>"

definition agent_context :: "access_context \<Rightarrow> string set \<Rightarrow> string \<Rightarrow> svc_error + principal" where
  "agent_context ctx scopes message =
     (case ctx_principal ctx of
        None \<Rightarrow> Inl (Forbidden ''agent credential required'')
      | Some p \<Rightarrow>
          rbind (require (crd_type (ctx_credential ctx) = AgentToken) (Forbidden ''agent credential required'')) (\<lambda>_.
          rbind (require (require_any_scope ctx scopes) (Forbidden message)) (\<lambda>_. Inr p)))"

definition as_conflict :: "svc_error \<Rightarrow> svc_error" where
  "as_conflict e =
     (case e of NotFound t \<Rightarrow> Conflict t | Forbidden t \<Rightarrow> Conflict t | Conflict t \<Rightarrow> Conflict t | _ \<Rightarrow> e)"

definition create_or_get_publish_intent ::
    "id \<Rightarrow> access_context \<Rightarrow> time \<Rightarrow> db \<Rightarrow> (publish_intent \<times> release \<times> bool) svc" where
  "create_or_get_publish_intent version_id ctx now d =
     rbind (agent_context ctx {''agent:publish''} ''agent publish scope required'') (\<lambda>p.
     rbind (or_raise (service_of_principal (prn_id p) d) (Forbidden ''agent is not active'')) (\<lambda>s.
     rbind (require (svc_state s = AgentActive) (Forbidden ''agent is not active'')) (\<lambda>_.
     rbind (get_skill_version_or_404 version_id d) (\<lambda>v.
     rbind (assert_product_token_skill_scope ctx (Some (ver_skill_id v)) False d) (\<lambda>_.
     rbind (assert_agent_publish_allowed s ''skill'') (\<lambda>_.
     case intent_of_version (prn_id p) version_id d of
       Some i \<Rightarrow>
         rbind (or_raise (row_get rel_id (db_releases d) (int_release_id i))
                 (Conflict ''publish intent release is missing'')) (\<lambda>r.
         Inr ((i, r, False), d))
     | None \<Rightarrow>
         rbind (reraise as_conflict (create_or_get_release version_id (prn_id p) False None d)) (\<lambda>((r, created), d1).
         case find (\<lambda>i. int_release_id i = rel_id r) (db_intents d1) of
           Some i \<Rightarrow> Inr ((i, r, False), d1)
         | None \<Rightarrow>
             (let i = \<lparr>int_id = next_id int_id (db_intents d1), int_release_id = rel_id r,
                       int_principal_id = prn_id p, int_credential_id = crd_id (ctx_credential ctx),
                       int_policy_json = json_dumps (JObj (agent_policy s)), int_state = IntentPending,
                       int_reason = [], int_quota_key = agent_quota_key (prn_id p),
                       int_activated_at = None\<rparr>;
                  d2 = d1\<lparr>db_intents := db_intents d1 @ [i]\<rparr>
              in rbind (consume_publish_quota_for_principal (prn_id p) s now d2) (\<lambda>(key, d3).
                 let i' = i\<lparr>int_quota_key := key\<rparr>; d4 = put_intent i' d3 in
                 Inr ((i', r, True),
                   if has_active_job materialize_kind (Some (rel_id r)) [JobQueued, JobRunning] now d4 then d4
                   else snd (enqueue_job materialize_kind
                          (Some [(''release_id'', JInt (rel_id r)), (''publish_intent_id'', JInt (int_id i))])
                          (Some (prn_id p)) (Some (rel_id r))
                          (''materialize Agent release '' @ str_of_int (rel_id r)) now d4)))))))))))"

definition get_publish_status ::
    "id \<Rightarrow> access_context \<Rightarrow> db \<Rightarrow> svc_error + publish_intent \<times> release" where
  "get_publish_status release_id ctx d =
     rbind (agent_context ctx {''agent:publish'', ''release:read''} ''agent publish status scope required'') (\<lambda>p.
     rbind (or_raise (find (\<lambda>i. int_release_id i = release_id \<and> int_principal_id i = prn_id p) (db_intents d))
             (NotFound ''agent publish intent not found'')) (\<lambda>i.
     rbind (or_raise (row_get rel_id (db_releases d) (int_release_id i))
             (NotFound ''publish intent release not found'')) (\<lambda>r.
     Inr (i, r))))"

section \<open>Finalisation\<close>

definition runtime_blocked :: "release \<Rightarrow> svc_error + bool" where
  "runtime_blocked r =
     (let compatibility = (case loads_or_empty (rel_compatibility_json r) of Some (JObj m) \<Rightarrow> m | _ \<Rightarrow> [])
      in case jget compatibility ''canonical_runtime'' of
           JObj m \<Rightarrow>
             (case jget m ''state'' of
                JStr s \<Rightarrow> Inr (s \<in> {''blocked'', ''broken'', ''unsupported''})
              | JList _ \<Rightarrow> Inl (RuntimeError ''unhashable'')
              | JObj _ \<Rightarrow> Inl (RuntimeError ''unhashable'')
              | _ \<Rightarrow> Inr False)
         | _ \<Rightarrow> Inr False)"

definition publication_block :: "service_principal option \<Rightarrow> release \<Rightarrow> svc_error + string option" where
  "publication_block s r =
     (case s of
        None \<Rightarrow> Inr (Some ''agent is no longer active'')
      | Some s \<Rightarrow>
          if svc_state s \<noteq> AgentActive then Inr (Some ''agent is no longer active'')
          else if jget (agent_policy s) ''auto_public_publish'' \<noteq> JBool True
            then Inr (Some ''auto public publish is disabled'')
          else if rel_state r \<noteq> RelReady then Inr (Some ''release is not ready'')
          else rbind (runtime_blocked r) (\<lambda>b.
                 Inr (if b then Some ''public visibility is blocked by runtime compatibility'' else None)))"

definition suppress_intent :: "publish_intent \<Rightarrow> string \<Rightarrow> publish_intent" where
  "suppress_intent i reason = i\<lparr>int_state := IntentSuppressed, int_reason := reason\<rparr>"

definition agent_exposure :: "id \<Rightarrow> publish_intent \<Rightarrow> release \<Rightarrow> (string \<times> json) list \<Rightarrow> time \<Rightarrow> exposure" where
  "agent_exposure i intent r policy now =
     \<lparr>exp_id = i, exp_release_id = rel_id r, exp_audience = Public, exp_listing = Listed,
      exp_install = InstallEnabled, exp_requirement = NoReview, exp_state = ExpActive,
      exp_requested_by = Some (int_principal_id intent),
      exp_policy_json = json_dumps (JObj [(''source'', JStr ''agent_publish_intent''),
        (''intent_id'', JInt (int_id intent)), (''policy'', JObj policy)]),
      exp_activated_at = Some now, exp_ended_at = None\<rparr>"

definition open_public_exposure :: "id \<Rightarrow> db \<Rightarrow> exposure option" where
  "open_public_exposure release_id d =
     find (\<lambda>e. exp_release_id e = release_id \<and> exp_audience e = Public \<and> exp_state e \<notin> closed_states)
          (db_exposures d)"

definition finalize_publish_intent :: "id \<Rightarrow> time \<Rightarrow> db \<Rightarrow> publish_intent svc" where
  "finalize_publish_intent intent_id now d =
     rbind (or_raise (row_get int_id (db_intents d) intent_id) (Conflict ''publish intent not found'')) (\<lambda>i.
     if int_state i \<in> {IntentActivated, IntentSuppressed} then Inr (i, d)
     else (case row_get rel_id (db_releases d) (int_release_id i) of
        None \<Rightarrow> (let i' = suppress_intent i ''release not found'' in Inr (i', put_intent i' d))
      | Some r \<Rightarrow>
          (let s = service_of_principal (int_principal_id i) d in
           rbind (publication_block s r) (\<lambda>blocked.
           case blocked of
             Some reason \<Rightarrow> (let i' = suppress_intent i reason in Inr (i', put_intent i' d))
           | None \<Rightarrow>
               (let policy = (case s of None \<Rightarrow> [] | Some s \<Rightarrow> agent_policy s);
                    (e, d1) = (case open_public_exposure (rel_id r) d of
                                 Some e \<Rightarrow> (e, d)
                               | None \<Rightarrow>
                                   (let e = agent_exposure (next_id exp_id (db_exposures d)) i r policy now
                                    in (e, d\<lparr>db_exposures := db_exposures d @ [e]\<rparr>)));
                    i' = i\<lparr>int_state := IntentActivated, int_activated_at := Some now, int_reason := []\<rparr>;
                    d2 = put_intent i' d1
                in rbind (get_release_snapshot (rel_id r) d2) (\<lambda>snap.
                   Inr (i', append_audit_event ''exposure'' (str_of_int (exp_id e)) ''exposure.activated''
                          (''agent:'' @ str_of_int (int_principal_id i))
                          (Some (skl_namespace_id (snp_skill snap)))
                          [(''release_id'', JInt (rel_id r)), (''intent_id'', JInt (int_id i)),
                           (''audience_type'', JStr ''public'')] d2)))))))"

end
