(* ===== verification/ExposureProtocol.thy ===== *)
theory ExposureProtocol
  imports AgentPublish
begin

text \<open>
  What the operations on exposures and review cases do to the three tables they share, the
  invariant of those tables, and its preservation by every sequence of requests and worker
  finalisations.
\<close>

section \<open>Effects of the operations\<close>

lemma audit_exposure_frame:
  "audit_exposure e t p a d = Inr d' \<Longrightarrow> \<exists>evs. d' = d\<lparr>db_audit := evs\<rparr>"
  using audit_only by (fastforce simp: audit_exposure_def res_simps)

lemma open_review_case_effect:
  assumes "open_review_case e p m d = (c, d')"
  shows "db_exposures d' = db_exposures d \<and> db_decisions d' = db_decisions d \<and>
     db_releases d' = db_releases d \<and>
     cas_exposure_id c = exp_id e \<and> cas_state c = CaseOpen \<and>
     (get_open_review_case_for_exposure (exp_id e) d = Some c \<and> d' = d \<or>
      get_open_review_case_for_exposure (exp_id e) d = None \<and> cas_mode c = m \<and>
      cas_id c = next_id cas_id (db_cases d) \<and> db_cases d' = db_cases d @ [c])"
proof (cases "get_open_review_case_for_exposure (exp_id e) d")
  case (Some x)
  then have "cas_exposure_id x = exp_id e \<and> cas_state x = CaseOpen"
    unfolding get_open_review_case_for_exposure_def by (drule_tac last_where_Some) simp
  with Some assms show ?thesis by (simp add: open_review_case_def)
next
  case None
  with assms show ?thesis
    by (auto simp: open_review_case_def ensure_default_policy_def Let_def
             split: prod.splits option.splits)
qed

definition new_exposure_ok :: "exposure \<Rightarrow> bool" where
  "new_exposure_ok e \<longleftrightarrow>
     (exp_audience e = Public \<longrightarrow> exp_requirement e = Blocking) \<and>
     (exp_requirement e = Blocking \<longrightarrow> exp_state e = ExpReviewOpen) \<and>
     exp_state e \<in> {ExpReviewOpen, ExpActive} \<and> exp_requested_by e \<noteq> None"

lemma evaluate_policy_outcome:
  assumes "evaluate_create_policy a m = Inr out"
  shows "(out_audience out = Public \<longrightarrow> out_requirement out = Blocking) \<and>
     (out_auto_activate out \<longleftrightarrow> out_requirement out \<noteq> Blocking)"
proof -
  obtain x y where "out = (case y of
                Public \<Rightarrow> \<lparr>out_audience = y, out_requested = Blocking, out_requirement = Blocking,
                           out_auto_activate = False\<rparr>
              | Grant \<Rightarrow> \<lparr>out_audience = y, out_requested = x, out_requirement = x,
                          out_auto_activate = (x \<noteq> Blocking)\<rparr>
              | _ \<Rightarrow> \<lparr>out_audience = y, out_requested = NoReview, out_requirement = NoReview,
                      out_auto_activate = True\<rparr>)"
    using assms by (auto simp: evaluate_create_policy_def evaluate_exposure_policy_def Let_def res_simps)
  then show ?thesis by (cases y) simp_all
qed

lemma persist_new_exposure_Inr:
  "persist_new_exposure e d = Inr d' \<longleftrightarrow>
     open_exposures_unique (db_exposures d @ [e]) \<and> d' = d\<lparr>db_exposures := db_exposures d @ [e]\<rparr>"
  by (auto simp: persist_new_exposure_def flush_exposures_def Let_def split: sum.splits)

definition case_for_new :: "exposure \<Rightarrow> db \<Rightarrow> db \<Rightarrow> bool" where
  "case_for_new e d d' \<longleftrightarrow>
     (if exp_requirement e = NoReview then db_cases d' = db_cases d
      else (\<exists>c. cas_exposure_id c = exp_id e \<and> cas_state c = CaseOpen \<and>
              (c \<in> set (db_cases d) \<and> db_cases d' = db_cases d \<or>
               cas_mode c = exp_requirement e \<and> cas_id c = next_id cas_id (db_cases d) \<and>
               get_open_review_case_for_exposure (exp_id e) d = None \<and>
               db_cases d' = db_cases d @ [c])))"

lemma create_exposure_effect:
  assumes "create_exposure i p m req a now d = Inr (e, d')"
  shows "(\<exists>r. row_get rel_id (db_releases d) i = Some r \<and> rel_state r = RelReady) \<and>
     exp_release_id e = i \<and> exp_id e = next_id exp_id (db_exposures d) \<and> new_exposure_ok e \<and>
     (\<forall>x \<in> set (db_exposures d). open_key x = open_key e \<longrightarrow> exp_state x \<in> closed_states) \<and>
     db_exposures d' = db_exposures d @ [e] \<and> db_decisions d' = db_decisions d \<and>
     db_releases d' = db_releases d \<and> case_for_new e d d'"
proof -
  obtain r out comp x where
    r: "row_get rel_id (db_releases d) i = Some r" "rel_state r = RelReady"
    and pol: "evaluate_create_policy x (req_review req) = Inr out"
    and free: "\<not> list_ex (\<lambda>e. exp_release_id e = i \<and> exp_audience e = out_audience out \<and>
                 exp_state e \<notin> closed_states) (db_exposures d)"
    and rest: "(let e = build_exposure (next_id exp_id (db_exposures d)) i p req out comp
     in rbind (persist_new_exposure e d) (\<lambda>d1.
        let d2 = (if out_requirement out \<in> {Advisory, Blocking}
                  then snd (open_review_case e p (out_requirement out) d1) else d1);
            e' = (if out_auto_activate out
                  then e\<lparr>exp_state := ExpActive, exp_activated_at := Some now\<rparr>
                  else e\<lparr>exp_state := ExpReviewOpen\<rparr>);
            d3 = put_exposure e' d2
        in rbind (audit_exposure e' ''exposure.created'' p a d3) (\<lambda>d4.
           rbind (if exp_state e' = ExpActive
                  then audit_exposure e' ''exposure.activated'' p a d4
                  else Inr d4) (\<lambda>d5. Inr (e', d5))))) = Inr (e, d')"
    using assms unfolding create_exposure_def resolve_create_policy_def get_release_or_404_def
    by (clarsimp simp only: rbind_Inr_iff or_raise_simps require_simps split_paired_all prod.case
          sum.inject prod.inject) (rule that; assumption)
  define e0 where "e0 = build_exposure (next_id exp_id (db_exposures d)) i p req out comp"
  define e1 where "e1 = (if out_auto_activate out
                  then e0\<lparr>exp_state := ExpActive, exp_activated_at := Some now\<rparr>
                  else e0\<lparr>exp_state := ExpReviewOpen\<rparr>)"
  define d1 where "d1 = d\<lparr>db_exposures := db_exposures d @ [e0]\<rparr>"
  define d2 where "d2 = (if out_requirement out \<in> {Advisory, Blocking}
                  then snd (open_review_case e0 p (out_requirement out) d1) else d1)"
  obtain d4 where e: "e = e1" and a1: "audit_exposure e1 ''exposure.created'' p a (put_exposure e1 d2) = Inr d4"
    and a2: "(if exp_state e1 = ExpActive then audit_exposure e1 ''exposure.activated'' p a d4 else Inr d4) = Inr d'"
    using rest [unfolded Let_def, folded e0_def]
    by (auto simp only: rbind_Inr_iff persist_new_exposure_Inr e1_def d1_def d2_def sum.inject prod.inject)
  have frame: "db_exposures d' = row_set exp_id e1 (db_exposures d2)" "db_cases d' = db_cases d2"
      "db_decisions d' = db_decisions d2" "db_releases d' = db_releases d2"
    using audit_exposure_frame [OF a1] a2
    by (auto simp: put_exposure_def split: if_splits dest!: audit_exposure_frame)
  have f0: "exp_id e0 = next_id exp_id (db_exposures d)" "exp_release_id e0 = i"
      "exp_audience e0 = out_audience out" "exp_requirement e0 = out_requirement out"
      "exp_requested_by e0 = Some p"
    by (simp_all add: e0_def build_exposure_def)
  have f1: "exp_id e1 = exp_id e0" "exp_release_id e1 = exp_release_id e0" "exp_audience e1 = exp_audience e0"
      "exp_requirement e1 = exp_requirement e0" "exp_requested_by e1 = exp_requested_by e0"
      "exp_state e1 = (if out_auto_activate out then ExpActive else ExpReviewOpen)"
    by (simp_all add: e1_def)
  have d2: "db_exposures d2 = db_exposures d @ [e0]" "db_decisions d2 = db_decisions d"
      "db_releases d2 = db_releases d" and cases: "case_for_new e1 d d2"
  proof -
    note o = open_review_case_effect [of e0 p "out_requirement out" d1, OF surjective_pairing]
    have open_same: "get_open_review_case_for_exposure x d1 = get_open_review_case_for_exposure x d" for x
      by (simp add: get_open_review_case_for_exposure_def d1_def)
    have in_d: "c \<in> set (db_cases d)" if "get_open_review_case_for_exposure x d = Some c" for x c
      using that last_where_Some unfolding get_open_review_case_for_exposure_def by fastforce
    have m: "out_requirement out \<in> {Advisory, Blocking} \<longleftrightarrow> out_requirement out \<noteq> NoReview"
      by (cases "out_requirement out") simp_all
    have c: "db_cases d1 = db_cases d" "db_exposures d1 = db_exposures d @ [e0]"
       "db_decisions d1 = db_decisions d" "db_releases d1 = db_releases d"
      by (simp_all add: d1_def)
    show "db_exposures d2 = db_exposures d @ [e0]" "db_decisions d2 = db_decisions d" "db_releases d2 = db_releases d"
      using o by (auto simp: d2_def c)
    show "case_for_new e1 d d2"
    proof (cases "out_requirement out = NoReview")
      case True
      then show ?thesis by (simp add: case_for_new_def f0 f1 d2_def d1_def)
    next
      case False
      then show ?thesis
        using o f0 f1 unfolding case_for_new_def d2_def m open_same c
        by (intro if_not_P [THEN iffD2] exI [of _ "fst (open_review_case e0 p (out_requirement out) d1)"])
           (auto dest: in_d simp: c)
    qed
  qed
  have "row_set exp_id e1 (db_exposures d @ [e0]) = db_exposures d @ [e1]"
    by (rule row_set_fresh) (simp_all add: f0 f1)
  moreover note evaluate_policy_outcome [OF pol]
  ultimately show ?thesis
    using r frame f0 f1 d2 cases free e
    by (auto simp: new_exposure_ok_def case_for_new_def open_key_def list_ex_iff)
qed

definition same_reviews :: "db \<Rightarrow> db \<Rightarrow> bool" where
  "same_reviews d d' \<longleftrightarrow> db_cases d' = db_cases d \<and> db_decisions d' = db_decisions d"

lemma patch_exposure_effect:
  assumes "patch_exposure i p m req a d = Inr (e', d')"
  shows "\<exists>e. row_get exp_id (db_exposures d) i = Some e \<and> exp_state e \<notin> closed_states \<and>
     e' = patched_exposure req e \<and>
     db_exposures d' = row_set exp_id e' (db_exposures d) \<and> same_reviews d d'"
  using assms unfolding patch_exposure_def get_exposure_or_404_def Let_def
  by (auto simp: res_simps put_exposure_def same_reviews_def dest!: audit_exposure_frame)

definition approved_for_activation :: "exposure \<Rightarrow> db \<Rightarrow> bool" where
  "approved_for_activation e d \<longleftrightarrow>
     get_open_review_case_for_exposure (exp_id e) d = None \<and>
     (\<exists>c. get_latest_review_case_for_exposure (exp_id e) d = Some c \<and> cas_state c = CaseApproved)"

lemma activate_exposure_effect:
  assumes "activate_exposure i p m a now d = Inr (e', d')"
  shows "\<exists>e. row_get exp_id (db_exposures d) i = Some e \<and> exp_state e \<notin> closed_states \<and>
     (exp_state e = ExpActive \<and> e' = e \<and> d' = d \<or>
      (exp_requirement e = Blocking \<longrightarrow> approved_for_activation e d) \<and>
      (\<exists>t. e' = e\<lparr>exp_state := ExpActive, exp_activated_at := t\<rparr>) \<and>
      db_exposures d' = row_set exp_id e' (db_exposures d) \<and> same_reviews d d')"
proof -
  obtain e r where e: "row_get exp_id (db_exposures d) i = Some e"
    and r: "get_release_or_404 (exp_release_id e) d = Inr r" "assert_release_owner r p m d = Inr ()"
    using assms unfolding activate_exposure_def get_exposure_or_404_def by (auto simp: res_simps)
  note b = assms [unfolded activate_exposure_def get_exposure_or_404_def Let_def e r or_raise_simps(3) rbind_simps]
  show ?thesis
  proof (cases "exp_state e = ExpActive")
    case True
    with b e show ?thesis by (simp add: closed_states_def)
  next
    case False
    define e1 where "e1 = e\<lparr>exp_state := ExpActive,
        exp_activated_at := (case exp_activated_at e of None \<Rightarrow> Some now | Some t \<Rightarrow> Some t)\<rparr>"
    define gate where "gate = (if exp_requirement e = Blocking then
                rbind (require (get_open_review_case_for_exposure (exp_id e) d = None)
                        (Conflict ''blocking review must be resolved before activation'')) (\<lambda>_.
                require (case get_latest_review_case_for_exposure (exp_id e) d of
                           None \<Rightarrow> False | Some c \<Rightarrow> cas_state c = CaseApproved)
                  (Conflict ''blocking review must be approved before activation''))
              else Inr ())"
    have n: "exp_state e \<notin> closed_states" and g: "gate = Inr ()" and e': "e' = e1"
      and a: "audit_exposure e1 ''exposure.activated'' p a (put_exposure e1 d) = Inr d'"
      using b False unfolding e1_def gate_def by (simp_all only: if_False rbind_Inr_iff require_simps) auto
    from g have "exp_requirement e = Blocking \<longrightarrow> approved_for_activation e d"
      by (auto simp: gate_def approved_for_activation_def res_simps split: option.splits)
    moreover from audit_exposure_frame [OF a]
    have "db_exposures d' = row_set exp_id e1 (db_exposures d) \<and> same_reviews d d'"
      by (auto simp: put_exposure_def same_reviews_def)
    moreover have "\<exists>t. e1 = e\<lparr>exp_state := ExpActive, exp_activated_at := t\<rparr>"
      unfolding e1_def by blast
    ultimately show ?thesis using e n e' by blast
  qed
qed

lemma revoke_exposure_effect:
  assumes "revoke_exposure i p m a now d = Inr (e', d')"
  shows "\<exists>e. row_get exp_id (db_exposures d) i = Some e \<and>
     (exp_state e = ExpRevoked \<and> e' = e \<and> d' = d \<or>
      e' = e\<lparr>exp_state := ExpRevoked, exp_ended_at := Some now\<rparr> \<and>
      db_exposures d' = row_set exp_id e' (db_exposures d) \<and> db_decisions d' = db_decisions d \<and>
      (get_open_review_case_for_exposure i d = None \<and> db_cases d' = db_cases d \<or>
       (\<exists>c. get_open_review_case_for_exposure i d = Some c \<and>
            db_cases d' = row_set cas_id (c\<lparr>cas_state := CaseClosed, cas_closed_at := Some now\<rparr>) (db_cases d))))"
proof -
  obtain e where e: "row_get exp_id (db_exposures d) i = Some e"
    using assms unfolding revoke_exposure_def get_exposure_or_404_def by (auto simp: res_simps)
  have id: "exp_id e = i" using row_get_Some [OF e] by simp
  show ?thesis
  proof (cases "exp_state e = ExpRevoked")
    case True
    with assms e show ?thesis unfolding revoke_exposure_def get_exposure_or_404_def
      by (auto simp: res_simps)
  next
    case False
    define e1 where "e1 = e\<lparr>exp_state := ExpRevoked, exp_ended_at := Some now\<rparr>"
    define d1 where "d1 = (case get_open_review_case_for_exposure i d of
                   None \<Rightarrow> d | Some c \<Rightarrow> close_review_case c now d)"
    have a: "audit_exposure e1 ''exposure.revoked'' p a (put_exposure e1 d1) = Inr d'" "e' = e1"
      using assms e False id unfolding revoke_exposure_def get_exposure_or_404_def
      by (auto simp: res_simps Let_def e1_def d1_def)
    have d1: "(get_open_review_case_for_exposure i d = None \<and> d1 = d\<lparr>db_cases := db_cases d\<rparr>) \<or>
        (\<exists>c. get_open_review_case_for_exposure i d = Some c \<and>
          d1 = d\<lparr>db_cases := row_set cas_id (c\<lparr>cas_state := CaseClosed, cas_closed_at := Some now\<rparr>) (db_cases d)\<rparr>)"
    proof (cases "get_open_review_case_for_exposure i d")
      case None
      then show ?thesis by (simp add: d1_def)
    next
      case (Some c)
      then have "cas_state c = CaseOpen"
        unfolding get_open_review_case_for_exposure_def by (drule_tac last_where_Some) simp
      with Some show ?thesis by (simp add: d1_def close_review_case_def put_case_def)
    qed
    from audit_exposure_frame [OF a(1)] obtain evs where "d' = put_exposure e1 d1\<lparr>db_audit := evs\<rparr>" by blast
    with d1 e a(2) e1_def id show ?thesis
      by (auto simp: put_exposure_def)
  qed
qed

lemma decided_case_id [simp]: "cas_id (decided_case dc now c) = cas_id c"
  "cas_exposure_id (decided_case dc now c) = cas_exposure_id c"
  "cas_mode (decided_case dc now c) = cas_mode c"
  by (cases dc; simp add: decided_case_def)+

lemma decided_case_comment: "decided_case Comment now c = c\<lparr>cas_state := CaseOpen\<rparr>"
  by (simp add: decided_case_def)

lemma row_count_one:
  "row_count p t = 1 \<Longrightarrow> \<exists>r \<in> set t. p r"
  unfolding row_count_def by (cases "filter p t") (auto simp: filter_eq_Cons_iff)

lemma record_decision_effect:
  assumes "record_decision i reviewer t note ev now d = Inr ((c, e'), d')"
    and ids: "rows_ok cas_id (db_cases d)"
  shows "\<exists>dc c0 e x. decision_of_text (lower (strip t)) = Some dc \<and>
     row_get cas_id (db_cases d) i = Some c0 \<and> cas_state c0 = CaseOpen \<and>
     row_get exp_id (db_exposures d) (cas_exposure_id c0) = Some e \<and>
     c = decided_case dc now c0 \<and> e' = decided_exposure dc (cas_mode c0) now e \<and>
     dec_case_id x = i \<and> dec_reviewer x = Some reviewer \<and> dec_decision x = dc \<and>
     dec_id x = next_id dec_id (db_decisions d) \<and>
     open_exposures_unique (row_set exp_id e' (db_exposures d)) \<and>
     db_cases d' = row_update (\<lambda>c. cas_id c = i \<and> cas_state c = CaseOpen) (decided_case dc now) (db_cases d) \<and>
     db_exposures d' = row_set exp_id e' (db_exposures d) \<and>
     db_decisions d' = db_decisions d @ [x]"
proof -
  obtain dc c0 where dc: "decision_of_text (lower (strip t)) = Some dc"
    and c0: "row_get cas_id (db_cases d) i = Some c0"
    using assms unfolding record_decision_def get_review_case_or_404_def by (auto simp: res_simps)
  define p :: "review_case \<Rightarrow> bool" where "p = (\<lambda>c. cas_id c = i \<and> cas_state c = CaseOpen)"
  define d1 where "d1 = d\<lparr>db_cases := row_update p (decided_case dc now) (db_cases d)\<rparr>"
  define x where "x = \<lparr>dec_id = next_id dec_id (db_decisions d), dec_case_id = cas_id c,
                dec_reviewer = Some reviewer, dec_decision = dc, dec_note = note,
                dec_evidence_json = json_dumps (JObj ev)\<rparr>"
  obtain e where n: "row_count p (db_cases d) = 1"
    and c: "row_get cas_id (db_cases d1) i = Some c"
    and e: "row_get exp_id (db_exposures d1) (cas_exposure_id c) = Some e"
    and e': "e' = decided_exposure dc (cas_mode c) now e"
    and u: "open_exposures_unique (row_set exp_id e' (db_exposures d))"
    and d': "db_cases d' = db_cases d1" "db_exposures d' = row_set exp_id e' (db_exposures d)"
       "db_decisions d' = db_decisions d @ [x]"
  proof -
    note b = assms(1) [unfolded record_decision_def get_review_case_or_404_def Let_def dc c0
      or_raise_simps(3) rbind_simps, folded p_def, folded d1_def]
    from b show ?thesis
      by (clarsimp simp only: rbind_Inr_iff or_raise_simps require_simps flush_exposures_def sum.inject prod.inject)
         (rule that; simp add: x_def d1_def put_exposure_def audit_exposure_activation_def)
  qed
  obtain r where r: "r \<in> set (db_cases d)" "p r" using row_count_one [OF n] by blast
  have "row_get cas_id (db_cases d) (cas_id r) = Some r" by (rule row_get_unique [OF ids r(1)])
  with r(2) c0 have "p c0" by (simp add: p_def)
  moreover have "c = (if p c0 then decided_case dc now c0 else c0)"
    using c c0 by (simp add: d1_def row_get_update)
  ultimately have cc: "c = decided_case dc now c0" "cas_state c0 = CaseOpen" "cas_id c0 = i"
    by (auto simp: p_def)
  show ?thesis
    using dc c0 e e' u d' cc
    by (intro exI [of _ dc] exI [of _ c0] exI [of _ e] exI [of _ x])
       (simp add: d1_def x_def p_def)
qed

lemma finalize_effect:
  assumes "finalize_publish_intent i now d = Inr (x, d')"
  shows "same_reviews d d' \<and> db_releases d' = db_releases d \<and>
     (db_exposures d' = db_exposures d \<or>
      (\<exists>e r q pol. db_exposures d' = db_exposures d @ [e] \<and>
         e = agent_exposure (next_id exp_id (db_exposures d)) q r pol now \<and>
         open_public_exposure (rel_id r) d = None))"
proof -
  obtain q where q: "row_get int_id (db_intents d) i = Some q"
    using assms unfolding finalize_publish_intent_def by (auto simp: res_simps)
  note b = assms [unfolded finalize_publish_intent_def Let_def q or_raise_simps(3) rbind_simps]
  show ?thesis
  proof (cases "int_state q \<in> {IntentActivated, IntentSuppressed} \<or> row_get rel_id (db_releases d) (int_release_id q) = None")
    case True
    with b show ?thesis by (auto simp: put_intent_def same_reviews_def split: if_splits)
  next
    case False
    then obtain r where r: "row_get rel_id (db_releases d) (int_release_id q) = Some r" by auto
    define s where "s = service_of_principal (int_principal_id q) d"
    obtain blocked where bl: "publication_block s r = Inr blocked"
      using b False r by (auto simp: res_simps s_def)
    show ?thesis
    proof (cases blocked)
      case (Some reason)
      with b False r bl show ?thesis by (auto simp: s_def put_intent_def same_reviews_def)
    next
      case None
      define pol where "pol = (case s of None \<Rightarrow> [] | Some s \<Rightarrow> agent_policy s)"
      have "same_reviews d d' \<and> db_releases d' = db_releases d \<and>
          (case open_public_exposure (rel_id r) d of
             Some e \<Rightarrow> db_exposures d' = db_exposures d
           | None \<Rightarrow> db_exposures d' = db_exposures d @
               [agent_exposure (next_id exp_id (db_exposures d)) q r pol now])"
        using b False r bl None
        by (cases "open_public_exposure (rel_id r) d")
           (auto simp: s_def pol_def put_intent_def same_reviews_def res_simps)
      then show ?thesis by (cases "open_public_exposure (rel_id r) d") auto
    qed
  qed
qed

lemmas exposure_effects = create_exposure_effect patch_exposure_effect activate_exposure_effect
  revoke_exposure_effect record_decision_effect finalize_effect open_review_case_effect

section \<open>The invariant\<close>

text \<open>
  An approval of a blocking case of the exposure, decided by somebody other than whoever
  requested the exposure.
\<close>

definition independently_approved :: "exposure \<Rightarrow> db \<Rightarrow> bool" where
  "independently_approved e d \<longleftrightarrow>
     (\<exists>c \<in> set (db_cases d). cas_exposure_id c = exp_id e \<and> cas_mode c = Blocking \<and>
        cas_state c = CaseApproved \<and>
        (\<exists>x \<in> set (db_decisions d). dec_case_id x = cas_id c \<and> dec_decision x = Approve \<and>
           dec_reviewer x \<noteq> exp_requested_by e))"

definition blocking_case_open :: "exposure \<Rightarrow> db \<Rightarrow> bool" where
  "blocking_case_open e d \<longleftrightarrow>
     (\<exists>c \<in> set (db_cases d). cas_exposure_id c = exp_id e \<and> cas_mode c = Blocking \<and> cas_state c = CaseOpen)"

definition blocking_ok :: "exposure \<Rightarrow> db \<Rightarrow> bool" where
  "blocking_ok e d \<longleftrightarrow>
     (exp_state e \<in> closed_states \<or> blocking_case_open e d \<or> independently_approved e d) \<and>
     (exp_state e = ExpActive \<longrightarrow> independently_approved e d)"

definition published_by_agent :: "exposure \<Rightarrow> bool" where
  "published_by_agent e \<longleftrightarrow>
     jget (object_or_empty (exp_policy_json e)) ''source'' = JStr ''agent_publish_intent''"

definition cases_ok :: "db \<Rightarrow> bool" where
  "cases_ok d \<longleftrightarrow> rows_ok cas_id (db_cases d) \<and>
     (\<forall>c \<in> set (db_cases d). \<exists>e \<in> set (db_exposures d). exp_id e = cas_exposure_id c) \<and>
     (\<forall>c \<in> set (db_cases d). \<forall>b \<in> set (db_cases d).
        cas_state c = CaseOpen \<longrightarrow> cas_state b = CaseOpen \<longrightarrow> cas_exposure_id c = cas_exposure_id b \<longrightarrow> c = b)"

definition exposures_ok :: "db \<Rightarrow> bool" where
  "exposures_ok d \<longleftrightarrow> rows_ok exp_id (db_exposures d) \<and> open_exposures_unique (db_exposures d) \<and>
     cases_ok d \<and>
     (\<forall>e \<in> set (db_exposures d).
        (exp_requirement e = Blocking \<longrightarrow> blocking_ok e d) \<and>
        (exp_audience e = Public \<longrightarrow> exp_requirement e = Blocking \<or> published_by_agent e))"

inductive exposure_step :: "db \<Rightarrow> db \<Rightarrow> bool" where
  create: "create_exposure i p m req a now d = Inr (e, d') \<Longrightarrow> exposure_step d d'"
| patch: "patch_exposure i p m pat a d = Inr (e, d') \<Longrightarrow> exposure_step d d'"
| activate: "activate_exposure i p m a now d = Inr (e, d') \<Longrightarrow> exposure_step d d'"
| revoke: "revoke_exposure i p m a now d = Inr (e, d') \<Longrightarrow> exposure_step d d'"
| open_case: "create_review_case_route ctx i mode d = Inr (c, d') \<Longrightarrow> exposure_step d d'"
| decide: "create_review_decision_route ctx i dc note ev now d = Inr (c, d') \<Longrightarrow> exposure_step d d'"
| finalize: "finalize_publish_intent i now d = Inr (x, d') \<Longrightarrow> exposure_step d d'"
| elsewhere: "db_exposures d' = db_exposures d \<Longrightarrow> same_reviews d d' \<Longrightarrow> exposure_step d d'"

inductive exposure_reachable :: "db \<Rightarrow> bool" where
  start: "exposure_reachable empty_db"
| step: "exposure_reachable d \<Longrightarrow> exposure_step d d' \<Longrightarrow> exposure_reachable d'"

lemma unique_iff:
  assumes "rows_ok exp_id t"
  shows "open_exposures_unique t \<longleftrightarrow>
     (\<forall>x \<in> set t. \<forall>y \<in> set t. exp_state x \<notin> closed_states \<longrightarrow> exp_state y \<notin> closed_states \<longrightarrow>
        open_key x = open_key y \<longrightarrow> x = y)"
proof -
  have "distinct t" using assms by (simp add: rows_ok_def distinct_map)
  then show ?thesis by (auto simp: open_exposures_unique_def distinct_map inj_on_def)
qed

lemma independently_approved_mono:
  assumes "independently_approved e d"
    and "\<And>c. c \<in> set (db_cases d) \<Longrightarrow> cas_state c = CaseApproved \<Longrightarrow> c \<in> set (db_cases d')"
    and "set (db_decisions d) \<subseteq> set (db_decisions d')"
    and "exp_id e' = exp_id e" "exp_requested_by e' = exp_requested_by e"
  shows "independently_approved e' d'"
  using assms by (fastforce simp: independently_approved_def)

lemma put_exposure_ok:
  assumes ok: "exposures_ok d" and e: "row_get exp_id (db_exposures d) i = Some e"
    and e': "exp_id e' = exp_id e" "open_key e' = open_key e" "exp_requirement e' = exp_requirement e"
      "exp_requested_by e' = exp_requested_by e" "exp_policy_json e' = exp_policy_json e"
    and d': "db_exposures d' = row_set exp_id e' (db_exposures d)"
    and unique: "exp_state e' \<notin> closed_states \<Longrightarrow> exp_state e \<notin> closed_states \<or> open_exposures_unique (db_exposures d')"
    and cases: "cases_ok d'"
    and mine: "exp_requirement e = Blocking \<Longrightarrow> blocking_ok e' d'"
    and others: "\<And>x. x \<in> set (db_exposures d) \<Longrightarrow> x \<noteq> e \<Longrightarrow> exp_requirement x = Blocking \<Longrightarrow> blocking_ok x d'"
  shows "exposures_ok d'"
proof -
  have rows: "rows_ok exp_id (db_exposures d)" using ok by (simp add: exposures_ok_def)
  have ein: "e \<in> set (db_exposures d)" using row_get_Some [OF e] by simp
  note mem = in_row_set [OF rows ein e'(1)]
  have rows': "rows_ok exp_id (db_exposures d')" using rows by (auto simp: d')
  have "open_exposures_unique (db_exposures d')"
  proof (cases "open_exposures_unique (db_exposures d')")
    case False
    with unique have imp: "exp_state e' \<notin> closed_states \<longrightarrow> exp_state e \<notin> closed_states" by auto
    have u: "open_exposures_unique (db_exposures d)" using ok by (simp add: exposures_ok_def)
    show ?thesis
      unfolding unique_iff [OF rows']
      using u [unfolded unique_iff [OF rows]] imp ein e'(2) by (auto simp: d' mem)
  qed
  moreover have a: "exp_audience e' = exp_audience e" using e'(2) by (simp add: open_key_def)
  have pub: "exp_audience x = Public \<longrightarrow> exp_requirement x = Blocking \<or> published_by_agent x"
    if "x \<in> set (db_exposures d)" for x
    using ok that by (simp add: exposures_ok_def)
  have "(exp_requirement x = Blocking \<longrightarrow> blocking_ok x d') \<and>
        (exp_audience x = Public \<longrightarrow> exp_requirement x = Blocking \<or> published_by_agent x)"
    if "x \<in> set (db_exposures d')" for x
  proof (cases "x = e'")
    case True
    then show ?thesis using mine e' a pub [OF ein] by (simp add: published_by_agent_def)
  next
    case False
    with that have "x \<in> set (db_exposures d)" "x \<noteq> e" by (auto simp: d' mem)
    then show ?thesis using others pub by blast
  qed
  ultimately show ?thesis using rows' cases by (simp add: exposures_ok_def)
qed

section \<open>Preservation\<close>

lemma blocking_ok_same_reviews:
  "same_reviews d d' \<Longrightarrow> blocking_ok e d' = blocking_ok e d"
  by (simp add: same_reviews_def blocking_ok_def blocking_case_open_def independently_approved_def)

lemma cases_ok_same_ids:
  "\<lbrakk>cases_ok d; same_reviews d d'; exp_id ` set (db_exposures d) \<subseteq> exp_id ` set (db_exposures d')\<rbrakk>
     \<Longrightarrow> cases_ok d'"
  unfolding cases_ok_def same_reviews_def by (auto simp: image_iff subset_iff) metis

lemma elsewhere_ok:
  assumes ok: "exposures_ok d" and d': "db_exposures d' = db_exposures d" "same_reviews d d'"
  shows "exposures_ok d'"
proof -
  have "cases_ok d'"
    using ok d' by (intro cases_ok_same_ids [of d d']) (auto simp: exposures_ok_def)
  with ok d' show ?thesis by (simp add: exposures_ok_def blocking_ok_same_reviews)
qed

lemma exposures_okD:
  assumes "exposures_ok d"
  shows "rows_ok exp_id (db_exposures d)" "cases_ok d"
    "\<And>e. e \<in> set (db_exposures d) \<Longrightarrow> exp_requirement e = Blocking \<Longrightarrow> blocking_ok e d"
  using assms by (auto simp: exposures_ok_def)

lemma add_exposure_ok:
  assumes ok: "exposures_ok d" and d': "db_exposures d' = db_exposures d @ [e]"
    and id: "exp_id e = next_id exp_id (db_exposures d)"
    and free: "\<forall>x \<in> set (db_exposures d). open_key x = open_key e \<longrightarrow> exp_state x \<in> closed_states"
    and cases: "cases_ok d'"
    and mine: "exp_requirement e = Blocking \<longrightarrow> blocking_ok e d'"
    and pub: "exp_audience e = Public \<longrightarrow> exp_requirement e = Blocking \<or> published_by_agent e"
    and others: "\<And>x. x \<in> set (db_exposures d) \<Longrightarrow> blocking_ok x d \<Longrightarrow> blocking_ok x d'"
  shows "exposures_ok d'"
proof -
  have rows: "rows_ok exp_id (db_exposures d)" by (rule exposures_okD [OF ok])
  have rows': "rows_ok exp_id (db_exposures d')" using rows id by (auto simp: d')
  have "open_exposures_unique (db_exposures d)" using ok by (simp add: exposures_ok_def)
  then have "open_exposures_unique (db_exposures d')"
    unfolding unique_iff [OF rows] unique_iff [OF rows'] using free by (auto simp: d')
  with ok rows' cases mine pub others show ?thesis by (auto simp: exposures_ok_def d')
qed

lemma patch_ok:
  assumes ok: "exposures_ok d" and c: "patch_exposure i p m pat a d = Inr (e', d')"
  shows "exposures_ok d'"
proof -
  from patch_exposure_effect [OF c] obtain e where
    e: "row_get exp_id (db_exposures d) i = Some e" "exp_state e \<notin> closed_states" "e' = patched_exposure pat e"
    and d': "db_exposures d' = row_set exp_id e' (db_exposures d)" "same_reviews d d'" by blast
  have "cases_ok d'"
    using exposures_okD(2) [OF ok] d'(2) by (rule cases_ok_same_ids) (simp add: d' row_set_same_ids)
  moreover have "blocking_ok e' d' = blocking_ok e d"
    unfolding blocking_ok_same_reviews [OF d'(2)]
    by (simp add: e(3) patched_exposure_def blocking_ok_def blocking_case_open_def independently_approved_def)
  ultimately show ?thesis
    using exposures_okD(3) [OF ok] row_get_Some [OF e(1)] e(2)
    by (intro put_exposure_ok [OF ok e(1) _ _ _ _ _ d'(1)])
       (simp_all add: e(3) patched_exposure_def open_key_def blocking_ok_same_reviews [OF d'(2)])
qed

lemma activate_ok:
  assumes ok: "exposures_ok d" and c: "activate_exposure i p m a now d = Inr (e', d')"
  shows "exposures_ok d'"
proof -
  from activate_exposure_effect [OF c] obtain e where
    e: "row_get exp_id (db_exposures d) i = Some e" "exp_state e \<notin> closed_states"
    and alt: "exp_state e = ExpActive \<and> e' = e \<and> d' = d \<or>
      (exp_requirement e = Blocking \<longrightarrow> approved_for_activation e d) \<and>
      (\<exists>t. e' = e\<lparr>exp_state := ExpActive, exp_activated_at := t\<rparr>) \<and>
      db_exposures d' = row_set exp_id e' (db_exposures d) \<and> same_reviews d d'" by blast
  from alt show ?thesis
  proof (elim disjE conjE exE)
    fix t
    assume gate: "exp_requirement e = Blocking \<longrightarrow> approved_for_activation e d"
      and e': "e' = e\<lparr>exp_state := ExpActive, exp_activated_at := t\<rparr>"
      and d': "db_exposures d' = row_set exp_id e' (db_exposures d)" "same_reviews d d'"
    have ein: "e \<in> set (db_exposures d)" using row_get_Some [OF e(1)] by simp
    have "cases_ok d'"
      using exposures_okD(2) [OF ok] d'(2) by (rule cases_ok_same_ids) (simp add: d' row_set_same_ids)
    moreover have "blocking_ok e' d'" if b: "exp_requirement e = Blocking"
    proof -
      have "\<not> blocking_case_open e d"
        using gate b
        by (auto simp: approved_for_activation_def get_open_review_case_for_exposure_def
              last_where_None blocking_case_open_def)
      then have "independently_approved e d"
        using exposures_okD(3) [OF ok ein b] e(2) by (simp add: blocking_ok_def)
      then show ?thesis
        unfolding blocking_ok_same_reviews [OF d'(2)]
        by (simp add: blocking_ok_def e' independently_approved_def)
    qed
    ultimately show ?thesis
      using exposures_okD(3) [OF ok] e(2)
      by (intro put_exposure_ok [OF ok e(1) _ _ _ _ _ d'(1)])
         (simp_all add: e' open_key_def blocking_ok_same_reviews [OF d'(2)])
  qed (simp add: ok)
qed

text \<open>Closing an open case touches no approval and no case of another exposure.\<close>

lemma case_update_ok:
  assumes ok: "cases_ok d" and c: "c \<in> set (db_cases d)" "cas_state c = CaseOpen"
    and c': "cas_id c' = cas_id c" "cas_exposure_id c' = cas_exposure_id c"
    and d': "db_cases d' = row_set cas_id c' (db_cases d)"
      "exp_id ` set (db_exposures d) \<subseteq> exp_id ` set (db_exposures d')"
  shows "cases_ok d'"
proof -
  have rows: "rows_ok cas_id (db_cases d)" using ok by (simp add: cases_ok_def)
  note mem = in_row_set [OF rows c(1) c'(1)]
  have "\<exists>e \<in> set (db_exposures d'). exp_id e = cas_exposure_id x" if "x \<in> set (db_cases d')" for x
  proof -
    have "cas_exposure_id x \<in> exp_id ` set (db_exposures d)"
      using that ok c(1) c'(2) by (auto simp: d'(1) mem cases_ok_def image_iff) (metis+)
    with d'(2) show ?thesis by (metis imageE subsetD)
  qed
  moreover have "x = y"
    if "x \<in> set (db_cases d')" "y \<in> set (db_cases d')" "cas_state x = CaseOpen" "cas_state y = CaseOpen"
      "cas_exposure_id x = cas_exposure_id y" for x y
    using that ok c c' by (auto simp: d'(1) mem cases_ok_def)
  ultimately show ?thesis using rows by (auto simp: cases_ok_def d'(1))
qed

lemma blocking_ok_case_update:
  assumes ok: "cases_ok d" and c: "c \<in> set (db_cases d)" "cas_state c = CaseOpen"
    and c': "cas_id c' = cas_id c" "cas_exposure_id c' = cas_exposure_id c"
    and d': "db_cases d' = row_set cas_id c' (db_cases d)" "set (db_decisions d) \<subseteq> set (db_decisions d')"
    and e: "cas_exposure_id c \<noteq> exp_id e \<or> cas_mode c \<noteq> Blocking \<or> cas_state c' = CaseOpen \<and> cas_mode c' = Blocking"
    and b: "blocking_ok e d"
  shows "blocking_ok e d'"
proof -
  have rows: "rows_ok cas_id (db_cases d)" using ok by (simp add: cases_ok_def)
  note mem = in_row_set [OF rows c(1) c'(1)]
  have "independently_approved e d \<Longrightarrow> independently_approved e d'"
    by (rule independently_approved_mono) (use c d'(2) in \<open>auto simp: d'(1) mem\<close>)
  moreover have "blocking_case_open e d'" if "blocking_case_open e d"
  proof -
    from that obtain b where b: "b \<in> set (db_cases d)" "cas_exposure_id b = exp_id e"
        "cas_mode b = Blocking" "cas_state b = CaseOpen"
      by (auto simp: blocking_case_open_def)
    show ?thesis
    proof (cases "b = c")
      case True
      with b e c' have "c' \<in> set (db_cases d') \<and> cas_exposure_id c' = exp_id e \<and> cas_mode c' = Blocking \<and>
          cas_state c' = CaseOpen" by (auto simp: d'(1) mem)
      then show ?thesis unfolding blocking_case_open_def by blast
    next
      case False
      with b have "b \<in> set (db_cases d')" by (simp add: d'(1) mem)
      with b show ?thesis unfolding blocking_case_open_def by blast
    qed
  qed
  ultimately show ?thesis using b by (auto simp: blocking_ok_def)
qed

lemma revoke_ok:
  assumes ok: "exposures_ok d" and c: "revoke_exposure i p m a now d = Inr (e', d')"
  shows "exposures_ok d'"
proof -
  from revoke_exposure_effect [OF c] obtain e where
    e: "row_get exp_id (db_exposures d) i = Some e"
    and alt: "exp_state e = ExpRevoked \<and> e' = e \<and> d' = d \<or>
      e' = e\<lparr>exp_state := ExpRevoked, exp_ended_at := Some now\<rparr> \<and>
      db_exposures d' = row_set exp_id e' (db_exposures d) \<and> db_decisions d' = db_decisions d \<and>
      (get_open_review_case_for_exposure i d = None \<and> db_cases d' = db_cases d \<or>
       (\<exists>c. get_open_review_case_for_exposure i d = Some c \<and>
            db_cases d' = row_set cas_id (c\<lparr>cas_state := CaseClosed, cas_closed_at := Some now\<rparr>) (db_cases d)))"
    by blast
  show ?thesis
  proof (cases "d' = d")
    case True
    with ok show ?thesis by simp
  next
    case False
    with alt have e': "e' = e\<lparr>exp_state := ExpRevoked, exp_ended_at := Some now\<rparr>"
      and d': "db_exposures d' = row_set exp_id e' (db_exposures d)" "db_decisions d' = db_decisions d"
      and cs: "db_cases d' = db_cases d \<or>
       (\<exists>c. get_open_review_case_for_exposure i d = Some c \<and>
            db_cases d' = row_set cas_id (c\<lparr>cas_state := CaseClosed, cas_closed_at := Some now\<rparr>) (db_cases d))"
      by auto
    have ids: "exp_id ` set (db_exposures d) \<subseteq> exp_id ` set (db_exposures d')"
      by (simp add: d' row_set_same_ids)
    have id: "exp_id e = i" using row_get_Some [OF e] by simp
    have reviews: "cases_ok d' \<and> (\<forall>x \<in> set (db_exposures d). x \<noteq> e \<longrightarrow> blocking_ok x d \<longrightarrow> blocking_ok x d')"
      using cs
    proof (elim disjE exE conjE)
      assume "db_cases d' = db_cases d"
      with d'(2) have s: "same_reviews d d'" by (simp add: same_reviews_def)
      with exposures_okD(2) [OF ok] ids show ?thesis by (auto intro: cases_ok_same_ids simp: blocking_ok_same_reviews)
    next
      fix c
      assume g: "get_open_review_case_for_exposure i d = Some c"
        and u: "db_cases d' = row_set cas_id (c\<lparr>cas_state := CaseClosed, cas_closed_at := Some now\<rparr>) (db_cases d)"
      have c: "c \<in> set (db_cases d)" "cas_state c = CaseOpen" "cas_exposure_id c = i"
        using last_where_Some [OF g [unfolded get_open_review_case_for_exposure_def]] by auto
      have "cas_exposure_id c \<noteq> exp_id x" if "x \<in> set (db_exposures d)" "x \<noteq> e" for x
        using rows_ok_id_eq [OF exposures_okD(1) [OF ok] that(1)] row_get_Some [OF e] that(2) id c(3) by auto
      then show ?thesis
        using case_update_ok [OF exposures_okD(2) [OF ok] c(1,2) _ _ u ids] c(3) d'(2)
          blocking_ok_case_update [OF exposures_okD(2) [OF ok] c(1,2) _ _ u]
        by auto
    qed
    then show ?thesis
      using exposures_okD(3) [OF ok]
      by (intro put_exposure_ok [OF ok e _ _ _ _ _ d'(1)])
         (auto simp: e' open_key_def closed_states_def blocking_ok_def)
  qed
qed

lemma add_case_ok:
  assumes ok: "cases_ok d" and c: "db_cases d' = db_cases d @ [c]" "cas_id c = next_id cas_id (db_cases d)"
    and e: "\<exists>e \<in> set (db_exposures d'). exp_id e = cas_exposure_id c"
    and none: "get_open_review_case_for_exposure (cas_exposure_id c) d = None"
    and ids: "exp_id ` set (db_exposures d) \<subseteq> exp_id ` set (db_exposures d')"
  shows "cases_ok d'"
proof -
  have "\<exists>e \<in> set (db_exposures d'). exp_id e = cas_exposure_id x" if "x \<in> set (db_cases d)" for x
    using ok that ids unfolding cases_ok_def by (metis image_eqI imageE subsetD)
  moreover have "\<forall>x \<in> set (db_cases d). cas_exposure_id x = cas_exposure_id c \<longrightarrow> cas_state x \<noteq> CaseOpen"
    using none by (auto simp: get_open_review_case_for_exposure_def last_where_None)
  ultimately show ?thesis using ok c e unfolding cases_ok_def by (auto intro!: rows_ok_insert)
qed

lemma blocking_ok_more:
  assumes "set (db_cases d) \<subseteq> set (db_cases d')" "set (db_decisions d) \<subseteq> set (db_decisions d')"
    and "blocking_ok e d"
  shows "blocking_ok e d'"
proof -
  have "independently_approved e d \<Longrightarrow> independently_approved e d'"
    by (rule independently_approved_mono) (use assms in auto)
  moreover have "blocking_case_open e d \<Longrightarrow> blocking_case_open e d'"
    using assms(1) by (auto simp: blocking_case_open_def)
  ultimately show ?thesis using assms(3) by (auto simp: blocking_ok_def)
qed

lemma open_case_ok:
  assumes ok: "exposures_ok d" and c: "create_review_case_route ctx i mode d = Inr (c, d')"
  shows "exposures_ok d'"
proof -
  obtain e p m where e: "row_get exp_id (db_exposures d) i = Some e"
    and o: "open_review_case e p m d = (c, d')"
    using c unfolding create_review_case_route_def get_exposure_or_404_def by (auto simp: res_simps)
  have ein: "e \<in> set (db_exposures d)" using row_get_Some [OF e] by simp
  from open_review_case_effect [OF o] show ?thesis
  proof (elim conjE disjE)
    assume "d' = d"
    with ok show ?thesis by simp
  next
    assume x: "db_exposures d' = db_exposures d" "db_decisions d' = db_decisions d"
      "cas_exposure_id c = exp_id e" "get_open_review_case_for_exposure (exp_id e) d = None"
      "cas_id c = next_id cas_id (db_cases d)" "db_cases d' = db_cases d @ [c]"
    have "cases_ok d'"
      using add_case_ok [OF exposures_okD(2) [OF ok] x(6,5)] x ein by auto
    moreover have "blocking_ok y d \<Longrightarrow> blocking_ok y d'" for y
      by (rule blocking_ok_more) (auto simp: x)
    ultimately show ?thesis using ok x(1) by (auto simp: exposures_ok_def)
  qed
qed

lemma finalize_ok:
  assumes ok: "exposures_ok d" and c: "finalize_publish_intent i now d = Inr (x, d')"
  shows "exposures_ok d'"
proof -
  from finalize_effect [OF c] have s: "same_reviews d d'" by blast
  from finalize_effect [OF c] show ?thesis
  proof (elim conjE disjE exE)
    fix e r q pol
    assume d': "db_exposures d' = db_exposures d @ [e]"
      and e: "e = agent_exposure (next_id exp_id (db_exposures d)) q r pol now"
      and none: "open_public_exposure (rel_id r) d = None"
    have "cases_ok d'"
      using exposures_okD(2) [OF ok] s by (rule cases_ok_same_ids) (auto simp: d')
    moreover have "\<forall>x \<in> set (db_exposures d). open_key x = open_key e \<longrightarrow> exp_state x \<in> closed_states"
      using none by (auto simp: open_public_exposure_def find_None_iff open_key_def e agent_exposure_def)
    ultimately show ?thesis
      by (intro add_exposure_ok [OF ok d'])
         (auto simp: e agent_exposure_def published_by_agent_def blocking_ok_same_reviews [OF s])
  qed (use ok s elsewhere_ok in blast)
qed

lemma create_ok:
  assumes ok: "exposures_ok d" and c: "create_exposure i p m req a now d = Inr (e, d')"
  shows "exposures_ok d'"
proof -
  from create_exposure_effect [OF c] have
    id: "exp_id e = next_id exp_id (db_exposures d)" and new: "new_exposure_ok e"
    and free: "\<forall>x \<in> set (db_exposures d). open_key x = open_key e \<longrightarrow> exp_state x \<in> closed_states"
    and d': "db_exposures d' = db_exposures d @ [e]" "db_decisions d' = db_decisions d"
    and cs: "case_for_new e d d'" by auto
  have no_case: "cas_exposure_id x \<noteq> exp_id e" if "x \<in> set (db_cases d)" for x
    using exposures_okD(2) [OF ok] that next_id_greater [of _ "db_exposures d" exp_id] id
    unfolding cases_ok_def by fastforce
  have "cases_ok d' \<and> set (db_cases d) \<subseteq> set (db_cases d') \<and>
      (exp_requirement e = Blocking \<longrightarrow> blocking_case_open e d')"
  proof (cases "exp_requirement e = NoReview")
    case True
    with cs have s: "same_reviews d d'" using d'(2) by (simp add: case_for_new_def same_reviews_def)
    have "cases_ok d'"
      using exposures_okD(2) [OF ok] s by (rule cases_ok_same_ids) (auto simp: d')
    with True s show ?thesis by (simp add: same_reviews_def)
  next
    case False
    with cs no_case obtain x where x: "cas_exposure_id x = exp_id e" "cas_state x = CaseOpen"
        "cas_mode x = exp_requirement e" "cas_id x = next_id cas_id (db_cases d)"
        "get_open_review_case_for_exposure (exp_id e) d = None" "db_cases d' = db_cases d @ [x]"
      unfolding case_for_new_def by auto
    have "cases_ok d'"
      using add_case_ok [OF exposures_okD(2) [OF ok] x(6,4)] x(1,5) by (auto simp: d'(1))
    with x show ?thesis by (auto simp: blocking_case_open_def)
  qed
  then have cases: "cases_ok d'" and sub: "set (db_cases d) \<subseteq> set (db_cases d')"
    and opened: "exp_requirement e = Blocking \<longrightarrow> blocking_case_open e d'" by blast+
  have others: "blocking_ok x d \<Longrightarrow> blocking_ok x d'" for x
    by (rule blocking_ok_more [OF sub]) (simp_all add: d'(2))
  have mine: "exp_requirement e = Blocking \<longrightarrow> blocking_ok e d'"
    using new opened by (auto simp: new_exposure_ok_def blocking_ok_def)
  show ?thesis
    by (rule add_exposure_ok [OF ok d'(1) id free cases mine _ others])
       (use new in \<open>simp_all add: new_exposure_ok_def\<close>)
qed

lemma decided_exposure_frame [simp]:
  "exp_id (decided_exposure dc m now e) = exp_id e"
  "open_key (decided_exposure dc m now e) = open_key e"
  "exp_requirement (decided_exposure dc m now e) = exp_requirement e"
  "exp_requested_by (decided_exposure dc m now e) = exp_requested_by e"
  "exp_policy_json (decided_exposure dc m now e) = exp_policy_json e"
  by (simp_all add: decided_exposure_def open_key_def split: decision.split)

text \<open>The update of the decided case, as the replacement of its row.\<close>

lemma decided_rows:
  assumes "rows_ok cas_id t" and "c \<in> set t" and "cas_state c = CaseOpen"
  shows "row_update (\<lambda>x. cas_id x = cas_id c \<and> cas_state x = CaseOpen) (decided_case dc now) t =
         row_set cas_id (decided_case dc now c) t"
  by (rule row_update_key [OF assms(1,2)]) (simp_all add: assms(3))

lemma decide_ok:
  assumes ok: "exposures_ok d"
    and r: "record_decision i reviewer t note ev now d = Inr ((c, e'), d')"
    and other: "\<And>c e. row_get cas_id (db_cases d) i = Some c \<Longrightarrow>
        row_get exp_id (db_exposures d) (cas_exposure_id c) = Some e \<Longrightarrow> exp_requested_by e \<noteq> Some reviewer"
  shows "exposures_ok d'"
proof -
  have rows: "rows_ok cas_id (db_cases d)" using exposures_okD(2) [OF ok] by (simp add: cases_ok_def)
  from record_decision_effect [OF r rows] obtain dc c0 e x where
    c0: "row_get cas_id (db_cases d) i = Some c0" "cas_state c0 = CaseOpen"
    and e: "row_get exp_id (db_exposures d) (cas_exposure_id c0) = Some e"
    and e': "e' = decided_exposure dc (cas_mode c0) now e"
    and x: "dec_case_id x = i" "dec_reviewer x = Some reviewer" "dec_decision x = dc"
    and u: "open_exposures_unique (row_set exp_id e' (db_exposures d))"
    and cs: "db_cases d' = row_update (\<lambda>c. cas_id c = i \<and> cas_state c = CaseOpen) (decided_case dc now) (db_cases d)"
    and d': "db_exposures d' = row_set exp_id e' (db_exposures d)" "db_decisions d' = db_decisions d @ [x]"
    by blast
  have c0in: "c0 \<in> set (db_cases d)" "cas_id c0 = i" using row_get_Some [OF c0(1)] by auto
  have ein: "e \<in> set (db_exposures d)" "exp_id e = cas_exposure_id c0" using row_get_Some [OF e] by auto
  have upd: "db_cases d' = row_set cas_id (decided_case dc now c0) (db_cases d)"
    using decided_rows [OF rows c0in(1) c0(2)] cs c0in(2) by simp
  note mem = in_row_set [OF rows c0in(1), of "decided_case dc now c0", OF decided_case_id(1)]
  have ids: "exp_id ` set (db_exposures d) \<subseteq> exp_id ` set (db_exposures d')"
    by (simp add: d' row_set_same_ids)
  have cases: "cases_ok d'"
    by (rule case_update_ok [OF exposures_okD(2) [OF ok] c0in(1) c0(2) _ _ upd ids]) simp_all
  have keep: "blocking_ok y d'"
    if "cas_exposure_id c0 \<noteq> exp_id y \<or> cas_mode c0 \<noteq> Blocking \<or> dc = Comment" "blocking_ok y d" for y
    by (rule blocking_ok_case_update [OF exposures_okD(2) [OF ok] c0in(1) c0(2) _ _ upd _ _ that(2)])
       (use that(1) d'(2) in \<open>auto simp: decided_case_comment\<close>)
  have mine: "blocking_ok e' d'" if b: "exp_requirement e = Blocking"
  proof (cases "cas_mode c0 = Blocking \<and> dc \<noteq> Comment")
    case False
    then have "e' = e" by (auto simp: e' decided_exposure_def split: decision.split)
    with False keep [of e] exposures_okD(3) [OF ok ein(1) b] show ?thesis by auto
  next
    case True
    show ?thesis
    proof (cases dc)
      case Approve
      have "decided_case dc now c0 \<in> set (db_cases d')" by (simp add: upd mem)
      moreover have "exp_requested_by e \<noteq> Some reviewer" by (rule other [OF c0(1) e])
      ultimately have "independently_approved e' d'"
        unfolding independently_approved_def
        using True Approve ein x c0in d'(2)
        by (intro bexI [of _ "decided_case dc now c0"] conjI bexI [of _ x])
           (auto simp: e' decided_case_def)
      with Approve True show ?thesis by (simp add: blocking_ok_def)
    next
      case Reject
      with True show ?thesis by (simp add: blocking_ok_def e' decided_exposure_def closed_states_def)
    next
      case Comment
      with True show ?thesis by simp
    qed
  qed
  have others: "blocking_ok y d'" if "y \<in> set (db_exposures d)" "y \<noteq> e" "exp_requirement y = Blocking" for y
  proof (rule keep)
    show "cas_exposure_id c0 \<noteq> exp_id y \<or> cas_mode c0 \<noteq> Blocking \<or> dc = Comment"
      using rows_ok_id_eq [OF exposures_okD(1) [OF ok] that(1) ein(1)] that(2) ein(2) by auto
  qed (use exposures_okD(3) [OF ok] that in blast)
  show ?thesis
    by (rule put_exposure_ok [OF ok e _ _ _ _ _ d'(1) _ cases mine others])
       (use u d'(1) in \<open>auto simp: e'\<close>)
qed

lemma exposure_step_ok: "exposure_step d d' \<Longrightarrow> exposures_ok d \<Longrightarrow> exposures_ok d'"
proof (induction rule: exposure_step.induct)
  case (decide ctx i dc nt ev now d c d')
  then obtain p :: principal and e' x where
    r: "record_decision i (prn_id p) (decision_text dc) nt ev now d = Inr ((c, e'), d')"
    and g: "get_review_case_for_reviewer i (prn_id p) (is_maintainer ctx) d = Inr x"
    unfolding create_review_decision_route_def by (auto simp: res_simps)
  from g show ?case
    by (intro decide_ok [OF decide.prems r])
       (auto simp: get_review_case_for_reviewer_def get_review_case_or_404_def get_exposure_or_404_def res_simps)
qed ((blast intro: create_ok patch_ok activate_ok revoke_ok open_case_ok finalize_ok elsewhere_ok)+)

lemma exposure_reachable_ok: "exposure_reachable d \<Longrightarrow> exposures_ok d"
proof (induction rule: exposure_reachable.induct)
  case start
  show ?case by (simp add: exposures_ok_def cases_ok_def empty_db_def open_exposures_unique_def)
next
  case (step d d')
  then show ?case by (blast intro: exposure_step_ok)
qed

section \<open>Properties\<close>

text \<open>C1. Review cannot be bypassed: after any sequence of requests (creation, patch, activation,
  revocation, opening of cases, decisions) and agent finalisations, an exposure that is active
  and either requires a blocking review or is public without having been published by an
  agent's policy has a blocking review case that was approved, with a recorded approval by
  somebody other than the principal that requested the exposure.\<close>

theorem active_exposure_independently_approved:
  assumes "exposure_reachable d" and "e \<in> set (db_exposures d)" and "exp_state e = ExpActive"
    and "exp_requirement e = Blocking \<or> exp_audience e = Public \<and> \<not> published_by_agent e"
  shows "\<exists>c \<in> set (db_cases d). cas_exposure_id c = exp_id e \<and> cas_mode c = Blocking \<and>
           cas_state c = CaseApproved \<and>
           (\<exists>x \<in> set (db_decisions d). dec_case_id x = cas_id c \<and> dec_decision x = Approve \<and>
              dec_reviewer x \<noteq> exp_requested_by e)"
  using exposure_reachable_ok [OF assms(1)] assms(2-4)
  by (auto simp: exposures_ok_def blocking_ok_def independently_approved_def)

definition public_request :: exposure_create_request where
  "public_request = \<lparr>req_audience = Some Public, req_listing = Listed, req_install = InstallEnabled, req_review = NoReview\<rparr>"

definition user_context :: "id \<Rightarrow> principal \<Rightarrow> user \<Rightarrow> access_context" where
  "user_context c p u =
     \<lparr>ctx_credential = (new_credential empty_db)\<lparr>crd_id := c, crd_principal_id := Some (prn_id p)\<rparr>,
      ctx_principal = Some p, ctx_user = Some u, ctx_scopes = {''api:user''}, ctx_request_id = []\<rparr>"

definition alice :: access_context where
  "alice = user_context 1 (sample_principals ! 0) (sample_users ! 0)"

definition bob :: access_context where
  "bob = user_context 2 (sample_principals ! 1) (sample_users ! 1)"

definition public_db1 :: db where
  "public_db1 = db_after (create_exposure 1 1 False public_request None 10 sample_db)"

definition public_db2 :: db where
  "public_db2 = db_after (create_review_decision_route bob 1 Approve ''ok'' [] 20 public_db1)"

lemma public_db1_reachable: "exposure_reachable public_db1"
proof -
  have s: "exposure_reachable sample_db"
    by (rule exposure_reachable.step [OF exposure_reachable.start], rule exposure_step.elsewhere)
       (simp_all add: sample_db_def empty_db_def same_reviews_def)
  have "succeeded (create_exposure 1 1 False public_request None 10 sample_db)" by code_simp
  from exposure_step.create [OF succeededD [OF this]] s show ?thesis
    unfolding public_db1_def by (rule exposure_reachable.step [rotated])
qed

lemma public_db2_reachable: "exposure_reachable public_db2"
proof -
  have "succeeded (create_review_decision_route bob 1 Approve ''ok'' [] 20 public_db1)" by code_simp
  from exposure_step.decide [OF succeededD [OF this]] public_db1_reachable show ?thesis
    unfolding public_db2_def by (rule exposure_reachable.step [rotated])
qed

lemma public_db2_active:
  "list_all (\<lambda>e. exp_state e = ExpActive \<and> exp_requirement e = Blocking) (db_exposures public_db2) \<and>
   db_exposures public_db2 \<noteq> []"
  by code_simp

lemma active_exposure_independently_approved_witness:
  "\<exists>c \<in> set (db_cases public_db2). cas_mode c = Blocking \<and> cas_state c = CaseApproved"
proof -
  obtain e where e: "e \<in> set (db_exposures public_db2)" using public_db2_active by (cases "db_exposures public_db2") auto
  with public_db2_active have "exp_state e = ExpActive" "exp_requirement e = Blocking"
    by (auto simp: list_all_iff)
  from active_exposure_independently_approved [OF public_db2_reachable e this(1) disjI1 [OF this(2)]]
  show ?thesis by blast
qed

text \<open>C6. In every reachable state a release has at most one exposure per audience that is not
  revoked or rejected, an exposure has at most one open review case, and every case belongs
  to an exposure that exists.\<close>

theorem open_exposures_and_cases_unique:
  assumes "exposure_reachable d"
  shows "(\<forall>x \<in> set (db_exposures d). \<forall>y \<in> set (db_exposures d).
            exp_release_id x = exp_release_id y \<and> exp_audience x = exp_audience y \<and>
            exp_state x \<notin> {ExpRevoked, ExpRejected} \<and> exp_state y \<notin> {ExpRevoked, ExpRejected} \<longrightarrow> x = y) \<and>
         (\<forall>c \<in> set (db_cases d). \<forall>b \<in> set (db_cases d).
            cas_state c = CaseOpen \<and> cas_state b = CaseOpen \<and> cas_exposure_id c = cas_exposure_id b \<longrightarrow> c = b) \<and>
         (\<forall>c \<in> set (db_cases d). \<exists>e \<in> set (db_exposures d). exp_id e = cas_exposure_id c)"
proof -
  have ok: "exposures_ok d" by (rule exposure_reachable_ok [OF assms])
  have "open_exposures_unique (db_exposures d)" using ok by (simp add: exposures_ok_def)
  then show ?thesis
    using exposures_okD(2) [OF ok] unfolding unique_iff [OF exposures_okD(1) [OF ok]]
    by (simp add: cases_ok_def open_key_def closed_states_def)
qed

lemma open_exposures_and_cases_unique_witness:
  "hd (db_exposures public_db2) = last (db_exposures public_db2) \<and> db_cases public_db2 \<noteq> []"
proof -
  have "db_exposures public_db2 \<noteq> []" using public_db2_active by blast
  then have x: "hd (db_exposures public_db2) \<in> set (db_exposures public_db2)"
    and y: "last (db_exposures public_db2) \<in> set (db_exposures public_db2)" by simp_all
  have "(\<lambda>x y. exp_release_id x = exp_release_id y \<and> exp_audience x = exp_audience y \<and>
          exp_state x \<notin> {ExpRevoked, ExpRejected} \<and> exp_state y \<notin> {ExpRevoked, ExpRejected})
        (hd (db_exposures public_db2)) (last (db_exposures public_db2))"
    by code_simp
  moreover have "db_cases public_db2 \<noteq> []" by code_simp
  ultimately show ?thesis
    using open_exposures_and_cases_unique [OF public_db2_reachable] x y by blast
qed


definition revoked_db :: db where
  "revoked_db = db_after (revoke_exposure 1 1 False None 30 public_db2)"

definition reviewed_again_db :: db where
  "reviewed_again_db = db_after (create_review_case_route alice 1 (Some Blocking) revoked_db)"

definition reopened :: "svc_error + (review_case \<times> exposure) \<times> db" where
  "reopened = record_decision 2 2 ''approve'' [] [] 50 reviewed_again_db"

lemma reviewed_again_facts:
  "succeeded reopened" "distinct (map cas_id (db_cases reviewed_again_db))"
  "(case row_get cas_id (db_cases reviewed_again_db) 2 of None \<Rightarrow> False | Some c \<Rightarrow>
      cas_mode c = Blocking \<and>
      (case row_get exp_id (db_exposures reviewed_again_db) (cas_exposure_id c) of None \<Rightarrow> False
       | Some e \<Rightarrow> exp_state e = ExpRevoked))"
  by code_simp+


end
