(* ===== verification/Access.thy ===== *)
theory Access
  imports AgentPublish
begin

text \<open>
  Who may read a release: \<open>server/modules/access/authz.py\<close> and \<open>access/service.py\<close>.  A set of
  release ids is a list read by membership.
\<close>

section \<open>Grants\<close>

definition active_grant_exposure :: "id \<Rightarrow> db \<Rightarrow> exposure option" where
  "active_grant_exposure release_id d =
     last_where exp_id (\<lambda>e. exp_release_id e = release_id \<and> exp_audience e = Grant \<and>
                            exp_state e = ExpActive \<and> exp_install e = InstallEnabled) (db_exposures d)"

definition require_active_grant_exposure :: "id \<Rightarrow> db \<Rightarrow> svc_error + exposure" where
  "require_active_grant_exposure release_id d =
     or_raise (active_grant_exposure release_id d)
       (ValueError ''active grant visibility required before issuing tokens'')"

definition download_scope :: "string list" where
  "download_scope = [''artifact:download'']"

definition grant_bound_selector :: json_text where
  "grant_bound_selector = json_dumps (JObj [(''release_scope'', JStr ''grant-bound'')])"

text \<open>\<open>token\<close> is the random part of the token, \<open>sha256_hex\<close> the digest.\<close>

definition create_grant_token ::
    "(string \<Rightarrow> string) \<Rightarrow> string \<Rightarrow> access_grant \<Rightarrow> string list \<Rightarrow> id option \<Rightarrow> time option \<Rightarrow> time \<Rightarrow> db \<Rightarrow>
       (string \<times> credential) \<times> db" where
  "create_grant_token sha256_hex token g scopes principal_id expires_at now d =
     (let raw_token = ''grant_'' @ token;
          c = (new_credential d)\<lparr>crd_principal_id := principal_id, crd_grant_id := Some (grt_id g),
                crd_type := GrantToken, crd_hashed_secret := hash_token sha256_hex raw_token,
                crd_scopes_json := encode_scopes (if scopes = [] then download_scope else scopes),
                crd_selector_json := grant_bound_selector, crd_expires_at := expires_at,
                crd_created_at := now\<rparr>
      in ((raw_token, c), d\<lparr>db_credentials := db_credentials d @ [c]\<rparr>))"

definition grant_allows_release :: "id \<Rightarrow> id \<Rightarrow> db \<Rightarrow> bool" where
  "grant_allows_release grant_id release_id d =
     (case row_get grt_id (db_grants d) grant_id of
        None \<Rightarrow> False
      | Some g \<Rightarrow>
          if grt_state g \<noteq> GrantActive then False
          else (case row_get exp_id (db_exposures d) (grt_exposure_id g) of
                  None \<Rightarrow> False
                | Some e \<Rightarrow>
                    if exp_audience e \<noteq> Grant then False
                    else if exp_state e \<noteq> ExpActive \<or> exp_install e \<noteq> InstallEnabled then False
                    else exp_release_id e = release_id))"

section \<open>Access decisions\<close>

definition build_active_grants_lookup ::
    "exposure list \<Rightarrow> id option \<Rightarrow> db \<Rightarrow> id \<Rightarrow> access_grant list" where
  "build_active_grants_lookup exposures principal_id d =
     (let grant_exposure_ids = map exp_id (filter (\<lambda>e. exp_audience e = Grant) exposures)
      in if principal_id = None \<or> grant_exposure_ids = [] then (\<lambda>_. [])
         else (\<lambda>i. filter (\<lambda>g. grt_exposure_id g = i)
                     (filter (\<lambda>g. grt_exposure_id g \<in> set grant_exposure_ids \<and> grt_state g = GrantActive)
                        (db_grants d))))"

definition exposure_grants_access ::
    "(id \<Rightarrow> access_grant list) \<Rightarrow> access_context \<Rightarrow> id option \<Rightarrow> exposure \<Rightarrow> bool" where
  "exposure_grants_access active_grants ctx principal_id e =
     (case exp_audience e of
        Public \<Rightarrow> True
      | Authenticated \<Rightarrow>
          ctx_user ctx \<noteq> None \<or>
          (crd_type (ctx_credential ctx) = AgentToken \<and> ctx_principal ctx \<noteq> None)
      | Private \<Rightarrow> principal_id \<noteq> None \<and> exp_requested_by e = principal_id
      | Grant \<Rightarrow>
          (case principal_id of
             None \<Rightarrow> False
           | Some p \<Rightarrow> list_ex (\<lambda>g. grt_subject_ref g = principal_ref p) (active_grants (exp_id e))))"

definition release_is_accessible ::
    "exposure list \<Rightarrow> (id \<Rightarrow> access_grant list) \<Rightarrow> access_context \<Rightarrow> id option \<Rightarrow> bool" where
  "release_is_accessible exposures active_grants ctx principal_id =
     list_ex (exposure_grants_access active_grants ctx principal_id) exposures"

definition can_access_releases :: "access_context \<Rightarrow> id list \<Rightarrow> db \<Rightarrow> id list" where
  "can_access_releases ctx release_ids d =
     (if release_ids = [] then []
      else (case crd_grant_id (ctx_credential ctx) of
              Some g \<Rightarrow> filter (\<lambda>r. grant_allows_release g r d) release_ids
            | None \<Rightarrow>
                (let exposures = filter (\<lambda>e. exp_release_id e \<in> set release_ids \<and>
                                    exp_state e = ExpActive \<and> exp_install e = InstallEnabled) (db_exposures d);
                     principal_id = ctx_principal_id ctx;
                     active_grants = build_active_grants_lookup exposures principal_id d
                 in filter (\<lambda>r. release_is_accessible (filter (\<lambda>e. exp_release_id e = r) exposures)
                                  active_grants ctx principal_id) release_ids)))"

definition can_access_release :: "access_context \<Rightarrow> id \<Rightarrow> db \<Rightarrow> bool" where
  "can_access_release ctx release_id d \<longleftrightarrow> release_id \<in> set (can_access_releases ctx [release_id] d)"

section \<open>The access rule\<close>

text \<open>
  The abstract rule: a credential bound to a grant opens only the release of the grant's
  exposure; any other opens a release that has an active, installable exposure for the
  caller's audience.
\<close>

definition audience_admits :: "access_context \<Rightarrow> db \<Rightarrow> exposure \<Rightarrow> bool" where
  "audience_admits ctx d e \<longleftrightarrow>
     exp_audience e = Public \<or>
     exp_audience e = Authenticated \<and>
       (ctx_user ctx \<noteq> None \<or> crd_type (ctx_credential ctx) = AgentToken \<and> ctx_principal ctx \<noteq> None) \<or>
     (\<exists>p. ctx_principal_id ctx = Some p \<and>
        (exp_audience e = Private \<and> exp_requested_by e = Some p \<or>
         exp_audience e = Grant \<and>
           (\<exists>g \<in> set (db_grants d). grt_exposure_id g = exp_id e \<and> grt_state g = GrantActive \<and>
              grt_subject_ref g = principal_ref p)))"

definition installable :: "exposure \<Rightarrow> bool" where
  "installable e \<longleftrightarrow> exp_state e = ExpActive \<and> exp_install e = InstallEnabled"

definition access_rule :: "access_context \<Rightarrow> id \<Rightarrow> db \<Rightarrow> bool" where
  "access_rule ctx release_id d \<longleftrightarrow>
     (case crd_grant_id (ctx_credential ctx) of
        Some g \<Rightarrow> \<exists>grant e. row_get grt_id (db_grants d) g = Some grant \<and> grt_state grant = GrantActive \<and>
                    row_get exp_id (db_exposures d) (grt_exposure_id grant) = Some e \<and>
                    exp_audience e = Grant \<and> installable e \<and> exp_release_id e = release_id
      | None \<Rightarrow> \<exists>e \<in> set (db_exposures d). exp_release_id e = release_id \<and> installable e \<and>
                    audience_admits ctx d e)"

lemma grant_allows_iff:
  "grant_allows_release g r d \<longleftrightarrow>
     (\<exists>grant e. row_get grt_id (db_grants d) g = Some grant \<and> grt_state grant = GrantActive \<and>
        row_get exp_id (db_exposures d) (grt_exposure_id grant) = Some e \<and>
        exp_audience e = Grant \<and> installable e \<and> exp_release_id e = r)"
  by (auto simp: grant_allows_release_def installable_def split: option.split)

lemma exposure_grants_access_iff:
  assumes "e \<in> set exposures"
  shows "exposure_grants_access (build_active_grants_lookup exposures (ctx_principal_id ctx) d) ctx (ctx_principal_id ctx) e
           \<longleftrightarrow> audience_admits ctx d e"
proof (cases "exp_audience e")
  case Grant
  then have "exp_id e \<in> set (map exp_id (filter (\<lambda>e. exp_audience e = Grant) exposures))"
    using assms by auto
  then have ne: "map exp_id (filter (\<lambda>e. exp_audience e = Grant) exposures) \<noteq> []"
    and mem: "exp_id e \<in> exp_id ` {x \<in> set exposures. exp_audience x = Grant}"
    by (auto simp: filter_empty_conv)
  show ?thesis
  proof (cases "ctx_principal_id ctx")
    case None
    with Grant show ?thesis by (simp add: exposure_grants_access_def audience_admits_def)
  next
    case (Some p)
    with Grant ne mem show ?thesis
      by (auto simp: exposure_grants_access_def audience_admits_def build_active_grants_lookup_def Let_def
                     list_ex_iff)
  qed
qed (auto simp: exposure_grants_access_def audience_admits_def)

lemma can_access_releases_iff:
  "r \<in> set (can_access_releases ctx rs d) \<longleftrightarrow> r \<in> set rs \<and> access_rule ctx r d"
proof (cases "crd_grant_id (ctx_credential ctx)")
  case (Some g)
  then show ?thesis by (auto simp: can_access_releases_def access_rule_def grant_allows_iff)
next
  case None
  define exposures where "exposures = filter (\<lambda>e. exp_release_id e \<in> set rs \<and>
      exp_state e = ExpActive \<and> exp_install e = InstallEnabled) (db_exposures d)"
  have "r \<in> set (can_access_releases ctx rs d) \<longleftrightarrow>
      r \<in> set rs \<and> (\<exists>e \<in> set exposures. exp_release_id e = r \<and> audience_admits ctx d e)"
    using None exposure_grants_access_iff [of _ exposures ctx d]
    by (auto simp: can_access_releases_def Let_def exposures_def [symmetric] release_is_accessible_def list_ex_iff)
  then show ?thesis
    using None by (auto simp: access_rule_def exposures_def installable_def)
qed

section \<open>Properties\<close>

text \<open>C2. The bulk access check implements the access rule: a release is in the answer exactly
  when it was asked for and either the credential is bound to an active grant of the
  release's own active grant exposure, or, for any other credential, the release has an
  active installable exposure whose audience admits the caller (public; authenticated user
  or agent; private to the requester; granted to the principal).  Checking one release at a
  time gives the same answers.\<close>

theorem access_decision_correct:
  "(r \<in> set (can_access_releases ctx rs d) \<longleftrightarrow> r \<in> set rs \<and> access_rule ctx r d) \<and>
   (can_access_release ctx r d \<longleftrightarrow> access_rule ctx r d)"
  by (simp add: can_access_release_def can_access_releases_iff)


definition grant_exposure :: exposure where
  "grant_exposure = \<lparr>exp_id = 1, exp_release_id = 1, exp_audience = Grant, exp_listing = Listed,
     exp_install = InstallEnabled, exp_requirement = NoReview, exp_state = ExpActive,
     exp_requested_by = Some 1, exp_policy_json = json_dumps (JObj []), exp_activated_at = Some 1,
     exp_ended_at = None\<rparr>"

definition sample_grant :: access_grant where
  "sample_grant = \<lparr>grt_id = 1, grt_exposure_id = 1, grt_type = LinkGrant,
     grt_subject_ref = ''share://demo/x'', grt_constraints_json = json_dumps (JObj [(''name'', JStr ''n'')]),
     grt_state = GrantActive, grt_expires_at = Some 1000, grt_usage_limit = Some 2, grt_usage_count = 0,
     grt_created_by = Some 1, grt_created_at = 0\<rparr>"

definition grant_db :: db where
  "grant_db = sample_db\<lparr>db_exposures := [grant_exposure], db_grants := [sample_grant]\<rparr>"

definition grant_context :: access_context where
  "grant_context = \<lparr>ctx_credential = (new_credential empty_db)\<lparr>crd_grant_id := Some 1, crd_type := GrantToken\<rparr>,
     ctx_principal = None, ctx_user = None, ctx_scopes = {''artifact:download''}, ctx_request_id = []\<rparr>"


end
