(* ===== verification/ShareLinks.thy ===== *)
theory ShareLinks
  imports Access
begin

text \<open>
  Share links, \<open>server/modules/access/share_links.py\<close>.  The random texts a request draws are
  arguments, as are the password hash and its verification; \<open>now\<close> is the one time a request
  reads.
\<close>

record share_view =
  shv_id :: id
  shv_credential_id :: "id option"
  shv_release_id :: id
  shv_name :: json
  shv_slug :: string
  shv_has_password :: bool
  shv_expires_at :: "string option"
  shv_max_uses :: "int option"
  shv_used_count :: int
  shv_state :: string
  shv_created_at :: string
  shv_install_path :: "string option"
  shv_resolve_secret :: "string option"
  shv_access_token :: "string option"

section \<open>Reading\<close>

definition release_context ::
    "id \<Rightarrow> actor option \<Rightarrow> db \<Rightarrow> svc_error + release \<times> skill \<times> principal \<times> string" where
  "release_context release_id actor d =
     rbind (get_release_or_404 release_id d) (\<lambda>r.
     rbind (case actor of
              None \<Rightarrow> Inr ()
            | Some a \<Rightarrow> assert_release_owner r (prn_id (act_principal a)) (act_maintainer a) d) (\<lambda>_.
     rbind (or_raise (case rel_skill_id r of None \<Rightarrow> None | Some i \<Rightarrow> row_get skl_id (db_skills d) i)
             (Conflict ''release skill metadata missing'')) (\<lambda>s.
     rbind (or_raise (row_get prn_id (db_principals d) (skl_namespace_id s))
             (Conflict ''release owner metadata missing'')) (\<lambda>owner.
     Inr (r, s, owner,
          case row_get ver_id (db_versions d) (rel_version_id r) of
            None \<Rightarrow> ''release-'' @ str_of_int (rel_id r)
          | Some v \<Rightarrow> if ver_version v \<noteq> [] then ver_version v else ''release-'' @ str_of_int (rel_id r))))))"

definition share_grant_exposure :: "id \<Rightarrow> db \<Rightarrow> svc_error + exposure" where
  "share_grant_exposure release_id d =
     or_raise (active_grant_exposure release_id d)
       (Conflict ''active grant visibility required before issuing share links'')"

definition share_not_found :: svc_error where
  "share_not_found = NotFound ''share link not found''"

definition release_id_for_grant :: "access_grant \<Rightarrow> db \<Rightarrow> svc_error + id" where
  "release_id_for_grant g d =
     (case row_get exp_id (db_exposures d) (grt_exposure_id g) of
        None \<Rightarrow> Inl share_not_found
      | Some e \<Rightarrow> if exp_audience e \<noteq> Grant then Inl share_not_found else Inr (exp_release_id e))"

definition install_path :: "principal \<Rightarrow> skill \<Rightarrow> string \<Rightarrow> string" where
  "install_path owner s version =
     ''/api/v1/install/grant/'' @ prn_slug owner @ ''/'' @ skl_slug s @ ''@'' @ version"

definition share_credentials :: "id \<Rightarrow> db \<Rightarrow> credential list" where
  "share_credentials grant_id d =
     rev (sort_key crd_id (filter (\<lambda>c. crd_grant_id c = Some grant_id) (db_credentials d)))"

definition password_credential :: "credential list \<Rightarrow> credential option" where
  "password_credential cs = find (\<lambda>c. crd_type c = SharePassword) cs"

definition capability_credential :: "credential list \<Rightarrow> credential option" where
  "capability_credential cs = find (\<lambda>c. crd_type c = ShareCapability) cs"

definition share_state :: "access_grant \<Rightarrow> time \<Rightarrow> string" where
  "share_state g now =
     (if grt_state g \<noteq> GrantActive then ''revoked''
      else if (case grt_expires_at g of None \<Rightarrow> False | Some t \<Rightarrow> t \<le> now) then ''expired''
      else if (case grt_usage_limit g of None \<Rightarrow> False | Some n \<Rightarrow> grt_usage_count g \<ge> n) then ''exhausted''
      else ''active'')"

definition share_link_payload ::
    "access_grant \<Rightarrow> string option \<Rightarrow> string option \<Rightarrow> string option \<Rightarrow> time \<Rightarrow> db \<Rightarrow> svc_error + share_view" where
  "share_link_payload g path resolve_secret access_token now d =
     rbind (release_id_for_grant g d) (\<lambda>release_id.
     let constraints = object_or_empty (grt_constraints_json g);
         cs = share_credentials (grt_id g) d;
         pw = password_credential cs; cap = capability_credential cs
     in Inr \<lparr>shv_id = grt_id g,
             shv_credential_id = (case pw of Some c \<Rightarrow> Some (crd_id c) | None \<Rightarrow> map_option crd_id cap),
             shv_release_id = release_id,
             shv_name = json_or (json_or (jget constraints ''name'') (jget constraints ''label'')) (JStr []),
             shv_slug = remove_prefix ''share://'' (grt_subject_ref g),
             shv_has_password = (pw \<noteq> None),
             shv_expires_at = iso_format (grt_expires_at g), shv_max_uses = grt_usage_limit g,
             shv_used_count = grt_usage_count g, shv_state = share_state g now,
             shv_created_at = isoformat_z (grt_created_at g), shv_install_path = path,
             shv_resolve_secret = resolve_secret, shv_access_token = access_token\<rparr>)"

definition get_share_grant :: "id \<Rightarrow> db \<Rightarrow> svc_error + access_grant" where
  "get_share_grant share_id d =
     (case row_get grt_id (db_grants d) share_id of
        None \<Rightarrow> Inl share_not_found
      | Some g \<Rightarrow> if grt_type g \<noteq> LinkGrant then Inl share_not_found else Inr g)"

section \<open>Creating, listing and revoking\<close>

definition share_grant_row ::
    "id \<Rightarrow> exposure \<Rightarrow> string \<Rightarrow> string \<Rightarrow> time option \<Rightarrow> int option \<Rightarrow> id \<Rightarrow> time \<Rightarrow> access_grant" where
  "share_grant_row i e subject name expires_at max_uses creator now =
     \<lparr>grt_id = i, grt_exposure_id = exp_id e, grt_type = LinkGrant, grt_subject_ref = subject,
      grt_constraints_json = json_dumps (JObj [(''name'', JStr name)]), grt_state = GrantActive,
      grt_expires_at = expires_at, grt_usage_limit = max_uses, grt_usage_count = 0,
      grt_created_by = Some creator, grt_created_at = now\<rparr>"

definition create_share_link ::
    "(string \<Rightarrow> string) \<Rightarrow> (string \<Rightarrow> string) \<Rightarrow> id \<Rightarrow> string \<Rightarrow> string option \<Rightarrow> int option \<Rightarrow> int option \<Rightarrow>
       actor \<Rightarrow> string \<Rightarrow> string \<Rightarrow> time \<Rightarrow> db \<Rightarrow> share_view svc" where
  "create_share_link sha256_hex hash_share_password release_id name password expires_in_days max_uses
       actor slug_token secret_token now d =
     rbind (release_context release_id (Some actor) d) (\<lambda>(r, s, owner, version_label).
     rbind (share_grant_exposure release_id d) (\<lambda>e.
     let raw_password = strip (case password of None \<Rightarrow> [] | Some p \<Rightarrow> p);
         expires_at = map_option (\<lambda>n. now + days n) expires_in_days;
         clean_name = strip name;
         actor_id = prn_id (act_principal actor);
         g = share_grant_row (next_id grt_id (db_grants d)) e
               (''share://'' @ skl_slug s @ ''/'' @ slug_token) clean_name expires_at max_uses actor_id now;
         d1 = d\<lparr>db_grants := db_grants d @ [g]\<rparr>;
         secret = str_or raw_password secret_token;
         c = (new_credential d1)\<lparr>crd_grant_id := Some (grt_id g),
               crd_type := (if raw_password \<noteq> [] then SharePassword else ShareCapability),
               crd_hashed_secret := (if raw_password \<noteq> [] then hash_share_password raw_password
                                     else hash_token sha256_hex secret),
               crd_scopes_json := encode_scopes download_scope,
               crd_selector_json := grant_bound_selector, crd_expires_at := expires_at,
               crd_created_at := now\<rparr>;
         d2 = d1\<lparr>db_credentials := db_credentials d1 @ [c]\<rparr>;
         d3 = append_audit_event ''share_link'' (str_of_int (grt_id g)) ''share_link.created''
                (actor_ref_label actor) (Some actor_id)
                [(''release_id'', JInt release_id), (''object_id'', JInt (skl_id s)),
                 (''name'', JStr clean_name)] d2
     in rbind (share_link_payload g (Some (install_path owner s version_label))
                 (if raw_password = [] then Some secret else None) None now d3) (\<lambda>view.
        Inr (view, d3))))"

definition list_share_links :: "id \<Rightarrow> actor \<Rightarrow> time \<Rightarrow> db \<Rightarrow> svc_error + share_view list" where
  "list_share_links release_id actor now d =
     rbind (release_context release_id (Some actor) d) (\<lambda>_.
     map_res (\<lambda>g. share_link_payload g None None None now d)
       (rev (sort_key grt_id (filter (\<lambda>g. grt_type g = LinkGrant \<and>
          list_ex (\<lambda>e. exp_id e = grt_exposure_id g \<and> exp_release_id e = release_id \<and>
                       exp_audience e = Grant) (db_exposures d)) (db_grants d)))))"

definition put_grant :: "access_grant \<Rightarrow> db \<Rightarrow> db" where
  "put_grant g d = d\<lparr>db_grants := row_set grt_id g (db_grants d)\<rparr>"

definition revoke_share_link :: "id \<Rightarrow> actor \<Rightarrow> time \<Rightarrow> db \<Rightarrow> share_view svc" where
  "revoke_share_link share_id actor now d =
     rbind (get_share_grant share_id d) (\<lambda>g.
     rbind (release_id_for_grant g d) (\<lambda>release_id.
     rbind (release_context release_id (Some actor) d) (\<lambda>_.
     let g' = g\<lparr>grt_state := GrantRevoked\<rparr>;
         d1 = (if grt_state g \<noteq> GrantRevoked then
                 append_audit_event ''share_link'' (str_of_int (grt_id g)) ''share_link.revoked''
                   (actor_ref_label actor) (Some (prn_id (act_principal actor)))
                   [(''release_id'', JInt release_id)]
                   (revoke_where (\<lambda>c. crd_grant_id c = Some (grt_id g) \<and> crd_revoked_at c = None) now
                      (put_grant g' d))
               else d)
     in rbind (share_link_payload g' None None None now d1) (\<lambda>view. Inr (view, d1)))))"

section \<open>Resolving\<close>

text \<open>
  What a request checks on the rows it reads: the state of the link, then the password or the
  capability.  \<open>verify_password\<close> and \<open>sha256_hex\<close> are arguments.
\<close>

definition check_share_secret ::
    "(string \<Rightarrow> string) \<Rightarrow> (string \<Rightarrow> string \<Rightarrow> bool) \<Rightarrow> access_grant \<Rightarrow> string option \<Rightarrow> string option \<Rightarrow> db \<Rightarrow>
       svc_error + unit" where
  "check_share_secret sha256_hex verify_password g password secret d =
     (let cs = share_credentials (grt_id g) d in
      case password_credential cs of
        Some c \<Rightarrow>
          require (verify_password (case password of None \<Rightarrow> [] | Some p \<Rightarrow> p) (crd_hashed_secret c))
            (Forbidden ''share link password is invalid'')
      | None \<Rightarrow>
          (let supplied = strip (case secret of None \<Rightarrow> [] | Some t \<Rightarrow> t) in
           case capability_credential cs of
             None \<Rightarrow> Inl (Forbidden ''share link capability is required'')
           | Some c \<Rightarrow>
               if supplied = [] then Inl (Forbidden ''share link capability is required'')
               else require (crd_hashed_secret c = hash_token sha256_hex supplied)
                      (Forbidden ''share link capability is invalid'')))"

definition share_usable :: "time \<Rightarrow> access_grant \<Rightarrow> bool" where
  "share_usable now g \<longleftrightarrow>
     grt_state g = GrantActive \<and>
     (case grt_expires_at g of None \<Rightarrow> True | Some t \<Rightarrow> t > now) \<and>
     (case grt_usage_limit g of None \<Rightarrow> True | Some n \<Rightarrow> grt_usage_count g < n)"

text \<open>The conditional update that takes one use of the link.\<close>

definition claim_share_use :: "id \<Rightarrow> time \<Rightarrow> db \<Rightarrow> nat \<times> db" where
  "claim_share_use grant_id now d =
     (let p = (\<lambda>g. grt_id g = grant_id \<and> share_usable now g)
      in (row_count p (db_grants d),
          d\<lparr>db_grants := row_update p (\<lambda>g. g\<lparr>grt_usage_count := grt_usage_count g + 1\<rparr>) (db_grants d)\<rparr>))"

definition resolve_share_link ::
    "(string \<Rightarrow> string) \<Rightarrow> (string \<Rightarrow> string \<Rightarrow> bool) \<Rightarrow> id \<Rightarrow> string option \<Rightarrow> string option \<Rightarrow> string \<Rightarrow> time \<Rightarrow>
       db \<Rightarrow> share_view svc" where
  "resolve_share_link sha256_hex verify_password share_id password secret token now d =
     rbind (get_share_grant share_id d) (\<lambda>g.
     rbind (share_link_payload g None None None now d) (\<lambda>payload.
     rbind (require (shv_state payload = ''active'') (Conflict (shv_state payload))) (\<lambda>_.
     rbind (check_share_secret sha256_hex verify_password g password secret d) (\<lambda>_.
     rbind (release_id_for_grant g d) (\<lambda>release_id.
     rbind (release_context release_id None d) (\<lambda>(r, s, owner, version_label).
     let (n, d1) = claim_share_use (grt_id g) now d in
     rbind (or_raise (row_get grt_id (db_grants d1) (grt_id g)) (RuntimeError ''refresh'')) (\<lambda>g1.
     rbind (require (n = 1) (Conflict (share_state g1 now))) (\<lambda>_.
     let ((access_token, c), d2) = create_grant_token sha256_hex token g1 [] None (grt_expires_at g1) now d1;
         d3 = append_audit_event ''share_link'' (str_of_int (grt_id g1)) ''share_link.resolved''
                ''anonymous'' (grt_created_by g1)
                [(''release_id'', JInt release_id), (''object_id'', JInt (skl_id s))] d2
     in rbind (share_link_payload g1 (Some (install_path owner s version_label)) None
                 (Some access_token) now d3) (\<lambda>view.
        Inr (view, d3))))))))))"

section \<open>The uses of a link\<close>

text \<open>The access tokens that were handed out for a grant.\<close>

definition minted :: "id \<Rightarrow> db \<Rightarrow> nat" where
  "minted g d = length (filter (\<lambda>c. crd_type c = GrantToken \<and> crd_grant_id c = Some g) (db_credentials d))"

definition uses_ok :: "access_grant \<Rightarrow> db \<Rightarrow> bool" where
  "uses_ok g d \<longleftrightarrow> grt_usage_count g = int (minted (grt_id g) d) \<and>
     (\<forall>n. grt_usage_limit g = Some n \<longrightarrow> 0 \<le> n \<longrightarrow> grt_usage_count g \<le> n)"

lemma uses_ok_cong: "minted (grt_id g) d' = minted (grt_id g) d \<Longrightarrow> uses_ok g d' = uses_ok g d"
  by (simp add: uses_ok_def)

definition shares_ok :: "db \<Rightarrow> bool" where
  "shares_ok d \<longleftrightarrow> rows_ok grt_id (db_grants d) \<and>
     (\<forall>c \<in> set (db_credentials d). \<forall>i. crd_grant_id c = Some i \<longrightarrow> i \<in> grt_id ` set (db_grants d)) \<and>
     (\<forall>g \<in> set (db_grants d). uses_ok g d)"

lemma minted_append:
  "minted i (d\<lparr>db_credentials := cs @ [c]\<rparr>) =
     minted i (d\<lparr>db_credentials := cs\<rparr>) + (if crd_type c = GrantToken \<and> crd_grant_id c = Some i then 1 else 0)"
  by (simp add: minted_def)

lemma share_state_active: "share_state g now = ''active'' \<longleftrightarrow> share_usable now g"
  by (auto simp: share_state_def share_usable_def split: option.splits)

lemma get_share_grant_Some:
  "get_share_grant i d = Inr g \<Longrightarrow> row_get grt_id (db_grants d) i = Some g \<and> grt_type g = LinkGrant"
  by (auto simp: get_share_grant_def split: option.splits if_splits)

text \<open>A successful resolution takes exactly one use and mints exactly one token.\<close>

lemma resolve_effect:
  assumes ok: "rows_ok grt_id (db_grants d)"
    and r: "resolve_share_link h vp i pw sec tok now d = Inr (view, d')"
  shows "\<exists>g c. row_get grt_id (db_grants d) i = Some g \<and> share_usable now g \<and>
     check_share_secret h vp g pw sec d = Inr () \<and>
     crd_type c = GrantToken \<and> crd_grant_id c = Some i \<and>
     db_credentials d' = db_credentials d @ [c] \<and>
     db_grants d' = row_set grt_id (g\<lparr>grt_usage_count := grt_usage_count g + 1\<rparr>) (db_grants d) \<and>
     shv_used_count view = grt_usage_count g + 1 \<and> shv_access_token view = Some (''grant_'' @ tok)"
proof -
  obtain g where g: "get_share_grant i d = Inr g"
    using r unfolding resolve_share_link_def by (auto simp: res_simps)
  note gr = get_share_grant_Some [OF g]
  have id: "grt_id g = i" and gin: "g \<in> set (db_grants d)" using row_get_Some [of grt_id "db_grants d" i g] gr by auto
  define p where "p = (\<lambda>x. grt_id x = i \<and> share_usable now x)"
  define d1 where "d1 = d\<lparr>db_grants := row_update p (\<lambda>g. g\<lparr>grt_usage_count := grt_usage_count g + 1\<rparr>) (db_grants d)\<rparr>"
  have claim: "claim_share_use i now d = (row_count p (db_grants d), d1)"
    by (simp add: claim_share_use_def p_def d1_def Let_def)
  obtain g1 s path where g1: "row_get grt_id (db_grants d1) i = Some g1"
    and n: "row_count p (db_grants d) = 1"
    and sec: "check_share_secret h vp g pw sec d = Inr ()"
    and rest: "(let ((access_token, c), d2) = create_grant_token h tok g1 [] None (grt_expires_at g1) now d1;
         d3 = append_audit_event ''share_link'' (str_of_int (grt_id g1)) ''share_link.resolved''
                ''anonymous'' (grt_created_by g1) s d2
     in rbind (share_link_payload g1 path None (Some access_token) now d3) (\<lambda>view. Inr (view, d3))) = Inr (view, d')"
    using r [unfolded resolve_share_link_def g rbind_simps id claim] unfolding Let_def
    by (clarsimp simp only: rbind_Inr_iff or_raise_simps require_simps split_paired_all prod.case
          sum.inject prod.inject)
  have us: "share_usable now g"
  proof -
    have "row_count p (db_grants d) = (if share_usable now g then 1 else 0)"
      using row_count_key [OF ok gin, of "share_usable now"] by (simp only: p_def id)
    with n show ?thesis by (cases "share_usable now g") simp_all
  qed
  have rows: "row_update p (\<lambda>g. g\<lparr>grt_usage_count := grt_usage_count g + 1\<rparr>) (db_grants d) =
      row_set grt_id (g\<lparr>grt_usage_count := grt_usage_count g + 1\<rparr>) (db_grants d)"
    using row_update_key [where rid = grt_id and p = "share_usable now" and g = g and t = "db_grants d"
        and f = "\<lambda>g. g\<lparr>grt_usage_count := grt_usage_count g + 1\<rparr>", OF ok gin us] id
    by (simp add: p_def)
  have "g1 = g\<lparr>grt_usage_count := grt_usage_count g + 1\<rparr>"
    using g1 gr id by (simp add: d1_def rows row_get_set)
  with rest us sec gr id rows show ?thesis
    by (auto simp: create_grant_token_def Let_def res_simps share_link_payload_def d1_def)
qed

lemma create_share_effect:
  assumes "create_share_link h hp i name pw ed mu actor t1 t2 now d = Inr (view, d')"
  shows "\<exists>g c. grt_id g = next_id grt_id (db_grants d) \<and> grt_usage_count g = 0 \<and> grt_state g = GrantActive \<and>
     grt_usage_limit g = mu \<and> db_grants d' = db_grants d @ [g] \<and>
     db_credentials d' = db_credentials d @ [c] \<and> crd_grant_id c = Some (grt_id g) \<and>
     crd_type c \<in> {SharePassword, ShareCapability}"
  using assms unfolding create_share_link_def Let_def
  by (clarsimp simp only: rbind_Inr_iff split_paired_all prod.case sum.inject prod.inject)
     (auto simp: share_grant_row_def)

lemma revoke_share_effect:
  assumes "revoke_share_link i actor now d = Inr (view, d')"
  shows "\<exists>g. row_get grt_id (db_grants d) i = Some g \<and>
     db_grants d' = (if grt_state g = GrantRevoked then db_grants d
                     else row_set grt_id (g\<lparr>grt_state := GrantRevoked\<rparr>) (db_grants d)) \<and>
     map (\<lambda>c. (crd_type c, crd_grant_id c)) (db_credentials d') =
     map (\<lambda>c. (crd_type c, crd_grant_id c)) (db_credentials d) \<and>
     (grt_state g = GrantRevoked \<or>
      (\<forall>c \<in> set (db_credentials d'). crd_grant_id c = Some i \<longrightarrow> crd_revoked_at c \<noteq> None))"
proof -
  obtain g where g: "get_share_grant i d = Inr g"
    using assms unfolding revoke_share_link_def by (auto simp: res_simps)
  note gr = get_share_grant_Some [OF g]
  have id: "grt_id g = i" using row_get_Some [of grt_id "db_grants d" i g] gr by auto
  have keys: "map (\<lambda>c. (crd_type c, crd_grant_id c)) (row_update p (\<lambda>c. c\<lparr>crd_revoked_at := Some now\<rparr>) t) =
      map (\<lambda>c. (crd_type c, crd_grant_id c)) t" for p t
    by (simp add: row_update_def)
  show ?thesis
    using assms g gr id unfolding revoke_share_link_def Let_def
    by (auto simp: res_simps revoke_where_def put_grant_def keys)
       (auto simp: row_update_def)
qed

definition bound_credentials :: "db \<Rightarrow> (credential_type \<times> id option) list" where
  "bound_credentials d =
     map (\<lambda>c. (crd_type c, crd_grant_id c)) (filter (\<lambda>c. crd_grant_id c \<noteq> None) (db_credentials d))"

lemma minted_bound: "minted i d = length (filter (\<lambda>(t, g). t = GrantToken \<and> g = Some i) (bound_credentials d))"
  unfolding minted_def bound_credentials_def
  by (induction "db_credentials d" arbitrary: d rule: list.induct)
     (auto simp: filter_map comp_def intro!: arg_cong [where f = length] filter_cong)

lemma bound_refs:
  "(\<forall>c \<in> set (db_credentials d). \<forall>i. crd_grant_id c = Some i \<longrightarrow> P i) \<longleftrightarrow>
     (\<forall>x \<in> set (bound_credentials d). \<forall>i. snd x = Some i \<longrightarrow> P i)"
  by (auto simp: bound_credentials_def)

lemma shares_ok_alt:
  "shares_ok d \<longleftrightarrow> rows_ok grt_id (db_grants d) \<and>
     (\<forall>x \<in> set (bound_credentials d). \<forall>i. snd x = Some i \<longrightarrow> i \<in> grt_id ` set (db_grants d)) \<and>
     (\<forall>g \<in> set (db_grants d). uses_ok g d)"
  unfolding shares_ok_def bound_refs ..

inductive share_step :: "db \<Rightarrow> db \<Rightarrow> bool" where
  create: "create_share_link h hp i name pw ed mu actor t1 t2 now d = Inr (view, d') \<Longrightarrow> share_step d d'"
| revoke: "revoke_share_link i actor now d = Inr (view, d') \<Longrightarrow> share_step d d'"
| resolve: "resolve_share_link h vp i pw sec tok now d = Inr (view, d') \<Longrightarrow> share_step d d'"
| elsewhere: "db_grants d' = db_grants d \<Longrightarrow> bound_credentials d' = bound_credentials d \<Longrightarrow> share_step d d'"

inductive share_reachable :: "db \<Rightarrow> bool" where
  start: "share_reachable empty_db"
| step: "share_reachable d \<Longrightarrow> share_step d d' \<Longrightarrow> share_reachable d'"

lemma shares_ok_resolve:
  assumes ok: "shares_ok d" and g: "row_get grt_id (db_grants d) i = Some g" "share_usable now g"
    and c: "crd_type c = GrantToken" "crd_grant_id c = Some i"
    and d': "db_credentials d' = db_credentials d @ [c]"
      "db_grants d' = row_set grt_id (g\<lparr>grt_usage_count := grt_usage_count g + 1\<rparr>) (db_grants d)"
  shows "shares_ok d'"
proof -
  have rows: "rows_ok grt_id (db_grants d)" using ok by (simp add: shares_ok_def)
  have gin: "g \<in> set (db_grants d)" and id: "grt_id g = i" using row_get_Some [OF g(1)] by auto
  note mem = in_row_set [OF rows gin, of "g\<lparr>grt_usage_count := grt_usage_count g + 1\<rparr>"]
  have m: "minted x d' = minted x d + (if x = i then 1 else 0)" for x
    using c by (auto simp: minted_def d')
  have other: "grt_id x \<noteq> i" if "x \<in> set (db_grants d)" "x \<noteq> g" for x
    using rows_ok_id_eq [OF rows that(1) gin] that(2) id by auto
  have ids: "grt_id ` set (db_grants d') = grt_id ` set (db_grants d)"
    unfolding d' by (rule row_set_same_ids)
  have "\<forall>c \<in> set (db_credentials d'). \<forall>i. crd_grant_id c = Some i \<longrightarrow> i \<in> grt_id ` set (db_grants d')"
    using ok c gin id unfolding ids d'(1) by (auto simp: shares_ok_def)
  moreover have "uses_ok x d'" if "x \<in> set (db_grants d')" for x
  proof (cases "x \<in> set (db_grants d) \<and> x \<noteq> g")
    case True
    with ok other have "uses_ok x d" "grt_id x \<noteq> i" by (auto simp: shares_ok_def)
    then show ?thesis using uses_ok_cong [of x d' d] by (simp add: m)
  next
    case False
    with that have "x = g\<lparr>grt_usage_count := grt_usage_count g + 1\<rparr>" by (auto simp: d'(2) mem)
    moreover have "grt_usage_count g = int (minted i d)" using ok gin id by (auto simp: shares_ok_def uses_ok_def)
    ultimately show ?thesis using g(2) id by (auto simp: m share_usable_def uses_ok_def)
  qed
  moreover have "rows_ok grt_id (db_grants d')" using rows by (auto simp: d')
  ultimately show ?thesis by (simp add: shares_ok_def)
qed

lemma shares_ok_create:
  assumes ok: "shares_ok d" and g: "grt_id g = next_id grt_id (db_grants d)" "grt_usage_count g = 0"
    and c: "crd_grant_id c = Some (grt_id g)" "crd_type c \<noteq> GrantToken"
    and d': "db_credentials d' = db_credentials d @ [c]" "db_grants d' = db_grants d @ [g]"
  shows "shares_ok d'"
proof -
  have m: "minted x d' = minted x d" for x using c(2) by (simp add: minted_def d')
  have "minted (grt_id g) d = 0"
  proof -
    have "crd_grant_id x \<noteq> Some (grt_id g)" if "x \<in> set (db_credentials d)" for x
      using ok that next_id_greater [of _ "db_grants d" grt_id] g(1) by (fastforce simp: shares_ok_def)
    then show ?thesis by (simp add: minted_def)
  qed
  then have "uses_ok g d'" using g(2) by (simp add: uses_ok_def m)
  moreover have "uses_ok x d'" if "x \<in> set (db_grants d)" for x
    using ok that uses_ok_cong [OF m] by (simp add: shares_ok_def)
  moreover have "rows_ok grt_id (db_grants d')" using ok g(1) by (auto simp: d' shares_ok_def)
  moreover have "\<forall>x \<in> set (db_credentials d'). \<forall>i. crd_grant_id x = Some i \<longrightarrow> i \<in> grt_id ` set (db_grants d')"
    using ok c(1) by (auto simp: d' shares_ok_def)
  ultimately show ?thesis by (simp add: shares_ok_def d'(2))
qed

lemma shares_ok_revoke:
  assumes ok: "shares_ok d" and g: "row_get grt_id (db_grants d) i = Some g"
    and d': "db_grants d' = row_set grt_id (g\<lparr>grt_state := GrantRevoked\<rparr>) (db_grants d)"
      "bound_credentials d' = bound_credentials d"
  shows "shares_ok d'"
proof -
  have rows: "rows_ok grt_id (db_grants d)" using ok by (simp add: shares_ok_def)
  have gin: "g \<in> set (db_grants d)" using row_get_Some [OF g] by simp
  note mem = in_row_set [OF rows gin, of "g\<lparr>grt_state := GrantRevoked\<rparr>"]
  have m: "minted x d' = minted x d" for x by (simp add: minted_bound d'(2))
  have ids: "grt_id ` set (db_grants d') = grt_id ` set (db_grants d)"
    unfolding d' by (rule row_set_same_ids)
  have "rows_ok grt_id (db_grants d')" using rows by (auto simp: d')
  moreover have "uses_ok x d'" if x: "x \<in> set (db_grants d')" for x
  proof -
    have "uses_ok y d'" if "y \<in> set (db_grants d)" for y
      using ok that uses_ok_cong [OF m] by (simp add: shares_ok_def)
    moreover have "uses_ok (g\<lparr>grt_state := GrantRevoked\<rparr>) d' = uses_ok g d'" by (simp add: uses_ok_def)
    ultimately show ?thesis using x gin by (auto simp: d'(1) mem)
  qed
  ultimately show ?thesis
    using ok unfolding shares_ok_alt ids d'(2) by simp
qed

lemma shares_ok_elsewhere:
  assumes "shares_ok d" and eq: "db_grants d' = db_grants d" "bound_credentials d' = bound_credentials d"
  shows "shares_ok d'"
  using assms(1) unfolding shares_ok_alt uses_ok_def minted_bound eq .

lemma bound_credentials_eq:
  "map (\<lambda>c. (crd_type c, crd_grant_id c)) (db_credentials d') =
     map (\<lambda>c. (crd_type c, crd_grant_id c)) (db_credentials d) \<Longrightarrow> bound_credentials d' = bound_credentials d"
proof -
  have "bound_credentials x = filter (\<lambda>p. snd p \<noteq> None) (map (\<lambda>c. (crd_type c, crd_grant_id c)) (db_credentials x))" for x
    by (simp add: bound_credentials_def filter_map comp_def)
  then show "map (\<lambda>c. (crd_type c, crd_grant_id c)) (db_credentials d') =
     map (\<lambda>c. (crd_type c, crd_grant_id c)) (db_credentials d) \<Longrightarrow> ?thesis" by simp
qed

lemma share_step_ok: "share_step d d' \<Longrightarrow> shares_ok d \<Longrightarrow> shares_ok d'"
proof (induction rule: share_step.induct)
  case (create h hp i name pw ed mu actor t1 t2 now d view d')
  from create_share_effect [OF create.hyps] show ?case
    by (elim exE conjE) (rule shares_ok_create [OF create.prems]; auto)
next
  case (revoke i actor now d view d')
  from revoke_share_effect [OF revoke.hyps] obtain g where
    g: "row_get grt_id (db_grants d) i = Some g"
    and gr: "db_grants d' = (if grt_state g = GrantRevoked then db_grants d
                     else row_set grt_id (g\<lparr>grt_state := GrantRevoked\<rparr>) (db_grants d))"
    and "bound_credentials d' = bound_credentials d"
    by (auto dest: bound_credentials_eq)
  then show ?case
    using shares_ok_revoke [OF revoke.prems g] shares_ok_elsewhere [OF revoke.prems]
    by (auto split: if_splits)
next
  case (resolve h vp i pw sec tok now d view d')
  have "rows_ok grt_id (db_grants d)" using resolve.prems by (simp add: shares_ok_def)
  from resolve_effect [OF this resolve.hyps] show ?case
    by (elim exE conjE) (rule shares_ok_resolve [OF resolve.prems]; assumption)
next
  case (elsewhere d' d)
  show ?case by (rule shares_ok_elsewhere [OF elsewhere.prems elsewhere.hyps])
qed

lemma share_reachable_ok: "share_reachable d \<Longrightarrow> shares_ok d"
proof (induction rule: share_reachable.induct)
  case start
  show ?case by (simp add: shares_ok_def empty_db_def)
next
  case (step d d')
  then show ?case by (blast intro: share_step_ok)
qed

section \<open>Properties\<close>

text \<open>C3. The usage limit of a share link holds over every sequence of creations, revocations and
  resolutions: the number of access tokens handed out for a link is exactly its use count and
  never exceeds its limit.\<close>

theorem share_link_uses_bounded:
  assumes "share_reachable d" and "g \<in> set (db_grants d)" and "grt_usage_limit g = Some n" and "0 \<le> n"
  shows "int (minted (grt_id g) d) = grt_usage_count g \<and> int (minted (grt_id g) d) \<le> n"
  using share_reachable_ok [OF assms(1)] assms(2-4) by (auto simp: shares_ok_def uses_ok_def)

definition share_db0 :: db where
  "share_db0 = sample_db\<lparr>db_exposures := [grant_exposure]\<rparr>"

definition share_db1 :: db where
  "share_db1 = db_after (create_share_link (\<lambda>s. s) (\<lambda>s. s) 1 ''n'' None None (Some 1)
     (sample_actor 1 ''alice'') ''x'' ''s'' 10 share_db0)"

definition share_use :: "string \<Rightarrow> share_view svc" where
  "share_use secret = resolve_share_link (\<lambda>s. s) (\<lambda>a b. a = b) 1 None (Some secret) ''t'' 20 share_db1"

lemma share_db1_reachable: "share_reachable share_db1"
proof -
  have s: "share_reachable share_db0"
    by (rule share_reachable.step [OF share_reachable.start], rule share_step.elsewhere)
       (simp_all add: share_db0_def sample_db_def empty_db_def bound_credentials_def)
  have "succeeded (create_share_link (\<lambda>s. s) (\<lambda>s. s) 1 ''n'' None None (Some 1)
     (sample_actor 1 ''alice'') ''x'' ''s'' 10 share_db0)" by code_simp
  from share_step.create [OF succeededD [OF this]] s show ?thesis
    unfolding share_db1_def by (rule share_reachable.step [rotated])
qed

lemma share_use_succeeds: "succeeded (share_use ''s'')"
  by code_simp

lemma share_link_uses_bounded_witness:
  "\<exists>g \<in> set (db_grants (db_after (share_use ''s''))). int (minted (grt_id g) (db_after (share_use ''s''))) \<le> 1"
proof -
  have r: "share_reachable (db_after (share_use ''s''))"
    using share_step.resolve [OF succeededD [OF share_use_succeeds, unfolded share_use_def]]
      share_db1_reachable unfolding share_use_def by (rule share_reachable.step [rotated])
  have "list_ex (\<lambda>g. grt_usage_limit g = Some 1) (db_grants (db_after (share_use ''s'')))" by code_simp
  then obtain g where g: "g \<in> set (db_grants (db_after (share_use ''s'')))" "grt_usage_limit g = Some 1"
    by (auto simp: list_ex_iff)
  from share_link_uses_bounded [OF r g] g(1) show ?thesis by auto
qed



end
