(* ===== verification/SemVer.thy ===== *)
theory SemVer
  imports PyText "HOL-Library.Option_ord"
begin

text \<open>
  The client's semantic versions and dependency constraints
  (\<open>install/version_constraints.py\<close>): parsing, the order of versions, constraint
  expressions and their satisfaction.  Versions are ordered as a type of class
  \<open>linorder\<close>; the code's comparison is shown to be that order.
\<close>

section \<open>Errors of the client\<close>

text \<open>
  The exceptions of the install planner: \<open>DependencyError\<close>, Python's \<open>ValueError\<close>, and the
  \<open>RecursionError\<close> with which the interpreter ends a recursion that is too deep.
\<close>

datatype client_error =
    DependencyError string
  | VersionError string
  | RecursionError

section \<open>Parsing versions\<close>

datatype pre_part = PreNum nat | PreText string

datatype semver = SemVer (major: nat) (minor: nat) (patch: nat) (prerelease: "pre_part list")

definition all_digits :: "string \<Rightarrow> bool" where
  "all_digits s \<longleftrightarrow> s \<noteq> [] \<and> list_all is_digit s"

text \<open>The group \<open>(0|[1-9]\d*)\<close>.\<close>

definition core_number :: "string \<Rightarrow> bool" where
  "core_number s \<longleftrightarrow> all_digits s \<and> (s = ''0'' \<or> hd s \<noteq> CHR ''0'')"

text \<open>The class \<open>[0-9A-Za-z.-]+\<close>.\<close>

definition suffix_text :: "string \<Rightarrow> bool" where
  "suffix_text s \<longleftrightarrow> s \<noteq> [] \<and>
     list_all (\<lambda>c. is_digit c \<or> is_alpha_ascii c \<or> c = CHR ''.'' \<or> c = CHR ''-'') s"

text \<open>A \<open>$\<close> also matches before one newline at the end.\<close>

definition chop_newline :: "string \<Rightarrow> string" where
  "chop_newline s = (if s \<noteq> [] \<and> last s = CHR 0x0A then butlast s else s)"

definition prerelease_part :: "string \<Rightarrow> pre_part" where
  "prerelease_part p = (if all_digits p then PreNum (nat_of_digits p) else PreText p)"

text \<open>
  \<open>SEMVER_RE\<close>: the first \<open>+\<close> starts the build part and, before it, the first \<open>-\<close> the
  prerelease, as neither the numbers nor the prerelease class hold those characters.
\<close>

definition match_semver :: "string \<Rightarrow> semver option" where
  "match_semver version =
     (let (head, has_build, build) = partition_on (CHR ''+'') (chop_newline version);
          (core, has_pre, pre) = partition_on (CHR ''-'') head
      in if (has_build \<longrightarrow> suffix_text build) \<and> (has_pre \<longrightarrow> suffix_text pre)
         then (case split_on (CHR ''.'') core of
                 [a, b, c] \<Rightarrow>
                   if core_number a \<and> core_number b \<and> core_number c
                   then Some (SemVer (nat_of_digits a) (nat_of_digits b) (nat_of_digits c)
                                (if has_pre then map prerelease_part (split_on (CHR ''.'') pre) else []))
                   else None
               | _ \<Rightarrow> None)
         else None)"

definition parse_semver :: "string \<Rightarrow> client_error + semver" where
  "parse_semver version =
     or_raise (match_semver version) (VersionError (''invalid semver: '' @ py_repr version))"

section \<open>Comparing versions\<close>

fun compare_parts :: "pre_part list \<Rightarrow> pre_part list \<Rightarrow> int option" where
  "compare_parts (l # ls) (r # rs) =
     (if l = r then compare_parts ls rs
      else (case (l, r) of
              (PreNum a, PreNum b) \<Rightarrow> Some (if a < b then -1 else 1)
            | (PreNum _, PreText _) \<Rightarrow> Some (-1)
            | (PreText _, PreNum _) \<Rightarrow> Some 1
            | (PreText a, PreText b) \<Rightarrow> Some (if a < b then -1 else 1)))"
| "compare_parts _ _ = None"

definition compare_prerelease :: "pre_part list \<Rightarrow> pre_part list \<Rightarrow> int" where
  "compare_prerelease left right =
     (if left = [] \<and> right = [] then 0
      else if left = [] then 1
      else if right = [] then -1
      else (case compare_parts left right of
              Some c \<Rightarrow> c
            | None \<Rightarrow> if length left = length right then 0
                      else if length left < length right then -1 else 1))"

definition compare_semvers :: "semver \<Rightarrow> semver \<Rightarrow> int" where
  "compare_semvers l r =
     (let left_core = (major l, minor l, patch l); right_core = (major r, minor r, patch r)
      in if left_core \<noteq> right_core then (if left_core < right_core then -1 else 1)
         else compare_prerelease (prerelease l) (prerelease r))"

definition compare_versions :: "string \<Rightarrow> string \<Rightarrow> client_error + int" where
  "compare_versions left right =
     rbind (parse_semver left) (\<lambda>l.
     rbind (parse_semver right) (\<lambda>r. Inr (compare_semvers l r)))"

section \<open>Constraint expressions\<close>

datatype comparator = OpEq | OpGt | OpGe | OpLt | OpLe

definition operator_text :: "comparator \<Rightarrow> string" where
  "operator_text op = (case op of OpEq \<Rightarrow> ''='' | OpGt \<Rightarrow> ''>'' | OpGe \<Rightarrow> ''>='' | OpLt \<Rightarrow> ''<'' | OpLe \<Rightarrow> ''<='')"

definition dotted :: "nat \<Rightarrow> nat \<Rightarrow> nat \<Rightarrow> string" where
  "dotted a b c = digits_of a @ ''.'' @ digits_of b @ ''.'' @ digits_of c"

definition caret_upper_bound :: "string \<Rightarrow> client_error + string" where
  "caret_upper_bound version =
     rbind (parse_semver version) (\<lambda>p.
       Inr (if major p > 0 then dotted (major p + 1) 0 0
            else if minor p > 0 then dotted 0 (minor p + 1) 0
            else dotted 0 0 (patch p + 1)))"

definition tilde_upper_bound :: "string \<Rightarrow> client_error + string" where
  "tilde_upper_bound version =
     rbind (parse_semver version) (\<lambda>p. Inr (dotted (major p) (minor p + 1) 0))"

text \<open>The class \<open>[-+][A-Za-z0-9_.-]+\<close> of a comparator's version.\<close>

definition comparator_suffix :: "string \<Rightarrow> bool" where
  "comparator_suffix s \<longleftrightarrow>
     (case s of
        c # t \<Rightarrow> (c = CHR ''-'' \<or> c = CHR ''+'') \<and> t \<noteq> [] \<and>
          list_all (\<lambda>x. is_digit x \<or> is_alpha_ascii x \<or> x = CHR ''_'' \<or> x = CHR ''.'' \<or> x = CHR ''-'') t
      | [] \<Rightarrow> False)"

text \<open>\<open>\d+\.\d+\.\d+(?:[-+][A-Za-z0-9_.-]+)?\<close>\<close>

definition comparator_version :: "string \<Rightarrow> bool" where
  "comparator_version s =
     (let a = takeWhile is_digit s; s1 = dropWhile is_digit s;
          b = takeWhile is_digit (tl s1); s2 = dropWhile is_digit (tl s1);
          c = takeWhile is_digit (tl s2); s3 = dropWhile is_digit (tl s2)
      in a \<noteq> [] \<and> s1 \<noteq> [] \<and> hd s1 = CHR ''.'' \<and> b \<noteq> [] \<and> s2 \<noteq> [] \<and> hd s2 = CHR ''.'' \<and>
         c \<noteq> [] \<and> (s3 = [] \<or> comparator_suffix s3))"

text \<open>\<open>COMPARATOR_RE\<close>: an optional operator, \<open>=\<close> by default, and a version.\<close>

definition match_comparator :: "string \<Rightarrow> (comparator \<times> string) option" where
  "match_comparator token =
     (let (op, rest) =
            (if starts_with ''<='' token then (OpLe, drop 2 token)
             else if starts_with ''>='' token then (OpGe, drop 2 token)
             else if starts_with ''<'' token then (OpLt, drop 1 token)
             else if starts_with ''>'' token then (OpGt, drop 1 token)
             else if starts_with ''='' token then (OpEq, drop 1 token)
             else (OpEq, token))
      in if comparator_version rest then Some (op, rest) else None)"

definition parse_token :: "string \<Rightarrow> client_error + (comparator \<times> string) list" where
  "parse_token token =
     (if token = ''*'' then Inr []
      else if starts_with ''^'' token then
        (let base = tl token in
         rbind (parse_semver base) (\<lambda>_.
         rbind (caret_upper_bound base) (\<lambda>u. Inr [(OpGe, base), (OpLt, u)])))
      else if starts_with ''~'' token then
        (let base = tl token in
         rbind (parse_semver base) (\<lambda>_.
         rbind (tilde_upper_bound base) (\<lambda>u. Inr [(OpGe, base), (OpLt, u)])))
      else
        rbind (or_raise (match_comparator token)
                 (VersionError (''invalid version constraint token: '' @ py_repr token))) (\<lambda>(op, version).
        rbind (parse_semver version) (\<lambda>_. Inr [(op, version)])))"

text \<open>The expression is \<open>None\<close> or a text; an empty one and \<open>*\<close> allow every version.\<close>

definition parse_constraint_expression ::
    "string option \<Rightarrow> client_error + (comparator \<times> string) list" where
  "parse_constraint_expression expression =
     (let expr = strip (str_or (case expression of None \<Rightarrow> [] | Some e \<Rightarrow> e) ''*'')
      in if expr = [] \<or> expr = ''*'' then Inr []
         else rbind (map_res parse_token (words (replace_char (CHR '','') (CHR '' '') expr)))
                (\<lambda>xs. Inr (concat xs)))"

definition comparators_text :: "(comparator \<times> string) list \<Rightarrow> string" where
  "comparators_text cs = join '' '' (map (\<lambda>(op, version). operator_text op @ version) cs)"

definition canonicalize_constraint :: "string option \<Rightarrow> client_error + string" where
  "canonicalize_constraint expression =
     rbind (parse_constraint_expression
              (Some (strip (str_or (case expression of None \<Rightarrow> [] | Some e \<Rightarrow> e) ''*''))))
       (\<lambda>cs. Inr (str_or (comparators_text cs) ''*''))"

definition constraint_is_exact :: "string option \<Rightarrow> client_error + bool" where
  "constraint_is_exact expression =
     rbind (parse_constraint_expression expression)
       (\<lambda>cs. Inr (case cs of [(OpEq, _)] \<Rightarrow> True | _ \<Rightarrow> False))"

definition comparison_holds :: "comparator \<Rightarrow> int \<Rightarrow> bool" where
  "comparison_holds op c =
     (case op of OpEq \<Rightarrow> c = 0 | OpGt \<Rightarrow> c > 0 | OpGe \<Rightarrow> c \<ge> 0 | OpLt \<Rightarrow> c < 0 | OpLe \<Rightarrow> c \<le> 0)"

text \<open>The loop of \<open>version_satisfies\<close> stops at the first bound the version violates.\<close>

fun satisfies_all :: "string \<Rightarrow> (comparator \<times> string) list \<Rightarrow> client_error + bool" where
  "satisfies_all version [] = Inr True"
| "satisfies_all version ((op, bound) # cs) =
     rbind (compare_versions version bound) (\<lambda>c.
       if comparison_holds op c then satisfies_all version cs else Inr False)"

definition version_satisfies :: "string \<Rightarrow> string option \<Rightarrow> client_error + bool" where
  "version_satisfies version expression =
     rbind (parse_constraint_expression expression) (satisfies_all version)"

section \<open>Versions as a linear order\<close>

instantiation pre_part :: linorder
begin

definition less_eq_pre_part :: "pre_part \<Rightarrow> pre_part \<Rightarrow> bool" where
  "less_eq_pre_part x y =
     (case x of
        PreNum a \<Rightarrow> (case y of PreNum b \<Rightarrow> a \<le> b | PreText _ \<Rightarrow> True)
      | PreText a \<Rightarrow> (case y of PreNum _ \<Rightarrow> False | PreText b \<Rightarrow> a \<le> b))"

definition less_pre_part :: "pre_part \<Rightarrow> pre_part \<Rightarrow> bool" where
  "less_pre_part x y \<longleftrightarrow> x \<le> y \<and> \<not> y \<le> (x::pre_part)"

instance
  by standard (auto simp: less_eq_pre_part_def less_pre_part_def split: pre_part.splits)

end

text \<open>A version without a prerelease follows every version of its core that has one.\<close>

definition semver_key :: "semver \<Rightarrow> nat \<times> nat \<times> nat \<times> bool \<times> pre_part list" where
  "semver_key v = (major v, minor v, patch v, prerelease v = [], prerelease v)"

instantiation semver :: linorder
begin

definition less_eq_semver :: "semver \<Rightarrow> semver \<Rightarrow> bool" where
  "less_eq_semver x y \<longleftrightarrow> semver_key x \<le> semver_key y"

definition less_semver :: "semver \<Rightarrow> semver \<Rightarrow> bool" where
  "less_semver x y \<longleftrightarrow> semver_key x < semver_key y"

instance
proof
  fix x y :: semver
  show "x \<le> y \<Longrightarrow> y \<le> x \<Longrightarrow> x = y"
    by (cases x; cases y) (auto simp: less_eq_semver_def semver_key_def)
qed (auto simp: less_eq_semver_def less_semver_def less_le_not_le)

end

lemma pre_part_less [simp]:
  "PreNum a < PreNum b \<longleftrightarrow> a < b" "PreText u < PreText v \<longleftrightarrow> u < v"
  "PreNum a < PreText v" "\<not> PreText u < PreNum b"
  by (auto simp: less_pre_part_def less_eq_pre_part_def)

text \<open>The sign of a comparison of two elements of a linear order.\<close>

definition order_sign :: "'a::linorder \<Rightarrow> 'a \<Rightarrow> int" where
  "order_sign x y = (if x < y then -1 else if x = y then 0 else 1)"

lemma order_sign_holds:
  "comparison_holds OpEq (order_sign x y) \<longleftrightarrow> x = y"
  "comparison_holds OpGt (order_sign x y) \<longleftrightarrow> x > y"
  "comparison_holds OpGe (order_sign x y) \<longleftrightarrow> x \<ge> y"
  "comparison_holds OpLt (order_sign x y) \<longleftrightarrow> x < y"
  "comparison_holds OpLe (order_sign x y) \<longleftrightarrow> x \<le> y"
  by (auto simp: comparison_holds_def order_sign_def)

lemma order_sign_Cons:
  "order_sign (x # xs) (y # ys) = (if x = y then order_sign xs ys else order_sign x y)"
  by (auto simp: order_sign_def)

lemma order_sign_Nil:
  "order_sign [] ys = (if ys = [] then 0 else -1)" "order_sign xs [] = (if xs = [] then 0 else 1)"
  by (cases ys; cases xs; simp add: order_sign_def)+

lemma compare_parts_order:
  "(case compare_parts ls rs of
      Some c \<Rightarrow> c
    | None \<Rightarrow> if length ls = length rs then 0 else if length ls < length rs then -1 else 1)
   = order_sign ls rs"
proof (induction ls rs rule: compare_parts.induct)
  case (1 l ls r rs)
  show ?case
  proof (cases "l = r")
    case True
    with 1 show ?thesis
      by (cases "compare_parts ls rs") (simp_all add: order_sign_Cons split: if_splits)
  next
    case False
    then show ?thesis by (auto simp: order_sign_def split: pre_part.splits)
  qed
qed (simp_all add: order_sign_Nil)

lemma compare_prerelease_order:
  "compare_prerelease l r = order_sign (l = [], l) (r = [], r)"
  using compare_parts_order [of l r]
  by (auto simp: compare_prerelease_def order_sign_def less_bool_def split: option.splits)

lemma semver_key_eq: "semver_key a = semver_key b \<longleftrightarrow> a = b"
  by (cases a; cases b) (auto simp: semver_key_def)

lemma compare_semvers_order: "compare_semvers l r = order_sign l r"
  by (auto simp: compare_semvers_def compare_prerelease_order order_sign_def less_semver_def
        semver_key_eq [symmetric] semver_key_def Let_def)

section \<open>Words of a text\<close>

definition word_text :: "string \<Rightarrow> bool" where
  "word_text w \<longleftrightarrow> w \<noteq> [] \<and> list_all (\<lambda>c. \<not> is_space c) w"

lemma words_Cons:
  "words (c # s) =
     (if is_space c then words s
      else if s = [] \<or> is_space (hd s) then [c] # words s
      else (c # concat (take 1 (words s))) # tl (words s))"
  by (cases s) (auto split: list.splits)

lemma words_word_text: "w \<in> set (words s) \<Longrightarrow> word_text w \<and> set w \<subseteq> set s"
proof (induction s arbitrary: w)
  case (Cons c s)
  have tail: "v \<in> set (tl (words s)) \<Longrightarrow> v \<in> set (words s)" for v
    by (cases "words s") simp_all
  define h where "h = concat (take 1 (words s))"
  have hd: "set h \<subseteq> set s" "list_all (\<lambda>c. \<not> is_space c) h"
    unfolding h_def using Cons.IH by (cases "words s"; force simp: word_text_def)+
  from Cons.prems consider "w \<in> set (words s)" | "\<not> is_space c" "w = [c]" | "\<not> is_space c" "w = c # h"
    using tail [of w] by (auto simp: words_Cons h_def simp del: words.simps(2) split: if_splits)
  then show ?case
    using Cons.IH [of w] hd by cases (auto simp: word_text_def)
qed simp

lemma words_of_word: "word_text w \<Longrightarrow> words w = [w]"
proof (induction w)
  case (Cons c w)
  then show ?case by (cases w) (auto simp: word_text_def)
qed (simp add: word_text_def)

lemma words_word_space: "word_text w \<Longrightarrow> is_space d \<Longrightarrow> words (w @ d # s) = w # words s"
proof (induction w)
  case (Cons c w)
  then show ?case by (cases w) (auto simp: word_text_def)
qed (simp add: word_text_def)

lemma words_join: "\<forall>w \<in> set ws. word_text w \<Longrightarrow> words (join '' '' ws) = ws"
proof (induction ws rule: induct_list012)
  case (3 w v ws)
  have "is_space (CHR '' '')" by (simp add: is_space_def code_def)
  with 3 show ?case by (simp add: words_word_space)
qed (simp_all add: words_of_word)

lemma strip_id:
  assumes "s \<noteq> []" and "\<not> is_space (hd s)" and "\<not> is_space (last s)"
  shows "strip s = s"
proof -
  have "lstrip s = s" using assms(1,2) by (cases s) (simp_all add: lstrip_def)
  moreover have "rstrip s = s"
    using assms(1,3) by (cases s rule: rev_cases) (simp_all add: rstrip_def)
  ultimately show ?thesis by (simp add: strip_def)
qed

lemma replace_char_id: "a \<notin> set s \<Longrightarrow> replace_char a b s = s"
  by (auto simp: replace_char_def intro: map_idI)

section \<open>The characters of a version\<close>

definition version_char :: "char \<Rightarrow> bool" where
  "version_char c \<longleftrightarrow> is_digit c \<or> is_alpha_ascii c \<or> c \<in> {CHR ''.'', CHR ''-'', CHR ''+''}"

lemma version_char_not: "version_char c \<Longrightarrow> \<not> is_space c \<and> c \<noteq> CHR '','' \<and> c \<noteq> CHR ''*''"
  by (auto simp: version_char_def is_space_def is_digit_def is_alpha_ascii_def is_lower_ascii_def
        code_def Let_def)

lemma partition_on_eq:
  assumes "partition_on d s = (a, f, b)"
  shows "s = a @ (if f then d # b else [])"
proof -
  have x: "a = takeWhile (\<lambda>c. c \<noteq> d) s" "f = (dropWhile (\<lambda>c. c \<noteq> d) s \<noteq> [])"
    "b = tl (dropWhile (\<lambda>c. c \<noteq> d) s)"
    using assms by (auto simp: partition_on_def Let_def)
  have "dropWhile (\<lambda>c. c \<noteq> d) s = d # b" if "dropWhile (\<lambda>c. c \<noteq> d) s \<noteq> []"
    using that x(3) hd_dropWhile [OF that] by (cases "dropWhile (\<lambda>c. c \<noteq> d) s") simp_all
  then have "dropWhile (\<lambda>c. c \<noteq> d) s = (if f then d # b else [])" by (auto simp: x(2))
  with takeWhile_dropWhile_id [of "\<lambda>c. c \<noteq> d" s] x(1) show ?thesis by simp
qed

lemma core_number_chars: "core_number w \<Longrightarrow> w \<noteq> [] \<and> (\<forall>c \<in> set w. is_digit c)"
  by (auto simp: core_number_def all_digits_def list_all_iff)

lemma split_on_three: "split_on d s = [a, b, c] \<Longrightarrow> s = a @ d # b @ d # c"
  using join_split_on [of d s] by simp

lemma match_semver_text:
  assumes "match_semver v = Some s"
  obtains a b c pre build where "chop_newline v = a @ ''.'' @ b @ ''.'' @ c @ pre @ build"
    and "core_number a" and "core_number b" and "core_number c"
    and "pre = [] \<or> (\<exists>p. pre = CHR ''-'' # p \<and> suffix_text p)"
    and "build = [] \<or> (\<exists>p. build = CHR ''+'' # p \<and> suffix_text p)"
    and "s = SemVer (nat_of_digits a) (nat_of_digits b) (nat_of_digits c)
               (if pre = [] then [] else map prerelease_part (split_on (CHR ''.'') (tl pre)))"
proof -
  obtain h hb bd where h: "partition_on (CHR ''+'') (chop_newline v) = (h, hb, bd)"
    by (metis prod_cases3)
  obtain co hp pr where c: "partition_on (CHR ''-'') h = (co, hp, pr)" by (metis prod_cases3)
  from assms h c obtain a b c' where
    x: "hb \<longrightarrow> suffix_text bd" "hp \<longrightarrow> suffix_text pr" "split_on (CHR ''.'') co = [a, b, c']"
      "core_number a" "core_number b" "core_number c'"
      "s = SemVer (nat_of_digits a) (nat_of_digits b) (nat_of_digits c')
             (if hp then map prerelease_part (split_on (CHR ''.'') pr) else [])"
    by (auto simp: match_semver_def split: if_splits list.splits)
  have "chop_newline v = co @ (if hp then CHR ''-'' # pr else []) @ (if hb then CHR ''+'' # bd else [])"
    using partition_on_eq [OF h] partition_on_eq [OF c] by simp
  moreover have "co = a @ ''.'' @ b @ ''.'' @ c'" using split_on_three [OF x(3)] by simp
  ultimately show thesis
    using x that [of a b c' "if hp then CHR ''-'' # pr else []" "if hb then CHR ''+'' # bd else []"]
    by auto
qed

lemma match_semver_chars:
  assumes "match_semver v = Some s"
  shows "chop_newline v \<noteq> [] \<and> is_digit (hd (chop_newline v)) \<and> (\<forall>c \<in> set (chop_newline v). version_char c)"
  using assms
proof (rule match_semver_text)
  fix a b c pre build
  assume t: "chop_newline v = a @ ''.'' @ b @ ''.'' @ c @ pre @ build"
    and n: "core_number a" "core_number b" "core_number c"
    and p: "pre = [] \<or> (\<exists>p. pre = CHR ''-'' # p \<and> suffix_text p)"
    and q: "build = [] \<or> (\<exists>p. build = CHR ''+'' # p \<and> suffix_text p)"
  note num = core_number_chars [OF n(1)] core_number_chars [OF n(2)] core_number_chars [OF n(3)]
  have "version_char x" if "x \<in> set pre \<union> set build" for x
    using that p q by (auto simp: version_char_def suffix_text_def list_all_iff)
  then have "\<forall>c \<in> set (chop_newline v). version_char c"
    using num unfolding t by (auto simp: version_char_def)
  moreover have "is_digit (hd (chop_newline v))" using num unfolding t by (cases a) auto
  moreover have "chop_newline v \<noteq> []" unfolding t by simp
  ultimately show ?thesis by blast
qed

lemma chop_newline_word: "word_text w \<Longrightarrow> chop_newline w = w"
  by (cases w rule: rev_cases)
     (auto simp: chop_newline_def word_text_def is_space_def code_def Let_def)

section \<open>Printed bounds\<close>

lemma digits_of_core: "core_number (digits_of n)"
proof (induction n rule: digits_of.induct)
  case (1 n)
  show ?case
  proof (cases "n < 10")
    case True
    then show ?thesis
      by (subst digits_of.simps)
         (use digit_char_props [OF True] in
           \<open>auto simp: core_number_def all_digits_def digit_char_def\<close>)
  next
    case False
    then have "core_number (digits_of (n div 10))" by (rule "1.IH")
    moreover have "digits_of (n div 10) \<noteq> ''0''"
      using digits_of_inverse [of "n div 10"] False
      by (auto simp: nat_of_digits_def digit_value_def code_def)
    ultimately show ?thesis
      using False by (subst digits_of.simps)
        (auto simp: core_number_def all_digits_def digit_char_props)
  qed
qed

lemma partition_on_absent: "d \<notin> set s \<Longrightarrow> partition_on d s = (s, False, [])"
  by (induction s) (auto simp: partition_on_def Let_def)

lemma split_on_absent: "d \<notin> set s \<Longrightarrow> split_on d s = [s]"
  by (induction s) auto

lemma split_on_append: "d \<notin> set a \<Longrightarrow> split_on d (a @ d # s) = a # split_on d s"
  by (induction a) auto

lemma digit_not: "is_digit c \<Longrightarrow> c \<noteq> CHR ''.'' \<and> c \<noteq> CHR ''+'' \<and> c \<noteq> CHR ''-'' \<and> c \<noteq> CHR 0x0A"
  by (auto simp: is_digit_def code_def)

lemma digits_of_chars: "c \<in> set (digits_of n) \<Longrightarrow> is_digit c"
  using digits_of_digits by blast

lemma parse_dotted: "parse_semver (dotted a b c) = Inr (SemVer a b c [])"
proof -
  have chars: "x \<in> set (dotted a b c) \<Longrightarrow> is_digit x \<or> x = CHR ''.''" for x
    by (auto simp: dotted_def digits_of_chars)
  have "last (dotted a b c) = last (digits_of c)" by (simp add: dotted_def)
  then have "is_digit (last (dotted a b c))" using digits_of_chars [of "last (digits_of c)" c] by simp
  then have c: "chop_newline (dotted a b c) = dotted a b c"
    using digit_not by (auto simp: chop_newline_def)
  have "CHR ''+'' \<notin> set (dotted a b c)" "CHR ''-'' \<notin> set (dotted a b c)"
    using chars digit_not by fastforce+
  moreover have "split_on (CHR ''.'') (dotted a b c) = [digits_of a, digits_of b, digits_of c]"
  proof -
    have "CHR ''.'' \<notin> set (digits_of n)" for n using digits_of_chars digit_not by blast
    then show ?thesis by (simp add: dotted_def split_on_append split_on_absent)
  qed
  ultimately show ?thesis
    by (simp add: parse_semver_def match_semver_def c partition_on_absent digits_of_core
          digits_of_inverse or_raise_def)
qed

lemma comparator_version_shape:
  assumes "all_digits a" and "all_digits b" and "all_digits c" and "r = [] \<or> \<not> is_digit (hd r)"
  shows "comparator_version (a @ ''.'' @ b @ ''.'' @ c @ r) \<longleftrightarrow> r = [] \<or> comparator_suffix r"
proof -
  have dot: "\<not> is_digit (CHR ''.'')" by (simp add: is_digit_def code_def)
  have t: "takeWhile is_digit (x @ y) = x \<and> dropWhile is_digit (x @ y) = y"
    if "all_digits x" "y = [] \<or> \<not> is_digit (hd y)" for x y
    using that
    by (cases y)
       (auto simp: all_digits_def list_all_iff takeWhile_append dropWhile_append takeWhile_eq_all_conv)
  have "a \<noteq> []" "b \<noteq> []" "c \<noteq> []" using assms by (auto simp: all_digits_def)
  then show ?thesis
    using t [OF assms(1), of "''.'' @ b @ ''.'' @ c @ r"] t [OF assms(2), of "''.'' @ c @ r"]
      t [OF assms(3,4)] dot
    by (simp only: comparator_version_def Let_def append_Cons append_Nil list.sel) simp
qed

lemma core_all_digits: "core_number a \<Longrightarrow> all_digits a"
  by (simp add: core_number_def)

lemma comparator_version_dotted: "comparator_version (dotted a b c)"
  using comparator_version_shape [of "digits_of a" "digits_of b" "digits_of c" "[]"]
  by (simp add: dotted_def core_all_digits digits_of_core)

lemma version_word:
  assumes "parse_semver v = Inr s" and "word_text v"
  shows "is_digit (hd v)" and "\<forall>c \<in> set v. version_char c"
  using match_semver_chars [of v s] assms chop_newline_word [of v]
  by (auto simp: parse_semver_def)

lemma dotted_word: "word_text (dotted a b c)"
proof -
  have "\<not> is_space (CHR ''.'')" by (simp add: is_space_def code_def)
  moreover have "is_digit x \<Longrightarrow> \<not> is_space x" for x by (auto simp: is_digit_def is_space_def Let_def)
  ultimately show ?thesis
    using digits_of_chars by (auto simp: word_text_def dotted_def list_all_iff)
qed

section \<open>Satisfaction\<close>

definition bound_holds :: "comparator \<Rightarrow> semver \<Rightarrow> semver \<Rightarrow> bool" where
  "bound_holds op v b =
     (case op of OpEq \<Rightarrow> v = b | OpGt \<Rightarrow> v > b | OpGe \<Rightarrow> v \<ge> b | OpLt \<Rightarrow> v < b | OpLe \<Rightarrow> v \<le> b)"

definition version_of :: "string \<Rightarrow> semver" where
  "version_of b = the (match_semver b)"

lemma parse_semver_Inr: "parse_semver b = Inr s \<longleftrightarrow> match_semver b = Some s"
  by (simp add: parse_semver_def)

lemma comparison_bound: "comparison_holds op (order_sign v b) = bound_holds op v b"
  by (cases op) (simp_all add: order_sign_holds bound_holds_def)

lemma compare_versions_Inr:
  "parse_semver l = Inr a \<Longrightarrow> parse_semver r = Inr b \<Longrightarrow> compare_versions l r = Inr (order_sign a b)"
  by (simp add: compare_versions_def compare_semvers_order)

lemma satisfies_all_bounds:
  assumes "parse_semver v = Inr s" and "\<forall>(op, b) \<in> set cs. match_semver b \<noteq> None"
  shows "satisfies_all v cs = Inr (list_all (\<lambda>(op, b). bound_holds op s (version_of b)) cs)"
  using assms(2)
proof (induction cs)
  case (Cons c cs)
  obtain op b where c: "c = (op, b)" by (cases c)
  obtain t where t: "match_semver b = Some t" using Cons.prems c by auto
  with Cons assms(1) show ?case
    by (simp add: c compare_versions_Inr parse_semver_Inr comparison_bound version_of_def)
qed simp

lemma parse_token_bounds:
  "parse_token t = Inr cs \<Longrightarrow> (op, b) \<in> set cs \<Longrightarrow> match_semver b \<noteq> None"
  by (auto simp: parse_token_def res_simps parse_semver_Inr caret_upper_bound_def tilde_upper_bound_def
        parse_dotted [unfolded parse_semver_Inr] Let_def split: if_splits prod.splits)

lemma parse_constraint_tokens:
  assumes "parse_constraint_expression e = Inr cs"
  obtains ts xs where "map parse_token ts = map Inr xs" and "cs = concat xs"
    and "\<forall>t \<in> set ts. word_text t \<and> CHR '','' \<notin> set t"
proof (cases "cs = []")
  case True
  then show thesis using that [of "[]" "[]"] by simp
next
  case False
  define expr where "expr = strip (str_or (case e of None \<Rightarrow> [] | Some e \<Rightarrow> e) ''*'')"
  define ts where "ts = words (replace_char (CHR '','') (CHR '' '') expr)"
  from assms False obtain xs where "map_res parse_token ts = Inr xs" "cs = concat xs"
    by (auto simp: parse_constraint_expression_def Let_def res_simps simp flip: expr_def ts_def
          split: if_splits)
  moreover have "word_text t \<and> CHR '','' \<notin> set t" if "t \<in> set ts" for t
    using words_word_text [of t "replace_char (CHR '','') (CHR '' '') expr"] that
    by (auto simp: ts_def replace_char_def split: if_splits)
  ultimately show thesis using that [of ts xs] by (simp add: map_res_Inr)
qed

lemma parse_constraint_bounds:
  assumes "parse_constraint_expression e = Inr cs"
  shows "\<forall>(op, b) \<in> set cs. match_semver b \<noteq> None"
proof -
  from parse_constraint_tokens [OF assms] obtain ts xs where
    m: "map parse_token ts = map Inr xs" and cs: "cs = concat xs" by metis
  have "match_semver b \<noteq> None" if b: "(op, b) \<in> set cs" for op b
  proof -
    from b obtain x where x: "x \<in> set xs" "(op, b) \<in> set x" by (auto simp: cs)
    from x(1) have "Inr x \<in> set (map parse_token ts)" unfolding m by simp
    then obtain t where "parse_token t = Inr x" by auto
    from parse_token_bounds [OF this x(2)] show ?thesis .
  qed
  then show ?thesis by blast
qed

text \<open>C21. \<open>version_satisfies\<close> is membership in the set the expression denotes: a malformed
  expression raises, the empty one admits every text, and otherwise the version must parse and
  satisfy every bound in the linear order of semantic versions.\<close>

theorem version_satisfies_correct:
  "version_satisfies v e =
     (case parse_constraint_expression e of
        Inl x \<Rightarrow> Inl x
      | Inr cs \<Rightarrow>
          if cs = [] then Inr True
          else rbind (parse_semver v) (\<lambda>s.
                 Inr (list_all (\<lambda>(op, b). bound_holds op s (version_of b)) cs)))"
proof (cases "parse_constraint_expression e")
  case (Inr cs)
  note b = parse_constraint_bounds [OF Inr]
  show ?thesis
  proof (cases "parse_semver v")
    case (Inl x)
    with \<open>parse_constraint_expression e = Inr cs\<close> show ?thesis
      by (cases cs) (auto simp: version_satisfies_def compare_versions_def)
  next
    case (Inr s)
    with \<open>parse_constraint_expression e = Inr cs\<close> satisfies_all_bounds [OF Inr b] show ?thesis
      by (simp add: version_satisfies_def)
  qed
qed (simp add: version_satisfies_def)

text \<open>C22. The comparison of versions is the order of semantic versioning: it raises exactly when
  one of the texts is malformed, and otherwise is the sign of the linear order in which the
  numbers of the core come first, a version without a prerelease follows those with one, and
  prerelease parts compare numbers before texts and a prefix before its extensions.\<close>

theorem compare_versions_order:
  "compare_versions l r =
     rbind (parse_semver l) (\<lambda>a. rbind (parse_semver r) (\<lambda>b.
       Inr (if semver_key a < semver_key b then -1 else if semver_key a = semver_key b then 0 else 1)))"
  by (simp only: compare_versions_def compare_semvers_order order_sign_def less_semver_def semver_key_eq)

section \<open>Caret and tilde ranges\<close>

lemma parse_constraint_words:
  assumes "\<forall>t \<in> set ts. word_text t \<and> CHR '','' \<notin> set t" and "ts \<noteq> []" and "ts \<noteq> [''*'']"
  shows "parse_constraint_expression (Some (join '' '' ts)) =
           rbind (map_res parse_token ts) (\<lambda>xs. Inr (concat xs))"
proof -
  have w: "words (join '' '' ts) = ts" using assms(1) by (intro words_join) blast
  have ends: "join '' '' us \<noteq> [] \<and> \<not> is_space (hd (join '' '' us)) \<and> \<not> is_space (last (join '' '' us))"
    if "us \<noteq> []" "\<forall>t \<in> set us. word_text t" for us
    using that
  proof (induction us rule: induct_list012)
    case (2 u)
    then show ?case by (auto simp: word_text_def list_all_iff)
  next
    case (3 u v us)
    then show ?case by (cases u) (auto simp: word_text_def list_all_iff)
  qed simp
  have s: "strip (join '' '' ts) = join '' '' ts"
    using ends [of ts] assms(1,2) by (intro strip_id) auto
  have "CHR '','' \<notin> set (join '' '' ts)"
    using assms(1) by (induction ts rule: induct_list012) auto
  then have r: "replace_char (CHR '','') (CHR '' '') (join '' '' ts) = join '' '' ts"
    by (rule replace_char_id)
  have "join '' '' ts \<noteq> ''*''"
    using w assms(3) by (auto simp: is_space_def code_def)
  moreover have "join '' '' ts \<noteq> []" using ends [of ts] assms(1,2) by blast
  ultimately show ?thesis
    by (simp add: parse_constraint_expression_def str_or_def s r w)
qed

lemma range_text:
  assumes "parse_semver b = Inr B" and "word_text b" and "\<not> is_space c" and "c \<noteq> CHR '',''"
  shows "word_text (c # b) \<and> CHR '','' \<notin> set (c # b) \<and> c # b \<noteq> ''*''"
  using version_word [OF assms(1,2)] assms version_char_not by (auto simp: word_text_def)

text \<open>The first version a caret range leaves out.\<close>

definition caret_limit :: "semver \<Rightarrow> semver" where
  "caret_limit B =
     (if major B > 0 then SemVer (major B + 1) 0 0 []
      else if minor B > 0 then SemVer 0 (minor B + 1) 0 []
      else SemVer 0 0 (patch B + 1) [])"

lemma caret_comparators:
  assumes "parse_semver b = Inr B" and "word_text b"
  shows "\<exists>u. parse_constraint_expression (Some (''^'' @ b)) = Inr [(OpGe, b), (OpLt, u)] \<and>
             parse_semver u = Inr (caret_limit B)"
proof -
  have "\<not> is_space (CHR ''^'')" by (simp add: is_space_def code_def)
  with range_text [OF assms, of "CHR ''^''"]
  have "parse_constraint_expression (Some (''^'' @ b)) = rbind (parse_token (''^'' @ b)) Inr"
    using parse_constraint_words [of "[''^'' @ b]"] by (cases "parse_token (''^'' @ b)") simp_all
  then show ?thesis
    using assms(1) by (auto simp: parse_token_def starts_with_def caret_upper_bound_def Let_def
        parse_dotted caret_limit_def)
qed

lemma tilde_comparators:
  assumes "parse_semver b = Inr B" and "word_text b"
  shows "\<exists>u. parse_constraint_expression (Some (''~'' @ b)) = Inr [(OpGe, b), (OpLt, u)] \<and>
             parse_semver u = Inr (SemVer (major B) (minor B + 1) 0 [])"
proof -
  have "\<not> is_space (CHR ''~'')" by (simp add: is_space_def code_def)
  with range_text [OF assms, of "CHR ''~''"]
  have "parse_constraint_expression (Some (''~'' @ b)) = rbind (parse_token (''~'' @ b)) Inr"
    using parse_constraint_words [of "[''~'' @ b]"] by (cases "parse_token (''~'' @ b)") simp_all
  then show ?thesis
    using assms(1) by (auto simp: parse_token_def starts_with_def tilde_upper_bound_def Let_def parse_dotted)
qed

text \<open>The versions a caret range means: those with the same leading non-zero number.\<close>

definition same_line :: "semver \<Rightarrow> semver \<Rightarrow> bool" where
  "same_line B V \<longleftrightarrow>
     major V = major B \<and>
     (major B = 0 \<longrightarrow> minor V = minor B \<and> (minor B = 0 \<longrightarrow> patch V = patch B))"

definition core :: "semver \<Rightarrow> nat \<times> nat \<times> nat" where
  "core V = (major V, minor V, patch V)"

lemma below_caret_limit:
  assumes "B \<le> V"
  shows "V < caret_limit B \<longleftrightarrow> same_line B V \<or> core V = core (caret_limit B) \<and> prerelease V \<noteq> []"
  using assms
  by (auto simp: less_eq_semver_def less_semver_def semver_key_def caret_limit_def same_line_def core_def
        less_bool_def)

text \<open>C24. A caret range admits the versions from its base on that keep the leading non-zero
  number, as it means to, and besides them the prereleases of the first version it excludes:
  \<open>^1.2.3\<close> admits \<open>2.0.0-rc.1\<close>.\<close>

theorem caret_range_exact:
  assumes "parse_semver b = Inr B" and "word_text b" and "parse_semver v = Inr V"
  shows "version_satisfies v (Some (''^'' @ b)) =
           Inr (B \<le> V \<and> (same_line B V \<or> core V = core (caret_limit B) \<and> prerelease V \<noteq> []))"
proof -
  from caret_comparators [OF assms(1,2)] obtain u where
    u: "parse_constraint_expression (Some (''^'' @ b)) = Inr [(OpGe, b), (OpLt, u)]"
       "parse_semver u = Inr (caret_limit B)" by blast
  then have "version_satisfies v (Some (''^'' @ b)) = Inr (B \<le> V \<and> V < caret_limit B)"
    using satisfies_all_bounds [OF assms(3), of "[(OpGe, b), (OpLt, u)]"] assms(1)
    by (simp add: version_satisfies_def bound_holds_def version_of_def parse_semver_Inr)
  then show ?thesis by (auto simp: below_caret_limit)
qed

lemma caret_range_exact_witness:
  "version_satisfies ''2.0.0-rc.1'' (Some ''^1.2.3'') = Inr True"
proof -
  have "parse_semver ''1.2.3'' = Inr (SemVer 1 2 3 [])" "word_text ''1.2.3''"
    "parse_semver ''2.0.0-rc.1'' = Inr (SemVer 2 0 0 [PreText ''rc'', PreNum 1])"
    by code_simp+
  from caret_range_exact [OF this] show ?thesis
    by (simp add: same_line_def core_def caret_limit_def less_eq_semver_def semver_key_def)
qed

section \<open>Canonical constraints\<close>

lemma comparator_token:
  assumes "word_text v" and "is_digit (hd v)"
  shows "match_comparator (operator_text op @ v) = (if comparator_version v then Some (op, v) else None)"
proof -
  obtain c w where v: "v = c # w" using assms(1) by (cases v) (auto simp: word_text_def)
  have "c \<noteq> CHR ''<'' \<and> c \<noteq> CHR ''>'' \<and> c \<noteq> CHR ''=''"
    using assms(2) v by (auto simp: is_digit_def code_def)
  then show ?thesis
    by (cases op) (auto simp: match_comparator_def operator_text_def starts_with_def v)
qed

lemma operator_token:
  assumes "parse_semver v = Inr s" and "word_text v"
  shows "word_text (operator_text op @ v) \<and> CHR '','' \<notin> set (operator_text op @ v)"
    and "parse_token (operator_text op @ v) =
           (if comparator_version v then Inr [(op, v)]
            else Inl (VersionError (''invalid version constraint token: '' @ py_repr (operator_text op @ v))))"
proof -
  note v = version_word [OF assms]
  have chars: "\<forall>c \<in> set (operator_text op). \<not> is_space c \<and> c \<noteq> CHR '',''"
    by (cases op) (auto simp: operator_text_def is_space_def code_def)
  show "word_text (operator_text op @ v) \<and> CHR '','' \<notin> set (operator_text op @ v)"
    using chars assms(2) v(2) version_char_not by (auto simp: word_text_def list_all_iff)
  obtain d w where d: "v = d # w" "is_digit d"
    using v(1) assms(2) by (cases v) (auto simp: word_text_def)
  have "d \<noteq> CHR ''^'' \<and> d \<noteq> CHR ''~'' \<and> d \<noteq> CHR ''*''"
    using d(2) by (auto simp: is_digit_def code_def)
  then have "operator_text op @ v \<noteq> ''*''" "\<not> starts_with ''^'' (operator_text op @ v)"
    "\<not> starts_with ''~'' (operator_text op @ v)"
    by (cases op; auto simp: operator_text_def starts_with_def d(1))+
  then show "parse_token (operator_text op @ v) =
           (if comparator_version v then Inr [(op, v)]
            else Inl (VersionError (''invalid version constraint token: '' @ py_repr (operator_text op @ v))))"
    using comparator_token [OF assms(2) v(1)] assms(1) by (simp add: parse_token_def or_raise_def)
qed

lemma match_comparator_drop: "match_comparator t = Some (op, v) \<Longrightarrow> \<exists>n. v = drop n t"
  by (auto simp: match_comparator_def Let_def split: if_splits intro: exI [of _ 0])

lemma parse_token_words:
  assumes "word_text t" and "parse_token t = Inr cs" and "(op, b) \<in> set cs"
  shows "word_text b"
proof -
  have ne: "x \<noteq> []" if "parse_semver x = Inr s" for x s
    using that match_semver_chars [of x s] by (auto simp: parse_semver_Inr chop_newline_def)
  have sub: "word_text (drop n t)" if "parse_semver (drop n t) = Inr s" for n s
    using assms(1) ne [OF that] by (auto simp: word_text_def list_all_iff dest: in_set_dropD)
  have tl: "tl t = drop 1 t" by (simp add: drop_Suc)
  from assms(2,3) consider n s where "b = drop n t" "parse_semver b = Inr s" | x y z where "b = dotted x y z"
    by (auto simp: parse_token_def res_simps caret_upper_bound_def tilde_upper_bound_def Let_def tl
          split: if_splits prod.splits dest: match_comparator_drop)
  then show ?thesis
    by cases (auto simp: dotted_word intro: sub)
qed

lemma parse_constraint_word_texts:
  assumes "parse_constraint_expression e = Inr cs" and "(op, b) \<in> set cs"
  shows "word_text b"
proof -
  from parse_constraint_tokens [OF assms(1)] obtain ts xs where
    m: "map parse_token ts = map Inr xs" and cs: "cs = concat xs" and w: "\<forall>t \<in> set ts. word_text t"
    by metis
  from assms(2) obtain x where x: "x \<in> set xs" "(op, b) \<in> set x" by (auto simp: cs)
  from x(1) have "Inr x \<in> set (map parse_token ts)" unfolding m by simp
  then obtain t where "parse_token t = Inr x" "t \<in> set ts" by auto
  with parse_token_words [of t x op b] w x(2) show ?thesis by blast
qed

lemma canonicalize_parse:
  "canonicalize_constraint e = rbind (parse_constraint_expression e) (\<lambda>cs. Inr (str_or (comparators_text cs) ''*''))"
proof -
  have "strip ''*'' = ''*''" by code_simp
  then have "parse_constraint_expression (Some (strip (str_or x ''*''))) = parse_constraint_expression (Some x)" for x
    by (simp add: parse_constraint_expression_def str_or_def Let_def)
  moreover have "parse_constraint_expression (Some []) = parse_constraint_expression None"
    by (simp add: parse_constraint_expression_def)
  ultimately show ?thesis
    by (cases e) (simp_all add: canonicalize_constraint_def)
qed

lemma map_res_operator_tokens:
  assumes "\<forall>(op, b) \<in> set cs. word_text b \<and> match_semver b \<noteq> None"
  shows "if list_all (\<lambda>(op, b). comparator_version b) cs
         then map_res parse_token (map (\<lambda>(op, b). operator_text op @ b) cs) = Inr (map (\<lambda>x. [x]) cs)
         else \<exists>m. map_res parse_token (map (\<lambda>(op, b). operator_text op @ b) cs) = Inl (VersionError m)"
  using assms
proof (induction cs)
  case (Cons c cs)
  obtain op b where c: "c = (op, b)" by (cases c)
  with Cons.prems obtain s where "parse_semver b = Inr s" "word_text b" by (auto simp: parse_semver_Inr)
  note t = operator_token(2) [OF this, of op]
  from Cons show ?case by (cases "comparator_version b") (auto simp: c t split: if_splits)
qed simp



end
