(* ===== verification/Ordering.thy ===== *)
theory Ordering
  imports SemVer "HOL-Library.Multiset"
begin

text \<open>
  Python's \<open>sorted(xs, key=cmp_to_key(cmp))\<close>: a stable sort by a comparison function that
  may raise.  The laws a comparison must keep for the result to be sorted are a locale; the
  comparisons of the client are built from keys by reversal and lexicographic composition,
  which keep the laws.
\<close>

section \<open>Sorting by a comparison\<close>

fun insert_by :: "('a \<Rightarrow> 'a \<Rightarrow> int) \<Rightarrow> 'a \<Rightarrow> 'a list \<Rightarrow> 'a list" where
  "insert_by cmp x [] = [x]"
| "insert_by cmp x (y # ys) = (if cmp x y \<le> 0 then x # y # ys else y # insert_by cmp x ys)"

definition sort_by :: "('a \<Rightarrow> 'a \<Rightarrow> int) \<Rightarrow> 'a list \<Rightarrow> 'a list" where
  "sort_by cmp xs = foldr (insert_by cmp) xs []"

text \<open>
  A comparison that raises on some pair of the list raises out of the sort: the client's
  comparisons only raise on a version that does not parse, once all earlier keys are equal,
  and no sort can place such an element among the others of its group without comparing it
  with one of them.  The exception reported is that of the first such pair in the list.
\<close>

fun first_error :: "('a \<Rightarrow> 'e + 'b) \<Rightarrow> 'a list \<Rightarrow> 'e option" where
  "first_error f [] = None"
| "first_error f (x # xs) = (case f x of Inl e \<Rightarrow> Some e | Inr _ \<Rightarrow> first_error f xs)"

fun sort_error :: "('a \<Rightarrow> 'a \<Rightarrow> 'e + int) \<Rightarrow> 'a list \<Rightarrow> 'e option" where
  "sort_error cmp [] = None"
| "sort_error cmp (x # xs) =
     (case first_error (cmp x) xs of Some e \<Rightarrow> Some e | None \<Rightarrow> sort_error cmp xs)"

definition sorted_by :: "('a \<Rightarrow> 'a \<Rightarrow> 'e + int) \<Rightarrow> 'a list \<Rightarrow> 'e + 'a list" where
  "sorted_by cmp xs =
     (case sort_error cmp xs of
        Some e \<Rightarrow> Inl e
      | None \<Rightarrow> Inr (sort_by (\<lambda>x y. case cmp x y of Inr c \<Rightarrow> c | Inl _ \<Rightarrow> 0) xs))"

lemma mset_insert_by [simp]: "mset (insert_by cmp x xs) = add_mset x (mset xs)"
  by (induction xs) simp_all

lemma mset_sort_by [simp]: "mset (sort_by cmp xs) = mset xs"
  by (induction xs) (simp_all add: sort_by_def)

lemma set_sort_by [simp]: "set (sort_by cmp xs) = set xs"
  by (metis mset_sort_by set_mset_mset)

lemma sort_by_Cons [simp]: "sort_by cmp (x # xs) = insert_by cmp x (sort_by cmp xs)"
  by (simp add: sort_by_def)

lemma sort_by_Nil [simp]: "sort_by cmp [] = []"
  by (simp add: sort_by_def)

lemma sorted_by_set: "sorted_by cmp xs = Inr ys \<Longrightarrow> set ys = set xs \<and> length ys = length xs"
  by (auto simp: sorted_by_def split: option.splits) (metis mset_sort_by size_mset)

lemma sort_error_None: "(\<And>x y. x \<in> set xs \<Longrightarrow> y \<in> set xs \<Longrightarrow> \<exists>c. cmp x y = Inr c) \<Longrightarrow> sort_error cmp xs = None"
proof (induction xs)
  case (Cons x xs)
  have "first_error (cmp x) ys = None" if "set ys \<subseteq> set xs" for ys
    using that by (induction ys) (use Cons.prems [of x] in \<open>fastforce split: sum.splits\<close>)+
  with Cons show ?case by simp
qed simp

section \<open>Laws of a comparison\<close>

locale comparison =
  fixes cmp :: "'a \<Rightarrow> 'a \<Rightarrow> int"
  assumes swap: "sgn (cmp y x) = - sgn (cmp x y)"
    and trans: "cmp x y \<le> 0 \<Longrightarrow> cmp y z \<le> 0 \<Longrightarrow> cmp x z \<le> 0"
begin

lemma refl [simp]: "cmp x x = 0"
  using swap [of x x] by (simp add: sgn_if split: if_splits)

lemma swap_le: "cmp y x \<le> 0 \<longleftrightarrow> 0 \<le> cmp x y"
  using swap [of x y] by (auto simp: sgn_if split: if_splits)

lemma total: "cmp x y \<le> 0 \<or> cmp y x \<le> 0"
  using swap_le by force

lemma swap_zero: "cmp y x = 0 \<longleftrightarrow> cmp x y = 0"
  using swap [of x y] by (auto simp: sgn_if split: if_splits)

lemma zero_le: "cmp x y = 0 \<Longrightarrow> (cmp x z \<le> 0 \<longleftrightarrow> cmp y z \<le> 0) \<and> (cmp z x \<le> 0 \<longleftrightarrow> cmp z y \<le> 0)"
  using trans [of x y z] trans [of y x z] trans [of z x y] trans [of z y x] swap_zero [of x y] by auto

lemma insert_by_sorted:
  "sorted_wrt (\<lambda>x y. cmp x y \<le> 0) ys \<Longrightarrow> sorted_wrt (\<lambda>x y. cmp x y \<le> 0) (insert_by cmp x ys)"
proof (induction ys)
  case (Cons y ys)
  have mem: "set (insert_by cmp x ys) = insert x (set ys)"
    by (metis mset_insert_by set_mset_add_mset_insert set_mset_mset)
  from Cons show ?case
    using trans [of x y] total [of x y] by (auto simp: mem)
qed simp

lemma sort_by_sorted: "sorted_wrt (\<lambda>x y. cmp x y \<le> 0) (sort_by cmp xs)"
  by (induction xs) (simp_all add: insert_by_sorted)

lemma insert_by_stable:
  "sorted_wrt (\<lambda>x y. cmp x y \<le> 0) ys \<Longrightarrow>
   filter (\<lambda>y. cmp a y = 0) (insert_by cmp x ys) = filter (\<lambda>y. cmp a y = 0) (x # ys)"
proof (induction ys)
  case (Cons y ys)
  show ?case
  proof (cases "cmp x y \<le> 0")
    case False
    then have "\<not> (cmp a x = 0 \<and> cmp a y = 0)"
      using zero_le [of a x y] by auto
    with Cons False show ?thesis by auto
  qed simp
qed simp

text \<open>Equal elements keep their order.\<close>

lemma sort_by_stable: "filter (\<lambda>y. cmp a y = 0) (sort_by cmp xs) = filter (\<lambda>y. cmp a y = 0) xs"
proof (induction xs)
  case (Cons x xs)
  with insert_by_stable [OF sort_by_sorted, of a x xs] show ?case by simp
qed simp

lemma sort_by_head:
  "xs \<noteq> [] \<Longrightarrow> y \<in> set xs \<Longrightarrow> cmp (hd (sort_by cmp xs)) y \<le> 0"
  using sort_by_sorted [of xs] set_sort_by [of cmp xs]
  by (cases "sort_by cmp xs") (auto simp flip: set_sort_by [of cmp xs])

end

definition key_cmp :: "('a \<Rightarrow> 'b::linorder) \<Rightarrow> 'a \<Rightarrow> 'a \<Rightarrow> int" where
  "key_cmp f x y = order_sign (f x) (f y)"

definition rev_cmp :: "('a \<Rightarrow> 'a \<Rightarrow> int) \<Rightarrow> 'a \<Rightarrow> 'a \<Rightarrow> int" where
  "rev_cmp cmp x y = cmp y x"

definition lex_cmp :: "('a \<Rightarrow> 'a \<Rightarrow> int) \<Rightarrow> ('a \<Rightarrow> 'a \<Rightarrow> int) \<Rightarrow> 'a \<Rightarrow> 'a \<Rightarrow> int" where
  "lex_cmp c d x y = (if c x y \<noteq> 0 then c x y else d x y)"

lemma key_cmp_le: "key_cmp f x y \<le> 0 \<longleftrightarrow> f x \<le> f y"
  by (cases "f x" "f y" rule: linorder_cases) (auto simp: key_cmp_def order_sign_def)

lemma comparison_key: "comparison (key_cmp f)"
proof
  fix x y z
  show "sgn (key_cmp f y x) = - sgn (key_cmp f x y)"
    by (cases "f x" "f y" rule: linorder_cases) (auto simp: key_cmp_def order_sign_def)
  show "key_cmp f x y \<le> 0 \<Longrightarrow> key_cmp f y z \<le> 0 \<Longrightarrow> key_cmp f x z \<le> 0"
    by (simp add: key_cmp_le)
qed

lemma comparison_rev:
  assumes "comparison c"
  shows "comparison (rev_cmp c)"
proof
  fix x y z
  show "sgn (rev_cmp c y x) = - sgn (rev_cmp c x y)"
    unfolding rev_cmp_def by (rule comparison.swap [OF assms])
  show "rev_cmp c x y \<le> 0 \<Longrightarrow> rev_cmp c y z \<le> 0 \<Longrightarrow> rev_cmp c x z \<le> 0"
    unfolding rev_cmp_def by (rule comparison.trans [OF assms])
qed

lemma comparison_lex:
  assumes "comparison c" and "comparison d"
  shows "comparison (lex_cmp c d)"
proof
  fix x y z
  show "sgn (lex_cmp c d y x) = - sgn (lex_cmp c d x y)"
    using comparison.swap [OF assms(1), of y x] comparison.swap [OF assms(2), of y x]
      comparison.swap_zero [OF assms(1), of x y]
    by (simp add: lex_cmp_def)
  assume xy: "lex_cmp c d x y \<le> 0" and yz: "lex_cmp c d y z \<le> 0"
  note le = comparison.trans [OF assms(1)] comparison.swap_le [OF assms(1)] comparison.zero_le [OF assms(1)]
  from xy yz have "c x y \<le> 0" "c y z \<le> 0" by (auto simp: lex_cmp_def split: if_splits)
  then have xz: "c x z \<le> 0" by (rule le(1))
  show "lex_cmp c d x z \<le> 0"
  proof (cases "c x z = 0")
    case True
    then have "c y z = 0" "c x y = 0"
      using \<open>c x y \<le> 0\<close> \<open>c y z \<le> 0\<close> le(1) [of y z x] le(1) [of z x y] le(2) comparison.swap_zero [OF assms(1), of x z]
      by (metis order_antisym order_refl)+
    with True xy yz comparison.trans [OF assms(2), of x y z] show ?thesis by (simp add: lex_cmp_def)
  qed (use xz in \<open>simp add: lex_cmp_def\<close>)
qed

lemmas comparison_intros = comparison_key comparison_rev comparison_lex

interpretation versions: comparison compare_semvers
proof -
  have *: "compare_semvers = key_cmp (\<lambda>v. v)" by (intro ext) (simp add: compare_semvers_order key_cmp_def)
  show "comparison compare_semvers" unfolding * by (rule comparison_key)
qed

end
