(* ===== verification/Dependencies.thy ===== *)
theory Dependencies
  imports Ordering PyJson "HOL-Library.AList"
begin

text \<open>
  What the install planner works on: dependency entries and their normalisation
  (\<open>install/source_resolution.py\<close>, \<open>policy/skill_identity.py\<close>), the candidates a
  registry offers, the catalog of candidates by identity and by name, and the order in which
  candidates are preferred (\<open>install/target_validation.py\<close>).  Python's dictionaries with a
  fixed set of keys are records; a key that may be absent or null is an \<open>option\<close>.
\<close>

section \<open>Python's idioms on optional texts\<close>

text \<open>\<open>a or b\<close>: an absent or empty text is false.\<close>

definition given :: "string option \<Rightarrow> bool" where
  "given a \<longleftrightarrow> a \<noteq> None \<and> a \<noteq> Some []"

definition opt_or :: "string option \<Rightarrow> string option \<Rightarrow> string option" where
  "opt_or a b = (if given a then a else b)"

definition text_or :: "string option \<Rightarrow> string \<Rightarrow> string" where
  "text_or a b = (case opt_or a (Some b) of Some t \<Rightarrow> t | None \<Rightarrow> b)"

definition show_opt :: "string option \<Rightarrow> string" where
  "show_opt a = (case a of None \<Rightarrow> ''None'' | Some t \<Rightarrow> t)"

text \<open>\<open>unique\<close> keeps the first occurrence of every value.\<close>

definition unique :: "'a list \<Rightarrow> 'a list" where
  "unique xs = rev (remdups (rev xs))"

section \<open>Skill identities\<close>

definition parse_requested_skill :: "string option \<Rightarrow> string option \<times> string option" where
  "parse_requested_skill value =
     (let text = strip (case value of None \<Rightarrow> [] | Some v \<Rightarrow> v) in
      if text = [] then (None, None)
      else if CHR ''/'' \<notin> set text then (None, Some text)
      else (let (publisher_part, _, name_part) = partition_on (CHR ''/'') text;
                opt = (\<lambda>t. if strip t = [] then None else Some (strip t))
            in (opt publisher_part, opt name_part)))"

definition derive_qualified_name :: "string option \<Rightarrow> string option \<Rightarrow> string option" where
  "derive_qualified_name name publisher =
     (case name of
        None \<Rightarrow> None
      | Some n \<Rightarrow>
          if strip n = [] then None
          else if given publisher then Some (the publisher @ ''/'' @ strip n)
          else Some (strip n))"

text \<open>\<open>^[a-z0-9]+(?:-[a-z0-9]+)*$\<close>; a \<open>$\<close> also matches before one newline at the end.\<close>

definition skill_name_text :: "string \<Rightarrow> bool" where
  "skill_name_text s =
     list_all (\<lambda>w. w \<noteq> [] \<and> list_all (\<lambda>c. is_digit c \<or> is_lower_ascii c) w)
       (split_on (CHR ''-'') (chop_newline s))"

text \<open>The fields of \<open>normalize_skill_identity\<close> the planner reads.\<close>

record skill_identity =
  idn_name :: "string option"
  idn_publisher :: "string option"
  idn_qualified :: "string option"
  idn_mode :: "string option"

definition stripped_text :: "json \<Rightarrow> string option" where
  "stripped_text v = (case v of JStr s \<Rightarrow> if strip s = [] then None else Some (strip s) | _ \<Rightarrow> None)"

definition normalize_skill_identity :: "(string \<times> json) list \<Rightarrow> skill_identity" where
  "normalize_skill_identity meta =
     (let name = stripped_text (jget meta ''name'');
          publisher = stripped_text (jget meta ''publisher'');
          qualified = (case stripped_text (jget meta ''qualified_name'') of
                         Some q \<Rightarrow> Some q
                       | None \<Rightarrow> derive_qualified_name name publisher)
      in \<lparr>idn_name = name, idn_publisher = publisher, idn_qualified = qualified,
          idn_mode = (if publisher \<noteq> None then Some ''qualified'' else None)\<rparr>)"

section \<open>Dependency entries\<close>

text \<open>An entry of \<open>depends_on\<close> or \<open>conflicts_with\<close>, and a requirement: one with its source.\<close>

record dependency =
  dep_name :: "string option"
  dep_publisher :: "string option"
  dep_qualified :: "string option"
  dep_identity :: "string option"
  dep_version :: "string option"
  dep_registry :: "string option"
  dep_incubating :: bool

record requirement = dependency +
  req_source_name :: "string option"
  req_source_qualified :: "string option"
  req_source_version :: "string option"
  req_source_registry :: "string option"

definition parse_dependency_identity :: "string \<Rightarrow> string \<Rightarrow> client_error + dependency" where
  "parse_dependency_identity value field =
     (let (publisher, name) = parse_requested_skill (Some value) in
      rbind (require (case publisher of None \<Rightarrow> True | Some p \<Rightarrow> skill_name_text p)
               (DependencyError (field @ '' entry has invalid publisher '' @
                  py_repr (case publisher of None \<Rightarrow> [] | Some p \<Rightarrow> p)))) (\<lambda>_.
      rbind (or_raise (case name of None \<Rightarrow> None | Some n \<Rightarrow> if skill_name_text n then Some n else None)
               (DependencyError (field @ '' entry has invalid name '' @ py_repr value))) (\<lambda>n.
      let qualified = (if given publisher then derive_qualified_name (Some n) publisher else None)
      in Inr \<lparr>dep_name = Some n, dep_publisher = publisher, dep_qualified = qualified,
              dep_identity = opt_or qualified (Some n), dep_version = None, dep_registry = None,
              dep_incubating = False\<rparr>)))"

text \<open>
  \<open>_normalize_entry\<close>.  A missing \<open>version\<close> is \<open>*\<close>, a missing \<open>allow_incubating\<close> is
  \<open>False\<close>; the two keys that only copy the input (\<open>format\<close>, \<open>raw\<close>) are left out.
\<close>

definition allowed_entry_keys :: "string list" where
  "allowed_entry_keys = [''name'', ''version'', ''registry'', ''allow_incubating'']"

definition jget_or :: "(string \<times> json) list \<Rightarrow> string \<Rightarrow> json \<Rightarrow> json" where
  "jget_or m k v = (case map_of m k of None \<Rightarrow> v | Some x \<Rightarrow> x)"

definition normalize_entry :: "json \<Rightarrow> string \<Rightarrow> string option \<Rightarrow> client_error + dependency" where
  "normalize_entry entry field owner_name =
     rbind (case entry of
              JStr _ \<Rightarrow> Inl (DependencyError (field @ '' entries must use object format''))
            | JObj m \<Rightarrow>
                (let unknown = sort (filter (\<lambda>k. k \<notin> set allowed_entry_keys) (map fst m)) in
                 rbind (require (unknown = [])
                   (DependencyError (field @ '' entry for '' @
                      py_str (if truthy (jget m ''name'') then jget m ''name'' else JStr ''<unknown>'') @
                      '' has unsupported keys: '' @ join '', '' unknown))) (\<lambda>_.
                 rbind (or_raise (jstr (jget m ''name''))
                   (DependencyError (field @ '' entry has invalid name '' @ py_repr_json (jget m ''name'')))) (\<lambda>name.
                 rbind (parse_dependency_identity name field) (\<lambda>idn.
                 let key = the (dep_identity idn) in
                 rbind (or_raise (jstr (jget_or m ''version'' (JStr ''*'')))
                   (DependencyError (field @ '' entry for '' @ key @ '' has non-string version constraint''))) (\<lambda>version.
                 rbind (require (case jget m ''registry'' of JNull \<Rightarrow> True | JStr r \<Rightarrow> strip r \<noteq> [] | _ \<Rightarrow> False)
                   (DependencyError (field @ '' entry for '' @ key @ '' has invalid registry hint '' @
                      py_repr_json (jget m ''registry'')))) (\<lambda>_.
                 rbind (or_raise (case jget_or m ''allow_incubating'' (JBool False) of JBool b \<Rightarrow> Some b | _ \<Rightarrow> None)
                   (DependencyError (field @ '' entry for '' @ key @ '' has non-boolean allow_incubating''))) (\<lambda>incubating.
                 rbind (canonicalize_constraint (Some version)) (\<lambda>canonical.
                   Inr (idn\<lparr>dep_version := Some canonical,
                            dep_registry := stripped_text (jget m ''registry''),
                            dep_incubating := incubating\<rparr>)))))))))
            | _ \<Rightarrow> Inl (DependencyError (field @ '' entries must be objects''))) (\<lambda>dep.
     if given owner_name \<and> dep_identity dep = owner_name
     then Inl (DependencyError (field @ '' cannot reference itself ('' @ show_opt (dep_identity dep) @ '')''))
     else Inr dep)"

definition identity_key_for :: "skill_identity \<Rightarrow> string option" where
  "identity_key_for i = opt_or (idn_qualified i) (idn_name i)"

definition meta_entries :: "(string \<times> json) list \<Rightarrow> string \<Rightarrow> client_error + json list" where
  "meta_entries meta field =
     (case json_or (jget meta field) (JList []) of
        JList xs \<Rightarrow> Inr xs
      | _ \<Rightarrow> Inl (DependencyError (field @ '' must be an array'')))"

definition normalize_meta_dependencies ::
    "(string \<times> json) list \<Rightarrow> string option \<Rightarrow> client_error + dependency list \<times> dependency list" where
  "normalize_meta_dependencies meta owner_name =
     (let owner = opt_or owner_name
                    (opt_or (identity_key_for (normalize_skill_identity meta)) (jstr (jget meta ''name'')))
      in rbind (meta_entries meta ''depends_on'') (\<lambda>xs.
         rbind (map_res (\<lambda>e. normalize_entry e ''depends_on'' owner) xs) (\<lambda>deps.
         rbind (meta_entries meta ''conflicts_with'') (\<lambda>ys.
         rbind (map_res (\<lambda>e. normalize_entry e ''conflicts_with'' owner) ys) (\<lambda>confs.
           Inr (deps, confs))))))"

definition display_dependency :: "'a dependency_scheme \<Rightarrow> string option" where
  "display_dependency e = opt_or (dep_qualified e) (dep_name e)"

definition constraint_display :: "'a dependency_scheme \<Rightarrow> string" where
  "constraint_display e =
     strip (show_opt (opt_or (display_dependency e) (dep_name e)) @
            (if given (dep_registry e) then '' ['' @ the (dep_registry e) @ '']'' else []) @ '' '' @
            text_or (dep_version e) ''*'' @
            (if dep_incubating e then '' +incubating'' else []))"

end
