(* ===== verification/Candidates.thy ===== *)
theory Candidates
  imports Dependencies
begin

text \<open>
  Candidates of the registries and installed skills, the catalog that indexes the candidates
  by identity and by bare name (\<open>install/source_resolution.py\<close>), and which candidates match
  a group of requirements, in which order (\<open>install/target_validation.py\<close>).
\<close>

section \<open>Candidates and installed skills\<close>

text \<open>
  \<open>cand_extra\<close> holds the keys of the dictionary that the planner only copies into its plan:
  paths, distribution and snapshot references.
\<close>

record candidate =
  cand_name :: "string option"
  cand_publisher :: "string option"
  cand_qualified :: "string option"
  cand_mode :: "string option"
  cand_identity :: "string option"
  cand_version :: "string option"
  cand_stage :: "string option"
  cand_registry :: "string option"
  cand_registry_priority :: int
  cand_registry_order :: int
  cand_source_type :: "string option"
  cand_installable :: bool
  cand_snapshot_created :: "string option"
  cand_dir_name :: "string option"
  cand_path :: "string option"
  cand_depends :: "dependency list"
  cand_conflicts :: "dependency list"
  cand_extra :: "(string \<times> string option) list"

record installed_skill =
  inst_name :: "string option"
  inst_publisher :: "string option"
  inst_qualified :: "string option"
  inst_identity :: "string option"
  inst_version :: "string option"
  inst_locked :: "string option"
  inst_registry :: "string option"
  inst_path :: "string option"
  inst_conflicts :: "dependency list"

definition cand_key :: "candidate \<Rightarrow> string option" where
  "cand_key c = opt_or (cand_identity c) (cand_name c)"

definition dep_key :: "'a dependency_scheme \<Rightarrow> string option" where
  "dep_key e = opt_or (dep_identity e) (dep_name e)"

definition display_candidate :: "candidate \<Rightarrow> string option" where
  "display_candidate c = opt_or (cand_qualified c) (cand_name c)"

section \<open>The catalog\<close>

type_synonym index = "(string \<times> candidate list) list"

record catalog =
  cat_by_name :: index
  cat_by_identity :: index
  cat_registries :: "string list"

definition index_get :: "index \<Rightarrow> string \<Rightarrow> candidate list" where
  "index_get m k = (case map_of m k of None \<Rightarrow> [] | Some xs \<Rightarrow> xs)"

text \<open>\<open>mapping.setdefault(key, []).append(candidate)\<close>\<close>

definition index_add :: "string \<Rightarrow> candidate \<Rightarrow> index \<Rightarrow> index" where
  "index_add k c m = AList.update k (index_get m k @ [c]) m"

definition stage_rank :: "(string \<times> nat) list \<Rightarrow> candidate \<Rightarrow> nat" where
  "stage_rank order c =
     (case cand_stage c of None \<Rightarrow> 9 | Some s \<Rightarrow> (case map_of order s of Some n \<Rightarrow> n | None \<Rightarrow> 9))"

definition catalog_stages :: "(string \<times> nat) list" where
  "catalog_stages = [(''active'', 0), (''incubating'', 1), (''archived'', 2)]"

definition source_rank :: "candidate \<Rightarrow> nat" where
  "source_rank c = (if cand_source_type c = Some ''distribution-manifest'' then 0 else 1)"

definition version_or_zero :: "candidate \<Rightarrow> string" where
  "version_or_zero c = text_or (cand_version c) ''0.0.0''"

definition stable_key :: "candidate \<Rightarrow> string \<times> string \<times> string" where
  "stable_key c =
     (text_or (cand_registry c) [], text_or (cand_dir_name c) [], text_or (cand_path c) [])"

text \<open>\<open>_candidate_catalog_compare\<close>\<close>

definition candidate_catalog_compare :: "candidate \<Rightarrow> candidate \<Rightarrow> client_error + int" where
  "candidate_catalog_compare l r =
     (if cand_registry_priority l \<noteq> cand_registry_priority r
      then Inr (if cand_registry_priority l > cand_registry_priority r then -1 else 1)
      else if source_rank l \<noteq> source_rank r then Inr (if source_rank l < source_rank r then -1 else 1)
      else if stage_rank catalog_stages l \<noteq> stage_rank catalog_stages r
        then Inr (if stage_rank catalog_stages l < stage_rank catalog_stages r then -1 else 1)
      else rbind (compare_versions (version_or_zero r) (version_or_zero l)) (\<lambda>version_cmp.
        Inr (if version_cmp \<noteq> 0 then version_cmp
             else (let ls = text_or (cand_snapshot_created l) []; rs = text_or (cand_snapshot_created r) [] in
               if ls \<noteq> rs then (if ls > rs then -1 else 1)
               else if stable_key l = stable_key r then 0
               else if stable_key l < stable_key r then -1 else 1))))"

definition candidate_indexes :: "candidate list \<Rightarrow> client_error + index \<times> index" where
  "candidate_indexes candidates =
     (let by_name = fold (\<lambda>c m. case cand_name c of None \<Rightarrow> m | Some n \<Rightarrow> index_add n c m) candidates [];
          by_identity = fold (\<lambda>c m. case cand_key c of None \<Rightarrow> m | Some k \<Rightarrow> index_add k c m) candidates [];
          sort_index = map_res (\<lambda>(k, xs). rbind (sorted_by candidate_catalog_compare xs) (\<lambda>ys. Inr (k, ys)))
      in rbind (sort_index by_name) (\<lambda>ns. rbind (sort_index by_identity) (\<lambda>is. Inr (ns, is))))"

section \<open>Constraints on a candidate\<close>

text \<open>What \<open>entry_matches_skill\<close> reads of a candidate or of an installed skill.\<close>

record skill_ref =
  ref_name :: "string option"
  ref_publisher :: "string option"
  ref_qualified :: "string option"
  ref_registry :: "string option"
  ref_version :: "string option"

definition candidate_ref :: "candidate \<Rightarrow> skill_ref" where
  "candidate_ref c = \<lparr>ref_name = cand_name c, ref_publisher = cand_publisher c,
     ref_qualified = cand_qualified c, ref_registry = cand_registry c, ref_version = cand_version c\<rparr>"

text \<open>An installed skill has no key \<open>registry_name\<close>: its registry is \<open>source_registry\<close>.\<close>

definition installed_ref :: "installed_skill \<Rightarrow> skill_ref" where
  "installed_ref i = \<lparr>ref_name = inst_name i, ref_publisher = inst_publisher i,
     ref_qualified = inst_qualified i, ref_registry = None, ref_version = inst_version i\<rparr>"

definition entry_matches_skill :: "dependency \<Rightarrow> skill_ref \<Rightarrow> client_error + bool" where
  "entry_matches_skill e s =
     (let same =
            (if given (dep_qualified e) then dep_qualified e = ref_qualified s
             else dep_name e = ref_name s \<and>
                  (\<not> given (dep_publisher e) \<or> dep_publisher e = ref_publisher s))
      in if \<not> same then Inr False
         else if given (dep_registry e) \<and> dep_registry e \<noteq> ref_registry s then Inr False
         else if \<not> given (ref_version s) then Inr False
         else version_satisfies (the (ref_version s)) (Some (text_or (dep_version e) ''*'')))"

definition registry_hints :: "requirement list \<Rightarrow> string list" where
  "registry_hints constraints =
     unique (map the (filter given (map dep_registry constraints)))"

text \<open>The problem, if two requirements name different registries.\<close>

definition constraints_compatible :: "requirement list \<Rightarrow> bool" where
  "constraints_compatible constraints \<longleftrightarrow> \<not> length (registry_hints constraints) > 1"

definition installed_identity_matches :: "candidate \<Rightarrow> installed_skill option \<Rightarrow> bool" where
  "installed_identity_matches c installed =
     (case installed of
        None \<Rightarrow> False
      | Some i \<Rightarrow>
          (let ci = opt_or (cand_identity c) (display_candidate c);
               ii = opt_or (inst_identity i) (opt_or (inst_qualified i) (inst_name i));
               version = opt_or (inst_version i) (inst_locked i)
           in if given ci \<and> given ii \<and> ci \<noteq> ii then False
              else if given version \<and> cand_version c \<noteq> version then False
              else if given (inst_registry i) \<and> cand_registry c \<noteq> inst_registry i then False
              else True))"

fun satisfies_entries :: "candidate \<Rightarrow> requirement list \<Rightarrow> client_error + bool" where
  "satisfies_entries c [] = Inr True"
| "satisfies_entries c (e # es) =
     (if given (dep_registry e) \<and> dep_registry e \<noteq> cand_registry c then Inr False
      else if cand_stage c = Some ''incubating'' \<and> \<not> dep_incubating e then Inr False
      else rbind (if cand_stage c = Some ''archived''
                  then constraint_is_exact (Some (text_or (dep_version e) ''*'')) else Inr True) (\<lambda>exact.
        if \<not> exact then Inr False
        else rbind (version_satisfies (version_or_zero c) (Some (text_or (dep_version e) ''*''))) (\<lambda>ok.
          if \<not> ok then Inr False else satisfies_entries c es)))"

definition candidate_satisfies_all :: "candidate \<Rightarrow> requirement list \<Rightarrow> client_error + bool" where
  "candidate_satisfies_all c constraints =
     rbind (satisfies_entries c constraints) (\<lambda>ok. Inr (ok \<and> cand_installable c))"

section \<open>Which candidate is preferred\<close>

definition preferred_registries :: "requirement list \<Rightarrow> catalog \<Rightarrow> string list" where
  "preferred_registries constraints cat =
     (let explicit = registry_hints constraints in
      if explicit \<noteq> [] then explicit
      else (let from_sources = unique (map the (filter given (map req_source_registry constraints)));
                configured = filter (\<lambda>n. n \<noteq> []) (cat_registries cat)
            in unique (from_sources @ configured)))"

text \<open>\<open>CandidateComparator\<close>: what it is built with, its ranks and its call.\<close>

record candidate_comparator =
  cc_preferred :: "string list"
  cc_installed :: "installed_skill option"
  cc_exact_only :: bool

definition stage_order :: "candidate_comparator \<Rightarrow> (string \<times> nat) list" where
  "stage_order k =
     (if cc_exact_only k
      then [(''archived'', 0), (''active'', 1), (''incubating'', 2)]
      else [(''active'', 0), (''incubating'', 1), (''archived'', 2)])"

fun index_of :: "'a \<Rightarrow> 'a list \<Rightarrow> nat" where
  "index_of x [] = 0"
| "index_of x (y # ys) = (if x = y then 0 else Suc (index_of x ys))"

definition registry_rank :: "candidate_comparator \<Rightarrow> candidate \<Rightarrow> int" where
  "registry_rank k c =
     (case cand_registry c of
        Some n \<Rightarrow> if n \<in> set (cc_preferred k) then int (index_of n (cc_preferred k))
                  else int (length (cc_preferred k)) + cand_registry_order c
      | None \<Rightarrow> int (length (cc_preferred k)) + cand_registry_order c)"

definition compare_values :: "'a::linorder \<Rightarrow> 'a \<Rightarrow> int" where
  "compare_values l r = (if l = r then 0 else if l < r then -1 else 1)"

definition comparator_call :: "candidate_comparator \<Rightarrow> candidate \<Rightarrow> candidate \<Rightarrow> client_error + int" where
  "comparator_call k l r =
     (let installed = (\<lambda>c. if installed_identity_matches c (cc_installed k) then 0 else 1 :: nat);
          first = [compare_values (installed l) (installed r),
                   compare_values (registry_rank k l) (registry_rank k r),
                   compare_values (source_rank l) (source_rank r),
                   compare_values (stage_rank (stage_order k) l) (stage_rank (stage_order k) r)]
      in case filter (\<lambda>c. c \<noteq> 0) first of
           result # _ \<Rightarrow> Inr result
         | [] \<Rightarrow>
             rbind (compare_versions (version_or_zero r) (version_or_zero l)) (\<lambda>version_result.
               Inr (if version_result \<noteq> 0 then version_result
                    else (let snapshot_result =
                                compare_values (text_or (cand_snapshot_created r) [])
                                               (text_or (cand_snapshot_created l) [])
                          in if snapshot_result \<noteq> 0 then snapshot_result
                             else compare_values (stable_key l) (stable_key r)))))"

text \<open>\<open>all(constraint_is_exact(...) for entry in constraints)\<close> stops at the first that is not.\<close>

fun all_exact :: "requirement list \<Rightarrow> client_error + bool" where
  "all_exact [] = Inr True"
| "all_exact (e # es) =
     rbind (constraint_is_exact (Some (text_or (dep_version e) ''*''))) (\<lambda>b.
       if b then all_exact es else Inr False)"

fun filter_res :: "('a \<Rightarrow> 'e + bool) \<Rightarrow> 'a list \<Rightarrow> 'e + 'a list" where
  "filter_res p [] = Inr []"
| "filter_res p (x # xs) =
     rbind (p x) (\<lambda>b. rbind (filter_res p xs) (\<lambda>ys. Inr (if b then x # ys else ys)))"

text \<open>
  The pool is looked up by identity and, where the identity is not in the catalog, by the
  bare name of the requirement.
\<close>

definition candidate_pool :: "requirement \<Rightarrow> catalog \<Rightarrow> candidate list" where
  "candidate_pool r cat =
     (case (case dep_key r of None \<Rightarrow> None | Some k \<Rightarrow> map_of (cat_by_identity cat) k) of
        Some xs \<Rightarrow> xs
      | None \<Rightarrow> (case dep_name r of None \<Rightarrow> [] | Some n \<Rightarrow> index_get (cat_by_name cat) n))"

definition matching_candidates ::
    "requirement \<Rightarrow> requirement list \<Rightarrow> installed_skill option \<Rightarrow> catalog \<Rightarrow> client_error + candidate list" where
  "matching_candidates r constraints installed_item cat =
     rbind (filter_res (\<lambda>c. candidate_satisfies_all c constraints) (candidate_pool r cat)) (\<lambda>candidates.
     rbind (all_exact constraints) (\<lambda>exact_only.
       sorted_by (comparator_call
         \<lparr>cc_preferred = preferred_registries constraints cat, cc_installed = installed_item,
          cc_exact_only = exact_only\<rparr>) candidates))"

section \<open>Conflicts\<close>

text \<open>The loop of \<open>selected_conflict_reason\<close> over the conflict entries of one side.\<close>

fun first_match :: "dependency list \<Rightarrow> skill_ref \<Rightarrow> client_error + dependency option" where
  "first_match [] s = Inr None"
| "first_match (e # es) s =
     rbind (entry_matches_skill e s) (\<lambda>b. if b then Inr (Some e) else first_match es s)"

fun selected_conflict_reason ::
    "candidate \<Rightarrow> (string \<times> candidate) list \<Rightarrow> client_error + string option" where
  "selected_conflict_reason c [] = Inr None"
| "selected_conflict_reason c ((other_identity, other) # selected) =
     (if Some other_identity = cand_key c then selected_conflict_reason c selected
      else if cand_name other = cand_name c
        then Inr (Some (''cannot select both '' @ show_opt (display_candidate other) @ '' and '' @
                        show_opt (display_candidate c) @
                        '' because installed skill state is still keyed by bare skill name''))
      else rbind (first_match (cand_conflicts c) (candidate_ref other)) (\<lambda>m.
        case m of
          Some e \<Rightarrow> Inr (Some (show_opt (cand_name c) @ '' conflicts with selected '' @
                               show_opt (cand_name other) @ '' ('' @ constraint_display e @ '')''))
        | None \<Rightarrow> rbind (first_match (cand_conflicts other) (candidate_ref c)) (\<lambda>m2.
            case m2 of
              Some e \<Rightarrow> Inr (Some (''selected '' @ show_opt (cand_name other) @ '' conflicts with '' @
                               show_opt (cand_name c) @ '' ('' @ constraint_display e @ '')''))
            | None \<Rightarrow> selected_conflict_reason c selected)))"

end
