(* ===== verification/Planner.thy ===== *)
theory Planner
  imports Candidates
begin

text \<open>
  The dependency planner (\<open>install/service.py\<close>, \<open>install/target_validation.py\<close>): grouping
  of requirements by identity, the backtracking search over candidates, and the check of the
  result against what is installed.  The interpreter's recursion limit is the fuel of the
  search: a search that needs more frames of \<open>_resolve_recursive\<close> raises \<open>RecursionError\<close>,
  which the \<open>except DependencyError\<close> of the search does not catch.
\<close>

type_synonym selection = "(string \<times> candidate) list"
type_synonym installed_state = "(string \<times> installed_skill) list"

section \<open>Requirements\<close>

definition prepare_requirement :: "candidate \<Rightarrow> dependency \<Rightarrow> requirement" where
  "prepare_requirement source e =
     dependency.extend e
       \<lparr>req_source_name = cand_name source, req_source_qualified = cand_qualified source,
        req_source_version = cand_version source, req_source_registry = cand_registry source\<rparr>"

definition pending_sort_key :: "requirement \<Rightarrow> string \<times> string \<times> string \<times> string \<times> string" where
  "pending_sort_key r =
     (text_or (dep_key r) [], text_or (dep_registry r) [], text_or (dep_version r) ''*'',
      text_or (req_source_name r) [], text_or (req_source_version r) [])"

text \<open>\<open>_next_requirement_group\<close> on a non-empty list of pending requirements.\<close>

definition next_requirement_group ::
    "requirement list \<Rightarrow> client_error + requirement \<times> string \<times> string \<times> requirement list \<times> requirement list" where
  "next_requirement_group pending =
     (case sort_key pending_sort_key pending of
        [] \<Rightarrow> Inl (DependencyError ''dependency requirement is missing identity'')
      | r # others \<Rightarrow>
          rbind (or_raise (if given (dep_key r) then dep_key r else None)
                   (DependencyError ''dependency requirement is missing identity'')) (\<lambda>identity_key.
            Inr (r, identity_key, text_or (display_dependency r) identity_key,
                 r # filter (\<lambda>x. dep_key x = Some identity_key) others,
                 filter (\<lambda>x. dep_key x \<noteq> Some identity_key) others)))"

section \<open>The search\<close>

text \<open>
  \<open>_resolve_candidates\<close>: the candidates are tried in order, \<open>rec\<close> being the recursive call; a
  \<open>DependencyError\<close> of the call rejects the candidate, any other exception propagates.
\<close>

fun resolve_candidates ::
    "(selection \<Rightarrow> requirement list \<Rightarrow> client_error + selection) \<Rightarrow> selection \<Rightarrow> requirement list \<Rightarrow>
     string \<Rightarrow> candidate list \<Rightarrow> client_error + selection" where
  "resolve_candidates rec selected rest display_name [] =
     Inl (DependencyError (''no compatible resolution path found for '' @ display_name))"
| "resolve_candidates rec selected rest display_name (c # cs) =
     rbind (selected_conflict_reason c selected) (\<lambda>conflict.
       if given conflict then resolve_candidates rec selected rest display_name cs
       else if \<not> given (cand_key c) then resolve_candidates rec selected rest display_name cs
       else (case rec (AList.update (the (cand_key c)) c selected)
                      (rest @ map (prepare_requirement c) (cand_depends c)) of
               Inl (DependencyError _) \<Rightarrow> resolve_candidates rec selected rest display_name cs
             | result \<Rightarrow> result))"

fun resolve_recursive ::
    "nat \<Rightarrow> catalog \<Rightarrow> installed_state \<Rightarrow> selection \<Rightarrow> requirement list \<Rightarrow> client_error + selection" where
  "resolve_recursive 0 cat installed selected pending = Inl RecursionError"
| "resolve_recursive (Suc depth) cat installed selected pending =
     (if pending = [] then Inr selected
      else rbind (next_requirement_group pending) (\<lambda>(r, identity_key, display_name, same_name, rest).
        if \<not> constraints_compatible same_name
        then Inl (DependencyError (''conflicting requirements for '' @ display_name))
        else (case map_of selected identity_key of
          Some c \<Rightarrow>
            rbind (candidate_satisfies_all c same_name) (\<lambda>ok.
              if \<not> ok
              then Inl (DependencyError (''selected dependency no longer satisfies all constraints for '' @ display_name))
              else resolve_recursive depth cat installed selected rest)
        | None \<Rightarrow>
            rbind (matching_candidates r same_name (map_of installed identity_key) cat) (\<lambda>matches.
              if matches = []
              then Inl (DependencyError (''no registry candidate satisfies dependency '' @ display_name))
              else resolve_candidates (resolve_recursive depth cat installed) selected rest display_name matches))))"

section \<open>The final check\<close>

text \<open>Conflicts of one selected candidate with the installed skills that stay as they are.\<close>

fun installed_conflict :: "candidate \<Rightarrow> selection \<Rightarrow> installed_state \<Rightarrow> client_error + unit" where
  "installed_conflict c selected [] = Inr ()"
| "installed_conflict c selected ((k, i) # rest) =
     (if opt_or (inst_identity i) (inst_name i) \<in> Some ` fst ` set selected
      then installed_conflict c selected rest
      else rbind (first_match (cand_conflicts c) (installed_ref i)) (\<lambda>m.
        if m \<noteq> None
        then Inl (DependencyError (show_opt (cand_name c) @ '' conflicts with already installed '' @ show_opt (inst_name i)))
        else rbind (first_match (inst_conflicts i) (candidate_ref c)) (\<lambda>m2.
          if m2 \<noteq> None
          then Inl (DependencyError (''already installed '' @ show_opt (inst_name i) @ '' conflicts with '' @ show_opt (cand_name c)))
          else installed_conflict c selected rest)))"

fun all_res :: "('a \<Rightarrow> 'e + unit) \<Rightarrow> 'a list \<Rightarrow> 'e + unit" where
  "all_res f [] = Inr ()"
| "all_res f (x # xs) = rbind (f x) (\<lambda>_. all_res f xs)"

definition locked_ok :: "candidate \<Rightarrow> installed_state \<Rightarrow> string \<Rightarrow> string \<times> candidate \<Rightarrow> client_error + unit" where
  "locked_ok root installed mode p =
     (case p of (identity_key, c) \<Rightarrow>
        (case map_of installed identity_key of
           None \<Rightarrow> Inr ()
         | Some i \<Rightarrow>
             if mode = ''install'' \<and> Some identity_key = cand_key root then Inr ()
             else if given (inst_locked i) \<and> cand_version c \<noteq> inst_locked i
             then Inl (DependencyError (''unsafe upgrade plan for '' @
                         text_or (display_candidate c) identity_key @
                         '': installed copy is locked to '' @ the (inst_locked i)))
             else Inr ()))"

definition validate_final_state ::
    "candidate \<Rightarrow> selection \<Rightarrow> installed_state \<Rightarrow> string \<Rightarrow> client_error + unit" where
  "validate_final_state root selected installed mode =
     rbind (all_res (\<lambda>(_, c). installed_conflict c selected installed) selected) (\<lambda>_.
       all_res (locked_ok root installed mode) selected)"

section \<open>The plan\<close>

definition plan_action :: "string \<Rightarrow> candidate \<Rightarrow> installed_skill option \<Rightarrow> candidate \<Rightarrow> string \<Rightarrow> string" where
  "plan_action identity_key c installed_item root mode =
     (let root_identity = cand_key root in
      case installed_item of
        None \<Rightarrow> if Some identity_key = root_identity \<and> mode = ''sync'' then ''sync'' else ''install''
      | Some i \<Rightarrow>
          (let same_version = (inst_version i = cand_version c \<or> inst_locked i = cand_version c);
               same_registry = (\<not> given (inst_registry i) \<or> inst_registry i = cand_registry c)
           in if Some identity_key = root_identity \<and> mode = ''sync''
              then (if \<not> (same_version \<and> same_registry) then ''sync'' else ''keep'')
              else if same_version \<and> same_registry then ''keep''
              else if same_version then ''switch''
              else if same_registry then ''upgrade''
              else ''switch-upgrade''))"

text \<open>
  The depth-first visit of \<open>build_plan\<close>: visited keys and the order in which their visits
  end.  Its depth is bounded by the number of selected keys, as every frame marks a new one;
  the argument \<open>depth\<close> starts above that number.
\<close>

definition sorted_depends :: "candidate \<Rightarrow> dependency list" where
  "sorted_depends c = sort_key (\<lambda>e. (text_or (dep_name e) [], text_or (dep_version e) ''*'')) (cand_depends c)"

fun visit :: "nat \<Rightarrow> selection \<Rightarrow> string \<Rightarrow> string list \<times> string list \<Rightarrow> string list \<times> string list" where
  "visit 0 selected k st = st"
| "visit (Suc depth) selected k (visited, order) =
     (if k \<in> set visited then (visited, order)
      else (case map_of selected k of
              None \<Rightarrow> (k # visited, order)
            | Some c \<Rightarrow>
                (let (visited', order') =
                       fold (\<lambda>e st. case dep_key e of
                               Some dk \<Rightarrow> if dk \<in> fst ` set selected then visit depth selected dk st else st
                             | None \<Rightarrow> st)
                         (sorted_depends c) (k # visited, order)
                 in (visited', order' @ [k]))))"

record plan_requester =
  by_name :: "string option"
  by_qualified :: "string option"
  by_version :: "string option"
  by_registry :: "string option"
  by_constraint :: "string option"
  by_incubating :: bool

text \<open>A step: its key, its candidate, which the code copies key by key, and what it adds.\<close>

record plan_step =
  step_order :: nat
  step_key :: string
  step_candidate :: candidate
  step_action :: string
  step_needs_apply :: bool
  step_requested_by :: "plan_requester list"
  step_root :: bool

definition requesters_of :: "selection \<Rightarrow> string \<Rightarrow> plan_requester list" where
  "requesters_of selected k =
     concat (map (\<lambda>(_, c). map (\<lambda>e.
         \<lparr>by_name = cand_name c, by_qualified = cand_qualified c, by_version = cand_version c,
          by_registry = dep_registry e, by_constraint = dep_version e, by_incubating = dep_incubating e\<rparr>)
       (filter (\<lambda>e. dep_key e = Some k) (cand_depends c))) selected)"

definition make_step ::
    "candidate \<Rightarrow> selection \<Rightarrow> installed_state \<Rightarrow> string \<Rightarrow> nat \<times> string \<Rightarrow> plan_step" where
  "make_step root selected installed mode p =
     (let (n, k) = p; c = the (map_of selected k);
          action = plan_action k c (map_of installed k) root mode
      in \<lparr>step_order = n, step_key = k, step_candidate = c, step_action = action,
          step_needs_apply = (action \<noteq> ''keep''), step_requested_by = requesters_of selected k,
          step_root = (Some k = cand_key root)\<rparr>)"

definition build_plan ::
    "candidate \<Rightarrow> selection \<Rightarrow> installed_state \<Rightarrow> string \<Rightarrow> client_error + plan_step list" where
  "build_plan root selected installed mode =
     rbind (or_raise (if given (cand_key root) then cand_key root else None)
              (VersionError ''root candidate is missing identity'')) (\<lambda>root_identity.
     let apply_order = snd (visit (Suc (length selected)) selected root_identity ([], [])) in
     rbind (require (\<forall>p \<in> set selected. \<forall>e \<in> set (cand_depends (snd p)). given (dep_key e))
              (VersionError ''dependency is missing identity'')) (\<lambda>_.
       Inr (map (make_step root selected installed mode) (enumerate 1 apply_order))))"

text \<open>\<open>DependencyPlanner.plan\<close>, without the runtime view it adds to the result.\<close>

definition planner_plan ::
    "nat \<Rightarrow> catalog \<Rightarrow> installed_state \<Rightarrow> candidate \<Rightarrow> string \<Rightarrow> client_error + plan_step list" where
  "planner_plan depth cat installed root mode =
     rbind (or_raise (if given (cand_key root) then cand_key root else None)
              (DependencyError ''root candidate is missing identity'')) (\<lambda>root_key.
     rbind (resolve_recursive depth cat installed [(root_key, root)]
              (map (prepare_requirement root) (cand_depends root))) (\<lambda>selected.
     rbind (validate_final_state root selected installed mode) (\<lambda>_.
       build_plan root selected installed mode)))"

end
