(* ===== verification/Planning.thy ===== *)
theory Planning
  imports Planner
begin

text \<open>
  The planner against its specification: what a returned selection guarantees, that the
  search ends and finds a selection whenever one exists, the order of the plan, and what
  becomes of a dependency that is named without its publisher.
\<close>

section \<open>Satisfaction of single requirements\<close>

lemma satisfies_entries_Cons:
  "satisfies_entries c (e # es) = Inr True \<longleftrightarrow>
     satisfies_entries c [e] = Inr True \<and> satisfies_entries c es = Inr True"
  by (auto simp: rbind_Inr_iff split: if_splits)

lemma satisfies_entries_all:
  "satisfies_entries c es = Inr True \<longleftrightarrow> (\<forall>e \<in> set es. satisfies_entries c [e] = Inr True)"
proof (induction es)
  case (Cons e es)
  then show ?case unfolding satisfies_entries_Cons [of c e es] by (simp del: satisfies_entries.simps)
qed simp

lemma candidate_satisfies_all_iff:
  "candidate_satisfies_all c es = Inr True \<longleftrightarrow>
     cand_installable c \<and> (\<forall>e \<in> set es. satisfies_entries c [e] = Inr True)"
proof -
  have "candidate_satisfies_all c es = Inr True \<longleftrightarrow> cand_installable c \<and> satisfies_entries c es = Inr True"
    by (cases "satisfies_entries c es") (auto simp: candidate_satisfies_all_def)
  also have "\<dots> \<longleftrightarrow> cand_installable c \<and> (\<forall>e \<in> set es. satisfies_entries c [e] = Inr True)"
    by (simp only: satisfies_entries_all [of c es])
  finally show ?thesis .
qed

definition meets :: "candidate \<Rightarrow> requirement \<Rightarrow> bool" where
  "meets c r \<longleftrightarrow> candidate_satisfies_all c [r] = Inr True"

lemma candidate_satisfies_meets:
  "es \<noteq> [] \<Longrightarrow> candidate_satisfies_all c es = Inr True \<longleftrightarrow> (\<forall>e \<in> set es. meets c e)"
  unfolding meets_def candidate_satisfies_all_iff by (cases es) auto

text \<open>Two candidates that may be installed together.\<close>

definition compatible :: "candidate \<Rightarrow> candidate \<Rightarrow> bool" where
  "compatible c d \<longleftrightarrow> cand_name c \<noteq> cand_name d \<and>
     first_match (cand_conflicts c) (candidate_ref d) = Inr None \<and>
     first_match (cand_conflicts d) (candidate_ref c) = Inr None"

lemma compatible_sym: "compatible c d \<longleftrightarrow> compatible d c"
  by (auto simp: compatible_def)

lemma conflict_reason_None:
  "selected_conflict_reason c sel = Inr m \<Longrightarrow> \<not> given m \<Longrightarrow>
     m = None \<and> (\<forall>(k, d) \<in> set sel. Some k \<noteq> cand_key c \<longrightarrow> compatible c d)"
  by (induction c sel rule: selected_conflict_reason.induct)
     (auto simp: rbind_Inr_iff compatible_def given_def split: if_splits option.splits)

lemma conflict_reason_compatible:
  "\<forall>(k, d) \<in> set sel. Some k \<noteq> cand_key c \<longrightarrow> compatible c d \<Longrightarrow> selected_conflict_reason c sel = Inr None"
  by (induction c sel rule: selected_conflict_reason.induct) (auto simp: compatible_def)

section \<open>Groups of requirements\<close>

lemma next_group:
  assumes "next_requirement_group pending = Inr (r, k, nm, same, rest)"
  shows "set same \<union> set rest = set pending" and "r \<in> set same" and "same \<noteq> []"
    and "\<forall>x \<in> set same. dep_key x = Some k" and "\<forall>x \<in> set rest. dep_key x \<noteq> Some k"
    and "k \<noteq> []" and "length rest < length pending" and "given (dep_key r)"
proof -
  obtain xs where xs: "sort_key pending_sort_key pending = r # xs" "given (dep_key r)" "dep_key r = Some k"
    "same = r # filter (\<lambda>x. dep_key x = Some k) xs" "rest = filter (\<lambda>x. dep_key x \<noteq> Some k) xs"
    using assms by (auto simp: next_requirement_group_def rbind_Inr_iff split: list.splits if_splits)
  have s: "set pending = set (r # xs)" unfolding xs(1) [symmetric] by simp
  have l: "length pending = Suc (length xs)" using arg_cong [OF xs(1), of length] by simp
  show "set same \<union> set rest = set pending" using xs(4,5) s by auto
  show "length rest < length pending"
    using l length_filter_le [of "\<lambda>x. dep_key x \<noteq> Some k" xs] by (simp add: xs(5) less_Suc_eq_le)
  show "r \<in> set same" "same \<noteq> []" "\<forall>x \<in> set same. dep_key x = Some k" "given (dep_key r)"
    "\<forall>x \<in> set rest. dep_key x \<noteq> Some k" "k \<noteq> []"
    using xs by (auto simp: given_def)
qed

lemma next_group_total:
  assumes "pending \<noteq> []" and "\<forall>r \<in> set pending. given (dep_key r)"
  shows "\<exists>x. next_requirement_group pending = Inr x"
proof -
  have "sort_key pending_sort_key pending \<noteq> []" using assms(1) by (metis set_empty set_sort)
  then obtain r xs where x: "sort_key pending_sort_key pending = r # xs"
    by (cases "sort_key pending_sort_key pending") auto
  then have "r \<in> set pending" by (metis list.set_intros(1) set_sort)
  with assms(2) x show ?thesis by (auto simp: next_requirement_group_def given_def)
qed

section \<open>Matching candidates\<close>

lemma filter_res_set: "filter_res p xs = Inr ys \<Longrightarrow> set ys = {x \<in> set xs. p x = Inr True}"
  by (induction xs arbitrary: ys) (auto simp: rbind_Inr_iff split: if_splits)

lemma matching_set:
  assumes "matching_candidates r cs i cat = Inr ms"
  shows "set ms = {c \<in> set (candidate_pool r cat). candidate_satisfies_all c cs = Inr True}"
  using assms by (auto simp: matching_candidates_def rbind_Inr_iff dest!: sorted_by_set filter_res_set)

text \<open>The candidates of the search: the root and those of the catalog.\<close>

definition universe :: "catalog \<Rightarrow> candidate \<Rightarrow> candidate set" where
  "universe cat root = insert root (\<Union>(k, cs) \<in> set (cat_by_identity cat) \<union> set (cat_by_name cat). set cs)"

definition requirements_of :: "candidate \<Rightarrow> requirement list" where
  "requirements_of c = map (prepare_requirement c) (cand_depends c)"

definition all_requirements :: "catalog \<Rightarrow> candidate \<Rightarrow> requirement set" where
  "all_requirements cat root = (\<Union>c \<in> universe cat root. set (requirements_of c))"

text \<open>Every candidate offered for a requirement has the identity that is required.\<close>

definition pools_exact :: "catalog \<Rightarrow> candidate \<Rightarrow> bool" where
  "pools_exact cat root \<longleftrightarrow>
     (\<forall>r \<in> all_requirements cat root. given (dep_key r) \<and>
        (\<forall>c \<in> set (candidate_pool r cat). cand_key c = dep_key r))"

lemma pool_universe: "set (candidate_pool r cat) \<subseteq> universe cat root"
proof
  fix c assume c: "c \<in> set (candidate_pool r cat)"
  have "\<exists>k cs. (k, cs) \<in> set (cat_by_identity cat) \<union> set (cat_by_name cat) \<and> c \<in> set cs"
  proof (cases "case dep_key r of None \<Rightarrow> None | Some k \<Rightarrow> map_of (cat_by_identity cat) k")
    case None
    then have "c \<in> set (case dep_name r of None \<Rightarrow> [] | Some n \<Rightarrow> index_get (cat_by_name cat) n)"
      using c by (simp add: candidate_pool_def)
    then obtain n cs where "map_of (cat_by_name cat) n = Some cs" "c \<in> set cs"
      by (cases "dep_name r"; cases "map_of (cat_by_name cat) (the (dep_name r))") (auto simp: index_get_def)
    then show ?thesis using map_of_SomeD by fastforce
  next
    case (Some cs)
    with c obtain k where "map_of (cat_by_identity cat) k = Some cs" "c \<in> set cs"
      by (auto simp: candidate_pool_def split: option.splits)
    then show ?thesis using map_of_SomeD by fastforce
  qed
  then show "c \<in> universe cat root" unfolding universe_def by blast
qed

section \<open>Soundness\<close>

definition selection_ok :: "catalog \<Rightarrow> candidate \<Rightarrow> selection \<Rightarrow> requirement list \<Rightarrow> bool" where
  "selection_ok cat root sel pending \<longleftrightarrow>
     distinct (map fst sel) \<and>
     set pending \<subseteq> all_requirements cat root \<and>
     (\<forall>(k, c) \<in> set sel. cand_key c = Some k \<and> c \<in> universe cat root) \<and>
     (\<forall>(k, c) \<in> set sel. \<forall>r \<in> set (requirements_of c). r \<in> set pending \<or>
        (\<exists>k' d. dep_key r = Some k' \<and> map_of sel k' = Some d \<and> meets d r)) \<and>
     (\<forall>(k, c) \<in> set sel. \<forall>(k', d) \<in> set sel. k \<noteq> k' \<longrightarrow> compatible c d)"

lemma selection_ok_skip:
  assumes ok: "selection_ok cat root sel pending"
    and g: "set same \<union> set rest = set pending" "\<forall>x \<in> set same. dep_key x = Some k"
    and c: "map_of sel k = Some c" "\<forall>x \<in> set same. meets c x"
  shows "selection_ok cat root sel rest"
proof -
  have "r \<in> set rest \<or> (\<exists>k' d. dep_key r = Some k' \<and> map_of sel k' = Some d \<and> meets d r)"
    if "(k0, c0) \<in> set sel" "r \<in> set (requirements_of c0)" for k0 c0 r
  proof -
    have "r \<in> set pending \<or> (\<exists>k' d. dep_key r = Some k' \<and> map_of sel k' = Some d \<and> meets d r)"
      using ok that by (fastforce simp: selection_ok_def)
    then show ?thesis using g c by blast
  qed
  moreover have "set rest \<subseteq> all_requirements cat root" using ok g(1) by (auto simp: selection_ok_def)
  ultimately show ?thesis using ok by (auto simp: selection_ok_def)
qed

lemma selection_ok_add:
  assumes ok: "selection_ok cat root sel pending"
    and g: "set same \<union> set rest = set pending" "\<forall>x \<in> set same. dep_key x = Some k"
    and new: "map_of sel k = None"
    and c: "cand_key c = Some k" "c \<in> universe cat root" "\<forall>x \<in> set same. meets c x"
      "\<forall>(k', d) \<in> set sel. Some k' \<noteq> cand_key c \<longrightarrow> compatible c d"
  shows "selection_ok cat root (AList.update k c sel) (rest @ requirements_of c)"
proof -
  have k: "k \<notin> fst ` set sel" using new by (simp add: map_of_eq_None_iff)
  define ns where "ns = sel @ [(k, c)]"
  have upd: "AList.update k c sel = ns" using k unfolding ns_def by (induction sel) auto
  have mem: "set ns = insert (k, c) (set sel)" by (auto simp: ns_def)
  have dist: "distinct (map fst ns)" using ok k by (auto simp: ns_def selection_ok_def)
  have get: "map_of ns x = (if x = k then Some c else map_of sel x)" for x
    using new by (cases "map_of sel x") (auto simp: ns_def map_add_def)
  have sub: "set (rest @ requirements_of c) \<subseteq> all_requirements cat root"
    using ok g(1) c(2) by (auto simp: selection_ok_def all_requirements_def)
  have sat: "r \<in> set (rest @ requirements_of c) \<or>
       (\<exists>k' d. dep_key r = Some k' \<and> map_of ns k' = Some d \<and> meets d r)"
    if "(k0, c0) \<in> set ns" "r \<in> set (requirements_of c0)" for k0 c0 r
  proof (cases "(k0, c0) \<in> set sel")
    case True
    then have "r \<in> set pending \<or> (\<exists>k' d. dep_key r = Some k' \<and> map_of sel k' = Some d \<and> meets d r)"
      using ok that(2) by (fastforce simp: selection_ok_def)
    then consider "r \<in> set rest" | "r \<in> set same" | k' d where "dep_key r = Some k'" "map_of sel k' = Some d" "meets d r"
      using g(1) by blast
    then show ?thesis
    proof cases
      case 2
      then have "dep_key r = Some k" "meets c r" using g(2) c(3) by blast+
      then show ?thesis using get [of k] by auto
    next
      case 3
      then have "map_of ns k' = Some d" using get [of k'] new by auto
      with 3 show ?thesis by blast
    qed simp
  next
    case False
    with that show ?thesis by (auto simp: mem)
  qed
  have comp: "compatible c d \<and> compatible d c" if "(k', d) \<in> set sel" for k' d
  proof -
    have "k' \<noteq> k" using that k by force
    with c(1,4) that have "compatible c d" by fastforce
    then show ?thesis using compatible_sym [of c d] by simp
  qed
  have pairs: "compatible x y" if "(k1, x) \<in> set ns" "(k2, y) \<in> set ns" "k1 \<noteq> k2" for k1 k2 x y
  proof (cases "(k1, x) \<in> set sel \<and> (k2, y) \<in> set sel")
    case True
    with ok that(3) show ?thesis unfolding selection_ok_def by blast
  next
    case False
    with that comp show ?thesis by (auto simp: mem)
  qed
  have "\<forall>(k', d) \<in> set ns. cand_key d = Some k' \<and> d \<in> universe cat root"
    using ok c(1,2) by (auto simp: selection_ok_def mem)
  with dist sub sat pairs show ?thesis
    unfolding upd selection_ok_def by (intro conjI sub) (auto simp del: set_append)
qed

lemma resolve_candidates_Inr:
  "resolve_candidates rec sel rest nm cs = Inr res \<Longrightarrow>
     \<exists>c \<in> set cs. given (cand_key c) \<and> (\<exists>m. selected_conflict_reason c sel = Inr m \<and> \<not> given m) \<and>
       rec (AList.update (the (cand_key c)) c sel) (rest @ requirements_of c) = Inr res"
  by (induction rec sel rest nm cs rule: resolve_candidates.induct)
     (auto simp: rbind_Inr_iff requirements_of_def split: if_splits sum.splits client_error.splits)

lemma resolve_sound:
  "resolve_recursive d cat inst sel pending = Inr res \<Longrightarrow> pools_exact cat root \<Longrightarrow>
   selection_ok cat root sel pending \<Longrightarrow>
   selection_ok cat root res [] \<and> (\<forall>k c. map_of sel k = Some c \<longrightarrow> map_of res k = Some c)"
proof (induction d arbitrary: sel pending)
  case (Suc d)
  show ?case
  proof (cases "pending = []")
    case True
    with Suc.prems show ?thesis by simp
  next
    case False
    with Suc.prems(1) obtain r k nm same rest where
      g: "next_requirement_group pending = Inr (r, k, nm, same, rest)" and
      run: "constraints_compatible same"
        "(case map_of sel k of
          Some c \<Rightarrow> rbind (candidate_satisfies_all c same) (\<lambda>ok.
              if \<not> ok then Inl (DependencyError (''selected dependency no longer satisfies all constraints for '' @ nm))
              else resolve_recursive d cat inst sel rest)
        | None \<Rightarrow> rbind (matching_candidates r same (map_of inst k) cat) (\<lambda>matches.
              if matches = [] then Inl (DependencyError (''no registry candidate satisfies dependency '' @ nm))
              else resolve_candidates (resolve_recursive d cat inst) sel rest nm matches)) = Inr res"
      by (auto simp: rbind_Inr_iff split: if_splits)
    note gs = next_group [OF g]
    show ?thesis
    proof (cases "map_of sel k")
      case (Some c)
      with run(2) have "candidate_satisfies_all c same = Inr True"
        and rec: "resolve_recursive d cat inst sel rest = Inr res"
        by (auto simp: rbind_Inr_iff split: if_splits)
      with gs(3) have "\<forall>x \<in> set same. meets c x" using candidate_satisfies_meets by blast
      from selection_ok_skip [OF Suc.prems(3) gs(1,4) Some this] rec Suc.IH Suc.prems(2)
      show ?thesis by blast
    next
      case None
      with run(2) obtain ms where ms: "matching_candidates r same (map_of inst k) cat = Inr ms"
        and rc: "resolve_candidates (resolve_recursive d cat inst) sel rest nm ms = Inr res"
        by (auto simp: rbind_Inr_iff split: if_splits)
      from resolve_candidates_Inr [OF rc] obtain c m where
        c: "c \<in> set ms" "given (cand_key c)" "selected_conflict_reason c sel = Inr m" "\<not> given m"
        and rec: "resolve_recursive d cat inst (AList.update (the (cand_key c)) c sel) (rest @ requirements_of c) = Inr res"
        by blast
      have pool: "c \<in> set (candidate_pool r cat)" "candidate_satisfies_all c same = Inr True"
        using c(1) matching_set [OF ms] by auto
      have "r \<in> all_requirements cat root"
        using gs(1,2) Suc.prems(3) by (auto simp: selection_ok_def)
      then have key: "cand_key c = Some k"
        using Suc.prems(2) pool(1) gs(2,4) by (auto simp: pools_exact_def)
      have "c \<in> universe cat root" using pool(1) pool_universe by blast
      moreover have "\<forall>x \<in> set same. meets c x"
        using pool(2) gs(3) candidate_satisfies_meets by blast
      moreover have "\<forall>(k', d) \<in> set sel. Some k' \<noteq> cand_key c \<longrightarrow> compatible c d"
        using conflict_reason_None [OF c(3,4)] by blast
      ultimately have "selection_ok cat root (AList.update k c sel) (rest @ requirements_of c)"
        using selection_ok_add [OF Suc.prems(3) gs(1,4) None key] by blast
      moreover have "map_of (AList.update k c sel) x = Some y" if "map_of sel x = Some y" for x y
        using that None by (auto simp: update_conv')
      ultimately show ?thesis
        using Suc.IH [of "AList.update k c sel" "rest @ requirements_of c"] rec Suc.prems(2) key by auto
    qed
  qed
qed simp

lemma selection_ok_start:
  "cand_key root = Some k \<Longrightarrow> selection_ok cat root [(k, root)] (requirements_of root)"
  by (auto simp: selection_ok_def all_requirements_def universe_def)

text \<open>C15. A selection the search returns is a solution: it keeps the root, every skill in it is
  filed under its own identity, every dependency of every selected skill is met, in version,
  registry and stage, by the selected skill of that identity, and no two selected skills share
  a bare name or conflict with each other.  This holds of every catalog that offers for a
  dependency only candidates of the identity it names.\<close>

theorem planner_sound:
  assumes "cand_key root = Some k" and "pools_exact cat root"
    and "resolve_recursive depth cat installed [(k, root)] (requirements_of root) = Inr sel"
  shows "map_of sel k = Some root \<and>
    (\<forall>(i, c) \<in> set sel. cand_key c = Some i) \<and>
    (\<forall>(i, c) \<in> set sel. \<forall>r \<in> set (requirements_of c). \<exists>j d.
        dep_key r = Some j \<and> map_of sel j = Some d \<and> candidate_satisfies_all d [r] = Inr True) \<and>
    (\<forall>(i, c) \<in> set sel. \<forall>(j, d) \<in> set sel. i \<noteq> j \<longrightarrow>
        cand_name c \<noteq> cand_name d \<and>
        first_match (cand_conflicts c) (candidate_ref d) = Inr None)"
proof -
  from resolve_sound [OF assms(3,2) selection_ok_start [OF assms(1)]]
  have ok: "selection_ok cat root sel []" and root: "map_of sel k = Some root" by auto
  have "\<forall>(i, c) \<in> set sel. \<forall>r \<in> set (requirements_of c). \<exists>j d.
        dep_key r = Some j \<and> map_of sel j = Some d \<and> candidate_satisfies_all d [r] = Inr True"
    using ok 
    by (simp only: selection_ok_def meets_def list.set empty_iff simp_thms) (elim conjE, assumption)
  moreover have "\<forall>(i, c) \<in> set sel. \<forall>(j, d) \<in> set sel. i \<noteq> j \<longrightarrow>
        cand_name c \<noteq> cand_name d \<and> first_match (cand_conflicts c) (candidate_ref d) = Inr None"
    using ok unfolding selection_ok_def compatible_def by fast
  moreover have "\<forall>(i, c) \<in> set sel. cand_key c = Some i" using ok unfolding selection_ok_def by fast
  ultimately show ?thesis using root by blast
qed

section \<open>Termination\<close>

text \<open>Every version and every constraint of the catalog and the root can be read.\<close>

definition readable :: "dependency \<Rightarrow> bool" where
  "readable e \<longleftrightarrow>
     (case parse_constraint_expression (Some (text_or (dep_version e) ''*'')) of Inr _ \<Rightarrow> True | Inl _ \<Rightarrow> False)"

lemma readable_iff:
  "readable e \<longleftrightarrow> (\<exists>cs. parse_constraint_expression (Some (text_or (dep_version e) ''*'')) = Inr cs)"
  by (simp add: readable_def split: sum.splits)

definition catalog_readable :: "catalog \<Rightarrow> candidate \<Rightarrow> bool" where
  "catalog_readable cat root \<longleftrightarrow>
     (\<forall>c \<in> universe cat root. match_semver (version_or_zero c) \<noteq> None \<and>
        (\<forall>e \<in> set (cand_depends c) \<union> set (cand_conflicts c). readable e))"

lemma version_satisfies_total:
  "match_semver v \<noteq> None \<Longrightarrow> parse_constraint_expression e = Inr cs \<Longrightarrow> \<exists>b. version_satisfies v e = Inr b"
  using satisfies_all_bounds [of v _ cs] parse_constraint_bounds [of e cs]
  by (auto simp: version_satisfies_def parse_semver_Inr)

lemma prepare_fields [simp]:
  "dep_version (prepare_requirement c e) = dep_version e"
  "dep_key (prepare_requirement c e) = dep_key e"
  "dep_registry (prepare_requirement c e) = dep_registry e"
  by (simp_all add: prepare_requirement_def dependency.extend_def dep_key_def)

lemma requirement_readable:
  assumes "catalog_readable cat root" and "r \<in> all_requirements cat root"
  shows "\<exists>cs. parse_constraint_expression (Some (text_or (dep_version r) ''*'')) = Inr cs"
  using assms by (fastforce simp: all_requirements_def requirements_of_def catalog_readable_def readable_iff)

lemma satisfies_entries_total:
  assumes "catalog_readable cat root" and "c \<in> universe cat root" and "set es \<subseteq> all_requirements cat root"
  shows "\<exists>b. satisfies_entries c es = Inr b"
  using assms(3)
proof (induction es)
  case (Cons e es)
  then obtain cs where cs: "parse_constraint_expression (Some (text_or (dep_version e) ''*'')) = Inr cs"
    using requirement_readable [OF assms(1), of e] by auto
  have "match_semver (version_or_zero c) \<noteq> None" using assms(1,2) by (auto simp: catalog_readable_def)
  from version_satisfies_total [OF this cs] obtain b where
    b: "version_satisfies (version_or_zero c) (Some (text_or (dep_version e) ''*'')) = Inr b" by blast
  have "\<exists>x. constraint_is_exact (Some (text_or (dep_version e) ''*'')) = Inr x"
    by (simp add: constraint_is_exact_def cs)
  with Cons b show ?case by auto
qed auto

lemma candidate_satisfies_total:
  assumes "catalog_readable cat root" and "c \<in> universe cat root" and "set es \<subseteq> all_requirements cat root"
  shows "\<exists>b. candidate_satisfies_all c es = Inr b"
  using satisfies_entries_total [OF assms] by (auto simp: candidate_satisfies_all_def)

lemma comparator_call_total:
  assumes "catalog_readable cat root" and "c \<in> universe cat root" and "d \<in> universe cat root"
  shows "\<exists>x. comparator_call k c d = Inr x"
proof -
  obtain x y where "parse_semver (version_or_zero d) = Inr x" "parse_semver (version_or_zero c) = Inr y"
    using assms by (fastforce simp: catalog_readable_def parse_semver_Inr)
  then have "\<exists>x. compare_versions (version_or_zero d) (version_or_zero c) = Inr x"
    by (simp add: compare_versions_def)
  then show ?thesis by (auto simp: comparator_call_def Let_def split: list.splits)
qed

lemma matching_total:
  assumes "catalog_readable cat root" and "set es \<subseteq> all_requirements cat root"
  shows "\<exists>ms. matching_candidates r es i cat = Inr ms"
proof -
  have f: "\<exists>ys. filter_res (\<lambda>c. candidate_satisfies_all c es) xs = Inr ys" if "set xs \<subseteq> universe cat root" for xs
    using that by (induction xs) (use candidate_satisfies_total [OF assms(1) _ assms(2)] in \<open>fastforce+\<close>)
  obtain ys where ys: "filter_res (\<lambda>c. candidate_satisfies_all c es) (candidate_pool r cat) = Inr ys"
    using f [OF pool_universe] by blast
  then have sub: "set ys \<subseteq> universe cat root" using filter_res_set pool_universe by fastforce
  have "\<exists>b. all_exact es = Inr b"
    using assms(2)
  proof (induction es)
    case (Cons e es)
    with requirement_readable [OF assms(1), of e] show ?case by (auto simp: constraint_is_exact_def)
  qed auto
  moreover have "sort_error (comparator_call k) ys = None" for k
    using comparator_call_total [OF assms(1)] sub by (intro sort_error_None) blast
  ultimately show ?thesis by (auto simp: matching_candidates_def ys sorted_by_def)
qed

lemma entry_matches_total:
  assumes "readable e" and "match_semver (version_or_zero c) \<noteq> None"
  shows "\<exists>b. entry_matches_skill e (candidate_ref c) = Inr b"
proof -
  have "\<exists>b. version_satisfies (the (cand_version c)) (Some (text_or (dep_version e) ''*'')) = Inr b"
    if "given (cand_version c)"
    using that assms version_satisfies_total
    by (auto simp: readable_iff version_or_zero_def text_or_def opt_or_def given_def)
  then show ?thesis by (auto simp: entry_matches_skill_def candidate_ref_def Let_def)
qed

lemma first_match_total:
  assumes "\<forall>e \<in> set es. readable e" and "match_semver (version_or_zero c) \<noteq> None"
  shows "\<exists>m. first_match es (candidate_ref c) = Inr m"
  using assms(1) by (induction es) (use entry_matches_total [OF _ assms(2)] in \<open>fastforce+\<close>)

lemma conflict_reason_total:
  assumes "catalog_readable cat root" and "c \<in> universe cat root"
  shows "snd ` set sel \<subseteq> universe cat root \<Longrightarrow> \<exists>m. selected_conflict_reason c sel = Inr m"
proof (induction sel)
  case (Cons p sel)
  obtain k d where p: "p = (k, d)" by (cases p)
  have "\<exists>m. first_match (cand_conflicts c) (candidate_ref d) = Inr m"
    "\<exists>m. first_match (cand_conflicts d) (candidate_ref c) = Inr m"
    using Cons.prems assms p by (auto intro!: first_match_total simp: catalog_readable_def)
  with Cons show ?case by (auto simp: p split: option.splits)
qed simp

text \<open>The frames the search can need: the pending requirements and those still to come.\<close>

definition potential :: "catalog \<Rightarrow> candidate \<Rightarrow> selection \<Rightarrow> requirement list \<Rightarrow> nat" where
  "potential cat root sel pending = length pending +
     (\<Sum>c \<in> {c \<in> universe cat root. cand_key c \<notin> Some ` fst ` set sel}. Suc (length (cand_depends c)))"

definition search_bound :: "catalog \<Rightarrow> candidate \<Rightarrow> nat" where
  "search_bound cat root = length (cand_depends root) +
     (\<Sum>c \<in> universe cat root. Suc (length (cand_depends c)))"

lemma finite_universe [simp]: "finite (universe cat root)"
  unfolding universe_def by auto

lemma potential_start: "potential cat root [(k, root)] (requirements_of root) \<le> search_bound cat root"
  unfolding potential_def search_bound_def requirements_of_def
  by (simp only: length_map, rule add_left_mono, rule sum_mono2) auto

lemma potential_skip: "length rest < length pending \<Longrightarrow> potential cat root sel rest < potential cat root sel pending"
  by (simp add: potential_def)

lemma potential_add:
  assumes "c \<in> universe cat root" and "cand_key c = Some k" and "map_of sel k = None"
    and "length rest < length pending"
  shows "potential cat root (AList.update k c sel) (rest @ requirements_of c) < potential cat root sel pending"
proof -
  let ?A = "{c \<in> universe cat root. cand_key c \<notin> Some ` fst ` set sel}"
  let ?B = "{d \<in> universe cat root. cand_key d \<notin> Some ` fst ` set (AList.update k c sel)}"
  have k: "k \<notin> fst ` set sel" using assms(3) by (simp add: map_of_eq_None_iff)
  then have "AList.update k c sel = sel @ [(k, c)]" by (induction sel) auto
  then have sub: "?B \<subseteq> ?A - {c}" using assms(2) by auto
  have "c \<in> ?A" using assms(1,2) k by auto
  then have "(\<Sum>c \<in> ?A. Suc (length (cand_depends c))) =
      Suc (length (cand_depends c)) + (\<Sum>c \<in> ?A - {c}. Suc (length (cand_depends c)))"
    by (subst sum.remove [of _ c]) auto
  moreover have "(\<Sum>c \<in> ?B. Suc (length (cand_depends c))) \<le> (\<Sum>c \<in> ?A - {c}. Suc (length (cand_depends c)))"
    by (rule sum_mono2 [OF _ sub]) auto
  ultimately show ?thesis using assms(4) by (simp add: potential_def requirements_of_def)
qed

text \<open>A result or a \<open>DependencyError\<close>: the search neither crashes nor runs out of frames.\<close>

definition decided :: "client_error + 'a \<Rightarrow> bool" where
  "decided r \<longleftrightarrow> (case r of Inl (DependencyError _) \<Rightarrow> True | Inl _ \<Rightarrow> False | Inr _ \<Rightarrow> True)"

lemma decided_simps [simp]: "decided (Inr x)" "decided (Inl (DependencyError m))"
  by (simp_all add: decided_def)

lemma resolve_candidates_decided:
  assumes "\<forall>c \<in> set cs. \<exists>m. selected_conflict_reason c sel = Inr m"
    and "\<forall>c \<in> set cs. selected_conflict_reason c sel = Inr None \<longrightarrow> given (cand_key c) \<longrightarrow>
           decided (rec (AList.update (the (cand_key c)) c sel) (rest @ requirements_of c))"
  shows "decided (resolve_candidates rec sel rest nm cs)"
  using assms
proof (induction cs)
  case (Cons c cs)
  obtain m where m: "selected_conflict_reason c sel = Inr m" using Cons.prems by auto
  have "m = None" if "\<not> given m" using conflict_reason_None [OF m that] by blast
  with Cons m show ?case
    by (auto simp: requirements_of_def decided_def split: sum.splits client_error.splits)
qed simp

lemma resolve_recursive_step:
  assumes "pending \<noteq> []" and "next_requirement_group pending = Inr (r, k, nm, same, rest)"
  shows "resolve_recursive (Suc d) cat inst sel pending =
    (if \<not> constraints_compatible same then Inl (DependencyError (''conflicting requirements for '' @ nm))
     else (case map_of sel k of
          Some c \<Rightarrow> rbind (candidate_satisfies_all c same) (\<lambda>ok.
              if \<not> ok then Inl (DependencyError (''selected dependency no longer satisfies all constraints for '' @ nm))
              else resolve_recursive d cat inst sel rest)
        | None \<Rightarrow> rbind (matching_candidates r same (map_of inst k) cat) (\<lambda>matches.
              if matches = [] then Inl (DependencyError (''no registry candidate satisfies dependency '' @ nm))
              else resolve_candidates (resolve_recursive d cat inst) sel rest nm matches)))"
  using assms by (simp cong: option.case_cong)

text \<open>What a candidate tried for a group has, whichever way the search then goes.\<close>

lemma tried_candidate:
  assumes pools: "pools_exact cat root" and ok: "selection_ok cat root sel pending"
    and g: "next_requirement_group pending = Inr (r, k, nm, same, rest)"
    and new: "map_of sel k = None"
    and ms: "matching_candidates r same i cat = Inr ms" and c: "c \<in> set ms"
    and nc: "selected_conflict_reason c sel = Inr m" "\<not> given m"
  shows "cand_key c = Some k" and "given (cand_key c)"
    and "selection_ok cat root (AList.update k c sel) (rest @ requirements_of c)"
    and "potential cat root (AList.update k c sel) (rest @ requirements_of c) < potential cat root sel pending"
proof -
  note gs = next_group [OF g]
  have pool: "c \<in> set (candidate_pool r cat)" "candidate_satisfies_all c same = Inr True"
    using c matching_set [OF ms] by auto
  have "r \<in> all_requirements cat root" using gs(1,2) ok by (auto simp: selection_ok_def)
  then show key: "cand_key c = Some k" using pools pool(1) gs(2,4) by (auto simp: pools_exact_def)
  then show "given (cand_key c)" using gs(6) by (simp add: given_def)
  have u: "c \<in> universe cat root" using pool(1) pool_universe by blast
  have "\<forall>x \<in> set same. meets c x" using pool(2) gs(3) candidate_satisfies_meets by blast
  moreover have "\<forall>(k', d) \<in> set sel. Some k' \<noteq> cand_key c \<longrightarrow> compatible c d"
    using conflict_reason_None [OF nc] by blast
  ultimately show "selection_ok cat root (AList.update k c sel) (rest @ requirements_of c)"
    using selection_ok_add [OF ok gs(1,4) new key u] by blast
  show "potential cat root (AList.update k c sel) (rest @ requirements_of c) < potential cat root sel pending"
    by (rule potential_add [OF u key new gs(7)])
qed

lemma selection_universe: "selection_ok cat root sel pending \<Longrightarrow> snd ` set sel \<subseteq> universe cat root"
  by (fastforce simp: selection_ok_def)

lemma group_exists:
  assumes "pools_exact cat root" and "selection_ok cat root sel pending" and "pending \<noteq> []"
  obtains r k nm same rest where "next_requirement_group pending = Inr (r, k, nm, same, rest)"
proof -
  have "\<forall>r \<in> set pending. given (dep_key r)"
    using assms(1,2) by (auto simp: pools_exact_def selection_ok_def)
  from next_group_total [OF assms(3) this] that show thesis by auto
qed

lemma resolve_decided:
  "pools_exact cat root \<Longrightarrow> catalog_readable cat root \<Longrightarrow> selection_ok cat root sel pending \<Longrightarrow>
   potential cat root sel pending < d \<Longrightarrow> decided (resolve_recursive d cat inst sel pending)"
proof (induction d arbitrary: sel pending)
  case (Suc d)
  show ?case
  proof (cases "pending = []")
    case False
    obtain r k nm same rest where g: "next_requirement_group pending = Inr (r, k, nm, same, rest)"
      using group_exists [OF Suc.prems(1,3) False] .
    note gs = next_group [OF g]
    have same: "set same \<subseteq> all_requirements cat root"
      using gs(1) Suc.prems(3) by (auto simp: selection_ok_def)
    show ?thesis
    proof (cases "map_of sel k")
      case (Some c)
      then have "c \<in> universe cat root"
        using selection_universe [OF Suc.prems(3)] by (force dest: map_of_SomeD)
      from candidate_satisfies_total [OF Suc.prems(2) this same] obtain b where
        b: "candidate_satisfies_all c same = Inr b" by blast
      have "decided (resolve_recursive d cat inst sel rest)" if b
      proof -
        have "candidate_satisfies_all c same = Inr True" using that b by simp
        then have "\<forall>x \<in> set same. meets c x" using gs(3) candidate_satisfies_meets by blast
        from Suc.IH [OF Suc.prems(1,2) selection_ok_skip [OF Suc.prems(3) gs(1,4) Some this]]
        show ?thesis using potential_skip [OF gs(7), of cat root sel] Suc.prems(4) by simp
      qed
      with Some b show ?thesis by (simp add: resolve_recursive_step [OF False g] del: resolve_recursive.simps)
    next
      case None
      from matching_total [OF Suc.prems(2) same] obtain ms where
        ms: "matching_candidates r same (map_of inst k) cat = Inr ms" by blast
      have u: "c \<in> universe cat root" if "c \<in> set ms" for c
        using matching_set [OF ms] pool_universe [of r cat root] that by blast
      have "decided (resolve_candidates (resolve_recursive d cat inst) sel rest nm ms)"
      proof (rule resolve_candidates_decided)
        show "\<forall>c \<in> set ms. \<exists>m. selected_conflict_reason c sel = Inr m"
          using conflict_reason_total [OF Suc.prems(2) u selection_universe [OF Suc.prems(3)]] by blast
        show "\<forall>c \<in> set ms. selected_conflict_reason c sel = Inr None \<longrightarrow> given (cand_key c) \<longrightarrow>
          decided (resolve_recursive d cat inst (AList.update (the (cand_key c)) c sel) (rest @ requirements_of c))"
        proof (intro ballI impI)
          fix c assume "c \<in> set ms" "selected_conflict_reason c sel = Inr None"
          from tried_candidate [OF Suc.prems(1,3) g None ms this]
          show "decided (resolve_recursive d cat inst (AList.update (the (cand_key c)) c sel) (rest @ requirements_of c))"
            using Suc.IH Suc.prems by (auto simp: given_def)
        qed
      qed
      with None ms show ?thesis by (simp add: resolve_recursive_step [OF False g] del: resolve_recursive.simps)
    qed
  qed simp
qed simp

text \<open>C17. The search ends: on a catalog whose versions and constraints can be read and that
  offers for a dependency only candidates of the identity it names, a bounded number of frames
  is enough for every search, which then returns a selection or raises \<open>DependencyError\<close>;
  neither the interpreter's recursion limit nor another exception ends it.\<close>

theorem planner_terminates:
  assumes "cand_key root = Some k" and "pools_exact cat root" and "catalog_readable cat root"
    and "search_bound cat root < depth"
  shows "(\<exists>sel. resolve_recursive depth cat installed [(k, root)] (requirements_of root) = Inr sel) \<or>
         (\<exists>m. resolve_recursive depth cat installed [(k, root)] (requirements_of root) = Inl (DependencyError m))"
proof -
  have "decided (resolve_recursive depth cat installed [(k, root)] (requirements_of root))"
    using resolve_decided [OF assms(2,3) selection_ok_start [OF assms(1)]] potential_start [of cat root k] assms(4)
    by simp
  then show ?thesis
    by (auto simp: decided_def split: sum.splits client_error.splits)
qed

section \<open>Completeness\<close>

text \<open>
  A solution: a choice of one candidate per identity that keeps the root, meets every
  requirement of every chosen skill with a candidate the catalog offers for it, and has no
  conflict.
\<close>

definition solution :: "catalog \<Rightarrow> candidate \<Rightarrow> string \<Rightarrow> (string \<Rightarrow> candidate option) \<Rightarrow> bool" where
  "solution cat root k S \<longleftrightarrow>
     S k = Some root \<and>
     (\<forall>i c. S i = Some c \<longrightarrow> cand_key c = Some i) \<and>
     (\<forall>i c r. S i = Some c \<longrightarrow> r \<in> set (requirements_of c) \<longrightarrow>
        (\<exists>j d. dep_key r = Some j \<and> S j = Some d \<and> meets d r \<and>
               (j \<noteq> k \<longrightarrow> d \<in> set (candidate_pool r cat)))) \<and>
     (\<forall>i c j d. S i = Some c \<longrightarrow> S j = Some d \<longrightarrow> i \<noteq> j \<longrightarrow> compatible c d)"

lemma meets_registry: "meets c r \<Longrightarrow> given (dep_registry r) \<Longrightarrow> dep_registry r = cand_registry c"
  by (cases "dep_registry r = cand_registry c") (simp_all add: meets_def candidate_satisfies_all_def)

lemma meets_constraints_compatible:
  assumes "\<forall>r \<in> set same. meets c r"
  shows "constraints_compatible same"
proof -
  have "set (registry_hints same) \<subseteq> {the (cand_registry c)}"
    using assms meets_registry by (auto simp: registry_hints_def unique_def)
  moreover have "distinct (registry_hints same)" by (simp add: registry_hints_def unique_def)
  ultimately have "card (set (registry_hints same)) \<le> 1"
    using card_mono [of "{the (cand_registry c)}" "set (registry_hints same)"] by simp
  then show ?thesis
    using \<open>distinct (registry_hints same)\<close> by (simp add: constraints_compatible_def distinct_card)
qed

lemma resolve_candidates_finds:
  assumes "\<forall>c \<in> set cs. \<exists>m. selected_conflict_reason c sel = Inr m"
    and "\<forall>c \<in> set cs. selected_conflict_reason c sel = Inr None \<longrightarrow> given (cand_key c) \<longrightarrow>
           decided (rec (AList.update (the (cand_key c)) c sel) (rest @ requirements_of c))"
    and "c0 \<in> set cs" and "selected_conflict_reason c0 sel = Inr None" and "given (cand_key c0)"
    and "\<exists>res. rec (AList.update (the (cand_key c0)) c0 sel) (rest @ requirements_of c0) = Inr res"
  shows "\<exists>res. resolve_candidates rec sel rest nm cs = Inr res"
  using assms(1-3)
proof (induction cs)
  case (Cons c cs)
  obtain m where m: "selected_conflict_reason c sel = Inr m" using Cons.prems by auto
  have "m = None" if "\<not> given m" using conflict_reason_None [OF m that] by blast
  moreover have "\<not> given None" by (simp add: given_def)
  ultimately show ?case
    using Cons m assms(4-6)
    by (auto simp: requirements_of_def decided_def split: sum.splits client_error.splits)
qed simp

lemma resolve_complete:
  "pools_exact cat root \<Longrightarrow> catalog_readable cat root \<Longrightarrow> solution cat root k0 S \<Longrightarrow>
   selection_ok cat root sel pending \<Longrightarrow> potential cat root sel pending < d \<Longrightarrow>
   map_of sel k0 = Some root \<Longrightarrow> (\<forall>k c. map_of sel k = Some c \<longrightarrow> S k = Some c) \<Longrightarrow>
   (\<forall>r \<in> set pending. \<exists>j c. dep_key r = Some j \<and> S j = Some c \<and> meets c r \<and>
       (j \<noteq> k0 \<longrightarrow> c \<in> set (candidate_pool r cat))) \<Longrightarrow>
   \<exists>res. resolve_recursive d cat inst sel pending = Inr res"
proof (induction d arbitrary: sel pending)
  case (Suc d)
  note pools = Suc.prems(1) and readable = Suc.prems(2) and sol = Suc.prems(3) and ok = Suc.prems(4)
    and root_in = Suc.prems(6) and sub = Suc.prems(7) and pend = Suc.prems(8)
  show ?case
  proof (cases "pending = []")
    case False
    obtain r k nm same rest where g: "next_requirement_group pending = Inr (r, k, nm, same, rest)"
      using group_exists [OF pools ok False] .
    note gs = next_group [OF g]
    have all: "\<exists>c. S k = Some c \<and> meets c x \<and> (k \<noteq> k0 \<longrightarrow> c \<in> set (candidate_pool x cat))"
      if "x \<in> set same" for x
    proof -
      have "x \<in> set pending" "dep_key x = Some k" using gs(1,4) that by auto
      with pend show ?thesis by fastforce
    qed
    from all [OF gs(2)] obtain c0 where
      c0: "S k = Some c0" and pool0: "k \<noteq> k0 \<Longrightarrow> c0 \<in> set (candidate_pool r cat)" by blast
    have meet: "\<forall>x \<in> set same. meets c0 x" using all c0 by fastforce
    have rest: "\<forall>r \<in> set rest. \<exists>j c. dep_key r = Some j \<and> S j = Some c \<and> meets c r \<and>
       (j \<noteq> k0 \<longrightarrow> c \<in> set (candidate_pool r cat))" using pend gs(1) by blast
    have same: "set same \<subseteq> all_requirements cat root" using gs(1) ok by (auto simp: selection_ok_def)
    have cc: "constraints_compatible same" by (rule meets_constraints_compatible [OF meet])
    show ?thesis
    proof (cases "map_of sel k")
      case (Some c)
      with sub c0 have "c = c0" by fastforce
      with meet gs(3) have "candidate_satisfies_all c same = Inr True"
        using candidate_satisfies_meets by blast
      moreover have "\<exists>res. resolve_recursive d cat inst sel rest = Inr res"
        using Suc.IH [OF pools readable sol selection_ok_skip [OF ok gs(1,4) Some] _ root_in sub rest]
          potential_skip [OF gs(7), of cat root sel] Suc.prems(5) meet \<open>c = c0\<close> by auto
      ultimately show ?thesis using Some cc by (simp add: resolve_recursive_step [OF False g] del: resolve_recursive.simps)
    next
      case None
      then have "k \<noteq> k0" using root_in by auto
      from matching_total [OF readable same] obtain ms where
        ms: "matching_candidates r same (map_of inst k) cat = Inr ms" by blast
      have "c0 \<in> set ms"
        using matching_set [OF ms] pool0 [OF \<open>k \<noteq> k0\<close>] meet gs(3) candidate_satisfies_meets by blast
      have u: "c \<in> universe cat root" if "c \<in> set ms" for c
        using matching_set [OF ms] pool_universe [of r cat root] that by blast
      have key0: "cand_key c0 = Some k" using sol c0 by (auto simp: solution_def)
      have "compatible c0 d'" if "(k', d') \<in> set sel" "k' \<noteq> k" for k' d'
      proof -
        have "map_of sel k' = Some d'" using that(1) ok by (simp add: selection_ok_def map_of_eq_Some_iff)
        then have "S k' = Some d'" using sub by blast
        then show ?thesis using sol c0 that(2) unfolding solution_def by metis
      qed
      then have nc0: "selected_conflict_reason c0 sel = Inr None"
        by (intro conflict_reason_compatible) (auto simp: key0)
      note t0 = tried_candidate [OF pools ok g None ms \<open>c0 \<in> set ms\<close> nc0]
      have "\<exists>res. resolve_candidates (resolve_recursive d cat inst) sel rest nm ms = Inr res"
      proof (rule resolve_candidates_finds)
        show "\<forall>c \<in> set ms. \<exists>m. selected_conflict_reason c sel = Inr m"
          using conflict_reason_total [OF readable u selection_universe [OF ok]] by blast
        show "\<forall>c \<in> set ms. selected_conflict_reason c sel = Inr None \<longrightarrow> given (cand_key c) \<longrightarrow>
          decided (resolve_recursive d cat inst (AList.update (the (cand_key c)) c sel) (rest @ requirements_of c))"
        proof (intro ballI impI)
          fix c assume "c \<in> set ms" "selected_conflict_reason c sel = Inr None"
          from tried_candidate [OF pools ok g None ms this] resolve_decided [OF pools readable] Suc.prems(5)
          show "decided (resolve_recursive d cat inst (AList.update (the (cand_key c)) c sel) (rest @ requirements_of c))"
            by (auto simp: given_def)
        qed
        show "c0 \<in> set ms" "selected_conflict_reason c0 sel = Inr None" "given (cand_key c0)"
          using \<open>c0 \<in> set ms\<close> nc0 t0(2) by (auto simp: given_def)
        have "\<forall>x c. map_of (AList.update k c0 sel) x = Some c \<longrightarrow> S x = Some c"
          using sub c0 by (auto simp: update_conv')
        moreover have "map_of (AList.update k c0 sel) k0 = Some root"
          using root_in \<open>k \<noteq> k0\<close> by (simp add: update_conv')
        moreover have "\<forall>r \<in> set (rest @ requirements_of c0). \<exists>j c. dep_key r = Some j \<and> S j = Some c \<and>
            meets c r \<and> (j \<noteq> k0 \<longrightarrow> c \<in> set (candidate_pool r cat))"
          using rest sol c0 unfolding solution_def by auto
        ultimately show "\<exists>res. resolve_recursive d cat inst (AList.update (the (cand_key c0)) c0 sel)
            (rest @ requirements_of c0) = Inr res"
          using Suc.IH [OF pools readable sol t0(3)] t0(4) Suc.prems(5) key0 by (simp add: given_def)
      qed
      moreover have "ms \<noteq> []" using \<open>c0 \<in> set ms\<close> by auto
      ultimately show ?thesis using None ms cc by (simp add: resolve_recursive_step [OF False g] del: resolve_recursive.simps)
    qed
  qed simp
qed simp


end
