(* ===== verification/PlanOrder.thy ===== *)
theory PlanOrder
  imports Planning
begin

text \<open>
  The order of the plan: the depth-first visit lists every selected skill that the root
  reaches exactly once, and dependencies before the skills that need them.
\<close>

section \<open>The visit\<close>

text \<open>The dependencies of a selected key that are selected themselves.\<close>

definition edge :: "selection \<Rightarrow> string \<Rightarrow> string \<Rightarrow> bool" where
  "edge sel k j \<longleftrightarrow>
     (\<exists>c e. map_of sel k = Some c \<and> e \<in> set (cand_depends c) \<and> dep_key e = Some j \<and> j \<in> fst ` set sel)"

text \<open>Every key of the list comes after its dependencies.\<close>

definition ordered :: "selection \<Rightarrow> string list \<Rightarrow> bool" where
  "ordered sel order \<longleftrightarrow> (\<forall>i < length order. \<forall>j. edge sel (order ! i) j \<longrightarrow> j \<in> set (take i order))"

lemma ordered_append:
  "ordered sel (order @ [k]) \<longleftrightarrow> ordered sel order \<and> (\<forall>j. edge sel k j \<longrightarrow> j \<in> set order)"
  by (auto simp: ordered_def nth_append less_Suc_eq)

lemma edge_depends:
  assumes "map_of sel k = Some c"
  shows "edge sel k j \<longleftrightarrow> j \<in> fst ` set sel \<and> Some j \<in> dep_key ` set (sorted_depends c)"
  using assms by (force simp: edge_def sorted_depends_def)

text \<open>What a visit does to the visited keys and the order, if it has frames enough.\<close>

definition visit_result ::
    "selection \<Rightarrow> string set \<Rightarrow> string list \<times> string list \<Rightarrow> string list \<times> string list \<Rightarrow> bool" where
  "visit_result sel keys st st' \<longleftrightarrow>
     (\<exists>new. snd st' = snd st @ new \<and> distinct new \<and> set (fst st') = set (fst st) \<union> set new \<and>
       set new \<inter> set (fst st) = {} \<and> set new \<subseteq> fst ` set sel \<and>
       keys \<inter> fst ` set sel \<subseteq> set (fst st') \<and>
       (\<forall>x \<in> set new. \<forall>j. edge sel x j \<longrightarrow> j \<in> set (fst st')))"

lemma visit_resultE:
  assumes "visit_result sel keys st st'"
  obtains new where "snd st' = snd st @ new" "distinct new" "set (fst st') = set (fst st) \<union> set new"
    "set new \<inter> set (fst st) = {}" "set new \<subseteq> fst ` set sel" "keys \<inter> fst ` set sel \<subseteq> set (fst st')"
    "\<forall>x \<in> set new. \<forall>j. edge sel x j \<longrightarrow> j \<in> set (fst st')"
  using assms unfolding visit_result_def by (elim exE conjE) (rule that)

lemma visit_result_compose:
  assumes "visit_result sel K st st'" and "visit_result sel L st' st''"
  shows "visit_result sel (K \<union> L) st st''"
proof -
  from visit_resultE [OF assms(1)] obtain n where
    n: "snd st' = snd st @ n" "distinct n" "set (fst st') = set (fst st) \<union> set n"
      "set n \<inter> set (fst st) = {}" "set n \<subseteq> fst ` set sel" "K \<inter> fst ` set sel \<subseteq> set (fst st')"
      "\<forall>x \<in> set n. \<forall>j. edge sel x j \<longrightarrow> j \<in> set (fst st')" .
  from visit_resultE [OF assms(2)] obtain m where
    m: "snd st'' = snd st' @ m" "distinct m" "set (fst st'') = set (fst st') \<union> set m"
      "set m \<inter> set (fst st') = {}" "set m \<subseteq> fst ` set sel" "L \<inter> fst ` set sel \<subseteq> set (fst st'')"
      "\<forall>x \<in> set m. \<forall>j. edge sel x j \<longrightarrow> j \<in> set (fst st'')" .
  have "set n \<subseteq> set (fst st')" using n(3) by blast
  then have "distinct (n @ m)" "set (n @ m) \<inter> set (fst st) = {}"
    using n(2,3,4) m(2,4) by auto
  moreover have "snd st'' = snd st @ n @ m" "set (fst st'') = set (fst st) \<union> set (n @ m)"
    "set (n @ m) \<subseteq> fst ` set sel"
    using n(1,3,5) m(1,3,5) by auto
  moreover have "(K \<union> L) \<inter> fst ` set sel \<subseteq> set (fst st'')" using n(6) m(3,6) by blast
  moreover have "\<forall>x \<in> set (n @ m). \<forall>j. edge sel x j \<longrightarrow> j \<in> set (fst st'')"
    using n(7) m(3,7) by auto
  ultimately show ?thesis unfolding visit_result_def by blast
qed

lemma visit_result_same: "K \<inter> fst ` set sel \<subseteq> set (fst st) \<Longrightarrow> visit_result sel K st st"
  by (auto simp: visit_result_def)

text \<open>A frame on a key not yet visited leaves fewer keys to its calls.\<close>

lemma fewer_left:
  assumes "k \<in> fst ` set sel" and "card (fst ` set sel - set vis) < Suc d" and "k \<notin> set vis"
    and "set (k # vis) \<subseteq> set (fst s)"
  shows "card (fst ` set sel - set (fst s)) < d"
proof -
  have "fst ` set sel - set (fst s) \<subset> fst ` set sel - set vis" using assms(1,3,4) by auto
  from psubset_card_mono [OF _ this] have
    "card (fst ` set sel - set (fst s)) < card (fst ` set sel - set vis)" by simp
  with assms(2) show ?thesis by linarith
qed

lemma visit_spec:
  "k \<in> fst ` set sel \<Longrightarrow> card (fst ` set sel - set (fst st)) < d \<Longrightarrow>
   visit_result sel {k} st (visit d sel k st)"
proof (induction d arbitrary: k st)
  case (Suc d)
  obtain vis ord where st: "st = (vis, ord)" by (cases st)
  show ?case
  proof (cases "k \<in> set vis")
    case True
    then show ?thesis by (auto simp: st intro: visit_result_same)
  next
    case False
    have "map_of sel k \<noteq> None" using Suc.prems(1) by (simp add: map_of_eq_None_iff)
    then obtain c where c: "map_of sel k = Some c" by blast
    define step :: "dependency \<Rightarrow> string list \<times> string list \<Rightarrow> string list \<times> string list"
      where "step = (\<lambda>e st. case dep_key e of
        Some dk \<Rightarrow> if dk \<in> fst ` set sel then visit d sel dk st else st | None \<Rightarrow> st)"
    note fewer = fewer_left [OF Suc.prems(1,2) [unfolded st fst_conv] False]
    have loop: "visit_result sel {j. Some j \<in> dep_key ` set es} s (fold step es s)"
      if "set (k # vis) \<subseteq> set (fst s)" for es s
      using that
    proof (induction es arbitrary: s)
      case Nil
      then show ?case by (auto intro: visit_result_same)
    next
      case (Cons e es)
      have one: "visit_result sel {j. dep_key e = Some j} s (step e s)"
      proof (cases "\<exists>j. dep_key e = Some j \<and> j \<in> fst ` set sel")
        case True
        then obtain j where j: "dep_key e = Some j" "j \<in> fst ` set sel" by blast
        from Suc.IH [OF j(2) fewer [OF Cons.prems]] show ?thesis by (simp add: step_def j)
      next
        case False
        then have "step e s = s" by (auto simp: step_def split: option.splits)
        with False show ?thesis by (auto intro: visit_result_same)
      qed
      then have "set (fst s) \<subseteq> set (fst (step e s))" by (auto simp: visit_result_def)
      with Cons.prems have "set (k # vis) \<subseteq> set (fst (step e s))" by blast
      from visit_result_compose [OF one Cons.IH [OF this]]
      have "visit_result sel ({j. dep_key e = Some j} \<union> {j. Some j \<in> dep_key ` set es}) s (fold step (e # es) s)"
        by simp
      moreover have "{j. dep_key e = Some j} \<union> {j. Some j \<in> dep_key ` set es} = {j. Some j \<in> dep_key ` set (e # es)}"
        by auto
      ultimately show ?case by (simp only:)
    qed
    obtain vis' ord' where v: "fold step (sorted_depends c) (k # vis, ord) = (vis', ord')" by fastforce
    have "visit_result sel {j. Some j \<in> dep_key ` set (sorted_depends c)} (k # vis, ord) (vis', ord')"
      using loop [of "(k # vis, ord)" "sorted_depends c"] v by simp
    from visit_resultE [OF this, unfolded fst_conv snd_conv list.set] obtain new where
      new: "ord' = ord @ new" "distinct new" "set vis' = insert k (set vis) \<union> set new"
        "set new \<inter> insert k (set vis) = {}" "set new \<subseteq> fst ` set sel"
        "{j. Some j \<in> dep_key ` set (sorted_depends c)} \<inter> fst ` set sel \<subseteq> set vis'"
        "\<forall>x \<in> set new. \<forall>j. edge sel x j \<longrightarrow> j \<in> set vis'" .
    have "visit (Suc d) sel k st = (vis', ord' @ [k])"
      using False c v by (simp add: st step_def)
    moreover have "visit_result sel {k} st (vis', ord' @ [k])"
    proof -
      have "j \<in> set vis'" if "edge sel k j" for j
        using that new(6) edge_depends [OF c, of j] by blast
      then have e: "\<forall>x \<in> set (new @ [k]). \<forall>j. edge sel x j \<longrightarrow> j \<in> set vis'"
        unfolding set_append list.set using new(7) [folded new(3)] by blast
      have d: "distinct (new @ [k])" "set (new @ [k]) \<inter> set vis = {}" using new(2,4) False by auto
      have v: "set vis' = set vis \<union> set (new @ [k])" using new(3) by auto
      have k: "set (new @ [k]) \<subseteq> fst ` set sel" "{k} \<inter> fst ` set sel \<subseteq> set vis'"
        using new(3,5) Suc.prems(1) by auto
      show ?thesis
        unfolding visit_result_def st fst_conv snd_conv
        by (rule exI [of _ "new @ [k]"]) (intro conjI d v k e, simp add: new(1))
    qed
    ultimately show ?thesis by simp
  qed
qed simp

section \<open>Dependencies first\<close>

text \<open>In a selection without cycles a key that is visited but not finished ranks above.\<close>

lemma visit_ordered:
  assumes rank: "\<And>i j. edge sel i j \<Longrightarrow> rank j < (rank i :: nat)"
  shows "k \<in> fst ` set sel \<Longrightarrow> card (fst ` set sel - set (fst st)) < d \<Longrightarrow> ordered sel (snd st) \<Longrightarrow>
    (\<forall>v \<in> set (fst st). v \<in> set (snd st) \<or> rank k < rank v) \<Longrightarrow> ordered sel (snd (visit d sel k st))"
proof (induction d arbitrary: k st)
  case (Suc d)
  obtain vis ord where st: "st = (vis, ord)" by (cases st)
  show ?case
  proof (cases "k \<in> set vis")
    case True
    with Suc.prems(3) show ?thesis by (simp add: st)
  next
    case False
    have "map_of sel k \<noteq> None" using Suc.prems(1) by (simp add: map_of_eq_None_iff)
    then obtain c where c: "map_of sel k = Some c" by blast
    define step :: "dependency \<Rightarrow> string list \<times> string list \<Rightarrow> string list \<times> string list"
      where "step = (\<lambda>e st. case dep_key e of
        Some dk \<Rightarrow> if dk \<in> fst ` set sel then visit d sel dk st else st | None \<Rightarrow> st)"
    note fewer = fewer_left [OF Suc.prems(1,2) [unfolded st fst_conv] False]
    define good where "good = (\<lambda>s. set (k # vis) \<subseteq> set (fst s) \<and> ordered sel (snd s) \<and>
        (\<forall>v \<in> set (fst s). v \<in> set (snd s) \<or> rank k \<le> rank v))"
    have one: "good (step e s) \<and> (\<forall>j. dep_key e = Some j \<and> edge sel k j \<longrightarrow> j \<in> set (snd (step e s))) \<and>
        set (snd s) \<subseteq> set (snd (step e s))"
      if "good s" "e \<in> set (cand_depends c)" for e s
    proof (cases "\<exists>j. dep_key e = Some j \<and> j \<in> fst ` set sel")
      case True
      then obtain j where j: "dep_key e = Some j" "j \<in> fst ` set sel" by blast
      then have kj: "edge sel k j" using c that(2) by (auto simp: edge_def)
      have s: "set (k # vis) \<subseteq> set (fst s)" "ordered sel (snd s)"
        "\<forall>v \<in> set (fst s). v \<in> set (snd s) \<or> rank k \<le> rank v" using that(1) by (auto simp: good_def)
      have above: "\<forall>v \<in> set (fst s). v \<in> set (snd s) \<or> rank j < rank v"
        using s(3) rank [OF kj] by fastforce
      have "step e s = visit d sel j s" by (simp add: step_def j)
      moreover from visit_resultE [OF visit_spec [OF j(2) fewer [OF s(1)]]] obtain new where
        new: "snd (visit d sel j s) = snd s @ new" "set (fst (visit d sel j s)) = set (fst s) \<union> set new"
          "{j} \<inter> fst ` set sel \<subseteq> set (fst (visit d sel j s))" .
      moreover have "ordered sel (snd (visit d sel j s))"
        by (rule Suc.IH [OF j(2) fewer [OF s(1)] s(2) above])
      moreover have "j \<in> set (snd s @ new)" using new(2,3) j(2) above by auto
      ultimately show ?thesis using s j(1) by (auto simp: good_def)
    next
      case False
      then have "step e s = s" by (auto simp: step_def split: option.splits)
      with False that(1) show ?thesis by (auto simp: edge_def)
    qed
    have loop: "good (fold step es s) \<and> set (snd s) \<subseteq> set (snd (fold step es s)) \<and>
        (\<forall>j. edge sel k j \<and> Some j \<in> dep_key ` set es \<longrightarrow> j \<in> set (snd (fold step es s)))"
      if "good s" "set es \<subseteq> set (cand_depends c)" for es s
      using that
    proof (induction es arbitrary: s)
      case (Cons e es)
      from one [OF Cons.prems(1), of e] Cons.prems(2) have
        o: "good (step e s)" "\<forall>j. dep_key e = Some j \<and> edge sel k j \<longrightarrow> j \<in> set (snd (step e s))"
          "set (snd s) \<subseteq> set (snd (step e s))" by auto
      with Cons.IH [OF o(1)] Cons.prems(2) show ?case by fastforce
    qed simp
    have "good (k # vis, ord)"
      using Suc.prems(3,4) by (auto simp: good_def st)
    moreover have sub: "set (sorted_depends c) = set (cand_depends c)" by (simp add: sorted_depends_def)
    ultimately have g: "good (fold step (sorted_depends c) (k # vis, ord))"
      "\<forall>j. edge sel k j \<and> Some j \<in> dep_key ` set (sorted_depends c) \<longrightarrow>
          j \<in> set (snd (fold step (sorted_depends c) (k # vis, ord)))"
      using loop [of "(k # vis, ord)" "sorted_depends c"] by auto
    obtain vis' ord' where v: "fold step (sorted_depends c) (k # vis, ord) = (vis', ord')" by fastforce
    have "visit (Suc d) sel k st = (vis', ord' @ [k])"
      using False c v by (simp add: st step_def)
    moreover have "\<forall>j. edge sel k j \<longrightarrow> j \<in> set ord'"
      using g(2) v edge_depends [OF c] by auto
    ultimately show ?thesis using g(1) v by (simp add: ordered_append good_def)
  qed
qed simp

lemma build_plan_keys:
  assumes "build_plan root sel installed mode = Inr steps" and "cand_key root = Some k"
  shows "map step_key steps = snd (visit (Suc (length sel)) sel k ([], []))"
    and "\<forall>i < length steps. step_order (steps ! i) = i + 1 \<and>
           step_candidate (steps ! i) = the (map_of sel (step_key (steps ! i)))"
proof -
  have f: "steps = map (make_step root sel installed mode)
      (enumerate 1 (snd (visit (Suc (length sel)) sel k ([], []))))"
    using assms by (auto simp: build_plan_def rbind_Inr_iff Let_def simp del: visit.simps split: if_splits)
  have m: "step_key (make_step root sel installed mode (n, x)) = x"
    "step_order (make_step root sel installed mode (n, x)) = n"
    "step_candidate (make_step root sel installed mode (n, x)) = the (map_of sel x)" for n x
    by (simp_all add: make_step_def Let_def)
  have "step_key \<circ> make_step root sel installed mode = snd" by (auto simp: fun_eq_iff m)
  then show "map step_key steps = snd (visit (Suc (length sel)) sel k ([], []))"
    by (simp add: f del: visit.simps)
  show "\<forall>i < length steps. step_order (steps ! i) = i + 1 \<and>
           step_candidate (steps ! i) = the (map_of sel (step_key (steps ! i)))"
    by (simp add: f m nth_enumerate_eq del: visit.simps)
qed

lemma visit_root:
  assumes "k \<in> fst ` set sel"
  shows "distinct (snd (visit (Suc (length sel)) sel k ([], [])))"
    and "k \<in> set (snd (visit (Suc (length sel)) sel k ([], [])))"
    and "set (snd (visit (Suc (length sel)) sel k ([], []))) \<subseteq> fst ` set sel"
    and "x \<in> set (snd (visit (Suc (length sel)) sel k ([], []))) \<Longrightarrow> edge sel x j \<Longrightarrow>
           j \<in> set (snd (visit (Suc (length sel)) sel k ([], [])))"
proof -
  have c: "card (fst ` set sel) < Suc (length sel)"
    using card_length [of "map fst sel"] by simp
  from visit_resultE [OF visit_spec [OF assms, of "([], [])" "Suc (length sel)"]] c obtain new where
    n: "snd (visit (Suc (length sel)) sel k ([], [])) = new" "distinct new"
      "set (fst (visit (Suc (length sel)) sel k ([], []))) = set new" "set new \<subseteq> fst ` set sel"
      "{k} \<inter> fst ` set sel \<subseteq> set new" "\<forall>x \<in> set new. \<forall>j. edge sel x j \<longrightarrow> j \<in> set new"
    by auto
  then show "distinct (snd (visit (Suc (length sel)) sel k ([], [])))"
    "k \<in> set (snd (visit (Suc (length sel)) sel k ([], [])))"
    "set (snd (visit (Suc (length sel)) sel k ([], []))) \<subseteq> fst ` set sel"
    using assms by auto
  show "j \<in> set (snd (visit (Suc (length sel)) sel k ([], [])))"
    if "x \<in> set (snd (visit (Suc (length sel)) sel k ([], [])))" "edge sel x j"
    using that n(1,6) by blast
qed


end
