(* ===== verification/PlannerCases.thy ===== *)
theory PlannerCases
  imports PlanOrder
begin

text \<open>
  The planner on concrete catalogs: the witnesses of its properties, and the two ways in
  which a dependency named without its publisher goes wrong, as the catalog then falls back
  to the candidates of that bare name, which are selected under another key.
\<close>

section \<open>Bare names\<close>

lemma resolve_keys:
  "resolve_recursive d cat inst sel pending = Inr res \<Longrightarrow>
   \<forall>(k, c) \<in> set sel. cand_key c = Some k \<and> c \<in> universe cat root \<Longrightarrow>
   (\<forall>(k, c) \<in> set res. cand_key c = Some k \<and> c \<in> universe cat root) \<and> fst ` set sel \<subseteq> fst ` set res"
proof (induction d arbitrary: sel pending)
  case (Suc d)
  show ?case
  proof (cases "pending = []")
    case False
    obtain r k nm same rest where g: "next_requirement_group pending = Inr (r, k, nm, same, rest)"
      using Suc.prems(1) False by (cases "next_requirement_group pending") auto
    note run = Suc.prems(1) [unfolded resolve_recursive_step [OF False g]]
    show ?thesis
    proof (cases "map_of sel k")
      case (Some c)
      with run have "resolve_recursive d cat inst sel rest = Inr res"
        by (auto simp: rbind_Inr_iff split: if_splits)
      from Suc.IH [OF this Suc.prems(2)] show ?thesis .
    next
      case None
      with run obtain ms where ms: "matching_candidates r same (map_of inst k) cat = Inr ms"
        and rc: "resolve_candidates (resolve_recursive d cat inst) sel rest nm ms = Inr res"
        by (auto simp: rbind_Inr_iff split: if_splits)
      from resolve_candidates_Inr [OF rc] obtain c where
        c: "c \<in> set ms" "given (cand_key c)"
        and rec: "resolve_recursive d cat inst (AList.update (the (cand_key c)) c sel) (rest @ requirements_of c) = Inr res"
        by blast
      have "c \<in> universe cat root" using c(1) matching_set [OF ms] pool_universe [of r cat root] by blast
      moreover have "cand_key c = Some (the (cand_key c))" using c(2) by (simp add: given_def)
      moreover have sub: "set (AList.update (the (cand_key c)) c sel) \<subseteq> insert (the (cand_key c), c) (set sel)"
        by (induction sel) auto
      ultimately have "\<forall>(k, c) \<in> set (AList.update (the (cand_key c)) c sel). cand_key c = Some k \<and> c \<in> universe cat root"
        using Suc.prems(2) by fastforce
      from Suc.IH [OF rec this] show ?thesis by (auto simp: dom_update)
    qed
  qed (use Suc.prems in auto)
qed simp

text \<open>Dependencies by bare name are lost: when no candidate is filed under the names the root
  depends on, as when they are given without the publisher every catalogued skill has, a plan
  that is returned consists of the root alone, although its dependencies were resolved and
  checked: they are selected under their qualified identities, which the plan does not look up.\<close>

theorem bare_dependencies_left_out:
  assumes "planner_plan depth cat installed root mode = Inr steps"
    and "\<forall>e \<in> set (cand_depends root). \<forall>c \<in> universe cat root. dep_key e \<noteq> cand_key c"
    and "\<forall>c \<in> universe cat root. cand_key c = cand_key root \<longrightarrow> c = root"
  shows "map step_candidate steps = [root]"
proof -
  from assms(1) obtain k sel where
    k: "cand_key root = Some k" and
    res: "resolve_recursive depth cat installed [(k, root)] (map (prepare_requirement root) (cand_depends root)) = Inr sel" and
    plan: "build_plan root sel installed mode = Inr steps"
    by (auto simp: planner_plan_def rbind_Inr_iff split: if_splits)
  have r: "root \<in> universe cat root" by (simp add: universe_def)
  from resolve_keys [OF res, of root] k r have
    keys: "\<forall>(k, c) \<in> set sel. cand_key c = Some k \<and> c \<in> universe cat root" and kin: "k \<in> fst ` set sel"
    by auto
  have "map_of sel k \<noteq> None" using kin by (simp add: map_of_eq_None_iff)
  then obtain c where c: "map_of sel k = Some c" by blast
  then have "(k, c) \<in> set sel" by (rule map_of_SomeD)
  then have c_root: "c = root" using keys k assms(3) by fastforce
  have none: "dep_key e = Some j \<Longrightarrow> j \<notin> fst ` set sel" if "e \<in> set (sorted_depends root)" for e j
    using that assms(2) keys by (fastforce simp: sorted_depends_def)
  define step :: "dependency \<Rightarrow> string list \<times> string list \<Rightarrow> string list \<times> string list"
    where "step = (\<lambda>e st. case dep_key e of
        Some dk \<Rightarrow> if dk \<in> fst ` set sel then visit (length sel) sel dk st else st | None \<Rightarrow> st)"
  have idle: "step e s = s" if "e \<in> set (sorted_depends root)" for e s
    using none [OF that] by (cases "dep_key e") (auto simp: step_def)
  have "fold step es s = s" if "set es \<subseteq> set (sorted_depends root)" for es s
    using that by (induction es) (simp_all add: idle)
  then have "fold step (sorted_depends root) ([k], []) = ([k], [])" by blast
  then have "snd (visit (Suc (length sel)) sel k ([], [])) = [k]"
    using c c_root by (simp add: step_def)
  with build_plan_keys [OF plan k] have keys: "map step_key steps = [k]" and
    cand: "\<forall>i < length steps. step_candidate (steps ! i) = the (map_of sel (step_key (steps ! i)))"
    by auto
  from keys obtain s where "steps = [s]" "step_key s = k" by auto
  with cand c c_root show ?thesis by auto
qed

section \<open>What is installed\<close>

lemma all_res_Inr: "all_res f xs = Inr u \<longleftrightarrow> (\<forall>x \<in> set xs. f x = Inr ())"
  by (induction xs) (auto simp: rbind_Inr_iff)

text \<open>C19. A plan never moves a locked skill: where a step concerns a skill that is installed with a
  locked version, the step's candidate has exactly that version, the only exception being the
  root of an \<open>install\<close>, which the user asks for by name.\<close>

theorem locked_versions_kept:
  assumes "planner_plan depth cat installed root mode = Inr steps" and "s \<in> set steps"
    and "map_of installed (step_key s) = Some i" and "given (inst_locked i)"
    and "mode \<noteq> ''install'' \<or> Some (step_key s) \<noteq> cand_key root"
  shows "cand_version (step_candidate s) = inst_locked i"
proof -
  from assms(1) obtain k sel where
    k: "cand_key root = Some k" and
    res: "resolve_recursive depth cat installed [(k, root)] (map (prepare_requirement root) (cand_depends root)) = Inr sel" and
    val: "validate_final_state root sel installed mode = Inr ()" and
    plan: "build_plan root sel installed mode = Inr steps"
    by (auto simp: planner_plan_def rbind_Inr_iff split: if_splits)
  have "root \<in> universe cat root" by (simp add: universe_def)
  with resolve_keys [OF res, of root] k have kin: "k \<in> fst ` set sel" by auto
  obtain n where n: "n < length steps" "s = steps ! n" using assms(2) by (auto simp: in_set_conv_nth)
  note plan' = build_plan_keys [OF plan k]
  have "step_key s \<in> set (map step_key steps)" using assms(2) by simp
  then have "step_key s \<in> fst ` set sel" using visit_root(3) [OF kin] unfolding plan'(1) by blast
  then have "map_of sel (step_key s) \<noteq> None" by (simp add: map_of_eq_None_iff)
  then obtain c where c: "map_of sel (step_key s) = Some c" by blast
  with plan'(2) n have "step_candidate s = c" by auto
  moreover have "locked_ok root installed mode (step_key s, c) = Inr ()"
    using val map_of_SomeD [OF c] by (auto simp: validate_final_state_def rbind_Inr_iff all_res_Inr)
  ultimately show ?thesis
    using assms(3-5) by (auto simp: locked_ok_def split: if_splits)
qed

section \<open>Concrete catalogs\<close>

definition dependency_on :: "string option \<Rightarrow> string \<Rightarrow> string \<Rightarrow> dependency" where
  "dependency_on publisher name version =
     (let q = (case publisher of None \<Rightarrow> None | Some p \<Rightarrow> Some (p @ ''/'' @ name))
      in \<lparr>dep_name = Some name, dep_publisher = publisher, dep_qualified = q,
          dep_identity = opt_or q (Some name), dep_version = Some version, dep_registry = None,
          dep_incubating = False\<rparr>)"

definition skill_of :: "string \<Rightarrow> string \<Rightarrow> string \<Rightarrow> dependency list \<Rightarrow> candidate" where
  "skill_of publisher name version deps =
     \<lparr>cand_name = Some name, cand_publisher = Some publisher,
      cand_qualified = Some (publisher @ ''/'' @ name), cand_mode = Some ''qualified'',
      cand_identity = Some (publisher @ ''/'' @ name), cand_version = Some version,
      cand_stage = Some ''active'', cand_registry = Some ''self'', cand_registry_priority = 0,
      cand_registry_order = 0, cand_source_type = Some ''working-tree'', cand_installable = True,
      cand_snapshot_created = None, cand_dir_name = Some name, cand_path = Some name,
      cand_depends = deps, cand_conflicts = [], cand_extra = []\<rparr>"

definition util1 :: candidate where
  "util1 = skill_of ''pub'' ''util'' ''1.0.0'' []"

definition lib1 :: candidate where
  "lib1 = skill_of ''pub'' ''lib'' ''1.2.0'' [dependency_on (Some ''pub'') ''util'' ''>=1.0.0'']"

definition lib2 :: candidate where
  "lib2 = skill_of ''pub'' ''lib'' ''2.0.0'' []"

definition app :: candidate where
  "app = skill_of ''me'' ''app'' ''1.0.0''
     [dependency_on (Some ''pub'') ''lib'' ''^1.0.0'', dependency_on (Some ''pub'') ''util'' ''*'']"

definition sample_catalog :: catalog where
  "sample_catalog =
     \<lparr>cat_by_name = [(''lib'', [lib2, lib1]), (''util'', [util1])],
      cat_by_identity = [(''pub/lib'', [lib2, lib1]), (''pub/util'', [util1])],
      cat_registries = [''self'']\<rparr>"

lemma sample_catalog_indexes:
  "candidate_indexes [lib1, util1, lib2] = Inr (cat_by_name sample_catalog, cat_by_identity sample_catalog)"
  by code_simp

definition app_selection :: selection where
  "app_selection = [(''me/app'', app), (''pub/lib'', lib1), (''pub/util'', util1)]"

lemma sample_catalog_facts:
  "pools_exact sample_catalog app" "catalog_readable sample_catalog app"
  "cand_key app = Some ''me/app''"
  by code_simp+

lemma app_selection_result:
  "resolve_recursive 20 sample_catalog [] [(''me/app'', app)] (requirements_of app) = Inr app_selection"
  by code_simp

lemma planner_sound_witness:
  "map_of app_selection ''me/app'' = Some app \<and>
   (\<exists>d. map_of app_selection ''pub/lib'' = Some d \<and>
        candidate_satisfies_all d [hd (requirements_of app)] = Inr True)"
proof -
  have r: "hd (requirements_of app) \<in> set (requirements_of app)" "(''me/app'', app) \<in> set app_selection"
    "dep_key (hd (requirements_of app)) = Some ''pub/lib''"
    by code_simp+
  from planner_sound [OF sample_catalog_facts(3,1) app_selection_result] r show ?thesis by fastforce
qed

lemma sample_search_bound: "search_bound sample_catalog app < 20"
  by code_simp

lemma planner_terminates_witness:
  "(\<exists>sel. resolve_recursive 20 sample_catalog [] [(''me/app'', app)] (requirements_of app) = Inr sel) \<or>
   (\<exists>m. resolve_recursive 20 sample_catalog [] [(''me/app'', app)] (requirements_of app) = Inl (DependencyError m))"
  by (rule planner_terminates [OF sample_catalog_facts(3,1,2) sample_search_bound])

lemma solution_of_list:
  assumes "map_of ss k = Some root"
    and "\<forall>(i, c) \<in> set ss. cand_key c = Some i \<and>
          (\<forall>r \<in> set (requirements_of c).
             case dep_key r of None \<Rightarrow> False | Some j \<Rightarrow>
               (case map_of ss j of None \<Rightarrow> False | Some d \<Rightarrow>
                  meets d r \<and> (j \<noteq> k \<longrightarrow> d \<in> set (candidate_pool r cat)))) \<and>
          (\<forall>(j, d) \<in> set ss. i \<noteq> j \<longrightarrow> compatible c d)"
  shows "solution cat root k (map_of ss)"
  unfolding solution_def
proof (intro conjI allI impI)
  fix i c r assume i: "map_of ss i = Some c"
  note all = bspec [OF assms(2) map_of_SomeD [OF i], unfolded prod.case]
  show "cand_key c = Some i" using all by blast
  show "\<exists>j d. dep_key r = Some j \<and> map_of ss j = Some d \<and> meets d r \<and>
            (j \<noteq> k \<longrightarrow> d \<in> set (candidate_pool r cat))" if "r \<in> set (requirements_of c)"
    using all that by (fastforce split: option.splits)
  show "compatible c d" if "map_of ss j = Some d" "i \<noteq> j" for j d
    using all map_of_SomeD [OF that(1)] that(2) by blast
qed (rule assms(1))

lemma app_solution: "solution sample_catalog app ''me/app'' (map_of app_selection)"
  by (rule solution_of_list) code_simp+


definition app_rank :: "string \<Rightarrow> nat" where
  "app_rank k = (if k = ''me/app'' then 2 else if k = ''pub/lib'' then 1 else 0)"

lemma app_acyclic: "edge app_selection i j \<Longrightarrow> app_rank j < app_rank i"
proof -
  have all: "\<forall>(i, c) \<in> set app_selection. \<forall>e \<in> set (cand_depends c).
      case dep_key e of None \<Rightarrow> True | Some j \<Rightarrow> app_rank j < app_rank i"
    by code_simp
  assume "edge app_selection i j"
  then obtain c e where "map_of app_selection i = Some c" "e \<in> set (cand_depends c)" "dep_key e = Some j"
    by (auto simp: edge_def)
  with bspec [OF all map_of_SomeD [OF this(1)]] show ?thesis by auto
qed

definition app_plan :: "plan_step list" where
  "app_plan = (case build_plan app app_selection [] ''install'' of Inr steps \<Rightarrow> steps | Inl _ \<Rightarrow> [])"

lemma app_plan_result: "build_plan app app_selection [] ''install'' = Inr app_plan"
proof -
  have "case build_plan app app_selection [] ''install'' of Inr _ \<Rightarrow> True | Inl _ \<Rightarrow> False"
    by code_simp
  then show ?thesis by (auto simp: app_plan_def split: sum.splits)
qed


definition bare_app :: candidate where
  "bare_app = skill_of ''me'' ''app'' ''1.0.0'' [dependency_on None ''util'' ''^1.0.0'']"

definition bare_steps :: "plan_step list" where
  "bare_steps = (case planner_plan 20 sample_catalog [] bare_app ''install'' of Inr steps \<Rightarrow> steps | Inl _ \<Rightarrow> [])"

lemma bare_app_facts:
  "case planner_plan 20 sample_catalog [] bare_app ''install'' of Inr _ \<Rightarrow> True | Inl _ \<Rightarrow> False"
  "\<forall>e \<in> set (cand_depends bare_app). \<forall>c \<in> universe sample_catalog bare_app. dep_key e \<noteq> cand_key c"
  "\<forall>c \<in> universe sample_catalog bare_app. cand_key c = cand_key bare_app \<longrightarrow> c = bare_app"
  by code_simp+

lemma bare_dependencies_left_out_witness: "map step_candidate bare_steps = [bare_app]"
proof -
  have "planner_plan 20 sample_catalog [] bare_app ''install'' = Inr bare_steps"
    using bare_app_facts(1) by (auto simp: bare_steps_def split: sum.splits)
  from bare_dependencies_left_out [OF this bare_app_facts(2,3)] show ?thesis .
qed

definition locked_util :: installed_state where
  "locked_util = [(''pub/util'',
     \<lparr>inst_name = Some ''util'', inst_publisher = Some ''pub'', inst_qualified = Some ''pub/util'',
      inst_identity = Some ''pub/util'', inst_version = Some ''1.0.0'', inst_locked = Some ''1.0.0'',
      inst_registry = Some ''self'', inst_path = None, inst_conflicts = []\<rparr>)]"

lemma locked_versions_kept_witness:
  "\<exists>steps s. planner_plan 20 sample_catalog locked_util app ''install'' = Inr steps \<and> s \<in> set steps \<and>
     step_key s = ''pub/util'' \<and> cand_version (step_candidate s) = Some ''1.0.0''"
proof -
  have "case planner_plan 20 sample_catalog locked_util app ''install'' of
      Inr steps \<Rightarrow> list_ex (\<lambda>s. step_key s = ''pub/util'') steps | Inl _ \<Rightarrow> False"
    by code_simp
  then obtain steps s where s: "planner_plan 20 sample_catalog locked_util app ''install'' = Inr steps"
    "s \<in> set steps" "step_key s = ''pub/util''"
    by (auto simp: list_ex_iff split: sum.splits)
  moreover have "cand_key app = Some ''me/app''" by (rule sample_catalog_facts(3))
  ultimately have "cand_version (step_candidate s) = inst_locked (snd (hd locked_util))"
    by (intro locked_versions_kept [OF s(1,2)]) (simp_all add: locked_util_def given_def)
  with s show ?thesis by (auto simp: locked_util_def)
qed

section \<open>A cycle of bare names\<close>

definition foo :: candidate where
  "foo = skill_of ''alice'' ''foo'' ''1.0.0'' [dependency_on None ''bar'' ''*'']"

definition bar :: candidate where
  "bar = skill_of ''bob'' ''bar'' ''1.0.0'' [dependency_on None ''foo'' ''*'']"

definition knot_app :: candidate where
  "knot_app = skill_of ''me'' ''app'' ''1.0.0'' [dependency_on None ''foo'' ''*'']"

definition knot_catalog :: catalog where
  "knot_catalog =
     \<lparr>cat_by_name = [(''foo'', [foo]), (''bar'', [bar])],
      cat_by_identity = [(''alice/foo'', [foo]), (''bob/bar'', [bar])], cat_registries = [''self'']\<rparr>"

definition knot1 :: selection where
  "knot1 = [(''me/app'', knot_app)]"

definition knot2 :: selection where
  "knot2 = knot1 @ [(''alice/foo'', foo)]"

definition knot3 :: selection where
  "knot3 = knot2 @ [(''bob/bar'', bar)]"

text \<open>A single requirement whose only candidate can be tried: the search goes on with it.\<close>

definition forced :: "catalog \<Rightarrow> selection \<Rightarrow> requirement \<Rightarrow> candidate \<Rightarrow> selection \<Rightarrow> bool" where
  "forced cat sel r c sel' \<longleftrightarrow>
     (case dep_key r of
        None \<Rightarrow> False
      | Some k \<Rightarrow>
          k \<noteq> [] \<and> constraints_compatible [r] \<and> map_of sel k = None \<and>
          matching_candidates r [r] None cat = Inr [c] \<and> selected_conflict_reason c sel = Inr None \<and>
          given (cand_key c) \<and> AList.update (the (cand_key c)) c sel = sel')"

lemma forced_step:
  assumes "forced cat sel r c sel'"
    and "resolve_recursive d cat [] sel' (requirements_of c) = Inl RecursionError"
  shows "resolve_recursive (Suc d) cat [] sel [r] = Inl RecursionError"
proof -
  from assms(1) obtain k where k: "dep_key r = Some k" "k \<noteq> []" "constraints_compatible [r]" "map_of sel k = None"
    "matching_candidates r [r] None cat = Inr [c]" "selected_conflict_reason c sel = Inr None"
    "given (cand_key c)" "AList.update (the (cand_key c)) c sel = sel'"
    by (auto simp: forced_def split: option.splits)
  have g: "next_requirement_group [r] = Inr (r, k, text_or (display_dependency r) k, [r], [])"
    using k(1,2) by (simp add: next_requirement_group_def given_def)
  show ?thesis
    using k(3-8) assms(2)
    by (simp add: resolve_recursive_step [OF _ g] given_def requirements_of_def
          del: resolve_recursive.simps)
qed

lemma knot_forced:
  "forced knot_catalog knot1 (hd (requirements_of knot_app)) foo knot2"
  "forced knot_catalog knot2 (hd (requirements_of foo)) bar knot3"
  "forced knot_catalog knot3 (hd (requirements_of bar)) foo knot3"
  "forced knot_catalog knot3 (hd (requirements_of foo)) bar knot3"
  by code_simp+

lemma knot_requirements:
  "requirements_of knot_app = [hd (requirements_of knot_app)]"
  "requirements_of foo = [hd (requirements_of foo)]"
  "requirements_of bar = [hd (requirements_of bar)]"
  by code_simp+

lemma knot_loop:
  "resolve_recursive d knot_catalog [] knot3 (requirements_of foo) = Inl RecursionError \<and>
   resolve_recursive d knot_catalog [] knot3 (requirements_of bar) = Inl RecursionError"
proof (induction d)
  case (Suc d)
  then show ?case
    using forced_step [OF knot_forced(4), of d] forced_step [OF knot_forced(3), of d]
    by (simp only: knot_requirements(2,3) [symmetric] simp_thms)
qed simp

text \<open>C20. A cycle of dependencies by bare name makes the search run for ever: the root needs
  \<open>foo\<close>, \<open>alice/foo\<close> needs \<open>bar\<close> and \<open>bob/bar\<close> needs \<open>foo\<close>.  A selected skill is not found
  again under its bare name, so it is selected anew and its dependencies become pending again;
  whatever the number of frames, the search ends only by exhausting them.\<close>

theorem bare_cycle_never_ends:
  "resolve_recursive depth knot_catalog [] [(''me/app'', knot_app)] (requirements_of knot_app) = Inl RecursionError"
proof -
  have two: "resolve_recursive d knot_catalog [] knot2 (requirements_of foo) = Inl RecursionError" for d
  proof (cases d)
    case (Suc n)
    with forced_step [OF knot_forced(2), of n] knot_loop [of n] show ?thesis
      by (simp only: knot_requirements(2) [symmetric] simp_thms)
  qed simp
  have one: "resolve_recursive d knot_catalog [] knot1 (requirements_of knot_app) = Inl RecursionError" for d
  proof (cases d)
    case (Suc n)
    with forced_step [OF knot_forced(1), of n] two [of n] show ?thesis
      by (simp only: knot_requirements(1) [symmetric] simp_thms)
  qed simp
  from one [of depth] show ?thesis by (simp only: knot1_def)
qed

end
