(* ===== verification/TeamPolicy.thy ===== *)
theory TeamPolicy
  imports Dependencies
begin

text \<open>
  Policy texts and teams of the client: the string lists of \<open>policy/primitives.py\<close>, the team
  policy and the expansion of team references of \<open>policy/team_policy.py\<close>.  A validation
  returns the list of its error messages beside what it could normalise.
\<close>

section \<open>Lists of texts\<close>

definition nonempty_texts :: "json list \<Rightarrow> string list" where
  "nonempty_texts xs = map the (filter (\<lambda>t. t \<noteq> None) (map stripped_text xs))"

definition normalize_string_list :: "json \<Rightarrow> string list" where
  "normalize_string_list v = (case v of JList xs \<Rightarrow> unique (nonempty_texts xs) | _ \<Rightarrow> [])"

text \<open>\<open>isinstance(v, list) and all(isinstance(item, str) and item.strip() for item in v)\<close>.\<close>

definition text_list :: "json \<Rightarrow> bool" where
  "text_list v = (case v of JList xs \<Rightarrow> list_all (\<lambda>x. stripped_text x \<noteq> None) xs | _ \<Rightarrow> False)"

definition is_list :: "json \<Rightarrow> bool" where
  "is_list v = (case v of JList _ \<Rightarrow> True | _ \<Rightarrow> False)"

definition is_str :: "json \<Rightarrow> bool" where
  "is_str v = (case v of JStr _ \<Rightarrow> True | _ \<Rightarrow> False)"

definition is_bool :: "json \<Rightarrow> bool" where
  "is_bool v = (case v of JBool _ \<Rightarrow> True | _ \<Rightarrow> False)"

definition has_key :: "(string \<times> json) list \<Rightarrow> string \<Rightarrow> bool" where
  "has_key m k \<longleftrightarrow> map_of m k \<noteq> None"

text \<open>\<open>isinstance(v, int) and v >= least\<close>, which holds of \<open>True\<close> as of 1.\<close>

definition int_at_least :: "int \<Rightarrow> json \<Rightarrow> bool" where
  "int_at_least least v = (case int_instance v of None \<Rightarrow> False | Some i \<Rightarrow> least \<le> i)"

definition unknown_keys :: "string list \<Rightarrow> (string \<times> json) list \<Rightarrow> string list" where
  "unknown_keys allowed m = sort (filter (\<lambda>k. k \<notin> set allowed) (map fst m))"

definition complain :: "bool \<Rightarrow> string \<Rightarrow> string list" where
  "complain b message = (if b then [message] else [])"

definition unsupported :: "string \<Rightarrow> string list \<Rightarrow> (string \<times> json) list \<Rightarrow> string list" where
  "unsupported label allowed m =
     (let u = unknown_keys allowed m
      in complain (u \<noteq> []) (label @ '' has unsupported keys: '' @ join '', '' u))"

section \<open>Team policy\<close>

record team_entry =
  tea_members :: "string list"
  tea_delegates :: "string list"
  tea_description :: "string option"

type_synonym team_map = "(string \<times> team_entry) list"

definition validate_team :: "string \<Rightarrow> json \<Rightarrow> string list \<times> team_entry option" where
  "validate_team name raw =
     (let label = ''team-policy teams.'' @ name in
      if \<not> skill_name_text name
      then ([''team-policy teams contains invalid team name '' @ py_repr name], None)
      else (case raw of
        JObj m \<Rightarrow>
          (let not_array = (\<lambda>field. complain (jget m field \<noteq> JNull \<and> \<not> is_list (jget m field))
                 (label @ ''.'' @ field @ '' must be an array when present''))
           in (unsupported label [''members'', ''delegates'', ''description''] m @
               not_array ''members'' @ not_array ''delegates'' @
               complain (jget m ''description'' \<noteq> JNull \<and> \<not> is_str (jget m ''description''))
                 (label @ ''.description must be a string when present''),
               Some \<lparr>tea_members = normalize_string_list (jget m ''members''),
                     tea_delegates = normalize_string_list (jget m ''delegates''),
                     tea_description = stripped_text (jget m ''description'')\<rparr>))
      | _ \<Rightarrow> ([label @ '' must be an object''], None)))"

definition policy_root_errors :: "string \<Rightarrow> string list \<Rightarrow> (string \<times> json) list \<Rightarrow> string list" where
  "policy_root_errors label keys m =
     unsupported label keys m @
     complain (has_key m ''$schema'' \<and> \<not> is_str (jget m ''$schema''))
       (label @ '' $schema must be a string when present'') @
     complain (\<not> int_at_least 1 (jget m ''version''))
       (label @ '' version must be an integer >= 1'')"

definition named_entries :: "(string \<Rightarrow> json \<Rightarrow> string list \<times> 'a option) \<Rightarrow> (string \<times> json) list \<Rightarrow>
    string list \<times> (string \<times> 'a) list" where
  "named_entries f m =
     (concat (map (\<lambda>(k, v). fst (f k v)) m),
      concat (map (\<lambda>(k, v). case snd (f k v) of None \<Rightarrow> [] | Some x \<Rightarrow> [(k, x)]) m))"

definition validate_team_policy :: "json \<Rightarrow> string list \<times> team_map" where
  "validate_team_policy payload =
     (case payload of
        JObj m \<Rightarrow>
          (let teams = jget_or m ''teams'' (JObj []);
               raw = (case teams of JObj t \<Rightarrow> t | _ \<Rightarrow> []);
               (errors, normalized) = named_entries validate_team raw
           in (policy_root_errors ''team-policy'' [''$schema'', ''version'', ''teams''] m @
               complain (\<not> is_obj teams) ''team-policy teams must be an object'' @ errors,
               normalized))
      | _ \<Rightarrow> ([''team policy must be a JSON object''], []))"

text \<open>\<open>load_team_policy\<close>, on the effective policy of the team domain.\<close>

definition load_team_policy :: "json option \<Rightarrow> string list + team_map" where
  "load_team_policy effective =
     (case effective of
        None \<Rightarrow> Inr []
      | Some payload \<Rightarrow>
          (let (errors, teams) = validate_team_policy (json_or payload (JObj []))
           in if errors \<noteq> [] then Inl errors else Inr teams))"

record team_report =
  trp_actors :: "string list"
  trp_resolved :: "string list"
  trp_missing :: "string list"

text \<open>The names given are those of \<open>normalize_string_list\<close>, so stripped and not empty.\<close>

definition expand_team_refs :: "string list \<Rightarrow> team_map \<Rightarrow> team_report" where
  "expand_team_refs names teams =
     \<lparr>trp_actors = unique (concat (map (\<lambda>n. case map_of teams n of
            None \<Rightarrow> [] | Some t \<Rightarrow> tea_members t @ tea_delegates t) names)),
      trp_resolved = unique (filter (\<lambda>n. map_of teams n \<noteq> None) names),
      trp_missing = unique (filter (\<lambda>n. map_of teams n = None) names)\<rparr>"

section \<open>Facts\<close>

lemma set_unique [simp]: "set (unique xs) = set xs"
  by (simp add: unique_def)

lemma distinct_unique [simp]: "distinct (unique xs)"
  by (simp add: unique_def)

lemma unique_distinct: "distinct xs \<Longrightarrow> unique xs = xs"
  by (simp add: unique_def distinct_remdups_id)

lemma nonempty_texts_stripped: "t \<in> set (nonempty_texts xs) \<Longrightarrow> t \<noteq> [] \<and> strip t = t"
  by (auto simp: nonempty_texts_def stripped_text_def split: json.splits if_splits)

lemma normalize_string_list_facts:
  "distinct (normalize_string_list v) \<and> (\<forall>t \<in> set (normalize_string_list v). t \<noteq> [] \<and> strip t = t)"
  using nonempty_texts_stripped by (auto simp: normalize_string_list_def split: json.splits)

lemma expand_team_refs_actors:
  "a \<in> set (trp_actors (expand_team_refs names teams)) \<longleftrightarrow>
     (\<exists>n \<in> set names. \<exists>t. map_of teams n = Some t \<and> a \<in> set (tea_members t) \<union> set (tea_delegates t))"
proof -
  have "a \<in> set (case map_of teams n of None \<Rightarrow> [] | Some t \<Rightarrow> tea_members t @ tea_delegates t) \<longleftrightarrow>
        (\<exists>t. map_of teams n = Some t \<and> a \<in> set (tea_members t) \<union> set (tea_delegates t))" for n
    by (cases "map_of teams n") simp_all
  then show ?thesis by (simp add: expand_team_refs_def)
qed

end
