(* ===== verification/SkillIdentity.thy ===== *)
theory SkillIdentity
  imports TeamPolicy
begin

text \<open>
  Skill identities and the namespace policy, \<open>policy/skill_identity.py\<close>: the identity read from
  a skill's metadata and its validation, the normalisation of the policy, and the report that
  decides whether a skill may claim its publisher's namespace.
\<close>

section \<open>Identity of a skill\<close>

record full_identity = skill_identity +
  idn_owner :: "string option"
  idn_owners :: "string list"
  idn_maintainers :: "string list"
  idn_author :: "string option"

definition full_skill_identity :: "(string \<times> json) list \<Rightarrow> full_identity" where
  "full_skill_identity meta =
     (let base = normalize_skill_identity meta;
          owner = stripped_text (jget meta ''owner'');
          listed = normalize_string_list (jget meta ''owners'');
          owners = (if listed = [] \<and> given owner then [the owner] else listed);
          author = (case stripped_text (jget meta ''author'') of
                      Some a \<Rightarrow> Some a
                    | None \<Rightarrow> (case owners of x # _ \<Rightarrow> Some x | [] \<Rightarrow> owner))
      in \<lparr>idn_name = idn_name base, idn_publisher = idn_publisher base,
          idn_qualified = idn_qualified base, idn_mode = idn_mode base, idn_owner = owner,
          idn_owners = owners, idn_maintainers = normalize_string_list (jget meta ''maintainers''),
          idn_author = author\<rparr>)"

text \<open>\<open>display_name\<close> of an identity; the texts of one are never empty.\<close>

definition identity_display :: "full_identity \<Rightarrow> string option" where
  "identity_display i =
     opt_or (idn_qualified i) (opt_or (derive_qualified_name (idn_name i) (idn_publisher i)) (idn_name i))"

definition slug_words :: "string \<Rightarrow> bool" where
  "slug_words s = list_all (\<lambda>w. w \<noteq> [] \<and> list_all (\<lambda>c. is_digit c \<or> is_lower_ascii c) w)
                    (split_on (CHR ''-'') s)"

text \<open>\<open>^[a-z0-9]+(?:-[a-z0-9]+)*/[a-z0-9]+(?:-[a-z0-9]+)*$\<close>\<close>

definition qualified_name_text :: "string \<Rightarrow> bool" where
  "qualified_name_text s =
     (let (a, found, b) = partition_on (CHR ''/'') (chop_newline s)
      in found \<and> slug_words a \<and> slug_words b)"

text \<open>
  The validation calls \<open>strip\<close> on a \<open>qualified_name\<close> it has just found not to be a text,
  when the other two fields give a name: an exception no caller handles.
\<close>

datatype python_error = NoAttribute string

definition qualified_name_errors :: "json \<Rightarrow> string option \<Rightarrow> string option \<Rightarrow> python_error + string list" where
  "qualified_name_errors q name publisher =
     (case q of
        JNull \<Rightarrow> Inr []
      | JStr s \<Rightarrow>
          (let shape = (if strip s = [] then [''qualified_name must be a non-empty string when present'']
                        else complain (CHR ''/'' \<in> set s \<and> \<not> qualified_name_text s)
                               (''invalid qualified_name '' @ py_repr s));
               expected = derive_qualified_name name publisher
           in Inr (shape @ complain (given expected \<and> Some (strip s) \<noteq> expected)
                     (''qualified_name '' @ py_repr s @ '' must equal '' @ py_repr (the expected))))
      | _ \<Rightarrow>
          if given (derive_qualified_name name publisher) then Inl (NoAttribute ''strip'')
          else Inr [''qualified_name must be a non-empty string when present''])"

definition validate_identity_metadata ::
    "(string \<times> json) list \<Rightarrow> python_error + full_identity \<times> string list" where
  "validate_identity_metadata meta =
     (let i = full_skill_identity meta;
          owners = jget meta ''owners''; author = jget meta ''author'';
          publisher_errors =
            (case idn_publisher i of
               None \<Rightarrow> [''publisher must be a non-empty string'']
             | Some p \<Rightarrow> complain (\<not> skill_name_text p)
                            (''invalid publisher '' @ py_repr_json (jget meta ''publisher'')))
      in rbind (qualified_name_errors (jget meta ''qualified_name'') (idn_name i) (idn_publisher i)) (\<lambda>q.
         Inr (i, publisher_errors @ q @
           complain (owners \<noteq> JNull \<and> \<not> text_list owners)
             ''owners must be an array of non-empty strings when present'' @
           complain (author \<noteq> JNull \<and> stripped_text author = None)
             ''author must be a non-empty string when present'' @
           complain (given (idn_owner i) \<and> idn_owners i \<noteq> [] \<and> the (idn_owner i) \<notin> set (idn_owners i))
             (''owner '' @ py_repr (the (idn_owner i)) @ '' must also appear in owners''))))"

section \<open>Namespace policy\<close>

record publisher_entry =
  pub_owners :: "string list"
  pub_maintainers :: "string list"
  pub_signers :: "string list"
  pub_releasers :: "string list"
  pub_resolved_owners :: "string list"
  pub_resolved_maintainers :: "string list"
  pub_owner_teams :: "string list"
  pub_maintainer_teams :: "string list"
  pub_signer_teams :: "string list"
  pub_releaser_teams :: "string list"

record transfer =
  trf_name :: string
  trf_from :: "string option"
  trf_to :: "string option"
  trf_approved_by :: "string list"
  trf_note :: "string option"

record namespace_policy =
  nsp_version :: json
  nsp_allow_unqualified :: bool
  nsp_publishers :: "(string \<times> publisher_entry) list"
  nsp_transfers :: "transfer list"

definition actor_fields :: "string list" where
  "actor_fields = [''owners'', ''maintainers'', ''authorized_signers'', ''authorized_releasers'']"

definition team_fields :: "string list" where
  "team_fields = [''owner_teams'', ''maintainer_teams'', ''authorized_signer_teams'',
                  ''authorized_releaser_teams'']"

definition validate_namespace_root :: "(string \<times> json) list \<Rightarrow> string list \<times> json \<times> bool" where
  "validate_namespace_root payload =
     (let raw = jget payload ''compatibility'';
          compat = (case raw of JObj c \<Rightarrow> c | _ \<Rightarrow> []);
          unqualified = jget_or compat ''allow_unqualified_names'' (JBool True)
      in (policy_root_errors ''namespace-policy''
            [''$schema'', ''version'', ''compatibility'', ''publishers'', ''transfers''] payload @
          complain (raw \<noteq> JNull \<and> \<not> is_obj raw) ''namespace-policy compatibility must be an object'' @
          complain (\<not> is_bool unqualified)
            ''namespace-policy compatibility.allow_unqualified_names must be boolean'',
          jget payload ''version'',
          unqualified \<noteq> JBool False))"

definition or_list :: "'a list \<Rightarrow> 'a list \<Rightarrow> 'a list" where
  "or_list a b = (if a = [] then b else a)"

definition resolve_publisher_entry ::
    "team_map \<Rightarrow> string \<Rightarrow> (string \<times> json) list \<Rightarrow> string list \<times> publisher_entry" where
  "resolve_publisher_entry teams name raw =
     (let label = ''namespace-policy publishers.'' @ name;
          names = (\<lambda>field. normalize_string_list (jget raw field));
          actors = (\<lambda>field. trp_actors (expand_team_refs (names field) teams));
          owners = names ''owners'';
          maintainers = names ''maintainers'';
          resolved_owners = unique (owners @ actors ''owner_teams'');
          resolved_maintainers = unique (resolved_owners @ maintainers @ actors ''maintainer_teams'')
      in (unsupported label (actor_fields @ team_fields) raw @
          concat (map (\<lambda>field. complain (jget raw field \<noteq> JNull \<and> \<not> is_list (jget raw field))
                         (label @ ''.'' @ field @ '' must be an array when present''))
                    (actor_fields @ team_fields)) @
          concat (map (\<lambda>field. map (\<lambda>t. label @ ''.'' @ field @ '' references unknown team '' @ py_repr t)
                         (trp_missing (expand_team_refs (names field) teams))) team_fields) @
          complain (owners = [] \<and> names ''owner_teams'' = [])
            (label @ '' must include at least one owner actor or owner team''),
          \<lparr>pub_owners = owners, pub_maintainers = maintainers,
           pub_signers = or_list (names ''authorized_signers'')
             (unique (resolved_maintainers @ actors ''authorized_signer_teams'')),
           pub_releasers = or_list (names ''authorized_releasers'')
             (unique (resolved_maintainers @ actors ''authorized_releaser_teams'')),
           pub_resolved_owners = resolved_owners,
           pub_resolved_maintainers = resolved_maintainers,
           pub_owner_teams = names ''owner_teams'', pub_maintainer_teams = names ''maintainer_teams'',
           pub_signer_teams = names ''authorized_signer_teams'',
           pub_releaser_teams = names ''authorized_releaser_teams''\<rparr>))"

definition load_publisher :: "team_map \<Rightarrow> string \<Rightarrow> json \<Rightarrow> string list \<times> publisher_entry option" where
  "load_publisher teams name raw =
     (if \<not> skill_name_text name
      then ([''namespace-policy publishers contains invalid publisher name '' @ py_repr name], None)
      else (case raw of
              JObj m \<Rightarrow> (let (errors, entry) = resolve_publisher_entry teams name m in (errors, Some entry))
            | _ \<Rightarrow> ([''namespace-policy publishers.'' @ name @ '' must be an object''], None)))"

definition load_publishers ::
    "(string \<times> json) list \<Rightarrow> team_map \<Rightarrow> string list \<times> (string \<times> publisher_entry) list" where
  "load_publishers payload teams =
     (case jget_or payload ''publishers'' (JObj []) of
        JObj m \<Rightarrow> named_entries (load_publisher teams) m
      | _ \<Rightarrow> ([''namespace-policy publishers must be an object''], []))"

definition slug_or_null :: "json \<Rightarrow> bool" where
  "slug_or_null v = (case v of JNull \<Rightarrow> True | JStr s \<Rightarrow> skill_name_text s | _ \<Rightarrow> False)"

definition normalize_transfer :: "nat \<Rightarrow> json \<Rightarrow> string list \<times> transfer option" where
  "normalize_transfer index raw =
     (let label = ''namespace-policy transfers['' @ str_of_int (int index) @ '']'' in
      case raw of
        JObj m \<Rightarrow>
          (let errors = unsupported label [''name'', ''from'', ''to'', ''approved_by'', ''note''] m;
               approved = normalize_string_list (jget m ''approved_by'');
               note = jget m ''note''
           in case jstr (jget m ''name'') of
                None \<Rightarrow> (errors @ [label @ ''.name must be a lowercase skill slug''], None)
              | Some name \<Rightarrow>
                  if \<not> skill_name_text name
                  then (errors @ [label @ ''.name must be a lowercase skill slug''], None)
                  else if \<not> slug_or_null (jget m ''from'')
                  then (errors @ [label @ ''.from must be null or a publisher slug''], None)
                  else if \<not> slug_or_null (jget m ''to'')
                  then (errors @ [label @ ''.to must be null or a publisher slug''], None)
                  else if approved = []
                  then (errors @ [label @ ''.approved_by must include at least one actor''], None)
                  else if note \<noteq> JNull \<and> stripped_text note = None
                  then (errors @ [label @ ''.note must be a non-empty string when present''], None)
                  else (errors, Some \<lparr>trf_name = name, trf_from = jstr (jget m ''from''),
                          trf_to = jstr (jget m ''to''), trf_approved_by = approved,
                          trf_note = stripped_text note\<rparr>))
      | _ \<Rightarrow> ([label @ '' must be an object''], None))"

definition load_transfers :: "(string \<times> json) list \<Rightarrow> string list \<times> transfer list" where
  "load_transfers payload =
     (case jget_or payload ''transfers'' (JList []) of
        JNull \<Rightarrow> ([], [])
      | JList xs \<Rightarrow>
          (let rs = map (\<lambda>(i, x). normalize_transfer i x) (enumerate 1 xs)
           in (concat (map fst rs), concat (map (\<lambda>r. case snd r of None \<Rightarrow> [] | Some t \<Rightarrow> [t]) rs)))
      | _ \<Rightarrow> ([''namespace-policy transfers must be an array''], []))"

definition load_namespace_policy ::
    "(string \<times> json) list \<Rightarrow> team_map \<Rightarrow> string list + namespace_policy" where
  "load_namespace_policy payload teams =
     (let (root_errors, version, unqualified) = validate_namespace_root payload;
          (publisher_errors, publishers) = load_publishers payload teams;
          (transfer_errors, transfers) = load_transfers payload;
          errors = root_errors @ publisher_errors @ transfer_errors
      in if errors \<noteq> [] then Inl errors
         else Inr \<lparr>nsp_version = version, nsp_allow_unqualified = unqualified,
                   nsp_publishers = publishers, nsp_transfers = transfers\<rparr>)"

section \<open>Who may claim a namespace\<close>

definition transfer_is_authorized ::
    "namespace_policy \<Rightarrow> string option \<Rightarrow> string option \<Rightarrow> string option \<Rightarrow> transfer option" where
  "transfer_is_authorized policy name from_publisher to_publisher =
     find (\<lambda>t. Some (trf_name t) = name \<and> trf_from t = from_publisher \<and> trf_to t = to_publisher)
       (nsp_transfers policy)"

definition publisher_authorization_errors ::
    "string \<Rightarrow> full_identity \<Rightarrow> publisher_entry option \<Rightarrow> string list" where
  "publisher_authorization_errors dir i entry =
     (case idn_publisher i of
        None \<Rightarrow> [dir @ '': publisher is required'']
      | Some p \<Rightarrow>
          (case entry of
             None \<Rightarrow> [dir @ '': publisher '' @ py_repr p @ '' is not declared in policy/namespace-policy.json'']
           | Some e \<Rightarrow>
               (let missing_owners = filter (\<lambda>a. a \<notin> set (pub_resolved_owners e)) (idn_owners i);
                    allowed = set (pub_resolved_owners e) \<union> set (pub_resolved_maintainers e);
                    missing_maintainers = filter (\<lambda>a. a \<notin> allowed) (idn_maintainers i)
                in complain (missing_owners \<noteq> [])
                     (dir @ '': owners '' @ join '', '' missing_owners @
                      '' are not authorized owners for publisher '' @ py_repr p) @
                   complain (missing_maintainers \<noteq> [])
                     (dir @ '': maintainers '' @ join '', '' missing_maintainers @
                      '' are not authorized for publisher '' @ py_repr p))))"

text \<open>
  A skill directory of the registry, as \<open>iter_registry_skill_dirs\<close> yields it when its
  metadata can be read: its path, its stage and the metadata.
\<close>

record skill_dir =
  sdr_path :: string
  sdr_stage :: string
  sdr_meta :: "(string \<times> json) list"

definition competes :: "full_identity \<Rightarrow> full_identity \<Rightarrow> bool" where
  "competes i other \<longleftrightarrow>
     idn_publisher other \<noteq> idn_publisher i \<and>
     (given (idn_name other) \<and> idn_name other = idn_name i \<or>
      given (idn_qualified i) \<and> idn_qualified other = idn_qualified i)"

definition competing_dirs :: "skill_dir \<Rightarrow> skill_dir list \<Rightarrow> full_identity \<Rightarrow> skill_dir list" where
  "competing_dirs here others i =
     filter (\<lambda>x. sdr_path x \<noteq> sdr_path here \<and> competes i (full_skill_identity (sdr_meta x))) others"

definition claim_match ::
    "namespace_policy \<Rightarrow> skill_dir \<Rightarrow> full_identity \<Rightarrow> skill_dir \<Rightarrow> transfer option" where
  "claim_match policy here i other_dir =
     (let other = full_skill_identity (sdr_meta other_dir)
      in case transfer_is_authorized policy (idn_name i) (idn_publisher other) (idn_publisher i) of
           Some t \<Rightarrow> Some t
         | None \<Rightarrow>
             if sdr_stage here = ''archived'' \<or> sdr_stage other_dir = ''archived''
             then transfer_is_authorized policy (idn_name i) (idn_publisher i) (idn_publisher other)
             else None)"

definition claim_error :: "skill_dir \<Rightarrow> full_identity \<Rightarrow> skill_dir \<Rightarrow> string" where
  "claim_error here i other_dir =
     sdr_path here @ '': namespace transfer for '' @ show_opt (map_option py_repr (idn_name i)) @ '' from '' @
     show_opt (map_option py_repr (idn_publisher (full_skill_identity (sdr_meta other_dir)))) @ '' to '' @
     show_opt (map_option py_repr (idn_publisher i)) @
     '' is not authorized by policy/namespace-policy.json''"

record namespace_report =
  nrp_identity :: full_identity
  nrp_authorized :: bool
  nrp_errors :: "string list"
  nrp_warnings :: "string list"
  nrp_transfer_required :: bool
  nrp_transfer_authorized :: bool
  nrp_matches :: "transfer list"
  nrp_claims :: "string list"
  nrp_signers :: "string list"
  nrp_releasers :: "string list"

definition authorized_roles :: "full_identity \<Rightarrow> publisher_entry option \<Rightarrow> string list \<times> string list" where
  "authorized_roles i entry =
     (case entry of
        Some e \<Rightarrow> (pub_signers e, pub_releasers e)
      | None \<Rightarrow> (let f = unique (idn_owners i @ idn_maintainers i) in (f, f)))"

definition declared_entry :: "namespace_policy \<Rightarrow> full_identity \<Rightarrow> publisher_entry option" where
  "declared_entry policy i =
     (case idn_publisher i of None \<Rightarrow> None | Some p \<Rightarrow> map_of (nsp_publishers policy) p)"

definition namespace_policy_report ::
    "namespace_policy \<Rightarrow> skill_dir list \<Rightarrow> skill_dir \<Rightarrow> string \<Rightarrow> python_error + namespace_report" where
  "namespace_policy_report policy others here basename =
     rbind (validate_identity_metadata (sdr_meta here)) (\<lambda>(i, identity_errors).
       let entry = declared_entry policy i;
           claims = competing_dirs here others i;
           unmatched = filter (\<lambda>x. claim_match policy here i x = None) claims;
           errors = identity_errors @ publisher_authorization_errors (sdr_path here) i entry @
                    map (claim_error here i) unmatched;
           (signers, releasers) = authorized_roles i entry
       in Inr \<lparr>nrp_identity = i, nrp_authorized = (errors = []), nrp_errors = errors,
               nrp_warnings = complain (signers = [])
                 (sdr_path here @ '': no authorized_signers resolved for '' @
                  text_or (identity_display i) basename),
               nrp_transfer_required = (claims \<noteq> []), nrp_transfer_authorized = (unmatched = []),
               nrp_matches = map the (filter (\<lambda>t. t \<noteq> None) (map (claim_match policy here i) claims)),
               nrp_claims = map sdr_path claims, nrp_signers = signers, nrp_releasers = releasers\<rparr>)"

section \<open>Facts\<close>

lemma complain_Nil [simp]: "complain b m = [] \<longleftrightarrow> \<not> b"
  by (simp add: complain_def)

lemma named_entries_lookup:
  assumes "fst (named_entries f m) = []" and "\<And>k v. fst (f k v) = [] \<Longrightarrow> snd (f k v) \<noteq> None"
  shows "map_of (snd (named_entries f m)) k = (case map_of m k of None \<Rightarrow> None | Some v \<Rightarrow> snd (f k v))"
  using assms(1)
proof (induction m)
  case Nil
  then show ?case by (simp add: named_entries_def)
next
  case (Cons p m)
  obtain k' v where p: "p = (k', v)" by (cases p)
  have "fst (f k' v) = []" "fst (named_entries f m) = []"
    using Cons.prems by (auto simp: named_entries_def p)
  moreover from this(1) assms(2) obtain x where "snd (f k' v) = Some x" by blast
  ultimately show ?case using Cons.IH by (simp add: named_entries_def p)
qed

lemma named_entries_no_error:
  assumes "fst (named_entries f m) = []" and "map_of m k = Some v"
  shows "fst (f k v) = []"
  using map_of_SomeD [OF assms(2)] assms(1) by (force simp: named_entries_def)

definition declared_publishers :: "(string \<times> json) list \<Rightarrow> (string \<times> json) list" where
  "declared_publishers payload =
     (case jget_or payload ''publishers'' (JObj []) of JObj m \<Rightarrow> m | _ \<Rightarrow> [])"

text \<open>Who the text of a publisher's entry names in a field, directly or through a team.\<close>

definition named_in :: "team_map \<Rightarrow> (string \<times> json) list \<Rightarrow> string \<Rightarrow> string \<Rightarrow> string \<Rightarrow> bool" where
  "named_in teams raw field team_field a \<longleftrightarrow>
     a \<in> set (normalize_string_list (jget raw field)) \<or>
     (\<exists>n \<in> set (normalize_string_list (jget raw team_field)). \<exists>t. map_of teams n = Some t \<and>
        a \<in> set (tea_members t) \<union> set (tea_delegates t))"

lemma load_publisher_Some:
  "fst (load_publisher teams k v) = [] \<Longrightarrow> snd (load_publisher teams k v) \<noteq> None"
  by (auto simp: load_publisher_def split: json.splits prod.splits if_splits)

lemma load_publisher_name: "fst (load_publisher teams k v) = [] \<Longrightarrow> skill_name_text k"
  by (auto simp: load_publisher_def split: if_splits)

lemma load_publisher_entry:
  "snd (load_publisher teams k v) = Some e \<longleftrightarrow>
     skill_name_text k \<and> (\<exists>raw. v = JObj raw \<and> e = snd (resolve_publisher_entry teams k raw))"
  by (auto simp: load_publisher_def split: json.splits prod.splits)

lemma loaded_policy:
  assumes "load_namespace_policy payload teams = Inr policy"
  shows "map_of (nsp_publishers policy) p =
           (case map_of (declared_publishers payload) p of None \<Rightarrow> None
            | Some v \<Rightarrow> snd (load_publisher teams p v))"
    and "map_of (declared_publishers payload) p = Some v \<Longrightarrow> fst (load_publisher teams p v) = []"
proof -
  obtain m where m: "jget_or payload ''publishers'' (JObj []) = JObj m"
      "nsp_publishers policy = snd (named_entries (load_publisher teams) m)"
      "fst (named_entries (load_publisher teams) m) = []"
    using assms
    by (auto simp: load_namespace_policy_def load_publishers_def split: prod.splits json.splits if_splits)
  have d: "declared_publishers payload = m" by (simp add: declared_publishers_def m(1))
  show "map_of (nsp_publishers policy) p =
           (case map_of (declared_publishers payload) p of None \<Rightarrow> None
            | Some v \<Rightarrow> snd (load_publisher teams p v))"
    unfolding d m(2) by (rule named_entries_lookup [OF m(3) load_publisher_Some])
  show "map_of (declared_publishers payload) p = Some v \<Longrightarrow> fst (load_publisher teams p v) = []"
    unfolding d by (rule named_entries_no_error [OF m(3)])
qed

lemma resolved_names:
  "a \<in> set (pub_resolved_owners (snd (resolve_publisher_entry teams k raw))) \<longleftrightarrow>
     named_in teams raw ''owners'' ''owner_teams'' a"
  "a \<in> set (pub_resolved_maintainers (snd (resolve_publisher_entry teams k raw))) \<longleftrightarrow>
     named_in teams raw ''owners'' ''owner_teams'' a \<or>
     named_in teams raw ''maintainers'' ''maintainer_teams'' a"
  by (auto simp: resolve_publisher_entry_def Let_def named_in_def expand_team_refs_actors)

lemma authorization_errors_Nil:
  "publisher_authorization_errors dir i entry = [] \<longleftrightarrow>
     (\<exists>p e. idn_publisher i = Some p \<and> entry = Some e \<and>
        (\<forall>a \<in> set (idn_owners i). a \<in> set (pub_resolved_owners e)) \<and>
        (\<forall>a \<in> set (idn_maintainers i).
           a \<in> set (pub_resolved_owners e) \<union> set (pub_resolved_maintainers e)))"
  by (auto simp: publisher_authorization_errors_def Let_def filter_empty_conv split: option.splits)

lemma transfer_found:
  "transfer_is_authorized policy n a b \<noteq> None \<longleftrightarrow>
     (\<exists>t \<in> set (nsp_transfers policy). Some (trf_name t) = n \<and> trf_from t = a \<and> trf_to t = b)"
  unfolding transfer_is_authorized_def find_None_iff not_None_eq [symmetric] by blast

lemma claim_match_iff:
  "claim_match policy here i x \<noteq> None \<longleftrightarrow>
     transfer_is_authorized policy (idn_name i) (idn_publisher (full_skill_identity (sdr_meta x))) (idn_publisher i) \<noteq> None \<or>
     (sdr_stage here = ''archived'' \<or> sdr_stage x = ''archived'') \<and>
     transfer_is_authorized policy (idn_name i) (idn_publisher i) (idn_publisher (full_skill_identity (sdr_meta x))) \<noteq> None"
  by (auto simp: claim_match_def Let_def split: option.splits)

lemma validated_identity:
  "validate_identity_metadata meta = Inr (i, errors) \<Longrightarrow> i = full_skill_identity meta"
  by (auto simp: validate_identity_metadata_def Let_def res_simps)

text \<open>A \<open>qualified_name\<close> that is not a text is reported only when no name is given.\<close>

lemma numeric_qualified_name_raises:
  assumes "given (derive_qualified_name (stripped_text (jget meta ''name'')) (stripped_text (jget meta ''publisher'')))"
    and "jget meta ''qualified_name'' = JInt n"
  shows "validate_identity_metadata meta = Inl (NoAttribute ''strip'')"
  using assms
  by (simp add: validate_identity_metadata_def qualified_name_errors_def full_skill_identity_def
                normalize_skill_identity_def Let_def)

section \<open>Properties\<close>

text \<open>C26. A skill may claim its publisher's namespace exactly when its identity is well formed, the
  policy file declares the publisher, each owner of the skill is named there as an owner or is in
  one of its owner teams, each maintainer is named as an owner or maintainer, directly or through
  a team, and for every other skill of the registry with the same name or qualified name under
  another publisher the policy lists a transfer of that name to this publisher, or, when one of
  the two is archived, from it.\<close>

theorem namespace_claim_exact:
  assumes "load_namespace_policy payload teams = Inr policy"
    and "namespace_policy_report policy others here basename = Inr r"
    and "i = full_skill_identity (sdr_meta here)"
  shows "nrp_authorized r \<longleftrightarrow>
     validate_identity_metadata (sdr_meta here) = Inr (i, []) \<and>
     (\<exists>p raw. idn_publisher i = Some p \<and> map_of (declared_publishers payload) p = Some (JObj raw) \<and>
        (\<forall>a \<in> set (idn_owners i). named_in teams raw ''owners'' ''owner_teams'' a) \<and>
        (\<forall>a \<in> set (idn_maintainers i). named_in teams raw ''owners'' ''owner_teams'' a \<or>
                                       named_in teams raw ''maintainers'' ''maintainer_teams'' a)) \<and>
     (\<forall>x \<in> set others. sdr_path x \<noteq> sdr_path here \<and> competes i (full_skill_identity (sdr_meta x)) \<longrightarrow>
        (\<exists>t \<in> set (nsp_transfers policy). Some (trf_name t) = idn_name i \<and>
           (trf_from t = idn_publisher (full_skill_identity (sdr_meta x)) \<and> trf_to t = idn_publisher i \<or>
            (sdr_stage here = ''archived'' \<or> sdr_stage x = ''archived'') \<and>
            trf_from t = idn_publisher i \<and> trf_to t = idn_publisher (full_skill_identity (sdr_meta x)))))"
    (is "_ \<longleftrightarrow> ?well_formed \<and> ?declared \<and> ?transfers")
proof -
  obtain errors where v: "validate_identity_metadata (sdr_meta here) = Inr (i, errors)"
    using assms(2,3) by (auto simp: namespace_policy_report_def res_simps dest: validated_identity)
  have auth: "nrp_authorized r \<longleftrightarrow> errors = [] \<and>
      publisher_authorization_errors (sdr_path here) i (declared_entry policy i) = [] \<and>
      filter (\<lambda>x. claim_match policy here i x = None) (competing_dirs here others i) = []"
    using assms(2) by (auto simp: namespace_policy_report_def v Let_def split: prod.splits)
  have "errors = [] \<longleftrightarrow> ?well_formed" using v by simp
  moreover have "publisher_authorization_errors (sdr_path here) i (declared_entry policy i) = [] \<longleftrightarrow> ?declared"
    unfolding authorization_errors_Nil declared_entry_def
    by (auto simp: loaded_policy(1) [OF assms(1)] load_publisher_entry resolved_names split: option.splits
             dest: load_publisher_name loaded_policy(2) [OF assms(1)])
  moreover have "filter (\<lambda>x. claim_match policy here i x = None) (competing_dirs here others i) = [] \<longleftrightarrow> ?transfers"
    unfolding competing_dirs_def filter_filter filter_empty_conv
    using claim_match_iff [of policy here i] unfolding transfer_found by blast
  ultimately show ?thesis using auth by blast
qed

definition sample_namespace_policy :: "(string \<times> json) list" where
  "sample_namespace_policy =
     [(''version'', JInt 1),
      (''publishers'', JObj
         [(''acme'', JObj [(''owner_teams'', JList [JStr ''core'']), (''maintainers'', JList [JStr ''bob''])])]),
      (''transfers'', JList
         [JObj [(''name'', JStr ''demo''), (''from'', JStr ''old''), (''to'', JStr ''acme''),
                (''approved_by'', JList [JStr ''carol''])]])]"

definition sample_teams :: team_map where
  "sample_teams = [(''core'', \<lparr>tea_members = [''alice''], tea_delegates = [], tea_description = None\<rparr>)]"

definition sample_skill_dirs :: "skill_dir list" where
  "sample_skill_dirs =
     [\<lparr>sdr_path = ''skills/active/demo'', sdr_stage = ''active'',
       sdr_meta = [(''name'', JStr ''demo''), (''publisher'', JStr ''acme''), (''owner'', JStr ''alice''),
                   (''maintainers'', JList [JStr ''bob''])]\<rparr>,
      \<lparr>sdr_path = ''skills/archived/demo'', sdr_stage = ''archived'',
       sdr_meta = [(''name'', JStr ''demo''), (''publisher'', JStr ''old''), (''owner'', JStr ''dave'')]\<rparr>]"

definition sample_loaded_policy :: namespace_policy where
  "sample_loaded_policy =
     \<lparr>nsp_version = JInt 1, nsp_allow_unqualified = True,
      nsp_publishers = [(''acme'',
        \<lparr>pub_owners = [], pub_maintainers = [''bob''], pub_signers = [''alice'', ''bob''],
         pub_releasers = [''alice'', ''bob''], pub_resolved_owners = [''alice''],
         pub_resolved_maintainers = [''alice'', ''bob''], pub_owner_teams = [''core''],
         pub_maintainer_teams = [], pub_signer_teams = [], pub_releaser_teams = []\<rparr>)],
      nsp_transfers = [\<lparr>trf_name = ''demo'', trf_from = Some ''old'', trf_to = Some ''acme'',
                        trf_approved_by = [''carol''], trf_note = None\<rparr>]\<rparr>"

definition sample_identity :: full_identity where
  "sample_identity =
     \<lparr>idn_name = Some ''demo'', idn_publisher = Some ''acme'', idn_qualified = Some ''acme/demo'',
      idn_mode = Some ''qualified'', idn_owner = Some ''alice'', idn_owners = [''alice''],
      idn_maintainers = [''bob''], idn_author = Some ''alice''\<rparr>"

definition sample_namespace_report :: namespace_report where
  "sample_namespace_report =
     \<lparr>nrp_identity = sample_identity, nrp_authorized = True, nrp_errors = [], nrp_warnings = [],
      nrp_transfer_required = True, nrp_transfer_authorized = True,
      nrp_matches = nsp_transfers sample_loaded_policy, nrp_claims = [''skills/archived/demo''],
      nrp_signers = [''alice'', ''bob''], nrp_releasers = [''alice'', ''bob'']\<rparr>"

lemma sample_policy_loads:
  "load_namespace_policy sample_namespace_policy sample_teams = Inr sample_loaded_policy"
  by code_simp

lemma sample_identity_read: "sample_identity = full_skill_identity (sdr_meta (hd sample_skill_dirs))"
  by code_simp

lemma sample_report_computed:
  "namespace_policy_report sample_loaded_policy sample_skill_dirs (hd sample_skill_dirs) ''demo'' =
     Inr sample_namespace_report"
  by code_simp

lemma namespace_claim_exact_witness:
  "nrp_authorized sample_namespace_report \<and> (\<exists>p raw. idn_publisher sample_identity = Some p \<and>
     map_of (declared_publishers sample_namespace_policy) p = Some (JObj raw))"
proof -
  have "nrp_authorized sample_namespace_report" by (simp add: sample_namespace_report_def)
  then show ?thesis
    using namespace_claim_exact [OF sample_policy_loads sample_report_computed sample_identity_read]
    by blast
qed

end
