(* ===== verification/PromotionReview.thy ===== *)
theory PromotionReview
  imports SkillIdentity PyTime
begin

text \<open>
  The review gate of promotions and releases: the review part of the promotion policy and the
  latest decision of each reviewer (\<open>policy/reviews.py\<close>), and the evaluation of the quorum
  (\<open>policy/review_evaluation.py\<close>).  The files a function reads are its arguments.
\<close>

section \<open>Reviewer groups\<close>

record review_group =
  rgr_members :: "string list"
  rgr_teams :: "string list"
  rgr_resolved :: "string list"
  rgr_description :: "string option"

definition normalize_group :: "team_map \<Rightarrow> string \<Rightarrow> json \<Rightarrow> string list \<times> review_group option" where
  "normalize_group teams name raw =
     (let label = ''reviews.groups.'' @ name in
      if \<not> skill_name_text name
      then ([''reviews.groups contains invalid group name '' @ py_repr name], None)
      else if \<not> is_list raw \<and> \<not> is_obj raw
      then ([label @ '' must be an array or object''], None)
      else
        (let m = (case raw of JObj m \<Rightarrow> m | _ \<Rightarrow> [(''members'', raw)]);
             members = jget_or m ''members'' (JList []);
             teams' = jget_or m ''teams'' (JList []);
             description = jget m ''description'';
             direct = (if text_list members then normalize_string_list members else []);
             names = (if text_list teams' then normalize_string_list teams' else []);
             report = expand_team_refs names teams
         in (unsupported label [''members'', ''teams'', ''description''] m @
             complain (\<not> text_list members) (label @ ''.members must be an array of non-empty strings'') @
             complain (\<not> text_list teams') (label @ ''.teams must be an array of non-empty strings'') @
             complain (description \<noteq> JNull \<and> \<not> is_str description)
               (label @ ''.description must be a string when present'') @
             map (\<lambda>t. label @ ''.teams references unknown team '' @ py_repr t) (trp_missing report),
             Some \<lparr>rgr_members = direct, rgr_teams = names,
                   rgr_resolved = unique (direct @ trp_actors report),
                   rgr_description = stripped_text description\<rparr>)))"

definition normalize_groups ::
    "json \<Rightarrow> string list + team_map \<Rightarrow> string list \<times> (string \<times> review_group) list" where
  "normalize_groups raw team_policy =
     (case raw of
        JNull \<Rightarrow> ([], [])
      | JObj m \<Rightarrow>
          (case team_policy of
             Inl errors \<Rightarrow> (errors, [])
           | Inr teams \<Rightarrow> named_entries (normalize_group teams) m)
      | _ \<Rightarrow> ([''reviews.groups must be an object''], []))"

section \<open>Quorum rules\<close>

record quorum_rule =
  qrm_approvals :: "int option"
  qrm_groups :: "string list option"

definition no_rule :: quorum_rule where
  "no_rule = \<lparr>qrm_approvals = None, qrm_groups = None\<rparr>"

definition normalize_quorum_rule :: "string \<Rightarrow> json \<Rightarrow> string list \<times> quorum_rule" where
  "normalize_quorum_rule path raw =
     (case raw of
        JNull \<Rightarrow> ([], no_rule)
      | JObj m \<Rightarrow>
          (let least = jget m ''min_approvals''; groups = jget m ''required_groups'';
               least_ok = int_at_least 0 least
           in (unsupported path [''min_approvals'', ''required_groups''] m @
               complain (has_key m ''min_approvals'' \<and> \<not> least_ok)
                 (path @ ''.min_approvals must be a non-negative integer'') @
               complain (has_key m ''required_groups'' \<and> \<not> text_list groups)
                 (path @ ''.required_groups must be an array of non-empty strings''),
               \<lparr>qrm_approvals = (if has_key m ''min_approvals'' \<and> least_ok then int_instance least else None),
                qrm_groups = (if has_key m ''required_groups'' \<and> text_list groups
                              then Some (normalize_string_list groups) else None)\<rparr>))
      | _ \<Rightarrow> ([path @ '' must be an object''], no_rule))"

definition override_entry :: "string \<Rightarrow> string list \<Rightarrow> string \<Rightarrow> string \<Rightarrow> json \<Rightarrow>
    string list \<times> quorum_rule option" where
  "override_entry path allowed invalid_label name raw =
     (if name \<notin> set allowed
      then ([path @ '' contains invalid '' @ invalid_label @ '' '' @ py_repr name], None)
      else (let (errors, rule) = normalize_quorum_rule (path @ ''.'' @ name) raw in (errors, Some rule)))"

definition normalize_named_overrides :: "(string \<times> json) list \<Rightarrow> string \<Rightarrow> string list \<Rightarrow> string \<Rightarrow>
    string list \<times> (string \<times> quorum_rule) list" where
  "normalize_named_overrides quorum field allowed invalid_label =
     (let path = ''reviews.quorum.'' @ field in
      case jget_or quorum field (JObj []) of
        JObj m \<Rightarrow> named_entries (override_entry path allowed invalid_label) m
      | _ \<Rightarrow> ([path @ '' must be an object''], []))"

definition allowed_stage :: "string list" where
  "allowed_stage = [''incubating'', ''active'', ''archived'']"

definition allowed_risk :: "string list" where
  "allowed_risk = [''low'', ''medium'', ''high'']"

definition stage_risk_entry :: "string \<Rightarrow> string \<Rightarrow> json \<Rightarrow>
    string list \<times> (string \<times> quorum_rule) list option" where
  "stage_risk_entry path stage raw =
     (if stage \<notin> set allowed_stage
      then ([path @ '' contains invalid stage '' @ py_repr stage], None)
      else (case raw of
              JObj m \<Rightarrow>
                (let (errors, rules) =
                   named_entries (override_entry (path @ ''.'' @ stage) allowed_risk ''risk level'') m
                 in (errors, Some rules))
            | _ \<Rightarrow> ([path @ ''.'' @ stage @ '' must be an object''], None)))"

definition normalize_stage_risk_overrides :: "(string \<times> json) list \<Rightarrow>
    string list \<times> (string \<times> (string \<times> quorum_rule) list) list" where
  "normalize_stage_risk_overrides quorum =
     (let path = ''reviews.quorum.stage_risk_overrides'' in
      case jget_or quorum ''stage_risk_overrides'' (JObj []) of
        JObj m \<Rightarrow> named_entries (stage_risk_entry path) m
      | _ \<Rightarrow> ([path @ '' must be an object''], []))"

record quorum_policy =
  qpl_defaults :: quorum_rule
  qpl_stage :: "(string \<times> quorum_rule) list"
  qpl_risk :: "(string \<times> quorum_rule) list"
  qpl_stage_risk :: "(string \<times> (string \<times> quorum_rule) list) list"

text \<open>\<open>dict.update\<close> and \<open>apply\<close>: what the later rule says wins.\<close>

definition update_rule :: "quorum_rule \<Rightarrow> quorum_rule \<Rightarrow> quorum_rule" where
  "update_rule a b =
     \<lparr>qrm_approvals = (case qrm_approvals b of None \<Rightarrow> qrm_approvals a | Some n \<Rightarrow> Some n),
      qrm_groups = (case qrm_groups b of None \<Rightarrow> qrm_groups a | Some g \<Rightarrow> Some g)\<rparr>"

definition normalize_quorum :: "(string \<times> json) list \<Rightarrow> string list \<times> quorum_policy" where
  "normalize_quorum reviews =
     (let least = jget reviews ''default_min_approvals'';
          given_least = has_key reviews ''default_min_approvals'';
          errors = complain (given_least \<and> \<not> int_at_least 0 least)
                     ''reviews.default_min_approvals must be a non-negative integer'';
          base = \<lparr>qrm_approvals = (if given_least \<and> int_at_least 0 least then int_instance least else None),
                  qrm_groups = None\<rparr>;
          plain = \<lparr>qpl_defaults = base, qpl_stage = [], qpl_risk = [], qpl_stage_risk = []\<rparr>
      in case jget reviews ''quorum'' of
           JNull \<Rightarrow> (errors, plain)
         | JObj q \<Rightarrow>
             (let (e1, defaults) = normalize_quorum_rule ''reviews.quorum.defaults'' (jget_or q ''defaults'' (JObj []));
                  (e2, stage) = normalize_named_overrides q ''stage_overrides'' allowed_stage ''stage'';
                  (e3, risk) = normalize_named_overrides q ''risk_overrides'' allowed_risk ''risk level'';
                  (e4, stage_risk) = normalize_stage_risk_overrides q
              in (errors @ e1 @ e2 @ e3 @ e4,
                  \<lparr>qpl_defaults = update_rule base defaults, qpl_stage = stage, qpl_risk = risk,
                   qpl_stage_risk = stage_risk\<rparr>))
         | _ \<Rightarrow> (errors @ [''reviews.quorum must be an object when present''], plain))"

definition rule_of :: "(string \<times> quorum_rule) list \<Rightarrow> string option \<Rightarrow> quorum_rule" where
  "rule_of rules name =
     (case name of None \<Rightarrow> no_rule
      | Some n \<Rightarrow> (case map_of rules n of None \<Rightarrow> no_rule | Some r \<Rightarrow> r))"

text \<open>The number of approvals and the groups the policy asks for at a stage and a risk level.\<close>

definition effective_quorum_rule :: "(string \<times> json) list \<Rightarrow> string option \<Rightarrow> string \<Rightarrow> int \<times> string list" where
  "effective_quorum_rule reviews stage risk =
     (let q = snd (normalize_quorum reviews);
          stage_risk = (case stage of None \<Rightarrow> []
             | Some s \<Rightarrow> (case map_of (qpl_stage_risk q) s of None \<Rightarrow> [] | Some m \<Rightarrow> m));
          r = foldl update_rule \<lparr>qrm_approvals = Some 0, qrm_groups = Some []\<rparr>
                [qpl_defaults q, rule_of (qpl_stage q) stage, rule_of (qpl_risk q) (Some risk),
                 rule_of stage_risk (Some risk)]
      in (case qrm_approvals r of None \<Rightarrow> 0 | Some n \<Rightarrow> n,
          case qrm_groups r of None \<Rightarrow> [] | Some g \<Rightarrow> g))"

section \<open>Validation of the promotion policy\<close>

text \<open>A list or an object among the allowed review states raises TypeError, which is left out.\<close>

definition validate_active_requires :: "json \<Rightarrow> string list" where
  "validate_active_requires v =
     (case v of
        JObj m \<Rightarrow>
          (let states = jget_or m ''review_state'' (JList []) in
           (case states of
              JList (x # xs) \<Rightarrow>
                complain (list_ex (\<lambda>s. s \<notin> JStr ` {''draft'', ''under-review'', ''approved'', ''rejected''}) (x # xs))
                  ''active_requires.review_state must contain only ['approved', 'draft', 'rejected', 'under-review']''
            | _ \<Rightarrow> [''active_requires.review_state must be a non-empty array'']) @
           concat (map (\<lambda>k. complain (has_key m k \<and> \<not> is_bool (jget m k))
                      (''active_requires.'' @ k @ '' must be boolean when present''))
             [''require_changelog'', ''require_smoke_test'', ''require_owner'']))
      | _ \<Rightarrow> [''active_requires must be an object''])"

definition validate_review_flags :: "(string \<times> json) list \<Rightarrow> string list" where
  "validate_review_flags reviews =
     concat (map (\<lambda>k. complain (has_key reviews k \<and> \<not> is_bool (jget reviews k))
                        (''reviews.'' @ k @ '' must be boolean when present''))
       [''require_reviews_file'', ''reviewer_must_differ_from_owner'',
        ''allow_owner_when_no_distinct_reviewer'', ''block_on_rejection''])"

definition quorum_rules :: "quorum_policy \<Rightarrow> (string \<times> quorum_rule) list" where
  "quorum_rules q =
     (''reviews.quorum.defaults'', qpl_defaults q) #
     map (\<lambda>(s, r). (''reviews.quorum.stage_overrides.'' @ s, r)) (qpl_stage q) @
     map (\<lambda>(k, r). (''reviews.quorum.risk_overrides.'' @ k, r)) (qpl_risk q) @
     concat (map (\<lambda>(s, m). map (\<lambda>(k, r).
        (''reviews.quorum.stage_risk_overrides.'' @ s @ ''.'' @ k, r)) m) (qpl_stage_risk q))"

definition validate_quorum_group_refs :: "(string \<times> review_group) list \<Rightarrow> quorum_policy \<Rightarrow> string list" where
  "validate_quorum_group_refs groups q =
     concat (map (\<lambda>(path, r). map (\<lambda>g. path @ ''.required_groups references unknown reviewer group '' @ py_repr g)
        (filter (\<lambda>g. map_of groups g = None) (case qrm_groups r of None \<Rightarrow> [] | Some g \<Rightarrow> g)))
       (quorum_rules q))"

definition validate_high_risk :: "json \<Rightarrow> string list" where
  "validate_high_risk v =
     (case v of
        JObj m \<Rightarrow>
          complain (has_key m ''min_maintainers'' \<and> \<not> int_at_least 0 (jget m ''min_maintainers''))
            ''high_risk_active_requires.min_maintainers must be a non-negative integer when present'' @
          complain (has_key m ''require_requires_block'' \<and> \<not> is_bool (jget m ''require_requires_block''))
            ''high_risk_active_requires.require_requires_block must be boolean when present''
      | _ \<Rightarrow> complain (truthy v) ''high_risk_active_requires must be an object when present'')"

definition validate_promotion_policy :: "json \<Rightarrow> string list + team_map \<Rightarrow> string list" where
  "validate_promotion_policy policy team_policy =
     (case policy of
        JObj p \<Rightarrow>
          complain (has_key p ''version'' \<and> \<not> int_at_least 1 (jget p ''version''))
            ''version must be a positive integer'' @
          validate_active_requires (jget p ''active_requires'') @
          (case jget p ''reviews'' of
             JObj reviews \<Rightarrow>
               (let (group_errors, groups) = normalize_groups (jget_or reviews ''groups'' (JObj [])) team_policy;
                    (quorum_errors, quorum) = normalize_quorum reviews
                in validate_review_flags reviews @ group_errors @ quorum_errors @
                   validate_quorum_group_refs groups quorum @
                   validate_high_risk (jget_or p ''high_risk_active_requires'' (JObj [])))
           | _ \<Rightarrow> [''reviews must be an object''])
      | _ \<Rightarrow> [''promotion policy must be a JSON object''])"

section \<open>Reviewers and their latest decisions\<close>

datatype review_failure = ReviewPolicyError "string list" | Unhashable

text \<open>The configured reviewers in the order they are first named, each with its groups.\<close>

definition reviewers_of :: "(string \<times> review_group) list \<Rightarrow> (string \<times> string list) list" where
  "reviewers_of groups =
     map (\<lambda>r. (r, unique (map fst (filter (\<lambda>g. r \<in> set (rgr_resolved (snd g))) groups))))
       (unique (concat (map (rgr_resolved \<circ> snd) groups)))"

definition configured_reviewers :: "(string \<times> json) list \<Rightarrow> string list + team_map \<Rightarrow>
    review_failure + (string \<times> review_group) list \<times> (string \<times> string list) list" where
  "configured_reviewers reviews team_policy =
     (let (errors, groups) = normalize_groups (jget_or reviews ''groups'' (JObj [])) team_policy
      in if errors \<noteq> [] then Inl (ReviewPolicyError errors) else Inr (groups, reviewers_of groups))"

definition owner_review_unavoidable ::
    "json \<Rightarrow> (string \<times> string list) list \<Rightarrow> string list \<Rightarrow> int \<Rightarrow> bool" where
  "owner_review_unavoidable owner reviewers required min_approvals =
     (if \<not> truthy owner then False
      else (let others = filter (\<lambda>r. JStr (fst r) \<noteq> owner) reviewers in
            if int (length others) < min_approvals then True
            else list_ex (\<lambda>g. g \<notin> set (concat (map snd others))) required))"

text \<open>\<open>datetime.fromisoformat\<close> is an argument; a time without a zone is read as UTC.\<close>

definition parse_timestamp :: "(string \<Rightarrow> time option) \<Rightarrow> json \<Rightarrow> time option" where
  "parse_timestamp fromisoformat v =
     (case stripped_text v of
        None \<Rightarrow> None
      | Some t \<Rightarrow> fromisoformat (concat (map (\<lambda>c. if c = CHR ''Z'' then ''+00:00'' else [c]) t)))"

type_synonym review_entry = "(string \<times> json) list"

definition entry_time :: "(string \<Rightarrow> time option) \<Rightarrow> review_entry \<Rightarrow> time" where
  "entry_time ts e = (case parse_timestamp ts (jget e ''at'') of None \<Rightarrow> 0 | Some t \<Rightarrow> t)"

definition entry_reviewer :: "json \<Rightarrow> (string \<times> review_entry) option" where
  "entry_reviewer raw =
     (case raw of
        JObj e \<Rightarrow> (case jget e ''reviewer'' of
                    JStr r \<Rightarrow> if strip r = [] then None else Some (r, e)
                  | _ \<Rightarrow> None)
      | _ \<Rightarrow> None)"

text \<open>
  The loop of \<open>latest_distinct_entries\<close>: \<open>(timestamp, index) >= stored\<close>, where the index of a
  later entry is the greater one, so it replaces the stored entry unless its time is earlier.
\<close>

fun latest_loop :: "(string \<Rightarrow> time option) \<Rightarrow> json list \<Rightarrow> (string \<times> review_entry) list \<Rightarrow>
    (string \<times> review_entry) list" where
  "latest_loop ts [] latest = latest"
| "latest_loop ts (raw # raws) latest =
     latest_loop ts raws
       (case entry_reviewer raw of
          None \<Rightarrow> latest
        | Some (r, e) \<Rightarrow>
            (case map_of latest r of
               None \<Rightarrow> AList.update r e latest
             | Some stored \<Rightarrow>
                 if entry_time ts stored \<le> entry_time ts e then AList.update r e latest else latest))"

definition latest_distinct_entries :: "(string \<Rightarrow> time option) \<Rightarrow> json list \<Rightarrow> (string \<times> review_entry) list" where
  "latest_distinct_entries ts raws = sort_key fst (latest_loop ts raws [])"

definition with_default :: "string \<Rightarrow> json \<Rightarrow> review_entry \<Rightarrow> review_entry" where
  "with_default k v e = (if has_key e k then e else e @ [(k, v)])"

definition review_decision_entries :: "json list \<Rightarrow> review_entry list \<Rightarrow> json list" where
  "review_decision_entries recorded evidence =
     concat (map (\<lambda>raw. case raw of
        JObj e \<Rightarrow> [JObj (with_default ''url'' JNull (with_default ''source_ref'' (JStr ''reviews.json'')
                    (with_default ''source_kind'' (JStr ''repo-review'')
                    (with_default ''source'' (JStr ''reviews.json'') e))))]
      | _ \<Rightarrow> []) recorded) @
     map (\<lambda>e. JObj (with_default ''note'' JNull e)) evidence"

section \<open>Evaluation\<close>

record decision_item =
  dci_reviewer :: string
  dci_decision :: json
  dci_entry :: review_entry
  dci_groups :: "string list"
  dci_reasons :: "string list"

definition unhashable :: "json \<Rightarrow> bool" where
  "unhashable v = (case v of JList _ \<Rightarrow> True | JObj _ \<Rightarrow> True | _ \<Rightarrow> False)"

definition groups_of :: "(string \<times> string list) list \<Rightarrow> string \<Rightarrow> string list" where
  "groups_of reviewers r = (case map_of reviewers r of None \<Rightarrow> [] | Some g \<Rightarrow> g)"

definition decision_reasons ::
    "(string \<times> string list) list \<Rightarrow> json \<Rightarrow> bool \<Rightarrow> bool \<Rightarrow> string \<times> review_entry \<Rightarrow> string list" where
  "decision_reasons reviewers owner distinct_owner owner_fallback = (\<lambda>(r, e).
     complain (map_of reviewers r = None) ''unconfigured reviewer'' @
     complain (jget e ''decision'' \<notin> {JStr ''approved'', JStr ''rejected''}) ''invalid decision'' @
     complain (JStr r = owner \<and> distinct_owner \<and> \<not> owner_fallback) ''reviewer is owner'')"

definition decision_item_of ::
    "(string \<times> string list) list \<Rightarrow> json \<Rightarrow> bool \<Rightarrow> bool \<Rightarrow> string \<times> review_entry \<Rightarrow> decision_item" where
  "decision_item_of reviewers owner distinct_owner owner_fallback = (\<lambda>(r, e).
     \<lparr>dci_reviewer = r, dci_decision = jget e ''decision'', dci_entry = e,
      dci_groups = groups_of reviewers r,
      dci_reasons = decision_reasons reviewers owner distinct_owner owner_fallback (r, e)\<rparr>)"

text \<open>\<open>_classify_decisions\<close>: approvals, rejections, ignored decisions, covered groups.\<close>

definition classify_decisions ::
    "(string \<times> review_entry) list \<Rightarrow> (string \<times> string list) list \<Rightarrow> json \<Rightarrow> bool \<Rightarrow> bool \<Rightarrow>
     review_failure + decision_item list \<times> decision_item list \<times> decision_item list \<times> string list" where
  "classify_decisions latest reviewers owner distinct_owner owner_fallback =
     (if list_ex (\<lambda>(r, e). unhashable (jget e ''decision'')) latest then Inl Unhashable
      else
        (let items = map (decision_item_of reviewers owner distinct_owner owner_fallback) (sort_key fst latest);
             counted = filter (\<lambda>i. dci_reasons i = []) items;
             approvals = filter (\<lambda>i. dci_decision i = JStr ''approved'') counted
         in Inr (approvals, filter (\<lambda>i. dci_decision i = JStr ''rejected'') counted,
                 filter (\<lambda>i. dci_reasons i \<noteq> []) items,
                 unique (concat (map dci_groups approvals)))))"

definition effective_state :: "nat \<Rightarrow> bool \<Rightarrow> bool \<Rightarrow> string" where
  "effective_state blocking_rejections gate_pass has_activity =
     (if blocking_rejections \<noteq> 0 then ''rejected''
      else if gate_pass then ''approved''
      else if has_activity then ''under-review'' else ''draft'')"

record review_inputs =
  rin_meta :: "(string \<times> json) list"
  rin_dir_name :: string
  rin_parent_name :: string
  rin_requests :: "json list"
  rin_entries :: "json list"
  rin_evidence :: "review_entry list"
  rin_reviews_file :: bool

record review_report =
  rrp_owner :: json
  rrp_actual_stage :: json
  rrp_evaluated_stage :: json
  rrp_effective_state :: string
  rrp_required_approvals :: int
  rrp_required_groups :: "string list"
  rrp_covered_groups :: "string list"
  rrp_missing_groups :: "string list"
  rrp_approvals :: "decision_item list"
  rrp_rejections :: "decision_item list"
  rrp_blocking_rejections :: nat
  rrp_quorum_met :: bool
  rrp_gate_pass :: bool
  rrp_decisions :: "decision_item list"
  rrp_ignored :: "decision_item list"
  rrp_groups :: "(string \<times> review_group) list"
  rrp_reviewers :: "string list"

definition owner_fallback :: "(string \<times> json) list \<Rightarrow> json \<Rightarrow> (string \<times> string list) list \<Rightarrow>
    int \<times> string list \<Rightarrow> bool" where
  "owner_fallback reviews owner reviewers quorum \<longleftrightarrow>
     truthy (jget reviews ''allow_owner_when_no_distinct_reviewer'') \<and>
     owner_review_unavoidable owner reviewers (snd quorum) (fst quorum)"

definition stage_evaluated :: "review_inputs \<Rightarrow> string option \<Rightarrow> bool \<Rightarrow> json" where
  "stage_evaluated inp stage as_active =
     (if as_active then JStr ''active''
      else if given stage then JStr (the stage)
      else json_or (jget (rin_meta inp) ''status'') (JStr (rin_parent_name inp)))"

definition evaluate_review_state ::
    "(string \<Rightarrow> time option) \<Rightarrow> (string \<times> json) list \<Rightarrow> string list + team_map \<Rightarrow> review_inputs \<Rightarrow>
     string option \<Rightarrow> bool \<Rightarrow> review_failure + review_report" where
  "evaluate_review_state ts reviews team_policy inp stage as_active =
     (let entries = review_decision_entries (rin_entries inp) (rin_evidence inp);
          latest = latest_distinct_entries ts entries;
          owner = jget (rin_meta inp) ''owner'';
          evaluated = stage_evaluated inp stage as_active;
          risk = (case jget (rin_meta inp) ''risk_level'' of JStr r \<Rightarrow> r | _ \<Rightarrow> ''medium'')
      in rbind (configured_reviewers reviews team_policy) (\<lambda>(groups, reviewers).
         rbind (require (\<not> unhashable evaluated) Unhashable) (\<lambda>_.
         let quorum = effective_quorum_rule reviews (jstr evaluated) risk in
         rbind (classify_decisions latest reviewers owner
                  (truthy (jget reviews ''reviewer_must_differ_from_owner''))
                  (owner_fallback reviews owner reviewers quorum)) (\<lambda>(approvals, rejections, ignored, covered).
         let missing = filter (\<lambda>g. g \<notin> set covered) (snd quorum);
             quorum_met = (fst quorum \<le> int (length approvals) \<and> missing = []);
             blocking = (if truthy (jget reviews ''block_on_rejection'') then length rejections else 0);
             gate = ((\<not> truthy (jget reviews ''require_reviews_file'') \<or> rin_reviews_file inp) \<and>
                     quorum_met \<and> blocking = 0)
         in Inr \<lparr>rrp_owner = owner,
                 rrp_actual_stage = json_or (jget (rin_meta inp) ''status'') (JStr (rin_parent_name inp)),
                 rrp_evaluated_stage = evaluated,
                 rrp_effective_state = effective_state blocking gate (rin_requests inp \<noteq> [] \<or> entries \<noteq> []),
                 rrp_required_approvals = fst quorum, rrp_required_groups = snd quorum,
                 rrp_covered_groups = covered, rrp_missing_groups = missing,
                 rrp_approvals = approvals, rrp_rejections = rejections,
                 rrp_blocking_rejections = blocking, rrp_quorum_met = quorum_met, rrp_gate_pass = gate,
                 rrp_decisions = sort_key dci_reviewer (approvals @ rejections @ ignored),
                 rrp_ignored = ignored, rrp_groups = groups,
                 rrp_reviewers = sort (map fst reviewers)\<rparr>))))"

section \<open>Facts\<close>

text \<open>
  The decision of a reviewer that counts: the last among its entries with the latest time.
\<close>

definition entries_by :: "string \<Rightarrow> json list \<Rightarrow> review_entry list" where
  "entries_by r raws =
     concat (map (\<lambda>raw. case entry_reviewer raw of
        None \<Rightarrow> [] | Some (q, e) \<Rightarrow> if q = r then [e] else []) raws)"

definition winner :: "(string \<Rightarrow> time option) \<Rightarrow> review_entry list \<Rightarrow> review_entry \<Rightarrow> bool" where
  "winner ts es e \<longleftrightarrow>
     (\<exists>xs ys. es = xs @ e # ys \<and> (\<forall>x \<in> set xs. entry_time ts x \<le> entry_time ts e) \<and>
              (\<forall>y \<in> set ys. entry_time ts y < entry_time ts e))"

lemma winner_Nil [simp]: "\<not> winner ts [] e"
  by (simp add: winner_def)

lemma winner_greatest: "winner ts es e \<Longrightarrow> x \<in> set es \<Longrightarrow> entry_time ts x \<le> entry_time ts e"
  by (fastforce simp: winner_def)

lemma winner_snoc:
  "winner ts (es @ [f]) e \<longleftrightarrow>
     winner ts es e \<and> entry_time ts f < entry_time ts e \<or>
     e = f \<and> (\<forall>x \<in> set es. entry_time ts x \<le> entry_time ts f)"
proof
  assume "winner ts (es @ [f]) e"
  then obtain xs ys where w: "es @ [f] = xs @ e # ys" "\<forall>x \<in> set xs. entry_time ts x \<le> entry_time ts e"
      "\<forall>y \<in> set ys. entry_time ts y < entry_time ts e"
    by (auto simp: winner_def)
  show "winner ts es e \<and> entry_time ts f < entry_time ts e \<or>
     e = f \<and> (\<forall>x \<in> set es. entry_time ts x \<le> entry_time ts f)"
  proof (cases ys rule: rev_cases)
    case Nil
    with w show ?thesis by simp
  next
    case (snoc zs z)
    with w(1) have "es = xs @ e # zs" "z = f" by simp_all
    with w snoc show ?thesis by (auto simp: winner_def)
  qed
next
  assume "winner ts es e \<and> entry_time ts f < entry_time ts e \<or>
     e = f \<and> (\<forall>x \<in> set es. entry_time ts x \<le> entry_time ts f)"
  then show "winner ts (es @ [f]) e"
  proof
    assume a: "winner ts es e \<and> entry_time ts f < entry_time ts e"
    then obtain xs ys where "es = xs @ e # ys" "\<forall>x \<in> set xs. entry_time ts x \<le> entry_time ts e"
        "\<forall>y \<in> set ys. entry_time ts y < entry_time ts e"
      by (auto simp: winner_def)
    with a show ?thesis
      unfolding winner_def by (intro exI [of _ xs] exI [of _ "ys @ [f]"]) auto
  next
    assume "e = f \<and> (\<forall>x \<in> set es. entry_time ts x \<le> entry_time ts f)"
    then show ?thesis
      unfolding winner_def by (intro exI [of _ es] exI [of _ "[]"]) auto
  qed
qed

lemma winner_single [simp]: "winner ts [f] e \<longleftrightarrow> e = f"
  using winner_snoc [of ts "[]"] by simp

lemma winner_exists: "es \<noteq> [] \<Longrightarrow> \<exists>e. winner ts es e"
proof (induction es rule: rev_induct)
  case Nil
  then show ?case by simp
next
  case (snoc f es)
  show ?case
  proof (cases "\<forall>x \<in> set es. entry_time ts x \<le> entry_time ts f")
    case True
    then show ?thesis unfolding winner_snoc by blast
  next
    case False
    then have "es \<noteq> []" by auto
    with snoc.IH obtain e where e: "winner ts es e" by blast
    from False obtain x where "x \<in> set es" "entry_time ts f < entry_time ts x" by force
    with winner_greatest [OF e] have "entry_time ts f < entry_time ts e" by force
    with e show ?thesis unfolding winner_snoc by blast
  qed
qed

definition latest_step :: "(string \<Rightarrow> time option) \<Rightarrow> json \<Rightarrow> (string \<times> review_entry) list \<Rightarrow>
    (string \<times> review_entry) list" where
  "latest_step ts raw latest = latest_loop ts [raw] latest"

lemma latest_loop_snoc: "latest_loop ts (raws @ [raw]) acc = latest_step ts raw (latest_loop ts raws acc)"
  by (induction raws arbitrary: acc) (simp_all add: latest_step_def)

lemma latest_step_lookup:
  "map_of (latest_step ts raw acc) r =
     (case entry_reviewer raw of
        None \<Rightarrow> map_of acc r
      | Some (q, f) \<Rightarrow>
          if q \<noteq> r then map_of acc r
          else (case map_of acc r of
                  None \<Rightarrow> Some f
                | Some s \<Rightarrow> Some (if entry_time ts s \<le> entry_time ts f then f else s)))"
  by (auto simp: latest_step_def update_conv' split: option.splits)

lemma entries_by_snoc:
  "entries_by r (raws @ [raw]) = entries_by r raws @
     (case entry_reviewer raw of None \<Rightarrow> [] | Some (q, e) \<Rightarrow> if q = r then [e] else [])"
  by (simp add: entries_by_def)

lemma latest_loop_winner:
  "map_of (latest_loop ts raws []) r = Some e \<longleftrightarrow> winner ts (entries_by r raws) e"
proof (induction raws arbitrary: r e rule: rev_induct)
  case Nil
  then show ?case by (simp add: entries_by_def)
next
  case (snoc raw raws)
  define acc where "acc = latest_loop ts raws []"
  note IH = snoc.IH [folded acc_def]
  show ?case
  proof (cases "entry_reviewer raw")
    case None
    then show ?thesis by (simp add: latest_loop_snoc latest_step_lookup entries_by_snoc IH flip: acc_def)
  next
    case (Some p)
    obtain q f where p: "entry_reviewer raw = Some (q, f)" using Some by (cases p) simp
    note step = latest_loop_snoc [of ts raws raw "[]", folded acc_def]
    show ?thesis
    proof (cases "q = r")
      case False
      then show ?thesis by (simp add: step latest_step_lookup entries_by_snoc p IH)
    next
      case True
      show ?thesis
      proof (cases "map_of acc r")
        case None
        then have "\<not> winner ts (entries_by r raws) x" for x using IH [of r x] by simp
        then have "entries_by r raws = []" using winner_exists by blast
        then show ?thesis
          using None True by (auto simp: step latest_step_lookup entries_by_snoc p winner_snoc)
      next
        case (Some s)
        then have s: "winner ts (entries_by r raws) x \<longleftrightarrow> s = x" for x using IH [of r x] by simp
        then have top: "entry_time ts x \<le> entry_time ts s" if "x \<in> set (entries_by r raws)" for x
          using winner_greatest that by blast
        have mem: "s \<in> set (entries_by r raws)" using s [of s] by (auto simp: winner_def)
        have "map_of (latest_step ts raw acc) r = Some (if entry_time ts s \<le> entry_time ts f then f else s)"
          using Some True by (simp add: latest_step_lookup p)
        moreover have "winner ts (entries_by r (raws @ [raw])) e \<longleftrightarrow>
            (if entry_time ts s \<le> entry_time ts f then f else s) = e"
        proof (cases "entry_time ts s \<le> entry_time ts f")
          case True
          then have "\<forall>x \<in> set (entries_by r raws). entry_time ts x \<le> entry_time ts f" using top by force
          with True \<open>q = r\<close> show ?thesis by (auto simp: entries_by_snoc p winner_snoc s)
        next
          case False
          with mem have "\<not> (\<forall>x \<in> set (entries_by r raws). entry_time ts x \<le> entry_time ts f)" by blast
          with False \<open>q = r\<close> show ?thesis by (auto simp: entries_by_snoc p winner_snoc s)
        qed
        ultimately show ?thesis by (simp add: step)
      qed
    qed
  qed
qed

lemma latest_loop_keys: "distinct (map fst acc) \<Longrightarrow> distinct (map fst (latest_loop ts raws acc))"
  by (induction raws arbitrary: acc) (simp_all add: distinct_update split: option.splits)

lemma latest_distinct_iff:
  "(r, e) \<in> set (latest_distinct_entries ts raws) \<longleftrightarrow> winner ts (entries_by r raws) e"
  "distinct (map fst (latest_distinct_entries ts raws))"
  "sorted (map fst (latest_distinct_entries ts raws))"
proof -
  have d: "distinct (map fst (latest_loop ts raws []))" by (rule latest_loop_keys) simp
  then show "(r, e) \<in> set (latest_distinct_entries ts raws) \<longleftrightarrow> winner ts (entries_by r raws) e"
    by (simp add: latest_distinct_entries_def map_of_eq_Some_iff flip: latest_loop_winner)
  show "distinct (map fst (latest_distinct_entries ts raws))"
    using d unfolding latest_distinct_entries_def distinct_map by (simp add: distinct_sort)
  show "sorted (map fst (latest_distinct_entries ts raws))"
    by (simp add: latest_distinct_entries_def)
qed

text \<open>Whose latest decision counts as an approval, or as a rejection.\<close>

definition verdict_counts :: "(string \<Rightarrow> time option) \<Rightarrow> json list \<Rightarrow> (string \<times> string list) list \<Rightarrow> json \<Rightarrow> bool \<Rightarrow>
    bool \<Rightarrow> string \<Rightarrow> string \<Rightarrow> bool" where
  "verdict_counts ts entries reviewers owner distinct_owner fallback verdict r \<longleftrightarrow>
     r \<in> fst ` set reviewers \<and> (JStr r = owner \<longrightarrow> \<not> distinct_owner \<or> fallback) \<and>
     (\<exists>e. winner ts (entries_by r entries) e \<and> jget e ''decision'' = JStr verdict)"

lemma classified:
  assumes "classify_decisions (latest_distinct_entries ts entries) reviewers owner d f =
             Inr (approvals, rejections, ignored, covered)"
  shows "dci_reviewer ` set approvals = {r. verdict_counts ts entries reviewers owner d f ''approved'' r}"
    and "dci_reviewer ` set rejections = {r. verdict_counts ts entries reviewers owner d f ''rejected'' r}"
    and "distinct (map dci_reviewer approvals)"
    and "set covered = {g. \<exists>r. verdict_counts ts entries reviewers owner d f ''approved'' r \<and>
                               g \<in> set (groups_of reviewers r)}"
proof -
  define latest where "latest = latest_distinct_entries ts entries"
  define items where "items = map (decision_item_of reviewers owner d f) (sort_key fst latest)"
  have c: "approvals = filter (\<lambda>i. dci_decision i = JStr ''approved'') (filter (\<lambda>i. dci_reasons i = []) items)"
      "rejections = filter (\<lambda>i. dci_decision i = JStr ''rejected'') (filter (\<lambda>i. dci_reasons i = []) items)"
      "covered = unique (concat (map dci_groups approvals))"
    using assms by (auto simp: classify_decisions_def Let_def items_def latest_def split: if_splits)
  have mem: "i \<in> set items \<longleftrightarrow> (\<exists>r e. winner ts (entries_by r entries) e \<and>
                i = decision_item_of reviewers owner d f (r, e))" for i
    using latest_distinct_iff(1) [of _ _ ts entries] by (force simp: items_def latest_def)
  have item: "dci_reviewer (decision_item_of reviewers owner d f (r, e)) = r"
      "dci_decision (decision_item_of reviewers owner d f (r, e)) = jget e ''decision''"
      "dci_groups (decision_item_of reviewers owner d f (r, e)) = groups_of reviewers r"
      "dci_reasons (decision_item_of reviewers owner d f (r, e)) = [] \<longleftrightarrow>
         r \<in> fst ` set reviewers \<and> jget e ''decision'' \<in> {JStr ''approved'', JStr ''rejected''} \<and>
         (JStr r = owner \<longrightarrow> \<not> d \<or> f)" for r e
    by (auto simp: decision_item_of_def decision_reasons_def map_of_eq_None_iff)
  have sel: "i \<in> set (filter (\<lambda>i. dci_decision i = JStr v) (filter (\<lambda>i. dci_reasons i = []) items)) \<longleftrightarrow>
      (\<exists>r e. i = decision_item_of reviewers owner d f (r, e) \<and> winner ts (entries_by r entries) e \<and>
         jget e ''decision'' = JStr v \<and> r \<in> fst ` set reviewers \<and> (JStr r = owner \<longrightarrow> \<not> d \<or> f))"
    if "v \<in> {''approved'', ''rejected''}" for v i
  proof
    assume "i \<in> set (filter (\<lambda>i. dci_decision i = JStr v) (filter (\<lambda>i. dci_reasons i = []) items))"
    then have i: "i \<in> set items" "dci_reasons i = []" "dci_decision i = JStr v" by simp_all
    then obtain r e where re: "winner ts (entries_by r entries) e"
        "i = decision_item_of reviewers owner d f (r, e)"
      unfolding mem by blast
    with i item(2,4) [of r e] show "\<exists>r e. i = decision_item_of reviewers owner d f (r, e) \<and>
         winner ts (entries_by r entries) e \<and> jget e ''decision'' = JStr v \<and>
         r \<in> fst ` set reviewers \<and> (JStr r = owner \<longrightarrow> \<not> d \<or> f)"
      by metis
  next
    assume "\<exists>r e. i = decision_item_of reviewers owner d f (r, e) \<and>
         winner ts (entries_by r entries) e \<and> jget e ''decision'' = JStr v \<and>
         r \<in> fst ` set reviewers \<and> (JStr r = owner \<longrightarrow> \<not> d \<or> f)"
    then obtain r e where re: "i = decision_item_of reviewers owner d f (r, e)"
         "winner ts (entries_by r entries) e" "jget e ''decision'' = JStr v"
         "r \<in> fst ` set reviewers" "JStr r = owner \<longrightarrow> \<not> d \<or> f"
      by blast
    then have "i \<in> set items" unfolding mem by blast
    moreover have "dci_reasons i = []" "dci_decision i = JStr v"
      using re that by (simp_all add: item)
    ultimately show "i \<in> set (filter (\<lambda>i. dci_decision i = JStr v) (filter (\<lambda>i. dci_reasons i = []) items))"
      by simp
  qed
  have image: "f' ` set (filter (\<lambda>i. dci_decision i = JStr v) (filter (\<lambda>i. dci_reasons i = []) items)) =
      {f' (decision_item_of reviewers owner d f (r, e)) | r e.
         winner ts (entries_by r entries) e \<and> jget e ''decision'' = JStr v \<and> r \<in> fst ` set reviewers \<and>
         (JStr r = owner \<longrightarrow> \<not> d \<or> f)}"
    if "v \<in> {''approved'', ''rejected''}" for v and f' :: "decision_item \<Rightarrow> 'z"
  proof -
    have "set (filter (\<lambda>i. dci_decision i = JStr v) (filter (\<lambda>i. dci_reasons i = []) items)) =
      {decision_item_of reviewers owner d f (r, e) | r e.
         winner ts (entries_by r entries) e \<and> jget e ''decision'' = JStr v \<and> r \<in> fst ` set reviewers \<and>
         (JStr r = owner \<longrightarrow> \<not> d \<or> f)}"
      unfolding set_eq_iff sel [OF that] mem_Collect_eq by (rule allI) (rule refl)
    then show ?thesis by (simp only:) blast
  qed
  have reviewers_of_verdict:
      "dci_reviewer ` set (filter (\<lambda>i. dci_decision i = JStr v) (filter (\<lambda>i. dci_reasons i = []) items)) =
         {r. verdict_counts ts entries reviewers owner d f v r}"
    if "v \<in> {''approved'', ''rejected''}" for v
    unfolding image [OF that] item verdict_counts_def by blast
  have groups_of_verdict:
      "\<Union> ((\<lambda>i. set (dci_groups i)) `
          set (filter (\<lambda>i. dci_decision i = JStr v) (filter (\<lambda>i. dci_reasons i = []) items))) =
       {g. \<exists>r. verdict_counts ts entries reviewers owner d f v r \<and> g \<in> set (groups_of reviewers r)}"
    if "v \<in> {''approved'', ''rejected''}" for v
    unfolding image [OF that] item verdict_counts_def by blast
  show "dci_reviewer ` set approvals = {r. verdict_counts ts entries reviewers owner d f ''approved'' r}"
    unfolding c(1) by (rule reviewers_of_verdict) simp
  show "dci_reviewer ` set rejections = {r. verdict_counts ts entries reviewers owner d f ''rejected'' r}"
    unfolding c(2) by (rule reviewers_of_verdict) simp
  have "dci_reviewer \<circ> decision_item_of reviewers owner d f = fst"
    by (auto simp: fun_eq_iff item)
  then have "map dci_reviewer items = map fst (sort_key fst latest)"
    by (simp add: items_def)
  moreover have "distinct (map fst (sort_key fst latest))"
    using latest_distinct_iff(2) [of ts entries] by (simp add: distinct_map distinct_sort latest_def)
  ultimately have "distinct (map dci_reviewer items)" by simp
  then show "distinct (map dci_reviewer approvals)"
    unfolding c(1) by (intro distinct_map_filter)
  have "set covered = \<Union> ((\<lambda>i. set (dci_groups i)) ` set approvals)"
    unfolding c(3) by simp
  also have "\<dots> = {g. \<exists>r. verdict_counts ts entries reviewers owner d f ''approved'' r \<and>
                               g \<in> set (groups_of reviewers r)}"
    unfolding c(1) by (rule groups_of_verdict) simp
  finally show "set covered = {g. \<exists>r. verdict_counts ts entries reviewers owner d f ''approved'' r \<and>
                               g \<in> set (groups_of reviewers r)}" .
qed

section \<open>Properties\<close>

definition risk_of :: "review_inputs \<Rightarrow> string" where
  "risk_of inp = (case jget (rin_meta inp) ''risk_level'' of JStr r \<Rightarrow> r | _ \<Rightarrow> ''medium'')"

text \<open>C25. The review gate.  With \<open>A\<close> the configured reviewers whose latest decision approves and \<open>R\<close>
  those whose latest decision rejects, where the owner is left out unless the policy lets it in
  or no distinct review is possible: the gate passes exactly when the reviews file is there if it
  is required, \<open>A\<close> has as many members as the policy asks for at this stage and risk, every
  required group has a member in \<open>A\<close>, and \<open>R\<close> is empty if rejections block; the state reported
  is approved exactly then.  A reviewer counts once, however many entries it wrote.\<close>

theorem review_gate_exact:
  assumes "evaluate_review_state ts reviews team_policy inp stage as_active = Inr rep"
    and "configured_reviewers reviews team_policy = Inr (groups, reviewers)"
    and "entries = review_decision_entries (rin_entries inp) (rin_evidence inp)"
    and "(needed, required) =
           effective_quorum_rule reviews (jstr (stage_evaluated inp stage as_active)) (risk_of inp)"
    and "fallback = owner_fallback reviews (jget (rin_meta inp) ''owner'') reviewers (needed, required)"
    and "A = {r. verdict_counts ts entries reviewers (jget (rin_meta inp) ''owner'')
                   (truthy (jget reviews ''reviewer_must_differ_from_owner'')) fallback ''approved'' r}"
    and "R = {r. verdict_counts ts entries reviewers (jget (rin_meta inp) ''owner'')
                   (truthy (jget reviews ''reviewer_must_differ_from_owner'')) fallback ''rejected'' r}"
  shows "(rrp_gate_pass rep \<longleftrightarrow>
            (truthy (jget reviews ''require_reviews_file'') \<longrightarrow> rin_reviews_file inp) \<and>
            needed \<le> int (card A) \<and>
            (\<forall>g \<in> set required. \<exists>r \<in> A. g \<in> set (groups_of reviewers r)) \<and>
            (truthy (jget reviews ''block_on_rejection'') \<longrightarrow> R = {})) \<and>
         (rrp_effective_state rep = ''approved'' \<longleftrightarrow> rrp_gate_pass rep)"
proof -
  note q = assms(4) [symmetric, unfolded risk_of_def]
  obtain approvals rejections ignored covered where
    c: "classify_decisions (latest_distinct_entries ts entries) reviewers (jget (rin_meta inp) ''owner'')
          (truthy (jget reviews ''reviewer_must_differ_from_owner'')) fallback =
        Inr (approvals, rejections, ignored, covered)" and
    gate: "rrp_gate_pass rep \<longleftrightarrow>
        (truthy (jget reviews ''require_reviews_file'') \<longrightarrow> rin_reviews_file inp) \<and>
        needed \<le> int (length approvals) \<and> filter (\<lambda>g. g \<notin> set covered) required = [] \<and>
        (if truthy (jget reviews ''block_on_rejection'') then length rejections else 0) = 0" and
    state: "rrp_effective_state rep = ''approved'' \<longleftrightarrow>
        (if truthy (jget reviews ''block_on_rejection'') then length rejections else 0) = 0 \<and> rrp_gate_pass rep"
    using assms(1)
    by (auto simp: evaluate_review_state_def Let_def assms(2) q res_simps effective_state_def
             simp flip: assms(3) assms(5))
  note facts = classified [OF c, folded assms(6) assms(7)]
  have "card A = length approvals"
    using distinct_card [OF facts(3)] facts(1) by simp
  moreover have "filter (\<lambda>g. g \<notin> set covered) required = [] \<longleftrightarrow>
      (\<forall>g \<in> set required. \<exists>r \<in> A. g \<in> set (groups_of reviewers r))"
    using facts(4) by (auto simp: filter_empty_conv assms(6))
  moreover have "length rejections = 0 \<longleftrightarrow> R = {}"
    using facts(2) by auto
  ultimately show ?thesis using gate state by auto
qed

text \<open>
  A policy with the flags and rules of the repository's own, with two reviewers; the owner's
  approval does not count, an earlier rejection by \<open>carol\<close> is replaced by her approval.
\<close>

definition sample_review_policy :: "(string \<times> json) list" where
  "sample_review_policy =
     [(''require_reviews_file'', JBool True), (''reviewer_must_differ_from_owner'', JBool True),
      (''allow_owner_when_no_distinct_reviewer'', JBool True), (''block_on_rejection'', JBool True),
      (''groups'', JObj [(''maintainers'', JObj [(''members'', JList [JStr ''alice'', JStr ''carol''])])]),
      (''quorum'', JObj
         [(''defaults'', JObj [(''min_approvals'', JInt 1), (''required_groups'', JList [])]),
          (''stage_overrides'', JObj
             [(''active'', JObj [(''min_approvals'', JInt 1), (''required_groups'', JList [JStr ''maintainers''])])])])]"

definition review_by :: "string \<Rightarrow> string \<Rightarrow> json" where
  "review_by r verdict = JObj [(''reviewer'', JStr r), (''decision'', JStr verdict)]"

definition sample_review_inputs :: "string \<Rightarrow> json list \<Rightarrow> review_inputs" where
  "sample_review_inputs owner entries =
     \<lparr>rin_meta = [(''name'', JStr ''demo''), (''owner'', JStr owner), (''risk_level'', JStr ''low''),
                  (''status'', JStr ''incubating'')],
      rin_dir_name = ''demo'', rin_parent_name = ''incubating'', rin_requests = [],
      rin_entries = entries, rin_evidence = [], rin_reviews_file = True\<rparr>"

definition sample_decisions :: "json list" where
  "sample_decisions = [review_by ''alice'' ''approved'', review_by ''carol'' ''rejected'', review_by ''carol'' ''approved'']"

definition sample_review :: "string \<Rightarrow> json list \<Rightarrow> review_failure + review_report" where
  "sample_review owner entries =
     evaluate_review_state (\<lambda>_. None) sample_review_policy (Inr []) (sample_review_inputs owner entries) None True"

definition sample_group :: review_group where
  "sample_group = \<lparr>rgr_members = [''alice'', ''carol''], rgr_teams = [],
                   rgr_resolved = [''alice'', ''carol''], rgr_description = None\<rparr>"

definition sample_reviewers :: "(string \<times> string list) list" where
  "sample_reviewers = [(''alice'', [''maintainers'']), (''carol'', [''maintainers''])]"

lemma sample_review_passes:
  "sample_review ''alice'' sample_decisions = Inr (projr (sample_review ''alice'' sample_decisions)) \<and>
   rrp_gate_pass (projr (sample_review ''alice'' sample_decisions))"
  by code_simp

lemma sample_reviewers_configured:
  "configured_reviewers sample_review_policy (Inr []) = Inr ([(''maintainers'', sample_group)], sample_reviewers)"
  by code_simp

lemma sample_quorum:
  "(1, [''maintainers'']) = effective_quorum_rule sample_review_policy
     (jstr (stage_evaluated (sample_review_inputs ''alice'' sample_decisions) None True))
     (risk_of (sample_review_inputs ''alice'' sample_decisions))"
  by code_simp

lemma review_gate_exact_witness:
  "1 \<le> card {r. verdict_counts (\<lambda>_. None)
       (review_decision_entries (rin_entries (sample_review_inputs ''alice'' sample_decisions))
          (rin_evidence (sample_review_inputs ''alice'' sample_decisions)))
       sample_reviewers (jget (rin_meta (sample_review_inputs ''alice'' sample_decisions)) ''owner'')
       (truthy (jget sample_review_policy ''reviewer_must_differ_from_owner''))
       (owner_fallback sample_review_policy (jget (rin_meta (sample_review_inputs ''alice'' sample_decisions)) ''owner'')
          sample_reviewers (1, [''maintainers''])) ''approved'' r}"
proof -
  note computed = sample_review_passes [THEN conjunct1, unfolded sample_review_def]
  note pass = sample_review_passes [THEN conjunct2, unfolded sample_review_def]
  show ?thesis
    using review_gate_exact [OF computed sample_reviewers_configured refl sample_quorum refl refl refl] pass
    by simp
qed

text \<open>
  The owner is compared as it is spelled in the metadata, while reviewers and identities are
  stripped: with a blank after the name the owner's own approval is counted, though another
  reviewer is configured.
\<close>

lemma owner_spelling_counts:
  "(case sample_review ''alice'' [review_by ''alice'' ''approved''] of Inr r \<Rightarrow> \<not> rrp_gate_pass r | Inl _ \<Rightarrow> False) \<and>
   (case sample_review ''alice '' [review_by ''alice'' ''approved''] of Inr r \<Rightarrow> rrp_gate_pass r | Inl _ \<Rightarrow> False) \<and>
   idn_owner (full_skill_identity (rin_meta (sample_review_inputs ''alice '' []))) = Some ''alice''"
  by code_simp

end
