(* ===== verification/Content.thy ===== *)
theory Content
  imports SkillIdentity Release
begin

text \<open>
  Uploaded skill bundles, \<open>server/modules/authoring/content.py\<close>, and the canonical bundle of
  \<open>install/distribution.py\<close>.  Bytes are texts of Latin-1 characters.  What the standard
  library reads from a tar.gz archive is the list of its members, or an error after some of
  them; the validators of the extracted directory are arguments over its regular files.
\<close>

section \<open>Archives and the extracted tree\<close>

datatype member_kind = TarFile | TarDirectory | TarOther

record tar_member =
  tar_name :: string
  tar_kind :: member_kind
  tar_executable :: bool
  tar_data :: string

record archive =
  arc_members :: "tar_member list"
  arc_broken :: bool

type_synonym path = "string list"

record file_entry =
  fil_executable :: bool
  fil_data :: string

datatype node = Directory | Regular file_entry

type_synonym tree = "(path \<times> node) list"

definition max_bundle_bytes :: nat where
  "max_bundle_bytes = 20 * 1024 * 1024"

definition max_expanded_bytes :: nat where
  "max_expanded_bytes = 100 * 1024 * 1024"

definition max_bundle_files :: nat where
  "max_bundle_files = 1000"

definition max_bundle_members :: nat where
  "max_bundle_members = 2000"

text \<open>\<open>PurePosixPath(name).parts\<close> of a relative name: empty and \<open>.\<close> components vanish.\<close>

definition path_parts :: "string \<Rightarrow> path" where
  "path_parts name = filter (\<lambda>p. p \<noteq> [] \<and> p \<noteq> ''.'') (split_on (CHR ''/'') name)"

definition safe_member_path :: "string \<Rightarrow> string \<Rightarrow> svc_error + path" where
  "safe_member_path slug name =
     (let parts = path_parts name in
      rbind (require (\<not> starts_with ''/'' name \<and> ''..'' \<notin> set parts)
               (ContentInvalid (''unsafe bundle member path: '' @ name))) (\<lambda>_.
      rbind (require (parts \<noteq> [] \<and> hd parts = slug)
               (ContentInvalid (''bundle root must be '' @ py_repr slug))) (\<lambda>_. Inr parts)))"

text \<open>
  \<open>target.mkdir(parents=True, exist_ok=True)\<close>: a regular file in the way raises an
  \<open>OSError\<close>, which the extraction does not catch here.
\<close>

fun make_dirs :: "path \<Rightarrow> path \<Rightarrow> tree \<Rightarrow> svc_error + tree" where
  "make_dirs done [] t = Inr t"
| "make_dirs done (p # ps) t =
     (case map_of t (done @ [p]) of
        None \<Rightarrow> make_dirs (done @ [p]) ps (t @ [(done @ [p], Directory)])
      | Some Directory \<Rightarrow> make_dirs (done @ [p]) ps t
      | Some (Regular _) \<Rightarrow> Inl (OSError ''file exists''))"

definition write_file :: "string \<Rightarrow> path \<Rightarrow> file_entry \<Rightarrow> tree \<Rightarrow> svc_error + tree" where
  "write_file name target f t =
     (case map_of t target of
        Some Directory \<Rightarrow> Inl (ContentInvalid (''could not extract bundle member: '' @ name))
      | _ \<Rightarrow> Inr (AList.update target (Regular f) t))"

record extraction =
  ext_tree :: tree
  ext_seen :: "path list"
  ext_members :: nat
  ext_files :: nat
  ext_bytes :: nat

definition extract_member :: "string \<Rightarrow> tar_member \<Rightarrow> extraction \<Rightarrow> svc_error + extraction" where
  "extract_member slug m s =
     (let s1 = s\<lparr>ext_members := ext_members s + 1\<rparr> in
      rbind (require (ext_members s1 \<le> max_bundle_members)
               (ContentInvalid ''content bundle contains too many members'')) (\<lambda>_.
      rbind (safe_member_path slug (tar_name m)) (\<lambda>target.
      rbind (require (target \<notin> set (ext_seen s))
               (ContentInvalid (''duplicate bundle member path: '' @ tar_name m))) (\<lambda>_.
      rbind (require (tar_kind m \<noteq> TarOther)
               (ContentInvalid (''unsupported bundle member type: '' @ tar_name m))) (\<lambda>_.
      let s2 = s1\<lparr>ext_seen := ext_seen s @ [target]\<rparr> in
      if tar_kind m = TarDirectory
      then rbind (make_dirs [] target (ext_tree s)) (\<lambda>t. Inr (s2\<lparr>ext_tree := t\<rparr>))
      else
        (let s3 = s2\<lparr>ext_files := ext_files s + 1, ext_bytes := ext_bytes s + length (tar_data m)\<rparr> in
         rbind (require (ext_files s3 \<le> max_bundle_files)
                  (ContentInvalid ''content bundle contains too many files'')) (\<lambda>_.
         rbind (require (ext_bytes s3 \<le> max_expanded_bytes)
                  (ContentInvalid ''expanded content bundle exceeds size limit'')) (\<lambda>_.
         rbind (make_dirs [] (butlast target) (ext_tree s)) (\<lambda>t.
         rbind (write_file (tar_name m) target
                  \<lparr>fil_executable = tar_executable m, fil_data = tar_data m\<rparr> t) (\<lambda>t'.
           Inr (s3\<lparr>ext_tree := t'\<rparr>)))))))))))"

definition no_extraction :: extraction where
  "no_extraction = \<lparr>ext_tree = [], ext_seen = [], ext_members = 0, ext_files = 0, ext_bytes = 0\<rparr>"

definition extract_validated_bundle :: "(string \<Rightarrow> archive option) \<Rightarrow> string \<Rightarrow> string \<Rightarrow> svc_error + tree" where
  "extract_validated_bundle open_archive slug raw =
     rbind (or_raise (open_archive raw)
              (ContentInvalid ''content bundle must be a valid tar.gz archive'')) (\<lambda>a.
     rbind (fold_res (extract_member slug) (arc_members a) no_extraction) (\<lambda>s.
     rbind (require (\<not> arc_broken a) (OSError ''unexpected end of data'')) (\<lambda>_.
     rbind (require (ext_files s \<noteq> 0) (ContentInvalid ''content bundle contains no files'')) (\<lambda>_.
       Inr (ext_tree s)))))"

section \<open>The canonical bundle\<close>

text \<open>The regular files of the skill directory, relative to it, in the order of \<open>sorted\<close>.\<close>

definition skill_files :: "string \<Rightarrow> tree \<Rightarrow> (path \<times> file_entry) list" where
  "skill_files slug t =
     sort_key fst (concat (map (\<lambda>(p, n). case n of
        Regular f \<Rightarrow> if p \<noteq> [] \<and> tl p \<noteq> [] \<and> hd p = slug then [(tl p, f)] else []
      | Directory \<Rightarrow> []) t))"

definition bundle_entry :: "string \<Rightarrow> path \<times> file_entry \<Rightarrow> tar_member" where
  "bundle_entry slug = (\<lambda>(p, f).
     \<lparr>tar_name = join ''/'' (slug # p), tar_kind = TarFile, tar_executable = fil_executable f,
      tar_data = fil_data f\<rparr>)"

text \<open>
  \<open>deterministic_bundle\<close>: every header field but the name, the size and the executable bit is
  fixed, so the bytes are a function \<open>tar_gz\<close> of the entries.
\<close>

definition deterministic_bundle :: "(tar_member list \<Rightarrow> string) \<Rightarrow> string \<Rightarrow> (path \<times> file_entry) list \<Rightarrow> string" where
  "deterministic_bundle tar_gz slug files = tar_gz (map (bundle_entry slug) files)"

record canonical_bundle =
  bun_data :: string
  bun_version :: string
  bun_metadata :: "(string \<times> json) list"

definition validated_metadata ::
    "(string \<Rightarrow> json option) \<Rightarrow> (path \<times> file_entry) list \<Rightarrow> svc_error + (string \<times> json) list" where
  "validated_metadata decode files =
     rbind (or_raise (case map_of files [''_meta.json''] of None \<Rightarrow> None | Some f \<Rightarrow> decode (fil_data f))
              (ContentInvalid ''could not read validated skill metadata'')) (\<lambda>payload.
     case payload of
       JObj m \<Rightarrow> Inr m
     | _ \<Rightarrow> Inl (ContentInvalid ''validated skill metadata must be an object''))"

definition declared_version :: "(string \<times> json) list \<Rightarrow> svc_error + string" where
  "declared_version metadata =
     or_raise (case jget metadata ''version'' of JStr v \<Rightarrow> if v = [] then None else Some v | _ \<Rightarrow> None)
       (ContentInvalid ''validated skill metadata has no version'')"

text \<open>
  The standard library and the two validators: \<open>lib_validate\<close> is the first error of
  \<open>validate_installable_skill_dir\<close> and \<open>load_openclaw_skill_contract\<close> on the files of a skill.
\<close>

record content_lib =
  lib_open :: "string \<Rightarrow> archive option"
  lib_tar_gz :: "tar_member list \<Rightarrow> string"
  lib_decode :: "string \<Rightarrow> json option"
  lib_validate :: "string \<Rightarrow> (path \<times> file_entry) list \<Rightarrow> string option"

definition canonicalize_skill_bundle :: "content_lib \<Rightarrow> string \<Rightarrow> string \<Rightarrow> svc_error + canonical_bundle" where
  "canonicalize_skill_bundle lib slug raw =
     rbind (require (raw \<noteq> []) (ContentInvalid ''content bundle is empty'')) (\<lambda>_.
     rbind (require (length raw \<le> max_bundle_bytes)
              (ContentInvalid ''content bundle exceeds upload size limit'')) (\<lambda>_.
     rbind (extract_validated_bundle (lib_open lib) slug raw) (\<lambda>t.
     let files = skill_files slug t in
     rbind (case lib_validate lib slug files of None \<Rightarrow> Inr () | Some e \<Rightarrow> Inl (ContentInvalid e)) (\<lambda>_.
     rbind (validated_metadata (lib_decode lib) files) (\<lambda>metadata.
     rbind (declared_version metadata) (\<lambda>version.
       Inr \<lparr>bun_data = deterministic_bundle (lib_tar_gz lib) slug files, bun_version = version,
            bun_metadata = metadata\<rparr>))))))"

definition identity_mismatch :: "string \<Rightarrow> string option \<Rightarrow> string \<Rightarrow> string \<Rightarrow> string list" where
  "identity_mismatch label found what expected =
     complain (found \<noteq> Some expected)
       (label @ '' '' @ show_opt (map_option py_repr found) @ '' must equal '' @ what @ py_repr expected)"

definition validate_hosted_skill_identity ::
    "(string \<times> json) list \<Rightarrow> string \<Rightarrow> string \<Rightarrow> svc_error + unit" where
  "validate_hosted_skill_identity metadata publisher slug =
     rbind (reraise (\<lambda>_. AttributeError ''strip'') (validate_identity_metadata metadata)) (\<lambda>(i, errors).
     let all_errors = errors @
           identity_mismatch ''skill metadata name'' (idn_name i) ''hosted slug '' slug @
           identity_mismatch ''skill metadata publisher'' (idn_publisher i) ''hosted namespace '' publisher @
           identity_mismatch ''skill metadata qualified_name'' (idn_qualified i) [] (publisher @ ''/'' @ slug)
     in require (all_errors = []) (ContentInvalid (join ''; '' (unique all_errors))))"

section \<open>The tree stays inside the skill's directory\<close>

definition good_path :: "string \<Rightarrow> path \<Rightarrow> bool" where
  "good_path slug p \<longleftrightarrow> p \<noteq> [] \<and> hd p = slug \<and>
     (\<forall>c \<in> set p. c \<noteq> [] \<and> c \<noteq> ''.'' \<and> c \<noteq> ''..'' \<and> CHR ''/'' \<notin> set c)"

definition parents_ok :: "tree \<Rightarrow> path \<Rightarrow> bool" where
  "parents_ok t p \<longleftrightarrow> (\<forall>k. 0 < k \<and> k < length p \<longrightarrow> map_of t (take k p) = Some Directory)"

definition tree_ok :: "string \<Rightarrow> tree \<Rightarrow> bool" where
  "tree_ok slug t \<longleftrightarrow> distinct (map fst t) \<and> (\<forall>p \<in> fst ` set t. good_path slug p \<and> parents_ok t p)"

definition regulars :: "tree \<Rightarrow> (path \<times> file_entry) set" where
  "regulars t = {(p, f). map_of t p = Some (Regular f)}"

definition extends :: "tree \<Rightarrow> tree \<Rightarrow> bool" where
  "extends t t' \<longleftrightarrow> (\<forall>p n. map_of t p = Some n \<longrightarrow> map_of t' p = Some n)"

lemma extends_trans: "extends t u \<Longrightarrow> extends u v \<Longrightarrow> extends t v"
  by (simp add: extends_def)

lemma split_on_no_delimiter: "w \<in> set (split_on d s) \<Longrightarrow> d \<notin> set w"
proof (induction s arbitrary: w)
  case Nil
  then show ?case by simp
next
  case (Cons c s)
  obtain v vs where v: "split_on d s = v # vs" by (cases "split_on d s") simp_all
  with Cons show ?case by (auto split: if_splits)
qed

lemma path_parts_good:
  assumes "safe_member_path slug name = Inr p"
  shows "good_path slug p \<and> p = path_parts name"
  using assms split_on_no_delimiter [of _ "CHR ''/''" name]
  by (auto simp: safe_member_path_def Let_def res_simps good_path_def path_parts_def)

lemma good_path_prefix:
  assumes "good_path slug (p @ q)" and "p \<noteq> []"
  shows "good_path slug p"
  using assms by (simp add: good_path_def)

lemma lookup_snoc:
  "map_of (t @ [(p, n)]) q = (case map_of t q of None \<Rightarrow> if q = p then Some n else None | Some m \<Rightarrow> Some m)"
  by (auto simp: map_add_def split: option.splits)

definition dirs_to :: "tree \<Rightarrow> path \<Rightarrow> bool" where
  "dirs_to t p \<longleftrightarrow> (\<forall>k. 0 < k \<and> k \<le> length p \<longrightarrow> map_of t (take k p) = Some Directory)"

lemma dirs_to_snoc: "dirs_to t (d @ [p]) \<longleftrightarrow> dirs_to t d \<and> map_of t (d @ [p]) = Some Directory"
proof -
  have "k \<le> length (d @ [p]) \<longleftrightarrow> k \<le> length d \<or> k = Suc (length d)" for k by auto
  then show ?thesis unfolding dirs_to_def by (auto simp: conj_disj_distribL)
qed

lemma dirs_to_Nil [simp]: "dirs_to t []"
  by (simp add: dirs_to_def)

lemma dirs_to_extends: "dirs_to t p \<Longrightarrow> extends t u \<Longrightarrow> dirs_to u p"
  by (simp add: dirs_to_def extends_def)

lemma parents_dirs: "parents_ok t p \<longleftrightarrow> dirs_to t (butlast p)"
  by (auto simp: parents_ok_def dirs_to_def take_butlast)

lemma tree_ok_add:
  assumes "tree_ok slug t" and "map_of t p = None" and "good_path slug p" and "parents_ok t p"
  shows "tree_ok slug (t @ [(p, n)]) \<and> extends t (t @ [(p, n)])"
proof -
  have e: "extends t (t @ [(p, n)])" by (simp add: extends_def)
  then have "parents_ok (t @ [(p, n)]) q" if "parents_ok t q" for q
    using that by (simp add: parents_ok_def extends_def)
  with assms e show ?thesis by (auto simp: tree_ok_def map_of_eq_None_iff)
qed

lemma make_dirs_ok:
  assumes "make_dirs done ps t = Inr t'" and "tree_ok slug t" and "ps \<noteq> [] \<Longrightarrow> good_path slug (done @ ps)"
    and "dirs_to t done"
  shows "tree_ok slug t' \<and> extends t t' \<and> regulars t' = regulars t \<and> dirs_to t' (done @ ps) \<and>
     (\<forall>q. map_of t' q = Some Directory \<longrightarrow> map_of t q = Some Directory \<or>
        (\<exists>k. 0 < k \<and> k \<le> length (done @ ps) \<and> q = take k (done @ ps)))"
  using assms
proof (induction "done" ps t rule: make_dirs.induct [case_names Root Part])
  case (Root d t)
  then show ?case by (simp add: extends_def)
next
  case (Part d p ps t)
  have good: "good_path slug (d @ [p])"
    using Part.prems(3) good_path_prefix [of slug "d @ [p]" ps] by simp
  show ?case
  proof (cases "map_of t (d @ [p])")
    case None
    define u where "u = t @ [(d @ [p], Directory)]"
    have "parents_ok t (d @ [p])" using Part.prems(4) by (simp add: parents_dirs)
    with None good Part.prems(2) have u: "tree_ok slug u" "extends t u"
      using tree_ok_add by (auto simp: u_def)
    have u_lookup: "map_of u q = (case map_of t q of
        None \<Rightarrow> if q = d @ [p] then Some Directory else None | Some m \<Rightarrow> Some m)" for q
      unfolding u_def by (rule lookup_snoc)
    have dirs: "dirs_to u (d @ [p])"
      using Part.prems(4) u(2) None by (simp add: dirs_to_snoc dirs_to_extends u_lookup)
    have reg: "regulars u = regulars t"
      using None by (auto simp: regulars_def u_lookup split: option.splits if_splits)
    have "make_dirs (d @ [p]) ps u = Inr t'" using Part.prems(1) None by (simp add: u_def)
    from Part.IH(1) [OF None, folded u_def, OF this u(1) _ dirs] Part.prems(3)
    have t': "tree_ok slug t'" "extends u t'" "regulars t' = regulars u" "dirs_to t' (d @ p # ps)"
      and new: "\<And>q. map_of t' q = Some Directory \<Longrightarrow> map_of u q = Some Directory \<or>
        (\<exists>k. 0 < k \<and> k \<le> length (d @ p # ps) \<and> q = take k (d @ p # ps))"
      by simp_all
    have "map_of t q = Some Directory \<or> (\<exists>k. 0 < k \<and> k \<le> length (d @ p # ps) \<and> q = take k (d @ p # ps))"
      if "map_of u q = Some Directory" for q
    proof (cases "map_of t q")
      case None
      with that have "q = d @ [p]" by (simp add: u_lookup split: if_splits)
      then have "0 < Suc (length d) \<and> Suc (length d) \<le> length (d @ p # ps) \<and>
          q = take (Suc (length d)) (d @ p # ps)"
        by simp
      then show ?thesis by blast
    next
      case (Some m)
      with that show ?thesis by (simp add: u_lookup)
    qed
    with new have "\<forall>q. map_of t' q = Some Directory \<longrightarrow> map_of t q = Some Directory \<or>
        (\<exists>k. 0 < k \<and> k \<le> length (d @ p # ps) \<and> q = take k (d @ p # ps))"
      by blast
    with t' reg extends_trans [OF u(2) t'(2)] show ?thesis by blast
  next
    case (Some n)
    show ?thesis
    proof (cases n)
      case Directory
      have dirs: "dirs_to t (d @ [p])" using Part.prems(4) Some Directory by (simp add: dirs_to_snoc)
      have "make_dirs (d @ [p]) ps t = Inr t'" using Part.prems(1) Some Directory by simp
      from Part.IH(2) [OF Some Directory this Part.prems(2) _ dirs] Part.prems(3) show ?thesis by simp
    next
      case (Regular f)
      with Some Part.prems(1) show ?thesis by simp
    qed
  qed
qed

text \<open>It fails only where a regular file is in the way.\<close>

lemma make_dirs_succeeds:
  assumes "\<And>k f. 0 < k \<Longrightarrow> k \<le> length (done @ ps) \<Longrightarrow> map_of t (take k (done @ ps)) \<noteq> Some (Regular f)"
  shows "\<exists>t'. make_dirs done ps t = Inr t'"
  using assms
proof (induction "done" ps t rule: make_dirs.induct [case_names Root Part])
  case (Root d t)
  then show ?case by simp
next
  case (Part d p ps t)
  have here: "map_of t (d @ [p]) \<noteq> Some (Regular f)" for f
    using Part.prems [of "Suc (length d)" f] by simp
  show ?case
  proof (cases "map_of t (d @ [p])")
    case None
    have "map_of (t @ [(d @ [p], Directory)]) (take k (d @ p # ps)) \<noteq> Some (Regular f)"
      if "0 < k" "k \<le> length (d @ p # ps)" for k f
      using Part.prems [OF that, of f] unfolding lookup_snoc by (auto split: option.splits if_splits)
    with Part.IH(1) [OF None] None show ?thesis by simp
  next
    case (Some n)
    with here have "n = Directory" by (cases n) blast+
    with Part.IH(2) [OF Some] Part.prems Some show ?thesis by simp
  qed
qed

section \<open>What an extraction has written\<close>

definition member_path :: "tar_member \<Rightarrow> path" where
  "member_path m = path_parts (tar_name m)"

definition member_entry :: "tar_member \<Rightarrow> path \<times> file_entry" where
  "member_entry m = (member_path m, \<lparr>fil_executable = tar_executable m, fil_data = tar_data m\<rparr>)"

definition file_members :: "tar_member list \<Rightarrow> tar_member list" where
  "file_members ms = filter (\<lambda>m. tar_kind m = TarFile) ms"

definition member_ok :: "string \<Rightarrow> tar_member \<Rightarrow> bool" where
  "member_ok slug m \<longleftrightarrow> tar_kind m \<noteq> TarOther \<and> \<not> starts_with ''/'' (tar_name m) \<and> good_path slug (member_path m)"

definition within_limits :: "tar_member list \<Rightarrow> bool" where
  "within_limits ms \<longleftrightarrow> length ms \<le> max_bundle_members \<and> length (file_members ms) \<le> max_bundle_files \<and>
     sum_list (map (length \<circ> tar_data) (file_members ms)) \<le> max_expanded_bytes"

definition dirs_needed :: "tar_member list \<Rightarrow> tree \<Rightarrow> bool" where
  "dirs_needed ms t \<longleftrightarrow> (\<forall>q. map_of t q = Some Directory \<longrightarrow>
     (\<exists>m \<in> set ms. \<exists>k. 0 < k \<and> q = take k (member_path m) \<and>
        (k < length (member_path m) \<or> tar_kind m = TarDirectory \<and> k = length (member_path m))))"

definition extracted :: "string \<Rightarrow> tar_member list \<Rightarrow> extraction \<Rightarrow> bool" where
  "extracted slug ms s \<longleftrightarrow>
     tree_ok slug (ext_tree s) \<and> regulars (ext_tree s) = member_entry ` set (file_members ms) \<and>
     dirs_needed ms (ext_tree s) \<and> ext_seen s = map member_path ms \<and> distinct (map member_path ms) \<and>
     ext_members s = length ms \<and> ext_files s = length (file_members ms) \<and>
     ext_bytes s = sum_list (map (length \<circ> tar_data) (file_members ms)) \<and>
     within_limits ms \<and> (\<forall>m \<in> set ms. member_ok slug m)"

lemma file_members_snoc:
  "file_members (ms @ [m]) = file_members ms @ (if tar_kind m = TarFile then [m] else [])"
  by (simp add: file_members_def)

lemma safe_member_path_iff:
  "safe_member_path slug name = Inr p \<longleftrightarrow>
     p = path_parts name \<and> \<not> starts_with ''/'' name \<and> good_path slug (path_parts name)"
  using split_on_no_delimiter [of _ "CHR ''/''" name]
  by (auto simp: safe_member_path_def Let_def res_simps good_path_def path_parts_def)

text \<open>The checks that do not look at the tree, and what remains of a step once they pass.\<close>

definition admissible :: "string \<Rightarrow> tar_member list \<Rightarrow> tar_member \<Rightarrow> bool" where
  "admissible slug ms m \<longleftrightarrow> member_ok slug m \<and> member_path m \<notin> set (map member_path ms) \<and>
     within_limits (ms @ [m])"

lemma extract_member_iff:
  assumes "extracted slug ms s"
  shows "extract_member slug m s = Inr s' \<longleftrightarrow> admissible slug ms m \<and>
     (if tar_kind m = TarDirectory
      then \<exists>t. make_dirs [] (member_path m) (ext_tree s) = Inr t \<and>
           s' = s\<lparr>ext_members := length ms + 1, ext_seen := map member_path (ms @ [m]), ext_tree := t\<rparr>
      else \<exists>t t'. make_dirs [] (butlast (member_path m)) (ext_tree s) = Inr t \<and>
           write_file (tar_name m) (member_path m) (snd (member_entry m)) t = Inr t' \<and>
           s' = s\<lparr>ext_members := length ms + 1, ext_seen := map member_path (ms @ [m]),
                  ext_files := ext_files s + 1, ext_bytes := ext_bytes s + length (tar_data m),
                  ext_tree := t'\<rparr>)"
proof (cases "tar_kind m")
  case TarFile
  then show ?thesis
    using assms
    by (auto simp: extract_member_def Let_def rbind_Inr_iff safe_member_path_iff extracted_def admissible_def
          member_ok_def within_limits_def file_members_snoc member_entry_def member_path_def)
next
  case TarDirectory
  then show ?thesis
    using assms
    by (auto simp: extract_member_def Let_def rbind_Inr_iff safe_member_path_iff extracted_def admissible_def
          member_ok_def within_limits_def file_members_snoc member_path_def)
next
  case TarOther
  then show ?thesis
    by (auto simp: extract_member_def Let_def rbind_Inr_iff admissible_def member_ok_def)
qed

lemma regular_seen:
  "extracted slug ms s \<Longrightarrow> map_of (ext_tree s) p = Some (Regular f) \<Longrightarrow> p \<in> set (map member_path ms)"
  by (auto simp: extracted_def regulars_def member_entry_def file_members_def set_eq_iff image_iff)

lemma update_fresh: "map_of t p = None \<Longrightarrow> AList.update p n t = t @ [(p, n)]"
  by (induction t) (auto split: if_splits)

lemma extract_member_step:
  assumes e: "extracted slug ms s" and x: "extract_member slug m s = Inr s'"
  shows "extracted slug (ms @ [m]) s'"
proof -
  have adm: "admissible slug ms m" using x extract_member_iff [OF e] by simp
  then have good: "good_path slug (member_path m)" and fresh: "member_path m \<notin> set (map member_path ms)"
      and ne: "member_path m \<noteq> []" and ok: "member_ok slug m" and lim: "within_limits (ms @ [m])"
    by (auto simp: admissible_def member_ok_def good_path_def)
  have tree: "tree_ok slug (ext_tree s)" using e by (simp add: extracted_def)
  have old: "dirs_needed (ms @ [m]) t"
    if "\<And>q. map_of t q = Some Directory \<Longrightarrow> map_of (ext_tree s) q = Some Directory \<or>
          (\<exists>k. 0 < k \<and> k \<le> length (member_path m) \<and> q = take k (member_path m) \<and>
             (k < length (member_path m) \<or> tar_kind m = TarDirectory))" for t
    unfolding dirs_needed_def
  proof (intro allI impI)
    fix q
    assume "map_of t q = Some Directory"
    from that [OF this] show "\<exists>m' \<in> set (ms @ [m]). \<exists>k. 0 < k \<and> q = take k (member_path m') \<and>
        (k < length (member_path m') \<or> tar_kind m' = TarDirectory \<and> k = length (member_path m'))"
    proof
      assume "map_of (ext_tree s) q = Some Directory"
      with e show ?thesis by (auto simp: extracted_def dirs_needed_def)
    next
      assume "\<exists>k. 0 < k \<and> k \<le> length (member_path m) \<and> q = take k (member_path m) \<and>
             (k < length (member_path m) \<or> tar_kind m = TarDirectory)"
      then show ?thesis by (auto simp: le_less)
    qed
  qed
  show ?thesis
  proof (cases "tar_kind m = TarDirectory")
    case True
    then obtain t where t: "make_dirs [] (member_path m) (ext_tree s) = Inr t"
        "s' = s\<lparr>ext_members := length ms + 1, ext_seen := map member_path (ms @ [m]), ext_tree := t\<rparr>"
      using x extract_member_iff [OF e] by auto
    note d = make_dirs_ok [OF t(1) tree, simplified, OF good]
    have "dirs_needed (ms @ [m]) t" by (rule old) (use d True in blast)
    with d e t(2) fresh ok lim True show ?thesis
      by (auto simp: extracted_def file_members_snoc)
  next
    case False
    with ok have plain: "tar_kind m = TarFile" by (cases "tar_kind m") (simp_all add: member_ok_def)
    from False obtain t t' where t: "make_dirs [] (butlast (member_path m)) (ext_tree s) = Inr t"
        "write_file (tar_name m) (member_path m) (snd (member_entry m)) t = Inr t'"
        "s' = s\<lparr>ext_members := length ms + 1, ext_seen := map member_path (ms @ [m]),
                  ext_files := ext_files s + 1, ext_bytes := ext_bytes s + length (tar_data m),
                  ext_tree := t'\<rparr>"
      using x extract_member_iff [OF e] by auto
    have "good_path slug (butlast (member_path m))" if "butlast (member_path m) \<noteq> []"
      using good_path_prefix [of slug "butlast (member_path m)" "[last (member_path m)]"] good ne that by simp
    note d = make_dirs_ok [OF t(1) tree, simplified, OF this]
    have none: "map_of t (member_path m) = None"
    proof (cases "map_of t (member_path m)")
      case (Some n)
      have "n \<noteq> Directory" using t(2) Some by (auto simp: write_file_def)
      then obtain f where "n = Regular f" by (cases n) simp_all
      with Some have "(member_path m, f) \<in> regulars t" by (simp add: regulars_def)
      with d have "map_of (ext_tree s) (member_path m) = Some (Regular f)" by (simp add: regulars_def)
      with regular_seen [OF e] fresh show ?thesis by blast
    qed simp
    then have t': "t' = t @ [(member_path m, Regular (snd (member_entry m)))]"
      using t(2) by (simp add: write_file_def none update_fresh)
    have tree': "tree_ok slug t'"
      using tree_ok_add [OF _ none good] d unfolding t' parents_dirs by blast
    have "regulars t' = insert (member_entry m) (regulars t)"
      using none unfolding t' regulars_def lookup_snoc
      by (auto simp: member_entry_def split: option.splits if_splits)
    with d have reg: "regulars t' = insert (member_entry m) (regulars (ext_tree s))" by simp
    have "dirs_needed (ms @ [m]) t'"
    proof (rule old)
      fix q
      assume "map_of t' q = Some Directory"
      then have "map_of t q = Some Directory"
        unfolding t' lookup_snoc by (auto split: option.splits if_splits)
      with d have "map_of (ext_tree s) q = Some Directory \<or>
          (\<exists>k. 0 < k \<and> k \<le> length (member_path m) - 1 \<and> q = take k (butlast (member_path m)))"
        by simp
      then show "map_of (ext_tree s) q = Some Directory \<or>
          (\<exists>k. 0 < k \<and> k \<le> length (member_path m) \<and> q = take k (member_path m) \<and>
             (k < length (member_path m) \<or> tar_kind m = TarDirectory))"
        by (auto simp: take_butlast)
    qed
    with tree' reg show ?thesis
      using e t(3) fresh ok lim plain by (auto simp: extracted_def file_members_snoc)
  qed
qed

lemma fold_res_history:
  assumes "fold_res f xs s = Inr t" and "I ys s"
    and "\<And>ys x s s'. I ys s \<Longrightarrow> f x s = Inr s' \<Longrightarrow> I (ys @ [x]) s'"
  shows "I (ys @ xs) t"
  using assms(1,2)
proof (induction xs arbitrary: ys s)
  case Nil
  then show ?case by simp
next
  case (Cons x xs)
  then obtain s1 where "f x s = Inr s1" "fold_res f xs s1 = Inr t" by (auto simp: res_simps)
  with Cons.IH [of s1 "ys @ [x]"] assms(3) Cons.prems(2) show ?case by simp
qed

lemma extracted_start: "extracted slug [] no_extraction"
  by (simp add: extracted_def no_extraction_def tree_ok_def regulars_def dirs_needed_def file_members_def
        within_limits_def)

lemma extraction_history:
  "fold_res (extract_member slug) ms no_extraction = Inr s \<Longrightarrow> extracted slug ms s"
  using fold_res_history [of "extract_member slug" ms no_extraction s "extracted slug" "[]"]
  by (simp add: extracted_start extract_member_step)

section \<open>The files of the skill\<close>

lemma mem_skill_files:
  "(q, f) \<in> set (skill_files slug t) \<longleftrightarrow> q \<noteq> [] \<and> (slug # q, Regular f) \<in> set t"
proof -
  have "(q, f) \<in> set (skill_files slug t) \<longleftrightarrow>
      (\<exists>p. (p, Regular f) \<in> set t \<and> p \<noteq> [] \<and> tl p \<noteq> [] \<and> hd p = slug \<and> q = tl p)"
    unfolding skill_files_def set_sort set_concat set_map
    by (auto split: node.splits if_splits)
  also have "\<dots> \<longleftrightarrow> q \<noteq> [] \<and> (slug # q, Regular f) \<in> set t"
    by (metis hd_Cons_tl list.sel(1,3) list.distinct(1))
  finally show ?thesis .
qed

lemma skill_files_sorted: "sorted (map fst (skill_files slug t))"
  by (simp add: skill_files_def)

lemma skill_files_distinct:
  assumes "distinct (map fst t)"
  shows "distinct (map fst (skill_files slug t))"
proof -
  define sel where "sel = (\<lambda>(p :: path, n). case n of
        Regular f \<Rightarrow> if p \<noteq> [] \<and> tl p \<noteq> [] \<and> hd p = slug then [(tl p, f)] else []
      | Directory \<Rightarrow> [])"
  have mem: "q \<in> fst ` set (concat (map sel t)) \<Longrightarrow> slug # q \<in> fst ` set t" for t q
    by (force simp: sel_def split: node.splits if_splits)
  have "distinct (map fst (concat (map sel t)))"
    using assms
  proof (induction t)
    case Nil
    then show ?case by simp
  next
    case (Cons x t)
    obtain p n where x: "x = (p, n)" by (cases x)
    have "tl p \<notin> fst ` set (concat (map sel t))" if "p \<noteq> []" "hd p = slug"
    proof
      assume "tl p \<in> fst ` set (concat (map sel t))"
      from mem [OF this] that have "p \<in> fst ` set t" by (metis hd_Cons_tl)
      with Cons.prems show False by (simp add: x)
    qed
    with Cons show ?case by (cases n) (auto simp: x sel_def)
  qed
  then show ?thesis
    by (simp add: skill_files_def sel_def distinct_map distinct_sort)
qed

lemma skill_files_regulars:
  assumes "tree_ok slug t"
  shows "set (skill_files slug t) = {(q, f). q \<noteq> [] \<and> (slug # q, f) \<in> regulars t}"
  using assms by (auto simp: mem_skill_files regulars_def tree_ok_def map_of_eq_Some_iff)

lemma skill_files_unique:
  assumes "sorted (map fst xs)" and "distinct (map fst xs)" and "tree_ok slug t"
    and "set xs = {(q, f). q \<noteq> [] \<and> (slug # q, f) \<in> regulars t}"
  shows "skill_files slug t = xs"
proof -
  have d: "distinct (map fst (skill_files slug t))"
    using assms(3) by (simp add: tree_ok_def skill_files_distinct)
  have set_eq: "set (skill_files slug t) = set xs"
    using assms(4) skill_files_regulars [OF assms(3)] by simp
  have "inj_on fst (set (skill_files slug t) \<union> set xs)"
    using assms(2) set_eq by (simp add: distinct_map)
  then show ?thesis
    using map_sorted_distinct_set_unique [of fst "skill_files slug t" xs] set_eq
      skill_files_sorted [of slug t] d assms(1,2) by simp
qed

section \<open>The canonical bundle extracts to the same files\<close>

lemma split_on_join:
  assumes "ws \<noteq> []" and "\<forall>w \<in> set ws. d \<notin> set w"
  shows "split_on d (join [d] ws) = ws"
proof -
  have word: "split_on d w = [w]" if "d \<notin> set w" for w
    using that by (induction w) auto
  have cons: "split_on d (w @ d # s) = w # split_on d s" if "d \<notin> set w" for w s
    using that by (induction w) auto
  show ?thesis
    using assms
  proof (induction "[d]" ws rule: join.induct)
    case 1
    then show ?case by simp
  next
    case (2 w)
    then show ?case by (simp add: word)
  next
    case (3 w v vs)
    then show ?case by (simp add: cons)
  qed
qed

lemma bundle_entry_path:
  assumes "good_path slug (slug # q)"
  shows "member_path (bundle_entry slug (q, f)) = slug # q \<and>
     member_entry (bundle_entry slug (q, f)) = (slug # q, f) \<and> member_ok slug (bundle_entry slug (q, f))"
proof -
  have no: "\<forall>w \<in> set (slug # q). CHR ''/'' \<notin> set w" and ne: "\<forall>w \<in> set (slug # q). w \<noteq> [] \<and> w \<noteq> ''.''"
    using assms by (simp_all add: good_path_def)
  have "path_parts (join ''/'' (slug # q)) = slug # q"
    unfolding path_parts_def split_on_join [OF list.distinct(2) no] using ne by simp
  moreover have "\<not> starts_with ''/'' (join ''/'' (slug # q))"
    using no ne by (cases slug; cases q) (auto simp: starts_with_def)
  ultimately show ?thesis
    using assms by (simp add: member_path_def member_entry_def member_ok_def bundle_entry_def)
qed

lemma fold_res_snoc: "fold_res f (xs @ [x]) u = rbind (fold_res f xs u) (f x)"
proof (induction xs arbitrary: u)
  case Nil
  then show ?case by (cases "f x u") simp_all
next
  case (Cons a xs)
  then show ?case by (cases "f a u") simp_all
qed

text \<open>An archive of regular files none of which lies below another is extracted.\<close>

lemma plain_archive_extracts:
  assumes "\<forall>m \<in> set ms. tar_kind m = TarFile \<and> member_ok slug m" and "distinct (map member_path ms)"
    and "\<forall>m \<in> set ms. \<forall>n \<in> set ms. \<forall>k < length (member_path n). member_path m \<noteq> take k (member_path n)"
    and "within_limits ms"
  shows "\<exists>s. fold_res (extract_member slug) ms no_extraction = Inr s"
  using assms
proof (induction ms rule: rev_induct)
  case Nil
  then show ?case by simp
next
  case (snoc m ms)
  have "within_limits ms" using snoc.prems(4) by (simp add: within_limits_def file_members_snoc split: if_splits)
  with snoc obtain s where s: "fold_res (extract_member slug) ms no_extraction = Inr s" by auto
  note e = extraction_history [OF s]
  have tree: "tree_ok slug (ext_tree s)" using e by (simp add: extracted_def)
  have plain: "tar_kind m = TarFile" and ok: "member_ok slug m" using snoc.prems(1) by simp_all
  then have good: "good_path slug (member_path m)" and ne: "member_path m \<noteq> []"
    by (simp_all add: member_ok_def good_path_def)
  have adm: "admissible slug ms m"
    using snoc.prems(2,4) ok by (simp add: admissible_def)
  have clear: "map_of (ext_tree s) (take k (member_path m)) \<noteq> Some (Regular f)" if "k < length (member_path m)" for k f
  proof
    assume "map_of (ext_tree s) (take k (member_path m)) = Some (Regular f)"
    from regular_seen [OF e this] obtain n where "n \<in> set ms" "member_path n = take k (member_path m)" by auto
    with snoc.prems(3) that show False by auto
  qed
  have "\<exists>t. make_dirs [] (butlast (member_path m)) (ext_tree s) = Inr t"
    by (rule make_dirs_succeeds) (use clear ne in \<open>auto simp: take_butlast\<close>)
  then obtain t where t: "make_dirs [] (butlast (member_path m)) (ext_tree s) = Inr t" by blast
  have "good_path slug (butlast (member_path m))" if "butlast (member_path m) \<noteq> []"
    using good_path_prefix [of slug "butlast (member_path m)" "[last (member_path m)]"] good ne that by simp
  note d = make_dirs_ok [OF t tree, simplified, OF this]
  have "map_of t (member_path m) \<noteq> Some Directory"
  proof
    assume "map_of t (member_path m) = Some Directory"
    with d have "map_of (ext_tree s) (member_path m) = Some Directory \<or>
        (\<exists>k. k \<le> length (member_path m) - 1 \<and> member_path m = take k (butlast (member_path m)))"
      by auto
    then show False
    proof
      assume "map_of (ext_tree s) (member_path m) = Some Directory"
      then obtain n k where "n \<in> set ms" "member_path m = take k (member_path n)"
          "k < length (member_path n) \<or> tar_kind n = TarDirectory"
        using e unfolding extracted_def dirs_needed_def by blast
      moreover from this snoc.prems(1) have "tar_kind n = TarFile" by simp
      ultimately have "k < length (member_path n)" "member_path m = take k (member_path n)"
          "m \<in> set (ms @ [m])" "n \<in> set (ms @ [m])"
        by simp_all
      with snoc.prems(3) show False by blast
    next
      assume "\<exists>k. k \<le> length (member_path m) - 1 \<and> member_path m = take k (butlast (member_path m))"
      then obtain k where "k \<le> length (member_path m) - 1" "member_path m = take k (butlast (member_path m))" by blast
      from this(2) have "length (member_path m) = length (take k (butlast (member_path m)))"
        by (rule arg_cong)
      then have "length (member_path m) \<le> length (member_path m) - 1"
        unfolding length_take length_butlast by linarith
      with ne show False by (cases "member_path m") simp_all
    qed
  qed
  then have "\<exists>t'. write_file (tar_name m) (member_path m) (snd (member_entry m)) t = Inr t'"
    by (auto simp: write_file_def split: option.splits node.splits)
  with t adm plain have "\<exists>s'. extract_member slug m s = Inr s'"
    unfolding extract_member_iff [OF e] by auto
  then show ?case using s by (simp add: fold_res_snoc)
qed

lemma files_weight:
  assumes "extracted slug ms s" and "files = skill_files slug (ext_tree s)"
  shows "length files \<le> length (file_members ms) \<and>
     sum_list (map (length \<circ> fil_data \<circ> snd) files) \<le> sum_list (map (length \<circ> tar_data) (file_members ms))"
proof -
  define g where "g = (\<lambda>x :: path \<times> file_entry. length (fil_data (snd x)))"
  define put where "put = (\<lambda>x :: path \<times> file_entry. (slug # fst x, snd x))"
  have tree: "tree_ok slug (ext_tree s)" and reg: "regulars (ext_tree s) = member_entry ` set (file_members ms)"
      and d: "distinct (map member_path ms)"
    using assms(1) by (simp_all add: extracted_def)
  have dm: "distinct (map member_entry (file_members ms))"
    using d by (auto simp: file_members_def distinct_map member_entry_def inj_on_def)
  have df: "distinct files"
    using skill_files_distinct tree assms(2) by (simp add: tree_ok_def distinct_map)
  have inj: "inj_on put (set files)" by (auto simp: put_def inj_on_def prod_eq_iff)
  have sub: "put ` set files \<subseteq> regulars (ext_tree s)"
    unfolding assms(2) skill_files_regulars [OF tree] by (auto simp: put_def)
  have fin: "finite (regulars (ext_tree s))" by (simp add: reg)
  have "length files = card (put ` set files)" using df inj by (simp add: card_image distinct_card)
  also have "\<dots> \<le> card (regulars (ext_tree s))" by (rule card_mono [OF fin sub])
  also have "\<dots> = length (file_members ms)" using distinct_card [OF dm] by (simp add: reg)
  finally have len: "length files \<le> length (file_members ms)" .
  have "sum_list (map (length \<circ> fil_data \<circ> snd) files) = sum_list (map g files)"
    by (simp add: g_def comp_def)
  also have "\<dots> = sum g (set files)"
    by (rule sum_list_distinct_conv_sum_set [OF df])
  also have "\<dots> = sum g (put ` set files)"
    unfolding sum.reindex [OF inj] by (simp add: g_def put_def)
  also have "\<dots> \<le> sum g (regulars (ext_tree s))" by (rule sum_mono2 [OF fin sub]) simp
  also have "\<dots> = sum_list (map g (map member_entry (file_members ms)))"
    using sum_list_distinct_conv_sum_set [OF dm, of g] by (simp add: reg)
  also have "\<dots> = sum_list (map (length \<circ> tar_data) (file_members ms))"
    by (simp add: g_def member_entry_def comp_def)
  finally show ?thesis using len by simp
qed

lemma extract_Inr:
  "extract_validated_bundle open_archive slug raw = Inr t \<longleftrightarrow>
     (\<exists>a s. open_archive raw = Some a \<and> \<not> arc_broken a \<and> ext_files s \<noteq> 0 \<and> t = ext_tree s \<and>
        fold_res (extract_member slug) (arc_members a) no_extraction = Inr s)"
  by (auto simp: extract_validated_bundle_def res_simps)

lemma canonical_entries_extract:
  assumes s: "extracted slug ms s" and files: "files = skill_files slug (ext_tree s)" and ne: "files \<noteq> []"
    and opened: "open_archive data = Some \<lparr>arc_members = map (bundle_entry slug) files, arc_broken = False\<rparr>"
  shows "\<exists>t. extract_validated_bundle open_archive slug data = Inr t \<and> skill_files slug t = files"
proof -
  define es where "es = map (bundle_entry slug) files"
  have tree: "tree_ok slug (ext_tree s)" using s by (simp add: extracted_def)
  have mem: "(slug # q, Regular f) \<in> set (ext_tree s) \<and> good_path slug (slug # q) \<and> parents_ok (ext_tree s) (slug # q)"
    if "(q, f) \<in> set files" for q f
    using that tree unfolding files mem_skill_files tree_ok_def by force
  have paths: "map member_path es = map (\<lambda>x. slug # fst x) files"
    using mem bundle_entry_path by (auto simp: es_def)
  have keys: "distinct (map fst files)"
    using skill_files_distinct tree by (simp add: files tree_ok_def)
  have dist: "distinct (map member_path es)"
    using keys unfolding paths by (simp add: distinct_map inj_on_def)
  have plain: "\<forall>m \<in> set es. tar_kind m = TarFile \<and> member_ok slug m"
    using mem bundle_entry_path by (auto simp: es_def) (simp add: bundle_entry_def)
  have below: "\<forall>m \<in> set es. \<forall>n \<in> set es. \<forall>k < length (member_path n). member_path m \<noteq> take k (member_path n)"
  proof (intro ballI allI impI notI)
    fix m n k
    assume a: "m \<in> set es" "n \<in> set es" "k < length (member_path n)" "member_path m = take k (member_path n)"
    from a(1,2) obtain p f q g where pq: "m = bundle_entry slug (p, f)" "(p, f) \<in> set files"
        "n = bundle_entry slug (q, g)" "(q, g) \<in> set files"
      by (auto simp: es_def)
    then have "member_path m = slug # p" "member_path n = slug # q"
      using bundle_entry_path mem by simp_all
    with a(3,4) have k: "slug # p = take k (slug # q)" "k < length (slug # q)" "0 < k" by (cases k; simp)+
    then have "map_of (ext_tree s) (slug # p) = Some Directory"
      using mem [OF pq(4)] by (simp add: parents_ok_def)
    moreover have "map_of (ext_tree s) (slug # p) = Some (Regular f)"
      using mem [OF pq(2)] tree by (simp add: tree_ok_def map_of_eq_Some_iff)
    ultimately show False by simp
  qed
  have fm: "file_members es = es" using plain by (simp add: file_members_def)
  have data: "map (length \<circ> tar_data) es = map (length \<circ> fil_data \<circ> snd) files"
    by (simp add: es_def bundle_entry_def split_beta comp_def)
  have "within_limits es"
    using files_weight [OF s files] s unfolding within_limits_def fm data
    by (auto simp: extracted_def within_limits_def es_def max_bundle_files_def max_bundle_members_def)
  from plain_archive_extracts [OF plain dist below this] obtain u where
    u: "fold_res (extract_member slug) es no_extraction = Inr u" by blast
  note eu = extraction_history [OF u]
  have reg: "regulars (ext_tree u) = (\<lambda>x. (slug # fst x, snd x)) ` set files"
  proof -
    have "map member_entry es = map (\<lambda>x. (slug # fst x, snd x)) files"
      using mem bundle_entry_path by (auto simp: es_def)
    then have "member_entry ` set es = (\<lambda>x. (slug # fst x, snd x)) ` set files"
      by (metis set_map)
    with eu show ?thesis by (simp add: extracted_def fm)
  qed
  have "skill_files slug (ext_tree u) = files"
  proof (rule skill_files_unique)
    show "sorted (map fst files)" unfolding files by (rule skill_files_sorted)
    show "distinct (map fst files)" by (rule keys)
    show "tree_ok slug (ext_tree u)" using eu by (simp add: extracted_def)
    have "q \<noteq> []" if "(q, f) \<in> set files" for q f using that unfolding files mem_skill_files by simp
    then show "set files = {(q, f). q \<noteq> [] \<and> (slug # q, f) \<in> regulars (ext_tree u)}"
      unfolding reg by force
  qed
  moreover have "ext_files u = length es" using eu unfolding extracted_def fm by blast
  then have "ext_files u \<noteq> 0" using ne by (simp add: es_def)
  ultimately show ?thesis
    using u opened unfolding extract_Inr by (auto simp: es_def)
qed

section \<open>Properties\<close>

text \<open>C30. An uploaded archive is extracted only inside the skill's own directory.  When the
  extraction succeeds the archive was readable to its end, had at most 2000 members, at most 1000
  files and at most 100 MiB of data, none of its members was a link or a device, every member's
  path starts with the slug of the skill and has no empty, \<open>.\<close> or \<open>..\<close> component, no path came
  twice, everything on disk has such a path, and the files on disk are exactly the regular
  members with their data.\<close>

theorem extraction_confined:
  assumes "extract_validated_bundle open_archive slug raw = Inr t"
  shows "\<exists>ms. open_archive raw = Some \<lparr>arc_members = ms, arc_broken = False\<rparr> \<and> file_members ms \<noteq> [] \<and>
     within_limits ms \<and> (\<forall>m \<in> set ms. tar_kind m \<noteq> TarOther \<and> good_path slug (member_path m)) \<and>
     distinct (map member_path ms) \<and> (\<forall>p \<in> fst ` set t. good_path slug p) \<and>
     regulars t = member_entry ` set (file_members ms)"
proof -
  obtain a s where a: "open_archive raw = Some a" "\<not> arc_broken a" "ext_files s \<noteq> 0" "t = ext_tree s"
      "fold_res (extract_member slug) (arc_members a) no_extraction = Inr s"
    using assms unfolding extract_Inr by blast
  have e: "extracted slug (arc_members a) s" by (rule extraction_history [OF a(5)])
  have "open_archive raw = Some \<lparr>arc_members = arc_members a, arc_broken = False\<rparr>"
    using a(1,2) by (cases a) simp
  moreover have "file_members (arc_members a) \<noteq> []" using e a(3) by (auto simp: extracted_def)
  ultimately show ?thesis
    using e a(4) by (auto simp: extracted_def tree_ok_def member_ok_def)
qed


lemmas extraction_defs = extract_validated_bundle_def extract_member_def safe_member_path_def path_parts_def
  starts_with_def write_file_def no_extraction_def max_bundle_members_def max_bundle_files_def
  max_expanded_bytes_def Let_def

definition demo_members :: "tar_member list" where
  "demo_members =
     [\<lparr>tar_name = ''demo'', tar_kind = TarDirectory, tar_executable = True, tar_data = []\<rparr>,
      \<lparr>tar_name = ''./demo/scripts/run.sh'', tar_kind = TarFile, tar_executable = True, tar_data = ''echo''\<rparr>,
      \<lparr>tar_name = ''demo/_meta.json'', tar_kind = TarFile, tar_executable = False, tar_data = ''M''\<rparr>]"

definition demo_files :: "(path \<times> file_entry) list" where
  "demo_files =
     [([''_meta.json''], \<lparr>fil_executable = False, fil_data = ''M''\<rparr>),
      ([''scripts'', ''run.sh''], \<lparr>fil_executable = True, fil_data = ''echo''\<rparr>)]"

definition demo_metadata :: "(string \<times> json) list" where
  "demo_metadata = [(''name'', JStr ''demo''), (''publisher'', JStr ''alice''), (''version'', JStr ''1.0.0'')]"

definition demo_lib :: content_lib where
  "demo_lib =
     \<lparr>lib_open = (\<lambda>raw. if raw = ''up'' then Some \<lparr>arc_members = demo_members, arc_broken = False\<rparr>
                     else if raw = ''canonical''
                     then Some \<lparr>arc_members = map (bundle_entry ''demo'') demo_files, arc_broken = False\<rparr>
                     else None),
      lib_tar_gz = (\<lambda>_. ''canonical''),
      lib_decode = (\<lambda>s. if s = ''M'' then Some (JObj demo_metadata) else None),
      lib_validate = (\<lambda>_ _. None)\<rparr>"

definition demo_tree :: tree where
  "demo_tree =
     [([''demo''], Directory), ([''demo'', ''scripts''], Directory),
      ([''demo'', ''scripts'', ''run.sh''], Regular \<lparr>fil_executable = True, fil_data = ''echo''\<rparr>),
      ([''demo'', ''_meta.json''], Regular \<lparr>fil_executable = False, fil_data = ''M''\<rparr>)]"

definition demo_bundle :: canonical_bundle where
  "demo_bundle = \<lparr>bun_data = ''canonical'', bun_version = ''1.0.0'', bun_metadata = demo_metadata\<rparr>"

lemma demo_computed:
  "extract_validated_bundle (lib_open demo_lib) ''demo'' ''up'' = Inr demo_tree"
  "canonicalize_skill_bundle demo_lib ''demo'' ''up'' = Inr demo_bundle"
  "skill_files ''demo'' demo_tree = demo_files"
proof -
  show files: "skill_files ''demo'' demo_tree = demo_files"
    by code_simp
  show tree: "extract_validated_bundle (lib_open demo_lib) ''demo'' ''up'' = Inr demo_tree"
    by (simp add: extraction_defs demo_lib_def demo_members_def demo_tree_def)
  show "canonicalize_skill_bundle demo_lib ''demo'' ''up'' = Inr demo_bundle"
    by (simp add: canonicalize_skill_bundle_def tree files)
       (simp add: demo_lib_def demo_files_def demo_bundle_def max_bundle_bytes_def validated_metadata_def
             declared_version_def deterministic_bundle_def demo_metadata_def)
qed

lemma extraction_confined_witness:
  "\<exists>ms. lib_open demo_lib ''up'' = Some \<lparr>arc_members = ms, arc_broken = False\<rparr> \<and> file_members ms \<noteq> [] \<and>
     distinct (map member_path ms) \<and> regulars demo_tree = member_entry ` set (file_members ms)"
  using extraction_confined [OF demo_computed(1)] by blast


text \<open>
  A file member below another file member is not reported as an invalid bundle: the extraction
  ends with the \<open>OSError\<close> of \<open>mkdir\<close>.
\<close>

lemma nested_file_raises:
  "extract_validated_bundle
     (\<lambda>_. Some \<lparr>arc_members =
        [\<lparr>tar_name = ''demo/a'', tar_kind = TarFile, tar_executable = False, tar_data = []\<rparr>,
         \<lparr>tar_name = ''demo/a/b'', tar_kind = TarFile, tar_executable = False, tar_data = []\<rparr>],
        arc_broken = False\<rparr>) ''demo'' ''x'' = Inl (OSError ''file exists'')"
  by (simp add: extraction_defs)

end
