(* ===== verification/Authoring.thy ===== *)
theory Authoring
  imports Content
begin

text \<open>
  Skills, uploaded contents and versions: \<open>server/modules/authoring/service.py\<close>,
  \<open>repository.py\<close>, \<open>events.py\<close> and the checks of the routes in \<open>api_support.py\<close> and
  \<open>router.py\<close>.  The artifact directory is the list of the regular files below it; what is done
  to it stays done when the transaction of the request is rolled back.
\<close>

section \<open>Canonical JSON\<close>

text \<open>\<open>json.dumps(j, ensure_ascii=False, sort_keys=True, separators=(",", ":"))\<close>\<close>

fun print_compact :: "json \<Rightarrow> string" where
  "print_compact JNull = ''null''"
| "print_compact (JBool b) = (if b then ''true'' else ''false'')"
| "print_compact (JInt i) = str_of_int i"
| "print_compact (JFloat m k) = print_float m k"
| "print_compact (JStr s) = quote s"
| "print_compact (JList xs) = ''['' @ join '','' (map print_compact xs) @ '']''"
| "print_compact (JObj m) =
     ''{'' @ join '','' (map snd (sort_key fst
        (map (\<lambda>p. (fst p, quote (fst p) @ '':'' @ print_compact (snd p))) m))) @ ''}''"

definition sha256_prefixed :: "(string \<Rightarrow> string) \<Rightarrow> string \<Rightarrow> string" where
  "sha256_prefixed sha256_hex raw = ''sha256:'' @ sha256_hex raw"

section \<open>Reading\<close>

definition get_skill_version_by_version :: "id \<Rightarrow> string \<Rightarrow> db \<Rightarrow> skill_version option" where
  "get_skill_version_by_version skill_id version d =
     find (\<lambda>v. ver_skill_id v = skill_id \<and> ver_version v = version) (db_versions d)"

text \<open>\<open>order_by(created_at.desc(), id.desc()).limit(1)\<close>\<close>

definition version_rank :: "skill_version \<Rightarrow> time \<times> id" where
  "version_rank v = (ver_created_at v, ver_id v)"

definition get_latest_skill_version :: "id \<Rightarrow> db \<Rightarrow> skill_version option" where
  "get_latest_skill_version skill_id d =
     (case rev (sort_key version_rank (filter (\<lambda>v. ver_skill_id v = skill_id) (db_versions d))) of
        [] \<Rightarrow> None | v # _ \<Rightarrow> Some v)"

definition get_skill_content_by_public_id :: "string \<Rightarrow> db \<Rightarrow> skill_content option" where
  "get_skill_content_by_public_id public_id d = find (\<lambda>c. cnt_public_id c = public_id) (db_contents d)"

definition pending :: "skill_content \<Rightarrow> bool" where
  "pending c \<longleftrightarrow> cnt_state c = CntValidated \<and> cnt_consumed_at c = None"

definition pending_content_usage :: "id \<Rightarrow> id \<Rightarrow> db \<Rightarrow> int \<times> int" where
  "pending_content_usage skill_id principal_id d =
     (int (length (filter (\<lambda>c. cnt_skill_id c = skill_id \<and> pending c) (db_contents d))),
      sum_list (map cnt_size_bytes (filter (\<lambda>c. cnt_created_by c = principal_id \<and> pending c) (db_contents d))))"

definition list_expired_skill_contents :: "time \<Rightarrow> int \<Rightarrow> id option \<Rightarrow> db \<Rightarrow> skill_content list" where
  "list_expired_skill_contents cutoff limit principal_id d =
     take (nat limit) (sort_key (\<lambda>c. (cnt_created_at c, cnt_id c))
       (filter (\<lambda>c. pending c \<and> cnt_created_at c < cutoff \<and>
                    (case principal_id of None \<Rightarrow> True | Some p \<Rightarrow> cnt_created_by c = p)) (db_contents d)))"

definition active_storage_uri_is_referenced :: "string \<Rightarrow> db \<Rightarrow> bool" where
  "active_storage_uri_is_referenced uri d =
     list_ex (\<lambda>c. cnt_storage_uri c = uri \<and> cnt_state c \<noteq> CntExpired) (db_contents d)"

definition assert_namespace_owner :: "skill \<Rightarrow> id \<Rightarrow> bool \<Rightarrow> db \<Rightarrow> svc_error + unit" where
  "assert_namespace_owner s principal_id maintainer d =
     (if maintainer then Inr ()
      else if skl_namespace_id s = principal_id then Inr ()
      else require (team_member (skl_namespace_id s) principal_id d)
             (Forbidden ''skill namespace access denied''))"

definition get_skill_content_for_version :: "id \<Rightarrow> string \<Rightarrow> time \<Rightarrow> db \<Rightarrow> svc_error + skill_content" where
  "get_skill_content_for_version skill_id public_id expires_before d =
     rbind (or_raise (case get_skill_content_by_public_id public_id d of
                        None \<Rightarrow> None
                      | Some c \<Rightarrow> if cnt_skill_id c = skill_id then Some c else None)
              (NotFound ''validated skill content not found'')) (\<lambda>c.
     rbind (require (cnt_state c = CntValidated \<and> cnt_consumed_at c = None)
              (Conflict ''skill content has already been consumed'')) (\<lambda>_.
     rbind (require (expires_before \<le> cnt_created_at c)
              (Conflict ''validated skill content has expired'')) (\<lambda>_. Inr c)))"

definition list_skill_versions :: "id \<Rightarrow> id \<Rightarrow> bool \<Rightarrow> nat option \<Rightarrow> nat option \<Rightarrow> db \<Rightarrow>
    svc_error + skill_version list" where
  "list_skill_versions skill_id principal_id maintainer limit offset d =
     rbind (get_skill_or_404 skill_id d) (\<lambda>s.
     rbind (assert_namespace_owner s principal_id maintainer d) (\<lambda>_.
     let rows = rev (sort_key version_rank (filter (\<lambda>v. ver_skill_id v = skl_id s) (db_versions d)));
         from_offset = (case offset of None \<Rightarrow> rows | Some n \<Rightarrow> drop n rows)
     in Inr (case limit of None \<Rightarrow> from_offset | Some n \<Rightarrow> take n from_offset)))"

definition get_skill_version :: "id \<Rightarrow> string \<Rightarrow> id \<Rightarrow> bool \<Rightarrow> db \<Rightarrow> svc_error + skill_version" where
  "get_skill_version skill_id version principal_id maintainer d =
     rbind (get_skill_or_404 skill_id d) (\<lambda>s.
     rbind (assert_namespace_owner s principal_id maintainer d) (\<lambda>_.
     or_raise (get_skill_version_by_version skill_id version d) (NotFound ''skill version not found'')))"

section \<open>Skills\<close>

definition put_skill :: "skill \<Rightarrow> db \<Rightarrow> db" where
  "put_skill s d = d\<lparr>db_skills := row_set skl_id s (db_skills d)\<rparr>"

record skill_request =
  skq_slug :: string
  skq_display_name :: string
  skq_summary :: string
  skq_visibility :: "string option"

definition create_skill :: "id \<Rightarrow> id \<Rightarrow> skill_request \<Rightarrow> actor option \<Rightarrow> db \<Rightarrow> skill svc" where
  "create_skill namespace_id actor_principal_id req audit_actor d =
     rbind (require (\<not> list_ex (\<lambda>s. skl_namespace_id s = namespace_id \<and> skl_slug s = skq_slug req) (db_skills d))
              (Conflict ''skill slug already exists in namespace'')) (\<lambda>_.
     let s = \<lparr>skl_id = next_id skl_id (db_skills d), skl_namespace_id = namespace_id, skl_slug = skq_slug req,
              skl_display_name = skq_display_name req, skl_summary = skq_summary req,
              skl_status = SkillActive, skl_visibility = skq_visibility req, skl_latest_digest = None,
              skl_created_by = Some actor_principal_id\<rparr>
     in Inr (s, append_audit_event ''skill'' (str_of_int (skl_id s)) ''skill.created''
                  (actor_or_principal audit_actor actor_principal_id) (Some namespace_id)
                  ([(''object_id'', JInt (skl_id s)), (''object_name'', JStr (skl_display_name s)),
                    (''slug'', JStr (skl_slug s))] @ actor_audit_payload audit_actor)
                  (d\<lparr>db_skills := db_skills d @ [s]\<rparr>)))"

definition archive_skill :: "id \<Rightarrow> id \<Rightarrow> bool \<Rightarrow> actor option \<Rightarrow> db \<Rightarrow> skill svc" where
  "archive_skill skill_id actor_principal_id maintainer audit_actor d =
     rbind (get_skill_or_404 skill_id d) (\<lambda>s.
     rbind (assert_namespace_owner s actor_principal_id maintainer d) (\<lambda>_.
     if skl_status s = SkillArchived then Inr (s, d)
     else (let s' = s\<lparr>skl_status := SkillArchived\<rparr> in
           Inr (s', append_audit_event ''skill'' (str_of_int (skl_id s)) ''skill.archived''
                      (actor_or_principal audit_actor actor_principal_id) (Some (skl_namespace_id s))
                      ([(''object_id'', JInt (skl_id s)), (''slug'', JStr (skl_slug s))] @
                       actor_audit_payload audit_actor) (put_skill s' d)))))"

section \<open>The artifact directory\<close>

type_synonym files = "string list"

definition clear_public_path :: "string \<Rightarrow> files \<Rightarrow> files" where
  "clear_public_path p fs = filter (\<lambda>f. f \<noteq> p \<and> \<not> starts_with (p @ ''/'') f) fs"

definition object_uri :: "(string \<Rightarrow> string) \<Rightarrow> string \<Rightarrow> string" where
  "object_uri sha256_hex data = ''objects/sha256/'' @ sha256_hex data"

definition public_dir :: "string \<Rightarrow> string" where
  "public_dir public_id = ''version-content/'' @ public_id"

definition put_bytes :: "(string \<Rightarrow> string) \<Rightarrow> string \<Rightarrow> string \<Rightarrow> files \<Rightarrow> files" where
  "put_bytes sha256_hex data public_path fs =
     List.insert public_path (List.insert (object_uri sha256_hex data) fs)"

record prune_summary =
  prn_expired :: nat
  prn_paths :: nat
  prn_objects :: nat

definition prune_expired_skill_contents ::
    "int \<Rightarrow> int \<Rightarrow> id option \<Rightarrow> time \<Rightarrow> db \<Rightarrow> files \<Rightarrow> prune_summary \<times> db \<times> files" where
  "prune_expired_skill_contents ttl_hours limit principal_id now d fs =
     (let expired = list_expired_skill_contents (now - hours ttl_hours) (max 1 limit) principal_id d
      in if expired = [] then (\<lparr>prn_expired = 0, prn_paths = 0, prn_objects = 0\<rparr>, d, fs)
         else
           (let d1 = d\<lparr>db_contents := row_update (\<lambda>c. cnt_id c \<in> set (map cnt_id expired))
                         (\<lambda>c. c\<lparr>cnt_state := CntExpired\<rparr>) (db_contents d)\<rparr>;
                fs1 = fold (\<lambda>c. clear_public_path (public_dir (cnt_public_id c))) expired fs;
                unused = filter (\<lambda>uri. \<not> active_storage_uri_is_referenced uri d1)
                           (remdups (map cnt_storage_uri expired))
            in (\<lparr>prn_expired = length expired, prn_paths = length expired, prn_objects = length unused\<rparr>,
                d1, fold clear_public_path unused fs1)))"

section \<open>Uploading a content\<close>

definition assert_pending_content_quota :: "id \<Rightarrow> id \<Rightarrow> int \<Rightarrow> int \<Rightarrow> int \<Rightarrow> db \<Rightarrow> svc_error + unit" where
  "assert_pending_content_quota skill_id principal_id incoming_bytes max_pending max_bytes d =
     (let (skill_count, principal_bytes) = pending_content_usage skill_id principal_id d in
      rbind (require (skill_count < max_pending) (QuotaExceeded ''skill pending content quota exceeded'')) (\<lambda>_.
      require (principal_bytes + incoming_bytes \<le> max_bytes)
        (QuotaExceeded ''publisher pending content byte quota exceeded'')))"

definition create_skill_content :: "skill_content \<Rightarrow> db \<Rightarrow> skill_content svc" where
  "create_skill_content c d =
     (if list_ex (\<lambda>x. cnt_public_id x = cnt_public_id c) (db_contents d)
      then Inl (IntegrityError ''uq_skill_contents_public_id'')
      else Inr (c, d\<lparr>db_contents := db_contents d @ [c]\<rparr>))"

definition append_content_uploaded :: "skill \<Rightarrow> skill_content \<Rightarrow> id \<Rightarrow> actor option \<Rightarrow> db \<Rightarrow> db" where
  "append_content_uploaded s c principal_id audit_actor d =
     append_audit_event ''skill_content'' (cnt_public_id c) ''skill_content.uploaded''
       (actor_or_principal audit_actor principal_id) (Some (skl_namespace_id s))
       ([(''object_id'', JInt (skl_id s)), (''content_id'', JStr (cnt_public_id c)),
         (''content_digest'', JStr (''sha256:'' @ cnt_sha256 c))] @ actor_audit_payload audit_actor) d"

record content_limits =
  lim_ttl_hours :: int
  lim_pending_per_skill :: int
  lim_pending_bytes :: int

definition upload_allowed :: "id \<Rightarrow> id \<Rightarrow> bool \<Rightarrow> db \<Rightarrow> svc_error + skill" where
  "upload_allowed skill_id principal_id maintainer d =
     rbind (get_skill_or_404 skill_id d) (\<lambda>s.
     rbind (require (skl_status s \<noteq> SkillArchived) (Forbidden ''archived skills cannot receive new content'')) (\<lambda>_.
     rbind (assert_namespace_owner s principal_id maintainer d) (\<lambda>_. Inr s)))"

definition accepted_bundle ::
    "content_lib \<Rightarrow> content_limits \<Rightarrow> skill \<Rightarrow> id \<Rightarrow> string \<Rightarrow> db \<Rightarrow> svc_error + canonical_bundle" where
  "accepted_bundle lib limits s principal_id raw d =
     rbind (canonicalize_skill_bundle lib (skl_slug s) raw) (\<lambda>b.
     rbind (or_raise (row_get prn_id (db_principals d) (skl_namespace_id s))
              (NotFound ''skill namespace principal not found'')) (\<lambda>n.
     rbind (validate_hosted_skill_identity (bun_metadata b) (prn_slug n) (skl_slug s)) (\<lambda>_.
     rbind (assert_pending_content_quota (skl_id s) principal_id (int (length (bun_data b)))
              (lim_pending_per_skill limits) (lim_pending_bytes limits) d) (\<lambda>_. Inr b))))"

definition new_content ::
    "(string \<Rightarrow> string) \<Rightarrow> string \<Rightarrow> id \<Rightarrow> id \<Rightarrow> canonical_bundle \<Rightarrow> time \<Rightarrow> db \<Rightarrow> skill_content" where
  "new_content sha256_hex public_id skill_id principal_id b now d =
     \<lparr>cnt_id = next_id cnt_id (db_contents d), cnt_public_id = public_id, cnt_skill_id = skill_id,
      cnt_storage_uri = object_uri sha256_hex (bun_data b), cnt_sha256 = sha256_hex (bun_data b),
      cnt_size_bytes = int (length (bun_data b)), cnt_declared_version = bun_version b,
      cnt_metadata_json = json_dumps (JObj (bun_metadata b)), cnt_state = CntValidated,
      cnt_created_by = principal_id, cnt_created_at = now, cnt_consumed_at = None\<rparr>"

definition upload_skill_content ::
    "content_lib \<Rightarrow> (string \<Rightarrow> string) \<Rightarrow> string \<Rightarrow> content_limits \<Rightarrow> id \<Rightarrow> id \<Rightarrow> bool \<Rightarrow> string \<Rightarrow>
     actor option \<Rightarrow> time \<Rightarrow> db \<Rightarrow> files \<Rightarrow> (svc_error + skill_content \<times> db) \<times> files" where
  "upload_skill_content lib sha256_hex token limits skill_id principal_id maintainer raw audit_actor now d fs =
     (case upload_allowed skill_id principal_id maintainer d of
        Inl e \<Rightarrow> (Inl e, fs)
      | Inr s \<Rightarrow>
          (let (_, d1, fs1) = prune_expired_skill_contents (lim_ttl_hours limits)
                                (lim_pending_per_skill limits) (Some principal_id) now d fs
           in case accepted_bundle lib limits s principal_id raw d1 of
                Inl e \<Rightarrow> (Inl e, fs1)
              | Inr b \<Rightarrow>
                  (let public_id = ''cnt_'' @ token;
                       uri = object_uri sha256_hex (bun_data b);
                       referenced = active_storage_uri_is_referenced uri d1;
                       fs2 = put_bytes sha256_hex (bun_data b) (public_dir public_id @ ''/skill.tar.gz'') fs1
                   in case create_skill_content
                             (new_content sha256_hex public_id (skl_id s) principal_id b now d1) d1 of
                        Inl e \<Rightarrow>
                          (let fs3 = clear_public_path (public_dir public_id) fs2
                           in (Inl e, if referenced then fs3 else clear_public_path uri fs3))
                      | Inr (c, d2) \<Rightarrow>
                          (Inr (c, append_content_uploaded s c principal_id audit_actor d2), fs2))))"

text \<open>The request: the database is rolled back when the upload raises, the files are not.\<close>

definition upload_request ::
    "content_lib \<Rightarrow> (string \<Rightarrow> string) \<Rightarrow> string \<Rightarrow> content_limits \<Rightarrow> id \<Rightarrow> id \<Rightarrow> bool \<Rightarrow> string \<Rightarrow>
     actor option \<Rightarrow> time \<Rightarrow> db \<times> files \<Rightarrow> db \<times> files" where
  "upload_request lib sha256_hex token limits skill_id principal_id maintainer raw audit_actor now = (\<lambda>(d, fs).
     case upload_skill_content lib sha256_hex token limits skill_id principal_id maintainer raw
            audit_actor now d fs of
       (Inl _, fs') \<Rightarrow> (d, fs')
     | (Inr (_, d'), fs') \<Rightarrow> (d', fs'))"

section \<open>Creating a version\<close>

definition sync_skill_latest_marker :: "id \<Rightarrow> skill_version option \<Rightarrow> db \<Rightarrow> db" where
  "sync_skill_latest_marker skill_id latest d =
     d\<lparr>db_skills := row_update (\<lambda>s. skl_id s = skill_id)
         (\<lambda>s. s\<lparr>skl_latest_digest := map_option ver_content_digest latest\<rparr>) (db_skills d)\<rparr>"

definition claim_skill_latest_digest :: "id \<Rightarrow> string option \<Rightarrow> string \<Rightarrow> db \<Rightarrow> bool \<times> db" where
  "claim_skill_latest_digest skill_id expected candidate d =
     (let p = (\<lambda>s. skl_id s = skill_id \<and> skl_latest_digest s = expected) in
      (row_count p (db_skills d) \<noteq> 0,
       d\<lparr>db_skills := row_update p (\<lambda>s. s\<lparr>skl_latest_digest := Some candidate\<rparr>) (db_skills d)\<rparr>))"

definition claim_latest_for_version :: "id \<Rightarrow> string \<Rightarrow> string option option \<Rightarrow> db \<Rightarrow> svc_error + db" where
  "claim_latest_for_version skill_id candidate expected d =
     (let latest = get_latest_skill_version skill_id d;
          current = map_option ver_content_digest latest
      in rbind (require (case expected of None \<Rightarrow> True | Some e \<Rightarrow> e = current)
                  (Conflict ''expected latest digest does not match current version'')) (\<lambda>_.
         let (claimed, d2) = claim_skill_latest_digest skill_id current candidate
                               (sync_skill_latest_marker skill_id latest d)
         in rbind (require claimed (Conflict ''skill latest version changed; retry from the current version''))
              (\<lambda>_. Inr d2)))"

definition consume_skill_content :: "id \<Rightarrow> time \<Rightarrow> db \<Rightarrow> bool \<times> db" where
  "consume_skill_content content_id now d =
     (let p = (\<lambda>c. cnt_id c = content_id \<and> cnt_state c = CntValidated \<and> cnt_consumed_at c = None) in
      (row_count p (db_contents d) \<noteq> 0,
       d\<lparr>db_contents := row_update p (\<lambda>c. c\<lparr>cnt_state := CntConsumed, cnt_consumed_at := Some now\<rparr>)
           (db_contents d)\<rparr>))"

definition version_unique :: "skill_version \<Rightarrow> skill_version list \<Rightarrow> bool" where
  "version_unique v vs \<longleftrightarrow>
     \<not> list_ex (\<lambda>x. ver_skill_id x = ver_skill_id v \<and> ver_version x = ver_version v \<or>
                     ver_content_id x = ver_content_id v) vs"

definition create_skill_version :: "skill_version \<Rightarrow> db \<Rightarrow> skill_version svc" where
  "create_skill_version v d =
     (if version_unique v (db_versions d) then Inr (v, d\<lparr>db_versions := db_versions d @ [v]\<rparr>)
      else Inl (Conflict ''skill version already exists''))"

definition set_skill_latest_version :: "id \<Rightarrow> skill_version \<Rightarrow> db \<Rightarrow> db" where
  "set_skill_latest_version skill_id v d =
     d\<lparr>db_skills := row_update (\<lambda>s. skl_id s = skill_id)
         (\<lambda>s. s\<lparr>skl_latest_digest := Some (ver_content_digest v)\<rparr>) (db_skills d)\<rparr>"

definition version_manifest_payload :: "skill_content \<Rightarrow> (string \<times> json) list \<Rightarrow> json" where
  "version_manifest_payload c metadata =
     JObj [(''kind'', JStr ''skill_version_manifest''), (''content_mode'', JStr ''uploaded_bundle''),
           (''content_id'', JStr (cnt_public_id c)), (''metadata'', JObj metadata)]"

definition frozen_metadata :: "skill_content \<Rightarrow> svc_error + (string \<times> json) list" where
  "frozen_metadata c =
     or_raise (case loads_or_empty (cnt_metadata_json c) of Some (JObj m) \<Rightarrow> Some m | _ \<Rightarrow> None)
       (Conflict ''validated skill content metadata is invalid'')"

definition sealed_version ::
    "(string \<Rightarrow> string) \<Rightarrow> skill \<Rightarrow> skill_content \<Rightarrow> (string \<times> json) list \<Rightarrow> string \<Rightarrow> id \<Rightarrow> time \<Rightarrow> db \<Rightarrow> skill_version" where
  "sealed_version sha256_hex s c metadata version principal_id now d =
     \<lparr>ver_id = next_id ver_id (db_versions d), ver_skill_id = skl_id s, ver_content_id = cnt_id c,
      ver_version = version, ver_content_digest = ''sha256:'' @ cnt_sha256 c,
      ver_metadata_digest = sha256_prefixed sha256_hex (print_compact (JObj metadata)),
      ver_manifest_json = json_dumps (version_manifest_payload c metadata),
      ver_created_by = Some principal_id, ver_created_at = now\<rparr>"

definition append_version_created :: "skill \<Rightarrow> skill_version \<Rightarrow> id \<Rightarrow> actor option \<Rightarrow> db \<Rightarrow> db" where
  "append_version_created s v principal_id audit_actor d =
     append_audit_event ''skill_version'' (str_of_int (ver_id v)) ''skill_version.created''
       (actor_or_principal audit_actor principal_id) (Some (skl_namespace_id s))
       ([(''object_id'', JInt (skl_id s)), (''version_id'', JInt (ver_id v)),
         (''version'', JStr (ver_version v))] @ actor_audit_payload audit_actor) d"

text \<open>
  \<open>expected\<close> is \<open>Some\<close> of the digest the caller expects when \<open>enforce_expected_digest\<close> is set.
  The savepoint around the writes is rolled back by the exceptions that leave it, which also end
  the request.
\<close>

definition create_skill_version_snapshot ::
    "(string \<Rightarrow> string) \<Rightarrow> id \<Rightarrow> id \<Rightarrow> bool \<Rightarrow> string \<Rightarrow> string \<Rightarrow> int \<Rightarrow> actor option \<Rightarrow>
     string option option \<Rightarrow> time \<Rightarrow> db \<Rightarrow> skill_version svc" where
  "create_skill_version_snapshot sha256_hex skill_id principal_id maintainer version content_public_id
       ttl_hours audit_actor expected now d =
     rbind (get_skill_or_404 skill_id d) (\<lambda>s.
     rbind (require (skl_status s \<noteq> SkillArchived) (Forbidden ''archived skills cannot receive new versions'')) (\<lambda>_.
     rbind (assert_namespace_owner s principal_id maintainer d) (\<lambda>_.
     rbind (require (get_skill_version_by_version (skl_id s) version d = None)
              (Conflict ''skill version already exists'')) (\<lambda>_.
     rbind (get_skill_content_for_version (skl_id s) content_public_id (now - hours ttl_hours) d) (\<lambda>c.
     rbind (require (cnt_declared_version c = version)
              (Conflict ''skill version does not match the version declared by uploaded content'')) (\<lambda>_.
     rbind (frozen_metadata c) (\<lambda>metadata.
     rbind (claim_latest_for_version (skl_id s) (''sha256:'' @ cnt_sha256 c) expected d) (\<lambda>d1.
     let (consumed, d2) = consume_skill_content (cnt_id c) now d1 in
     rbind (require consumed (Conflict ''skill content has already been consumed'')) (\<lambda>_.
     rbind (create_skill_version (sealed_version sha256_hex s c metadata version principal_id now d2) d2) (\<lambda>(v, d3).
     Inr (v, append_version_created s v principal_id audit_actor
               (set_skill_latest_version (skl_id s) v d3))))))))))))"

section \<open>The routes\<close>

definition authoring_identity :: "access_context \<Rightarrow> svc_error + id \<times> bool" where
  "authoring_identity ctx =
     rbind (or_raise (ctx_principal ctx) (Forbidden ''authoring principal required'')) (\<lambda>p.
     rbind (require (require_any_scope ctx {''api:user'', ''authoring:write'', ''skill:write'', ''registry:publish''})
              (Forbidden ''insufficient scope'')) (\<lambda>_. Inr (prn_id p, is_maintainer ctx)))"

definition authorize_skill :: "access_context \<Rightarrow> id option \<Rightarrow> bool \<Rightarrow> bool \<Rightarrow> db \<Rightarrow> svc_error + unit" where
  "authorize_skill ctx skill_id allow_create mutate d =
     rbind (assert_product_token_skill_scope ctx skill_id allow_create d) (\<lambda>_.
     if mutate then assert_credential_mutation_allowed (ctx_credential ctx) ''skill'' d else Inr ())"

definition create_skill_route :: "access_context \<Rightarrow> skill_request \<Rightarrow> db \<Rightarrow> skill svc" where
  "create_skill_route ctx req d =
     rbind (authoring_identity ctx) (\<lambda>(p, _).
     rbind (authorize_skill ctx None True True d) (\<lambda>_.
     rbind (actor_ref_for_context ctx False) (\<lambda>actor. create_skill p p req (Some actor) d)))"

definition create_version_route ::
    "(string \<Rightarrow> string) \<Rightarrow> int \<Rightarrow> access_context \<Rightarrow> id \<Rightarrow> string \<Rightarrow> string \<Rightarrow> time \<Rightarrow> db \<Rightarrow> skill_version svc" where
  "create_version_route sha256_hex ttl_hours ctx skill_id version content_id now d =
     rbind (authoring_identity ctx) (\<lambda>(p, m).
     rbind (authorize_skill ctx (Some skill_id) False True d) (\<lambda>_.
     rbind (actor_ref_for_context ctx m) (\<lambda>actor.
       create_skill_version_snapshot sha256_hex skill_id p m version content_id ttl_hours (Some actor)
         None now d)))"

definition archive_skill_route :: "access_context \<Rightarrow> id \<Rightarrow> db \<Rightarrow> skill svc" where
  "archive_skill_route ctx skill_id d =
     rbind (authoring_identity ctx) (\<lambda>(p, m).
     rbind (authorize_skill ctx (Some skill_id) False False d) (\<lambda>_.
     rbind (actor_ref_for_context ctx m) (\<lambda>actor. archive_skill skill_id p m (Some actor) d)))"

definition upload_content_route ::
    "content_lib \<Rightarrow> (string \<Rightarrow> string) \<Rightarrow> string \<Rightarrow> content_limits \<Rightarrow> access_context \<Rightarrow> id \<Rightarrow> string \<Rightarrow> time \<Rightarrow>
     db \<times> files \<Rightarrow> db \<times> files" where
  "upload_content_route lib sha256_hex token limits ctx skill_id raw now = (\<lambda>(d, fs).
     case rbind (authoring_identity ctx) (\<lambda>(p, m).
          rbind (authorize_skill ctx (Some skill_id) False True d) (\<lambda>_.
          rbind (actor_ref_for_context ctx m) (\<lambda>actor. Inr (p, m, actor)))) of
       Inl _ \<Rightarrow> (d, fs)
     | Inr (p, m, actor) \<Rightarrow>
         upload_request lib sha256_hex token limits skill_id p m raw (Some actor) now (d, fs))"

end
