(* ===== verification/ChangeSets.thy ===== *)
theory ChangeSets
  imports Authoring
begin

text \<open>
  Change sets, \<open>server/modules/authoring/collaboration_service.py\<close>, and data snapshots,
  \<open>data_snapshot_service.py\<close>, with the checks of their routes.
\<close>

section \<open>Reading\<close>

definition change_set_or_404 :: "id \<Rightarrow> string \<Rightarrow> db \<Rightarrow> svc_error + change_set" where
  "change_set_or_404 skill_id public_id d =
     or_raise (find (\<lambda>c. chg_skill_id c = skill_id \<and> chg_public_id c = public_id) (db_change_sets d))
       (NotFound ''skill change set not found'')"

definition content_public_id :: "change_set \<Rightarrow> db \<Rightarrow> svc_error + string" where
  "content_public_id c d =
     rbind (or_raise (row_get cnt_id (db_contents d) (chg_content_id c))
              (NotFound ''change set content not found'')) (\<lambda>x. Inr (cnt_public_id x))"

definition authorize :: "id \<Rightarrow> id \<Rightarrow> bool \<Rightarrow> db \<Rightarrow> svc_error + skill" where
  "authorize skill_id principal_id maintainer d =
     rbind (get_skill_or_404 skill_id d) (\<lambda>s.
     rbind (assert_namespace_owner s principal_id maintainer d) (\<lambda>_. Inr s))"

definition list_change_sets :: "id \<Rightarrow> id \<Rightarrow> bool \<Rightarrow> db \<Rightarrow> svc_error + change_set list" where
  "list_change_sets skill_id principal_id maintainer d =
     rbind (authorize skill_id principal_id maintainer d) (\<lambda>_.
     Inr (rev (sort_key (\<lambda>c. (chg_created_at c, chg_id c))
            (filter (\<lambda>c. chg_skill_id c = skill_id) (db_change_sets d)))))"

definition get_change_set :: "id \<Rightarrow> string \<Rightarrow> id \<Rightarrow> bool \<Rightarrow> db \<Rightarrow> svc_error + change_set" where
  "get_change_set skill_id public_id principal_id maintainer d =
     rbind (authorize skill_id principal_id maintainer d) (\<lambda>_. change_set_or_404 skill_id public_id d)"

section \<open>Operations\<close>

definition state_text :: "change_set_state \<Rightarrow> string" where
  "state_text s = (case s of CsOpen \<Rightarrow> ''open'' | CsSubmitted \<Rightarrow> ''submitted'' | CsAccepted \<Rightarrow> ''accepted''
     | CsSuperseded \<Rightarrow> ''superseded'' | CsRejected \<Rightarrow> ''rejected'')"

definition audit_change_set :: "skill \<Rightarrow> change_set \<Rightarrow> string \<Rightarrow> actor \<Rightarrow> db \<Rightarrow> db" where
  "audit_change_set s c event actor d =
     append_audit_event ''skill_change_set'' (chg_public_id c) event (actor_ref_label actor)
       (Some (skl_namespace_id s))
       ([(''object_id'', JInt (skl_id s)), (''change_set_id'', JStr (chg_public_id c)),
         (''state'', JStr (state_text (chg_state c)))] @ actor_audit_payload (Some actor)) d"

definition put_change_set :: "change_set \<Rightarrow> db \<Rightarrow> db" where
  "put_change_set c d = d\<lparr>db_change_sets := row_set chg_id c (db_change_sets d)\<rparr>"

record change_set_request =
  csq_base :: "id option"
  csq_content_id :: string
  csq_version :: string

definition change_set_unique :: "change_set \<Rightarrow> change_set list \<Rightarrow> bool" where
  "change_set_unique c cs \<longleftrightarrow>
     \<not> list_ex (\<lambda>x. chg_public_id x = chg_public_id c \<or> chg_content_id x = chg_content_id c) cs"

definition create_change_set ::
    "string \<Rightarrow> id \<Rightarrow> id \<Rightarrow> bool \<Rightarrow> change_set_request \<Rightarrow> int \<Rightarrow> actor \<Rightarrow> time \<Rightarrow> db \<Rightarrow> change_set svc" where
  "create_change_set token skill_id principal_id maintainer req ttl_hours actor now d =
     rbind (authorize skill_id principal_id maintainer d) (\<lambda>s.
     rbind (require (csq_base req = map_option ver_id (get_latest_skill_version (skl_id s) d))
              (Conflict ''change set base must be the current latest version'')) (\<lambda>_.
     rbind (require (get_skill_version_by_version (skl_id s) (csq_version req) d = None)
              (Conflict ''skill version already exists'')) (\<lambda>_.
     rbind (get_skill_content_for_version (skl_id s) (csq_content_id req) (now - hours ttl_hours) d) (\<lambda>c.
     rbind (require (cnt_declared_version c = csq_version req)
              (Conflict ''candidate content declares a different version'')) (\<lambda>_.
     let x = \<lparr>chg_id = next_id chg_id (db_change_sets d), chg_public_id = ''chg_'' @ token,
              chg_skill_id = skl_id s, chg_base_version_id = csq_base req, chg_content_id = cnt_id c,
              chg_proposed_version = csq_version req, chg_state = CsOpen, chg_created_by = principal_id,
              chg_actor_json = json_dumps (JObj (actor_audit_payload (Some actor))),
              chg_created_at = now, chg_submitted_at = None, chg_decided_at = None\<rparr>
     in if change_set_unique x (db_change_sets d)
        then Inr (x, audit_change_set s x ''skill_change_set.created'' actor
                       (d\<lparr>db_change_sets := db_change_sets d @ [x]\<rparr>))
        else Inl (Conflict ''candidate content already belongs to a change set''))))))"

definition submit_change_set :: "id \<Rightarrow> string \<Rightarrow> id \<Rightarrow> bool \<Rightarrow> actor \<Rightarrow> time \<Rightarrow> db \<Rightarrow> change_set svc" where
  "submit_change_set skill_id public_id principal_id maintainer actor now d =
     rbind (authorize skill_id principal_id maintainer d) (\<lambda>s.
     rbind (change_set_or_404 skill_id public_id d) (\<lambda>c.
     rbind (require (chg_state c = CsOpen) (Conflict ''only open change sets can be submitted'')) (\<lambda>_.
     let c' = c\<lparr>chg_state := CsSubmitted, chg_submitted_at := Some now\<rparr>
     in Inr (c', audit_change_set s c' ''skill_change_set.submitted'' actor (put_change_set c' d)))))"

definition reject_change_set :: "id \<Rightarrow> string \<Rightarrow> id \<Rightarrow> bool \<Rightarrow> actor \<Rightarrow> time \<Rightarrow> db \<Rightarrow> change_set svc" where
  "reject_change_set skill_id public_id principal_id maintainer actor now d =
     rbind (authorize skill_id principal_id maintainer d) (\<lambda>s.
     rbind (change_set_or_404 skill_id public_id d) (\<lambda>c.
     rbind (require (chg_state c \<in> {CsOpen, CsSubmitted})
              (Conflict ''only open or submitted change sets can be rejected'')) (\<lambda>_.
     let c' = c\<lparr>chg_state := CsRejected, chg_decided_at := Some now\<rparr>
     in Inr (c', audit_change_set s c' ''skill_change_set.rejected'' actor (put_change_set c' d)))))"

definition superseded :: "time \<Rightarrow> change_set \<Rightarrow> change_set" where
  "superseded now c = c\<lparr>chg_state := CsSuperseded, chg_decided_at := Some now\<rparr>"

definition supersede_competitors :: "skill \<Rightarrow> change_set \<Rightarrow> actor \<Rightarrow> time \<Rightarrow> db \<Rightarrow> db" where
  "supersede_competitors s winner actor now d =
     fold (\<lambda>c d. audit_change_set s (superseded now c) ''skill_change_set.superseded'' actor
                   (put_change_set (superseded now c) d))
       (filter (\<lambda>c. chg_skill_id c = skl_id s \<and> chg_id c \<noteq> chg_id winner \<and>
                    chg_state c \<in> {CsOpen, CsSubmitted}) (db_change_sets d)) d"

definition accept_change_set ::
    "(string \<Rightarrow> string) \<Rightarrow> id \<Rightarrow> string \<Rightarrow> id \<Rightarrow> bool \<Rightarrow> string option \<Rightarrow> int \<Rightarrow> actor \<Rightarrow> time \<Rightarrow> db \<Rightarrow>
     (change_set \<times> skill_version) svc" where
  "accept_change_set sha256_hex skill_id public_id principal_id maintainer expected_latest_digest ttl_hours
       actor now d =
     rbind (authorize skill_id principal_id maintainer d) (\<lambda>s.
     rbind (change_set_or_404 skill_id public_id d) (\<lambda>c.
     rbind (require (chg_state c = CsSubmitted) (Conflict ''only submitted change sets can be accepted'')) (\<lambda>_.
     let latest = get_latest_skill_version (skl_id s) d in
     rbind (require (chg_base_version_id c = map_option ver_id latest)
              (Conflict ''change set base is no longer current'')) (\<lambda>_.
     rbind (require (expected_latest_digest = map_option ver_content_digest latest)
              (Conflict ''expected latest digest does not match current version'')) (\<lambda>_.
     rbind (or_raise (row_get cnt_id (db_contents d) (chg_content_id c))
              (NotFound ''change set content not found'')) (\<lambda>x.
     rbind (create_skill_version_snapshot sha256_hex (skl_id s) principal_id maintainer
              (chg_proposed_version c) (cnt_public_id x) ttl_hours (Some actor)
              (Some expected_latest_digest) now d) (\<lambda>(v, d1).
     let c' = c\<lparr>chg_state := CsAccepted, chg_decided_at := Some now\<rparr>;
         d2 = supersede_competitors s c' actor now (put_change_set c' d1)
     in Inr ((c', v), audit_change_set s c' ''skill_change_set.accepted'' actor d2))))))))"

section \<open>Data snapshots\<close>

definition get_snapshot :: "id \<Rightarrow> string \<Rightarrow> db \<Rightarrow> svc_error + data_snapshot" where
  "get_snapshot skill_id public_id d =
     or_raise (find (\<lambda>x. dsp_skill_id x = skill_id \<and> dsp_public_id x = public_id) (db_snapshots d))
       (NotFound ''skill data snapshot not found'')"

definition parent_public_id :: "data_snapshot \<Rightarrow> db \<Rightarrow> string option" where
  "parent_public_id x d =
     (case dsp_parent_id x of
        None \<Rightarrow> None
      | Some i \<Rightarrow> map_option dsp_public_id (row_get dsp_id (db_snapshots d) i))"

record snapshot_request =
  snq_version_id :: id
  snq_parent :: "string option"
  snq_schema_version :: int
  snq_object_uri :: string
  snq_ciphertext_sha256 :: string
  snq_ciphertext_size :: int
  snq_manifest_digest :: string
  snq_encryption :: string

definition snapshot_unique :: "data_snapshot \<Rightarrow> data_snapshot list \<Rightarrow> bool" where
  "snapshot_unique x xs \<longleftrightarrow>
     \<not> list_ex (\<lambda>y. dsp_public_id y = dsp_public_id x \<or>
                     dsp_skill_id y = dsp_skill_id x \<and> dsp_ciphertext_sha256 y = dsp_ciphertext_sha256 x) xs"

definition snapshot_parent :: "id \<Rightarrow> snapshot_request \<Rightarrow> db \<Rightarrow> svc_error + data_snapshot option" where
  "snapshot_parent skill_id req d =
     (case snq_parent req of
        None \<Rightarrow> Inr None
      | Some p \<Rightarrow>
          rbind (get_snapshot skill_id p d) (\<lambda>x.
          rbind (require (dsp_schema_version x \<le> snq_schema_version req)
                   (Conflict ''snapshot schema version cannot precede its parent'')) (\<lambda>_. Inr (Some x))))"

definition new_snapshot ::
    "string \<Rightarrow> id \<Rightarrow> id \<Rightarrow> id option \<Rightarrow> snapshot_request \<Rightarrow> id \<Rightarrow> actor \<Rightarrow> time \<Rightarrow> db \<Rightarrow> data_snapshot" where
  "new_snapshot token skill_id version_id parent_id req principal_id actor now d =
     \<lparr>dsp_id = next_id dsp_id (db_snapshots d), dsp_public_id = ''dsp_'' @ token,
      dsp_skill_id = skill_id, dsp_version_id = version_id, dsp_parent_id = parent_id,
      dsp_schema_version = snq_schema_version req, dsp_object_uri = snq_object_uri req,
      dsp_ciphertext_sha256 = snq_ciphertext_sha256 req,
      dsp_ciphertext_size = snq_ciphertext_size req, dsp_manifest_digest = snq_manifest_digest req,
      dsp_encryption = snq_encryption req, dsp_created_by = principal_id,
      dsp_actor_json = json_dumps (JObj (actor_audit_payload (Some actor))), dsp_created_at = now\<rparr>"

definition append_snapshot_registered :: "skill \<Rightarrow> data_snapshot \<Rightarrow> actor \<Rightarrow> db \<Rightarrow> db" where
  "append_snapshot_registered s x actor d =
     append_audit_event ''skill_data_snapshot'' (dsp_public_id x)
       ''skill_data_snapshot.registered'' (actor_ref_label actor) (Some (skl_namespace_id s))
       ([(''object_id'', JInt (skl_id s)), (''snapshot_id'', JStr (dsp_public_id x)),
         (''skill_version_id'', JInt (dsp_version_id x)),
         (''ciphertext_sha256'', JStr (dsp_ciphertext_sha256 x))] @ actor_audit_payload (Some actor)) d"

definition register_snapshot ::
    "string \<Rightarrow> id \<Rightarrow> id \<Rightarrow> bool \<Rightarrow> snapshot_request \<Rightarrow> actor \<Rightarrow> time \<Rightarrow> db \<Rightarrow> data_snapshot svc" where
  "register_snapshot token skill_id principal_id maintainer req actor now d =
     rbind (authorize skill_id principal_id maintainer d) (\<lambda>s.
     rbind (or_raise (case row_get ver_id (db_versions d) (snq_version_id req) of
                        None \<Rightarrow> None
                      | Some v \<Rightarrow> if ver_skill_id v = skl_id s then Some v else None)
              (NotFound ''skill version not found'')) (\<lambda>v.
     rbind (snapshot_parent (skl_id s) req d) (\<lambda>parent.
     let x = new_snapshot token (skl_id s) (ver_id v) (map_option dsp_id parent) req principal_id actor now d
     in if snapshot_unique x (db_snapshots d)
        then Inr (x, append_snapshot_registered s x actor (d\<lparr>db_snapshots := db_snapshots d @ [x]\<rparr>))
        else Inl (Conflict ''data snapshot already registered''))))"

definition list_snapshots :: "id \<Rightarrow> id \<Rightarrow> bool \<Rightarrow> db \<Rightarrow> svc_error + data_snapshot list" where
  "list_snapshots skill_id principal_id maintainer d =
     rbind (authorize skill_id principal_id maintainer d) (\<lambda>_.
     Inr (rev (sort_key (\<lambda>x. (dsp_created_at x, dsp_id x))
            (filter (\<lambda>x. dsp_skill_id x = skill_id) (db_snapshots d)))))"

section \<open>The routes\<close>

definition change_set_route ::
    "access_context \<Rightarrow> id \<Rightarrow> (id \<Rightarrow> bool \<Rightarrow> actor \<Rightarrow> 'a svc) \<Rightarrow> db \<Rightarrow> 'a svc" where
  "change_set_route ctx skill_id service d =
     rbind (authoring_identity ctx) (\<lambda>(p, m).
     rbind (authorize_skill ctx (Some skill_id) False True d) (\<lambda>_.
     rbind (actor_ref_for_context ctx m) (\<lambda>actor. service p m actor)))"

definition create_change_set_route ::
    "string \<Rightarrow> int \<Rightarrow> access_context \<Rightarrow> id \<Rightarrow> change_set_request \<Rightarrow> time \<Rightarrow> db \<Rightarrow> change_set svc" where
  "create_change_set_route token ttl_hours ctx skill_id req now d =
     change_set_route ctx skill_id (\<lambda>p m actor.
       create_change_set token skill_id p m req ttl_hours actor now d) d"

definition submit_change_set_route :: "access_context \<Rightarrow> id \<Rightarrow> string \<Rightarrow> time \<Rightarrow> db \<Rightarrow> change_set svc" where
  "submit_change_set_route ctx skill_id public_id now d =
     change_set_route ctx skill_id (\<lambda>p m actor. submit_change_set skill_id public_id p m actor now d) d"

definition reject_change_set_route :: "access_context \<Rightarrow> id \<Rightarrow> string \<Rightarrow> time \<Rightarrow> db \<Rightarrow> change_set svc" where
  "reject_change_set_route ctx skill_id public_id now d =
     change_set_route ctx skill_id (\<lambda>p m actor. reject_change_set skill_id public_id p m actor now d) d"

definition accept_change_set_route ::
    "(string \<Rightarrow> string) \<Rightarrow> int \<Rightarrow> access_context \<Rightarrow> id \<Rightarrow> string \<Rightarrow> string option \<Rightarrow> time \<Rightarrow> db \<Rightarrow>
     (change_set \<times> skill_version) svc" where
  "accept_change_set_route sha256_hex ttl_hours ctx skill_id public_id expected now d =
     change_set_route ctx skill_id (\<lambda>p m actor.
       accept_change_set sha256_hex skill_id public_id p m expected ttl_hours actor now d) d"

definition register_snapshot_route ::
    "string \<Rightarrow> access_context \<Rightarrow> id \<Rightarrow> snapshot_request \<Rightarrow> time \<Rightarrow> db \<Rightarrow> data_snapshot svc" where
  "register_snapshot_route token ctx skill_id req now d =
     change_set_route ctx skill_id (\<lambda>p m actor. register_snapshot token skill_id p m req actor now d) d"

end
