(* ===== verification/AuthoringEffects.thy ===== *)
theory AuthoringEffects
  imports ChangeSets
begin

text \<open>
  What the operations of the authoring services do to the tables of contents, versions and
  change sets and to the artifact directory.
\<close>

section \<open>Contents\<close>

definition expire :: "id set \<Rightarrow> skill_content list \<Rightarrow> skill_content list" where
  "expire ids cs = map (\<lambda>c. if cnt_id c \<in> ids then c\<lparr>cnt_state := CntExpired\<rparr> else c) cs"

definition consume :: "id \<Rightarrow> time \<Rightarrow> skill_content list \<Rightarrow> skill_content list" where
  "consume i now cs =
     map (\<lambda>c. if cnt_id c = i then c\<lparr>cnt_state := CntConsumed, cnt_consumed_at := Some now\<rparr> else c) cs"

lemma expire_fields [simp]:
  "map cnt_id (expire ids cs) = map cnt_id cs"
  "map cnt_public_id (expire ids cs) = map cnt_public_id cs"
  by (simp_all add: expire_def)

lemma consume_fields [simp]:
  "map cnt_id (consume i now cs) = map cnt_id cs"
  "map cnt_public_id (consume i now cs) = map cnt_public_id cs"
  by (simp_all add: consume_def)

text \<open>Contents stay where the code can still use them: consumed, or waiting and not expired.\<close>

definition live :: "int \<Rightarrow> time \<Rightarrow> skill_content \<Rightarrow> bool" where
  "live ttl now c \<longleftrightarrow> cnt_state c = CntConsumed \<or>
     cnt_state c = CntValidated \<and> now - hours ttl \<le> cnt_created_at c"

definition stored :: "int \<Rightarrow> time \<Rightarrow> skill_content list \<Rightarrow> files \<Rightarrow> bool" where
  "stored ttl now cs fs \<longleftrightarrow> (\<forall>c \<in> set cs. live ttl now c \<longrightarrow> cnt_storage_uri c \<in> set fs)"

definition object_name :: "string \<Rightarrow> bool" where
  "object_name uri \<longleftrightarrow> (\<exists>h. uri = ''objects/sha256/'' @ h \<and> CHR ''/'' \<notin> set h)"

definition contents_ok :: "skill_content list \<Rightarrow> bool" where
  "contents_ok cs \<longleftrightarrow> rows_ok cnt_id cs \<and> distinct (map cnt_public_id cs) \<and>
     (\<forall>c \<in> set cs. object_name (cnt_storage_uri c) \<and>
        (cnt_consumed_at c = None \<longleftrightarrow> cnt_state c \<noteq> CntConsumed))"

lemma cleared_object:
  assumes "object_name uri" and "object_name f" and "f \<noteq> uri"
  shows "\<not> starts_with (uri @ ''/'') f"
proof
  assume s: "starts_with (uri @ ''/'') f"
  obtain h k where hk: "uri = ''objects/sha256/'' @ h" "f = ''objects/sha256/'' @ k" "CHR ''/'' \<notin> set k"
    using assms by (auto simp: object_name_def)
  from s have "take (length (h @ ''/'')) k = h @ ''/''"
    by (simp add: starts_with_def hk take_append)
  then have "CHR ''/'' \<in> set (take (length (h @ ''/'')) k)" by simp
  with hk(3) show False using in_set_takeD by fast
qed

lemma clear_keeps_object:
  assumes "object_name uri" and "object_name f" and "f \<noteq> uri"
  shows "f \<in> set (clear_public_path uri fs) \<longleftrightarrow> f \<in> set fs"
  using assms cleared_object by (auto simp: clear_public_path_def)

lemma clear_public_dir_keeps_object:
  "object_name f \<Longrightarrow> f \<in> set (clear_public_path (public_dir p) fs) \<longleftrightarrow> f \<in> set fs"
  by (auto simp: clear_public_path_def public_dir_def object_name_def starts_with_def)

lemma fold_clear_public_dirs:
  "object_name f \<Longrightarrow> f \<in> set (fold (\<lambda>c. clear_public_path (public_dir (cnt_public_id c))) cs fs) \<longleftrightarrow> f \<in> set fs"
  by (induction cs arbitrary: fs) (simp_all add: clear_public_dir_keeps_object)

lemma fold_clear_objects:
  "object_name f \<Longrightarrow> \<forall>u \<in> set uris. object_name u \<Longrightarrow> f \<notin> set uris \<Longrightarrow>
     f \<in> set (fold clear_public_path uris fs) \<longleftrightarrow> f \<in> set fs"
  by (induction uris arbitrary: fs) (auto simp: clear_keeps_object)

section \<open>Pruning\<close>

lemma expired_rows:
  "c \<in> set (list_expired_skill_contents cutoff limit p d) \<Longrightarrow>
     c \<in> set (db_contents d) \<and> pending c \<and> cnt_created_at c < cutoff"
  unfolding list_expired_skill_contents_def by (drule in_set_takeD) simp

lemma prune_effect:
  assumes "prune_expired_skill_contents ttl limit p now d fs = (x, d', fs')" and "contents_ok (db_contents d)"
  shows "\<exists>ids. d' = d\<lparr>db_contents := expire ids (db_contents d)\<rparr> \<and>
     (\<forall>c \<in> set (db_contents d). cnt_id c \<in> ids \<longrightarrow> pending c \<and> \<not> live ttl now c) \<and>
     (\<forall>c \<in> set (db_contents d'). cnt_state c \<noteq> CntExpired \<longrightarrow> cnt_storage_uri c \<in> set fs \<longrightarrow>
        cnt_storage_uri c \<in> set fs')"
proof (cases "list_expired_skill_contents (now - hours ttl) (max 1 limit) p d = []")
  case True
  then have "d' = d" "fs' = fs" using assms(1) by (simp_all add: prune_expired_skill_contents_def)
  then show ?thesis by (intro exI [of _ "{}"]) (simp add: expire_def)
next
  case False
  define gone where "gone = list_expired_skill_contents (now - hours ttl) (max 1 limit) p d"
  define d1 where "d1 = d\<lparr>db_contents := expire (set (map cnt_id gone)) (db_contents d)\<rparr>"
  define unused where "unused = filter (\<lambda>uri. \<not> active_storage_uri_is_referenced uri d1)
                           (remdups (map cnt_storage_uri gone))"
  have gone: "c \<in> set (db_contents d) \<and> pending c \<and> cnt_created_at c < now - hours ttl" if "c \<in> set gone" for c
    using that expired_rows unfolding gone_def by blast
  have e: "d' = d1" "fs' = fold clear_public_path unused
             (fold (\<lambda>c. clear_public_path (public_dir (cnt_public_id c))) gone fs)"
    using assms(1) False
    by (auto simp: prune_expired_skill_contents_def Let_def unused_def d1_def expire_def row_update_def
             simp flip: gone_def simp del: time_units)
  have ids: "pending c \<and> \<not> live ttl now c" if c: "c \<in> set (db_contents d)" "cnt_id c \<in> set (map cnt_id gone)" for c
  proof -
    obtain g where g: "g \<in> set gone" "cnt_id g = cnt_id c" using c(2) by auto
    have "g = c"
      using rows_ok_id_eq [of cnt_id "db_contents d" g c] gone [OF g(1)] c(1) g(2) assms(2)
      by (simp add: contents_ok_def)
    with gone [OF g(1)] show ?thesis by (auto simp: live_def pending_def)
  qed
  have obj: "object_name (cnt_storage_uri c)" if "c \<in> set (db_contents d1)" for c
    using that assms(2) by (auto simp: d1_def expire_def contents_ok_def)
  have objs: "\<forall>u \<in> set unused. object_name u"
    using gone assms(2) by (auto simp: unused_def contents_ok_def)
  have keep: "cnt_storage_uri c \<in> set fs'"
    if c: "c \<in> set (db_contents d')" "cnt_state c \<noteq> CntExpired" "cnt_storage_uri c \<in> set fs" for c
  proof -
    have "active_storage_uri_is_referenced (cnt_storage_uri c) d1"
      using c(1,2) unfolding active_storage_uri_is_referenced_def list_ex_iff e(1) by blast
    then have "cnt_storage_uri c \<notin> set unused" by (simp add: unused_def)
    then show ?thesis
      unfolding e(2) using fold_clear_objects objs obj c(1,3) by (simp add: fold_clear_public_dirs e(1))
  qed
  show ?thesis
    using ids keep unfolding e(1) d1_def by blast
qed

section \<open>Uploading\<close>

lemma expire_contents_ok:
  assumes "contents_ok cs" and "\<forall>c \<in> set cs. cnt_id c \<in> ids \<longrightarrow> pending c"
  shows "contents_ok (expire ids cs)"
  using assms by (auto simp: contents_ok_def rows_ok_def) (auto simp: expire_def pending_def)

lemma stored_expire:
  assumes "stored ttl now cs fs"
    and "\<And>c. c \<in> set (expire ids cs) \<Longrightarrow> cnt_state c \<noteq> CntExpired \<Longrightarrow> cnt_storage_uri c \<in> set fs \<Longrightarrow>
           cnt_storage_uri c \<in> set fs'"
  shows "stored ttl now (expire ids cs) fs'"
  unfolding stored_def
proof (intro ballI impI)
  fix c
  assume c: "c \<in> set (expire ids cs)" "live ttl now c"
  then have ne: "cnt_state c \<noteq> CntExpired" by (auto simp: live_def)
  with c(1) have "c \<in> set cs" by (auto simp: expire_def split: if_splits)
  with assms(1) c(2) have "cnt_storage_uri c \<in> set fs" by (simp add: stored_def)
  with assms(2) c(1) ne show "cnt_storage_uri c \<in> set fs'" by blast
qed

text \<open>After a rollback the contents that were marked expired are back, but they were past their time.\<close>

lemma stored_rollback:
  assumes "stored ttl now (expire ids cs) fs'" and "\<forall>c \<in> set cs. cnt_id c \<in> ids \<longrightarrow> \<not> live ttl now c"
  shows "stored ttl now cs fs'"
  unfolding stored_def
proof (intro ballI impI)
  fix c
  assume c: "c \<in> set cs" "live ttl now c"
  with assms(2) have "c \<in> set (expire ids cs)" by (force simp: expire_def)
  with assms(1) c(2) show "cnt_storage_uri c \<in> set fs'" by (simp add: stored_def)
qed

definition hex_digest :: "(string \<Rightarrow> string) \<Rightarrow> bool" where
  "hex_digest sha256_hex \<longleftrightarrow> (\<forall>x. CHR ''/'' \<notin> set (sha256_hex x))"

lemma object_uri_name: "hex_digest sha \<Longrightarrow> object_name (object_uri sha x)"
  by (auto simp: hex_digest_def object_name_def object_uri_def)

lemma upload_effect:
  assumes "upload_skill_content lib sha token limits skill_id p m raw a now d fs = (r, fs')"
    and ok: "contents_ok (db_contents d)" and st: "stored (lim_ttl_hours limits) now (db_contents d) fs"
    and hex: "hex_digest sha"
  shows "stored (lim_ttl_hours limits) now (db_contents d) fs' \<and>
     (\<forall>c d'. r = Inr (c, d') \<longrightarrow>
        (\<exists>ids evs. d' = d\<lparr>db_contents := expire ids (db_contents d) @ [c], db_audit := evs\<rparr> \<and>
          (\<forall>x \<in> set (db_contents d). cnt_id x \<in> ids \<longrightarrow> pending x \<and> \<not> live (lim_ttl_hours limits) now x) \<and>
          pending c \<and> cnt_created_at c = now \<and> cnt_skill_id c = skill_id \<and> cnt_created_by c = p \<and>
          0 \<le> cnt_size_bytes c \<and>
          cnt_id c = next_id cnt_id (db_contents d) \<and>
          object_name (cnt_storage_uri c) \<and> cnt_storage_uri c = ''objects/sha256/'' @ cnt_sha256 c \<and>
          (\<forall>x \<in> set (db_contents d). cnt_public_id x \<noteq> cnt_public_id c) \<and>
          int (length (filter (\<lambda>x. cnt_skill_id x = skill_id \<and> pending x) (db_contents d'))) \<le>
            lim_pending_per_skill limits \<and>
          sum_list (map cnt_size_bytes (filter (\<lambda>x. cnt_created_by x = p \<and> pending x) (db_contents d'))) \<le>
            lim_pending_bytes limits \<and>
          stored (lim_ttl_hours limits) now (db_contents d') fs'))"
proof (cases "upload_allowed skill_id p m d")
  case (Inl e)
  with assms show ?thesis by (auto simp: upload_skill_content_def)
next
  case (Inr s)
  have sid: "skl_id s = skill_id"
    using Inr by (auto simp: upload_allowed_def get_skill_or_404_def res_simps dest: row_get_Some)
  obtain x d1 fs1 where pr: "prune_expired_skill_contents (lim_ttl_hours limits)
      (lim_pending_per_skill limits) (Some p) now d fs = (x, d1, fs1)"
    using prod_cases3 by blast
  from prune_effect [OF pr ok] obtain ids where
    d1: "d1 = d\<lparr>db_contents := expire ids (db_contents d)\<rparr>" and
    ids: "\<forall>c \<in> set (db_contents d). cnt_id c \<in> ids \<longrightarrow> pending c \<and> \<not> live (lim_ttl_hours limits) now c" and
    keep: "\<forall>c \<in> set (db_contents d1). cnt_state c \<noteq> CntExpired \<longrightarrow> cnt_storage_uri c \<in> set fs \<longrightarrow>
        cnt_storage_uri c \<in> set fs1"
    by blast
  have ok1: "contents_ok (db_contents d1)"
    using expire_contents_ok [OF ok] ids by (simp add: d1)
  have st1: "stored (lim_ttl_hours limits) now (db_contents d1) fs1"
    using stored_expire [OF st, of ids fs1] keep by (simp add: d1)
  have undone: "stored (lim_ttl_hours limits) now (db_contents d) fs2"
    if "stored (lim_ttl_hours limits) now (db_contents d1) fs2" for fs2
    using stored_rollback [of _ now ids "db_contents d" fs2] that ids by (simp add: d1)
  show ?thesis
  proof (cases "accepted_bundle lib limits s p raw d1")
    case e: (Inl e)
    have "r = Inl e \<and> fs' = fs1"
      using assms(1) by (simp add: upload_skill_content_def Inr pr e)
    with undone [OF st1] show ?thesis by simp
  next
    case b: (Inr b)
    define pid where "pid = ''cnt_'' @ token"
    define uri where "uri = object_uri sha (bun_data b)"
    define fs2 where "fs2 = put_bytes sha (bun_data b) (public_dir pid @ ''/skill.tar.gz'') fs1"
    define c0 where "c0 = new_content sha pid (skl_id s) p b now d1"
    have body: "(case create_skill_content c0 d1 of
          Inl e \<Rightarrow> (Inl e, if active_storage_uri_is_referenced uri d1 then clear_public_path (public_dir pid) fs2
                        else clear_public_path uri (clear_public_path (public_dir pid) fs2))
        | Inr (c, d2) \<Rightarrow> (Inr (c, append_content_uploaded s c p a d2), fs2)) = (r, fs')"
      using assms(1)
      unfolding upload_skill_content_def Inr pr b Let_def sum.case prod.case c0_def fs2_def uri_def pid_def .
    have uri: "object_name uri" by (simp add: uri_def object_uri_name hex)
    have fs2: "set fs1 \<subseteq> set fs2" "uri \<in> set fs2" by (auto simp: fs2_def put_bytes_def uri_def)
    have st2: "stored (lim_ttl_hours limits) now (db_contents d1) fs2"
      using st1 fs2(1) by (auto simp: stored_def)
    show ?thesis
    proof (cases "create_skill_content c0 d1")
      case f: (Inl e)
      have r: "r = Inl e" "fs' = (if active_storage_uri_is_referenced uri d1 then clear_public_path (public_dir pid) fs2
                        else clear_public_path uri (clear_public_path (public_dir pid) fs2))"
        using body f by simp_all
      have "cnt_storage_uri c \<in> set fs'" if c: "c \<in> set (db_contents d1)" "live (lim_ttl_hours limits) now c" for c
      proof -
        have obj: "object_name (cnt_storage_uri c)" using ok1 c(1) by (simp add: contents_ok_def)
        have "cnt_storage_uri c \<in> set fs2" using st2 c by (simp add: stored_def)
        then have in3: "cnt_storage_uri c \<in> set (clear_public_path (public_dir pid) fs2)"
          by (simp add: clear_public_dir_keeps_object [OF obj])
        have "active_storage_uri_is_referenced (cnt_storage_uri c) d1"
          using c unfolding active_storage_uri_is_referenced_def list_ex_iff live_def by auto
        with in3 show ?thesis
          unfolding r(2) using clear_keeps_object [OF uri obj] by (auto split: if_splits)
      qed
      then have "stored (lim_ttl_hours limits) now (db_contents d1) fs'" by (simp add: stored_def)
      with undone r(1) show ?thesis by simp
    next
      case g: (Inr y)
      obtain c d2 where y: "y = (c, d2)" by (cases y)
      from g y have c: "c = c0" "d2 = d1\<lparr>db_contents := db_contents d1 @ [c0]\<rparr>"
          "\<forall>x \<in> set (db_contents d1). cnt_public_id x \<noteq> pid"
        by (auto simp: create_skill_content_def c0_def new_content_def list_ex_iff split: if_splits)
      have r: "r = Inr (c, append_content_uploaded s c p a d2)" "fs' = fs2"
        using body g y by simp_all
      obtain evs where evs: "append_content_uploaded s c p a d2 = d2\<lparr>db_audit := evs\<rparr>"
        using audit_only unfolding append_content_uploaded_def by blast
      have c0: "pending c0" "cnt_created_at c0 = now" "cnt_skill_id c0 = skill_id" "cnt_created_by c0 = p"
          "cnt_id c0 = next_id cnt_id (db_contents d1)" "cnt_storage_uri c0 = uri" "cnt_public_id c0 = pid"
          "cnt_size_bytes c0 = int (length (bun_data b))" "cnt_storage_uri c0 = ''objects/sha256/'' @ cnt_sha256 c0"
        by (simp_all add: c0_def new_content_def pending_def uri_def sid object_uri_def)
      have fresh_id: "next_id cnt_id (db_contents d1) = next_id cnt_id (db_contents d)"
        by (simp add: next_id_def d1 expire_def foldr_map comp_def if_distrib cong: if_cong)
      have quota: "fst (pending_content_usage skill_id p d1) < lim_pending_per_skill limits"
          "snd (pending_content_usage skill_id p d1) + int (length (bun_data b)) \<le> lim_pending_bytes limits"
        using b by (cases "pending_content_usage skill_id p d1",
          auto simp: accepted_bundle_def assert_pending_content_quota_def res_simps sid)+
      have "stored (lim_ttl_hours limits) now (db_contents d1 @ [c0]) fs2"
        using st2 fs2(2) c0(6) by (simp add: stored_def)
      moreover have "\<forall>x \<in> set (db_contents d). cnt_public_id x \<noteq> cnt_public_id c0"
      proof -
        have "cnt_public_id ` set (db_contents d1) = cnt_public_id ` set (db_contents d)"
          unfolding set_map [symmetric] by (simp add: d1)
        with c(3) c0(7) show ?thesis by (metis imageE imageI)
      qed
      ultimately show ?thesis
        using undone [OF st2] r evs c(1,2) c0 fresh_id quota ids uri
        by (auto simp: d1 pending_content_usage_def intro!: exI [of _ ids] exI [of _ evs])
    qed
  qed
qed

section \<open>Creating a version\<close>

definition set_marker :: "id \<Rightarrow> string option \<Rightarrow> skill list \<Rightarrow> skill list" where
  "set_marker i digest ss = map (\<lambda>s. if skl_id s = i then s\<lparr>skl_latest_digest := digest\<rparr> else s) ss"

lemma claim_effect:
  assumes "claim_latest_for_version i candidate expected d = Inr d'"
  shows "d' = d\<lparr>db_skills := set_marker i (Some candidate) (db_skills d)\<rparr> \<and>
     (\<forall>e. expected = Some e \<longrightarrow> e = map_option ver_content_digest (get_latest_skill_version i d))"
  using assms
  by (auto simp: claim_latest_for_version_def claim_skill_latest_digest_def sync_skill_latest_marker_def
        res_simps Let_def row_update_def set_marker_def split: option.splits)

lemma consume_effect:
  assumes "contents_ok (db_contents d)" and "c \<in> set (db_contents d)" and "pending c"
  shows "snd (consume_skill_content (cnt_id c) now d) =
     d\<lparr>db_contents := consume (cnt_id c) now (db_contents d)\<rparr>"
proof -
  have "cnt_state x = CntValidated \<and> cnt_consumed_at x = None"
    if "x \<in> set (db_contents d)" "cnt_id x = cnt_id c" for x
    using rows_ok_id_eq [OF _ that(1) assms(2) that(2)] assms(1,3) by (simp add: contents_ok_def pending_def)
  then have "row_update (\<lambda>x. cnt_id x = cnt_id c \<and> cnt_state x = CntValidated \<and> cnt_consumed_at x = None)
      (\<lambda>x. x\<lparr>cnt_state := CntConsumed, cnt_consumed_at := Some now\<rparr>) (db_contents d) =
      consume (cnt_id c) now (db_contents d)"
    unfolding row_update_def consume_def by (intro map_cong) auto
  then show ?thesis by (simp add: consume_skill_content_def Let_def)
qed

lemma set_marker_fields [simp]:
  "map skl_id (set_marker i g ss) = map skl_id ss"
  by (simp add: set_marker_def)

lemma create_version_effect:
  assumes "create_skill_version_snapshot sha skill_id p m version cpid ttl a expected now d = Inr (v, d')"
    and ok: "contents_ok (db_contents d)"
  shows "\<exists>c evs. c \<in> set (db_contents d) \<and> pending c \<and> cnt_skill_id c = skill_id \<and> cnt_public_id c = cpid \<and>
     cnt_declared_version c = version \<and> now - hours ttl \<le> cnt_created_at c \<and>
     (\<exists>s. row_get skl_id (db_skills d) skill_id = Some s \<and> skl_status s \<noteq> SkillArchived) \<and>
     ver_id v = next_id ver_id (db_versions d) \<and> ver_skill_id v = skill_id \<and> ver_content_id v = cnt_id c \<and>
     ver_version v = version \<and> ver_content_digest v = ''sha256:'' @ cnt_sha256 c \<and> ver_created_at v = now \<and>
     version_unique v (db_versions d) \<and>
     (\<forall>e. expected = Some e \<longrightarrow> e = map_option ver_content_digest (get_latest_skill_version skill_id d)) \<and>
     d' = d\<lparr>db_skills := set_marker skill_id (Some (ver_content_digest v)) (db_skills d),
            db_contents := consume (cnt_id c) now (db_contents d),
            db_versions := db_versions d @ [v], db_audit := evs\<rparr>"
proof -
  obtain s where s: "row_get skl_id (db_skills d) skill_id = Some s" "skl_id s = skill_id"
    using assms(1) by (auto simp: create_skill_version_snapshot_def get_skill_or_404_def res_simps dest: row_get_Some)
  obtain c metadata d1 d3 where
    st: "skl_status s \<noteq> SkillArchived" and
    c: "get_skill_content_for_version skill_id cpid (now - hours ttl) d = Inr c"
       "cnt_declared_version c = version" and
    d1: "claim_latest_for_version skill_id (''sha256:'' @ cnt_sha256 c) expected d = Inr d1" and
    d3: "create_skill_version (sealed_version sha s c metadata version p now
           (snd (consume_skill_content (cnt_id c) now d1))) (snd (consume_skill_content (cnt_id c) now d1)) = Inr (v, d3)" and
    d': "d' = append_version_created s v p a (set_skill_latest_version skill_id v d3)"
    using assms(1) s
    by (auto simp: create_skill_version_snapshot_def get_skill_or_404_def res_simps Let_def case_prod_beta
             simp del: time_units)
  have cin: "c \<in> set (db_contents d)" "cnt_skill_id c = skill_id" "cnt_public_id c = cpid" "pending c"
      "now - hours ttl \<le> cnt_created_at c"
    using c(1) unfolding get_skill_content_for_version_def get_skill_content_by_public_id_def
    by (auto simp: res_simps pending_def find_Some_iff simp del: time_units split: option.splits if_splits)
  note e1 = claim_effect [OF d1]
  define d2 where "d2 = snd (consume_skill_content (cnt_id c) now d1)"
  note d3 = d3 [folded d2_def]
  have e2: "d2 = d1\<lparr>db_contents := consume (cnt_id c) now (db_contents d)\<rparr>"
    using consume_effect [of d1 c now] ok cin e1 by (simp add: d2_def)
  have v: "v = sealed_version sha s c metadata version p now d2" "version_unique v (db_versions d2)"
      "d3 = d2\<lparr>db_versions := db_versions d2 @ [v]\<rparr>"
    using d3 by (auto simp: create_skill_version_def split: if_splits)
  obtain evs where evs: "append_version_created s v p a (set_skill_latest_version skill_id v d3) =
      set_skill_latest_version skill_id v d3\<lparr>db_audit := evs\<rparr>"
    using audit_only unfolding append_version_created_def by blast
  have marker: "set_skill_latest_version skill_id v d3 =
      d3\<lparr>db_skills := set_marker skill_id (Some (ver_content_digest v)) (db_skills d)\<rparr>"
    using e1 e2 v(3)
    by (simp add: set_skill_latest_version_def row_update_def set_marker_def comp_def if_distrib cong: if_cong)
  have "ver_id v = next_id ver_id (db_versions d)" "ver_skill_id v = skill_id" "ver_content_id v = cnt_id c"
      "ver_version v = version" "ver_content_digest v = ''sha256:'' @ cnt_sha256 c" "ver_created_at v = now"
    using e1 e2 s(2) by (simp_all add: v(1) sealed_version_def)
  moreover have "version_unique v (db_versions d)" using v(2) e1 e2 by simp
  moreover have "d' = d\<lparr>db_skills := set_marker skill_id (Some (ver_content_digest v)) (db_skills d),
            db_contents := consume (cnt_id c) now (db_contents d),
            db_versions := db_versions d @ [v], db_audit := evs\<rparr>"
    using d' evs marker e1 e2 v(3) by simp
  ultimately show ?thesis using cin c(2) s(1) st e1 by blast
qed

section \<open>Change sets\<close>

lemma fold_row_set:
  assumes "rows_ok rid t" and "set xs \<subseteq> set t" and "\<And>x. rid (g x) = rid x"
  shows "fold (\<lambda>x. row_set rid (g x)) xs t = map (\<lambda>x. if x \<in> set xs then g x else x) t"
  using assms(2)
proof (induction xs rule: rev_induct)
  case Nil
  then show ?case by simp
next
  case (snoc x xs)
  have "(if rid y = rid x then g x else if y \<in> set xs then g y else y) =
      (if y \<in> set (xs @ [x]) then g y else y)" if "y \<in> set t" for y
    using rows_ok_id_eq [OF assms(1) that, of x] snoc.prems by auto
  then show ?case using snoc assms(3) by (simp add: row_set_def row_update_def comp_def)
qed

definition competitor :: "id \<Rightarrow> id \<Rightarrow> change_set \<Rightarrow> bool" where
  "competitor skill_id winner c \<longleftrightarrow>
     chg_skill_id c = skill_id \<and> chg_id c \<noteq> winner \<and> chg_state c \<in> {CsOpen, CsSubmitted}"

lemma audit_change_set_only: "\<exists>evs. audit_change_set s c e a d = d\<lparr>db_audit := evs\<rparr>"
  using audit_only unfolding audit_change_set_def by blast

lemma fold_put_change_sets:
  "\<exists>evs. fold (\<lambda>c d. audit_change_set s (g c) e a (put_change_set (g c) d)) cs d =
     d\<lparr>db_change_sets := fold (\<lambda>c. row_set chg_id (g c)) cs (db_change_sets d), db_audit := evs\<rparr>"
proof (induction cs arbitrary: d)
  case Nil
  show ?case by (intro exI [of _ "db_audit d"]) simp
next
  case (Cons c cs)
  obtain evs where "audit_change_set s (g c) e a (put_change_set (g c) d) =
      (put_change_set (g c) d)\<lparr>db_audit := evs\<rparr>"
    using audit_change_set_only by blast
  with Cons [of "(put_change_set (g c) d)\<lparr>db_audit := evs\<rparr>"] show ?case by (simp add: put_change_set_def)
qed

lemma supersede_effect:
  assumes "rows_ok chg_id (db_change_sets d)"
  shows "\<exists>evs. supersede_competitors s w a now d =
     d\<lparr>db_change_sets := map (\<lambda>x. if competitor (skl_id s) (chg_id w) x then superseded now x else x)
                            (db_change_sets d), db_audit := evs\<rparr>"
proof -
  have "fold (\<lambda>c. row_set chg_id (superseded now c))
          (filter (competitor (skl_id s) (chg_id w)) (db_change_sets d)) (db_change_sets d) =
        map (\<lambda>x. if competitor (skl_id s) (chg_id w) x then superseded now x else x) (db_change_sets d)"
    by (subst fold_row_set [OF assms]) (auto simp: superseded_def)
  then show ?thesis
    using fold_put_change_sets [of s "superseded now" _ a
        "filter (competitor (skl_id s) (chg_id w)) (db_change_sets d)" d]
    unfolding supersede_competitors_def competitor_def by simp
qed

lemma create_change_set_effect:
  assumes "create_change_set token skill_id p m req ttl a now d = Inr (x, d')"
  shows "\<exists>evs c. d' = d\<lparr>db_change_sets := db_change_sets d @ [x], db_audit := evs\<rparr> \<and>
     chg_id x = next_id chg_id (db_change_sets d) \<and> chg_state x = CsOpen \<and> chg_skill_id x = skill_id \<and>
     c \<in> set (db_contents d) \<and> chg_content_id x = cnt_id c \<and> cnt_skill_id c = skill_id \<and>
     cnt_declared_version c = chg_proposed_version x \<and>
     change_set_unique x (db_change_sets d)"
proof -
  obtain s where s: "row_get skl_id (db_skills d) skill_id = Some s" "skl_id s = skill_id"
    using assms by (auto simp: create_change_set_def authorize_def get_skill_or_404_def res_simps dest: row_get_Some)
  obtain c where c: "get_skill_content_for_version skill_id (csq_content_id req) (now - hours ttl) d = Inr c"
      "cnt_declared_version c = csq_version req" and
    x: "chg_id x = next_id chg_id (db_change_sets d)" "chg_state x = CsOpen" "chg_skill_id x = skill_id"
       "chg_content_id x = cnt_id c" "chg_proposed_version x = csq_version req"
       "change_set_unique x (db_change_sets d)"
       "d' = audit_change_set s x ''skill_change_set.created'' a (d\<lparr>db_change_sets := db_change_sets d @ [x]\<rparr>)"
    using assms s
    by (auto simp: create_change_set_def authorize_def get_skill_or_404_def res_simps Let_def
             simp del: time_units split: if_splits)
  have "c \<in> set (db_contents d) \<and> cnt_skill_id c = skill_id"
    using c(1) unfolding get_skill_content_for_version_def get_skill_content_by_public_id_def
    by (auto simp: res_simps find_Some_iff split: option.splits if_splits)
  moreover obtain evs where "audit_change_set s x ''skill_change_set.created'' a
      (d\<lparr>db_change_sets := db_change_sets d @ [x]\<rparr>) = d\<lparr>db_change_sets := db_change_sets d @ [x], db_audit := evs\<rparr>"
    using audit_change_set_only [of s x _ a "d\<lparr>db_change_sets := db_change_sets d @ [x]\<rparr>"] by auto
  ultimately show ?thesis
    using c(2) x(1-6) unfolding x(7) by (intro exI [of _ evs] exI [of _ c]) simp
qed

lemma change_set_or_404_Inr:
  "change_set_or_404 skill_id pid d = Inr c \<Longrightarrow>
     c \<in> set (db_change_sets d) \<and> chg_skill_id c = skill_id \<and> chg_public_id c = pid"
  by (auto simp: change_set_or_404_def find_Some_iff)

lemma submit_effect:
  assumes "submit_change_set skill_id pid p m a now d = Inr (x, d')"
  shows "\<exists>c evs. c \<in> set (db_change_sets d) \<and> chg_state c = CsOpen \<and>
     x = c\<lparr>chg_state := CsSubmitted, chg_submitted_at := Some now\<rparr> \<and>
     d' = d\<lparr>db_change_sets := row_set chg_id x (db_change_sets d), db_audit := evs\<rparr>"
proof -
  obtain s c where c: "change_set_or_404 skill_id pid d = Inr c" "chg_state c = CsOpen"
      "x = c\<lparr>chg_state := CsSubmitted, chg_submitted_at := Some now\<rparr>" and
    d': "d' = audit_change_set s x ''skill_change_set.submitted'' a (put_change_set x d)"
    using assms by (auto simp: submit_change_set_def res_simps Let_def)
  obtain evs where "audit_change_set s x ''skill_change_set.submitted'' a (put_change_set x d) =
      (put_change_set x d)\<lparr>db_audit := evs\<rparr>"
    using audit_change_set_only by blast
  then show ?thesis
    using c change_set_or_404_Inr [OF c(1)]
    unfolding d' by (intro exI [of _ c] exI [of _ evs]) (simp add: put_change_set_def)
qed

lemma reject_effect:
  assumes "reject_change_set skill_id pid p m a now d = Inr (x, d')"
  shows "\<exists>c evs. c \<in> set (db_change_sets d) \<and> chg_state c \<in> {CsOpen, CsSubmitted} \<and>
     x = c\<lparr>chg_state := CsRejected, chg_decided_at := Some now\<rparr> \<and>
     d' = d\<lparr>db_change_sets := row_set chg_id x (db_change_sets d), db_audit := evs\<rparr>"
proof -
  obtain s c where c: "change_set_or_404 skill_id pid d = Inr c" "chg_state c \<in> {CsOpen, CsSubmitted}"
      "x = c\<lparr>chg_state := CsRejected, chg_decided_at := Some now\<rparr>" and
    d': "d' = audit_change_set s x ''skill_change_set.rejected'' a (put_change_set x d)"
    using assms by (auto simp: reject_change_set_def res_simps Let_def)
  obtain evs where "audit_change_set s x ''skill_change_set.rejected'' a (put_change_set x d) =
      (put_change_set x d)\<lparr>db_audit := evs\<rparr>"
    using audit_change_set_only by blast
  then show ?thesis
    using c change_set_or_404_Inr [OF c(1)]
    unfolding d' by (intro exI [of _ c] exI [of _ evs]) (simp add: put_change_set_def)
qed

definition decide :: "id \<Rightarrow> id \<Rightarrow> time \<Rightarrow> change_set \<Rightarrow> change_set" where
  "decide skill_id winner now c =
     (if chg_id c = winner then c\<lparr>chg_state := CsAccepted, chg_decided_at := Some now\<rparr>
      else if competitor skill_id winner c then superseded now c else c)"

lemma decide_fields [simp]:
  "chg_id (decide i w now c) = chg_id c" "chg_public_id (decide i w now c) = chg_public_id c"
  "chg_content_id (decide i w now c) = chg_content_id c" "chg_skill_id (decide i w now c) = chg_skill_id c"
  "chg_base_version_id (decide i w now c) = chg_base_version_id c"
  "chg_proposed_version (decide i w now c) = chg_proposed_version c"
  by (simp_all add: decide_def superseded_def)

lemma accept_effect:
  assumes "accept_change_set sha skill_id pid p m expected ttl a now d = Inr ((x, v), d')"
    and ok: "contents_ok (db_contents d)" and cs: "rows_ok chg_id (db_change_sets d)"
  shows "\<exists>c y d1 evs. c \<in> set (db_change_sets d) \<and> chg_state c = CsSubmitted \<and> chg_skill_id c = skill_id \<and>
     chg_public_id c = pid \<and>
     chg_base_version_id c = map_option ver_id (get_latest_skill_version skill_id d) \<and>
     expected = map_option ver_content_digest (get_latest_skill_version skill_id d) \<and>
     row_get cnt_id (db_contents d) (chg_content_id c) = Some y \<and>
     create_skill_version_snapshot sha skill_id p m (chg_proposed_version c) (cnt_public_id y) ttl (Some a)
       (Some expected) now d = Inr (v, d1) \<and> x = decide skill_id (chg_id c) now c \<and>
     d' = d1\<lparr>db_change_sets := map (decide skill_id (chg_id c) now) (db_change_sets d), db_audit := evs\<rparr>"
proof -
  obtain s where s: "row_get skl_id (db_skills d) skill_id = Some s" "skl_id s = skill_id"
    using assms(1) by (auto simp: accept_change_set_def authorize_def get_skill_or_404_def res_simps dest: row_get_Some)
  obtain c y d1 where c: "change_set_or_404 skill_id pid d = Inr c" "chg_state c = CsSubmitted"
      "chg_base_version_id c = map_option ver_id (get_latest_skill_version skill_id d)"
      "expected = map_option ver_content_digest (get_latest_skill_version skill_id d)"
      "row_get cnt_id (db_contents d) (chg_content_id c) = Some y" and
    v: "create_skill_version_snapshot sha skill_id p m (chg_proposed_version c) (cnt_public_id y) ttl (Some a)
       (Some expected) now d = Inr (v, d1)" and
    x: "x = c\<lparr>chg_state := CsAccepted, chg_decided_at := Some now\<rparr>" and
    d': "d' = audit_change_set s x ''skill_change_set.accepted'' a
       (supersede_competitors s x a now (put_change_set x d1))"
    using assms(1) s
    by (auto simp: accept_change_set_def authorize_def get_skill_or_404_def res_simps Let_def)
  note cin = change_set_or_404_Inr [OF c(1)]
  have frame: "db_change_sets d1 = db_change_sets d"
    using create_version_effect [OF v ok] by auto
  have ok1: "rows_ok chg_id (db_change_sets (put_change_set x d1))"
    using cs by (auto simp: put_change_set_def frame)
  obtain evs1 where e1: "supersede_competitors s x a now (put_change_set x d1) =
      (put_change_set x d1)\<lparr>db_change_sets := map (\<lambda>z. if competitor skill_id (chg_id c) z then superseded now z else z)
         (db_change_sets (put_change_set x d1)), db_audit := evs1\<rparr>"
    using supersede_effect [OF ok1, of s x a now] s(2) x by auto
  obtain evs where e2: "audit_change_set s x ''skill_change_set.accepted'' a
       (supersede_competitors s x a now (put_change_set x d1)) =
      (supersede_competitors s x a now (put_change_set x d1))\<lparr>db_audit := evs\<rparr>"
    using audit_change_set_only by blast
  have "map (\<lambda>z. if competitor skill_id (chg_id c) z then superseded now z else z) (row_set chg_id x (db_change_sets d)) =
      map (decide skill_id (chg_id c) now) (db_change_sets d)"
  proof -
    have "(if competitor skill_id (chg_id c) (if chg_id z = chg_id x then x else z)
           then superseded now (if chg_id z = chg_id x then x else z) else (if chg_id z = chg_id x then x else z)) =
        decide skill_id (chg_id c) now z" if "z \<in> set (db_change_sets d)" for z
      using rows_ok_id_eq [OF cs that, of c] cin by (auto simp: x decide_def competitor_def)
    then show ?thesis by (simp add: row_set_def row_update_def comp_def)
  qed
  then have "d' = d1\<lparr>db_change_sets := map (decide skill_id (chg_id c) now) (db_change_sets d), db_audit := evs\<rparr>"
    unfolding d' e2 unfolding e1 by (simp add: put_change_set_def frame)
  moreover have "x = decide skill_id (chg_id c) now c" by (simp add: x decide_def)
  ultimately show ?thesis using c v cin by blast
qed

lemma snapshot_effect:
  assumes "register_snapshot token skill_id p m req a now d = Inr (x, d')"
  shows "\<exists>evs. d' = d\<lparr>db_snapshots := db_snapshots d @ [x], db_audit := evs\<rparr> \<and>
     dsp_id x = next_id dsp_id (db_snapshots d) \<and> dsp_skill_id x = skill_id \<and> dsp_created_at x = now \<and>
     (\<exists>v \<in> set (db_versions d). dsp_version_id x = ver_id v \<and> ver_skill_id v = skill_id) \<and>
     (\<forall>i. dsp_parent_id x = Some i \<longrightarrow>
        (\<exists>y \<in> set (db_snapshots d). dsp_id y = i \<and> dsp_skill_id y = skill_id \<and>
           dsp_schema_version y \<le> dsp_schema_version x)) \<and>
     snapshot_unique x (db_snapshots d)"
proof -
  obtain s where s: "row_get skl_id (db_skills d) skill_id = Some s" "skl_id s = skill_id"
    using assms by (auto simp: register_snapshot_def authorize_def get_skill_or_404_def res_simps dest: row_get_Some)
  obtain v parent where
    v0: "(case row_get ver_id (db_versions d) (snq_version_id req) of
            None \<Rightarrow> None | Some v \<Rightarrow> if ver_skill_id v = skill_id then Some v else None) = Some v" and
    parent: "snapshot_parent skill_id req d = Inr parent" and
    x: "x = new_snapshot token skill_id (ver_id v) (map_option dsp_id parent) req p a now d"
       "snapshot_unique x (db_snapshots d)" and
    d': "d' = append_snapshot_registered s x a (d\<lparr>db_snapshots := db_snapshots d @ [x]\<rparr>)"
    using assms s
    by (auto simp: register_snapshot_def authorize_def get_skill_or_404_def res_simps Let_def split: if_splits)
  have v: "row_get ver_id (db_versions d) (snq_version_id req) = Some v" "ver_skill_id v = skill_id"
    using v0 by (auto split: option.splits if_splits)
  have row: "dsp_id x = next_id dsp_id (db_snapshots d)" "dsp_skill_id x = skill_id" "dsp_version_id x = ver_id v"
       "dsp_parent_id x = map_option dsp_id parent" "dsp_schema_version x = snq_schema_version req"
       "dsp_created_at x = now"
    by (simp_all add: x(1) new_snapshot_def)
  obtain evs where e: "d' = d\<lparr>db_snapshots := db_snapshots d @ [x], db_audit := evs\<rparr>"
    using audit_only [where d = "d\<lparr>db_snapshots := db_snapshots d @ [x]\<rparr>"]
    unfolding d' append_snapshot_registered_def by blast
  have "\<exists>y \<in> set (db_snapshots d). dsp_id y = i \<and> dsp_skill_id y = skill_id \<and>
           dsp_schema_version y \<le> dsp_schema_version x" if i: "dsp_parent_id x = Some i" for i
    using parent i row(4,5)
    by (auto simp: snapshot_parent_def get_snapshot_def res_simps find_Some_iff split: option.splits)
  then show ?thesis
    using v row_get_Some [OF v(1)] row(1-3,6) x(2) unfolding e by blast
qed

end
