(* ===== verification/AuthoringProtocol.thy ===== *)
theory AuthoringProtocol
  imports AuthoringEffects
begin

text \<open>
  Authoring over time: the requests of any number of publishers, one after the other, on the
  database and the artifact directory, with the clock of the server between them.
\<close>

section \<open>Steps\<close>

type_synonym author_state = "db \<times> files \<times> time"

inductive author_step ::
    "content_lib \<Rightarrow> (string \<Rightarrow> string) \<Rightarrow> content_limits \<Rightarrow> author_state \<Rightarrow> author_state \<Rightarrow> bool"
  for lib :: content_lib and sha256_hex :: "string \<Rightarrow> string" and limits :: content_limits where
  skill_created: "create_skill namespace_id p req a d = Inr (s, d') \<Longrightarrow> now \<le> t \<Longrightarrow>
    author_step lib sha256_hex limits (d, fs, now) (d', fs, t)"
| skill_archived: "archive_skill i p m a d = Inr (s, d') \<Longrightarrow> now \<le> t \<Longrightarrow>
    author_step lib sha256_hex limits (d, fs, now) (d', fs, t)"
| content_uploaded: "upload_request lib sha256_hex token limits i p m raw a t (d, fs) = (d', fs') \<Longrightarrow> now \<le> t \<Longrightarrow>
    author_step lib sha256_hex limits (d, fs, now) (d', fs', t)"
| contents_pruned: "prune_expired_skill_contents (lim_ttl_hours limits) limit p t d fs = (x, d', fs') \<Longrightarrow> now \<le> t \<Longrightarrow>
    author_step lib sha256_hex limits (d, fs, now) (d', fs', t)"
| prune_lost: "prune_expired_skill_contents (lim_ttl_hours limits) limit p t d fs = (x, d', fs') \<Longrightarrow> now \<le> t \<Longrightarrow>
    author_step lib sha256_hex limits (d, fs, now) (d, fs', t)"
| version_created: "create_skill_version_snapshot sha256_hex i p m version content_id (lim_ttl_hours limits) a
      expected t d = Inr (v, d') \<Longrightarrow> now \<le> t \<Longrightarrow> author_step lib sha256_hex limits (d, fs, now) (d', fs, t)"
| change_created: "create_change_set token i p m csreq (lim_ttl_hours limits) actor t d = Inr (c, d') \<Longrightarrow> now \<le> t \<Longrightarrow>
    author_step lib sha256_hex limits (d, fs, now) (d', fs, t)"
| change_submitted: "submit_change_set i public_id p m actor t d = Inr (c, d') \<Longrightarrow> now \<le> t \<Longrightarrow>
    author_step lib sha256_hex limits (d, fs, now) (d', fs, t)"
| change_rejected: "reject_change_set i public_id p m actor t d = Inr (c, d') \<Longrightarrow> now \<le> t \<Longrightarrow>
    author_step lib sha256_hex limits (d, fs, now) (d', fs, t)"
| change_accepted: "accept_change_set sha256_hex i public_id p m digest (lim_ttl_hours limits) actor t d =
      Inr (r, d') \<Longrightarrow> now \<le> t \<Longrightarrow> author_step lib sha256_hex limits (d, fs, now) (d', fs, t)"
| snapshot_registered: "register_snapshot token i p m snreq actor t d = Inr (n, d') \<Longrightarrow> now \<le> t \<Longrightarrow>
    author_step lib sha256_hex limits (d, fs, now) (d', fs, t)"
| elsewhere: "db_skills d' = db_skills d \<Longrightarrow> db_contents d' = db_contents d \<Longrightarrow> db_versions d' = db_versions d \<Longrightarrow>
    db_change_sets d' = db_change_sets d \<Longrightarrow> db_snapshots d' = db_snapshots d \<Longrightarrow> set fs \<subseteq> set fs' \<Longrightarrow> now \<le> t \<Longrightarrow>
    author_step lib sha256_hex limits (d, fs, now) (d', fs', t)"

section \<open>The invariant\<close>

definition latest_of :: "id \<Rightarrow> skill_version list \<Rightarrow> skill_version option" where
  "latest_of i vs = (case rev (filter (\<lambda>v. ver_skill_id v = i) vs) of [] \<Rightarrow> None | v # _ \<Rightarrow> Some v)"

definition versions_ok :: "id set \<Rightarrow> time \<Rightarrow> skill_version list \<Rightarrow> bool" where
  "versions_ok skills now vs \<longleftrightarrow>
     sorted_wrt (\<lambda>v w. version_rank v < version_rank w) vs \<and> rows_ok ver_id vs \<and>
     distinct (map ver_content_id vs) \<and> distinct (map (\<lambda>v. (ver_skill_id v, ver_version v)) vs) \<and>
     (\<forall>v \<in> set vs. ver_created_at v \<le> now \<and> ver_skill_id v \<in> skills)"

definition sealed :: "skill_content \<Rightarrow> skill_version \<Rightarrow> bool" where
  "sealed c v \<longleftrightarrow> cnt_id c = ver_content_id v \<and> cnt_state c = CntConsumed \<and> cnt_skill_id c = ver_skill_id v \<and>
     cnt_declared_version c = ver_version v \<and> ver_content_digest v = ''sha256:'' @ cnt_sha256 c"

definition provenance :: "skill_content list \<Rightarrow> skill_version list \<Rightarrow> bool" where
  "provenance cs vs \<longleftrightarrow> (\<forall>v \<in> set vs. \<exists>c \<in> set cs. sealed c v) \<and>
     (\<forall>c \<in> set cs. cnt_state c = CntConsumed \<longrightarrow> (\<exists>v \<in> set vs. sealed c v))"

definition marked :: "skill list \<Rightarrow> skill_version list \<Rightarrow> bool" where
  "marked ss vs \<longleftrightarrow> rows_ok skl_id ss \<and>
     (\<forall>s \<in> set ss. skl_latest_digest s = map_option ver_content_digest (latest_of (skl_id s) vs))"

definition promoted :: "skill_version list \<Rightarrow> change_set \<Rightarrow> bool" where
  "promoted vs c \<longleftrightarrow> (\<exists>pre v post. vs = pre @ v # post \<and> ver_skill_id v = chg_skill_id c \<and>
     ver_version v = chg_proposed_version c \<and> ver_content_id v = chg_content_id c \<and>
     chg_base_version_id c = map_option ver_id (latest_of (chg_skill_id c) pre))"

definition change_sets_ok :: "change_set list \<Rightarrow> skill_version list \<Rightarrow> bool" where
  "change_sets_ok gs vs \<longleftrightarrow> rows_ok chg_id gs \<and> distinct (map chg_public_id gs) \<and>
     distinct (map chg_content_id gs) \<and> (\<forall>c \<in> set gs. chg_state c = CsAccepted \<longrightarrow> promoted vs c)"

definition quota_ok :: "content_limits \<Rightarrow> skill_content list \<Rightarrow> bool" where
  "quota_ok limits cs \<longleftrightarrow> (\<forall>c \<in> set cs. 0 \<le> cnt_size_bytes c) \<and>
     (\<forall>i. int (length (filter (\<lambda>c. cnt_skill_id c = i \<and> pending c) cs)) \<le> max 0 (lim_pending_per_skill limits)) \<and>
     (\<forall>p. sum_list (map cnt_size_bytes (filter (\<lambda>c. cnt_created_by c = p \<and> pending c) cs)) \<le>
        max 0 (lim_pending_bytes limits))"

definition lineage_ok :: "data_snapshot list \<Rightarrow> skill_version list \<Rightarrow> bool" where
  "lineage_ok xs vs \<longleftrightarrow> rows_ok dsp_id xs \<and>
     (\<forall>x \<in> set xs. (\<exists>v \<in> set vs. ver_id v = dsp_version_id x \<and> ver_skill_id v = dsp_skill_id x) \<and>
        (\<forall>i. dsp_parent_id x = Some i \<longrightarrow> (\<exists>y \<in> set xs. dsp_id y = i \<and> i < dsp_id x \<and>
           dsp_skill_id y = dsp_skill_id x \<and> dsp_schema_version y \<le> dsp_schema_version x)))"

definition authoring_ok :: "content_limits \<Rightarrow> author_state \<Rightarrow> bool" where
  "authoring_ok limits = (\<lambda>(d, fs, now).
     contents_ok (db_contents d) \<and> stored (lim_ttl_hours limits) now (db_contents d) fs \<and>
     quota_ok limits (db_contents d) \<and>
     versions_ok (skl_id ` set (db_skills d)) now (db_versions d) \<and>
     provenance (db_contents d) (db_versions d) \<and> marked (db_skills d) (db_versions d) \<and>
     change_sets_ok (db_change_sets d) (db_versions d) \<and> lineage_ok (db_snapshots d) (db_versions d))"

section \<open>The latest version\<close>

lemma get_latest:
  assumes "versions_ok skills now (db_versions d)"
  shows "get_latest_skill_version i d = latest_of i (db_versions d)"
proof -
  let ?f = "filter (\<lambda>v. ver_skill_id v = i) (db_versions d)"
  have "sorted_wrt (\<lambda>v w. version_rank v < version_rank w) ?f"
    using assms by (simp add: versions_ok_def sorted_wrt_filter)
  then have "sorted (map version_rank ?f)"
    unfolding sorted_map by (rule sorted_wrt_mono_rel [rotated]) simp
  then have "sort_key version_rank ?f = ?f" by (rule sort_key_id_if_sorted)
  then show ?thesis
    by (simp add: get_latest_skill_version_def latest_of_def)
qed

lemma latest_of_append [simp]:
  "latest_of i (vs @ [v]) = (if ver_skill_id v = i then Some v else latest_of i vs)"
  by (simp add: latest_of_def)

lemma latest_of_Some: "latest_of i vs = Some v \<Longrightarrow> v \<in> set vs \<and> ver_skill_id v = i"
proof -
  assume a: "latest_of i vs = Some v"
  then obtain ws where "rev (filter (\<lambda>v. ver_skill_id v = i) vs) = v # ws"
    by (auto simp: latest_of_def split: list.splits)
  then have "v \<in> set (rev (filter (\<lambda>v. ver_skill_id v = i) vs))" by (simp only: list.set_intros)
  then show ?thesis by simp
qed

lemma latest_of_None: "latest_of i vs = None \<longleftrightarrow> (\<forall>v \<in> set vs. ver_skill_id v \<noteq> i)"
proof -
  have "latest_of i vs = None \<longleftrightarrow> filter (\<lambda>v. ver_skill_id v = i) vs = []"
    by (simp add: latest_of_def split: list.splits)
  then show ?thesis by (simp add: filter_empty_conv)
qed

text \<open>Two versions promoted over the same base are the same version.\<close>

lemma latest_of_later:
  assumes "distinct (map ver_id (older @ v # between @ w # newer))" and "ver_skill_id v = i"
  shows "map_option ver_id (latest_of i (older @ v # between)) \<noteq> map_option ver_id (latest_of i older)"
proof -
  have "\<exists>x. latest_of i (older @ v # between) = Some x \<and> x \<in> set (v # between)"
  proof (cases "latest_of i between")
    case None
    then have "latest_of i (older @ v # between) = Some v"
      using assms(2) by (auto simp: latest_of_None latest_of_def filter_empty_conv split: list.splits)
    then show ?thesis by simp
  next
    case (Some y)
    then have "latest_of i (older @ v # between) = Some y"
      by (auto simp: latest_of_def split: list.splits)
    then show ?thesis using latest_of_Some [OF Some] by simp
  qed
  then obtain x where x: "latest_of i (older @ v # between) = Some x" "x \<in> set (v # between)" by blast
  show ?thesis
  proof (cases "latest_of i older")
    case (Some y)
    have "ver_id ` set older \<inter> ver_id ` set (v # between) = {}" using assms(1) by auto
    moreover have "ver_id y \<in> ver_id ` set older" "ver_id x \<in> ver_id ` set (v # between)"
      using x(2) latest_of_Some [OF Some] by blast+
    ultimately have "ver_id y \<noteq> ver_id x" by (metis disjoint_iff)
    then show ?thesis using x(1) Some by simp
  qed (simp add: x(1))
qed

lemma promoted_same_base:
  assumes ids: "distinct (map ver_id vs)" and a: "promoted vs a" and b: "promoted vs b"
    and same: "chg_skill_id b = chg_skill_id a" "chg_base_version_id b = chg_base_version_id a"
  shows "chg_content_id b = chg_content_id a"
proof -
  obtain pre v post where v: "vs = pre @ v # post" "ver_skill_id v = chg_skill_id a" "ver_content_id v = chg_content_id a"
      "chg_base_version_id a = map_option ver_id (latest_of (chg_skill_id a) pre)"
    using a by (auto simp: promoted_def)
  obtain pre' w post' where w: "vs = pre' @ w # post'" "ver_skill_id w = chg_skill_id a" "ver_content_id w = chg_content_id b"
      "chg_base_version_id a = map_option ver_id (latest_of (chg_skill_id a) pre')"
    using b same by (auto simp: promoted_def)
  from v(1) w(1) have "pre @ v # post = pre' @ w # post'" by simp
  then consider (before) us where "pre' = pre @ v # us" | (same) "pre = pre'" "v = w" | (after) us where "pre = pre' @ w # us"
    by (auto simp: append_eq_append_conv2 append_eq_Cons_conv Cons_eq_append_conv)
  then show ?thesis
  proof cases
    case before
    then show ?thesis
      using latest_of_later [of pre v us w post' "chg_skill_id a"] ids v(2,4) w(4) unfolding w(1) by simp
  next
    case same
    then show ?thesis using v(3) w(3) by simp
  next
    case after
    then show ?thesis
      using latest_of_later [of pre' w us v post "chg_skill_id a"] ids v(4) w(2,4) unfolding v(1) by simp
  qed
qed

lemma promoted_append: "promoted vs c \<Longrightarrow> promoted (vs @ [v]) c"
  unfolding promoted_def by (metis append.assoc append_Cons)

section \<open>One table at a time\<close>

lemma versions_ok_append:
  assumes "versions_ok skills now vs" and "now \<le> t" and "ver_id v = next_id ver_id vs"
    and "ver_created_at v = t" and "ver_skill_id v \<in> skills" and "version_unique v vs"
  shows "versions_ok skills t (vs @ [v])"
proof -
  have "version_rank w < version_rank v" if "w \<in> set vs" for w
    using assms(1-4) that next_id_greater [OF that, of ver_id]
    by (auto simp: versions_ok_def version_rank_def less_prod_def)
  then show ?thesis
    using assms
    by (auto simp: versions_ok_def sorted_wrt_append version_unique_def list_ex_iff intro!: rows_ok_insert)
qed

lemma versions_ok_later: "versions_ok skills now vs \<Longrightarrow> now \<le> t \<Longrightarrow> versions_ok skills t vs"
  by (auto simp: versions_ok_def)

lemma stored_later: "stored ttl now cs fs \<Longrightarrow> now \<le> t \<Longrightarrow> stored ttl t cs fs"
  by (auto simp: stored_def live_def)

lemma contents_ok_consume:
  assumes "contents_ok cs" shows "contents_ok (consume i t cs)"
  using assms by (auto simp: contents_ok_def rows_ok_def) (auto simp: consume_def split: if_splits)

lemma stored_consume:
  assumes "stored ttl t cs fs" and "\<forall>c \<in> set cs. cnt_id c = i \<longrightarrow> pending c \<and> t - hours ttl \<le> cnt_created_at c"
  shows "stored ttl t (consume i t cs) fs"
  using assms by (auto simp: stored_def consume_def live_def pending_def split: if_splits)

lemma provenance_consume:
  assumes ok: "contents_ok cs" and pr: "provenance cs vs" and c: "c \<in> set cs" "pending c" and
    v: "ver_content_id v = cnt_id c" "ver_skill_id v = cnt_skill_id c"
       "ver_version v = cnt_declared_version c" "ver_content_digest v = ''sha256:'' @ cnt_sha256 c"
  shows "provenance (consume (cnt_id c) t cs) (vs @ [v])"
proof -
  define c' where "c' = c\<lparr>cnt_state := CntConsumed, cnt_consumed_at := Some t\<rparr>"
  have rows: "x \<in> set (consume (cnt_id c) t cs) \<longleftrightarrow> x = c' \<or> x \<in> set cs \<and> x \<noteq> c" for x
  proof -
    have same: "y = c" if "y \<in> set cs" "cnt_id y = cnt_id c" for y
      using rows_ok_id_eq [OF _ that(1) c(1) that(2)] ok by (simp add: contents_ok_def)
    have "x \<in> set (consume (cnt_id c) t cs) \<longleftrightarrow> (\<exists>y \<in> set cs. x = (if y = c then c' else y))"
      using same unfolding consume_def c'_def set_map image_iff by (intro bex_cong) auto
    then show ?thesis using c(1) by auto
  qed
  have new: "sealed c' v" using v by (simp add: sealed_def c'_def)
  have old: "\<not> sealed c w" for w using c(2) by (simp add: sealed_def pending_def)
  show ?thesis
    unfolding provenance_def
  proof (intro conjI ballI impI)
    fix w
    assume w: "w \<in> set (vs @ [v])"
    show "\<exists>x \<in> set (consume (cnt_id c) t cs). sealed x w"
    proof (cases "w = v")
      case False
      with w pr obtain x where "x \<in> set cs" "sealed x w" by (auto simp: provenance_def)
      moreover from this old have "x \<noteq> c" by blast
      ultimately show ?thesis using rows by blast
    qed (use new rows in blast)
  next
    fix x
    assume "x \<in> set (consume (cnt_id c) t cs)" "cnt_state x = CntConsumed"
    then show "\<exists>w \<in> set (vs @ [v]). sealed x w" using new pr unfolding rows by (auto simp: provenance_def)
  qed
qed

lemma provenance_pending:
  assumes "provenance cs vs" and "\<And>c. c \<in> set cs \<Longrightarrow> cnt_state c = CntConsumed \<Longrightarrow> c \<in> set cs'"
    and "\<And>c. c \<in> set cs' \<Longrightarrow> cnt_state c = CntConsumed \<Longrightarrow> c \<in> set cs"
  shows "provenance cs' vs"
  using assms by (fastforce simp: provenance_def sealed_def)

lemma quota_ok_fewer:
  assumes "quota_ok limits cs" and "cs' = map f cs"
    and "\<And>c. c \<in> set cs \<Longrightarrow> cnt_size_bytes (f c) = cnt_size_bytes c \<and> cnt_skill_id (f c) = cnt_skill_id c \<and>
           cnt_created_by (f c) = cnt_created_by c \<and> (pending (f c) \<longrightarrow> pending c)"
  shows "quota_ok limits cs'"
proof -
  have count: "length (filter (\<lambda>c. cnt_skill_id c = i \<and> pending c) (map f xs)) \<le>
        length (filter (\<lambda>c. cnt_skill_id c = i \<and> pending c) xs)" if "set xs \<subseteq> set cs" for i xs
    using that assms(3) by (induction xs) auto
  have bytes: "sum_list (map cnt_size_bytes (filter (\<lambda>c. cnt_created_by c = p \<and> pending c) (map f xs))) \<le>
        sum_list (map cnt_size_bytes (filter (\<lambda>c. cnt_created_by c = p \<and> pending c) xs))"
    if "set xs \<subseteq> set cs" for p xs
    using that
  proof (induction xs)
    case (Cons x xs)
    moreover have "0 \<le> cnt_size_bytes x" using Cons.prems assms(1) by (auto simp: quota_ok_def)
    ultimately show ?case using assms(3) [of x] by auto
  qed simp
  have "int (length (filter (\<lambda>c. cnt_skill_id c = i \<and> pending c) cs')) \<le> max 0 (lim_pending_per_skill limits)" for i
  proof -
    have "int (length (filter (\<lambda>c. cnt_skill_id c = i \<and> pending c) cs)) \<le> max 0 (lim_pending_per_skill limits)"
      using assms(1) by (simp add: quota_ok_def)
    then show ?thesis using count [OF subset_refl, of i] unfolding assms(2) by linarith
  qed
  moreover have "sum_list (map cnt_size_bytes (filter (\<lambda>c. cnt_created_by c = p \<and> pending c) cs')) \<le>
        max 0 (lim_pending_bytes limits)" for p
  proof -
    have "sum_list (map cnt_size_bytes (filter (\<lambda>c. cnt_created_by c = p \<and> pending c) cs)) \<le>
        max 0 (lim_pending_bytes limits)"
      using assms(1) by (simp add: quota_ok_def)
    then show ?thesis using bytes [OF subset_refl, of p] unfolding assms(2) by linarith
  qed
  moreover have "\<forall>c \<in> set cs'. 0 \<le> cnt_size_bytes c"
    using assms by (auto simp: quota_ok_def)
  ultimately show ?thesis by (simp add: quota_ok_def)
qed

lemma quota_ok_expire:
  assumes "quota_ok limits cs" shows "quota_ok limits (expire ids cs)"
  by (rule quota_ok_fewer [OF assms expire_def]) (auto simp: pending_def)

lemma quota_ok_consume:
  assumes "quota_ok limits cs" shows "quota_ok limits (consume i t cs)"
  by (rule quota_ok_fewer [OF assms consume_def]) (auto simp: pending_def)

lemma marked_append:
  assumes "marked ss vs" and "ver_skill_id v = i"
  shows "marked (set_marker i (Some (ver_content_digest v)) ss) (vs @ [v])"
  unfolding marked_def
proof (intro conjI ballI)
  show "rows_ok skl_id (set_marker i (Some (ver_content_digest v)) ss)"
    using assms(1) by (simp add: marked_def rows_ok_def)
  fix s
  assume "s \<in> set (set_marker i (Some (ver_content_digest v)) ss)"
  then obtain x where x: "x \<in> set ss"
      "s = (if skl_id x = i then x\<lparr>skl_latest_digest := Some (ver_content_digest v)\<rparr> else x)"
    by (auto simp: set_marker_def)
  then show "skl_latest_digest s = map_option ver_content_digest (latest_of (skl_id s) (vs @ [v]))"
    using assms by (simp add: marked_def)
qed

lemma marked_new_skill:
  assumes "marked ss vs" and "versions_ok (skl_id ` set ss) now vs" and "skl_id s = next_id skl_id ss"
    and "skl_latest_digest s = None"
  shows "marked (ss @ [s]) vs"
proof -
  have "latest_of (skl_id s) vs = None"
    using assms(2,3) next_id_greater [of _ ss skl_id] by (fastforce simp: latest_of_None versions_ok_def)
  then show ?thesis using assms by (auto simp: marked_def intro!: rows_ok_insert)
qed

lemma change_sets_ok_append:
  "change_sets_ok gs vs \<Longrightarrow> change_sets_ok gs (vs @ [v])"
  by (auto simp: change_sets_ok_def promoted_append)

lemma change_sets_ok_new:
  assumes "change_sets_ok gs vs" and "chg_id x = next_id chg_id gs" and "chg_state x = CsOpen"
    and "change_set_unique x gs"
  shows "change_sets_ok (gs @ [x]) vs"
  using assms by (auto simp: change_sets_ok_def change_set_unique_def list_ex_iff intro!: rows_ok_insert)

lemma change_sets_ok_set:
  assumes "change_sets_ok gs vs" and "c \<in> set gs" and "chg_id x = chg_id c"
    and "chg_public_id x = chg_public_id c" and "chg_content_id x = chg_content_id c" and "chg_state x \<noteq> CsAccepted"
  shows "change_sets_ok (row_set chg_id x gs) vs"
proof -
  have r: "rows_ok chg_id gs" using assms(1) by (simp add: change_sets_ok_def)
  show ?thesis
    using assms row_set_map [OF r assms(2,3), of chg_public_id] row_set_map [OF r assms(2,3), of chg_content_id]
      set_row_set [of chg_id x gs] rows_ok_set [OF r, of x]
    by (auto simp: change_sets_ok_def)
qed

lemma change_sets_ok_decide:
  assumes ok: "change_sets_ok gs vs" and c: "c \<in> set gs" "chg_skill_id c = i"
    and "ver_skill_id v = i" and "ver_version v = chg_proposed_version c"
    and "ver_content_id v = chg_content_id c" and "chg_base_version_id c = map_option ver_id (latest_of i vs)"
  shows "change_sets_ok (map (decide i (chg_id c) t) gs) (vs @ [v])"
proof -
  have new: "promoted (vs @ [v]) c"
    unfolding promoted_def using assms by (intro exI [of _ vs] exI [of _ v] exI [of _ "[]"]) simp
  have "promoted (vs @ [v]) (decide i (chg_id c) t x)"
    if x: "x \<in> set gs" "chg_state (decide i (chg_id c) t x) = CsAccepted" for x
  proof (cases "chg_id x = chg_id c")
    case True
    with ok c(1) x(1) have "x = c" by (auto simp: change_sets_ok_def dest: rows_ok_id_eq)
    with new show ?thesis by (simp add: promoted_def)
  next
    case False
    with x have "chg_state x = CsAccepted" "decide i (chg_id c) t x = x"
      by (auto simp: decide_def superseded_def split: if_splits)
    with ok x(1) show ?thesis by (simp add: change_sets_ok_def promoted_append)
  qed
  then show ?thesis using ok by (auto simp: change_sets_ok_def rows_ok_def comp_def)
qed

lemma lineage_ok_new:
  assumes "lineage_ok xs vs" and "dsp_id x = next_id dsp_id xs"
    and "\<exists>v \<in> set vs. dsp_version_id x = ver_id v \<and> ver_skill_id v = dsp_skill_id x"
    and "\<forall>i. dsp_parent_id x = Some i \<longrightarrow> (\<exists>y \<in> set xs. dsp_id y = i \<and> dsp_skill_id y = dsp_skill_id x \<and>
           dsp_schema_version y \<le> dsp_schema_version x)"
  shows "lineage_ok (xs @ [x]) vs"
  using assms next_id_greater [of _ xs dsp_id] unfolding lineage_ok_def
  by (auto simp: rows_ok_insert)

lemma lineage_ok_append: "lineage_ok xs vs \<Longrightarrow> lineage_ok xs (vs @ [v])"
  by (fastforce simp: lineage_ok_def)

section \<open>Every step keeps the invariant\<close>

lemma create_skill_effect:
  assumes "create_skill n p req a d = Inr (s, d')"
  shows "\<exists>evs. d' = d\<lparr>db_skills := db_skills d @ [s], db_audit := evs\<rparr> \<and>
     skl_id s = next_id skl_id (db_skills d) \<and> skl_latest_digest s = None"
  using assms by (auto simp: create_skill_def res_simps Let_def append_audit_event_def)

lemma archive_effect:
  assumes "archive_skill i p m a d = Inr (s, d')"
  shows "d' = d \<or> (\<exists>x evs. x \<in> set (db_skills d) \<and> s = x\<lparr>skl_status := SkillArchived\<rparr> \<and>
     d' = d\<lparr>db_skills := row_set skl_id s (db_skills d), db_audit := evs\<rparr>)"
  using assms
  by (auto simp: archive_skill_def get_skill_or_404_def res_simps Let_def append_audit_event_def put_skill_def
        dest: row_get_Some split: if_splits)

lemma authoring_later: "authoring_ok limits (d, fs, now) \<Longrightarrow> now \<le> t \<Longrightarrow> authoring_ok limits (d, fs, t)"
  by (auto simp: authoring_ok_def versions_ok_later stored_later)

lemma version_step:
  assumes ok: "authoring_ok limits (d, fs, t)"
    and c: "create_skill_version_snapshot sha i p m version cid (lim_ttl_hours limits) a e t d = Inr (v, d')"
  shows "authoring_ok limits (d', fs, t)"
proof -
  have cok: "contents_ok (db_contents d)" using ok by (simp add: authoring_ok_def)
  obtain c evs where c: "c \<in> set (db_contents d)" "pending c" "cnt_skill_id c = i"
      "cnt_declared_version c = version" "t - hours (lim_ttl_hours limits) \<le> cnt_created_at c" and
    s: "\<exists>s. row_get skl_id (db_skills d) i = Some s" and
    v: "ver_id v = next_id ver_id (db_versions d)" "ver_skill_id v = i" "ver_content_id v = cnt_id c"
      "ver_version v = version" "ver_content_digest v = ''sha256:'' @ cnt_sha256 c" "ver_created_at v = t"
      "version_unique v (db_versions d)" and
    d': "d' = d\<lparr>db_skills := set_marker i (Some (ver_content_digest v)) (db_skills d),
            db_contents := consume (cnt_id c) t (db_contents d),
            db_versions := db_versions d @ [v], db_audit := evs\<rparr>"
    using create_version_effect [OF c cok] by blast
  obtain s0 where s0: "row_get skl_id (db_skills d) i = Some s0" using s by blast
  have "ver_skill_id v \<in> skl_id ` set (db_skills d)" using row_get_Some [OF s0] v(2) imageI [of s0] by metis
  then have "versions_ok (skl_id ` set (db_skills d)) t (db_versions d @ [v])"
    using versions_ok_append [of _ t "db_versions d" t v] ok v by (simp add: authoring_ok_def)
  moreover have "skl_id ` set (set_marker i (Some (ver_content_digest v)) (db_skills d)) = skl_id ` set (db_skills d)"
    unfolding set_map [symmetric] by simp
  moreover have "stored (lim_ttl_hours limits) t (consume (cnt_id c) t (db_contents d)) fs"
  proof (rule stored_consume)
    show "\<forall>x \<in> set (db_contents d). cnt_id x = cnt_id c \<longrightarrow> pending x \<and>
        t - hours (lim_ttl_hours limits) \<le> cnt_created_at x"
      using rows_ok_id_eq [of cnt_id "db_contents d" _ c] c cok unfolding contents_ok_def by blast
  qed (use ok in \<open>simp add: authoring_ok_def\<close>)
  moreover have "provenance (consume (cnt_id c) t (db_contents d)) (db_versions d @ [v])"
    using provenance_consume [OF cok _ c(1,2) v(3)] ok c v by (simp add: authoring_ok_def)
  ultimately show ?thesis
    using ok unfolding d'
    by (simp add: authoring_ok_def contents_ok_consume quota_ok_consume marked_append v(2)
          change_sets_ok_append lineage_ok_append)
qed

lemma accept_step:
  assumes ok: "authoring_ok limits (d, fs, t)"
    and acc: "accept_change_set sha i pid p m digest (lim_ttl_hours limits) a t d = Inr (r, d')"
  shows "authoring_ok limits (d', fs, t)"
proof -
  have cok: "contents_ok (db_contents d)" and gok: "rows_ok chg_id (db_change_sets d)"
    using ok by (simp_all add: authoring_ok_def change_sets_ok_def)
  obtain x v where r: "r = (x, v)" by (cases r)
  obtain c y d1 evs where c: "c \<in> set (db_change_sets d)" "chg_skill_id c = i"
      "chg_base_version_id c = map_option ver_id (get_latest_skill_version i d)" and
    y: "row_get cnt_id (db_contents d) (chg_content_id c) = Some y" and
    v: "create_skill_version_snapshot sha i p m (chg_proposed_version c) (cnt_public_id y) (lim_ttl_hours limits)
          (Some a) (Some digest) t d = Inr (v, d1)" and
    d': "d' = d1\<lparr>db_change_sets := map (decide i (chg_id c) t) (db_change_sets d), db_audit := evs\<rparr>"
    using accept_effect [OF acc [unfolded r] cok gok] by blast
  obtain z evs1 where z: "z \<in> set (db_contents d)" "cnt_public_id z = cnt_public_id y" and
    w: "ver_skill_id v = i" "ver_content_id v = cnt_id z" "ver_version v = chg_proposed_version c" and
    d1: "db_versions d1 = db_versions d @ [v]" "db_change_sets d1 = db_change_sets d"
    using create_version_effect [OF v cok] by auto
  have "z = y"
    using distinct_map_eq [of cnt_public_id "db_contents d" z y] z cok row_get_Some [OF y] by (simp add: contents_ok_def)
  then have "ver_content_id v = chg_content_id c" using w(2) row_get_Some [OF y] by simp
  moreover have "chg_base_version_id c = map_option ver_id (latest_of i (db_versions d))"
    using c(3) get_latest [of _ t d] ok unfolding authoring_ok_def by auto
  ultimately have "change_sets_ok (map (decide i (chg_id c) t) (db_change_sets d)) (db_versions d1)"
    using change_sets_ok_decide [of _ _ c i v t] c w ok d1 by (simp add: authoring_ok_def)
  with version_step [OF ok v] show ?thesis
    unfolding d' by (simp add: authoring_ok_def)
qed

lemma prune_step:
  assumes ok: "authoring_ok limits (d, fs, t)"
    and pr: "prune_expired_skill_contents (lim_ttl_hours limits) n p t d fs = (x, d', fs')"
  shows "authoring_ok limits (d', fs', t) \<and> authoring_ok limits (d, fs', t)"
proof -
  have cok: "contents_ok (db_contents d)" and st: "stored (lim_ttl_hours limits) t (db_contents d) fs"
    using ok by (simp_all add: authoring_ok_def)
  obtain ids where d': "d' = d\<lparr>db_contents := expire ids (db_contents d)\<rparr>" and
    ids: "\<forall>c \<in> set (db_contents d). cnt_id c \<in> ids \<longrightarrow> pending c \<and> \<not> live (lim_ttl_hours limits) t c" and
    keep: "\<forall>c \<in> set (db_contents d'). cnt_state c \<noteq> CntExpired \<longrightarrow> cnt_storage_uri c \<in> set fs \<longrightarrow>
        cnt_storage_uri c \<in> set fs'"
    using prune_effect [OF pr cok] by blast
  have st': "stored (lim_ttl_hours limits) t (expire ids (db_contents d)) fs'"
    using stored_expire [OF st, of ids fs'] keep by (simp add: d')
  have "provenance (expire ids (db_contents d)) (db_versions d)"
  proof (rule provenance_pending)
    show "provenance (db_contents d) (db_versions d)" using ok by (simp add: authoring_ok_def)
  qed (use ids in \<open>force simp: expire_def pending_def split: if_splits\<close>)+
  then have "authoring_ok limits (d', fs', t)"
    using ok st' expire_contents_ok [OF cok, of ids] ids
    by (simp add: authoring_ok_def d' quota_ok_expire)
  moreover have "authoring_ok limits (d, fs', t)"
    using ok stored_rollback [OF st'] ids by (simp add: authoring_ok_def)
  ultimately show ?thesis ..
qed

lemma upload_step:
  assumes ok: "authoring_ok limits (d, fs, t)" and hex: "hex_digest sha"
    and up: "upload_request lib sha token limits i p m raw a t (d, fs) = (d', fs')"
  shows "authoring_ok limits (d', fs', t)"
proof -
  obtain r fs2 where u: "upload_skill_content lib sha token limits i p m raw a t d fs = (r, fs2)"
    by (cases "upload_skill_content lib sha token limits i p m raw a t d fs")
  have cok: "contents_ok (db_contents d)" and st: "stored (lim_ttl_hours limits) t (db_contents d) fs"
    using ok by (simp_all add: authoring_ok_def)
  note effect = upload_effect [OF u cok st hex]
  show ?thesis
  proof (cases r)
    case (Inl e)
    with u up have "d' = d" "fs' = fs2" by (simp_all add: upload_request_def)
    with ok effect show ?thesis by (simp add: authoring_ok_def)
  next
    case (Inr y)
    obtain c d1 where y: "y = (c, d1)" by (cases y)
    with u up Inr have e: "d' = d1" "fs' = fs2" by (simp_all add: upload_request_def)
    obtain ids evs where d': "d' = d\<lparr>db_contents := expire ids (db_contents d) @ [c], db_audit := evs\<rparr>" and
      ids: "\<forall>x \<in> set (db_contents d). cnt_id x \<in> ids \<longrightarrow> pending x \<and> \<not> live (lim_ttl_hours limits) t x" and
      c: "pending c" "0 \<le> cnt_size_bytes c" "cnt_skill_id c = i" "cnt_created_by c = p"
         "cnt_id c = next_id cnt_id (db_contents d)" "object_name (cnt_storage_uri c)"
         "\<forall>x \<in> set (db_contents d). cnt_public_id x \<noteq> cnt_public_id c" and
      few: "int (length (filter (\<lambda>x. cnt_skill_id x = i \<and> pending x) (db_contents d'))) \<le>
              lim_pending_per_skill limits"
           "sum_list (map cnt_size_bytes (filter (\<lambda>x. cnt_created_by x = p \<and> pending x) (db_contents d'))) \<le>
              lim_pending_bytes limits" and
      st': "stored (lim_ttl_hours limits) t (db_contents d') fs2"
      using effect unfolding Inr y e(1) by blast
    have cok1: "contents_ok (expire ids (db_contents d))" using expire_contents_ok [OF cok] ids by blast
    have "\<forall>x \<in> set (db_contents d). cnt_id x < cnt_id c"
      using c(5) next_id_greater [of _ "db_contents d" cnt_id] by simp
    then have "cnt_id c \<notin> cnt_id ` set (db_contents d)" "cnt_public_id c \<notin> cnt_public_id ` set (db_contents d)"
      using c(7) by auto
    then have cok': "contents_ok (db_contents d')"
      using cok1 c by (auto simp: d' contents_ok_def rows_ok_def pending_def)
    have q1: "quota_ok limits (expire ids (db_contents d))"
      using ok by (simp add: authoring_ok_def quota_ok_expire)
    then have "quota_ok limits (db_contents d')"
      using few c(1-4) unfolding quota_ok_def d' by auto
    moreover have "provenance (db_contents d') (db_versions d)"
    proof (rule provenance_pending)
      show "provenance (db_contents d) (db_versions d)" using ok by (simp add: authoring_ok_def)
    qed (use ids c(1) in \<open>force simp: d' expire_def pending_def split: if_splits\<close>)+
    ultimately show ?thesis
      using ok cok' st' e(2) by (simp add: authoring_ok_def d')
  qed
qed

lemma authoring_step:
  assumes "author_step lib sha limits s s'" and "hex_digest sha" and "authoring_ok limits s"
  shows "authoring_ok limits s'"
  using assms
proof (induction rule: author_step.induct)
  case (skill_created n p req a d s d' now t fs)
  obtain evs where e: "d' = d\<lparr>db_skills := db_skills d @ [s], db_audit := evs\<rparr>"
      "skl_id s = next_id skl_id (db_skills d)" "skl_latest_digest s = None"
    using create_skill_effect [OF skill_created.hyps(1)] by blast
  have "marked (db_skills d @ [s]) (db_versions d)"
    using marked_new_skill [of _ _ now s] skill_created.prems(2) e by (simp add: authoring_ok_def)
  moreover have "versions_ok (insert (skl_id s) (skl_id ` set (db_skills d))) t (db_versions d)"
    using skill_created by (auto simp: authoring_ok_def versions_ok_def)
  ultimately show ?case
    using authoring_later [OF skill_created.prems(2) skill_created.hyps(2)] by (simp add: authoring_ok_def e(1))
next
  case (skill_archived i p m a d s d' now t fs)
  note later = authoring_later [OF skill_archived.prems(2) skill_archived.hyps(2)]
  show ?case
    using archive_effect [OF skill_archived.hyps(1)]
  proof (elim disjE exE conjE)
    fix x evs
    assume x: "x \<in> set (db_skills d)" "s = x\<lparr>skl_status := SkillArchived\<rparr>"
      "d' = d\<lparr>db_skills := row_set skl_id s (db_skills d), db_audit := evs\<rparr>"
    have r: "rows_ok skl_id (db_skills d)" using later by (simp add: authoring_ok_def marked_def)
    have "marked (row_set skl_id s (db_skills d)) (db_versions d)"
      using later x(1,2) rows_ok_set [OF r, of s] in_row_set [OF r x(1), of s]
      by (auto simp: authoring_ok_def marked_def)
    then show ?thesis using later by (simp add: x(3) authoring_ok_def row_set_same_ids)
  qed (use later in simp)
next
  case (content_uploaded token i p m raw a t d fs d' fs' now)
  then show ?case using upload_step authoring_later by blast
next
  case (contents_pruned limit p t d fs x d' fs' now)
  then show ?case using prune_step authoring_later by blast
next
  case (prune_lost limit p t d fs x d' fs' now)
  then show ?case using prune_step authoring_later by blast
next
  case (version_created i p m version content_id a expected t d v d' now fs)
  then show ?case using version_step authoring_later by blast
next
  case (change_created token i p m csreq actor t d c d' now fs)
  obtain evs where "d' = d\<lparr>db_change_sets := db_change_sets d @ [c], db_audit := evs\<rparr>"
      "chg_id c = next_id chg_id (db_change_sets d)" "chg_state c = CsOpen" "change_set_unique c (db_change_sets d)"
    using create_change_set_effect [OF change_created.hyps(1)] by blast
  then show ?case
    using authoring_later [OF change_created.prems(2) change_created.hyps(2)]
    by (simp add: authoring_ok_def change_sets_ok_new)
next
  case (change_submitted i pid p m actor t d x d' now fs)
  obtain c evs where "c \<in> set (db_change_sets d)" "x = c\<lparr>chg_state := CsSubmitted, chg_submitted_at := Some t\<rparr>"
      "d' = d\<lparr>db_change_sets := row_set chg_id x (db_change_sets d), db_audit := evs\<rparr>"
    using submit_effect [OF change_submitted.hyps(1)] by blast
  then show ?case
    using authoring_later [OF change_submitted.prems(2) change_submitted.hyps(2)]
      change_sets_ok_set [of "db_change_sets d" "db_versions d" c x]
    by (simp add: authoring_ok_def)
next
  case (change_rejected i pid p m actor t d x d' now fs)
  obtain c evs where "c \<in> set (db_change_sets d)" "x = c\<lparr>chg_state := CsRejected, chg_decided_at := Some t\<rparr>"
      "d' = d\<lparr>db_change_sets := row_set chg_id x (db_change_sets d), db_audit := evs\<rparr>"
    using reject_effect [OF change_rejected.hyps(1)] by blast
  then show ?case
    using authoring_later [OF change_rejected.prems(2) change_rejected.hyps(2)]
      change_sets_ok_set [of "db_change_sets d" "db_versions d" c x]
    by (simp add: authoring_ok_def)
next
  case (change_accepted i pid p m digest actor t d r d' now fs)
  then show ?case using accept_step authoring_later by blast
next
  case (snapshot_registered token i p m snreq actor t d n d' now fs)
  obtain evs where "d' = d\<lparr>db_snapshots := db_snapshots d @ [n], db_audit := evs\<rparr>"
    and "lineage_ok (db_snapshots d @ [n]) (db_versions d)"
    using snapshot_effect [OF snapshot_registered.hyps(1)] snapshot_registered.prems(2)
    by (auto simp: authoring_ok_def intro!: lineage_ok_new)
  then show ?case
    using authoring_later [OF snapshot_registered.prems(2) snapshot_registered.hyps(2)]
    by (simp add: authoring_ok_def)
next
  case (elsewhere d' d fs fs' now t)
  then show ?case
    using authoring_later [of limits d fs now t] by (auto simp: authoring_ok_def stored_def)
qed

definition fresh_start :: "author_state \<Rightarrow> bool" where
  "fresh_start = (\<lambda>(d, fs, now). db_skills d = [] \<and> db_contents d = [] \<and> db_versions d = [] \<and>
     db_change_sets d = [] \<and> db_snapshots d = [])"

lemma authoring_reachable:
  assumes "(author_step lib sha limits)\<^sup>*\<^sup>* s0 s" and "fresh_start s0" and "hex_digest sha"
  shows "authoring_ok limits s"
  using assms(1)
proof (induction rule: rtranclp_induct)
  case base
  show ?case
    using assms(2)
    by (auto simp: fresh_start_def authoring_ok_def contents_ok_def stored_def quota_ok_def versions_ok_def
        provenance_def marked_def change_sets_ok_def lineage_ok_def)
next
  case (step s s')
  then show ?case using authoring_step assms(3) by blast
qed

section \<open>A run\<close>

definition draft_db :: db where
  "draft_db = sample_db\<lparr>db_skills := [], db_versions := [], db_releases := []\<rparr>"

definition draft_limits :: content_limits where
  "draft_limits = \<lparr>lim_ttl_hours = 24, lim_pending_per_skill = 5, lim_pending_bytes = 1000\<rparr>"

definition draft_sha :: "string \<Rightarrow> string" where
  "draft_sha x = (if x = ''canonical'' then ''c1'' else ''c2'')"

definition draft_skill :: "skill svc" where
  "draft_skill = create_skill 1 1 \<lparr>skq_slug = ''demo'', skq_display_name = ''Demo'', skq_summary = [],
     skq_visibility = None\<rparr> None draft_db"

definition draft_content :: skill_content where
  "draft_content = new_content draft_sha ''cnt_t1'' 1 1 demo_bundle 10 (db_after draft_skill)"

definition draft_uploaded :: db where
  "draft_uploaded = append_content_uploaded (result_of draft_skill) draft_content 1 None
     (db_after draft_skill\<lparr>db_contents := [draft_content]\<rparr>)"

definition draft_files :: files where
  "draft_files = put_bytes draft_sha ''canonical'' ''version-content/cnt_t1/skill.tar.gz'' []"

definition draft_change :: "change_set svc" where
  "draft_change = create_change_set ''t2'' 1 1 False
     \<lparr>csq_base = None, csq_content_id = ''cnt_t1'', csq_version = ''1.0.0''\<rparr> (lim_ttl_hours draft_limits)
     (sample_actor 1 ''alice'') 20 draft_uploaded"

definition draft_submitted :: "change_set svc" where
  "draft_submitted = submit_change_set 1 ''chg_t2'' 1 False (sample_actor 1 ''alice'') 30 (db_after draft_change)"

definition draft_accepted :: "(change_set \<times> skill_version) svc" where
  "draft_accepted = accept_change_set draft_sha 1 ''chg_t2'' 1 False None (lim_ttl_hours draft_limits)
     (sample_actor 1 ''alice'') 40 (db_after draft_submitted)"

lemma draft_checks:
  "succeeded draft_skill" "succeeded draft_change" "succeeded draft_submitted" "succeeded draft_accepted"
  "upload_allowed 1 1 False (db_after draft_skill) = Inr (result_of draft_skill)"
  "db_contents (db_after draft_skill) = []"
  "skl_slug (result_of draft_skill) = ''demo''" "skl_id (result_of draft_skill) = 1"
  "map_option prn_slug (row_get prn_id (db_principals (db_after draft_skill)) (skl_namespace_id (result_of draft_skill))) =
     Some ''alice''"
  "validate_hosted_skill_identity (bun_metadata demo_bundle) ''alice'' ''demo'' = Inr ()"
  "assert_pending_content_quota 1 1 (int (length (bun_data demo_bundle))) 5 1000 (db_after draft_skill) = Inr ()"
  by code_simp+

lemma draft_upload:
  "upload_request demo_lib draft_sha ''t1'' draft_limits 1 1 False ''up'' None 10 (db_after draft_skill, []) =
     (draft_uploaded, draft_files)"
proof -
  have b: "accepted_bundle demo_lib draft_limits (result_of draft_skill) 1 ''up'' (db_after draft_skill) = Inr demo_bundle"
    using draft_checks(9-11)
    by (auto simp: accepted_bundle_def draft_checks(7,8) demo_computed(2) draft_limits_def)
  have p: "prune_expired_skill_contents n l (Some 1) 10 (db_after draft_skill) [] =
      (\<lparr>prn_expired = 0, prn_paths = 0, prn_objects = 0\<rparr>, db_after draft_skill, [])" for n l
    by (simp add: prune_expired_skill_contents_def list_expired_skill_contents_def draft_checks(6))
  show ?thesis
    by (simp add: upload_request_def upload_skill_content_def draft_checks(5,6,8) p b create_skill_content_def
          draft_uploaded_def draft_content_def draft_files_def public_dir_def demo_bundle_def Let_def)
qed

lemma draft_run:
  "(author_step demo_lib draft_sha draft_limits)\<^sup>*\<^sup>* (draft_db, [], 0) (db_after draft_accepted, draft_files, 40)"
proof -
  let ?R = "author_step demo_lib draft_sha draft_limits"
  have "?R (draft_db, [], 0) (db_after draft_skill, [], 5)"
    by (rule skill_created [OF trans [OF draft_skill_def [symmetric] succeededD [OF draft_checks(1)]]]) simp
  moreover have "?R (db_after draft_skill, [], 5) (draft_uploaded, draft_files, 10)"
    by (rule content_uploaded [OF draft_upload]) simp
  moreover have "?R (draft_uploaded, draft_files, 10) (db_after draft_change, draft_files, 20)"
    by (rule change_created [OF trans [OF draft_change_def [symmetric] succeededD [OF draft_checks(2)]]]) simp
  moreover have "?R (db_after draft_change, draft_files, 20) (db_after draft_submitted, draft_files, 30)"
    by (rule change_submitted [OF trans [OF draft_submitted_def [symmetric] succeededD [OF draft_checks(3)]]]) simp
  moreover have "?R (db_after draft_submitted, draft_files, 30) (db_after draft_accepted, draft_files, 40)"
    by (rule change_accepted [OF trans [OF draft_accepted_def [symmetric] succeededD [OF draft_checks(4)]]]) simp
  ultimately show ?thesis by (meson converse_rtranclp_into_rtranclp rtranclp.rtrancl_refl)
qed

section \<open>Properties\<close>


lemma draft_start: "fresh_start (draft_db, [], 0)" "hex_digest draft_sha"
  by (simp_all add: fresh_start_def draft_db_def sample_db_def empty_db_def hex_digest_def draft_sha_def)

lemma draft_result:
  "map ver_content_digest (db_versions (db_after draft_accepted)) = [''sha256:c1'']"
  "map chg_state (db_change_sets (db_after draft_accepted)) = [CsAccepted]"
  "map chg_base_version_id (db_change_sets (db_after draft_accepted)) = [None]"
  "map cnt_storage_uri (db_contents (db_after draft_accepted)) = [''objects/sha256/c1'']"
  "map cnt_state (db_contents (db_after draft_accepted)) = [CntConsumed]"
  by code_simp+


text \<open>C28. Accepted change sets are serial.  In every reachable state the version of an accepted change
  set is the one that follows its base: in the history of versions the change set's content and
  proposed version were published when the newest version of the skill was exactly the base the
  change set names (none for a first version), so two accepted change sets of a skill with the
  same base are the same change set and no accepted change was written over unseen.\<close>

theorem accepted_changes_serial:
  assumes "(author_step lib sha256_hex limits)\<^sup>*\<^sup>* s0 (d, fs, now)" and "fresh_start s0"
    and "hex_digest sha256_hex" and "a \<in> set (db_change_sets d)" and "chg_state a = CsAccepted"
  shows "(\<exists>older v newer. db_versions d = older @ v # newer \<and> ver_skill_id v = chg_skill_id a \<and>
            ver_version v = chg_proposed_version a \<and> ver_content_id v = chg_content_id a \<and>
            chg_base_version_id a = map_option ver_id (latest_of (chg_skill_id a) older)) \<and>
         (\<forall>b \<in> set (db_change_sets d). chg_state b = CsAccepted \<and> chg_skill_id b = chg_skill_id a \<and>
            chg_base_version_id b = chg_base_version_id a \<longrightarrow> b = a)"
proof -
  have ok: "authoring_ok limits (d, fs, now)" by (rule authoring_reachable [OF assms(1-3)])
  then have gok: "change_sets_ok (db_change_sets d) (db_versions d)" and ids: "distinct (map ver_id (db_versions d))"
    by (simp_all add: authoring_ok_def versions_ok_def rows_ok_def)
  have pa: "promoted (db_versions d) a" using gok assms(4,5) by (simp add: change_sets_ok_def)
  have "b = a" if b: "b \<in> set (db_change_sets d)" "chg_state b = CsAccepted" "chg_skill_id b = chg_skill_id a"
      "chg_base_version_id b = chg_base_version_id a" for b
  proof -
    have "promoted (db_versions d) b" using gok b(1,2) by (simp add: change_sets_ok_def)
    then have "chg_content_id b = chg_content_id a" using promoted_same_base [OF ids pa] b(3,4) by simp
    then show ?thesis
      using gok distinct_map_eq [of chg_content_id "db_change_sets d" b a] b(1) assms(4)
      by (simp add: change_sets_ok_def)
  qed
  then show ?thesis using pa by (auto simp: promoted_def)
qed

lemma accepted_changes_serial_witness:
  "\<exists>a older v newer. db_change_sets (db_after draft_accepted) = [a] \<and>
     db_versions (db_after draft_accepted) = older @ v # newer \<and> ver_version v = chg_proposed_version a \<and>
     latest_of (chg_skill_id a) older = None"
proof -
  obtain a where "db_change_sets (db_after draft_accepted) = [a]" "chg_state a = CsAccepted"
      "chg_base_version_id a = None"
    using draft_result(2,3) by (auto simp: map_eq_Cons_conv)
  with accepted_changes_serial [OF draft_run draft_start, of a] show ?thesis by fastforce
qed



text \<open>
  What else the invariant gives: the quotas of pending contents are never exceeded, and the
  parent of a data snapshot is an older snapshot of the same skill with no newer schema, so that
  following parents ends.
\<close>

lemma pending_within_limits:
  assumes "(author_step lib sha256_hex limits)\<^sup>*\<^sup>* s0 (d, fs, now)" and "fresh_start s0"
    and "hex_digest sha256_hex"
  shows "fst (pending_content_usage i p d) \<le> max 0 (lim_pending_per_skill limits) \<and>
         snd (pending_content_usage i p d) \<le> max 0 (lim_pending_bytes limits)"
  using authoring_reachable [OF assms] by (simp add: authoring_ok_def quota_ok_def pending_content_usage_def)

lemma snapshot_lineage:
  assumes "(author_step lib sha256_hex limits)\<^sup>*\<^sup>* s0 (d, fs, now)" and "fresh_start s0"
    and "hex_digest sha256_hex" and "x \<in> set (db_snapshots d)" and "dsp_parent_id x = Some i"
  shows "\<exists>y \<in> set (db_snapshots d). dsp_id y = i \<and> i < dsp_id x \<and> dsp_skill_id y = dsp_skill_id x \<and>
           dsp_schema_version y \<le> dsp_schema_version x"
  using authoring_reachable [OF assms(1-3)] assms(4,5) by (simp add: authoring_ok_def lineage_ok_def)

end
