(* ===== verification/Disk.thy ===== *)
theory Disk
  imports TeamPolicy
begin

text \<open>
  Files and absolute paths as \<open>pathlib\<close> resolves them, without symbolic links; the equality of
  decoded JSON values; archives as the client reads them.  A path is the list of its components
  from the file-system root, a disk the list of its regular files.  Bytes are characters.
\<close>

section \<open>Paths\<close>

type_synonym abs_path = "string list"
type_synonym disk = "(abs_path \<times> string) list"

fun resolve_from :: "abs_path \<Rightarrow> string list \<Rightarrow> abs_path" where
  "resolve_from base [] = base"
| "resolve_from base (c # cs) =
     (if c = [] \<or> c = ''.'' then resolve_from base cs
      else if c = ''..'' then resolve_from (butlast base) cs
      else resolve_from (base @ [c]) cs)"

definition is_absolute :: "string \<Rightarrow> bool" where
  "is_absolute ref \<longleftrightarrow> starts_with ''/'' ref"

text \<open>\<open>(base / ref).resolve()\<close>\<close>

definition under :: "abs_path \<Rightarrow> string \<Rightarrow> abs_path" where
  "under base ref = resolve_from (if is_absolute ref then [] else base) (split_on (CHR ''/'') ref)"

definition path_text :: "abs_path \<Rightarrow> string" where
  "path_text p = ''/'' @ join ''/'' p"

definition is_relative_to :: "abs_path \<Rightarrow> abs_path \<Rightarrow> bool" where
  "is_relative_to p root \<longleftrightarrow> take (length root) p = root"

definition relative_text :: "abs_path \<Rightarrow> string" where
  "relative_text rel = (if rel = [] then ''.'' else join ''/'' rel)"

definition relative_from_root :: "abs_path \<Rightarrow> abs_path \<Rightarrow> string" where
  "relative_from_root root p =
     (if is_relative_to p root then relative_text (drop (length root) p) else path_text p)"

definition file_name :: "abs_path \<Rightarrow> string" where
  "file_name p = (if p = [] then [] else last p)"

text \<open>\<open>name\<close>, \<open>stem\<close> and \<open>suffix\<close>: the suffix starts at the last dot unless that is the first
  or the last character of the name.\<close>

definition name_suffix :: "string \<Rightarrow> string" where
  "name_suffix n =
     (let after = takeWhile (\<lambda>c. c \<noteq> CHR ''.'') (rev n); k = length n - length after
      in if k < 2 \<or> after = [] then [] else drop (k - 1) n)"

definition name_stem :: "string \<Rightarrow> string" where
  "name_stem n = take (length n - length (name_suffix n)) n"

definition with_name :: "abs_path \<Rightarrow> string \<Rightarrow> abs_path" where
  "with_name p n = butlast p @ [n]"

definition read_file :: "disk \<Rightarrow> abs_path \<Rightarrow> string option" where
  "read_file d p = map_of d p"

definition path_exists :: "disk \<Rightarrow> abs_path \<Rightarrow> bool" where
  "path_exists d p \<longleftrightarrow> list_ex (\<lambda>(q, _). is_relative_to q p) d"

section \<open>Equality of JSON values\<close>

text \<open>
  Python's \<open>==\<close>: numbers and booleans by value, objects whatever the order of their members.
  Two values are equal when their normal forms are: booleans as integers, decimals in lowest
  terms, members sorted by key.
\<close>

fun shrink :: "int \<Rightarrow> nat \<Rightarrow> json" where
  "shrink m 0 = JInt m"
| "shrink m (Suc k) = (if m mod 10 = 0 then shrink (m div 10) k else JFloat m (Suc k))"

fun json_norm :: "json \<Rightarrow> json" where
  "json_norm JNull = JNull"
| "json_norm (JBool b) = JInt (if b then 1 else 0)"
| "json_norm (JInt i) = JInt i"
| "json_norm (JFloat m k) = shrink m k"
| "json_norm (JStr s) = JStr s"
| "json_norm (JList xs) = JList (map json_norm xs)"
| "json_norm (JObj m) = JObj (sort_key fst (map (\<lambda>p. (fst p, json_norm (snd p))) m))"

definition json_eq :: "json \<Rightarrow> json \<Rightarrow> bool" where
  "json_eq a b \<longleftrightarrow> json_norm a = json_norm b"

lemma json_eq_refl [simp]: "json_eq a a"
  by (simp add: json_eq_def)

lemma json_eq_str [simp]: "json_eq (JStr a) b \<longleftrightarrow> b = JStr a"
proof -
  have s: "shrink m k \<noteq> JStr a" for m k by (induction m k rule: shrink.induct) simp_all
  show ?thesis using s [symmetric] by (cases b) (auto simp: json_eq_def)
qed

section \<open>Reading decoded objects\<close>

definition as_obj :: "json \<Rightarrow> (string \<times> json) list" where
  "as_obj j = (case j of JObj m \<Rightarrow> m | _ \<Rightarrow> [])"

lemma as_obj_simps [simp]: "as_obj (JObj m) = m" "as_obj JNull = []"
  by (simp_all add: as_obj_def)

text \<open>\<open>isinstance(value, str) and value.strip()\<close>\<close>

definition text_value :: "json \<Rightarrow> bool" where
  "text_value j = (case j of JStr s \<Rightarrow> strip s \<noteq> [] | _ \<Rightarrow> False)"

definition str_of :: "json \<Rightarrow> string" where
  "str_of j = (case j of JStr s \<Rightarrow> s | _ \<Rightarrow> [])"

section \<open>Errors\<close>

text \<open>\<open>PyError\<close> stands for the exceptions the functions below neither raise nor catch themselves.\<close>

datatype dist_error =
    DistributionError string
  | AttestationError string
  | TransparencyLogError string
  | PyError string

type_synonym 'a dist = "dist_error + 'a"

section \<open>What is outside: hashing, decoding, archives, ssh-keygen\<close>

record bundle_member =
  bmb_name :: string
  bmb_isfile :: bool
  bmb_islink :: bool
  bmb_isdir :: bool
  bmb_data :: string
  bmb_mode :: nat
  bmb_mtime :: int
  bmb_uid :: int
  bmb_gid :: int
  bmb_uname :: string
  bmb_gname :: string

record outside =
  out_sha256 :: "string \<Rightarrow> string"
  out_decode :: "string \<Rightarrow> json option"
  out_members :: "string \<Rightarrow> bundle_member list option"
  out_python :: "string \<times> string"
  out_ssh_verify :: "string \<Rightarrow> string \<Rightarrow> string \<Rightarrow> string \<Rightarrow> string \<Rightarrow> bool \<times> string"

text \<open>
  \<open>out_decode\<close> is \<open>json.loads\<close> of the UTF-8 text of some bytes, \<open>out_members\<close> the members of a
  tar.gz file, \<open>None\<close> where the library raises.  \<open>out_ssh_verify allowed identity namespace
  signature message\<close> is \<open>ssh-keygen -Y verify\<close> with the contents of the allowed-signers file and
  of the signature file: whether it exits with 0, and its output.
\<close>

definition read_bytes :: "disk \<Rightarrow> abs_path \<Rightarrow> string dist" where
  "read_bytes d p = or_raise (read_file d p) (PyError (''cannot read '' @ path_text p))"

definition sha256_file :: "outside \<Rightarrow> disk \<Rightarrow> abs_path \<Rightarrow> string dist" where
  "sha256_file out d p = rbind (read_bytes d p) (\<lambda>raw. Inr (out_sha256 out raw))"

definition decode_file :: "outside \<Rightarrow> disk \<Rightarrow> abs_path \<Rightarrow> json dist" where
  "decode_file out d p =
     rbind (read_bytes d p) (\<lambda>raw. or_raise (out_decode out raw) (PyError ''JSONDecodeError''))"

text \<open>\<open>read_text\<close> turns every line ending into a line feed.\<close>

fun universal_newlines :: "string \<Rightarrow> string" where
  "universal_newlines [] = []"
| "universal_newlines (c # s) =
     (if c = CHR 0x0D
      then CHR 0x0A # (case s of [] \<Rightarrow> [] | c' # t \<Rightarrow> if c' = CHR 0x0A then universal_newlines t
                                                 else universal_newlines s)
      else c # universal_newlines s)"

text \<open>\<open>str.splitlines()\<close> on Latin-1 text.\<close>

definition is_line_end :: "char \<Rightarrow> bool" where
  "is_line_end c \<longleftrightarrow> (let n = code c in (10 \<le> n \<and> n \<le> 13) \<or> (28 \<le> n \<and> n \<le> 30) \<or> n = 133)"

definition after_line_end :: "string \<Rightarrow> string" where
  "after_line_end s =
     (case s of [] \<Rightarrow> []
      | c # t \<Rightarrow> (case t of [] \<Rightarrow> [] | d # u \<Rightarrow> if c = CHR 0x0D \<and> d = CHR 0x0A then u else t))"

lemma after_line_end_shorter: "s \<noteq> [] \<Longrightarrow> length (after_line_end s) < length s"
  by (auto simp: after_line_end_def split: list.splits)

function split_lines :: "string \<Rightarrow> string list" where
  "split_lines s =
     (if s = [] then []
      else (let line = takeWhile (\<lambda>c. \<not> is_line_end c) s; rest = dropWhile (\<lambda>c. \<not> is_line_end c) s
            in if rest = [] then [line] else line # split_lines (after_line_end rest)))"
  by pat_completeness auto
termination
proof (relation "measure length", simp)
  fix s line rest :: string
  assume "rest = dropWhile (\<lambda>c. \<not> is_line_end c) s" and r: "rest \<noteq> []"
  then have "length rest \<le> length s" by (simp add: length_dropWhile_le)
  with after_line_end_shorter [OF r] show "(after_line_end rest, s) \<in> measure length" by simp
qed

declare split_lines.simps [simp del]

end
