(* ===== verification/Attestation.thy ===== *)
theory Attestation
  imports Disk
begin

text \<open>
  Attestations of releases: \<open>release/attestation.py\<close>, \<open>attestation_validation.py\<close> and the log
  entries of \<open>transparency_log.py\<close>.  The signing domain of the policy packs is an argument; what
  \<open>ssh-keygen\<close> answers is a parameter.
\<close>

section \<open>Helpers\<close>

text \<open>\<open>value in {..}\<close>, which raises TypeError for a value that cannot be hashed.\<close>

definition one_of :: "json \<Rightarrow> string list \<Rightarrow> bool dist" where
  "one_of v names =
     (case v of JList _ \<Rightarrow> Inl (PyError ''TypeError'') | JObj _ \<Rightarrow> Inl (PyError ''TypeError'')
      | JStr s \<Rightarrow> Inr (s \<in> set names) | _ \<Rightarrow> Inr False)"

definition require_strings :: "(string \<times> json) list \<Rightarrow> string \<Rightarrow> string list \<Rightarrow> string list" where
  "require_strings m label keys =
     concat (map (\<lambda>k. complain (\<not> text_value (jget m k)) (label @ ''.'' @ k @ '' must be a non-empty string'')) keys)"

definition null_or :: "(json \<Rightarrow> bool) \<Rightarrow> json \<Rightarrow> bool" where
  "null_or p v \<longleftrightarrow> v = JNull \<or> p v"

section \<open>The payload\<close>

definition release_mode :: "(string \<times> json) list \<Rightarrow> (string \<times> string list) dist" where
  "release_mode payload =
     (case jget payload ''release'' of
        JObj release \<Rightarrow>
          (let mode = jget release ''release_mode'' in
           if mode = JNull then Inr (''stable-release'', [])
           else rbind (one_of mode [''stable-release'', ''local-tag'']) (\<lambda>known.
                if known then Inr (str_of mode, [])
                else Inr (''stable-release'',
                  [''release.release_mode must be 'stable-release' or 'local-tag' when present''])))
      | _ \<Rightarrow> Inr (''stable-release'', []))"

definition validate_payload_skill :: "(string \<times> json) list \<Rightarrow> string list" where
  "validate_payload_skill payload =
     (case jget payload ''skill'' of
        JObj skill \<Rightarrow>
          require_strings skill ''skill'' [''name'', ''version'', ''path''] @
          concat (map (\<lambda>k. complain (\<not> null_or is_list (jget skill k))
                              (''skill.'' @ k @ '' must be an array when present''))
                    [''owners'', ''maintainers''])
      | _ \<Rightarrow> [''skill must be an object''])"

definition validate_payload_git :: "(string \<times> json) list \<Rightarrow> string list" where
  "validate_payload_git payload =
     (case jget payload ''git'' of
        JObj git \<Rightarrow>
          require_strings git ''git'' [''commit'', ''expected_tag'', ''release_ref''] @
          complain (jget git ''signed_tag_verified'' \<noteq> JBool True) ''git.signed_tag_verified must be true''
      | _ \<Rightarrow> [''git must be an object''])"

definition validate_payload_snapshot :: "(string \<times> json) list \<Rightarrow> string \<Rightarrow> string list" where
  "validate_payload_snapshot payload mode =
     (case jget payload ''source_snapshot'' of
        JObj snapshot \<Rightarrow>
          require_strings snapshot ''source_snapshot'' [''tag'', ''ref'', ''commit''] @
          complain (jget snapshot ''immutable'' \<noteq> JBool True) ''source_snapshot.immutable must be true'' @
          (case jget snapshot ''pushed'' of
             JBool pushed \<Rightarrow>
               if mode = ''stable-release''
               then complain (\<not> pushed) ''source_snapshot.pushed must be true for stable-release attestations''
               else if mode = ''local-tag''
               then complain pushed ''source_snapshot.pushed must be false for local-tag attestations''
               else []
           | _ \<Rightarrow> [''source_snapshot.pushed must be boolean''])
      | _ \<Rightarrow> [''source_snapshot must be an object''])"

definition context_arrays :: "string \<Rightarrow> string list" where
  "context_arrays key =
     (if key = ''registry'' then [''registries_consulted'', ''resolved''] else [''steps'', ''registries_consulted''])"

definition validate_context :: "(string \<times> json) list \<Rightarrow> string \<Rightarrow> string list" where
  "validate_context payload key =
     (case jget payload key of
        JObj context \<Rightarrow>
          concat (map (\<lambda>f. complain (\<not> is_list (jget context f)) (key @ ''.'' @ f @ '' must be an array''))
                    (context_arrays key))
      | _ \<Rightarrow> [key @ '' must be an object''])"

definition validate_review_and_release :: "(string \<times> json) list \<Rightarrow> string list" where
  "validate_review_and_release payload =
     (case jget payload ''review'' of
        JObj review \<Rightarrow> complain (\<not> is_list (jget review ''reviewers'')) ''review.reviewers must be an array''
      | _ \<Rightarrow> [''review must be an object'']) @
     (case jget payload ''release'' of
        JObj release \<Rightarrow>
          complain (\<not> null_or text_value (jget release ''releaser_identity''))
            ''release.releaser_identity must be a non-empty string when present'' @
          concat (map (\<lambda>k. complain (\<not> is_bool (jget release k)) (''release.'' @ k @ '' must be boolean''))
                    [''transfer_required'', ''transfer_authorized'']) @
          concat (map (\<lambda>k. complain (\<not> is_list (jget release k)) (''release.'' @ k @ '' must be an array''))
                    [''authorized_signers'', ''authorized_releasers'', ''transfer_matches'', ''competing_claims''])
      | _ \<Rightarrow> [''release must be an object''])"

definition validate_payload_attestation :: "(string \<times> json) list \<Rightarrow> string list dist" where
  "validate_payload_attestation payload =
     (case jget payload ''attestation'' of
        JObj attestation \<Rightarrow>
          (let form = jget attestation ''format'' in
           rbind (one_of form [''ssh'', ''ci'']) (\<lambda>known.
           rbind (one_of (jget attestation ''policy_mode'') [''advisory'', ''enforce'']) (\<lambda>mode_known.
           Inr (complain (\<not> known) ''attestation.format must be ssh or ci'' @
                complain (\<not> mode_known) ''attestation.policy_mode must be advisory or enforce'' @
                concat (map (\<lambda>k. complain (\<not> is_bool (jget attestation k))
                                    (''attestation.'' @ k @ '' must be boolean''))
                          [''require_verified_attestation_for_release_output'',
                           ''require_verified_attestation_for_distribution'']) @
                require_strings attestation ''attestation''
                  (if form = JStr ''ssh''
                   then [''namespace'', ''allowed_signers'', ''signature_file'', ''signature_ext'', ''signer_identity'']
                   else if form = JStr ''ci'' then [''generator''] else [])))))
      | _ \<Rightarrow> Inr [''attestation must be an object''])"

definition validate_payload_ci :: "(string \<times> json) list \<Rightarrow> string list" where
  "validate_payload_ci payload =
     (if jget (as_obj (jget payload ''attestation'')) ''format'' \<noteq> JStr ''ci'' then []
      else (case jget payload ''ci'' of
              JObj ci \<Rightarrow> require_strings ci ''ci''
                [''provider'', ''repository'', ''workflow'', ''run_id'', ''run_attempt'', ''sha'', ''ref'']
            | _ \<Rightarrow> [''ci must be an object for CI attestations'']))"

definition validate_bundle_fields :: "string \<Rightarrow> (string \<times> json) list \<Rightarrow> string list" where
  "validate_bundle_fields label bundle =
     complain (jget bundle ''format'' \<noteq> JStr ''tar.gz'') (label @ ''.format must be tar.gz'') @
     complain (\<not> int_at_least 0 (jget bundle ''size'')) (label @ ''.size must be a non-negative integer'') @
     complain (\<not> int_at_least 1 (jget bundle ''file_count'')) (label @ ''.file_count must be a positive integer'')"

definition validate_payload_distribution :: "(string \<times> json) list \<Rightarrow> string list" where
  "validate_payload_distribution payload =
     (case jget payload ''distribution'' of
        JNull \<Rightarrow> []
      | JObj distribution \<Rightarrow>
          complain (\<not> null_or text_value (jget distribution ''manifest_path''))
            ''distribution.manifest_path must be a non-empty string when present'' @
          (case jget distribution ''bundle'' of
             JObj bundle \<Rightarrow>
               require_strings bundle ''distribution.bundle'' [''path'', ''sha256'', ''root_dir''] @
               validate_bundle_fields ''distribution.bundle'' bundle
           | _ \<Rightarrow> [''distribution.bundle must be an object''])
      | _ \<Rightarrow> [''distribution must be an object when present''])"

definition validate_provenance_payload :: "json \<Rightarrow> string list dist" where
  "validate_provenance_payload j =
     (case j of
        JObj payload \<Rightarrow>
          rbind (release_mode payload) (\<lambda>(mode, mode_errors).
          rbind (validate_payload_attestation payload) (\<lambda>attestation_errors.
          Inr (mode_errors @
               complain (jget payload ''kind'' \<noteq> JStr ''skill-release-attestation'')
                 ''kind must be skill-release-attestation'' @
               complain (\<not> json_eq (jget payload ''schema_version'') (JInt 1)) ''schema_version must be 1'' @
               validate_payload_skill payload @ validate_payload_git payload @
               validate_payload_snapshot payload mode @
               validate_context payload ''registry'' @ validate_context payload ''dependencies'' @
               validate_review_and_release payload @ attestation_errors @
               validate_payload_ci payload @ validate_payload_distribution payload)))
      | _ \<Rightarrow> Inr [''provenance payload must be an object''])"

section \<open>Configuration\<close>

record att_config =
  acf_format :: json
  acf_namespace :: json
  acf_allowed_signers :: string
  acf_allowed_path :: abs_path
  acf_signature_ext :: json
  acf_signing_key_env :: json
  acf_policy_mode :: json
  acf_trust_mode :: string
  acf_ci :: "(string \<times> json) list"
  acf_log_mode :: string
  acf_log_endpoint :: "string option"
  acf_log_timeout :: int
  acf_require_release :: bool
  acf_require_distribution :: bool

definition requires_ssh :: "att_config \<Rightarrow> bool" where
  "requires_ssh cfg \<longleftrightarrow> acf_trust_mode cfg \<in> {''ssh'', ''both''}"

definition requires_ci :: "att_config \<Rightarrow> bool" where
  "requires_ci cfg \<longleftrightarrow> acf_trust_mode cfg \<in> {''ci'', ''both''}"

text \<open>\<open>get(key, default)\<close> and the chains of \<open>or\<close>.\<close>

definition jget_default :: "(string \<times> json) list \<Rightarrow> string \<Rightarrow> json \<Rightarrow> json" where
  "jget_default m k v = (case map_of m k of None \<Rightarrow> v | Some x \<Rightarrow> x)"

definition domain_object :: "json \<Rightarrow> string \<Rightarrow> (string \<times> json) list" where
  "domain_object j k = as_obj (jget (as_obj j) k)"

definition first_of :: "json \<Rightarrow> string \<Rightarrow> string \<Rightarrow> json" where
  "first_of config k fallback =
     json_or (json_or (jget (domain_object config ''attestation'') k) (jget (as_obj config) k)) (JStr fallback)"

definition attestation_config :: "abs_path \<Rightarrow> json dist \<Rightarrow> att_config dist" where
  "attestation_config root signing_domain =
     rbind signing_domain (\<lambda>config.
     let attestation = domain_object config ''attestation'';
         log = as_obj (jget attestation ''transparency_log'');
         policy = as_obj (jget attestation ''policy'');
         ci = as_obj (jget attestation ''ci'');
         mode = jget_default policy ''mode'' (JStr ''enforce'');
         trust = jget_default policy ''release_trust_mode'' (JStr ''ssh'');
         log_mode = jget_default log ''mode'' (JStr ''disabled'');
         endpoint = jget log ''endpoint'';
         timeout = jget_default log ''timeout_seconds'' (JInt 5);
         enforced = (\<lambda>k. truthy (jget_default policy k (JBool (mode = JStr ''enforce''))))
     in rbind (one_of trust [''ssh'', ''ci'', ''both'']) (\<lambda>trust_known.
        rbind (require trust_known (AttestationError
          (''attestation.policy.release_trust_mode must be one of 'ssh', 'ci', or 'both', got '' @ py_repr_json trust)))
          (\<lambda>_.
        rbind (one_of log_mode [''disabled'', ''advisory'', ''required'']) (\<lambda>log_known.
        rbind (require log_known (AttestationError
          (''attestation.transparency_log.mode must be one of 'disabled', 'advisory', or 'required'' @ [CHR 0x27]))) (\<lambda>_.
        rbind (require (null_or text_value endpoint) (AttestationError
          ''attestation.transparency_log.endpoint must be a non-empty string when present'')) (\<lambda>_.
        rbind (require (int_at_least 1 timeout) (AttestationError
          ''attestation.transparency_log.timeout_seconds must be a positive integer'')) (\<lambda>_.
        rbind (or_raise (jstr (first_of config ''allowed_signers'' ''config/allowed_signers'')) (PyError ''TypeError''))
          (\<lambda>allowed.
        Inr \<lparr>acf_format = jget_default attestation ''format'' (JStr ''ssh''),
             acf_namespace = first_of config ''namespace'' ''infinitas-skill'',
             acf_allowed_signers = allowed, acf_allowed_path = under root allowed,
             acf_signature_ext = first_of config ''signature_ext'' ''.ssig'',
             acf_signing_key_env = json_or (json_or (jget attestation ''signing_key_env'')
                 (jget (domain_object config ''git_tag'') ''signing_key_env''))
               (JStr ''INFINITAS_SKILL_GIT_SIGNING_KEY''),
             acf_policy_mode = mode, acf_trust_mode = str_of trust,
             acf_ci = map (\<lambda>k. (k, jget ci k)) [''provider'', ''issuer'', ''repository'', ''workflow''],
             acf_log_mode = str_of log_mode,
             acf_log_endpoint = map_option strip (jstr endpoint),
             acf_log_timeout = (case int_instance timeout of None \<Rightarrow> 0 | Some i \<Rightarrow> i),
             acf_require_release = enforced ''require_verified_attestation_for_release_output'',
             acf_require_distribution = enforced ''require_verified_attestation_for_distribution''\<rparr>))))))))"

section \<open>Transparency log entries\<close>

definition require_text :: "json \<Rightarrow> string \<Rightarrow> string dist" where
  "require_text v label =
     (if text_value v then Inr (str_of v)
      else Inl (TransparencyLogError (label @ '' must be a non-empty string'')))"

definition require_natural :: "json \<Rightarrow> string \<Rightarrow> int dist" where
  "require_natural v label =
     (if int_at_least 0 v then Inr (case int_instance v of None \<Rightarrow> 0 | Some i \<Rightarrow> i)
      else Inl (TransparencyLogError (label @ '' must be a non-negative integer'')))"

record log_entry =
  log_entry_id :: string
  log_index :: int
  log_integrated :: string
  log_endpoint :: string
  log_digest :: string

definition normalize_log_entry :: "json \<Rightarrow> string \<Rightarrow> string \<Rightarrow> log_entry dist" where
  "normalize_log_entry response endpoint expected_digest =
     rbind (require (is_obj response)
              (TransparencyLogError ''transparency log returned a malformed JSON object'')) (\<lambda>_.
     let m = as_obj response; p = jget m ''proof''; proof_obj = as_obj p in
     rbind (require_text (jget m ''attestation_sha256'') ''response.attestation_sha256'') (\<lambda>digest.
     rbind (require (digest = expected_digest)
              (TransparencyLogError ''transparency log proof digest does not match attestation digest'')) (\<lambda>_.
     rbind (require (is_obj p)
              (TransparencyLogError ''transparency log response is missing proof metadata'')) (\<lambda>_.
     rbind (require_text (jget proof_obj ''body_sha256'') ''proof.body_sha256'') (\<lambda>body.
     rbind (require (body = expected_digest)
              (TransparencyLogError ''transparency log proof body digest does not match attestation digest''))
       (\<lambda>_.
     rbind (require (case jget proof_obj ''inclusion_path'' of JList xs \<Rightarrow> list_all text_value xs | _ \<Rightarrow> False)
              (TransparencyLogError ''proof.inclusion_path must be an array of non-empty strings'')) (\<lambda>_.
     rbind (require_text (jget m ''entry_id'') ''response.entry_id'') (\<lambda>i.
     rbind (require_natural (jget m ''log_index'') ''response.log_index'') (\<lambda>index.
     rbind (require_text (jget m ''integrated_time'') ''response.integrated_time'') (\<lambda>integrated.
     rbind (require_text (json_or (jget proof_obj ''hash_algorithm'') (JStr ''sha256'')) ''proof.hash_algorithm'') (\<lambda>_.
     rbind (require_text (jget proof_obj ''root_hash'') ''proof.root_hash'') (\<lambda>_.
     rbind (require_natural (jget proof_obj ''tree_size'') ''proof.tree_size'') (\<lambda>_.
     Inr \<lparr>log_entry_id = i, log_index = index, log_integrated = integrated, log_endpoint = endpoint,
          log_digest = expected_digest\<rparr>)))))))))))))"

definition log_entry_path :: "abs_path \<Rightarrow> (string \<times> json) list \<Rightarrow> abs_path option \<Rightarrow> abs_path" where
  "log_entry_path provenance descriptor root =
     (let companion = with_name provenance (name_stem (file_name provenance) @ ''.transparency.json'') in
      case jget descriptor ''entry_path'' of
        JStr ref \<Rightarrow>
          if strip ref = [] then companion
          else (case root of None \<Rightarrow> under (butlast provenance) ref | Some r \<Rightarrow> under r ref)
      | _ \<Rightarrow> companion)"

definition verify_log_entry :: "outside \<Rightarrow> disk \<Rightarrow> abs_path \<Rightarrow> abs_path \<Rightarrow> log_entry dist" where
  "verify_log_entry out d entry provenance =
     rbind (decode_file out d entry) (\<lambda>j.
     rbind (require (is_obj j) (PyError ''AttributeError'')) (\<lambda>_.
     let m = as_obj j in
     rbind (require (json_eq (jget m ''schema_version'') (JInt 1))
              (TransparencyLogError ''transparency log entry schema_version must be 1'')) (\<lambda>_.
     rbind (require (jget m ''kind'' = JStr ''attestation-transparency-log-entry'')
              (TransparencyLogError ''transparency log entry kind must be attestation-transparency-log-entry''))
       (\<lambda>_.
     rbind (require_text (jget m ''log_endpoint'') ''entry.log_endpoint'') (\<lambda>endpoint.
     rbind (sha256_file out d provenance) (\<lambda>digest. normalize_log_entry j endpoint digest))))))"

record log_summary =
  sum_mode :: json
  sum_required :: bool
  sum_entry_path :: string
  sum_entry :: "log_entry option"

definition summarize_log_state ::
    "outside \<Rightarrow> disk \<Rightarrow> abs_path \<Rightarrow> (string \<times> json) list \<Rightarrow> abs_path \<Rightarrow> log_summary option dist" where
  "summarize_log_state out d provenance payload root =
     (let descriptor = as_obj (jget payload ''transparency_log'') in
      if descriptor = [] \<and>
         \<not> path_exists d (with_name provenance (name_stem (file_name provenance) @ ''.transparency.json''))
      then Inr None
      else
        (let mode = jget_default descriptor ''mode'' (JStr ''disabled'');
             entry = log_entry_path provenance descriptor (Some root);
             summary = \<lparr>sum_mode = mode,
               sum_required = truthy (jget_default descriptor ''required'' (JBool (mode = JStr ''required''))),
               sum_entry_path = relative_from_root root entry, sum_entry = None\<rparr>
         in if \<not> path_exists d entry then Inr (Some summary)
            else rbind (verify_log_entry out d entry provenance) (\<lambda>e.
                 Inr (Some (summary\<lparr>sum_entry := Some e\<rparr>)))))"

section \<open>Verification\<close>

definition signer_entries :: "disk \<Rightarrow> abs_path \<Rightarrow> string list dist" where
  "signer_entries d p =
     (if \<not> path_exists d p then Inr []
      else rbind (read_bytes d p) (\<lambda>text.
           Inr (filter (\<lambda>l. l \<noteq> [] \<and> \<not> starts_with ''#'' l) (map strip (split_lines text)))))"

record attested =
  atd_identity :: "string option"
  atd_namespace :: "string option"
  atd_allowed_path :: "abs_path option"
  atd_signature_path :: "abs_path option"
  atd_formats :: "string list"
  atd_trust_mode :: string
  atd_log :: "log_summary option"

definition no_attestation :: attested where
  "no_attestation = \<lparr>atd_identity = None, atd_namespace = None, atd_allowed_path = None, atd_signature_path = None,
     atd_formats = [], atd_trust_mode = [], atd_log = None\<rparr>"

definition truthy_text :: "string option \<Rightarrow> string option" where
  "truthy_text s = (case s of None \<Rightarrow> None | Some t \<Rightarrow> if t = [] then None else Some t)"

text \<open>
  \<open>identity\<close>, \<open>allowed\<close> and \<open>namespace\<close> are the overrides of the caller.  The message that is
  verified is the text of the attestation with its line endings normalised.
\<close>

definition chosen_signers :: "(string \<times> json) list \<Rightarrow> att_config \<Rightarrow> string option \<Rightarrow> abs_path \<Rightarrow> abs_path dist" where
  "chosen_signers attestation cfg allowed root =
     (case truthy_text allowed of
        Some ref \<Rightarrow> Inr (under root ref)
      | None \<Rightarrow>
          rbind (require (jget attestation ''allowed_signers'' = JStr (acf_allowed_signers cfg))
            (AttestationError (''attestation allowed_signers '' @ py_repr_json (jget attestation ''allowed_signers'') @
               '' does not match repo-managed '' @ py_repr (acf_allowed_signers cfg)))) (\<lambda>_.
          Inr (acf_allowed_path cfg)))"

definition chosen_namespace :: "(string \<times> json) list \<Rightarrow> att_config \<Rightarrow> string option \<Rightarrow> string dist" where
  "chosen_namespace attestation cfg namespace =
     (case truthy_text namespace of
        Some n \<Rightarrow> Inr n
      | None \<Rightarrow>
          rbind (require (json_eq (jget attestation ''namespace'') (acf_namespace cfg))
            (AttestationError (''attestation namespace '' @ py_repr_json (jget attestation ''namespace'') @
               '' does not match repo-managed '' @ py_repr_json (acf_namespace cfg)))) (\<lambda>_.
          or_raise (jstr (acf_namespace cfg)) (PyError ''TypeError'')))"

definition verify_ssh_attestation ::
    "outside \<Rightarrow> disk \<Rightarrow> abs_path \<Rightarrow> json \<Rightarrow> att_config \<Rightarrow> string option \<Rightarrow> string option \<Rightarrow> string option \<Rightarrow>
     abs_path \<Rightarrow> attested dist" where
  "verify_ssh_attestation out d provenance j cfg identity allowed namespace root =
     rbind (or_raise (case jget (as_obj j) ''attestation'' of JObj a \<Rightarrow> Some a | _ \<Rightarrow> None)
              (PyError ''KeyError'')) (\<lambda>attestation.
     rbind (or_raise (case truthy_text identity of Some i \<Rightarrow> Some i
                      | None \<Rightarrow> truthy_text (jstr (jget attestation ''signer_identity'')))
              (AttestationError ''attestation signer identity is missing'')) (\<lambda>who.
     rbind (chosen_signers attestation cfg allowed root) (\<lambda>allowed_path.
     rbind (chosen_namespace attestation cfg namespace) (\<lambda>ns.
     rbind (signer_entries d allowed_path) (\<lambda>entries.
     rbind (require (entries \<noteq> [])
              (AttestationError (relative_from_root root allowed_path @ '' has no signer entries''))) (\<lambda>_.
     rbind (or_raise (truthy_text (jstr (jget attestation ''signature_file'')))
              (AttestationError ''attestation signature_file is missing'')) (\<lambda>signature_file.
     let signature = under (butlast provenance) signature_file in
     rbind (require (path_exists d signature)
              (AttestationError (''missing SSH attestation signature: '' @ path_text signature))) (\<lambda>_.
     rbind (read_bytes d allowed_path) (\<lambda>allowed_text.
     rbind (read_bytes d signature) (\<lambda>signature_bytes.
     rbind (read_bytes d provenance) (\<lambda>raw.
     let (accepted, output) =
           out_ssh_verify out allowed_text who ns signature_bytes (universal_newlines raw) in
     rbind (require accepted
              (AttestationError (str_or output ''SSH attestation verification failed''))) (\<lambda>_.
     Inr (no_attestation\<lparr>atd_identity := Some who, atd_namespace := Some ns, atd_allowed_path := Some allowed_path,
            atd_signature_path := Some signature\<rparr>)))))))))))))"

definition parse_attestation :: "outside \<Rightarrow> disk \<Rightarrow> abs_path \<Rightarrow> json dist" where
  "parse_attestation out d provenance =
     (case decode_file out d provenance of
        Inl _ \<Rightarrow> Inl (AttestationError (''could not parse attestation payload '' @ path_text provenance))
      | Inr j \<Rightarrow>
          rbind (validate_provenance_payload j) (\<lambda>errors.
          rbind (require (errors = []) (AttestationError (join ''; '' errors))) (\<lambda>_. Inr j)))"

definition ci_matches :: "att_config \<Rightarrow> (string \<times> json) list \<Rightarrow> string \<Rightarrow> unit dist" where
  "ci_matches cfg ci key =
     (let expected = jget (acf_ci cfg) key in
      require (\<not> truthy expected \<or> json_eq (jget ci key) expected)
        (AttestationError (''ci.'' @ key @ '' '' @ py_repr_json (jget ci key) @
           '' does not match repo-managed '' @ py_repr_json expected)))"

definition verify_ci_attestation :: "outside \<Rightarrow> disk \<Rightarrow> abs_path \<Rightarrow> att_config dist \<Rightarrow> attested dist" where
  "verify_ci_attestation out d provenance config =
     rbind (parse_attestation out d provenance) (\<lambda>j.
     let form = jget (domain_object j ''attestation'') ''format'' in
     rbind (require (form = JStr ''ci'')
              (AttestationError (''expected CI attestation format, got '' @ py_repr_json form))) (\<lambda>_.
     rbind config (\<lambda>cfg.
     let ci = domain_object j ''ci''; sha = jget ci ''sha'' in
     rbind (ci_matches cfg ci ''provider'') (\<lambda>_.
     rbind (ci_matches cfg ci ''repository'') (\<lambda>_.
     rbind (ci_matches cfg ci ''workflow'') (\<lambda>_.
     rbind (require (json_eq sha (jget (domain_object j ''git'') ''commit''))
              (AttestationError ''ci.sha does not match git.commit'')) (\<lambda>_.
     rbind (require (json_eq sha (jget (domain_object j ''source_snapshot'') ''commit''))
              (AttestationError ''ci.sha does not match source_snapshot.commit'')) (\<lambda>_.
     rbind (require (json_eq (jget ci ''ref'') (jget (domain_object j ''source_snapshot'') ''ref''))
              (AttestationError ''ci.ref does not match source_snapshot.ref'')) (\<lambda>_.
     Inr no_attestation)))))))))"

definition companion_ci_path :: "abs_path \<Rightarrow> abs_path" where
  "companion_ci_path p = with_name p (name_stem (file_name p) @ ''.ci.json'')"

definition companion_ssh_path :: "abs_path \<Rightarrow> abs_path dist" where
  "companion_ssh_path p =
     (if ends_with ''.ci.json'' (file_name p)
      then Inr (with_name p (take (length (file_name p) - 8) (file_name p) @ ''.json''))
      else Inl (AttestationError (''cannot derive SSH companion path from '' @ path_text p)))"

definition verify_ci_format ::
    "outside \<Rightarrow> disk \<Rightarrow> att_config \<Rightarrow> abs_path \<Rightarrow> string option \<Rightarrow> string option \<Rightarrow> string option \<Rightarrow> abs_path \<Rightarrow>
     attested dist" where
  "verify_ci_format out d cfg provenance identity allowed namespace root =
     rbind (verify_ci_attestation out d provenance (Inr cfg)) (\<lambda>r.
     if \<not> requires_ssh cfg then Inr (r\<lparr>atd_formats := [''ci'']\<rparr>)
     else
       rbind (companion_ssh_path provenance) (\<lambda>ssh.
       rbind (require (path_exists d ssh)
                (AttestationError (''missing required SSH attestation companion: '' @ path_text ssh))) (\<lambda>_.
       rbind (decode_file out d ssh) (\<lambda>companion.
       rbind (verify_ssh_attestation out d ssh companion cfg identity allowed namespace root) (\<lambda>_.
       Inr (r\<lparr>atd_formats := [''ci'', ''ssh'']\<rparr>))))))"

definition verify_ssh_format ::
    "outside \<Rightarrow> disk \<Rightarrow> att_config \<Rightarrow> abs_path \<Rightarrow> json \<Rightarrow> string option \<Rightarrow> string option \<Rightarrow> string option \<Rightarrow>
     abs_path \<Rightarrow> attested dist" where
  "verify_ssh_format out d cfg provenance j identity allowed namespace root =
     rbind (verify_ssh_attestation out d provenance j cfg identity allowed namespace root) (\<lambda>r.
     if \<not> requires_ci cfg then Inr (r\<lparr>atd_formats := [''ssh'']\<rparr>)
     else
       rbind (require (path_exists d (companion_ci_path provenance))
                (AttestationError (''missing required CI attestation companion: '' @
                   path_text (companion_ci_path provenance)))) (\<lambda>_.
       rbind (verify_ci_attestation out d (companion_ci_path provenance) (Inr cfg)) (\<lambda>_.
       Inr (r\<lparr>atd_formats := [''ssh'', ''ci'']\<rparr>))))"

definition verify_attestation ::
    "outside \<Rightarrow> disk \<Rightarrow> json dist \<Rightarrow> abs_path \<Rightarrow> string option \<Rightarrow> string option \<Rightarrow> string option \<Rightarrow> abs_path \<Rightarrow>
     attested dist" where
  "verify_attestation out d signing_domain provenance identity allowed namespace root =
     rbind (parse_attestation out d provenance) (\<lambda>j.
     rbind (attestation_config root signing_domain) (\<lambda>cfg.
     rbind (if jget (domain_object j ''attestation'') ''format'' = JStr ''ci''
            then verify_ci_format out d cfg provenance identity allowed namespace root
            else verify_ssh_format out d cfg provenance j identity allowed namespace root) (\<lambda>r.
     rbind (reraise (\<lambda>e. case e of TransparencyLogError m \<Rightarrow> AttestationError m | _ \<Rightarrow> e)
              (summarize_log_state out d provenance (as_obj j) root)) (\<lambda>log.
     rbind (require (case log of None \<Rightarrow> True | Some l \<Rightarrow> \<not> (sum_required l \<and> sum_entry l = None))
              (AttestationError ''required transparency log proof is missing or unverified'')) (\<lambda>_.
     Inr (r\<lparr>atd_trust_mode := acf_trust_mode cfg, atd_log := log\<rparr>))))))"

end
