(* ===== verification/Distribution.thy ===== *)
theory Distribution
  imports Attestation PyTime
begin

text \<open>
  Distribution manifests: the inspection of a bundle and the comparison forms of
  \<open>install/distribution_core.py\<close>, the schema checks of \<open>distribution_validation.py\<close>, the
  construction of a manifest in \<open>distribution_materialization.py\<close> and its verification in
  \<open>distribution_verification.py\<close>.
\<close>

section \<open>Bundles\<close>

text \<open>\<open>Path(name).parts\<close>\<close>

definition pure_parts :: "string \<Rightarrow> string list" where
  "pure_parts name =
     (if is_absolute name then [''/''] else []) @
     filter (\<lambda>p. p \<noteq> [] \<and> p \<noteq> ''.'') (split_on (CHR ''/'') name)"

definition octal_mode :: "nat \<Rightarrow> string" where
  "octal_mode m =
     (let k = m mod 512
      in [CHR ''0'', digit_char (k div 64), digit_char (k div 8 mod 8), digit_char (k mod 8)])"

definition gzip_mtime :: "string \<Rightarrow> int dist" where
  "gzip_mtime raw =
     rbind (require (8 \<le> length raw \<and> take 2 raw = [CHR 0x1F, CHR 0x8B])
              (DistributionError ''invalid gzip header'')) (\<lambda>_.
     Inr (int (code (raw ! 4) + 256 * code (raw ! 5) + 65536 * code (raw ! 6) + 16777216 * code (raw ! 7))))"

definition member_rel_path :: "json \<Rightarrow> string \<Rightarrow> string dist" where
  "member_rel_path expected_root name =
     (let parts = pure_parts name in
      if truthy expected_root then
        rbind (require (parts \<noteq> [] \<and> JStr (hd parts) = expected_root)
                 (DistributionError (''bundle member '' @ py_repr name @ '' is outside expected root '' @
                    py_repr_json expected_root))) (\<lambda>_.
        Inr (relative_text (tl parts)))
      else
        rbind (require (name \<noteq> []) (DistributionError (''bundle member '' @ py_repr name @ '' resolved to an empty relative path'')))
          (\<lambda>_. Inr name))"

definition manifest_entry :: "outside \<Rightarrow> json \<Rightarrow> bundle_member \<Rightarrow> json dist" where
  "manifest_entry out expected_root b =
     rbind (member_rel_path expected_root (bmb_name b)) (\<lambda>rel.
     Inr (JObj [(''path'', JStr rel), (''sha256'', JStr (out_sha256 out (bmb_data b))),
                (''size'', JInt (int (length (bmb_data b)))), (''mode'', JStr (octal_mode (bmb_mode b)))]))"

definition least_of :: "int list \<Rightarrow> json" where
  "least_of xs = JInt (case xs of [] \<Rightarrow> 0 | x # ys \<Rightarrow> fold min ys x)"

definition the_only :: "string list \<Rightarrow> json" where
  "the_only xs = (case remdups xs of [x] \<Rightarrow> JStr x | _ \<Rightarrow> JNull)"

definition entry_path_key :: "json \<Rightarrow> string" where
  "entry_path_key e = str_of (jget (as_obj e) ''path'')"

record bundle_report =
  brp_files :: "json list"
  brp_build :: json

definition inspect_distribution_bundle :: "outside \<Rightarrow> json \<Rightarrow> string \<Rightarrow> bundle_report dist" where
  "inspect_distribution_bundle out expected_root raw =
     rbind (or_raise (out_members out raw) (PyError ''tarfile.ReadError'')) (\<lambda>members.
     let regular = filter bmb_isfile members in
     rbind (map_res (manifest_entry out expected_root) regular) (\<lambda>entries.
     rbind (gzip_mtime raw) (\<lambda>mtime.
     Inr \<lparr>brp_files = sort_key entry_path_key entries,
          brp_build = JObj
            [(''archive_format'', JStr ''tar.gz''), (''gzip_mtime'', JInt mtime),
             (''tar_mtime'', least_of (map bmb_mtime regular)),
             (''tar_uid'', least_of (map bmb_uid regular)), (''tar_gid'', least_of (map bmb_gid regular)),
             (''tar_uname'', the_only (map bmb_uname regular)), (''tar_gname'', the_only (map bmb_gname regular)),
             (''builder'', JObj [(''python'', JStr (fst (out_python out))),
                              (''implementation'', JStr (snd (out_python out)))])]\<rparr>)))"

section \<open>Forms for comparison\<close>

definition pick :: "string list \<Rightarrow> (string \<times> json) list \<Rightarrow> json" where
  "pick keys m = JObj (map (\<lambda>k. (k, jget m k)) keys)"

definition normalize_file_manifest :: "json \<Rightarrow> json option" where
  "normalize_file_manifest entries =
     (case entries of
        JList xs \<Rightarrow>
          if list_all is_obj xs
          then Some (JList (sort_key (\<lambda>e. py_str (json_or (jget (as_obj e) ''path'') (JStr [])))
                       (map (\<lambda>e. pick [''path'', ''sha256'', ''size'', ''mode''] (as_obj e)) xs)))
          else None
      | _ \<Rightarrow> None)"

definition normalize_build :: "json \<Rightarrow> bool \<Rightarrow> json option" where
  "normalize_build build include_builder =
     (case build of
        JObj m \<Rightarrow> Some (pick ([''archive_format'', ''gzip_mtime'', ''tar_mtime'', ''tar_uid'', ''tar_gid'',
                            ''tar_uname'', ''tar_gname''] @ (if include_builder then [''builder''] else [])) m)
      | _ \<Rightarrow> None)"

definition option_eq :: "json option \<Rightarrow> json option \<Rightarrow> bool" where
  "option_eq a b = (case (a, b) of (None, None) \<Rightarrow> True | (Some x, Some y) \<Rightarrow> json_eq x y | _ \<Rightarrow> False)"

definition load_object :: "outside \<Rightarrow> disk \<Rightarrow> abs_path \<Rightarrow> (string \<times> json) list dist" where
  "load_object out d p =
     rbind (decode_file out d p) (\<lambda>j.
     or_raise (case j of JObj m \<Rightarrow> Some m | _ \<Rightarrow> None)
       (DistributionError (''expected JSON object: '' @ path_text p)))"

text \<open>\<open>x or {}\<close>, of which a member is read next.\<close>

definition dict_or_empty :: "json \<Rightarrow> (string \<times> json) list dist" where
  "dict_or_empty j =
     (if \<not> truthy j then Inr []
      else or_raise (case j of JObj m \<Rightarrow> Some m | _ \<Rightarrow> None) (PyError ''AttributeError''))"

definition resolve_manifest_ref :: "disk \<Rightarrow> abs_path \<Rightarrow> string \<Rightarrow> abs_path \<Rightarrow> abs_path" where
  "resolve_manifest_ref d manifest ref root =
     (if is_absolute ref then under [] ref
      else if path_exists d (under root ref) then under root ref
      else under (butlast manifest) ref)"

section \<open>Schema\<close>

definition validate_manifest_skill :: "(string \<times> json) list \<Rightarrow> string list" where
  "validate_manifest_skill payload =
     (case jget payload ''skill'' of
        JObj skill \<Rightarrow> require_strings skill ''skill'' [''name'', ''version'']
      | _ \<Rightarrow> [''skill must be an object''])"

definition validate_manifest_snapshot :: "(string \<times> json) list \<Rightarrow> string list" where
  "validate_manifest_snapshot payload =
     (case jget payload ''source_snapshot'' of
        JObj snapshot \<Rightarrow>
          require_strings snapshot ''source_snapshot'' [''kind'', ''tag'', ''ref'', ''commit''] @
          concat (map (\<lambda>k. complain (\<not> is_bool (jget snapshot k)) (''source_snapshot.'' @ k @ '' must be boolean''))
                    [''immutable'', ''pushed''])
      | _ \<Rightarrow> [''source_snapshot must be an object''])"

definition validate_manifest_bundle :: "(string \<times> json) list \<Rightarrow> string list" where
  "validate_manifest_bundle payload =
     (case jget payload ''bundle'' of
        JObj bundle \<Rightarrow>
          require_strings bundle ''bundle'' [''path''] @
          complain (jget bundle ''format'' \<noteq> JStr ''tar.gz'') ''bundle.format must be tar.gz'' @
          require_strings bundle ''bundle'' [''sha256'', ''root_dir''] @
          complain (\<not> int_at_least 0 (jget bundle ''size'')) ''bundle.size must be a non-negative integer'' @
          complain (\<not> int_at_least 1 (jget bundle ''file_count'')) ''bundle.file_count must be a positive integer''
      | _ \<Rightarrow> [''bundle must be an object''])"

definition attestation_keys :: "string list" where
  "attestation_keys = [''provenance_path'', ''provenance_sha256'', ''signature_path'', ''signature_sha256'',
     ''namespace'', ''allowed_signers'']"

definition validate_formats :: "json \<Rightarrow> string list dist" where
  "validate_formats formats =
     (case formats of
        JNull \<Rightarrow> Inr []
      | JList xs \<Rightarrow>
          if xs = [] then Inr [''attestation_bundle.required_formats must be a non-empty array when present'']
          else rbind (fold_res (\<lambda>x found. if found then Inr True
                                  else rbind (one_of x [''ssh'', ''ci'']) (\<lambda>known. Inr (\<not> known))) xs False) (\<lambda>bad.
               Inr (complain bad ''attestation_bundle.required_formats entries must be ssh or ci''))
      | _ \<Rightarrow> Inr [''attestation_bundle.required_formats must be a non-empty array when present''])"

definition validate_attestation_bundle :: "(string \<times> json) list \<Rightarrow> string list dist" where
  "validate_attestation_bundle payload =
     (case jget payload ''attestation_bundle'' of
        JObj attestation \<Rightarrow>
          rbind (validate_formats (jget attestation ''required_formats'')) (\<lambda>format_errors.
          Inr (require_strings attestation ''attestation_bundle'' attestation_keys @ format_errors))
      | _ \<Rightarrow> Inr [''attestation_bundle must be an object''])"

definition validate_distribution_manifest :: "(string \<times> json) list \<Rightarrow> string list dist" where
  "validate_distribution_manifest payload =
     rbind (validate_attestation_bundle payload) (\<lambda>attestation_errors.
     Inr (complain (jget payload ''kind'' \<noteq> JStr ''skill-distribution-manifest'')
            ''kind must be skill-distribution-manifest'' @
          complain (\<not> json_eq (jget payload ''schema_version'') (JInt 1)) ''schema_version must be 1'' @
          validate_manifest_skill payload @ validate_manifest_snapshot payload @
          validate_manifest_bundle payload @ validate_context payload ''registry'' @
          validate_context payload ''dependencies'' @ attestation_errors))"

section \<open>Building a manifest\<close>

definition skill_keys :: "string list" where
  "skill_keys = [''name'', ''publisher'', ''qualified_name'', ''identity_mode'', ''version'', ''status'', ''summary'',
     ''author'', ''owners'', ''maintainers'', ''depends_on'', ''conflicts_with'']"

definition bundle_keys :: "string list" where
  "bundle_keys = [''path'', ''format'', ''sha256'', ''size'', ''root_dir'', ''file_count'']"

definition with_suffix_added :: "abs_path \<Rightarrow> string \<Rightarrow> abs_path dist" where
  "with_suffix_added p ext =
     (let n = file_name p; s = name_suffix n @ ext in
      rbind (require (n \<noteq> [] \<and> CHR ''/'' \<notin> set s \<and> (s = [] \<or> (starts_with ''.'' s \<and> s \<noteq> ''.'')))
               (PyError ''ValueError'')) (\<lambda>_.
      Inr (with_name p (name_stem n @ s))))"

definition seconds_text :: "time \<Rightarrow> string" where
  "seconds_text now = isoformat_z (now - now mod 1000000)"

definition ci_references :: "outside \<Rightarrow> disk \<Rightarrow> abs_path \<Rightarrow> abs_path \<Rightarrow> (string \<times> json) list dist" where
  "ci_references out d root provenance =
     (let ci = companion_ci_path provenance in
      if path_exists d ci
      then rbind (sha256_file out d ci) (\<lambda>digest.
           Inr [(''ci_provenance_path'', JStr (relative_from_root root ci)), (''ci_provenance_sha256'', JStr digest)])
      else Inr [])"

definition build_distribution_manifest_payload ::
    "outside \<Rightarrow> disk \<Rightarrow> json dist \<Rightarrow> abs_path \<Rightarrow> abs_path \<Rightarrow> abs_path \<Rightarrow> abs_path \<Rightarrow> time \<Rightarrow> (string \<times> json) list dist" where
  "build_distribution_manifest_payload out d signing_domain provenance_file bundle_file root attestation_root now =
     rbind (load_object out d provenance_file) (\<lambda>provenance.
     rbind (dict_or_empty (jget provenance ''distribution'')) (\<lambda>distribution.
     rbind (require (truthy (jget distribution ''bundle''))
              (DistributionError ''attestation payload is missing distribution.bundle metadata'')) (\<lambda>_.
     rbind (dict_or_empty (jget distribution ''bundle'')) (\<lambda>signed_bundle.
     rbind (read_bytes d bundle_file) (\<lambda>raw.
     rbind (inspect_distribution_bundle out (jget signed_bundle ''root_dir'') raw) (\<lambda>report.
     rbind (dict_or_empty (jget provenance ''attestation'')) (\<lambda>attestation.
     rbind (or_raise (jstr (jget_default attestation ''signature_ext'' (JStr ''.ssig''))) (PyError ''TypeError'')) (\<lambda>ext.
     rbind (with_suffix_added provenance_file ext) (\<lambda>signature_file.
     rbind (require (path_exists d signature_file)
              (DistributionError (''missing attestation signature: '' @ path_text signature_file))) (\<lambda>_.
     rbind (attestation_config attestation_root signing_domain) (\<lambda>cfg.
     rbind (dict_or_empty (jget provenance ''skill'')) (\<lambda>skill.
     rbind (sha256_file out d provenance_file) (\<lambda>provenance_digest.
     rbind (sha256_file out d signature_file) (\<lambda>signature_digest.
     rbind (ci_references out d root provenance_file) (\<lambda>ci.
     Inr [(''$schema'', JStr ''schemas/distribution-manifest.schema.json''), (''schema_version'', JInt 1),
          (''kind'', JStr ''skill-distribution-manifest''), (''generated_at'', JStr (seconds_text now)),
          (''skill'', pick skill_keys skill), (''source_snapshot'', jget provenance ''source_snapshot''),
          (''bundle'', pick bundle_keys signed_bundle),
          (''file_manifest'', json_or (jget distribution ''file_manifest'') (JList (brp_files report))),
          (''build'', json_or (jget distribution ''build'') (brp_build report)),
          (''registry'', jget provenance ''registry''), (''dependencies'', jget provenance ''dependencies''),
          (''attestation_bundle'', JObj
             ([(''provenance_path'', JStr (relative_from_root root provenance_file)),
               (''provenance_sha256'', JStr provenance_digest),
               (''signature_path'', JStr (relative_from_root root signature_file)),
               (''signature_sha256'', JStr signature_digest),
               (''signer_identity'', jget attestation ''signer_identity''),
               (''namespace'', jget attestation ''namespace''),
               (''allowed_signers'', jget attestation ''allowed_signers''),
               (''required_formats'', JList (JStr ''ssh'' # (if requires_ci cfg then [JStr ''ci''] else [])))] @ ci))]
     )))))))))))))))"

section \<open>Verification\<close>

definition load_manifest :: "outside \<Rightarrow> disk \<Rightarrow> abs_path \<Rightarrow> (string \<times> json) list dist" where
  "load_manifest out d manifest =
     (case load_object out d manifest of
        Inl _ \<Rightarrow> Inl (DistributionError (''could not parse distribution manifest '' @ path_text manifest))
      | Inr payload \<Rightarrow>
          rbind (validate_distribution_manifest payload) (\<lambda>errors.
          rbind (require (errors = []) (DistributionError (join ''; '' errors))) (\<lambda>_. Inr payload)))"

definition existing_ref :: "disk \<Rightarrow> abs_path \<Rightarrow> abs_path \<Rightarrow> string \<Rightarrow> json \<Rightarrow> abs_path dist" where
  "existing_ref d root manifest label ref =
     (let p = resolve_manifest_ref d manifest (str_of ref) root in
      rbind (require (path_exists d p) (DistributionError (''missing '' @ label @ '': '' @ path_text p))) (\<lambda>_. Inr p))"

definition check_digest :: "outside \<Rightarrow> disk \<Rightarrow> abs_path \<Rightarrow> json \<Rightarrow> string \<Rightarrow> unit dist" where
  "check_digest out d p expected label =
     rbind (sha256_file out d p) (\<lambda>digest.
     require (expected = JStr digest) (DistributionError (label @ '' digest does not match manifest'')))"

definition verify_artifact_metadata ::
    "outside \<Rightarrow> disk \<Rightarrow> (string \<times> json) list \<Rightarrow> abs_path \<Rightarrow> abs_path \<Rightarrow> abs_path \<Rightarrow> unit dist" where
  "verify_artifact_metadata out d payload provenance signature bundle =
     (let attestation = as_obj (jget payload ''attestation_bundle''); b = as_obj (jget payload ''bundle'') in
      rbind (check_digest out d provenance (jget attestation ''provenance_sha256'') ''attestation payload'') (\<lambda>_.
      rbind (check_digest out d signature (jget attestation ''signature_sha256'') ''attestation signature'') (\<lambda>_.
      rbind (check_digest out d bundle (jget b ''sha256'') ''bundle'') (\<lambda>_.
      rbind (read_bytes d bundle) (\<lambda>raw.
      require (json_eq (jget b ''size'') (JInt (int (length raw))))
        (DistributionError ''bundle size does not match manifest''))))))"

definition attestation_failed :: "dist_error \<Rightarrow> dist_error" where
  "attestation_failed e = (case e of AttestationError m \<Rightarrow> DistributionError m | _ \<Rightarrow> e)"

definition verify_attestation_formats ::
    "outside \<Rightarrow> disk \<Rightarrow> json dist \<Rightarrow> abs_path \<Rightarrow> (string \<times> json) list \<Rightarrow> abs_path \<Rightarrow> abs_path \<Rightarrow> abs_path \<Rightarrow> attested dist" where
  "verify_attestation_formats out d signing_domain manifest payload provenance root attestation_root =
     rbind (reraise attestation_failed
              (verify_attestation out d signing_domain provenance None None None attestation_root)) (\<lambda>r.
     let attestation = as_obj (jget payload ''attestation_bundle'');
         required = (case jget attestation ''required_formats'' of JList xs \<Rightarrow> xs | _ \<Rightarrow> [JStr ''ssh'']);
         verified = atd_formats r
     in rbind (if JStr ''ci'' \<in> set required \<and> ''ci'' \<notin> set verified then
                 (let ci = (if truthy (jget attestation ''ci_provenance_path'')
                            then resolve_manifest_ref d manifest (str_of (jget attestation ''ci_provenance_path'')) root
                            else companion_ci_path provenance)
                  in rbind (require (path_exists d ci)
                              (DistributionError (''missing CI attestation payload: '' @ path_text ci))) (\<lambda>_.
                     rbind (reraise attestation_failed
                              (verify_ci_attestation out d ci (attestation_config attestation_root signing_domain)))
                       (\<lambda>_. Inr (verified @ [''ci'']))))
               else Inr verified) (\<lambda>verified.
        rbind (require (\<not> (JStr ''ssh'' \<in> set required \<and> ''ssh'' \<notin> set verified))
                 (DistributionError ''distribution manifest requires SSH attestation verification'')) (\<lambda>_.
        Inr (r\<lparr>atd_formats := sort verified\<rparr>))))"

definition actual_bundle_metadata ::
    "outside \<Rightarrow> (string \<times> json) list \<Rightarrow> (string \<times> json) list \<Rightarrow> json \<Rightarrow> string \<Rightarrow> bundle_report option dist" where
  "actual_bundle_metadata out payload signed_distribution root_dir raw =
     (if list_ex truthy [jget payload ''file_manifest'', jget signed_distribution ''file_manifest'',
                         jget payload ''build'', jget signed_distribution ''build'']
      then rbind (inspect_distribution_bundle out root_dir raw) (\<lambda>r. Inr (Some r))
      else Inr None)"

definition core_fields ::
    "(string \<times> json) list \<Rightarrow> (string \<times> json) list \<Rightarrow> (string \<times> json) list \<Rightarrow> (string \<times> json \<times> json) list" where
  "core_fields payload provenance signed_bundle =
     (let m = (\<lambda>k f. jget (as_obj (jget payload k)) f); p = (\<lambda>k f. jget (as_obj (jget provenance k)) f) in
      [(''skill.name'', m ''skill'' ''name'', p ''skill'' ''name''),
       (''skill.version'', m ''skill'' ''version'', p ''skill'' ''version''),
       (''source_snapshot.tag'', m ''source_snapshot'' ''tag'', p ''source_snapshot'' ''tag''),
       (''source_snapshot.commit'', m ''source_snapshot'' ''commit'', p ''source_snapshot'' ''commit''),
       (''bundle.path'', m ''bundle'' ''path'', jget signed_bundle ''path''),
       (''bundle.sha256'', m ''bundle'' ''sha256'', jget signed_bundle ''sha256''),
       (''bundle.format'', m ''bundle'' ''format'', jget signed_bundle ''format''),
       (''bundle.root_dir'', m ''bundle'' ''root_dir'', jget signed_bundle ''root_dir'')])"

definition verify_signed_core_fields ::
    "(string \<times> json) list \<Rightarrow> (string \<times> json) list \<Rightarrow> (string \<times> json) list \<Rightarrow> unit dist" where
  "verify_signed_core_fields payload provenance signed_bundle =
     (case find (\<lambda>(label, a, b). \<not> json_eq a b) (core_fields payload provenance signed_bundle) of
        None \<Rightarrow> Inr ()
      | Some (label, _) \<Rightarrow> Inl (DistributionError (label @ '' does not match signed attestation payload'')))"

definition none_if_empty :: "json \<Rightarrow> json" where
  "none_if_empty j = (case j of JList [] \<Rightarrow> JNull | _ \<Rightarrow> j)"

definition none_if_no_members :: "json \<Rightarrow> json" where
  "none_if_no_members j = (case j of JObj [] \<Rightarrow> JNull | _ \<Rightarrow> j)"

definition verify_file_manifest :: "json \<Rightarrow> json \<Rightarrow> bundle_report option \<Rightarrow> unit dist" where
  "verify_file_manifest payload_manifest signed_manifest actual_metadata =
     (let given = none_if_empty payload_manifest;
          signed = normalize_file_manifest signed_manifest;
          actual = (case actual_metadata of None \<Rightarrow> None | Some r \<Rightarrow> normalize_file_manifest (JList (brp_files r)));
          unsigned = DistributionError ''file manifest does not match signed attestation payload''
      in if given \<noteq> JNull then
           rbind (or_raise (normalize_file_manifest given)
                    (DistributionError ''distribution manifest file_manifest metadata is invalid'')) (\<lambda>manifest.
           rbind (require (signed = None \<or> option_eq (Some manifest) signed) unsigned) (\<lambda>_.
           require (option_eq actual (Some manifest))
             (DistributionError ''file manifest does not match distribution bundle contents'')))
         else require (signed = None \<or> option_eq actual signed) unsigned)"

definition verify_build_metadata :: "json \<Rightarrow> json \<Rightarrow> bundle_report option \<Rightarrow> unit dist" where
  "verify_build_metadata payload_build signed_build actual_metadata =
     (let given = none_if_no_members payload_build;
          signed = normalize_build signed_build True;
          actual = (case actual_metadata of None \<Rightarrow> None | Some r \<Rightarrow> normalize_build (brp_build r) False);
          unsigned = DistributionError ''build metadata does not match signed attestation payload''
      in if given \<noteq> JNull then
           rbind (or_raise (normalize_build given True)
                    (DistributionError ''distribution manifest build metadata is invalid'')) (\<lambda>manifest.
           rbind (require (signed = None \<or> option_eq (Some manifest) signed) unsigned) (\<lambda>_.
           require (option_eq actual (normalize_build given False))
             (DistributionError ''build metadata does not match distribution bundle contents'')))
         else require (signed = None \<or> option_eq actual (normalize_build signed_build False)) unsigned)"

record verified_distribution =
  vdi_bundle_path :: abs_path
  vdi_provenance_path :: abs_path
  vdi_signature_path :: abs_path
  vdi_attestation :: attested
  vdi_manifest :: "(string \<times> json) list"
  vdi_provenance :: "(string \<times> json) list"

definition verify_distribution_manifest ::
    "outside \<Rightarrow> disk \<Rightarrow> json dist \<Rightarrow> abs_path \<Rightarrow> abs_path \<Rightarrow> abs_path \<Rightarrow> verified_distribution dist" where
  "verify_distribution_manifest out d signing_domain manifest root attestation_root =
     rbind (load_manifest out d manifest) (\<lambda>payload.
     let refs = as_obj (jget payload ''attestation_bundle'') in
     rbind (existing_ref d root manifest ''attestation payload'' (jget refs ''provenance_path'')) (\<lambda>provenance_path.
     rbind (existing_ref d root manifest ''attestation signature'' (jget refs ''signature_path'')) (\<lambda>signature_path.
     rbind (existing_ref d root manifest ''distribution bundle'' (jget (as_obj (jget payload ''bundle'')) ''path''))
       (\<lambda>bundle_path.
     rbind (verify_artifact_metadata out d payload provenance_path signature_path bundle_path) (\<lambda>_.
     rbind (verify_attestation_formats out d signing_domain manifest payload provenance_path root attestation_root)
       (\<lambda>attestation.
     rbind (load_object out d provenance_path) (\<lambda>provenance.
     rbind (dict_or_empty (jget provenance ''distribution'')) (\<lambda>signed_distribution.
     rbind (require (truthy (jget signed_distribution ''bundle''))
              (DistributionError ''attestation is missing distribution.bundle metadata'')) (\<lambda>_.
     rbind (dict_or_empty (jget signed_distribution ''bundle'')) (\<lambda>signed_bundle.
     rbind (read_bytes d bundle_path) (\<lambda>raw.
     rbind (actual_bundle_metadata out payload signed_distribution (jget signed_bundle ''root_dir'') raw) (\<lambda>actual.
     rbind (verify_signed_core_fields payload provenance signed_bundle) (\<lambda>_.
     rbind (verify_file_manifest (jget payload ''file_manifest'') (jget signed_distribution ''file_manifest'') actual) (\<lambda>_.
     rbind (verify_build_metadata (jget payload ''build'') (jget signed_distribution ''build'') actual) (\<lambda>_.
     rbind (require (json_eq (jget payload ''registry'') (jget provenance ''registry''))
              (DistributionError ''registry context does not match signed attestation payload'')) (\<lambda>_.
     rbind (require (json_eq (jget payload ''dependencies'') (jget provenance ''dependencies''))
              (DistributionError ''dependency context does not match signed attestation payload'')) (\<lambda>_.
     Inr \<lparr>vdi_bundle_path = bundle_path, vdi_provenance_path = provenance_path, vdi_signature_path = signature_path,
          vdi_attestation = attestation, vdi_manifest = payload, vdi_provenance = provenance\<rparr>)))))))))))))))))"

text \<open>The path of the manifest: absolute, else below the root if it is there, else below the
  working directory.\<close>

definition locate_manifest :: "disk \<Rightarrow> abs_path \<Rightarrow> abs_path \<Rightarrow> string \<Rightarrow> abs_path" where
  "locate_manifest d root cwd ref =
     (if is_absolute ref then under [] ref
      else if path_exists d (under root ref) then under root ref else under cwd ref)"

section \<open>What a verified distribution guarantees\<close>

lemma reraise_Inr: "reraise h m = Inr x \<longleftrightarrow> m = Inr x"
  by (cases m) (simp_all add: reraise_def)

definition signed_by_trusted_key ::
    "outside \<Rightarrow> disk \<Rightarrow> json dist \<Rightarrow> abs_path \<Rightarrow> (string \<times> json) list \<Rightarrow> string \<Rightarrow> bool" where
  "signed_by_trusted_key out d signing_domain root attestation message \<longleftrightarrow>
     (\<exists>cfg keys who ns sig output.
        attestation_config root signing_domain = Inr cfg \<and> read_file d (acf_allowed_path cfg) = Some keys \<and>
        filter (\<lambda>l. l \<noteq> [] \<and> \<not> starts_with ''#'' l) (map strip (split_lines keys)) \<noteq> [] \<and>
        acf_namespace cfg = JStr ns \<and> jget attestation ''signer_identity'' = JStr who \<and>
        jget attestation ''allowed_signers'' = JStr (acf_allowed_signers cfg) \<and>
        out_ssh_verify out keys who ns sig (universal_newlines message) = (True, output))"

lemma ssh_attested:
  assumes "verify_ssh_attestation out d p j cfg None None None root = Inr r"
    and "read_file d p = Some message" and "attestation_config root signing_domain = Inr cfg"
  shows "signed_by_trusted_key out d signing_domain root (as_obj (jget (as_obj j) ''attestation'')) message"
  using assms
  by (auto simp: verify_ssh_attestation_def res_simps chosen_signers_def chosen_namespace_def truthy_text_def
        signer_entries_def read_bytes_def Let_def signed_by_trusted_key_def jstr_def as_obj_def
        split: if_splits json.splits option.splits prod.splits)

lemma formats_verified:
  assumes "verify_attestation_formats out d signing_domain manifest payload p root attestation_root = Inr r"
  shows "\<exists>j cfg r0. parse_attestation out d p = Inr j \<and> attestation_config attestation_root signing_domain = Inr cfg \<and>
     (jget (domain_object j ''attestation'') ''format'' \<noteq> JStr ''ci'' \<longrightarrow>
        verify_ssh_attestation out d p j cfg None None None attestation_root = Inr r0)"
proof -
  obtain r1 where "verify_attestation out d signing_domain p None None None attestation_root = Inr r1"
    using assms by (auto simp: verify_attestation_formats_def res_simps)
  then obtain j cfg r2 where j: "parse_attestation out d p = Inr j" "attestation_config attestation_root signing_domain = Inr cfg"
      "(if jget (domain_object j ''attestation'') ''format'' = JStr ''ci''
        then verify_ci_format out d cfg p None None None attestation_root
        else verify_ssh_format out d cfg p j None None None attestation_root) = Inr r2"
    unfolding verify_attestation_def rbind_Inr_iff by blast
  show ?thesis
  proof (cases "jget (domain_object j ''attestation'') ''format'' = JStr ''ci''")
    case False
    with j(3) obtain r0 where "verify_ssh_attestation out d p j cfg None None None attestation_root = Inr r0"
      by (auto simp: verify_ssh_format_def rbind_Inr_iff)
    with j show ?thesis by blast
  qed (use j in blast)
qed

lemma parse_attestation_reads:
  "parse_attestation out d p = Inr j \<Longrightarrow> \<exists>raw. read_file d p = Some raw \<and> out_decode out raw = Some j"
  by (auto simp: parse_attestation_def decode_file_def read_bytes_def res_simps split: sum.splits)

lemma obj_case: "(case j of JObj m \<Rightarrow> Some m | _ \<Rightarrow> None) = Some x \<longleftrightarrow> j = JObj x"
  by (cases j) auto

lemma load_object_Inr:
  "load_object out d p = Inr m \<longleftrightarrow> (\<exists>raw. read_file d p = Some raw \<and> out_decode out raw = Some (JObj m))"
  by (auto simp: load_object_def decode_file_def read_bytes_def res_simps obj_case)

lemma dict_or_empty_as_obj: "dict_or_empty j = Inr m \<Longrightarrow> m = as_obj j"
  by (cases j) (auto simp: dict_or_empty_def as_obj_def split: if_splits)

text \<open>C31. What a verified distribution guarantees.  When the verification of a manifest succeeds, the
  bundle on disk has the digest and the size the manifest gives and the digest the attestation
  payload gives; the name, version and source commit of the manifest are those of the payload; a
  non-empty list of files in the manifest is the list of files in the bundle; and unless the
  payload calls itself a CI attestation, \<open>ssh-keygen\<close> has accepted, for the bytes of that payload
  and the signer it names, a signature under the repository's own allowed-signers file, which is
  not empty, and the repository's namespace.\<close>

theorem verified_distribution_trusted:
  assumes "verify_distribution_manifest out d signing_domain manifest root attestation_root = Inr v"
  shows "\<exists>bundle message. read_file d (vdi_bundle_path v) = Some bundle \<and>
     read_file d (vdi_provenance_path v) = Some message \<and>
     out_decode out message = Some (JObj (vdi_provenance v)) \<and>
     jget (as_obj (jget (vdi_manifest v) ''bundle'')) ''sha256'' = JStr (out_sha256 out bundle) \<and>
     jget (domain_object (jget (vdi_provenance v) ''distribution'') ''bundle'') ''sha256'' = JStr (out_sha256 out bundle) \<and>
     json_eq (jget (as_obj (jget (vdi_manifest v) ''bundle'')) ''size'') (JInt (int (length bundle))) \<and>
     list_all (\<lambda>(o1, f). json_eq (jget (as_obj (jget (vdi_manifest v) o1)) f) (jget (as_obj (jget (vdi_provenance v) o1)) f))
       [(''skill'', ''name''), (''skill'', ''version''), (''source_snapshot'', ''commit'')] \<and>
     (is_list (jget (vdi_manifest v) ''file_manifest'') \<and> jget (vdi_manifest v) ''file_manifest'' \<noteq> JList [] \<longrightarrow>
        (\<exists>r. inspect_distribution_bundle out
               (jget (domain_object (jget (vdi_provenance v) ''distribution'') ''bundle'') ''root_dir'') bundle = Inr r \<and>
             option_eq (normalize_file_manifest (JList (brp_files r)))
               (normalize_file_manifest (jget (vdi_manifest v) ''file_manifest'')))) \<and>
     (jget (as_obj (jget (vdi_provenance v) ''attestation'')) ''format'' \<noteq> JStr ''ci'' \<longrightarrow>
        signed_by_trusted_key out d signing_domain attestation_root
          (as_obj (jget (vdi_provenance v) ''attestation'')) message)"
proof -
  obtain payload pp sp bp att prov sd sb raw actual where
    arts: "verify_artifact_metadata out d payload pp sp bp = Inr ()" and
    fmt: "verify_attestation_formats out d signing_domain manifest payload pp root attestation_root = Inr att" and
    prov: "load_object out d pp = Inr prov" and
    sd: "dict_or_empty (jget prov ''distribution'') = Inr sd" and
    sb: "dict_or_empty (jget sd ''bundle'') = Inr sb" and
    raw: "read_bytes d bp = Inr raw" and
    actual: "actual_bundle_metadata out payload sd (jget sb ''root_dir'') raw = Inr actual" and
    core: "verify_signed_core_fields payload prov sb = Inr ()" and
    files: "verify_file_manifest (jget payload ''file_manifest'') (jget sd ''file_manifest'') actual = Inr ()" and
    v: "v = \<lparr>vdi_bundle_path = bp, vdi_provenance_path = pp, vdi_signature_path = sp,
          vdi_attestation = att, vdi_manifest = payload, vdi_provenance = prov\<rparr>"
    using assms unfolding verify_distribution_manifest_def Let_def rbind_Inr_iff by auto
  have sb': "sb = domain_object (jget prov ''distribution'') ''bundle''"
    using dict_or_empty_as_obj [OF sd] dict_or_empty_as_obj [OF sb] by (simp add: domain_object_def)
  have on_disk: "read_file d bp = Some raw" using raw by (simp add: read_bytes_def)
  have digest: "jget (as_obj (jget payload ''bundle'')) ''sha256'' = JStr (out_sha256 out raw)"
      "json_eq (jget (as_obj (jget payload ''bundle'')) ''size'') (JInt (int (length raw)))"
    using arts raw
    by (auto simp: verify_artifact_metadata_def check_digest_def sha256_file_def res_simps Let_def)
  have none: "find (\<lambda>(label, a, b). \<not> json_eq a b) (core_fields payload prov sb) = None"
    using core by (auto simp: verify_signed_core_fields_def split: option.splits)
  have same: "list_all (\<lambda>(label, a, b). json_eq a b) (core_fields payload prov sb)"
    using none by (auto simp: find_None_iff list_all_iff)
  obtain message where message: "read_file d pp = Some message" "out_decode out message = Some (JObj prov)"
    using prov by (auto simp: load_object_Inr)
  obtain j cfg r0 where j: "parse_attestation out d pp = Inr j" "attestation_config attestation_root signing_domain = Inr cfg"
      "jget (domain_object j ''attestation'') ''format'' \<noteq> JStr ''ci'' \<longrightarrow>
        verify_ssh_attestation out d pp j cfg None None None attestation_root = Inr r0"
    using formats_verified [OF fmt] by blast
  have j_prov: "j = JObj prov" using parse_attestation_reads [OF j(1)] message by simp
  have signed: "signed_by_trusted_key out d signing_domain attestation_root (as_obj (jget prov ''attestation'')) message"
    if "jget (as_obj (jget prov ''attestation'')) ''format'' \<noteq> JStr ''ci''"
  proof -
    have "verify_ssh_attestation out d pp (JObj prov) cfg None None None attestation_root = Inr r0"
      using j(3) that by (simp add: j_prov domain_object_def)
    from ssh_attested [OF this message(1) j(2)] show ?thesis by simp
  qed
  have listed: "\<exists>r. inspect_distribution_bundle out (jget sb ''root_dir'') raw = Inr r \<and>
      option_eq (normalize_file_manifest (JList (brp_files r))) (normalize_file_manifest (jget payload ''file_manifest''))"
    if l: "is_list (jget payload ''file_manifest'')" "jget payload ''file_manifest'' \<noteq> JList []"
  proof -
    have given: "none_if_empty (jget payload ''file_manifest'') = jget payload ''file_manifest''"
        "jget payload ''file_manifest'' \<noteq> JNull" "truthy (jget payload ''file_manifest'')"
      using l by (auto simp: none_if_empty_def is_list_def split: json.splits list.splits)
    have "list_ex truthy [jget payload ''file_manifest'', jget sd ''file_manifest'', jget payload ''build'', jget sd ''build'']"
      using given(3) by simp
    then obtain r where r: "inspect_distribution_bundle out (jget sb ''root_dir'') raw = Inr r" "actual = Some r"
      using actual unfolding actual_bundle_metadata_def by (auto simp: rbind_Inr_iff)
    have "option_eq (normalize_file_manifest (JList (brp_files r))) (normalize_file_manifest (jget payload ''file_manifest''))"
      using files given(1,2) r(2) by (auto simp: verify_file_manifest_def Let_def res_simps)
    with r(1) show ?thesis by blast
  qed
  have core_same: "json_eq (jget (as_obj (jget payload ''skill'')) ''name'') (jget (as_obj (jget prov ''skill'')) ''name'')"
      "json_eq (jget (as_obj (jget payload ''skill'')) ''version'') (jget (as_obj (jget prov ''skill'')) ''version'')"
      "json_eq (jget (as_obj (jget payload ''source_snapshot'')) ''commit'') (jget (as_obj (jget prov ''source_snapshot'')) ''commit'')"
      "json_eq (jget (as_obj (jget payload ''bundle'')) ''sha256'') (jget sb ''sha256'')"
    using same by (simp_all add: core_fields_def)
  then have "jget sb ''sha256'' = JStr (out_sha256 out raw)" by (simp add: digest(1))
  with core_same(1-3) on_disk message digest listed signed show ?thesis
    unfolding v sb' by (intro exI [of _ raw] exI [of _ message]) simp
qed

end
