(* ===== verification/DistributionCases.thy ===== *)
theory DistributionCases
  imports Distribution
begin

text \<open>
  A small world with one signed release, in which distribution manifests are verified: a genuine
  one, and one whose attestation calls itself a CI attestation.
\<close>

section \<open>The world\<close>

definition signed_bundle_of :: "string \<Rightarrow> json" where
  "signed_bundle_of data =
     JObj [(''path'', JStr ''bundle.tar.gz''), (''format'', JStr ''tar.gz''), (''sha256'', JStr (CHR ''#'' # data)),
           (''size'', JInt (int (length data))), (''root_dir'', JStr ''demo''), (''file_count'', JInt 1)]"

definition case_skill :: json where
  "case_skill = JObj [(''name'', JStr ''demo''), (''version'', JStr ''1.0.0''), (''path'', JStr ''skills/demo'')]"

definition case_snapshot :: json where
  "case_snapshot =
     JObj [(''kind'', JStr ''git-tag''), (''tag'', JStr ''v1''), (''ref'', JStr ''refs/tags/v1''), (''commit'', JStr ''c1''),
           (''immutable'', JBool True), (''pushed'', JBool False)]"

definition case_registry :: json where
  "case_registry = JObj [(''registries_consulted'', JList []), (''resolved'', JList [])]"

definition case_dependencies :: json where
  "case_dependencies = JObj [(''steps'', JList []), (''registries_consulted'', JList [])]"

definition case_attestation :: "string \<Rightarrow> json" where
  "case_attestation form =
     JObj [(''format'', JStr form), (''policy_mode'', JStr ''enforce''), (''generator'', JStr ''ci''),
           (''namespace'', JStr ''infinitas-skill''), (''allowed_signers'', JStr ''config/allowed_signers''),
           (''signature_file'', JStr ''p.json.ssig''), (''signature_ext'', JStr ''.ssig''),
           (''signer_identity'', JStr ''alice''),
           (''require_verified_attestation_for_release_output'', JBool True),
           (''require_verified_attestation_for_distribution'', JBool True)]"

definition case_payload :: "string \<Rightarrow> string \<Rightarrow> (string \<times> json) list" where
  "case_payload form data =
     [(''kind'', JStr ''skill-release-attestation''), (''schema_version'', JInt 1), (''skill'', case_skill),
      (''git'', JObj [(''commit'', JStr ''c1''), (''expected_tag'', JStr ''v1''), (''release_ref'', JStr ''refs/tags/v1''),
                    (''signed_tag_verified'', JBool True)]),
      (''source_snapshot'', case_snapshot), (''registry'', case_registry), (''dependencies'', case_dependencies),
      (''review'', JObj [(''reviewers'', JList [])]),
      (''release'', JObj [(''release_mode'', JStr ''local-tag''), (''transfer_required'', JBool False),
                        (''transfer_authorized'', JBool True), (''authorized_signers'', JList []),
                        (''authorized_releasers'', JList []), (''transfer_matches'', JList []),
                        (''competing_claims'', JList [])]),
      (''attestation'', case_attestation form),
      (''ci'', JObj [(''provider'', JStr ''x''), (''repository'', JStr ''x''), (''workflow'', JStr ''x''), (''run_id'', JStr ''1''),
                   (''run_attempt'', JStr ''1''), (''sha'', JStr ''c1''), (''ref'', JStr ''refs/tags/v1'')]),
      (''distribution'', JObj [(''bundle'', signed_bundle_of data)])]"

definition case_manifest :: "string \<Rightarrow> string \<Rightarrow> string \<Rightarrow> (string \<times> json) list" where
  "case_manifest provenance raw data =
     [(''kind'', JStr ''skill-distribution-manifest''), (''schema_version'', JInt 1), (''skill'', case_skill),
      (''source_snapshot'', case_snapshot), (''bundle'', signed_bundle_of data), (''registry'', case_registry),
      (''dependencies'', case_dependencies),
      (''attestation_bundle'', JObj [(''provenance_path'', JStr provenance), (''provenance_sha256'', JStr (CHR ''#'' # raw)),
         (''signature_path'', JStr ''p.json.ssig''), (''signature_sha256'', JStr ''#G''),
         (''namespace'', JStr ''infinitas-skill''), (''allowed_signers'', JStr ''config/allowed_signers''),
         (''required_formats'', JList [JStr ''ssh''])])]"

text \<open>
  The bytes \<open>S\<close> are the one message a trusted key has signed, the payload of the bundle \<open>good\<close>; the
  bytes \<open>P\<close> are a payload nobody signed, made for the bundle \<open>data\<close>.
\<close>

definition case_world :: "string \<Rightarrow> outside" where
  "case_world data =
     \<lparr>out_sha256 = (\<lambda>x. CHR ''#'' # x),
      out_decode = (\<lambda>x. map_of [(''M'', JObj (case_manifest ''p.json'' ''S'' ''good'')),
                             (''N'', JObj (case_manifest ''p.ci.json'' ''P'' data)),
                             (''S'', JObj (case_payload ''ssh'' ''good'')), (''P'', JObj (case_payload ''ci'' data))] x),
      out_members = (\<lambda>_. None), out_python = (''3'', ''c''),
      out_ssh_verify = (\<lambda>_ _ _ sig message. (sig = ''G'' \<and> message = ''S'', []))\<rparr>"

definition case_disk :: "string \<Rightarrow> disk" where
  "case_disk data =
     [([''r'', ''m.json''], ''M''), ([''r'', ''n.json''], ''N''), ([''r'', ''p.json''], ''S''), ([''r'', ''p.ci.json''], ''P''),
      ([''r'', ''p.json.ssig''], ''G''), ([''r'', ''bundle.tar.gz''], data),
      ([''a'', ''config'', ''allowed_signers''], ''alice key'')]"

lemmas case_defs = case_world_def case_disk_def case_manifest_def case_payload_def case_attestation_def
  case_dependencies_def case_registry_def case_snapshot_def case_skill_def signed_bundle_of_def

lemmas path_defs = under_def is_absolute_def is_relative_to_def path_exists_def read_file_def
  with_name_def file_name_def

lemma case_config:
  "attestation_config [''a''] (Inr (JObj [])) =
     Inr \<lparr>acf_format = JStr ''ssh'', acf_namespace = JStr ''infinitas-skill'',
          acf_allowed_signers = ''config/allowed_signers'', acf_allowed_path = [''a'', ''config'', ''allowed_signers''],
          acf_signature_ext = JStr ''.ssig'', acf_signing_key_env = JStr ''INFINITAS_SKILL_GIT_SIGNING_KEY'',
          acf_policy_mode = JStr ''enforce'', acf_trust_mode = ''ssh'',
          acf_ci = map (\<lambda>k. (k, JNull)) [''provider'', ''issuer'', ''repository'', ''workflow''],
          acf_log_mode = ''disabled'', acf_log_endpoint = None, acf_log_timeout = 5,
          acf_require_release = True, acf_require_distribution = True\<rparr>"
  by code_simp

lemma strip_hash: "strip (CHR ''#'' # s) \<noteq> []"
proof -
  have "\<not> is_space (CHR ''#'')" by code_simp
  then show ?thesis
    by (simp add: strip_def lstrip_def rstrip_def dropWhile_eq_Nil_conv)
qed

lemmas schema_defs = validate_provenance_payload_def release_mode_def validate_payload_attestation_def one_of_def
  validate_payload_skill_def validate_payload_git_def validate_payload_snapshot_def validate_context_def
  context_arrays_def validate_review_and_release_def validate_payload_ci_def validate_payload_distribution_def
  validate_bundle_fields_def require_strings_def complain_def null_or_def is_list_def is_bool_def int_at_least_def
  text_value_def validate_distribution_manifest_def validate_attestation_bundle_def validate_formats_def
  attestation_keys_def str_of_def validate_manifest_skill_def validate_manifest_snapshot_def validate_manifest_bundle_def

lemma fixed_texts [simp]:
  "strip ''demo'' = ''demo''" "strip ''1.0.0'' = ''1.0.0''" "strip ''skills/demo'' = ''skills/demo''"
  "strip ''v1'' = ''v1''" "strip ''refs/tags/v1'' = ''refs/tags/v1''" "strip ''c1'' = ''c1''"
  "strip ''git-tag'' = ''git-tag''" "strip ''infinitas-skill'' = ''infinitas-skill''"
  "strip ''config/allowed_signers'' = ''config/allowed_signers''" "strip ''p.json.ssig'' = ''p.json.ssig''"
  "strip ''.ssig'' = ''.ssig''" "strip ''alice'' = ''alice''" "strip ''x'' = ''x''" "strip ''1'' = ''1''" "strip ''ci'' = ''ci''"
  "strip ''bundle.tar.gz'' = ''bundle.tar.gz''" "strip ''p.json'' = ''p.json''" "strip ''p.ci.json'' = ''p.ci.json''"
  by code_simp+

lemma case_valid:
  "validate_provenance_payload (JObj (case_payload ''ssh'' data)) = Inr []"
  "validate_provenance_payload (JObj (case_payload ''ci'' data)) = Inr []"
  "validate_distribution_manifest (case_manifest ''p.json'' ''S'' data) = Inr []"
  "validate_distribution_manifest (case_manifest ''p.ci.json'' ''P'' data) = Inr []"
  by (simp_all add: case_defs schema_defs strip_hash json_eq_def)

lemma case_objects:
  "jget (case_payload f data) ''attestation'' = case_attestation f"
  "jget (case_payload f data) ''distribution'' = JObj [(''bundle'', signed_bundle_of data)]"
  "jget (case_payload f data) ''transparency_log'' = JNull"
  "jget (case_manifest p raw data) ''bundle'' = signed_bundle_of data"
  by (simp_all add: case_payload_def case_manifest_def)

lemma case_reads:
  "read_bytes (case_disk data) [''r'', ''m.json''] = Inr ''M''" "read_bytes (case_disk data) [''r'', ''n.json''] = Inr ''N''"
  "read_bytes (case_disk data) [''r'', ''p.json''] = Inr ''S''" "read_bytes (case_disk data) [''r'', ''p.ci.json''] = Inr ''P''"
  "read_bytes (case_disk data) [''r'', ''p.json.ssig''] = Inr ''G''"
  "read_bytes (case_disk data) [''r'', ''bundle.tar.gz''] = Inr data"
  "read_bytes (case_disk data) [''a'', ''config'', ''allowed_signers''] = Inr ''alice key''"
  by (simp_all add: read_bytes_def read_file_def case_disk_def)

lemma case_exists:
  "path_exists (case_disk data) [''r'', ''p.json'']" "path_exists (case_disk data) [''r'', ''p.ci.json'']"
  "path_exists (case_disk data) [''r'', ''p.json.ssig'']" "path_exists (case_disk data) [''r'', ''bundle.tar.gz'']"
  "path_exists (case_disk data) [''a'', ''config'', ''allowed_signers'']"
  "\<not> path_exists (case_disk data) [''r'', ''p.transparency.json'']"
  "\<not> path_exists (case_disk data) [''r'', ''p.ci.transparency.json'']"
  by (simp_all add: path_defs case_disk_def)

lemma case_paths:
  "under [''r''] ''p.json'' = [''r'', ''p.json'']" "under [''r''] ''p.ci.json'' = [''r'', ''p.ci.json'']"
  "under [''r''] ''p.json.ssig'' = [''r'', ''p.json.ssig'']" "under [''r''] ''bundle.tar.gz'' = [''r'', ''bundle.tar.gz'']"
  "name_stem ''p.json'' = ''p''" "name_stem ''p.ci.json'' = ''p.ci''"
  "companion_ssh_path [''r'', ''p.ci.json''] = Inr [''r'', ''p.json'']"
  "\<not> is_absolute ''p.json''" "\<not> is_absolute ''p.ci.json''" "\<not> is_absolute ''p.json.ssig''" "\<not> is_absolute ''bundle.tar.gz''"
  by code_simp+

lemma case_ssh:
  "\<exists>r. verify_ssh_attestation (case_world data) (case_disk data) [''r'', ''p.json''] (JObj (case_payload ''ssh'' ''good''))
     (projr (attestation_config [''a''] (Inr (JObj [])))) None None None [''a''] = Inr r"
proof -
  have e: "signer_entries (case_disk data) [''a'', ''config'', ''allowed_signers''] = Inr [''alice key'']"
    by (simp add: signer_entries_def case_exists case_reads) code_simp
  show ?thesis
    by (simp add: verify_ssh_attestation_def case_objects case_config chosen_signers_def chosen_namespace_def truthy_text_def
        case_attestation_def jstr_def e case_paths case_exists case_reads Let_def case_world_def)
qed

lemma case_decodes:
  "out_decode (case_world data) ''M'' = Some (JObj (case_manifest ''p.json'' ''S'' ''good''))"
  "out_decode (case_world data) ''N'' = Some (JObj (case_manifest ''p.ci.json'' ''P'' data))"
  "out_decode (case_world data) ''S'' = Some (JObj (case_payload ''ssh'' ''good''))"
  "out_decode (case_world data) ''P'' = Some (JObj (case_payload ''ci'' data))"
  "out_sha256 (case_world data) x = CHR ''#'' # x"
  by (simp_all add: case_world_def)

lemma case_log:
  "summarize_log_state (case_world data) (case_disk data) [''r'', ''p.json''] (case_payload f x) [''a''] = Inr None"
  "summarize_log_state (case_world data) (case_disk data) [''r'', ''p.ci.json''] (case_payload f x) [''a''] = Inr None"
  by (simp_all add: summarize_log_state_def case_objects with_name_def file_name_def case_paths case_exists Let_def)

lemma case_parse:
  "parse_attestation (case_world data) (case_disk data) [''r'', ''p.json''] = Inr (JObj (case_payload ''ssh'' ''good''))"
  "parse_attestation (case_world data) (case_disk data) [''r'', ''p.ci.json''] = Inr (JObj (case_payload ''ci'' data))"
  by (simp_all add: parse_attestation_def decode_file_def case_reads case_decodes case_valid)

lemma case_ci: "verify_ci_attestation (case_world data) (case_disk data) [''r'', ''p.ci.json'']
    (attestation_config [''a''] (Inr (JObj []))) = Inr no_attestation"
  by (simp add: verify_ci_attestation_def case_parse domain_object_def case_objects case_attestation_def case_config
      ci_matches_def Let_def) (simp add: case_payload_def case_snapshot_def)

lemma case_attested:
  "\<exists>r. verify_attestation (case_world data) (case_disk data) (Inr (JObj [])) [''r'', ''p.json''] None None None [''a''] = Inr r \<and>
     atd_formats r = [''ssh'']"
  "\<exists>r. verify_attestation (case_world data) (case_disk data) (Inr (JObj [])) [''r'', ''p.ci.json''] None None None [''a''] = Inr r \<and>
     atd_formats r = [''ci'', ''ssh'']"
  using case_ssh [of data] case_ci [of data]
  by (auto simp: verify_attestation_def case_parse case_config verify_ssh_format_def verify_ci_format_def
      requires_ci_def requires_ssh_def domain_object_def case_objects case_attestation_def case_log
      case_paths case_exists decode_file_def case_reads case_decodes)

lemma case_core:
  "verify_signed_core_fields (case_manifest p raw data) (case_payload f data) (as_obj (signed_bundle_of data)) = Inr ()"
  by (simp add: verify_signed_core_fields_def core_fields_def case_defs)

lemma case_manifests:
  "load_manifest (case_world data) (case_disk data) [''r'', ''m.json''] = Inr (case_manifest ''p.json'' ''S'' ''good'')"
  "load_manifest (case_world data) (case_disk data) [''r'', ''n.json''] = Inr (case_manifest ''p.ci.json'' ''P'' data)"
  by (simp_all add: load_manifest_def load_object_def decode_file_def case_reads case_decodes case_valid)

lemma case_formats:
  "\<exists>r. verify_attestation_formats (case_world data) (case_disk data) (Inr (JObj [])) m (case_manifest p raw x)
     [''r'', ''p.json''] [''r''] [''a''] = Inr r"
  "\<exists>r. verify_attestation_formats (case_world data) (case_disk data) (Inr (JObj [])) m (case_manifest p raw x)
     [''r'', ''p.ci.json''] [''r''] [''a''] = Inr r"
  using case_attested [of data]
  by (auto simp: verify_attestation_formats_def Let_def case_manifest_def)

lemma case_refs:
  "jget (as_obj (jget (case_manifest p raw data) ''attestation_bundle'')) ''provenance_path'' = JStr p"
  "jget (as_obj (jget (case_manifest p raw data) ''attestation_bundle'')) ''signature_path'' = JStr ''p.json.ssig''"
  "jget (as_obj (signed_bundle_of data)) ''path'' = JStr ''bundle.tar.gz''"
  "verify_artifact_metadata (case_world data) (case_disk data) (case_manifest ''p.ci.json'' ''P'' data) [''r'', ''p.ci.json'']
     [''r'', ''p.json.ssig''] [''r'', ''bundle.tar.gz''] = Inr ()"
  "verify_artifact_metadata (case_world ''good'') (case_disk ''good'') (case_manifest ''p.json'' ''S'' ''good'') [''r'', ''p.json'']
     [''r'', ''p.json.ssig''] [''r'', ''bundle.tar.gz''] = Inr ()"
  by (simp_all add: case_manifest_def signed_bundle_of_def verify_artifact_metadata_def check_digest_def sha256_file_def
      case_reads case_decodes Let_def)

lemma case_plain:
  "jget (case_manifest p raw data) ''file_manifest'' = JNull" "jget (case_manifest p raw data) ''build'' = JNull"
  "jget (case_manifest p raw data) ''registry'' = case_registry" "jget (case_payload f x) ''registry'' = case_registry"
  "jget (case_manifest p raw data) ''dependencies'' = case_dependencies"
  "jget (case_payload f x) ''dependencies'' = case_dependencies"
  "signed_bundle_of data \<noteq> JNull" "truthy (signed_bundle_of data)"
  by (simp_all add: case_manifest_def case_payload_def signed_bundle_of_def)

lemma case_bundle:
  "dict_or_empty (signed_bundle_of data) = Inr (as_obj (signed_bundle_of data))"
  "dict_or_empty (JObj m) = Inr m"
  by (simp_all add: signed_bundle_of_def dict_or_empty_def)

lemmas verification_defs = verify_distribution_manifest_def existing_ref_def resolve_manifest_ref_def
  load_object_def decode_file_def actual_bundle_metadata_def verify_file_manifest_def
  verify_build_metadata_def none_if_empty_def none_if_no_members_def normalize_file_manifest_def normalize_build_def

lemma case_verified:
  "\<exists>v. verify_distribution_manifest (case_world ''good'') (case_disk ''good'') (Inr (JObj [])) [''r'', ''m.json''] [''r''] [''a''] = Inr v \<and>
     vdi_bundle_path v = [''r'', ''bundle.tar.gz''] \<and> vdi_provenance_path v = [''r'', ''p.json'']"
  "\<exists>v. verify_distribution_manifest (case_world data) (case_disk data) (Inr (JObj [])) [''r'', ''n.json''] [''r''] [''a''] = Inr v \<and>
     vdi_bundle_path v = [''r'', ''bundle.tar.gz''] \<and> vdi_provenance_path v = [''r'', ''p.ci.json'']"
proof -
  note facts = case_manifests case_refs case_objects case_paths case_exists case_reads case_decodes case_core
    case_plain case_bundle str_of_def Let_def
  obtain r where "verify_attestation_formats (case_world ''good'') (case_disk ''good'') (Inr (JObj [])) [''r'', ''m.json'']
      (case_manifest ''p.json'' ''S'' ''good'') [''r'', ''p.json''] [''r''] [''a''] = Inr r"
    using case_formats(1) by blast
  then show "\<exists>v. verify_distribution_manifest (case_world ''good'') (case_disk ''good'') (Inr (JObj [])) [''r'', ''m.json''] [''r''] [''a''] = Inr v \<and>
     vdi_bundle_path v = [''r'', ''bundle.tar.gz''] \<and> vdi_provenance_path v = [''r'', ''p.json'']"
    by (simp add: verification_defs facts)
  obtain r where "verify_attestation_formats (case_world data) (case_disk data) (Inr (JObj [])) [''r'', ''n.json'']
      (case_manifest ''p.ci.json'' ''P'' data) [''r'', ''p.ci.json''] [''r''] [''a''] = Inr r"
    using case_formats(2) by blast
  then show "\<exists>v. verify_distribution_manifest (case_world data) (case_disk data) (Inr (JObj [])) [''r'', ''n.json''] [''r''] [''a''] = Inr v \<and>
     vdi_bundle_path v = [''r'', ''bundle.tar.gz''] \<and> vdi_provenance_path v = [''r'', ''p.ci.json'']"
    by (simp add: verification_defs facts)
qed

lemma verified_distribution_trusted_witness:
  "signed_by_trusted_key (case_world ''good'') (case_disk ''good'') (Inr (JObj [])) [''a''] (as_obj (case_attestation ''ssh'')) ''S''"
proof -
  obtain v where v: "verify_distribution_manifest (case_world ''good'') (case_disk ''good'') (Inr (JObj [])) [''r'', ''m.json'']
      [''r''] [''a''] = Inr v" "vdi_provenance_path v = [''r'', ''p.json'']"
    using case_verified(1) by blast
  have s: "read_file (case_disk ''good'') [''r'', ''p.json''] = Some ''S''" by (simp add: read_file_def case_disk_def)
  obtain message where m: "read_file (case_disk ''good'') (vdi_provenance_path v) = Some message"
      "out_decode (case_world ''good'') message = Some (JObj (vdi_provenance v))"
      "jget (as_obj (jget (vdi_provenance v) ''attestation'')) ''format'' \<noteq> JStr ''ci'' \<longrightarrow>
        signed_by_trusted_key (case_world ''good'') (case_disk ''good'') (Inr (JObj [])) [''a'']
          (as_obj (jget (vdi_provenance v) ''attestation'')) message"
    using verified_distribution_trusted [OF v(1)] by blast
  then have "message = ''S''" using s v(2) by simp
  with m(2) have "vdi_provenance v = case_payload ''ssh'' ''good''" by (simp add: case_decodes)
  with m(3) \<open>message = ''S''\<close> show ?thesis by (simp add: case_objects case_attestation_def)
qed


end
