(* ===== verification/VersionSort.thy ===== *)
theory VersionSort
  imports Access PyTime
begin

text \<open>
  Versions as the catalogs sort them, and one entry per release:
  \<open>server/modules/shared/version_sort.py\<close>.
\<close>

section \<open>Sort keys\<close>

text \<open>\<open>re.findall(r"(\d+|[A-Za-z]+)", version)\<close>\<close>

function version_parts :: "string \<Rightarrow> string list" where
  "version_parts s =
     (case s of
        [] \<Rightarrow> []
      | c # t \<Rightarrow>
          if is_digit c then takeWhile is_digit s # version_parts (dropWhile is_digit s)
          else if is_alpha_ascii c then takeWhile is_alpha_ascii s # version_parts (dropWhile is_alpha_ascii s)
          else version_parts t)"
  by pat_completeness auto
termination
  by (relation "measure length") (auto intro: le_imp_less_Suc length_dropWhile_le)

declare version_parts.simps [simp del]

text \<open>\<open>(0, int(item))\<close> or \<open>(1, item.lower())\<close>; a pair of the one kind is never compared with the
  second component of the other.\<close>

definition version_part_key :: "string \<Rightarrow> nat \<times> nat \<times> string" where
  "version_part_key p = (if list_all is_digit p then (0, nat_of_digits p, []) else (1, 0, lower p))"

definition version_sort_key :: "string \<Rightarrow> (nat \<times> nat \<times> string) list" where
  "version_sort_key version = map version_part_key (version_parts version)"

definition audience_rank :: "string \<Rightarrow> nat" where
  "audience_rank audience_type =
     (if audience_type = ''private'' then 4 else if audience_type = ''grant'' then 3
      else if audience_type = ''authenticated'' then 2 else if audience_type = ''public'' then 1 else 0)"

text \<open>\<open>isoformat()\<close> of an aware timestamp ends with its offset.\<close>

definition isoformat_utc :: "time \<Rightarrow> string" where
  "isoformat_utc t = butlast (isoformat_z t) @ ''+00:00''"

definition ready_sort_key :: "time option \<Rightarrow> nat \<times> string" where
  "ready_sort_key value = (case value of None \<Rightarrow> (0, []) | Some t \<Rightarrow> (1, isoformat_utc t))"

section \<open>Entries\<close>

record projection =
  prj_exposure_id :: id
  prj_release_id :: id
  prj_audience_type :: string
  prj_listing_mode :: string
  prj_install_mode :: string
  prj_review_requirement :: string
  prj_exposure_state :: string
  prj_release_state :: string
  prj_publisher :: string
  prj_name :: string
  prj_qualified_name :: string
  prj_display_name :: string
  prj_summary :: string
  prj_version :: string
  prj_ready_at :: "time option"
  prj_manifest_path :: string
  prj_bundle_path :: string
  prj_provenance_path :: string
  prj_signature_path :: string
  prj_bundle_sha256 :: "string option"
  prj_metadata :: "(string \<times> json) list"
  prj_compatibility :: "(string \<times> json) list"

definition dedupe_step :: "bool \<Rightarrow> projection \<Rightarrow> (id \<times> projection) list \<Rightarrow> (id \<times> projection) list" where
  "dedupe_step keep_highest entry by_release =
     (case map_of by_release (prj_release_id entry) of
        None \<Rightarrow> by_release @ [(prj_release_id entry, entry)]
      | Some current \<Rightarrow>
          (let current_rank = audience_rank (prj_audience_type current);
               entry_rank = audience_rank (prj_audience_type entry)
           in if (if keep_highest then entry_rank > current_rank else entry_rank < current_rank)
              then AList.update (prj_release_id entry) entry by_release
              else by_release))"

definition entry_sort_key :: "projection \<Rightarrow> string \<times> (nat \<times> nat \<times> string) list \<times> nat \<times> nat \<times> string" where
  "entry_sort_key e =
     (prj_qualified_name e, version_sort_key (prj_version e), audience_rank (prj_audience_type e),
      ready_sort_key (prj_ready_at e))"

definition dedupe_entries :: "bool \<Rightarrow> projection list \<Rightarrow> projection list" where
  "dedupe_entries keep_highest entries =
     sort_key entry_sort_key (map snd (fold (dedupe_step keep_highest) entries []))"

section \<open>One entry per release\<close>

text \<open>The entry a release keeps: the first among those with the highest rank.\<close>

definition kept_for :: "projection list \<Rightarrow> id \<Rightarrow> projection option" where
  "kept_for entries r =
     (let own = filter (\<lambda>e. prj_release_id e = r) entries;
          top = Max (set (map (\<lambda>e. audience_rank (prj_audience_type e)) own))
      in find (\<lambda>e. audience_rank (prj_audience_type e) = top) own)"

lemma dedupe_step_lookup:
  "map_of (dedupe_step True e by_release) r =
     (if r = prj_release_id e
      then (case map_of by_release r of
              None \<Rightarrow> Some e
            | Some c \<Rightarrow> Some (if audience_rank (prj_audience_type c) < audience_rank (prj_audience_type e) then e else c))
      else map_of by_release r)"
  by (auto simp: dedupe_step_def Let_def update_conv' map_add_def split: option.splits)

lemma dedupe_step_keys:
  "distinct (map fst by_release) \<Longrightarrow> distinct (map fst (dedupe_step b e by_release))"
  by (auto simp: dedupe_step_def Let_def distinct_update map_of_eq_None_iff split: option.splits)

lemma find_snoc: "find P (xs @ [x]) = (case find P xs of None \<Rightarrow> if P x then Some x else None | Some y \<Rightarrow> Some y)"
  by (induction xs) auto

lemma kept_for_snoc:
  "kept_for (es @ [e]) r =
     (if prj_release_id e = r
      then (case kept_for es r of
              None \<Rightarrow> Some e
            | Some c \<Rightarrow> Some (if audience_rank (prj_audience_type c) < audience_rank (prj_audience_type e) then e else c))
      else kept_for es r)"
proof (cases "prj_release_id e = r")
  case False
  then show ?thesis by (simp add: kept_for_def)
next
  case True
  define f where "f = (\<lambda>e::projection. audience_rank (prj_audience_type e))"
  define own where "own = filter (\<lambda>e. prj_release_id e = r) es"
  show ?thesis
  proof (cases "own = []")
    case True
    with \<open>prj_release_id e = r\<close> show ?thesis by (simp add: kept_for_def own_def [symmetric])
  next
    case False
    define top where "top = Max (f ` set own)"
    have top: "top \<in> f ` set own" "\<And>x. x \<in> set own \<Longrightarrow> f x \<le> top"
      using False by (auto simp: top_def)
    then obtain c where c: "find (\<lambda>e. f e = top) own = Some c" by (cases "find (\<lambda>e. f e = top) own") (auto simp: find_None_iff)
    then have fc: "f c = top" by (metis (mono_tags, lifting) find_Some_iff)
    have before: "kept_for es r = Some c" using c by (simp add: kept_for_def own_def [symmetric] top_def f_def)
    have "Max (f ` set (own @ [e])) = max (f e) top" using False by (simp add: top_def)
    then have after: "kept_for (es @ [e]) r = find (\<lambda>x. f x = max (f e) top) (own @ [e])"
      using True by (simp add: kept_for_def own_def [symmetric] f_def)
    show ?thesis
    proof (cases "top < f e")
      case True
      have "find (\<lambda>x. f x = f e) own = None" using top(2) True by (fastforce simp: find_None_iff)
      with True before fc \<open>prj_release_id e = r\<close> show ?thesis
        by (simp add: after find_snoc max_def f_def)
    next
      case False
      then show ?thesis using c before fc \<open>prj_release_id e = r\<close>
        by (auto simp: after find_snoc max_def f_def split: if_splits)
    qed
  qed
qed

lemma dedupe_fold:
  "distinct (map fst (fold (dedupe_step True) es [])) \<and>
   (\<forall>r. map_of (fold (dedupe_step True) es []) r = kept_for es r)"
proof (induction es rule: rev_induct)
  case Nil
  then show ?case by (simp add: kept_for_def)
next
  case (snoc e es)
  then show ?case
    by (simp add: dedupe_step_keys dedupe_step_lookup kept_for_snoc)
qed

lemma kept_for_Some: "kept_for es r = Some e \<Longrightarrow> e \<in> set es \<and> prj_release_id e = r"
  by (auto simp: kept_for_def Let_def find_Some_iff in_set_conv_nth dest: nth_mem)

text \<open>One entry per release, the first of those with the most restricted audience, in order.\<close>

lemma dedupe_exact:
  "sorted (map entry_sort_key (dedupe_entries True es)) \<and>
   distinct (map prj_release_id (dedupe_entries True es)) \<and>
   (e \<in> set (dedupe_entries True es) \<longleftrightarrow> kept_for es (prj_release_id e) = Some e)"
proof -
  define al where "al = fold (dedupe_step True) es []"
  have al: "distinct (map fst al)" "\<And>r. map_of al r = kept_for es r" using dedupe_fold [of es] by (simp_all add: al_def)
  have key: "p \<in> set al \<Longrightarrow> prj_release_id (snd p) = fst p" for p
    using map_of_is_SomeI [OF al(1), of "fst p" "snd p"] kept_for_Some [of es "fst p" "snd p"] al(2) by simp
  have "map prj_release_id (map snd al) = map fst al" using key by simp
  with al(1) have "distinct (map prj_release_id (map snd al))" by metis
  then have "distinct (map prj_release_id (dedupe_entries True es))"
    unfolding dedupe_entries_def al_def [symmetric] distinct_map [of prj_release_id] by simp
  moreover have "e \<in> set (map snd al) \<longleftrightarrow> kept_for es (prj_release_id e) = Some e"
  proof
    assume "e \<in> set (map snd al)"
    then obtain p where "p \<in> set al" "snd p = e" by auto
    with key [of p] map_of_is_SomeI [OF al(1), of "fst p" e] al(2) show "kept_for es (prj_release_id e) = Some e"
      by (metis prod.collapse)
  next
    assume "kept_for es (prj_release_id e) = Some e"
    then have "map_of al (prj_release_id e) = Some e" by (simp add: al(2))
    from map_of_SomeD [OF this] show "e \<in> set (map snd al)" by force
  qed
  ultimately show ?thesis by (simp add: dedupe_entries_def al_def [symmetric])
qed

section \<open>Prereleases\<close>

lemma version_parts_split:
  assumes "\<not> is_digit c" and "\<not> is_alpha_ascii c"
  shows "version_parts (s @ c # t) = version_parts s @ version_parts t"
proof (induction s rule: version_parts.induct)
  case (1 s)
  show ?case
  proof (cases s)
    case Nil
    then show ?thesis
      using assms by (subst version_parts.simps) (simp add: version_parts.simps [of "[]"])
  next
    case (Cons d u)
    have tw: "takeWhile P (d # u @ c # t) = takeWhile P (d # u)"
        "dropWhile P (d # u @ c # t) = dropWhile P (d # u) @ c # t" if "\<not> P c" for P
      using that by (simp_all add: takeWhile_append dropWhile_append flip: append_Cons)
        (auto simp: takeWhile_eq_all_conv [THEN iffD2])
    show ?thesis
      using "1.IH" [OF Cons] Cons tw [of is_digit, OF assms(1)] tw [of is_alpha_ascii, OF assms(2)]
      by (subst (1 2) version_parts.simps) (simp split: if_splits)
  qed
qed

text \<open>A prerelease comes after its release.\<close>

lemma prerelease_sorts_after:
  assumes "version_parts pre \<noteq> []"
  shows "version_sort_key version < version_sort_key (version @ ''-'' @ pre)"
proof -
  have dash: "\<not> is_digit (CHR ''-'')" "\<not> is_alpha_ascii (CHR ''-'')"
    by (simp_all add: is_digit_def is_alpha_ascii_def is_lower_ascii_def code_def)
  have "version_sort_key (version @ ''-'' @ pre) = version_sort_key version @ version_sort_key pre"
    using version_parts_split [OF dash] by (simp add: version_sort_key_def)
  moreover have "version_sort_key pre \<noteq> []" using assms by (simp add: version_sort_key_def)
  moreover have "xs < xs @ ys" if "ys \<noteq> []" for xs ys :: "(nat \<times> nat \<times> string) list"
    using that by (induction xs) (auto simp: neq_Nil_conv)
  ultimately show ?thesis by simp
qed

end
