(* ===== verification/JsonText.thy ===== *)
theory JsonText
  imports PyJson
begin

text \<open>
  The JSON documents the server writes: \<open>json.dumps\<close> with an indent of two blanks, and
  \<open>canonical_json_bytes\<close> of \<open>server/modules/release/bundle.py\<close>.  \<open>read_document\<close> is what
  \<open>json.loads\<close> makes of such a document, whose numbers are integers.
\<close>

section \<open>Printing\<close>

definition new_line :: "nat \<Rightarrow> string" where
  "new_line level = CHR 0x0A # replicate (2 * level) (CHR '' '')"

definition enclosed :: "char \<Rightarrow> char \<Rightarrow> nat \<Rightarrow> string list \<Rightarrow> string" where
  "enclosed left right level parts =
     (if parts = [] then [left, right]
      else left # new_line (Suc level) @ join (CHR '','' # new_line (Suc level)) parts @ new_line level @ [right])"

fun print_indented :: "bool \<Rightarrow> nat \<Rightarrow> json \<Rightarrow> string" where
  "print_indented sorted_keys level JNull = ''null''"
| "print_indented sorted_keys level (JBool b) = (if b then ''true'' else ''false'')"
| "print_indented sorted_keys level (JInt i) = str_of_int i"
| "print_indented sorted_keys level (JFloat m k) = print_float m k"
| "print_indented sorted_keys level (JStr s) = quote s"
| "print_indented sorted_keys level (JList xs) =
     enclosed (CHR ''['') (CHR '']'') level (map (print_indented sorted_keys (Suc level)) xs)"
| "print_indented sorted_keys level (JObj m) =
     (let parts = map (\<lambda>p. (fst p, quote (fst p) @ '': '' @ print_indented sorted_keys (Suc level) (snd p))) m
      in enclosed (CHR ''{'') (CHR ''}'') level
           (map snd (if sorted_keys then sort_key fst parts else parts)))"

definition canonical_json_bytes :: "json \<Rightarrow> string" where
  "canonical_json_bytes payload = print_indented True 0 payload @ [CHR 0x0A]"

fun sorted_json :: "json \<Rightarrow> json" where
  "sorted_json (JList xs) = JList (map sorted_json xs)"
| "sorted_json (JObj m) = JObj (sort_key fst (map (\<lambda>p. (fst p, sorted_json (snd p))) m))"
| "sorted_json j = j"

text \<open>Documents without decimals.\<close>

fun no_decimals :: "json \<Rightarrow> bool" where
  "no_decimals (JList xs) = list_all no_decimals xs"
| "no_decimals (JObj m) = list_all (\<lambda>p. no_decimals (snd p)) m"
| "no_decimals (JFloat _ _) = False"
| "no_decimals j = True"

section \<open>Reading\<close>

definition json_space :: "char \<Rightarrow> bool" where
  "json_space c \<longleftrightarrow> c \<in> {CHR '' '', CHR 0x0A, CHR 0x0D, CHR 0x09}"

definition skip_space :: "string \<Rightarrow> string" where
  "skip_space s = dropWhile json_space s"

definition hex_value :: "char \<Rightarrow> nat" where
  "hex_value c = (if is_digit c then digit_value c else code c - 87)"

fun read_string :: "string \<Rightarrow> (string \<times> string) option" where
  "read_string [] = None"
| "read_string (c # s) =
     (if c = CHR 0x22 then Some ([], s)
      else if c \<noteq> CHR 0x5C then map_option (apfst ((#) c)) (read_string s)
      else (case s of
          [] \<Rightarrow> None
        | e # t \<Rightarrow>
            if e = CHR ''u'' then
              (case t of
                 a # b # x # y # u \<Rightarrow>
                   map_option (apfst ((#) (char_of (16 * hex_value x + hex_value y)))) (read_string u)
               | _ \<Rightarrow> None)
            else if e = CHR ''n'' then map_option (apfst ((#) (CHR 0x0A))) (read_string t)
            else if e = CHR ''r'' then map_option (apfst ((#) (CHR 0x0D))) (read_string t)
            else if e = CHR ''t'' then map_option (apfst ((#) (CHR 0x09))) (read_string t)
            else if e = CHR ''f'' then map_option (apfst ((#) (CHR 0x0C))) (read_string t)
            else if e = CHR ''b'' then map_option (apfst ((#) (CHR 0x08))) (read_string t)
            else map_option (apfst ((#) e)) (read_string t)))"

definition read_number :: "string \<Rightarrow> (json \<times> string) option" where
  "read_number s =
     (let neg = (s \<noteq> [] \<and> hd s = CHR ''-''); body = (if neg then tl s else s);
          ds = takeWhile is_digit body; n = int (nat_of_digits ds)
      in if ds = [] then None
         else Some (JInt (if neg then - n else n), dropWhile is_digit body))"

fun read_value :: "nat \<Rightarrow> string \<Rightarrow> (json \<times> string) option"
  and read_items :: "nat \<Rightarrow> string \<Rightarrow> (json list \<times> string) option"
  and read_members :: "nat \<Rightarrow> string \<Rightarrow> ((string \<times> json) list \<times> string) option" where
  "read_value 0 s = None"
| "read_value (Suc n) s0 =
     (let s = skip_space s0 in
      if s = [] then None
      else if hd s = CHR 0x22 then map_option (apfst JStr) (read_string (tl s))
      else if hd s = CHR ''['' then
        (let t = skip_space (tl s) in
         if t \<noteq> [] \<and> hd t = CHR '']'' then Some (JList [], tl t)
         else map_option (apfst JList) (read_items n t))
      else if hd s = CHR ''{'' then
        (let t = skip_space (tl s) in
         if t \<noteq> [] \<and> hd t = CHR ''}'' then Some (JObj [], tl t)
         else map_option (apfst JObj) (read_members n t))
      else if starts_with ''null'' s then Some (JNull, drop 4 s)
      else if starts_with ''true'' s then Some (JBool True, drop 4 s)
      else if starts_with ''false'' s then Some (JBool False, drop 5 s)
      else read_number s)"
| "read_items 0 s = None"
| "read_items (Suc n) s =
     (case read_value n s of None \<Rightarrow> None
      | Some (x, t0) \<Rightarrow>
          (let t = skip_space t0 in
           if t = [] then None
           else if hd t = CHR '','' then map_option (apfst ((#) x)) (read_items n (tl t))
           else if hd t = CHR '']'' then Some ([x], tl t) else None))"
| "read_members 0 s = None"
| "read_members (Suc n) s0 =
     (let s = skip_space s0 in
      if s = [] \<or> hd s \<noteq> CHR 0x22 then None
      else (case read_string (tl s) of None \<Rightarrow> None
        | Some (k, t0) \<Rightarrow>
            (let t = skip_space t0 in
             if t = [] \<or> hd t \<noteq> CHR '':'' then None
             else (case read_value n (tl t) of None \<Rightarrow> None
               | Some (x, u0) \<Rightarrow>
                   (let u = skip_space u0 in
                    if u = [] then None
                    else if hd u = CHR '','' then map_option (apfst ((#) (k, x))) (read_members n (tl u))
                    else if hd u = CHR ''}'' then Some ([(k, x)], tl u) else None)))))"

definition read_document :: "string \<Rightarrow> json option" where
  "read_document s =
     (case read_value (Suc (length s)) s of
        Some (j, rest) \<Rightarrow> if skip_space rest = [] then Some j else None
      | None \<Rightarrow> None)"

section \<open>Reading back\<close>

lemma insort_map_snd:
  "insort_key fst (fst p, f p) (map (\<lambda>q. (fst q, f q)) m) = map (\<lambda>q. (fst q, f q)) (insort_key fst p m)"
  by (induction m) auto

lemma sort_map_snd:
  "sort_key fst (map (\<lambda>q. (fst q, f q)) m) = map (\<lambda>q. (fst q, f q)) (sort_key fst m)"
  by (induction m) (simp_all add: insort_map_snd)

lemma code_inj: "code c = code d \<longleftrightarrow> c = d"
  by (simp add: code_def)

lemma control_codes:
  "code c = 10 \<longleftrightarrow> c = CHR 0x0A" "code c = 13 \<longleftrightarrow> c = CHR 0x0D" "code c = 9 \<longleftrightarrow> c = CHR 0x09"
  "code c = 12 \<longleftrightarrow> c = CHR 0x0C" "code c = 8 \<longleftrightarrow> c = CHR 0x08" "code c = 34 \<longleftrightarrow> c = CHR 0x22"
  "code c = 92 \<longleftrightarrow> c = CHR 0x5C"
  by (simp_all add: code_inj [symmetric, of c] code_def)

lemma hex_digit_value: "d < 16 \<Longrightarrow> hex_value (hex_digit d) = d"
  using digit_char_props [of d] by (auto simp: hex_digit_def hex_value_def is_digit_def code_def)

lemma read_escaped: "read_string (escape_char c @ s) = map_option (apfst ((#) c)) (read_string s)"
proof (cases "code c < 32")
  case True
  have c: "char_of (16 * (code c div 16) + code c mod 16) = c" by (simp add: code_def)
  have lt: "code c div 16 < 16" "code c mod 16 < 16" using True by simp_all
  show ?thesis
    using True c lt by (auto simp: escape_char_def Let_def hex_digit_value control_codes)
next
  case False
  then show ?thesis by (auto simp: escape_char_def Let_def control_codes)
qed

lemma read_quoted: "read_string (concat (map escape_char s) @ CHR 0x22 # rest) = Some (s, rest)"
  by (induction s) (simp_all add: read_escaped)

lemma takeWhile_digits:
  assumes "\<forall>c \<in> set ds. is_digit c" and "rest = [] \<or> \<not> is_digit (hd rest)"
  shows "takeWhile is_digit (ds @ rest) = ds" "dropWhile is_digit (ds @ rest) = rest"
  using assms by (induction ds; cases rest; simp)+

lemma digits_of_start: "\<exists>c cs. digits_of n = c # cs \<and> is_digit c"
  using digits_of_digits [of n] by (cases "digits_of n") auto

lemma read_number_printed:
  assumes "rest = [] \<or> \<not> is_digit (hd rest)"
  shows "read_number (str_of_int i @ rest) = Some (JInt i, rest)"
proof (cases "i < 0")
  case True
  then show ?thesis
    using takeWhile_digits [OF digits_of_digits assms]
    by (simp add: read_number_def str_of_int_def Let_def digits_of_inverse)
next
  case False
  obtain c cs where c: "digits_of (nat i) = c # cs" "is_digit c" using digits_of_start by blast
  then have "c \<noteq> CHR ''-''" by (auto simp: is_digit_def code_def)
  with False c show ?thesis
    using takeWhile_digits [OF digits_of_digits assms, of "nat i"] digits_of_inverse [of "nat i"]
    by (simp add: read_number_def str_of_int_def Let_def)
qed

lemma str_of_int_start:
  "\<exists>c cs. str_of_int i = c # cs \<and> (is_digit c \<or> c = CHR ''-'')"
  using digits_of_start [of "nat i"] by (auto simp: str_of_int_def)

lemma read_value_skips: "skip_space s = skip_space t \<Longrightarrow> read_value n s = read_value n t"
  by (cases n) simp_all

lemma skip_new_line [simp]: "skip_space (new_line k @ s) = skip_space s"
proof -
  have "dropWhile json_space (replicate m (CHR '' '') @ s) = dropWhile json_space s" for m
    by (induction m) (simp_all add: json_space_def)
  then show ?thesis by (simp add: skip_space_def new_line_def json_space_def)
qed

lemma skip_visible: "\<not> json_space c \<Longrightarrow> skip_space (c # s) = c # s"
  by (simp add: skip_space_def)

lemma read_value_start:
  assumes "c \<noteq> CHR 0x22" "c \<noteq> CHR ''[''" "c \<noteq> CHR ''{''" "c \<notin> {CHR ''n'', CHR ''t'', CHR ''f''}" "\<not> json_space c"
  shows "read_value (Suc n) (c # s) = read_number (c # s)"
  using assms by (simp add: skip_visible starts_with_def)

definition stops :: "string \<Rightarrow> bool" where
  "stops rest \<longleftrightarrow> rest = [] \<or> \<not> is_digit (hd rest)"

lemma stops_simps [simp]: "stops (CHR '','' # s)" "stops (CHR '']'' # s)" "stops (CHR ''}'' # s)" "stops (new_line k @ s)"
  "stops [CHR 0x0A]" "stops []"
  by (simp_all add: stops_def new_line_def is_digit_def code_def)

definition reads_back :: "(string \<Rightarrow> bool) \<Rightarrow> json \<Rightarrow> string \<Rightarrow> bool" where
  "reads_back ok j text \<longleftrightarrow>
     (\<forall>n rest. length text < n \<longrightarrow> ok rest \<longrightarrow> read_value n (text @ rest) = Some (j, rest))"

lemma reads_backD: "reads_back ok j text \<Longrightarrow> length text < n \<Longrightarrow> ok rest \<Longrightarrow> read_value n (text @ rest) = Some (j, rest)"
  by (simp add: reads_back_def)

lemma reads_backI:
  assumes "\<And>n rest. ok rest \<Longrightarrow> read_value (Suc n) (text @ rest) = Some (j, rest)"
  shows "reads_back ok j text"
  unfolding reads_back_def
proof (intro allI impI)
  fix n rest
  assume "length text < n" "ok rest"
  with assms show "read_value n (text @ rest) = Some (j, rest)" by (cases n) simp_all
qed

lemma read_items_printed:
  assumes "xs \<noteq> []" and "\<And>x. x \<in> set xs \<Longrightarrow> reads_back stops (g x) (f x)"
    and "length (join (CHR '','' # new_line k) (map f xs)) + 1 < n"
  shows "read_items n (join (CHR '','' # new_line k) (map f xs) @ new_line k' @ CHR '']'' # rest) = Some (map g xs, rest)"
  using assms
proof (induction xs arbitrary: n)
  case Nil
  then show ?case by simp
next
  case (Cons x xs)
  obtain m where n: "n = Suc m" using Cons.prems(3) by (cases n) auto
  have x: "reads_back stops (g x) (f x)" using Cons.prems(2) by simp
  show ?case
  proof (cases xs)
    case Nil
    have "read_value m (f x @ new_line k' @ CHR '']'' # rest) = Some (g x, new_line k' @ CHR '']'' # rest)"
      by (rule reads_backD [OF x]) (use Cons.prems(3) Nil n in simp_all)
    then show ?thesis using Nil n by (simp add: skip_visible json_space_def)
  next
    case (Cons y ys)
    have first: "read_value m (f x @ CHR '','' # new_line k @ s) = Some (g x, CHR '','' # new_line k @ s)" for s
      by (rule reads_backD [OF x]) (use Cons.prems(3) Cons n in simp_all)
    have skip: "read_items m (new_line k @ s) = read_items m s" for s
      using read_value_skips [of "new_line k @ s" s] by (cases m) simp_all
    have "read_items m (join (CHR '','' # new_line k) (map f xs) @ new_line k' @ CHR '']'' # rest) = Some (map g xs, rest)"
      by (rule Cons.IH) (use Cons.prems Cons n in auto)
    with Cons show ?thesis
      using first by (simp add: n skip skip_visible json_space_def)
  qed
qed

lemma quote_append: "quote k @ s = CHR 0x22 # concat (map escape_char k) @ CHR 0x22 # s"
  by (simp add: quote_def)

lemma read_members_step:
  assumes "\<And>s. stops s \<Longrightarrow> read_value m (CHR '' '' # text @ s) = Some (j, s)" and "stops s"
  shows "read_members (Suc m) (quote k @ CHR '':'' # CHR '' '' # text @ s) =
     (let u = skip_space s in
      if u = [] then None
      else if hd u = CHR '','' then map_option (apfst ((#) (k, j))) (read_members m (tl u))
      else if hd u = CHR ''}'' then Some ([(k, j)], tl u) else None)"
  using assms by (simp add: quote_append skip_visible json_space_def read_quoted)

definition member_text :: "(json \<Rightarrow> string) \<Rightarrow> string \<times> json \<Rightarrow> string" where
  "member_text f p = quote (fst p) @ '': '' @ f (snd p)"

lemma member_text_append: "member_text f p @ s = quote (fst p) @ CHR '':'' # CHR '' '' # f (snd p) @ s"
  by (simp add: member_text_def)

lemma read_members_printed:
  assumes "ms \<noteq> []" and "\<And>p. p \<in> set ms \<Longrightarrow> reads_back stops (g (snd p)) (f (snd p))"
    and "length (join (CHR '','' # new_line k) (map (member_text f) ms)) + 1 < n"
  shows "read_members n (join (CHR '','' # new_line k) (map (member_text f) ms) @ new_line k' @ CHR ''}'' # rest) =
     Some (map (\<lambda>p. (fst p, g (snd p))) ms, rest)"
  using assms
proof (induction ms arbitrary: n)
  case Nil
  then show ?case by simp
next
  case (Cons p ms)
  obtain m where n: "n = Suc m" using Cons.prems(3) by (cases n) auto
  have len: "length (member_text f p) \<le> length (join (CHR '','' # new_line k) (map (member_text f) (p # ms)))"
    by (cases ms) simp_all
  have p: "read_value m (CHR '' '' # f (snd p) @ s) = Some (g (snd p), s)" if "stops s" for s
  proof -
    have "read_value m (CHR '' '' # f (snd p) @ s) = read_value m (f (snd p) @ s)"
      by (rule read_value_skips) (simp add: skip_space_def json_space_def)
    moreover have "length (f (snd p)) \<le> length (member_text f p)" by (simp add: member_text_def)
    then have "length (f (snd p)) < m" using Cons.prems(3) len n by simp
    ultimately show ?thesis using reads_backD [OF Cons.prems(2), of p m s] that by simp
  qed
  show ?case
  proof (cases ms)
    case Nil
    then show ?thesis
      using read_members_step [OF p, of "new_line k' @ CHR ''}'' # rest" "fst p"]
      by (simp add: n member_text_append skip_visible json_space_def)
  next
    case (Cons q qs)
    have skip: "read_members m (new_line k @ s) = read_members m s" for s
      by (cases m) simp_all
    have "read_members m (join (CHR '','' # new_line k) (map (member_text f) ms) @ new_line k' @ CHR ''}'' # rest) =
        Some (map (\<lambda>p. (fst p, g (snd p))) ms, rest)"
      by (rule Cons.IH) (use Cons.prems Cons n in auto)
    with Cons show ?thesis
      using read_members_step [OF p, of "CHR '','' # new_line k @ join (CHR '','' # new_line k) (map (member_text f) ms) @
          new_line k' @ CHR ''}'' # rest" "fst p"]
      by (simp add: n skip member_text_append skip_visible json_space_def del: read_members.simps)
  qed
qed

lemma quote_start: "\<exists>cs. member_text f p = CHR 0x22 # cs"
  by (simp add: member_text_def quote_def)

lemma printed_start:
  "\<exists>c cs. print_indented b k j = c # cs \<and> \<not> json_space c \<and> c \<noteq> CHR '']''" if "no_decimals j"
proof (cases j)
  case (JInt i)
  then show ?thesis using str_of_int_start [of i] by (auto simp: json_space_def is_digit_def code_def)
qed (use that in \<open>auto simp: json_space_def quote_def enclosed_def Let_def\<close>)

lemma join_start: "join sep ((c # w) # ws) = c # join sep (w # ws)"
  by (cases ws) simp_all

lemma read_value_printed:
  assumes "no_decimals j"
  shows "reads_back stops (sorted_json j) (print_indented True k j)"
  using assms
proof (induction j arbitrary: k)
  case (JList xs)
  have "read_value n (print_indented True k (JList xs) @ rest) = Some (sorted_json (JList xs), rest)"
    if n: "length (print_indented True k (JList xs)) < n" for n rest
  proof -
    obtain m where m: "n = Suc m" using n by (cases n) auto
    show ?thesis
    proof (cases xs)
      case Nil
      then show ?thesis by (simp add: m enclosed_def skip_visible json_space_def)
    next
      case (Cons x ys)
      have x: "no_decimals x" using JList.prems Cons by simp
      from printed_start [OF this] obtain c cs where c: "print_indented True (Suc k) x = c # cs"
          "\<not> json_space c" "c \<noteq> CHR '']''" by blast
      define items where "items = join (CHR '','' # new_line (Suc k)) (map (print_indented True (Suc k)) xs)"
      have start: "\<exists>ds. items = c # ds" using Cons c(1) by (simp add: items_def join_start)
      have "read_items m (items @ new_line k @ CHR '']'' # rest) = Some (map sorted_json xs, rest)"
        unfolding items_def
        by (rule read_items_printed) (use JList Cons n m in \<open>auto simp: enclosed_def list_all_iff\<close>)
      moreover have "print_indented True k (JList xs) @ rest = CHR ''['' # new_line (Suc k) @ items @ new_line k @ CHR '']'' # rest"
        using Cons by (simp add: enclosed_def items_def)
      ultimately show ?thesis
        using start c(2,3) by (auto simp: m skip_visible json_space_def)
    qed
  qed
  then show ?case by (simp add: reads_back_def)
next
  case (JObj ms)
  define ps where "ps = sort_key fst ms"
  have sorted: "sorted_json (JObj ms) = JObj (map (\<lambda>p. (fst p, sorted_json (snd p))) ps)"
    by (simp add: sort_map_snd ps_def)
  have printed: "print_indented True k (JObj ms) =
      enclosed (CHR ''{'') (CHR ''}'') k (map (member_text (print_indented True (Suc k))) ps)"
    by (simp add: sort_map_snd ps_def Let_def member_text_def [abs_def] comp_def)
  have ok: "p \<in> set ps \<Longrightarrow> reads_back stops (sorted_json (snd p)) (print_indented True (Suc k) (snd p))" for p
    using JObj.IH [of p "snd p"] JObj.prems by (auto simp: ps_def list_all_iff snds.simps)
  have "read_value n (print_indented True k (JObj ms) @ rest) = Some (sorted_json (JObj ms), rest)"
    if n: "length (print_indented True k (JObj ms)) < n" for n rest
  proof -
    obtain m where m: "n = Suc m" using n by (cases n) auto
    show ?thesis
    proof (cases ps)
      case Nil
      then show ?thesis unfolding sorted printed by (simp add: m enclosed_def skip_visible json_space_def)
    next
      case (Cons p qs)
      define items where "items = join (CHR '','' # new_line (Suc k)) (map (member_text (print_indented True (Suc k))) ps)"
      have start: "\<exists>ds. items = CHR 0x22 # ds"
        using Cons by (simp add: items_def member_text_def quote_def join_start)
      have "read_members m (items @ new_line k @ CHR ''}'' # rest) = Some (map (\<lambda>p. (fst p, sorted_json (snd p))) ps, rest)"
        unfolding items_def
        by (rule read_members_printed) (use ok Cons n [unfolded printed] m in \<open>simp_all add: enclosed_def\<close>)
      moreover have "print_indented True k (JObj ms) @ rest = CHR ''{'' # new_line (Suc k) @ items @ new_line k @ CHR ''}'' # rest"
        using Cons unfolding printed by (simp add: enclosed_def items_def)
      ultimately show ?thesis
        using start unfolding sorted by (auto simp: m skip_visible json_space_def)
    qed
  qed
  then show ?case by (simp add: reads_back_def)
next
  case (JInt i)
  obtain c cs where c: "str_of_int i = c # cs" "is_digit c \<or> c = CHR ''-''" using str_of_int_start by blast
  have "read_value (Suc n) (str_of_int i @ rest) = Some (JInt i, rest)" if "stops rest" for n rest
  proof -
    have "read_value (Suc n) (c # (cs @ rest)) = read_number (c # (cs @ rest))"
      by (rule read_value_start) (use c(2) in \<open>auto simp: is_digit_def code_def json_space_def\<close>)
    then show ?thesis using read_number_printed [of rest i] that c(1) by (simp add: stops_def)
  qed
  then show ?case by (intro reads_backI) simp
next
  case (JStr s)
  have "read_value (Suc n) (quote s @ rest) = Some (JStr s, rest)" for n rest
    by (simp add: quote_append skip_visible json_space_def read_quoted)
  then show ?case by (intro reads_backI) simp
next
  case JNull
  have "read_value (Suc n) (''null'' @ rest) = Some (JNull, rest)" for n rest
    by (simp add: skip_visible json_space_def starts_with_def)
  then show ?case by (intro reads_backI) simp
next
  case (JBool b)
  have "read_value (Suc n) ((if b then ''true'' else ''false'') @ rest) = Some (JBool b, rest)" for n rest
    by (simp add: skip_visible json_space_def starts_with_def)
  then show ?case by (intro reads_backI) simp
qed simp

text \<open>What the server writes is read back as the same document with its members in order.\<close>

lemma canonical_json_reads_back:
  assumes "no_decimals j"
  shows "read_document (canonical_json_bytes j) = Some (sorted_json j)"
proof -
  have "read_value (Suc (length (canonical_json_bytes j))) (print_indented True 0 j @ [CHR 0x0A]) = Some (sorted_json j, [CHR 0x0A])"
    by (rule reads_backD [OF read_value_printed [OF assms]]) (simp_all add: canonical_json_bytes_def)
  then show ?thesis by (simp add: read_document_def canonical_json_bytes_def skip_space_def json_space_def)
qed

end
