(* ===== verification/Discovery.thy ===== *)
theory Discovery
  imports VersionSort Distribution JsonText
begin

text \<open>
  What callers find in the registry: \<open>server/modules/discovery/projections.py\<close>, the rows of
  active exposures of ready releases with the paths of their artifacts, and
  \<open>discovery/service.py\<close>, the catalogs, searches and install resolutions over them.
\<close>

section \<open>The site\<close>

text \<open>An exception of the server or of the client library the server calls.\<close>

datatype host_error = FromService svc_error | FromClient dist_error

type_synonym 'a host = "host_error + 'a"

record site =
  site_outside :: outside
  site_signing :: "json dist"
  site_artifacts :: abs_path
  site_repo :: abs_path

section \<open>Projections\<close>

definition provenance_basename :: "string \<Rightarrow> string \<Rightarrow> string \<Rightarrow> string" where
  "provenance_basename publisher name version = publisher @ ''--'' @ name @ ''-'' @ version @ ''.json''"

definition release_dir :: "string \<Rightarrow> string \<Rightarrow> string \<Rightarrow> string" where
  "release_dir publisher name version = ''skills/'' @ publisher @ ''/'' @ name @ ''/'' @ version"

definition artifact_exists :: "disk \<Rightarrow> abs_path \<Rightarrow> string \<Rightarrow> bool" where
  "artifact_exists d root relative \<longleftrightarrow>
     strip relative \<noteq> [] \<and>
     (let candidate = under root relative in is_relative_to candidate root \<and> read_file d candidate \<noteq> None)"

definition from_client :: "'a dist \<Rightarrow> 'a host" where
  "from_client m = reraise FromClient m"

definition from_service :: "svc_error + 'a \<Rightarrow> 'a host" where
  "from_service m = reraise FromService m"

definition verified_or_false :: "'a dist \<Rightarrow> bool host" where
  "verified_or_false m =
     (case m of Inr _ \<Rightarrow> Inr True | Inl (DistributionError _) \<Rightarrow> Inr False | Inl e \<Rightarrow> Inl (FromClient e))"

definition projection_has_materialized_artifacts :: "site \<Rightarrow> disk \<Rightarrow> projection \<Rightarrow> bool host" where
  "projection_has_materialized_artifacts site d e =
     (let root = site_artifacts site in
      if (case prj_bundle_sha256 e of None \<Rightarrow> True | Some s \<Rightarrow> strip s = []) then Inr False
      else if \<not> list_all (artifact_exists d root)
                 [prj_manifest_path e, prj_bundle_path e, prj_provenance_path e, prj_signature_path e]
      then Inr False
      else verified_or_false (verify_distribution_manifest (site_outside site) d (site_signing site)
             (under root (prj_manifest_path e)) root (site_repo site)))"

definition listing_text :: "listing_mode \<Rightarrow> string" where
  "listing_text m = (case m of Listed \<Rightarrow> ''listed'' | DirectOnly \<Rightarrow> ''direct_only'')"

definition release_state_text :: "release_state \<Rightarrow> string" where
  "release_state_text s = (case s of RelPreparing \<Rightarrow> ''preparing'' | RelReady \<Rightarrow> ''ready'' | RelFailed \<Rightarrow> ''failed'')"

type_synonym joined_row = "exposure \<times> release \<times> skill_version \<times> skill \<times> principal"

definition opt_list :: "'a option \<Rightarrow> 'a list" where
  "opt_list x = (case x of None \<Rightarrow> [] | Some v \<Rightarrow> [v])"

definition joined_rows :: "db \<Rightarrow> joined_row list" where
  "joined_rows d =
     concat (map (\<lambda>e. concat (map (\<lambda>r. concat (map (\<lambda>v. concat (map (\<lambda>s. map (\<lambda>p. (e, r, v, s, p))
       (opt_list (row_get prn_id (db_principals d) (skl_namespace_id s))))
       (opt_list (row_get skl_id (db_skills d) (ver_skill_id v)))))
       (opt_list (row_get ver_id (db_versions d) (rel_version_id r)))))
       (opt_list (row_get rel_id (db_releases d) (exp_release_id e))))) (db_exposures d))"

text \<open>\<open>order_by(publisher, name, version desc, exposure id desc)\<close>\<close>

definition projection_query :: "string option \<Rightarrow> string option \<Rightarrow> nat \<Rightarrow> nat \<Rightarrow> db \<Rightarrow> joined_row list" where
  "projection_query audience_type listing limit offset d =
     (let rows = filter (\<lambda>(e, r, v, s, p).
            rel_state r = RelReady \<and> exp_state e = ExpActive \<and> exp_install e = InstallEnabled \<and>
            (case truthy_text audience_type of None \<Rightarrow> True | Some a \<Rightarrow> audience_text (exp_audience e) = a) \<and>
            (case truthy_text listing of None \<Rightarrow> True | Some l \<Rightarrow> listing_text (exp_listing e) = l)) (joined_rows d);
          newest_first = rev (sort_key (\<lambda>(e, r, v, s, p). (ver_version v, exp_id e)) rows)
      in take limit (drop offset (sort_key (\<lambda>(e, r, v, s, p). (prn_slug p, skl_slug s)) newest_first)))"

text \<open>\<open>int(row.release_id)\<close> raises for an artifact without a release.\<close>

definition bundle_sha_by_release :: "joined_row list \<Rightarrow> db \<Rightarrow> (id \<times> string) list host" where
  "bundle_sha_by_release rows d =
     (let ids = concat (map (\<lambda>(e, r, _). opt_list (rel_bundle_artifact r)) rows) in
      map_res (\<lambda>a. case art_release_id a of
                 None \<Rightarrow> Inl (FromClient (PyError ''TypeError''))
               | Some r \<Rightarrow> Inr (r, art_sha256 a))
        (filter (\<lambda>a. art_id a \<in> set ids) (db_artifacts d)))"

definition sealed_metadata :: "json_text \<Rightarrow> (string \<times> json) list" where
  "sealed_metadata raw = as_obj (jget (object_or_empty raw) ''metadata'')"

definition projection_from_row :: "(id \<times> string) list \<Rightarrow> joined_row \<Rightarrow> projection" where
  "projection_from_row shas = (\<lambda>(e, r, v, s, p).
     let publisher = prn_slug p; name = skl_slug s; version = ver_version v;
         dir = release_dir publisher name version;
         provenance = ''provenance/'' @ provenance_basename publisher name version
     in \<lparr>prj_exposure_id = exp_id e, prj_release_id = exp_release_id e,
         prj_audience_type = audience_text (exp_audience e), prj_listing_mode = listing_text (exp_listing e),
         prj_install_mode = (if exp_install e = InstallEnabled then ''enabled'' else ''disabled''),
         prj_review_requirement = review_mode_text (exp_requirement e),
         prj_exposure_state = exposure_state_text (exp_state e), prj_release_state = release_state_text (rel_state r),
         prj_publisher = publisher, prj_name = name, prj_qualified_name = publisher @ ''/'' @ name,
         prj_display_name = skl_display_name s, prj_summary = skl_summary s, prj_version = version,
         prj_ready_at = rel_ready_at r,
         prj_manifest_path = dir @ ''/manifest.json'', prj_bundle_path = dir @ ''/skill.tar.gz'',
         prj_provenance_path = provenance, prj_signature_path = provenance @ ''.ssig'',
         prj_bundle_sha256 = map_of (rev shas) (exp_release_id e),
         prj_metadata = sealed_metadata (ver_manifest_json v),
         prj_compatibility = object_or_empty (rel_compatibility_json r)\<rparr>)"

definition max_projection_batch_size :: nat where
  "max_projection_batch_size = 1000"

definition build_release_projections ::
    "string option \<Rightarrow> string option \<Rightarrow> nat option \<Rightarrow> nat \<Rightarrow> db \<Rightarrow> projection list host" where
  "build_release_projections audience_type listing limit offset d =
     (let capped = (case limit of None \<Rightarrow> max_projection_batch_size | Some n \<Rightarrow> min n max_projection_batch_size);
          rows = projection_query audience_type listing capped offset d
      in rbind (bundle_sha_by_release rows d) (\<lambda>shas. Inr (map (projection_from_row shas) rows)))"

section \<open>The snapshot of the catalog\<close>

text \<open>A file is written below its directories, which are made; a file in the place of a directory or
  a directory in the place of the file is an \<open>OSError\<close>.\<close>

definition write_path :: "abs_path \<Rightarrow> string \<Rightarrow> disk \<Rightarrow> disk host" where
  "write_path p data d =
     (if list_ex (\<lambda>k. read_file d (take k p) \<noteq> None) [1..<length p] \<or> (path_exists d p \<and> read_file d p = None)
      then Inl (FromService (OSError (''cannot write '' @ path_text p)))
      else Inr (AList.update p data d))"

definition datetime_text :: "time \<Rightarrow> string" where
  "datetime_text t = replace_char (CHR ''T'') (CHR '' '') (isoformat_utc t)"

definition projection_json :: "projection \<Rightarrow> json" where
  "projection_json e =
     JObj [(''exposure_id'', JInt (prj_exposure_id e)), (''release_id'', JInt (prj_release_id e)),
           (''audience_type'', JStr (prj_audience_type e)), (''listing_mode'', JStr (prj_listing_mode e)),
           (''install_mode'', JStr (prj_install_mode e)), (''review_requirement'', JStr (prj_review_requirement e)),
           (''exposure_state'', JStr (prj_exposure_state e)), (''release_state'', JStr (prj_release_state e)),
           (''publisher'', JStr (prj_publisher e)), (''name'', JStr (prj_name e)),
           (''qualified_name'', JStr (prj_qualified_name e)), (''display_name'', JStr (prj_display_name e)),
           (''summary'', JStr (prj_summary e)), (''version'', JStr (prj_version e)),
           (''ready_at'', jopt (\<lambda>t. JStr (datetime_text t)) (prj_ready_at e)),
           (''manifest_path'', JStr (prj_manifest_path e)), (''bundle_path'', JStr (prj_bundle_path e)),
           (''provenance_path'', JStr (prj_provenance_path e)), (''signature_path'', JStr (prj_signature_path e)),
           (''bundle_sha256'', jopt JStr (prj_bundle_sha256 e)), (''metadata'', JObj (prj_metadata e)),
           (''compatibility'', JObj (prj_compatibility e))]"

definition snapshot_path :: "abs_path \<Rightarrow> abs_path" where
  "snapshot_path root = root @ [''catalog'', ''private-registry-discovery.json'']"

definition refresh_projection_snapshot :: "abs_path \<Rightarrow> time \<Rightarrow> db \<Rightarrow> disk \<Rightarrow> disk host" where
  "refresh_projection_snapshot root now d disk =
     rbind (build_release_projections None None None 0 d) (\<lambda>items.
     write_path (snapshot_path root)
       (print_indented False 0
          (JObj [(''schema_version'', JInt 1),
                 (''generated_at'', JStr (isoformat_utc (now - now mod 1000000) @ ''Z'')),
                 (''items'', JList (map projection_json items))]) @ [CHR 0x0A]) disk)"

section \<open>References to skills\<close>

definition match_base :: "projection \<Rightarrow> string \<Rightarrow> bool" where
  "match_base e base_ref \<longleftrightarrow> base_ref = prj_name e \<or> base_ref = prj_qualified_name e"

definition strip_char :: "char \<Rightarrow> string \<Rightarrow> string" where
  "strip_char c s = rev (dropWhile (\<lambda>x. x = c) (rev (dropWhile (\<lambda>x. x = c) s)))"

definition parse_skill_ref :: "string \<Rightarrow> (string \<times> string option) host" where
  "parse_skill_ref skill_ref =
     (let raw = strip_char (CHR ''/'') (strip skill_ref) in
      if raw = [] then Inl (FromService (NotFound ''skill ref is required''))
      else if CHR ''@'' \<in> set raw then
        (let (after, _, before) = partition_on (CHR ''@'') (rev raw)
         in Inr (strip (rev before), truthy_text (Some (strip (rev after)))))
      else Inr (raw, None))"

definition filter_install_candidates :: "projection list \<Rightarrow> string \<Rightarrow> projection list host" where
  "filter_install_candidates entries skill_ref =
     rbind (parse_skill_ref skill_ref) (\<lambda>(base_ref, requested).
     Inr (filter (\<lambda>e. match_base e base_ref \<and> (case requested of None \<Rightarrow> True | Some v \<Rightarrow> prj_version e = v)) entries))"

text \<open>\<open>sorted(xs, key=key, reverse=True)[0]\<close>: the first of the greatest.\<close>

fun first_greatest :: "('a \<Rightarrow> 'k::linorder) \<Rightarrow> 'a \<Rightarrow> 'a list \<Rightarrow> 'a" where
  "first_greatest key x [] = x"
| "first_greatest key x (y # ys) = first_greatest key (if key x < key y then y else x) ys"

definition newest_key :: "projection \<Rightarrow> (nat \<times> nat \<times> string) list \<times> (nat \<times> string) \<times> nat" where
  "newest_key e =
     (version_sort_key (prj_version e), ready_sort_key (prj_ready_at e), audience_rank (prj_audience_type e))"

definition audience_key :: "projection \<Rightarrow> nat \<times> nat \<times> string" where
  "audience_key e = (audience_rank (prj_audience_type e), ready_sort_key (prj_ready_at e))"

definition resolve_install_candidate :: "projection list \<Rightarrow> string \<Rightarrow> projection host" where
  "resolve_install_candidate entries skill_ref =
     rbind (filter_install_candidates entries skill_ref) (\<lambda>matches.
     case matches of
       [] \<Rightarrow> Inl (FromService (NotFound ''install target not found''))
     | m # ms \<Rightarrow>
         rbind (parse_skill_ref skill_ref) (\<lambda>(base_ref, requested).
         rbind (require (CHR ''/'' \<in> set base_ref \<or> length (remdups (map prj_qualified_name matches)) \<le> 1)
                  (FromService (Conflict ''ambiguous short skill ref''))) (\<lambda>_.
         Inr (case requested of
                None \<Rightarrow> first_greatest newest_key m ms
              | Some _ \<Rightarrow> first_greatest audience_key m ms))))"

section \<open>Catalogs\<close>

definition ensure_user_context :: "access_context \<Rightarrow> unit host" where
  "ensure_user_context ctx =
     require (ctx_user ctx \<noteq> None \<and> ctx_principal ctx \<noteq> None) (FromService (Forbidden ''user session required''))"

definition ensure_grant_context :: "access_context \<Rightarrow> unit host" where
  "ensure_grant_context ctx =
     require (crd_grant_id (ctx_credential ctx) \<noteq> None) (FromService (Forbidden ''grant credential required''))"

definition catalog_max_entries :: nat where
  "catalog_max_entries = 500"

definition available_release_projections ::
    "site \<Rightarrow> disk \<Rightarrow> string option \<Rightarrow> nat \<Rightarrow> db \<Rightarrow> projection list host" where
  "available_release_projections site disk audience_type limit d =
     rbind (build_release_projections audience_type None (Some limit) 0 d) (\<lambda>entries.
     rbind (map_res (\<lambda>e. rbind (projection_has_materialized_artifacts site disk e) (\<lambda>ok. Inr (e, ok))) entries)
       (\<lambda>checked. Inr (take limit (map fst (filter snd checked)))))"

definition accessible_entries :: "access_context \<Rightarrow> projection list \<Rightarrow> db \<Rightarrow> projection list" where
  "accessible_entries ctx entries d =
     (let ids = can_access_releases ctx (map prj_release_id entries) d
      in filter (\<lambda>e. prj_release_id e \<in> set ids) entries)"

definition list_public_catalog :: "site \<Rightarrow> disk \<Rightarrow> db \<Rightarrow> projection list host" where
  "list_public_catalog site disk d =
     rbind (available_release_projections site disk (Some ''public'') catalog_max_entries d) (\<lambda>rows.
     Inr (dedupe_entries True (filter (\<lambda>e. prj_listing_mode e = ''listed'') rows)))"

definition list_me_catalog :: "site \<Rightarrow> disk \<Rightarrow> access_context \<Rightarrow> db \<Rightarrow> projection list host" where
  "list_me_catalog site disk ctx d =
     rbind (ensure_user_context ctx) (\<lambda>_.
     rbind (available_release_projections site disk None catalog_max_entries d) (\<lambda>entries.
     Inr (dedupe_entries True (accessible_entries ctx entries d))))"

definition list_grant_catalog :: "site \<Rightarrow> disk \<Rightarrow> access_context \<Rightarrow> db \<Rightarrow> projection list host" where
  "list_grant_catalog site disk ctx d =
     rbind (ensure_grant_context ctx) (\<lambda>_.
     rbind (available_release_projections site disk (Some ''grant'') catalog_max_entries d) (\<lambda>entries.
     Inr (dedupe_entries True (accessible_entries ctx entries d))))"

section \<open>Search\<close>

definition score_text :: "string \<Rightarrow> nat \<times> string \<Rightarrow> int" where
  "score_text needle = (\<lambda>(i, haystack).
     if haystack = [] then 0
     else if haystack = needle then 100 - int i
     else if starts_with needle haystack then 60 - int i
     else if contains needle haystack then 30 - int i
     else 0)"

definition score_discovery_entry :: "string \<Rightarrow> projection \<Rightarrow> int" where
  "score_discovery_entry query e =
     (let needle = lower (strip query) in
      if needle = [] then 1
      else sum_list (map (score_text needle) (enumerate 0 (map lower
             [prj_name e, prj_qualified_name e, prj_display_name e, prj_summary e, prj_version e]))))"

definition search_entries :: "projection list \<Rightarrow> string \<Rightarrow> nat \<Rightarrow> projection list" where
  "search_entries entries query limit =
     take limit (map snd
       (sort_key (\<lambda>(score, e). (- score, prj_qualified_name e, prj_version e))
         (filter (\<lambda>(score, e). 0 < score) (map (\<lambda>e. (score_discovery_entry query e, e)) entries))))"

definition search_public_catalog :: "site \<Rightarrow> disk \<Rightarrow> string \<Rightarrow> nat \<Rightarrow> db \<Rightarrow> projection list host" where
  "search_public_catalog site disk query limit d =
     rbind (list_public_catalog site disk d) (\<lambda>entries. Inr (search_entries entries query limit))"

definition search_me_catalog :: "site \<Rightarrow> disk \<Rightarrow> access_context \<Rightarrow> string \<Rightarrow> nat \<Rightarrow> db \<Rightarrow> projection list host" where
  "search_me_catalog site disk ctx query limit d =
     rbind (list_me_catalog site disk ctx d) (\<lambda>entries. Inr (search_entries entries query limit))"

definition search_grant_catalog :: "site \<Rightarrow> disk \<Rightarrow> access_context \<Rightarrow> string \<Rightarrow> nat \<Rightarrow> db \<Rightarrow> projection list host" where
  "search_grant_catalog site disk ctx query limit d =
     rbind (list_grant_catalog site disk ctx d) (\<lambda>entries. Inr (search_entries entries query limit))"

section \<open>The catalog on disk\<close>

definition read_json_file :: "outside \<Rightarrow> disk \<Rightarrow> abs_path \<Rightarrow> (string \<times> json) list" where
  "read_json_file out d p =
     (case read_file d p of
        None \<Rightarrow> []
      | Some raw \<Rightarrow> (case out_decode out raw of Some (JObj m) \<Rightarrow> m | _ \<Rightarrow> []))"

definition catalog_snapshot_roots :: "site \<Rightarrow> abs_path list" where
  "catalog_snapshot_roots site = [site_artifacts site, site_artifacts site @ [''catalog'']]"

fun first_skills :: "(string \<times> json) list list \<Rightarrow> (string \<times> json) list list" where
  "first_skills [] = []"
| "first_skills (payload # rest) =
     (case jget payload ''skills'' of
        JList skills \<Rightarrow> map as_obj (filter is_obj skills)
      | _ \<Rightarrow> first_skills rest)"

definition load_catalog_entries :: "string \<Rightarrow> site \<Rightarrow> disk \<Rightarrow> (string \<times> json) list list" where
  "load_catalog_entries filename site d =
     first_skills (map (\<lambda>root. read_json_file (site_outside site) d (root @ [filename])) (catalog_snapshot_roots site))"

definition first_text :: "(string \<times> json) list \<Rightarrow> string list \<Rightarrow> string \<Rightarrow> string" where
  "first_text item keys fallback =
     py_str (json_or (fold (\<lambda>k found. json_or found (jget item k)) keys JNull) (JStr fallback))"

definition snapshot_distribution_lookup :: "site \<Rightarrow> disk \<Rightarrow> ((string \<times> string) \<times> (string \<times> json) list) list" where
  "snapshot_distribution_lookup site d =
     concat (map (\<lambda>item.
       let qualified = strip (first_text item [''qualified_name'', ''name''] []);
           version = strip (first_text item [''version''] [])
       in if qualified = [] \<or> version = [] then [] else [((qualified, version), item)])
     (load_catalog_entries ''distributions.json'' site d))"

definition snapshot_artifact_path :: "(string \<times> json) list \<Rightarrow> string \<Rightarrow> string list \<Rightarrow> string" where
  "snapshot_artifact_path distribution field fallbacks =
     (let candidate = strip (first_text distribution [field] []) in
      if candidate \<noteq> [] then candidate
      else (case filter (\<lambda>v. v \<noteq> []) (map strip fallbacks) of [] \<Rightarrow> [] | v # _ \<Rightarrow> v))"

definition snapshot_projection ::
    "((string \<times> string) \<times> (string \<times> json) list) list \<Rightarrow> (string \<times> json) list \<Rightarrow> projection list" where
  "snapshot_projection lookup item =
     (let qualified = strip (first_text item [''qualified_name'', ''name''] []);
          version = strip (first_text item [''latest_version'', ''default_install_version''] []);
          (publisher, _, name) = partition_on (CHR ''/'') qualified
      in if qualified = [] \<or> version = [] \<or> publisher = [] \<or> name = [] then []
         else (let distribution = (case map_of (rev lookup) (qualified, version) of None \<Rightarrow> [] | Some x \<Rightarrow> x);
                   plain = name @ ''-'' @ version @ ''.json'';
                   dir = publisher @ ''/'' @ name @ ''/'' @ version;
                   sha = strip (first_text distribution [''bundle_sha256''] [])
               in [\<lparr>prj_exposure_id = 0, prj_release_id = 0, prj_audience_type = ''public'',
                    prj_listing_mode = first_text item [''listing_mode''] ''listed'',
                    prj_install_mode = ''enabled'', prj_review_requirement = ''none'',
                    prj_exposure_state = ''active'', prj_release_state = ''ready'',
                    prj_publisher = first_text item [''publisher''] publisher, prj_name = name,
                    prj_qualified_name = qualified,
                    prj_display_name = first_text item [''display_name''] name,
                    prj_summary = py_str (json_or (jget item ''summary'') (json_or (jget distribution ''summary'') (JStr []))),
                    prj_version = version, prj_ready_at = None,
                    prj_manifest_path = snapshot_artifact_path distribution ''manifest_path''
                      [''catalog/distributions/'' @ dir @ ''/manifest.json'', ''skills/'' @ dir @ ''/manifest.json''],
                    prj_bundle_path = snapshot_artifact_path distribution ''bundle_path''
                      [''catalog/distributions/'' @ dir @ ''/skill.tar.gz'', ''skills/'' @ dir @ ''/skill.tar.gz''],
                    prj_provenance_path = snapshot_artifact_path distribution ''attestation_path''
                      [''catalog/provenance/'' @ plain, ''provenance/'' @ plain,
                       ''provenance/'' @ provenance_basename publisher name version],
                    prj_signature_path = snapshot_artifact_path distribution ''attestation_signature_path''
                      [''catalog/provenance/'' @ plain @ ''.ssig'', ''provenance/'' @ plain @ ''.ssig'',
                       ''provenance/'' @ provenance_basename publisher name version @ ''.ssig''],
                    prj_bundle_sha256 = truthy_text (Some sha), prj_metadata = item,
                    prj_compatibility = as_obj (jget item ''compatibility'')\<rparr>]))"

definition catalog_snapshot_projections :: "site \<Rightarrow> disk \<Rightarrow> projection list" where
  "catalog_snapshot_projections site d =
     concat (map (snapshot_projection (snapshot_distribution_lookup site d))
       (load_catalog_entries ''discovery-index.json'' site d))"

section \<open>Installations\<close>

definition resolve_public_install :: "site \<Rightarrow> disk \<Rightarrow> string \<Rightarrow> db \<Rightarrow> projection host" where
  "resolve_public_install site disk skill_ref d =
     rbind (available_release_projections site disk (Some ''public'') 1000 d) (\<lambda>rows.
     case resolve_install_candidate rows skill_ref of
       Inl (FromService (NotFound m)) \<Rightarrow>
         (let snapshot_rows = catalog_snapshot_projections site disk in
          if snapshot_rows = [] then Inl (FromService (NotFound m))
          else resolve_install_candidate snapshot_rows skill_ref)
     | r \<Rightarrow> r)"

definition resolve_accessible :: "access_context \<Rightarrow> projection list \<Rightarrow> string \<Rightarrow> db \<Rightarrow> projection host" where
  "resolve_accessible ctx all_rows skill_ref d =
     rbind (filter_install_candidates all_rows skill_ref) (\<lambda>matches.
     rbind (require (matches \<noteq> []) (FromService (NotFound ''install target not found''))) (\<lambda>_.
     let rows = accessible_entries ctx matches d in
     rbind (require (rows \<noteq> []) (FromService (Forbidden ''release access denied''))) (\<lambda>_.
     resolve_install_candidate rows skill_ref)))"

definition resolve_me_install :: "site \<Rightarrow> disk \<Rightarrow> access_context \<Rightarrow> string \<Rightarrow> db \<Rightarrow> projection host" where
  "resolve_me_install site disk ctx skill_ref d =
     rbind (ensure_user_context ctx) (\<lambda>_.
     rbind (available_release_projections site disk None catalog_max_entries d) (\<lambda>all_rows.
     resolve_accessible ctx all_rows skill_ref d))"

definition resolve_grant_install :: "site \<Rightarrow> disk \<Rightarrow> access_context \<Rightarrow> string \<Rightarrow> db \<Rightarrow> projection host" where
  "resolve_grant_install site disk ctx skill_ref d =
     rbind (ensure_grant_context ctx) (\<lambda>_.
     rbind (available_release_projections site disk (Some ''grant'') 1000 d) (\<lambda>all_rows.
     resolve_accessible ctx all_rows skill_ref d))"

definition artifact_relative_path :: "projection \<Rightarrow> string \<Rightarrow> string host" where
  "artifact_relative_path e artifact =
     (if artifact = ''manifest'' then Inr (prj_manifest_path e)
      else if artifact = ''bundle'' then Inr (prj_bundle_path e)
      else if artifact = ''provenance'' then Inr (prj_provenance_path e)
      else if artifact = ''signature'' then Inr (prj_signature_path e)
      else Inl (FromService (NotFound ''artifact kind not found'')))"

text \<open>The file a request gets, if any: below the artifact root.\<close>

definition artifact_response :: "abs_path \<Rightarrow> string \<Rightarrow> disk \<Rightarrow> string host" where
  "artifact_response root relative d =
     (let candidate = under root relative in
      if \<not> is_relative_to candidate root then Inl (FromService (NotFound ''artifact not found''))
      else or_raise (read_file d candidate) (FromService (NotFound ''artifact not found'')))"

section \<open>Search in the catalog on disk\<close>

definition json_texts :: "json \<Rightarrow> json list host" where
  "json_texts j =
     (if \<not> truthy j then Inr []
      else (case j of JList xs \<Rightarrow> Inr xs | JStr s \<Rightarrow> Inr (map (\<lambda>c. JStr [c]) s)
            | JObj m \<Rightarrow> Inr (map (\<lambda>p. JStr (fst p)) m) | _ \<Rightarrow> Inl (FromClient (PyError ''TypeError''))))"

definition catalog_entry_score :: "string \<Rightarrow> (string \<times> json) list \<Rightarrow> int host" where
  "catalog_entry_score query item =
     (let needle = lower (strip query) in
      if needle = [] then Inr 1
      else rbind (json_texts (jget item ''match_names'')) (\<lambda>names.
           rbind (json_texts (jget item ''tags'')) (\<lambda>tags.
           Inr (sum_list (map (score_text needle) (enumerate 0 (map (\<lambda>j. lower (strip (py_str (json_or j (JStr [])))))
             (map (\<lambda>k. json_or (jget item k) (JStr []))
                [''display_name'', ''name'', ''qualified_name'', ''summary'', ''latest_version''] @ names @ tags))))))))"

definition search_catalog_snapshot :: "site \<Rightarrow> disk \<Rightarrow> string \<Rightarrow> nat \<Rightarrow> (string \<times> json) list list host" where
  "search_catalog_snapshot site disk query limit =
     rbind (map_res (\<lambda>item. rbind (catalog_entry_score query item) (\<lambda>score. Inr (score, item)))
              (load_catalog_entries ''discovery-index.json'' site disk)) (\<lambda>scored.
     Inr (take limit (map snd
       (sort_key (\<lambda>(score, item). (- score, first_text item [''qualified_name''] [], first_text item [''latest_version''] []))
          (filter (\<lambda>(score, item). 0 < score) scored)))))"

end
