(* ===== verification/DiscoveryCases.thy ===== *)
theory DiscoveryCases
  imports Discovery DistributionCases
begin

text \<open>
  What the catalogs and the install resolutions show: only offers that are open to the caller, and
  prereleases before their release.
\<close>

section \<open>Offers\<close>

text \<open>An entry that comes from an active, installable exposure of a ready release whose artifacts
  on disk verify.\<close>

definition offered :: "site \<Rightarrow> disk \<Rightarrow> db \<Rightarrow> projection \<Rightarrow> bool" where
  "offered site disk d e \<longleftrightarrow>
     (\<exists>x r. x \<in> set (db_exposures d) \<and> row_get rel_id (db_releases d) (exp_release_id x) = Some r \<and>
        rel_state r = RelReady \<and> installable x \<and> prj_release_id e = exp_release_id x \<and>
        prj_audience_type e = audience_text (exp_audience x)) \<and>
     (\<exists>v. verify_distribution_manifest (site_outside site) disk (site_signing site)
        (under (site_artifacts site) (prj_manifest_path e)) (site_artifacts site) (site_repo site) = Inr v)"

lemma joined_row:
  "(e, r, v, s, p) \<in> set (joined_rows d) \<Longrightarrow> e \<in> set (db_exposures d) \<and> row_get rel_id (db_releases d) (exp_release_id e) = Some r"
  by (auto simp: joined_rows_def opt_list_def split: option.splits)

lemma projection_query_rows:
  assumes "row \<in> set (projection_query audience listing limit offset d)"
  shows "\<exists>e r v s p. row = (e, r, v, s, p) \<and> e \<in> set (db_exposures d) \<and>
     row_get rel_id (db_releases d) (exp_release_id e) = Some r \<and> rel_state r = RelReady \<and> installable e \<and>
     (\<forall>a. truthy_text audience = Some a \<longrightarrow> audience_text (exp_audience e) = a)"
proof -
  obtain e r v s p where row: "row = (e, r, v, s, p)" by (cases row) blast
  with assms have "(e, r, v, s, p) \<in> set (joined_rows d)" "rel_state r = RelReady" "installable e"
      "case truthy_text audience of None \<Rightarrow> True | Some a \<Rightarrow> audience_text (exp_audience e) = a"
    by (auto simp: projection_query_def Let_def installable_def dest!: in_set_takeD in_set_dropD)
  with row joined_row show ?thesis by (auto split: option.splits)
qed

lemma projection_from_row_fields:
  "prj_release_id (projection_from_row shas (e, r, v, s, p)) = exp_release_id e"
  "prj_audience_type (projection_from_row shas (e, r, v, s, p)) = audience_text (exp_audience e)"
  by (simp_all add: projection_from_row_def Let_def)

lemma map_res_mem: "map_res f xs = Inr ys \<Longrightarrow> y \<in> set ys \<Longrightarrow> \<exists>x \<in> set xs. f x = Inr y"
  by (induction xs arbitrary: ys) (auto simp: rbind_Inr_iff)

lemma build_projections:
  assumes "build_release_projections audience listing limit offset d = Inr es" and "e \<in> set es"
  obtains row shas n where "row \<in> set (projection_query audience listing n offset d)" "e = projection_from_row shas row"
  using assms by (auto simp: build_release_projections_def Let_def rbind_Inr_iff)

lemma available_built:
  assumes "available_release_projections site disk audience limit d = Inr es" and "e \<in> set es"
  shows "\<exists>all. build_release_projections audience None (Some limit) 0 d = Inr all \<and> e \<in> set all \<and>
     projection_has_materialized_artifacts site disk e = Inr True"
proof -
  obtain all checked where all: "build_release_projections audience None (Some limit) 0 d = Inr all"
      "map_res (\<lambda>e. rbind (projection_has_materialized_artifacts site disk e) (\<lambda>ok. Inr (e, ok))) all = Inr checked"
      "es = take limit (map fst (filter snd checked))"
    using assms(1) by (auto simp: available_release_projections_def rbind_Inr_iff)
  then have "(e, True) \<in> set checked" using assms(2) by (auto dest!: in_set_takeD)
  from map_res_mem [OF all(2) this] all(1) show ?thesis by (auto simp: rbind_Inr_iff)
qed

lemma available_offered:
  assumes "available_release_projections site disk audience limit d = Inr es" and "e \<in> set es"
  shows "offered site disk d e \<and> (\<forall>a. truthy_text audience = Some a \<longrightarrow> prj_audience_type e = a)"
proof -
  obtain all where all: "build_release_projections audience None (Some limit) 0 d = Inr all" "e \<in> set all" and
    ok: "projection_has_materialized_artifacts site disk e = Inr True"
    using available_built [OF assms] by blast
  from build_projections [OF all] obtain row shas n where
    row: "row \<in> set (projection_query audience None n 0 d)" "e = projection_from_row shas row" .
  then obtain x r v s p where x: "row = (x, r, v, s, p)" "x \<in> set (db_exposures d)"
      "row_get rel_id (db_releases d) (exp_release_id x) = Some r" "rel_state r = RelReady" "installable x"
      "\<forall>a. truthy_text audience = Some a \<longrightarrow> audience_text (exp_audience x) = a"
    using projection_query_rows [OF row(1)] by blast
  have "\<exists>v. verify_distribution_manifest (site_outside site) disk (site_signing site)
        (under (site_artifacts site) (prj_manifest_path e)) (site_artifacts site) (site_repo site) = Inr v"
    using ok by (auto simp: projection_has_materialized_artifacts_def verified_or_false_def Let_def
        split: if_splits sum.splits dist_error.splits)
  with x row show ?thesis by (auto simp: offered_def projection_from_row_fields)
qed

lemma dedupe_subset: "e \<in> set (dedupe_entries True es) \<Longrightarrow> e \<in> set es"
  using dedupe_exact kept_for_Some by blast

lemma accessible_allowed:
  "e \<in> set (accessible_entries ctx es d) \<Longrightarrow> e \<in> set es \<and> access_rule ctx (prj_release_id e) d"
  by (auto simp: accessible_entries_def Let_def can_access_releases_iff)

lemma search_subset: "e \<in> set (search_entries es query limit) \<Longrightarrow> e \<in> set es"
  by (auto simp: search_entries_def dest!: in_set_takeD)

lemma first_greatest_mem: "first_greatest key x ys \<in> set (x # ys)"
  by (induction key x ys rule: first_greatest.induct) (auto split: if_splits)

lemma first_greatest_max: "z \<in> set (x # ys) \<Longrightarrow> key z \<le> key (first_greatest key x ys)"
proof (induction key x ys arbitrary: z rule: first_greatest.induct)
  case (1 key x)
  then show ?case by simp
next
  case (2 key x y ys)
  have start: "key (if key x < key y then y else x) \<le> key (first_greatest key x (y # ys))"
    using 2 by simp
  have "key x \<le> key (if key x < key y then y else x)" "key y \<le> key (if key x < key y then y else x)" by auto
  with start 2 show ?case by (auto intro: order_trans)
qed

lemma resolve_candidate_Inr:
  assumes "resolve_install_candidate es skill_ref = Inr e"
  obtains m ms base_ref requested where "filter_install_candidates es skill_ref = Inr (m # ms)"
    "parse_skill_ref skill_ref = Inr (base_ref, requested)"
    "e = (case requested of None \<Rightarrow> first_greatest newest_key m ms | Some _ \<Rightarrow> first_greatest audience_key m ms)"
proof -
  from assms obtain matches where m: "filter_install_candidates es skill_ref = Inr matches"
    unfolding resolve_install_candidate_def rbind_Inr_iff by blast
  show thesis
  proof (cases matches)
    case Nil
    with assms m show ?thesis by (simp add: resolve_install_candidate_def)
  next
    case (Cons m' ms)
    with assms m that show ?thesis
      unfolding resolve_install_candidate_def by (auto simp: rbind_Inr_iff)
  qed
qed

lemma filter_candidates_subset: "filter_install_candidates es skill_ref = Inr ms \<Longrightarrow> set ms \<subseteq> set es"
  by (auto simp: filter_install_candidates_def rbind_Inr_iff)

lemma resolve_candidate_mem:
  assumes "resolve_install_candidate es skill_ref = Inr e"
  shows "e \<in> set es"
proof -
  from assms obtain m ms base_ref and requested :: "string option" where
    m: "filter_install_candidates es skill_ref = Inr (m # ms)" and
    e: "e = (case requested of None \<Rightarrow> first_greatest newest_key m ms | Some _ \<Rightarrow> first_greatest audience_key m ms)"
    by (rule resolve_candidate_Inr)
  have "e \<in> set (m # ms)"
    using first_greatest_mem [of newest_key m ms] first_greatest_mem [of audience_key m ms] e
    by (cases requested) simp_all
  then show ?thesis using filter_candidates_subset [OF m] by blast
qed

lemma resolve_accessible_allowed:
  assumes "resolve_accessible ctx rows skill_ref d = Inr e"
  shows "e \<in> set rows \<and> access_rule ctx (prj_release_id e) d"
proof -
  obtain matches where "filter_install_candidates rows skill_ref = Inr matches"
      "resolve_install_candidate (accessible_entries ctx matches d) skill_ref = Inr e"
    using assms by (auto simp: resolve_accessible_def Let_def rbind_Inr_iff)
  with resolve_candidate_mem accessible_allowed show ?thesis
    by (fastforce simp: filter_install_candidates_def rbind_Inr_iff)
qed

section \<open>Only what is open to the caller\<close>

text \<open>C34. Catalogs, searches and installations show only offers that are open to the caller.  Every
  entry of a user's or a grant's catalog, of a search in them, and of an installation resolved
  there comes from an active, installable exposure of a ready release, the access rule lets the
  caller open that release, and its artifacts on disk pass the verification of the client; every
  entry of the public catalog comes from such an exposure that is public.\<close>

theorem catalogs_show_only_open_offers:
  assumes "list_me_catalog site disk ctx d = Inr es \<and> e \<in> set es \<or>
      list_grant_catalog site disk ctx d = Inr es \<and> e \<in> set es \<or>
      search_me_catalog site disk ctx query limit d = Inr es \<and> e \<in> set es \<or>
      search_grant_catalog site disk ctx query limit d = Inr es \<and> e \<in> set es \<or>
      resolve_me_install site disk ctx skill_ref d = Inr e \<or>
      resolve_grant_install site disk ctx skill_ref d = Inr e \<or>
      list_public_catalog site disk d = Inr es \<and> e \<in> set es"
  shows "offered site disk d e \<and>
     (access_rule ctx (prj_release_id e) d \<or> list_public_catalog site disk d = Inr es \<and> prj_audience_type e = ''public'')"
proof -
  have listed: "e \<in> set rows \<and> access_rule ctx (prj_release_id e) d"
    if "e \<in> set (dedupe_entries True (accessible_entries ctx rows d))" for rows
    using accessible_allowed [OF dedupe_subset [OF that]] .
  have me: "offered site disk d e \<and> access_rule ctx (prj_release_id e) d"
    if "list_me_catalog site disk ctx d = Inr xs" "e \<in> set xs" for xs
    using that listed available_offered by (fastforce simp: list_me_catalog_def rbind_Inr_iff)
  have grant: "offered site disk d e \<and> access_rule ctx (prj_release_id e) d"
    if "list_grant_catalog site disk ctx d = Inr xs" "e \<in> set xs" for xs
    using that listed available_offered by (fastforce simp: list_grant_catalog_def rbind_Inr_iff)
  have search: "e \<in> set xs" if "e \<in> set (search_entries xs query limit)" for xs
    using search_subset that .
  have install_allowed: "\<And>audience n rows. available_release_projections site disk audience n d = Inr rows \<Longrightarrow>
      resolve_accessible ctx rows skill_ref d = Inr e \<Longrightarrow> offered site disk d e \<and> access_rule ctx (prj_release_id e) d"
    using available_offered resolve_accessible_allowed by blast
  have public: "offered site disk d e \<and> prj_audience_type e = ''public''"
    if l: "list_public_catalog site disk d = Inr es" "e \<in> set es"
  proof -
    obtain rows where rows: "available_release_projections site disk (Some ''public'') catalog_max_entries d = Inr rows"
        "es = dedupe_entries True (filter (\<lambda>e. prj_listing_mode e = ''listed'') rows)"
      using l(1) by (auto simp: list_public_catalog_def rbind_Inr_iff)
    then have "e \<in> set rows" using dedupe_subset l(2) by fastforce
    with available_offered [OF rows(1)] show ?thesis by (simp add: truthy_text_def)
  qed
  from assms consider
      (me) "list_me_catalog site disk ctx d = Inr es" "e \<in> set es"
    | (grant) "list_grant_catalog site disk ctx d = Inr es" "e \<in> set es"
    | (search_me) xs where "list_me_catalog site disk ctx d = Inr xs" "e \<in> set xs"
    | (search_grant) xs where "list_grant_catalog site disk ctx d = Inr xs" "e \<in> set xs"
    | (install) "resolve_me_install site disk ctx skill_ref d = Inr e \<or> resolve_grant_install site disk ctx skill_ref d = Inr e"
    | (public) "list_public_catalog site disk d = Inr es" "e \<in> set es"
    using search by (auto simp: search_me_catalog_def search_grant_catalog_def rbind_Inr_iff)
  then show ?thesis
  proof cases
    case install
    then show ?thesis
      unfolding resolve_me_install_def resolve_grant_install_def rbind_Inr_iff using install_allowed by blast
  qed (use me grant public in blast)+
qed

section \<open>A catalog with one offer\<close>

definition shop_site :: site where
  "shop_site = \<lparr>site_outside = case_world ''good'', site_signing = Inr (JObj []), site_artifacts = [''r''],
     site_repo = [''a'']\<rparr>"

definition shop_disk :: disk where
  "shop_disk = case_disk ''good'' @
     [([''r'', ''skills'', ''alice'', ''demo'', ''1.0.0'', ''manifest.json''], ''M''),
      ([''r'', ''skills'', ''alice'', ''demo'', ''1.0.0'', ''skill.tar.gz''], ''good''),
      ([''r'', ''provenance'', ''alice--demo-1.0.0.json''], ''S''),
      ([''r'', ''provenance'', ''alice--demo-1.0.0.json.ssig''], ''G'')]"

definition shop_db :: db where
  "shop_db = sample_db\<lparr>
     db_exposures := [\<lparr>exp_id = 1, exp_release_id = 1, exp_audience = Authenticated, exp_listing = Listed,
       exp_install = InstallEnabled, exp_requirement = NoReview, exp_state = ExpActive, exp_requested_by = Some 1,
       exp_policy_json = json_dumps (JObj []), exp_activated_at = Some 1, exp_ended_at = None\<rparr>],
     db_artifacts := [\<lparr>art_id = 2, art_release_id = Some 1, art_kind = ''bundle'', art_storage_uri = ''b'',
       art_sha256 = ''#good'', art_size_bytes = 4\<rparr>]\<rparr>"

definition shop_context :: access_context where
  "shop_context = \<lparr>ctx_credential = (new_credential empty_db)\<lparr>crd_principal_id := Some 2, crd_type := PersonalToken\<rparr>,
     ctx_principal = Some (sample_principals ! 1), ctx_user = Some (sample_users ! 1), ctx_scopes = {''api:user''},
     ctx_request_id = []\<rparr>"

definition single_entry :: "projection list host \<Rightarrow> id \<Rightarrow> bool" where
  "single_entry r i = (case r of Inr [e] \<Rightarrow> prj_release_id e = i | _ \<Rightarrow> False)"

lemma shop_catalog: "single_entry (list_me_catalog shop_site shop_disk shop_context shop_db) 1"
  by code_simp

lemma catalogs_show_only_open_offers_witness:
  "\<exists>e. offered shop_site shop_disk shop_db e \<and> access_rule shop_context 1 shop_db"
proof -
  obtain es e where es: "list_me_catalog shop_site shop_disk shop_context shop_db = Inr es" and
    e: "e \<in> set es" "prj_release_id e = 1"
    using shop_catalog by (fastforce simp: single_entry_def split: sum.splits list.splits)
  from catalogs_show_only_open_offers [OF disjI1, OF conjI [OF es e(1)]] e(2)
  have "offered shop_site shop_disk shop_db e"
    "access_rule shop_context 1 shop_db \<or> prj_audience_type e = ''public''"
    by auto
  moreover have "prj_audience_type e \<noteq> ''public''"
  proof -
    have "list_all (\<lambda>x. exp_audience x = Authenticated) (db_exposures shop_db)" by code_simp
    with \<open>offered shop_site shop_disk shop_db e\<close> show ?thesis
      by (auto simp: offered_def list_all_iff audience_text_def)
  qed
  ultimately show ?thesis by blast
qed

section \<open>Prereleases first\<close>

text \<open>C35. An installation without a version never resolves to a release while a prerelease of it is on
  offer: the sort key of the catalogs puts the prereleases of a version after the version, so
  the newest entry is a prerelease (or a later version), never the release itself.\<close>

theorem prerelease_is_preferred:
  assumes "resolve_install_candidate entries skill_ref = Inr e"
    and "parse_skill_ref skill_ref = Inr (base_ref, None)"
    and "x \<in> set entries" and "match_base x base_ref"
    and "prj_version x = version @ ''-'' @ pre" and "version_parts pre \<noteq> []"
  shows "prj_version e \<noteq> version \<and> version_sort_key version < version_sort_key (prj_version e)"
proof -
  obtain m ms base_ref' and requested :: "string option" where
    m: "filter_install_candidates entries skill_ref = Inr (m # ms)"
      "parse_skill_ref skill_ref = Inr (base_ref', requested)" and
    e: "e = (case requested of None \<Rightarrow> first_greatest newest_key m ms | Some _ \<Rightarrow> first_greatest audience_key m ms)"
    using assms(1) by (rule resolve_candidate_Inr)
  with assms(2) have "requested = None" by simp
  with e have e: "e = first_greatest newest_key m ms" by simp
  have "x \<in> set (m # ms)"
  proof -
    have "set (filter (\<lambda>e. match_base e base_ref) entries) = set (m # ms)"
      using m(1) assms(2) by (simp add: filter_install_candidates_def)
    with assms(3,4) show ?thesis by auto
  qed
  from first_greatest_max [OF this, of newest_key] have "newest_key x \<le> newest_key e" by (simp add: e)
  then have "version_sort_key (prj_version x) \<le> version_sort_key (prj_version e)"
    by (auto simp: newest_key_def less_eq_prod_simp)
  with prerelease_sorts_after [OF assms(6), of version] assms(5) have "version_sort_key version < version_sort_key (prj_version e)"
    by simp
  then show ?thesis by auto
qed

definition shelf_entry :: "string \<Rightarrow> projection" where
  "shelf_entry version =
     projection_from_row [] (\<lparr>exp_id = 1, exp_release_id = 1, exp_audience = Public, exp_listing = Listed,
         exp_install = InstallEnabled, exp_requirement = Blocking, exp_state = ExpActive, exp_requested_by = None,
         exp_policy_json = json_dumps (JObj []), exp_activated_at = None, exp_ended_at = None\<rparr>,
       sample_release 1 1 1, (sample_version 1 1)\<lparr>ver_version := version\<rparr>, sample_skill 1 1 ''demo'', sample_principals ! 0)"

lemma prerelease_is_preferred_witness:
  "resolve_install_candidate [shelf_entry ''1.0.0'', shelf_entry ''1.0.0-rc.1''] ''alice/demo'' = Inr (shelf_entry ''1.0.0-rc.1'') \<and>
   version_sort_key ''1.0.0'' < version_sort_key ''1.0.0-rc.1''"
proof -
  have r: "resolve_install_candidate [shelf_entry ''1.0.0'', shelf_entry ''1.0.0-rc.1''] ''alice/demo'' =
      Inr (shelf_entry ''1.0.0-rc.1'')"
    by code_simp
  have "parse_skill_ref ''alice/demo'' = Inr (''alice/demo'', None)" by code_simp
  moreover have "match_base (shelf_entry ''1.0.0-rc.1'') ''alice/demo''" "version_parts ''rc.1'' \<noteq> []"
      "prj_version (shelf_entry ''1.0.0-rc.1'') = ''1.0.0'' @ ''-'' @ ''rc.1''"
    by code_simp+
  ultimately have "version_sort_key ''1.0.0'' < version_sort_key (prj_version (shelf_entry ''1.0.0-rc.1''))"
    using prerelease_is_preferred [OF r, where version = "''1.0.0''" and pre = "''rc.1''" and x = "shelf_entry ''1.0.0-rc.1''"]
    by simp
  moreover have "prj_version (shelf_entry ''1.0.0-rc.1'') = ''1.0.0-rc.1''" by code_simp
  ultimately show ?thesis using r by simp
qed

end
