(* ===== verification/Sessions.thy ===== *)
theory Sessions
  imports Access Authoring JsonText
begin

text \<open>
  Who makes a request: bearer tokens and browser sessions, \<open>server/modules/identity/auth.py\<close>,
  and the guards of \<open>identity/guards.py\<close>.  The ciphers, base64 and the decoding of JSON are the
  operations of a codec.
\<close>

section \<open>Requests\<close>

record web_request =
  req_method :: string
  req_authorization :: "string option"
  req_cookies :: "(string \<times> string) list"
  req_csrf_header :: "string option"
  req_id :: string

text \<open>\<open>HTTPException\<close>, or an exception no route handles.\<close>

datatype http_error = HttpError int string | Unhandled string

type_synonym 'a http = "http_error + 'a"

definition auth_cookie_name :: string where
  "auth_cookie_name = ''infinitas_auth_token''"

definition auth_cookie_max_age :: int where
  "auth_cookie_max_age = 30 * 24 * 60 * 60"

definition auth_session_prefix :: string where
  "auth_session_prefix = ''session:''"

text \<open>\<open>value or None\<close> of an optional text.\<close>

definition nonempty_opt :: "string option \<Rightarrow> string option" where
  "nonempty_opt s = (case s of None \<Rightarrow> None | Some t \<Rightarrow> if t = [] then None else Some t)"

definition extract_bearer_token :: "string option \<Rightarrow> string option" where
  "extract_bearer_token authorization =
     (case authorization of
        None \<Rightarrow> None
      | Some a \<Rightarrow> if lower (take 7 a) \<noteq> ''bearer '' then None else nonempty_opt (Some (strip (drop 7 a))))"

definition cookie :: "web_request \<Rightarrow> string \<Rightarrow> string option" where
  "cookie req name = map_of (req_cookies req) name"

section \<open>The session cookie\<close>

record cookie_codec =
  ck_encrypt :: "string \<Rightarrow> string \<Rightarrow> string"
  ck_decrypt :: "string \<Rightarrow> string \<Rightarrow> string option"
  ck_b64 :: "string \<Rightarrow> string"
  ck_unb64 :: "string \<Rightarrow> string option"
  ck_sign :: "string \<Rightarrow> string"
  ck_json :: "string \<Rightarrow> json option"

definition session_payload :: "int \<Rightarrow> int \<Rightarrow> json" where
  "session_payload credential_id issued_at =
     JObj [(''credential_id'', JInt credential_id), (''issued_at'', JInt issued_at)]"

definition encrypt_payload :: "cookie_codec \<Rightarrow> string \<Rightarrow> string \<Rightarrow> string" where
  "encrypt_payload ck nonce plaintext = nonce @ ck_encrypt ck nonce plaintext"

definition decrypt_payload :: "cookie_codec \<Rightarrow> string \<Rightarrow> string option" where
  "decrypt_payload ck ciphertext = ck_decrypt ck (take 12 ciphertext) (drop 12 ciphertext)"

text \<open>\<open>now\<close> is in microseconds, \<open>int(time.time())\<close> in seconds.\<close>

definition epoch_seconds :: "time \<Rightarrow> int" where
  "epoch_seconds now = now div 1000000"

definition create_auth_session_cookie :: "cookie_codec \<Rightarrow> string \<Rightarrow> int \<Rightarrow> time \<Rightarrow> string" where
  "create_auth_session_cookie ck nonce credential_id now =
     (let payload = ck_b64 ck (encrypt_payload ck nonce
            (print_compact (session_payload credential_id (epoch_seconds now))))
      in auth_session_prefix @ payload @ ''.'' @ ck_sign ck payload)"

text \<open>\<open>hmac.compare_digest\<close> of two texts raises \<open>TypeError\<close> when one of them is not ASCII.\<close>

definition compare_digest :: "string \<Rightarrow> string \<Rightarrow> bool http" where
  "compare_digest a b =
     (if list_all (\<lambda>c. code c < 128) (a @ b) then Inr (a = b) else Inl (Unhandled ''TypeError''))"

definition session_fields :: "json \<Rightarrow> time \<Rightarrow> (int \<times> int) option" where
  "session_fields decoded now =
     (case decoded of
        JObj m \<Rightarrow>
          (case (int_instance (jget m ''issued_at''), int_instance (jget m ''credential_id'')) of
             (Some issued_at, Some credential_id) \<Rightarrow>
               if issued_at > epoch_seconds now + 60 \<or> epoch_seconds now - issued_at > auth_cookie_max_age
               then None else Some (credential_id, issued_at)
           | _ \<Rightarrow> None)
      | _ \<Rightarrow> None)"

definition decode_auth_session_cookie :: "cookie_codec \<Rightarrow> string option \<Rightarrow> time \<Rightarrow> (int \<times> int) option http" where
  "decode_auth_session_cookie ck value now =
     (let raw = strip (case value of None \<Rightarrow> [] | Some v \<Rightarrow> v) in
      if \<not> starts_with auth_session_prefix raw then Inr None
      else
        (let (payload, sep, signature) = partition_on (CHR ''.'') (drop (length auth_session_prefix) raw) in
         if payload = [] \<or> \<not> sep \<or> signature = [] then Inr None
         else rbind (compare_digest signature (ck_sign ck payload)) (\<lambda>same.
              Inr (if \<not> same then None
                   else (case ck_unb64 ck payload of None \<Rightarrow> None
                     | Some ciphertext \<Rightarrow>
                         (case decrypt_payload ck ciphertext of None \<Rightarrow> None
                          | Some plaintext \<Rightarrow>
                              (case ck_json ck plaintext of None \<Rightarrow> None
                               | Some decoded \<Rightarrow> session_fields decoded now)))))))"

section \<open>Access contexts\<close>

definition resolve_session_access_context ::
    "cookie_codec \<Rightarrow> string option \<Rightarrow> time \<Rightarrow> db \<Rightarrow> (access_context option \<times> db) http" where
  "resolve_session_access_context ck auth_cookie now d =
     rbind (decode_auth_session_cookie ck auth_cookie now) (\<lambda>decoded.
     Inr (case decoded of
        None \<Rightarrow> (None, d)
      | Some (credential_id, _) \<Rightarrow>
          (case resolve_credential_by_id (Some credential_id) now d of
             (None, d1) \<Rightarrow> (None, d1)
           | (Some c, d1) \<Rightarrow>
               (let principal = get_principal (crd_principal_id c) d1 in
                if crd_revoked_at c \<noteq> None then (None, d1)
                else if crd_type c = AgentToken \<and> \<not> service_principal_is_active (crd_principal_id c) d1
                then (None, d1)
                else (Some \<lparr>ctx_credential = c, ctx_principal = principal,
                            ctx_user = get_user_for_principal principal d1,
                            ctx_scopes = parse_scopes (crd_scopes_json c), ctx_request_id = []\<rparr>, d1)))))"

definition with_request_id :: "web_request \<Rightarrow> access_context option \<times> db \<Rightarrow> access_context option \<times> db" where
  "with_request_id req = (\<lambda>(ctx, d). (map_option (\<lambda>c. c\<lparr>ctx_request_id := req_id req\<rparr>) ctx, d))"

definition maybe_get_current_access_context ::
    "(string \<Rightarrow> string) \<Rightarrow> cookie_codec \<Rightarrow> web_request \<Rightarrow> time \<Rightarrow> db \<Rightarrow> (access_context option \<times> db) http" where
  "maybe_get_current_access_context sha256_hex ck req now d =
     (case extract_bearer_token (req_authorization req) of
        Some bearer \<Rightarrow> Inr (with_request_id req (resolve_access_context sha256_hex (Some bearer) now d))
      | None \<Rightarrow>
          rbind (resolve_session_access_context ck (cookie req auth_cookie_name) now d) (\<lambda>r.
          Inr (with_request_id req r)))"

definition maybe_get_current_session_access_context ::
    "cookie_codec \<Rightarrow> web_request \<Rightarrow> time \<Rightarrow> db \<Rightarrow> (access_context option \<times> db) http" where
  "maybe_get_current_session_access_context ck req now d =
     rbind (resolve_session_access_context ck (cookie req auth_cookie_name) now d) (\<lambda>r. Inr (with_request_id req r))"

definition get_current_access_context ::
    "(string \<Rightarrow> string) \<Rightarrow> cookie_codec \<Rightarrow> web_request \<Rightarrow> time \<Rightarrow> db \<Rightarrow> (access_context \<times> db) http" where
  "get_current_access_context sha256_hex ck req now d =
     rbind (maybe_get_current_access_context sha256_hex ck req now d) (\<lambda>(ctx, d1).
     rbind (require (extract_bearer_token (req_authorization req) \<noteq> None \<or>
                     nonempty_opt (cookie req auth_cookie_name) \<noteq> None)
              (HttpError 401 ''missing bearer token'')) (\<lambda>_.
     rbind (or_raise ctx (HttpError 401 ''invalid bearer token'')) (\<lambda>c. Inr (c, d1))))"

definition get_current_session_access_context ::
    "cookie_codec \<Rightarrow> web_request \<Rightarrow> time \<Rightarrow> db \<Rightarrow> (access_context \<times> db) http" where
  "get_current_session_access_context ck req now d =
     rbind (maybe_get_current_session_access_context ck req now d) (\<lambda>(ctx, d1).
     rbind (or_raise ctx (HttpError 403 ''browser session required'')) (\<lambda>c. Inr (c, d1)))"

definition get_current_user ::
    "(string \<Rightarrow> string) \<Rightarrow> cookie_codec \<Rightarrow> web_request \<Rightarrow> time \<Rightarrow> db \<Rightarrow> (user \<times> db) http" where
  "get_current_user sha256_hex ck req now d =
     rbind (get_current_access_context sha256_hex ck req now d) (\<lambda>(ctx, d1).
     rbind (or_raise (ctx_user ctx) (HttpError 401 ''invalid bearer token'')) (\<lambda>u. Inr (u, d1)))"

definition require_role ::
    "string list \<Rightarrow> (string \<Rightarrow> string) \<Rightarrow> cookie_codec \<Rightarrow> web_request \<Rightarrow> time \<Rightarrow> db \<Rightarrow> (user \<times> db) http" where
  "require_role allowed sha256_hex ck req now d =
     rbind (get_current_user sha256_hex ck req now d) (\<lambda>(u, d1).
     rbind (require (usr_role u \<in> set allowed) (HttpError 403 ''insufficient role'')) (\<lambda>_. Inr (u, d1)))"

section \<open>Cross-site requests\<close>

definition validate_csrf_token :: "web_request \<Rightarrow> unit http" where
  "validate_csrf_token req =
     (if req_method req \<in> {''GET'', ''HEAD'', ''OPTIONS'', ''TRACE''} then Inr ()
      else if extract_bearer_token (req_authorization req) \<noteq> None then Inr ()
      else if nonempty_opt (cookie req auth_cookie_name) = None then Inr ()
      else (case (nonempty_opt (cookie req ''csrf_token''), nonempty_opt (req_csrf_header req)) of
              (Some c, Some h) \<Rightarrow>
                rbind (compare_digest c h) (\<lambda>same. require same (HttpError 403 ''CSRF token mismatch''))
            | _ \<Rightarrow> Inl (HttpError 403 ''CSRF token missing'')))"

section \<open>Guards\<close>

definition default_roles :: "string list" where
  "default_roles = [''maintainer'', ''contributor'']"

definition require_user_role :: "access_context \<Rightarrow> string list option \<Rightarrow> unit http" where
  "require_user_role ctx roles =
     rbind (or_raise (ctx_user ctx) (HttpError 403 ''user session required'')) (\<lambda>u.
     require (usr_role u \<in> set (case roles of None \<Rightarrow> default_roles | Some r \<Rightarrow> r))
       (HttpError 403 ''insufficient role''))"

definition require_actor_ref :: "access_context \<Rightarrow> string list option \<Rightarrow> actor http" where
  "require_actor_ref ctx roles =
     rbind (require_user_role ctx roles) (\<lambda>_.
     rbind (or_raise (ctx_user ctx) (HttpError 403 ''user session required'')) (\<lambda>u.
     reraise (\<lambda>_. HttpError 403 ''principal required'')
       (actor_ref_for_context ctx (usr_role u = ''maintainer''))))"

definition require_session_actor_ref :: "access_context \<Rightarrow> string list option \<Rightarrow> actor http" where
  "require_session_actor_ref ctx roles =
     rbind (require (crd_type (ctx_credential ctx) = SessionCredential) (HttpError 403 ''browser session required''))
       (\<lambda>_. require_actor_ref ctx roles)"

definition require_admin_actor_ref :: "access_context \<Rightarrow> string list option \<Rightarrow> actor http" where
  "require_admin_actor_ref ctx roles =
     rbind (require (crd_type (ctx_credential ctx) \<in> {SessionCredential, PersonalToken})
              (HttpError 403 ''admin credential required'')) (\<lambda>_. require_actor_ref ctx roles)"


section \<open>What a session cookie opens\<close>

text \<open>What the cookie relies on: the cipher is undone by decryption, base64 is undone by decoding and
  prints letters that are ASCII, not blank and not a full stop, and a payload is read back from
  its JSON text.\<close>

definition cookie_char :: "char \<Rightarrow> bool" where
  "cookie_char c \<longleftrightarrow> code c < 128 \<and> \<not> is_space c \<and> c \<noteq> CHR ''.''"

definition codec_laws :: "cookie_codec \<Rightarrow> bool" where
  "codec_laws ck \<longleftrightarrow>
     (\<forall>nonce text. ck_decrypt ck nonce (ck_encrypt ck nonce text) = Some text) \<and>
     (\<forall>raw. ck_unb64 ck (ck_b64 ck raw) = Some raw) \<and>
     (\<forall>raw. raw \<noteq> [] \<longrightarrow> ck_b64 ck raw \<noteq> [] \<and> list_all cookie_char (ck_b64 ck raw)) \<and>
     (\<forall>payload. ck_sign ck payload \<noteq> [] \<and> list_all cookie_char (ck_sign ck payload)) \<and>
     (\<forall>i t. ck_json ck (print_compact (session_payload i t)) = Some (session_payload i t))"

lemma partition_on_dot: "CHR ''.'' \<notin> set a \<Longrightarrow> partition_on (CHR ''.'') (a @ CHR ''.'' # b) = (a, True, b)"
  by (simp add: partition_on_def takeWhile_append dropWhile_append)

lemma strip_cookie:
  assumes "s \<noteq> []" "list_all cookie_char s"
  shows "strip (auth_session_prefix @ p @ CHR ''.'' # s) = auth_session_prefix @ p @ CHR ''.'' # s"
proof -
  have "\<not> is_space (last s)" using assms by (auto simp: list_all_iff cookie_char_def)
  moreover have "\<not> is_space (CHR ''s'')" by (simp add: is_space_def code_def)
  ultimately show ?thesis
    using assms(1) by (cases s rule: rev_cases) (simp_all add: strip_def lstrip_def rstrip_def auth_session_prefix_def)
qed

lemma session_fields_payload:
  "session_fields (session_payload i t) now =
     (if t > epoch_seconds now + 60 \<or> epoch_seconds now - t > auth_cookie_max_age then None else Some (i, t))"
  by (simp add: session_fields_def session_payload_def)

lemma resolve_by_id_sound:
  assumes "resolve_credential_by_id (Some i) now d = (Some c, d')"
  shows "\<exists>c0 \<in> set (db_credentials d). active_credential now c0 \<and> crd_id c0 = i \<and> 0 < i \<and>
           mark_credential_used c0 now d = (c, d')"
proof -
  have "0 < i" using assms by (simp add: resolve_credential_by_id_def split: if_splits)
  then obtain c0 where "active_credentials_query now (\<lambda>c. crd_id c = i) d = Some c0" "mark_credential_used c0 now d = (c, d')"
    using assms by (auto simp: resolve_credential_by_id_def split: option.splits prod.splits)
  with \<open>0 < i\<close> active_query_Some show ?thesis by blast
qed

lemma decoded_cookie:
  assumes "decode_auth_session_cookie ck value now = Inr (Some (i, t))"
  shows "\<exists>payload. strip (case value of None \<Rightarrow> [] | Some v \<Rightarrow> v) = auth_session_prefix @ payload @ CHR ''.'' # ck_sign ck payload \<and>
           t \<le> epoch_seconds now + 60 \<and> epoch_seconds now \<le> t + auth_cookie_max_age"
proof -
  define raw where "raw = strip (case value of None \<Rightarrow> [] | Some v \<Rightarrow> v)"
  define body where "body = drop (length auth_session_prefix) raw"
  obtain payload sep signature where p: "partition_on (CHR ''.'') body = (payload, sep, signature)"
    by (cases "partition_on (CHR ''.'') body") auto
  note run = assms [unfolded decode_auth_session_cookie_def, folded raw_def, unfolded Let_def, folded body_def,
    unfolded p prod.case]
  have start: "starts_with auth_session_prefix raw" and sep: "sep"
    using run by (auto split: if_splits)
  have sig: "signature = ck_sign ck payload" and
    fields: "\<exists>decoded. session_fields decoded now = Some (i, t)"
    using run by (auto simp: compare_digest_def res_simps rbind_Inr_iff split: if_splits option.splits)
  have "raw = auth_session_prefix @ body"
    using start by (metis append_take_drop_id body_def starts_with_def)
  moreover have "body = payload @ CHR ''.'' # signature"
  proof -
    have "dropWhile (\<lambda>c. c \<noteq> CHR ''.'') body \<noteq> []" using p sep by (auto simp: partition_on_def Let_def)
    then have "dropWhile (\<lambda>c. c \<noteq> CHR ''.'') body = CHR ''.'' # tl (dropWhile (\<lambda>c. c \<noteq> CHR ''.'') body)"
      using hd_dropWhile [of "\<lambda>c. c \<noteq> CHR ''.''" body] by (metis list.collapse)
    then show ?thesis
      using p takeWhile_dropWhile_id [of "\<lambda>c. c \<noteq> CHR ''.''" body] by (auto simp: partition_on_def Let_def)
  qed
  moreover obtain decoded where "session_fields decoded now = Some (i, t)" using fields by blast
  ultimately show ?thesis
    using sig by (auto simp: session_fields_def raw_def split: json.splits option.splits if_splits)
qed

lemma read_int: "length (str_of_int k) < n \<Longrightarrow> stops rest \<Longrightarrow> read_value n (str_of_int k @ rest) = Some (JInt k, rest)"
  using read_value_printed [of "JInt k" 0] reads_backD by fastforce

lemma read_member_int:
  assumes "length (str_of_int k) < m" and "stops s"
  shows "read_members (Suc m) (quote key @ CHR '':'' # str_of_int k @ s) =
     (let u = skip_space s in
      if u = [] then None
      else if hd u = CHR '','' then map_option (apfst ((#) (key, JInt k))) (read_members m (tl u))
      else if hd u = CHR ''}'' then Some ([(key, JInt k)], tl u) else None)"
  using read_int [OF assms] by (simp add: quote_append skip_visible json_space_def read_quoted)

lemma read_compact_payload: "read_document (print_compact (session_payload i t)) = Some (session_payload i t)"
proof -
  let ?issued = "quote ''issued_at'' @ CHR '':'' # str_of_int t @ ''}''"
  let ?members = "quote ''credential_id'' @ CHR '':'' # str_of_int i @ CHR '','' # ?issued"
  have shown: "print_compact (session_payload i t) = CHR ''{'' # ?members"
    by (simp add: session_payload_def)
  define n where "n = length ?members"
  define m where "m = n - 1"
  have m: "Suc n = Suc (Suc m)" "length (str_of_int i) < Suc m" "length (str_of_int t) < m"
    by (simp_all add: n_def m_def quote_def)
  have ends: "read_members (Suc m) ?issued = Some ([(''issued_at'', JInt t)], [])"
    by (subst read_member_int [OF m(3)]) (simp_all add: skip_visible json_space_def Let_def)
  have inner: "read_members (Suc n) ?members = Some ([(''credential_id'', JInt i), (''issued_at'', JInt t)], [])"
    unfolding m(1) by (subst read_member_int [OF m(2)]) (simp_all add: skip_visible json_space_def Let_def ends del: read_members.simps)
  have first: "skip_space ?members = ?members" "?members \<noteq> []" "hd ?members \<noteq> CHR ''}''"
    by (simp_all add: quote_append skip_visible json_space_def)
  have "read_value (Suc (Suc n)) (CHR ''{'' # ?members) = Some (session_payload i t, [])"
    using inner first by (simp add: skip_visible json_space_def session_payload_def del: read_members.simps)
  then show ?thesis by (simp add: read_document_def shown n_def skip_space_def del: read_value.simps)
qed

lemma created_cookie_decodes:
  assumes "codec_laws ck" and "length nonce = 12"
  shows "decode_auth_session_cookie ck (Some (create_auth_session_cookie ck nonce i issued)) now =
           Inr (session_fields (session_payload i (epoch_seconds issued)) now)"
proof -
  define sealed where "sealed = encrypt_payload ck nonce (print_compact (session_payload i (epoch_seconds issued)))"
  define payload where "payload = ck_b64 ck sealed"
  have "sealed \<noteq> []" using assms(2) by (auto simp: sealed_def encrypt_payload_def)
  then have chars: "payload \<noteq> []" "list_all cookie_char payload" "ck_sign ck payload \<noteq> []" "list_all cookie_char (ck_sign ck payload)"
    using assms(1) by (simp_all add: codec_laws_def payload_def)
  then have dot: "CHR ''.'' \<notin> set payload" by (auto simp: list_all_iff cookie_char_def)
  have same: "compare_digest (ck_sign ck payload) (ck_sign ck payload) = Inr True"
    using chars by (auto simp: compare_digest_def list_all_iff cookie_char_def)
  have plain: "decrypt_payload ck sealed = Some (print_compact (session_payload i (epoch_seconds issued)))"
    "ck_unb64 ck payload = Some sealed"
    using assms by (simp_all add: codec_laws_def decrypt_payload_def sealed_def encrypt_payload_def payload_def)
  have json: "ck_json ck (print_compact (session_payload i (epoch_seconds issued))) = Some (session_payload i (epoch_seconds issued))"
    using assms(1) by (simp add: codec_laws_def)
  have cookie: "create_auth_session_cookie ck nonce i issued = auth_session_prefix @ payload @ CHR ''.'' # ck_sign ck payload"
    by (simp add: create_auth_session_cookie_def payload_def sealed_def Let_def)
  show ?thesis
    using chars by (simp add: decode_auth_session_cookie_def cookie strip_cookie starts_with_def partition_on_dot [OF dot]
        same plain json res_simps)
qed

section \<open>Properties\<close>

text \<open>C39. A session cookie opens the session it was made for: decoding the cookie made for a
  credential gives back that credential and the second of its issue, from a minute before the
  issue until thirty days after it, and nothing outside that time.\<close>

theorem session_cookie_roundtrip:
  assumes "codec_laws ck" and "length nonce = 12"
  shows "decode_auth_session_cookie ck (Some (create_auth_session_cookie ck nonce i issued)) now =
           Inr (if epoch_seconds now + 60 < epoch_seconds issued \<or>
                   epoch_seconds issued + auth_cookie_max_age < epoch_seconds now
                then None else Some (i, epoch_seconds issued))"
  using assms by (simp add: created_cookie_decodes session_fields_payload)

text \<open>C40. A browser session is authenticated only by a cookie that carries the server's own
  signature and is at most thirty days old, and only as a credential that is unrevoked and
  unexpired at that time, an agent's only while the agent is active; the scopes and the principal
  of the request are those of the credential.\<close>

theorem session_context_sound:
  assumes "resolve_session_access_context ck value now d = Inr (Some ctx, d')"
  shows "\<exists>payload t c. c \<in> set (db_credentials d) \<and>
           strip (case value of None \<Rightarrow> [] | Some v \<Rightarrow> v) = auth_session_prefix @ payload @ CHR ''.'' # ck_sign ck payload \<and>
           decode_auth_session_cookie ck value now = Inr (Some (crd_id c, t)) \<and> epoch_seconds now \<le> t + auth_cookie_max_age \<and>
           crd_revoked_at c = None \<and> (case crd_expires_at c of None \<Rightarrow> True | Some e \<Rightarrow> now < e) \<and>
           (crd_type c \<noteq> AgentToken \<or> service_principal_is_active (crd_principal_id c) d) \<and>
           crd_id (ctx_credential ctx) = crd_id c \<and> ctx_scopes ctx = parse_scopes (crd_scopes_json c) \<and>
           ctx_principal ctx = get_principal (crd_principal_id c) d"
proof -
  obtain i t where dec: "decode_auth_session_cookie ck value now = Inr (Some (i, t))"
    using assms by (auto simp: resolve_session_access_context_def rbind_Inr_iff split: option.splits)
  from decoded_cookie [OF dec] obtain payload where
    payload: "strip (case value of None \<Rightarrow> [] | Some v \<Rightarrow> v) = auth_session_prefix @ payload @ CHR ''.'' # ck_sign ck payload"
      "epoch_seconds now \<le> t + auth_cookie_max_age" by blast
  obtain c d1 where r: "resolve_credential_by_id (Some i) now d = (Some c, d1)"
    and rest: "\<not> (crd_type c = AgentToken \<and> \<not> service_principal_is_active (crd_principal_id c) d1)"
      "ctx_credential ctx = c" "ctx_scopes ctx = parse_scopes (crd_scopes_json c)"
      "ctx_principal ctx = get_principal (crd_principal_id c) d1"
    using assms by (auto simp: resolve_session_access_context_def dec res_simps Let_def split: if_splits option.splits prod.splits)
  from resolve_by_id_sound [OF r] obtain c0 where c0: "c0 \<in> set (db_credentials d)" "active_credential now c0" "crd_id c0 = i"
      "mark_credential_used c0 now d = (c, d1)" by auto
  note frame = mark_used_frame [OF c0(4)]
  have same: "service_principal_is_active p d1 = service_principal_is_active p d"
    "get_principal p d1 = get_principal p d" for p
    by (cases p; simp add: service_principal_is_active_def get_service_principal_def get_principal_def frame(9,10))+
  have "crd_revoked_at c0 = None" "case crd_expires_at c0 of None \<Rightarrow> True | Some e \<Rightarrow> now < e"
    using c0(2) by (simp_all add: active_credential_def)
  with c0(1,3) rest [unfolded same] frame(1-8) payload dec show ?thesis
    by (intro exI [of _ payload], intro exI [of _ t], intro exI [of _ c0]) auto
qed

text \<open>A codec for the witnesses: two letters for each character.\<close>

definition letter :: "nat \<Rightarrow> char" where
  "letter n = char_of (97 + n)"

definition spell :: "string \<Rightarrow> string" where
  "spell s = concat (map (\<lambda>c. [letter (code c div 16), letter (code c mod 16)]) s)"

fun unspell :: "string \<Rightarrow> string option" where
  "unspell [] = Some []"
| "unspell (a # b # s) = map_option ((#) (char_of (16 * (code a - 97) + (code b - 97)))) (unspell s)"
| "unspell [a] = None"

definition spelling_codec :: cookie_codec where
  "spelling_codec = \<lparr>ck_encrypt = (\<lambda>_ s. s), ck_decrypt = (\<lambda>_ s. Some s), ck_b64 = spell, ck_unb64 = unspell,
     ck_sign = (\<lambda>s. ''sig'' @ spell s), ck_json = read_document\<rparr>"

lemma code_less: "code c < 256"
  by (simp add: code_def)

lemma code_letter: "n < 16 \<Longrightarrow> code (letter n) = 97 + n"
  by (simp add: code_def letter_def)

lemma unspell_spell: "unspell (spell s) = Some s"
proof (induction s)
  case (Cons c s)
  have "code c div 16 < 16" "code c mod 16 < 16" using code_less [of c] by simp_all
  then have "char_of (16 * (code c div 16) + code c mod 16) = c" by (simp add: code_def)
  with Cons \<open>code c div 16 < 16\<close> \<open>code c mod 16 < 16\<close> show ?case
    by (simp add: spell_def code_letter)
qed (simp add: spell_def)

lemma spell_chars: "list_all cookie_char (spell s)"
proof -
  have "cookie_char (letter n)" if "n < 16" for n
  proof -
    have "letter n \<noteq> CHR ''.''" using code_letter [OF that] by (auto simp: code_def)
    then show ?thesis using that by (simp add: cookie_char_def code_letter is_space_def Let_def)
  qed
  moreover have "code c div 16 < 16" for c using code_less [of c] by simp
  ultimately show ?thesis by (induction s) (simp_all add: spell_def)
qed

lemma spelling_codec_laws: "codec_laws spelling_codec"
  unfolding codec_laws_def spelling_codec_def
  by (auto simp: unspell_spell spell_chars read_compact_payload)
     (auto simp: spell_def cookie_char_def is_space_def code_def neq_Nil_conv)

definition session_db :: db where
  "session_db = token_db\<lparr>db_credentials := map (\<lambda>c. c\<lparr>crd_id := 7, crd_type := SessionCredential\<rparr>) (db_credentials token_db)\<rparr>"

definition session_cookie :: string where
  "session_cookie = create_auth_session_cookie spelling_codec ''twelve bytes'' 7 30"

lemma session_cookie_roundtrip_witness:
  "decode_auth_session_cookie spelling_codec (Some session_cookie) 50 = Inr (Some (7, 0))"
  unfolding session_cookie_def
  by (subst session_cookie_roundtrip [OF spelling_codec_laws])
     (simp_all add: epoch_seconds_def auth_cookie_max_age_def)

lemma session_db_resolves:
  "case resolve_credential_by_id (Some 7) 50 session_db of
     (None, _) \<Rightarrow> False
   | (Some c, d1) \<Rightarrow> crd_revoked_at c = None \<and> crd_type c \<noteq> AgentToken"
  by code_simp

lemma session_context_sound_witness:
  "\<exists>c \<in> set (db_credentials session_db). crd_id c = 7 \<and> crd_revoked_at c = None \<and>
     (case crd_expires_at c of None \<Rightarrow> True | Some e \<Rightarrow> 50 < e)"
proof -
  have dec: "decode_auth_session_cookie spelling_codec (Some session_cookie) 50 = Inr (Some (7, 0))"
    unfolding session_cookie_def
    by (simp add: created_cookie_decodes [OF spelling_codec_laws] session_fields_payload epoch_seconds_def auth_cookie_max_age_def)
  then obtain ctx d' where "resolve_session_access_context spelling_codec (Some session_cookie) 50 session_db = Inr (Some ctx, d')"
    using session_db_resolves
    by (auto simp: resolve_session_access_context_def res_simps Let_def split: option.splits prod.splits)
  from session_context_sound [OF this] dec show ?thesis by auto
qed

end
