(* ===== verification/Signing.thy ===== *)
theory Signing
  imports Discovery AgentPublish Authoring
begin

text \<open>
  The host the server runs on, and the signing of releases: the environment the release code
  asks for keys, git settings and signatures (\<open>host_env\<close>), the allowed-signers file of
  \<open>release/signing_bootstrap.py\<close> and the signer and signature of
  \<open>server/modules/release/signing.py\<close>.
\<close>

section \<open>The host\<close>

text \<open>
  \<open>env_git\<close> is the stripped output of a git command in the repository, if it exits with 0 and
  prints anything; \<open>env_var\<close> reads the environment; \<open>env_home\<close> expands and resolves the path
  of a key.  \<open>env_public_key\<close> is \<open>ssh-keygen -y\<close> and \<open>env_sign key namespace message\<close> is
  \<open>ssh-keygen -Y sign\<close>: \<open>Inl\<close> of the message of a failure, else the text of the key and the
  signature file, if one was written.  \<open>env_source_mode\<close> and \<open>env_compatibility\<close> stand for the
  OpenClaw contract of a bundle and for the platform compatibility of a skill.
\<close>

record host_env =
  env_site :: site
  env_lib :: content_lib
  env_git :: "string list \<Rightarrow> string option"
  env_var :: "string \<Rightarrow> string option"
  env_home :: "string \<Rightarrow> abs_path"
  env_public_key :: "abs_path \<Rightarrow> string + string"
  env_sign :: "string \<Rightarrow> string \<Rightarrow> string \<Rightarrow> string + string option"
  env_source_mode :: "string \<Rightarrow> json"
  env_compatibility :: "disk \<Rightarrow> (string \<times> json) list \<Rightarrow> json \<Rightarrow> (string \<times> json) list dist"

abbreviation env_out :: "host_env \<Rightarrow> outside" where
  "env_out env \<equiv> site_outside (env_site env)"

abbreviation env_artifacts :: "host_env \<Rightarrow> abs_path" where
  "env_artifacts env \<equiv> site_artifacts (env_site env)"

abbreviation env_repo :: "host_env \<Rightarrow> abs_path" where
  "env_repo env \<equiv> site_repo (env_site env)"

definition runtime_error :: "string \<Rightarrow> host_error" where
  "runtime_error m = FromService (RuntimeError m)"

section \<open>Keys and allowed signers\<close>

definition key_prefixes :: "string list" where
  "key_prefixes = [''ssh-'', ''ecdsa-'', ''sk-'']"

fun key_tokens :: "string list \<Rightarrow> string option" where
  "key_tokens [] = None"
| "key_tokens (t # ts) =
     (if list_ex (\<lambda>p. starts_with p t) key_prefixes
      then (case ts of [] \<Rightarrow> None | u # _ \<Rightarrow> Some (t @ '' '' @ u))
      else key_tokens ts)"

definition normalize_public_key :: "string \<Rightarrow> string option" where
  "normalize_public_key v = key_tokens (words (strip v))"

text \<open>\<open>s.split(None, 1)\<close> of a stripped, non-empty line: the identity and what follows it.\<close>

definition split_identity :: "string \<Rightarrow> string \<times> string" where
  "split_identity s =
     (takeWhile (\<lambda>c. \<not> is_space c) s, dropWhile is_space (dropWhile (\<lambda>c. \<not> is_space c) s))"

definition signer_line :: "abs_path \<Rightarrow> nat \<Rightarrow> string \<Rightarrow> (string \<times> string) list host" where
  "signer_line p number line =
     (let stripped = strip line; (identity, key) = split_identity stripped in
      if stripped = [] \<or> starts_with ''#'' stripped then Inr []
      else rbind (or_raise (normalize_public_key key)
             (FromClient (PyError (path_text p @ '' line '' @ str_of_int (int number) @
                '' must use <identity> <public-key> format'')))) (\<lambda>normalized.
           Inr [(identity, normalized)]))"

definition parse_allowed_signers :: "disk \<Rightarrow> abs_path \<Rightarrow> (string \<times> string) list host" where
  "parse_allowed_signers d p =
     (if \<not> path_exists d p then Inr []
      else rbind (from_client (read_bytes d p)) (\<lambda>raw.
           rbind (map_res (\<lambda>(n, line). signer_line p n line)
                    (enumerate 1 (split_lines raw))) (\<lambda>entries.
           Inr (concat entries))))"

definition public_key_from_file :: "disk \<Rightarrow> abs_path \<Rightarrow> string host" where
  "public_key_from_file d p =
     rbind (from_client (read_bytes d p)) (\<lambda>raw.
     rbind (require (normalize_public_key (strip raw) \<noteq> None)
              (FromClient (PyError (path_text p @ '' does not contain a valid SSH public key'')))) (\<lambda>_.
     Inr (strip raw)))"

definition public_key_from_private_key :: "host_env \<Rightarrow> abs_path \<Rightarrow> string host" where
  "public_key_from_private_key env p =
     (case env_public_key env p of
        Inl m \<Rightarrow> Inl (FromClient (PyError (''cannot derive public key from '' @ path_text p @ '': '' @ m)))
      | Inr key \<Rightarrow> Inr (strip key))"

definition public_key_from_key_path :: "host_env \<Rightarrow> disk \<Rightarrow> string \<Rightarrow> string host" where
  "public_key_from_key_path env d key =
     (let p = env_home env key in
      rbind (require (path_exists d p) (FromClient (PyError (''key path does not exist: '' @ path_text p)))) (\<lambda>_.
      if name_suffix (file_name p) = ''.pub'' then public_key_from_file d p
      else public_key_from_private_key env p))"

text \<open>The identities that have the key, in the order of the file, each once.\<close>

definition signer_identities_for_key :: "(string \<times> string) list \<Rightarrow> string \<Rightarrow> string list" where
  "signer_identities_for_key entries public_key =
     (case normalize_public_key public_key of
        None \<Rightarrow> []
      | Some k \<Rightarrow> unique (map fst (filter (\<lambda>e. snd e = k) entries)))"

section \<open>The key and the signer of the server\<close>

definition signing_key_path :: "host_env \<Rightarrow> string \<Rightarrow> string option" where
  "signing_key_path env key_env =
     (case truthy_text (env_var env key_env) of
        Some v \<Rightarrow> Some v
      | None \<Rightarrow> env_git env [''config'', ''--get'', ''user.signingkey''])"

definition resolve_attestation_key :: "host_env \<Rightarrow> att_config \<Rightarrow> string dist" where
  "resolve_attestation_key env cfg =
     rbind (or_raise (jstr (acf_signing_key_env cfg)) (PyError ''TypeError'')) (\<lambda>key_env.
     or_raise (signing_key_path env key_env)
       (AttestationError (''stable release attestations require an SSH signing key; set '' @ key_env @
          '' or git config user.signingkey'')))"

definition resolve_signer_identity :: "host_env \<Rightarrow> disk \<Rightarrow> att_config \<Rightarrow> string \<Rightarrow> string host" where
  "resolve_signer_identity env d cfg key =
     rbind (parse_allowed_signers d (acf_allowed_path cfg)) (\<lambda>entries.
     rbind (require (entries \<noteq> [])
              (runtime_error (acf_allowed_signers cfg @
                 '' has no signer entries; materialized releases require trusted SSH signers''))) (\<lambda>_.
     rbind (public_key_from_key_path env d key) (\<lambda>public_key.
     case signer_identities_for_key entries public_key of
       [] \<Rightarrow> Inl (runtime_error (''configured signing key '' @ key @ '' is not trusted by '' @ acf_allowed_signers cfg))
     | who # _ \<Rightarrow> Inr who)))"

definition sign_provenance :: "host_env \<Rightarrow> string \<Rightarrow> json \<Rightarrow> string \<Rightarrow> string host" where
  "sign_provenance env key namespace message =
     rbind (or_raise (jstr namespace) (FromClient (PyError ''TypeError''))) (\<lambda>ns.
     case env_sign env key ns message of
       Inl m \<Rightarrow> Inl (runtime_error (''could not sign release provenance: '' @ m))
     | Inr None \<Rightarrow> Inl (runtime_error ''ssh-keygen did not produce a provenance signature file'')
     | Inr (Some signature) \<Rightarrow> Inr signature)"

end
