(* ===== verification/Provenance.thy ===== *)
theory Provenance
  imports Signing
begin

text \<open>
  The provenance document of a release, \<open>server/modules/release/provenance.py\<close>, and the readers
  of a snapshot in \<open>snapshot_accessors.py\<close>.
\<close>

section \<open>Snapshots\<close>

definition snapshot_content_id :: "release_snapshot \<Rightarrow> id" where
  "snapshot_content_id s = ver_content_id (snp_version s)"

definition snapshot_metadata :: "release_snapshot \<Rightarrow> (string \<times> json) list" where
  "snapshot_metadata s = as_obj (jget (snp_manifest s) ''metadata'')"

definition snapshot_source_ref :: "release_snapshot \<Rightarrow> string" where
  "snapshot_source_ref s =
     (let v = jget (snp_manifest s) ''content_id'' in
      if truthy v then ''content:'' @ py_str v else ''content-row:'' @ str_of_int (snapshot_content_id s))"

section \<open>Git\<close>

record git_context =
  gtx_url :: json
  gtx_branch :: json
  gtx_upstream :: json
  gtx_head :: json

definition git_value :: "host_env \<Rightarrow> string list \<Rightarrow> json" where
  "git_value env args = jopt JStr (env_git env args)"

definition extract_git_context :: "host_env \<Rightarrow> git_context" where
  "extract_git_context env =
     \<lparr>gtx_url = git_value env [''config'', ''--get'', ''remote.origin.url''],
      gtx_branch = git_value env [''branch'', ''--show-current''],
      gtx_upstream = git_value env [''rev-parse'', ''--abbrev-ref'', ''@'' @ ''{upstream}''],
      gtx_head = git_value env [''rev-parse'', ''HEAD'']\<rparr>"

definition resolve_releaser_identity :: "host_env \<Rightarrow> string option" where
  "resolve_releaser_identity env =
     (case truthy_text (map_option strip (env_var env ''INFINITAS_SKILL_RELEASER'')) of
        Some v \<Rightarrow> Some v
      | None \<Rightarrow>
          (case env_git env [''config'', ''--get'', ''user.name''] of
             Some v \<Rightarrow> Some v
           | None \<Rightarrow> env_git env [''config'', ''--get'', ''user.email'']))"

section \<open>The parts of the document\<close>

text \<open>What the parts share.\<close>

record provenance_facts =
  pvf_publisher :: string
  pvf_slug :: string
  pvf_version :: string
  pvf_source_ref :: string
  pvf_source_commit :: string
  pvf_git :: git_context

definition pvf_qualified :: "provenance_facts \<Rightarrow> string" where
  "pvf_qualified f = pvf_publisher f @ ''/'' @ pvf_slug f"

definition release_marker :: "provenance_facts \<Rightarrow> string" where
  "release_marker f = ''registry/'' @ pvf_qualified f @ ''/v'' @ pvf_version f"

definition release_ref :: "provenance_facts \<Rightarrow> string" where
  "release_ref f = ''refs/registry-releases/'' @ pvf_qualified f @ ''/'' @ pvf_version f"

definition provenance_facts_of :: "host_env \<Rightarrow> release_snapshot \<Rightarrow> provenance_facts" where
  "provenance_facts_of env s =
     \<lparr>pvf_publisher = prn_slug (snp_namespace s), pvf_slug = skl_slug (snp_skill s),
      pvf_version = ver_version (snp_version s), pvf_source_ref = snapshot_source_ref s,
      pvf_source_commit = remove_prefix ''sha256:'' (ver_content_digest (snp_version s)),
      pvf_git = extract_git_context env\<rparr>"

definition build_source_snapshot :: "provenance_facts \<Rightarrow> json" where
  "build_source_snapshot f =
     JObj [(''kind'', JStr ''uploaded-bundle''), (''tag'', JStr (release_marker f)),
           (''ref'', JStr (pvf_source_ref f)), (''commit'', JStr (pvf_source_commit f)),
           (''remote'', gtx_url (pvf_git f)), (''upstream'', gtx_upstream (pvf_git f)),
           (''immutable'', JBool True), (''pushed'', JBool False)]"

definition build_registry_payload :: "abs_path \<Rightarrow> provenance_facts \<Rightarrow> json" where
  "build_registry_payload repo_root f =
     JObj [(''default_registry'', JStr ''hosted''), (''registries_consulted'', JList [JStr ''hosted'']),
           (''resolved'', JList [JObj
             [(''registry_name'', JStr ''hosted''), (''registry_kind'', JStr ''http''), (''registry_url'', JNull),
              (''registry_host'', JNull), (''registry_priority'', JInt 100), (''registry_trust'', JStr ''private''),
              (''registry_root'', JStr (path_text repo_root)), (''registry_pin_mode'', JStr ''server-generated''),
              (''registry_pin_value'', JStr (release_marker f)), (''registry_ref'', JStr (release_ref f)),
              (''registry_allowed_refs'', JList []), (''registry_allowed_hosts'', JList []),
              (''registry_update_mode'', JStr ''server-managed''),
              (''registry_commit'', json_or (gtx_head (pvf_git f)) (JStr (pvf_source_commit f))),
              (''registry_tag'', JStr (release_marker f)), (''registry_branch'', gtx_branch (pvf_git f)),
              (''registry_origin_url'', gtx_url (pvf_git f)), (''registry_origin_host'', JNull)]])]"

definition build_dependency_step :: "provenance_facts \<Rightarrow> string \<Rightarrow> string \<Rightarrow> string \<Rightarrow> json" where
  "build_dependency_step f manifest_path bundle_path bundle_sha256 =
     JObj [(''order'', JInt 1), (''name'', JStr (pvf_slug f)), (''publisher'', JStr (pvf_publisher f)),
           (''qualified_name'', JStr (pvf_qualified f)), (''identity_mode'', JStr ''qualified''),
           (''version'', JStr (pvf_version f)), (''registry'', JStr ''hosted''), (''stage'', JStr ''sealed''),
           (''path'', JStr (pvf_source_ref f)), (''skill_path'', JStr (pvf_source_ref f)),
           (''relative_path'', JNull), (''source_type'', JStr ''uploaded-bundle''),
           (''distribution_manifest'', JStr manifest_path), (''distribution_bundle'', JStr bundle_path),
           (''distribution_bundle_sha256'', JStr bundle_sha256), (''distribution_attestation'', JNull),
           (''distribution_attestation_signature'', JNull), (''action'', JStr ''install''),
           (''needs_apply'', JBool True), (''requested_by'', JList []), (''depends_on'', JList []),
           (''conflicts_with'', JList []), (''root'', JBool True),
           (''source_commit'', JStr (pvf_source_commit f)), (''source_ref'', JStr (pvf_source_ref f)),
           (''source_tag'', JStr (release_marker f)), (''source_snapshot_kind'', JStr ''uploaded-bundle''),
           (''source_snapshot_tag'', JStr (release_marker f)), (''source_snapshot_ref'', JStr (pvf_source_ref f)),
           (''source_snapshot_commit'', JStr (pvf_source_commit f))]"

definition skill_payload :: "provenance_facts \<Rightarrow> string \<Rightarrow> json" where
  "skill_payload f summary =
     JObj [(''name'', JStr (pvf_slug f)), (''publisher'', JStr (pvf_publisher f)),
           (''qualified_name'', JStr (pvf_qualified f)), (''identity_mode'', JStr ''qualified''),
           (''version'', JStr (pvf_version f)), (''status'', JStr ''active''), (''summary'', JStr summary),
           (''path'', JStr (''server-generated/'' @ pvf_qualified f)), (''author'', JStr (pvf_publisher f)),
           (''owners'', JList [JStr (pvf_publisher f)]), (''maintainers'', JList [JStr (pvf_publisher f)]),
           (''depends_on'', JList []), (''conflicts_with'', JList [])]"

definition git_payload :: "provenance_facts \<Rightarrow> string \<Rightarrow> json" where
  "git_payload f signer =
     JObj [(''repo_url'', gtx_url (pvf_git f)), (''branch'', gtx_branch (pvf_git f)),
           (''upstream'', gtx_upstream (pvf_git f)), (''commit'', JStr (pvf_source_commit f)),
           (''head_commit'', gtx_head (pvf_git f)), (''expected_tag'', JStr (release_marker f)),
           (''release_ref'', JStr (release_ref f)), (''remote'', JNull), (''remote_tag_object'', JNull),
           (''remote_tag_commit'', JNull), (''signed_tag_verified'', JBool True), (''tag_signer'', JStr signer)]"

definition dependencies_payload :: "provenance_facts \<Rightarrow> string \<Rightarrow> json \<Rightarrow> json" where
  "dependencies_payload f manifest_path step =
     JObj [(''mode'', JStr ''install''),
           (''root'', JObj
             [(''name'', JStr (pvf_slug f)), (''publisher'', JStr (pvf_publisher f)),
              (''qualified_name'', JStr (pvf_qualified f)), (''version'', JStr (pvf_version f)),
              (''registry'', JStr ''hosted''), (''stage'', JStr ''sealed''), (''path'', JStr (pvf_source_ref f)),
              (''source_type'', JStr ''uploaded-bundle''), (''distribution_manifest'', JStr manifest_path),
              (''source_snapshot_tag'', JStr (release_marker f)),
              (''source_snapshot_commit'', JStr (pvf_source_commit f))]),
           (''steps'', JList [step]), (''registries_consulted'', JList [JStr ''hosted''])]"

definition review_payload :: json where
  "review_payload =
     JObj [(''reviewers'', JList []), (''effective_review_state'', JStr ''not_applicable''),
           (''required_approvals'', JInt 0), (''required_groups'', JList []), (''covered_groups'', JList []),
           (''missing_groups'', JList []), (''approval_count'', JInt 0), (''blocking_rejection_count'', JInt 0),
           (''quorum_met'', JBool True), (''review_gate_pass'', JBool True), (''latest_decisions'', JList []),
           (''ignored_decisions'', JList []), (''configured_groups'', JObj [])]"

definition release_payload :: "string option \<Rightarrow> string \<Rightarrow> release \<Rightarrow> json" where
  "release_payload releaser signer r =
     JObj [(''releaser_identity'', jopt JStr releaser), (''release_mode'', JStr ''local-tag''),
           (''transfer_required'', JBool False), (''transfer_authorized'', JBool True),
           (''authorized_signers'', JList [JStr signer]),
           (''authorized_releasers'', JList (map JStr (opt_list (truthy_text releaser)))),
           (''transfer_matches'', JList []), (''competing_claims'', JList []),
           (''platform_compatibility'',
              (case loads_or_empty (rel_compatibility_json r) of None \<Rightarrow> JObj [] | Some j \<Rightarrow> j))]"

definition attestation_payload :: "att_config \<Rightarrow> string \<Rightarrow> string \<Rightarrow> json" where
  "attestation_payload cfg signature_filename signer =
     JObj [(''format'', acf_format cfg), (''namespace'', acf_namespace cfg),
           (''allowed_signers'', JStr (acf_allowed_signers cfg)), (''signature_file'', JStr signature_filename),
           (''signature_ext'', acf_signature_ext cfg), (''signer_identity'', JStr signer),
           (''policy_mode'', acf_policy_mode cfg),
           (''require_verified_attestation_for_release_output'', JBool (acf_require_release cfg)),
           (''require_verified_attestation_for_distribution'', JBool (acf_require_distribution cfg))]"

definition distribution_payload :: "string \<Rightarrow> string \<Rightarrow> nat \<Rightarrow> string \<Rightarrow> nat \<Rightarrow> string \<Rightarrow> json" where
  "distribution_payload path sha256 bytes root_dir file_count manifest_path =
     JObj [(''manifest_path'', JStr manifest_path),
           (''bundle'', JObj [(''path'', JStr path), (''format'', JStr ''tar.gz''), (''sha256'', JStr sha256),
              (''size'', JInt (int bytes)), (''root_dir'', JStr root_dir), (''file_count'', JInt (int file_count))])]"

section \<open>The document\<close>

record stored_bundle =
  stb_data :: string
  stb_file_count :: nat
  stb_root_dir :: string
  stb_sha256 :: string
  stb_path :: string
  stb_metadata :: "(string \<times> json) list"
  stb_source_mode :: json

definition build_provenance_payload ::
    "host_env \<Rightarrow> release_snapshot \<Rightarrow> release \<Rightarrow> stored_bundle \<Rightarrow> string \<Rightarrow> string \<Rightarrow> att_config \<Rightarrow> string \<Rightarrow> time \<Rightarrow>
     (string \<times> json) list" where
  "build_provenance_payload env s r bundle manifest_path signature_filename cfg signer now =
     (let f = provenance_facts_of env s;
          step = build_dependency_step f manifest_path (stb_path bundle) (stb_sha256 bundle)
      in [(''$schema'', JStr ''schemas/provenance.schema.json''), (''schema_version'', JInt 1),
          (''kind'', JStr ''skill-release-attestation''), (''generated_at'', JStr (seconds_text now)),
          (''skill'', skill_payload f (skl_summary (snp_skill s))), (''git'', git_payload f signer),
          (''source_snapshot'', build_source_snapshot f),
          (''registry'', build_registry_payload (env_repo env) f),
          (''dependencies'', dependencies_payload f manifest_path step),
          (''review'', review_payload),
          (''release'', release_payload (resolve_releaser_identity env) signer r),
          (''attestation'', attestation_payload cfg signature_filename signer),
          (''distribution'', distribution_payload (stb_path bundle) (stb_sha256 bundle)
             (length (stb_data bundle)) (stb_root_dir bundle) (stb_file_count bundle) manifest_path),
          (''release_snapshot'', JObj [(''release_id'', JInt (rel_id r)),
             (''skill_version_id'', JInt (ver_id (snp_version s))), (''source'', JStr ''version'')])])"

end
