(* ===== verification/Materialize.thy ===== *)
theory Materialize
  imports Provenance
begin

text \<open>
  The materialization of a release, \<open>server/modules/release/materializer.py\<close> and \<open>bundle.py\<close>: the
  bundle, the signed provenance and the manifest are written to the artifact directory and their
  rows and the release are updated.  A step acts on the rows of the session, the rows committed
  so far and the files; an exception leaves the changes made before it.
\<close>

section \<open>Steps\<close>

record host_state =
  hs_db :: db
  hs_committed :: db
  hs_disk :: disk

type_synonym 'a step = "host_state \<Rightarrow> (host_error + 'a) \<times> host_state"

definition step_bind :: "'a step \<Rightarrow> ('a \<Rightarrow> 'b step) \<Rightarrow> 'b step" where
  "step_bind m f s = (case m s of (Inl e, t) \<Rightarrow> (Inl e, t) | (Inr x, t) \<Rightarrow> f x t)"

definition step_return :: "'a \<Rightarrow> 'a step" where
  "step_return x s = (Inr x, s)"

text \<open>A computation that reads the state, one that rewrites the files, one that rewrites the rows.\<close>

definition reading :: "(db \<Rightarrow> disk \<Rightarrow> 'a host) \<Rightarrow> 'a step" where
  "reading f s = (f (hs_db s) (hs_disk s), s)"

definition on_disk :: "(disk \<Rightarrow> disk host) \<Rightarrow> unit step" where
  "on_disk f s = (case f (hs_disk s) of Inl e \<Rightarrow> (Inl e, s) | Inr d \<Rightarrow> (Inr (), s\<lparr>hs_disk := d\<rparr>))"

definition on_rows :: "(db \<Rightarrow> svc_error + 'a \<times> db) \<Rightarrow> 'a step" where
  "on_rows f s =
     (case f (hs_db s) of Inl e \<Rightarrow> (Inl (FromService e), s) | Inr (x, d) \<Rightarrow> (Inr x, s\<lparr>hs_db := d\<rparr>))"

section \<open>Storage\<close>

text \<open>\<open>LocalArtifactStorage.put_bytes\<close>: the object of the digest, then its copy at the public path.\<close>

definition object_path :: "host_env \<Rightarrow> string \<Rightarrow> abs_path" where
  "object_path env data = env_artifacts env @ [''objects'', ''sha256'', out_sha256 (env_out env) data]"

definition put_artifact :: "host_env \<Rightarrow> string \<Rightarrow> string \<Rightarrow> disk \<Rightarrow> disk host" where
  "put_artifact env data public_path d =
     (let target = under (env_artifacts env) public_path in
      rbind (write_path (object_path env data) data d) (\<lambda>d1.
      rbind (require (is_relative_to target (env_artifacts env))
               (FromService (ValueError (''public_path escapes artifact root: '' @ py_repr public_path)))) (\<lambda>_.
      write_path target data d1)))"

definition artifact_object_path :: "abs_path \<Rightarrow> string \<Rightarrow> abs_path host" where
  "artifact_object_path root storage_uri =
     (let candidate = under root storage_uri in
      rbind (require (is_relative_to candidate root)
               (runtime_error (''artifact storage_uri escapes artifact root: '' @ py_repr storage_uri))) (\<lambda>_.
      Inr candidate))"

definition bundle_root_dir :: "outside \<Rightarrow> abs_path \<Rightarrow> string \<Rightarrow> string host" where
  "bundle_root_dir out p raw =
     rbind (from_client (or_raise (out_members out raw) (PyError ''tarfile.ReadError''))) (\<lambda>members.
     or_raise (map_option hd (find (\<lambda>parts. parts \<noteq> []) (map (\<lambda>b. pure_parts (bmb_name b)) members)))
       (runtime_error (''bundle has no archive members: '' @ path_text p)))"

definition skill_content_bundle_data ::
    "host_env \<Rightarrow> id \<Rightarrow> db \<Rightarrow> disk \<Rightarrow> (string \<times> nat \<times> string) host" where
  "skill_content_bundle_data env content_id d disk =
     rbind (or_raise (row_get cnt_id (db_contents d) content_id)
              (runtime_error (''skill content '' @ str_of_int content_id @ '' not found''))) (\<lambda>c.
     rbind (artifact_object_path (env_artifacts env) (cnt_storage_uri c)) (\<lambda>p.
     rbind (or_raise (read_file disk p) (runtime_error (''skill content payload missing: '' @ path_text p))) (\<lambda>raw.
     rbind (from_client (inspect_distribution_bundle (env_out env) JNull raw)) (\<lambda>report.
     rbind (bundle_root_dir (env_out env) p raw) (\<lambda>root_dir.
     Inr (raw, length (brp_files report), root_dir))))))"

section \<open>Is the release materialized already?\<close>

definition materialized_path :: "host_env \<Rightarrow> release_snapshot \<Rightarrow> string \<Rightarrow> string" where
  "materialized_path env s name =
     release_dir (prn_slug (snp_namespace s)) (skl_slug (snp_skill s)) (ver_version (snp_version s)) @ ''/'' @ name"

definition provenance_name :: "release_snapshot \<Rightarrow> string" where
  "provenance_name s =
     provenance_basename (prn_slug (snp_namespace s)) (skl_slug (snp_skill s)) (ver_version (snp_version s))"

definition release_artifact_id :: "release \<Rightarrow> string \<Rightarrow> id option" where
  "release_artifact_id r kind =
     (if kind = ''bundle'' then rel_bundle_artifact r else if kind = ''manifest'' then rel_manifest_artifact r
      else if kind = ''provenance'' then rel_provenance_artifact r else rel_signature_artifact r)"

definition materialized_files :: "host_env \<Rightarrow> release_snapshot \<Rightarrow> (string \<times> string) list" where
  "materialized_files env s =
     [(''bundle'', materialized_path env s ''skill.tar.gz''), (''manifest'', materialized_path env s ''manifest.json''),
      (''provenance'', ''provenance/'' @ provenance_name s),
      (''signature'', ''provenance/'' @ provenance_name s @ ''.ssig'')]"

definition row_matches_file :: "outside \<Rightarrow> artifact list \<Rightarrow> release \<Rightarrow> string \<Rightarrow> string option \<Rightarrow> bool" where
  "row_matches_file out arts r kind raw =
     (case (release_artifact_id r kind, raw) of
        (Some i, Some data) \<Rightarrow>
          (case find (\<lambda>a. art_id a = i) (rev arts) of
             None \<Rightarrow> False
           | Some a \<Rightarrow> art_kind a = kind \<and> out_sha256 out data = art_sha256 a \<and> int (length data) = art_size_bytes a)
      | _ \<Rightarrow> False)"

definition artifact_rows_match :: "host_env \<Rightarrow> release_snapshot \<Rightarrow> release \<Rightarrow> artifact list \<Rightarrow> disk \<Rightarrow> bool" where
  "artifact_rows_match env s r arts d \<longleftrightarrow>
     list_all (\<lambda>(kind, p). row_matches_file (env_out env) arts r kind (read_file d (under (env_artifacts env) p)))
       (materialized_files env s)"

definition all_artifacts_named :: "release \<Rightarrow> bool" where
  "all_artifacts_named r \<longleftrightarrow>
     rel_manifest_artifact r \<noteq> None \<and> rel_bundle_artifact r \<noteq> None \<and>
     rel_signature_artifact r \<noteq> None \<and> rel_provenance_artifact r \<noteq> None"

definition existing_materialization_is_current ::
    "host_env \<Rightarrow> release_snapshot \<Rightarrow> release \<Rightarrow> artifact list \<Rightarrow> disk \<Rightarrow> bool host" where
  "existing_materialization_is_current env s r arts d =
     (if rel_state r \<noteq> RelReady \<or> \<not> all_artifacts_named r \<or> length arts < 4 then Inr False
      else rbind (verified_or_false (verify_distribution_manifest (env_out env) d (site_signing (env_site env))
               (under (env_artifacts env) (materialized_path env s ''manifest.json'')) (env_artifacts env) (env_repo env)))
             (\<lambda>verified. Inr (verified \<and> artifact_rows_match env s r arts d)))"

definition files_require_materialization :: "host_env \<Rightarrow> id \<Rightarrow> db \<Rightarrow> disk \<Rightarrow> bool host" where
  "files_require_materialization env release_id d disk =
     rbind (from_service (get_release_snapshot release_id d)) (\<lambda>s.
     rbind (existing_materialization_is_current env s (snp_release s)
              (get_artifacts_for_release (rel_id (snp_release s)) d) disk) (\<lambda>current. Inr (\<not> current)))"

section \<open>The parts of a materialization\<close>

definition load_bundle :: "host_env \<Rightarrow> release_snapshot \<Rightarrow> db \<Rightarrow> disk \<Rightarrow> stored_bundle host" where
  "load_bundle env s d disk =
     rbind (skill_content_bundle_data env (snapshot_content_id s) d disk) (\<lambda>(data, file_count, root_dir).
     rbind (from_service (canonicalize_skill_bundle (env_lib env) (skl_slug (snp_skill s)) data)) (\<lambda>validated.
     rbind (require (bun_data validated = data)
              (runtime_error ''stored skill content is not in canonical bundle form'')) (\<lambda>_.
     rbind (require (bun_version validated = ver_version (snp_version s))
              (runtime_error ''stored skill content version no longer matches the sealed version'')) (\<lambda>_.
     rbind (require (print_compact (JObj (bun_metadata validated)) = print_compact (JObj (snapshot_metadata s)))
              (runtime_error ''stored skill content metadata no longer matches the sealed version'')) (\<lambda>_.
     rbind (from_service (validate_hosted_skill_identity (bun_metadata validated)
              (prn_slug (snp_namespace s)) (skl_slug (snp_skill s)))) (\<lambda>_.
     Inr \<lparr>stb_data = data, stb_file_count = file_count, stb_root_dir = root_dir,
          stb_sha256 = out_sha256 (env_out env) data, stb_path = materialized_path env s ''skill.tar.gz'',
          stb_metadata = bun_metadata validated, stb_source_mode = env_source_mode env data\<rparr>))))))"

definition build_and_store_bundle :: "host_env \<Rightarrow> release_snapshot \<Rightarrow> stored_bundle step" where
  "build_and_store_bundle env s =
     step_bind (reading (load_bundle env s)) (\<lambda>b.
     step_bind (on_disk (put_artifact env (stb_data b) (stb_path b))) (\<lambda>_. step_return b))"

definition openclaw_runtime_evidence :: "release_snapshot \<Rightarrow> stored_bundle \<Rightarrow> time \<Rightarrow> json" where
  "openclaw_runtime_evidence s b now =
     JObj [(''platform'', JStr ''openclaw''), (''skill'', JStr (skl_slug (snp_skill s))),
           (''qualified_name'', JStr (prn_slug (snp_namespace s) @ ''/'' @ skl_slug (snp_skill s))),
           (''version'', JStr (ver_version (snp_version s))), (''state'', JStr ''native''),
           (''checked_at'', JStr (seconds_text now)),
           (''checker'', JStr ''infinitas-hosted-materializer/openclaw-contract''),
           (''content_sha256'', JStr (stb_sha256 b)), (''source_mode'', stb_source_mode b),
           (''note'', JStr ''Validated immutable hosted bundle against the OpenClaw runtime contract.'')]"

definition persist_platform_compatibility :: "host_env \<Rightarrow> release \<Rightarrow> stored_bundle \<Rightarrow> json \<Rightarrow> release step" where
  "persist_platform_compatibility env r b evidence =
     step_bind (reading (\<lambda>_ disk. from_client (env_compatibility env disk (stb_metadata b) evidence))) (\<lambda>compatibility.
     let r' = r\<lparr>rel_compatibility_json := json_dumps (JObj compatibility)\<rparr> in
     on_rows (\<lambda>d. Inr (r', put_release r' d)))"

record stored_provenance =
  stp_bytes :: string
  stp_signature :: string
  stp_path :: string
  stp_signature_path :: string

definition make_provenance ::
    "host_env \<Rightarrow> release_snapshot \<Rightarrow> release \<Rightarrow> stored_bundle \<Rightarrow> time \<Rightarrow> disk \<Rightarrow> stored_provenance host" where
  "make_provenance env s r b now disk =
     rbind (from_client (attestation_config (env_repo env) (site_signing (env_site env)))) (\<lambda>cfg.
     rbind (from_client (resolve_attestation_key env cfg)) (\<lambda>key.
     rbind (resolve_signer_identity env disk cfg key) (\<lambda>signer.
     rbind (or_raise (jstr (acf_signature_ext cfg)) (FromClient (PyError ''TypeError''))) (\<lambda>ext.
     let name = provenance_name s;
         message = canonical_json_bytes (JObj (build_provenance_payload env s r b
           (materialized_path env s ''manifest.json'') (name @ ext) cfg signer now))
     in rbind (sign_provenance env key (acf_namespace cfg) message) (\<lambda>signature.
        Inr \<lparr>stp_bytes = message, stp_signature = signature, stp_path = ''provenance/'' @ name,
             stp_signature_path = ''provenance/'' @ name @ ext\<rparr>)))))"

definition build_and_store_provenance ::
    "host_env \<Rightarrow> release_snapshot \<Rightarrow> release \<Rightarrow> stored_bundle \<Rightarrow> time \<Rightarrow> stored_provenance step" where
  "build_and_store_provenance env s r b now =
     step_bind (reading (\<lambda>_ disk. make_provenance env s r b now disk)) (\<lambda>p.
     step_bind (on_disk (put_artifact env (stp_bytes p) (stp_path p))) (\<lambda>_.
     step_bind (on_disk (put_artifact env (stp_signature p) (stp_signature_path p))) (\<lambda>_. step_return p)))"

definition make_manifest ::
    "host_env \<Rightarrow> release_snapshot \<Rightarrow> stored_bundle \<Rightarrow> stored_provenance \<Rightarrow> time \<Rightarrow> disk \<Rightarrow> string host" where
  "make_manifest env s b p now disk =
     rbind (from_client (build_distribution_manifest_payload (env_out env) disk (site_signing (env_site env))
              (under (env_artifacts env) (stp_path p)) (under (env_artifacts env) (stb_path b))
              (env_artifacts env) (env_repo env) now)) (\<lambda>payload.
     Inr (canonical_json_bytes (JObj payload)))"

definition build_and_store_manifest ::
    "host_env \<Rightarrow> release_snapshot \<Rightarrow> stored_bundle \<Rightarrow> stored_provenance \<Rightarrow> time \<Rightarrow> string step" where
  "build_and_store_manifest env s b p now =
     step_bind (reading (\<lambda>_ disk. make_manifest env s b p now disk)) (\<lambda>data.
     step_bind (on_disk (put_artifact env data (materialized_path env s ''manifest.json''))) (\<lambda>_. step_return data))"

definition upsert_data :: "host_env \<Rightarrow> id \<Rightarrow> string \<Rightarrow> string \<Rightarrow> string \<Rightarrow> artifact step" where
  "upsert_data env release_id kind path data =
     on_rows (\<lambda>d. Inr (upsert_artifact release_id kind path (out_sha256 (env_out env) data) (int (length data)) d))"

section \<open>The materialization\<close>

text \<open>\<open>beat\<close> is the heartbeat the caller passes, run between the parts.\<close>

definition rematerialize ::
    "host_env \<Rightarrow> unit step \<Rightarrow> release_snapshot \<Rightarrow> time \<Rightarrow> (release \<times> artifact list) step" where
  "rematerialize env beat s now =
     step_bind beat (\<lambda>_.
     step_bind (build_and_store_bundle env s) (\<lambda>b.
     step_bind beat (\<lambda>_.
     step_bind (persist_platform_compatibility env (snp_release s) b (openclaw_runtime_evidence s b now)) (\<lambda>r.
     step_bind (build_and_store_provenance env s r b now) (\<lambda>p.
     step_bind beat (\<lambda>_.
     step_bind (build_and_store_manifest env s b p now) (\<lambda>manifest.
     step_bind beat (\<lambda>_.
     step_bind (upsert_data env (rel_id r) ''bundle'' (stb_path b) (stb_data b)) (\<lambda>bundle_row.
     step_bind (upsert_data env (rel_id r) ''manifest'' (materialized_path env s ''manifest.json'') manifest) (\<lambda>manifest_row.
     step_bind (upsert_data env (rel_id r) ''provenance'' (stp_path p) (stp_bytes p)) (\<lambda>provenance_row.
     step_bind (upsert_data env (rel_id r) ''signature'' (stp_signature_path p) (stp_signature p)) (\<lambda>signature_row.
     step_bind (on_rows (mark_release_ready r (art_id manifest_row) (art_id bundle_row) (art_id signature_row)
                  (art_id provenance_row) now)) (\<lambda>_.
     reading (\<lambda>d _. rbind (from_service (get_release_or_404 (rel_id r) d)) (\<lambda>r'.
       Inr (r', get_artifacts_for_release (rel_id r) d))))))))))))))))"

definition materialize_release ::
    "host_env \<Rightarrow> unit step \<Rightarrow> id \<Rightarrow> time \<Rightarrow> (release \<times> artifact list) step" where
  "materialize_release env beat release_id now =
     step_bind (reading (\<lambda>d _. from_service (get_release_snapshot release_id d))) (\<lambda>s.
     step_bind (reading (\<lambda>d disk. existing_materialization_is_current env s (snp_release s)
                  (get_artifacts_for_release (rel_id (snp_release s)) d) disk)) (\<lambda>current.
     if current
     then reading (\<lambda>d _. Inr (snp_release s, get_artifacts_for_release (rel_id (snp_release s)) d))
     else rematerialize env beat s now))"

end
