(* ===== verification/ReleaseDocuments.thy ===== *)
theory ReleaseDocuments
  imports Materialize
begin

text \<open>
  What a materialization leaves: the documents the server writes are the documents the client
  reads, and the release the server has just materialized passes the client's verification.
\<close>

section \<open>Documents read back\<close>

lemma map_of_filter_key: "map_of xs k = (case filter (\<lambda>p. fst p = k) xs of [] \<Rightarrow> None | p # _ \<Rightarrow> Some (snd p))"
  by (induction xs) auto

lemma map_of_sorted: "map_of (sort_key fst xs) k = map_of xs k"
  by (simp add: map_of_filter_key sort_key_stable)

lemma map_of_members: "map_of (map (\<lambda>p. (fst p, f (snd p))) m) k = map_option f (map_of m k)"
  by (induction m) auto

text \<open>The members of a document after it was written and read.\<close>

definition reread :: "(string \<times> json) list \<Rightarrow> (string \<times> json) list" where
  "reread m = as_obj (sorted_json (JObj m))"

lemma sorted_json_obj: "sorted_json (JObj m) = JObj (reread m)"
  by (simp add: reread_def)

declare sorted_json.simps(2) [simp del]

lemma sorted_json_null [simp]: "sorted_json j = JNull \<longleftrightarrow> j = JNull"
  by (cases j) (simp_all add: sorted_json_obj)

lemma jget_reread [simp]: "jget (reread m) k = sorted_json (jget m k)"
  by (simp add: reread_def sorted_json.simps(2) jget_def map_of_sorted map_of_members split: option.splits)

lemma reread_empty [simp]: "reread m = [] \<longleftrightarrow> m = []"
proof -
  have "length (reread m) = length m" by (simp add: reread_def sorted_json.simps(2))
  then show ?thesis by (metis length_0_conv)
qed

lemma as_obj_sorted [simp]: "as_obj (sorted_json j) = reread (as_obj j)"
proof (cases j)
  case (JObj m)
  then show ?thesis by (simp add: reread_def)
qed (simp_all add: as_obj_def reread_def sorted_json.simps(2))

lemma sorted_json_idem [simp]: "sorted_json (sorted_json j) = sorted_json j"
proof (induction j)
  case (JObj m)
  have "map (\<lambda>p. (fst p, sorted_json (snd p))) (sort_key fst (map (\<lambda>p. (fst p, sorted_json (snd p))) m)) =
        sort_key fst (map (\<lambda>p. (fst p, sorted_json (sorted_json (snd p)))) m)"
    by (subst sort_map_snd [symmetric]) (simp add: comp_def)
  also have "\<dots> = sort_key fst (map (\<lambda>p. (fst p, sorted_json (snd p))) m)"
    using JObj by (intro arg_cong [where f = "sort_key fst"] map_cong) (auto simp: snds.simps)
  finally show ?case by (simp add: sorted_json.simps(2) sort_key_id_if_sorted)
qed simp_all

lemma jget_reread_twice [simp]: "jget (reread (reread m)) k = sorted_json (jget m k)"
  by simp

lemma truthy_sorted [simp]: "truthy (sorted_json j) \<longleftrightarrow> truthy j"
  by (cases j) (simp_all add: sorted_json_obj)

lemma no_decimals_obj [simp]: "no_decimals (JObj m) \<longleftrightarrow> (\<forall>(k, v) \<in> set m. no_decimals v)"
  by (auto simp: list_all_iff)

section \<open>Files\<close>

lemma read_written: "write_path p data d = Inr d' \<Longrightarrow> read_file d' q = (if q = p then Some data else read_file d q)"
  by (auto simp: write_path_def read_file_def update_conv' split: if_splits)

lemma path_exists_iff: "path_exists d p \<longleftrightarrow> (\<exists>q raw. read_file d q = Some raw \<and> is_relative_to q p)"
proof -
  have "fst ` set d = {q. read_file d q \<noteq> None}" by (auto simp: read_file_def dom_map_of_conv_image_fst [symmetric])
  moreover have "path_exists d p \<longleftrightarrow> (\<exists>q \<in> fst ` set d. is_relative_to q p)"
    by (force simp: path_exists_def list_ex_iff)
  ultimately show ?thesis by auto
qed

lemma read_file_exists: "read_file d p = Some raw \<Longrightarrow> path_exists d p"
  by (auto simp: path_exists_iff is_relative_to_def)

lemma written_exists: "write_path p data d = Inr d' \<Longrightarrow> path_exists d' q \<longleftrightarrow> is_relative_to p q \<or> path_exists d q"
  by (auto simp: path_exists_iff read_written split: if_splits)

lemma put_artifact_Inr:
  assumes "put_artifact env data public d = Inr d'"
  shows "read_file d' q =
           (if q = under (env_artifacts env) public \<or> q = object_path env data then Some data else read_file d q)"
    and "is_relative_to (under (env_artifacts env) public) (env_artifacts env)"
  using assms by (auto simp: put_artifact_def Let_def res_simps read_written)

section \<open>The provenance document\<close>

lemma blank_iff: "strip s = [] \<longleftrightarrow> list_all is_space s"
proof -
  have "strip s = [] \<longleftrightarrow> list_all is_space (lstrip s)"
    by (simp add: strip_def rstrip_def dropWhile_eq_Nil_conv list_all_iff)
  also have "\<dots> \<longleftrightarrow> list_all is_space s"
    by (induction s) (auto simp: lstrip_def)
  finally show ?thesis .
qed

lemma not_blank [simp]:
  "strip (a @ s) \<noteq> [] \<longleftrightarrow> strip a \<noteq> [] \<or> strip s \<noteq> []"
  "\<not> is_space c \<Longrightarrow> strip (c # s) \<noteq> []"
  by (auto simp: blank_iff)

lemma letter_visible [simp]: "65 \<le> code c \<Longrightarrow> code c < 123 \<Longrightarrow> \<not> is_space c"
  by (simp add: is_space_def)

definition path_word :: "string \<Rightarrow> bool" where
  "path_word s \<longleftrightarrow> strip s \<noteq> [] \<and> CHR ''/'' \<notin> set s \<and> s \<noteq> ''.'' \<and> s \<noteq> ''..''"

text \<open>The names of a sealed version, as its routes accept them.\<close>

definition snapshot_ok :: "release_snapshot \<Rightarrow> bool" where
  "snapshot_ok s \<longleftrightarrow>
     path_word (prn_slug (snp_namespace s)) \<and> path_word (skl_slug (snp_skill s)) \<and>
     path_word (ver_version (snp_version s)) \<and>
     strip (remove_prefix ''sha256:'' (ver_content_digest (snp_version s))) \<noteq> []"

text \<open>A configuration that signs releases with ssh and nothing else, with signatures in \<open>.ssig\<close> files.\<close>

definition signs_with_ssh :: "att_config \<Rightarrow> bool" where
  "signs_with_ssh cfg \<longleftrightarrow>
     acf_format cfg = JStr ''ssh'' \<and> acf_trust_mode cfg = ''ssh'' \<and> text_value (acf_namespace cfg) \<and>
     strip (acf_allowed_signers cfg) \<noteq> [] \<and> acf_signature_ext cfg = JStr ''.ssig'' \<and>
     acf_policy_mode cfg \<in> {JStr ''advisory'', JStr ''enforce''}"

definition bundle_ok :: "stored_bundle \<Rightarrow> bool" where
  "bundle_ok b \<longleftrightarrow> strip (stb_path b) \<noteq> [] \<and> strip (stb_sha256 b) \<noteq> [] \<and> strip (stb_root_dir b) \<noteq> [] \<and> 0 < stb_file_count b"

lemma text_value_str [simp]: "text_value (JStr s) \<longleftrightarrow> strip s \<noteq> []"
  by (simp add: text_value_def)

lemma text_value_sorted [simp]: "text_value (sorted_json j) = text_value j"
  by (cases j) (simp_all add: sorted_json_obj text_value_def)

lemma is_list_sorted [simp]: "is_list (sorted_json j) = is_list j"
  by (cases j) (simp_all add: sorted_json_obj is_list_def)

lemma int_at_least_sorted [simp]: "int_at_least n (sorted_json j) = int_at_least n j"
  by (cases j) (simp_all add: sorted_json_obj int_at_least_def)

lemma sorted_json_leaf [simp]: "sorted_json (JStr s) = JStr s" "sorted_json (JInt i) = JInt i" "sorted_json (JBool b) = JBool b"
  by simp_all

lemma releaser_text:
  assumes "\<forall>args v. env_git env args = Some v \<longrightarrow> strip v \<noteq> []"
  shows "null_or text_value (jopt JStr (resolve_releaser_identity env))"
  using assms
  by (auto simp: resolve_releaser_identity_def null_or_def jopt_def truthy_text_def split: option.splits if_splits)

lemma no_complaints [simp]: "complain False m = []" "complain True m = [m]"
  by (simp_all add: complain_def)

lemma require_strings_reread:
  "require_strings (reread m) label keys = require_strings m label keys"
  by (simp add: require_strings_def)

text \<open>The members of the document, one by one.\<close>

lemma provenance_members:
  fixes env s r b manifest_path sig cfg signer now
  defines "P \<equiv> build_provenance_payload env s r b manifest_path sig cfg signer now"
    and "f \<equiv> provenance_facts_of env s"
  shows "jget P ''schema_version'' = JInt 1" "jget P ''kind'' = JStr ''skill-release-attestation''"
    "jget P ''skill'' = skill_payload f (skl_summary (snp_skill s))" "jget P ''git'' = git_payload f signer"
    "jget P ''source_snapshot'' = build_source_snapshot f"
    "jget P ''registry'' = build_registry_payload (env_repo env) f"
    "jget P ''dependencies'' = dependencies_payload f manifest_path
       (build_dependency_step f manifest_path (stb_path b) (stb_sha256 b))"
    "jget P ''review'' = review_payload"
    "jget P ''release'' = release_payload (resolve_releaser_identity env) signer r"
    "jget P ''attestation'' = attestation_payload cfg sig signer"
    "jget P ''distribution'' = distribution_payload (stb_path b) (stb_sha256 b) (length (stb_data b)) (stb_root_dir b)
       (stb_file_count b) manifest_path"
    "jget P ''ci'' = JNull" "jget P ''transparency_log'' = JNull"
  by (simp_all add: P_def f_def build_provenance_payload_def Let_def)

lemmas provenance_parts = skill_payload_def git_payload_def build_source_snapshot_def build_registry_payload_def
  dependencies_payload_def review_payload_def release_payload_def attestation_payload_def distribution_payload_def

lemma visible_letters [simp]:
  "\<not> is_space (CHR ''r'')" "\<not> is_space (CHR ''s'')" "\<not> is_space (CHR ''c'')" "\<not> is_space (CHR ''p'')"
  by (simp_all add: is_space_def code_def)

lemma facts_text:
  assumes "snapshot_ok s"
  shows "strip (pvf_publisher (provenance_facts_of env s)) \<noteq> []" "strip (pvf_slug (provenance_facts_of env s)) \<noteq> []"
    "strip (pvf_version (provenance_facts_of env s)) \<noteq> []" "strip (pvf_source_commit (provenance_facts_of env s)) \<noteq> []"
    "strip (pvf_source_ref (provenance_facts_of env s)) \<noteq> []"
    "strip (release_marker f) \<noteq> []" "strip (release_ref f) \<noteq> []"
  using assms
  by (simp_all add: snapshot_ok_def path_word_def provenance_facts_of_def snapshot_source_ref_def Let_def
        release_marker_def release_ref_def)

lemma ssig_text: "strip ''.ssig'' \<noteq> []"
  by code_simp

lemma provenance_valid:
  assumes "snapshot_ok s" "signs_with_ssh cfg" "bundle_ok b" "strip manifest_path \<noteq> []" "strip sig \<noteq> []" "strip signer \<noteq> []"
    "\<forall>args v. env_git env args = Some v \<longrightarrow> strip v \<noteq> []"
  shows "validate_provenance_payload (sorted_json (JObj (build_provenance_payload env s r b manifest_path sig cfg signer now))) = Inr []"
proof -
  define f where "f = provenance_facts_of env s"
  define P where "P = build_provenance_payload env s r b manifest_path sig cfg signer now"
  note members = provenance_members [of env s r b manifest_path sig cfg signer now, folded P_def f_def]
  note texts = facts_text(1-5) [OF assms(1), of env, folded f_def] facts_text(6,7) [OF assms(1), of f]
  have "release_mode (reread P) = Inr (''local-tag'', [])"
    by (simp add: release_mode_def members release_payload_def sorted_json_obj one_of_def str_of_def Let_def)
  moreover have "validate_payload_skill (reread P) = []"
    using texts by (simp add: validate_payload_skill_def members skill_payload_def sorted_json_obj require_strings_def null_or_def is_list_def)
  moreover have "validate_payload_git (reread P) = []"
    using texts by (simp add: validate_payload_git_def members git_payload_def sorted_json_obj require_strings_def)
  moreover have "validate_payload_snapshot (reread P) ''local-tag'' = []"
    using texts by (simp add: validate_payload_snapshot_def members build_source_snapshot_def sorted_json_obj require_strings_def)
  moreover have "validate_context (reread P) ''registry'' = []" "validate_context (reread P) ''dependencies'' = []"
    by (simp_all add: validate_context_def members build_registry_payload_def dependencies_payload_def sorted_json_obj
          context_arrays_def is_list_def)
  moreover have "validate_review_and_release (reread P) = []"
    using releaser_text [OF assms(7)]
    by (simp add: validate_review_and_release_def members review_payload_def release_payload_def sorted_json_obj
          is_list_def is_bool_def null_or_def)
  moreover have "validate_payload_attestation (reread P) = Inr []"
    using assms(2,5,6) ssig_text
    by (auto simp: validate_payload_attestation_def members attestation_payload_def sorted_json_obj one_of_def
          require_strings_def is_bool_def signs_with_ssh_def Let_def)
  moreover have "validate_payload_ci (reread P) = []"
    using assms(2) by (simp add: validate_payload_ci_def members attestation_payload_def signs_with_ssh_def)
  moreover have "validate_payload_distribution (reread P) = []"
    using assms(3,4)
    by (simp add: validate_payload_distribution_def members distribution_payload_def sorted_json_obj null_or_def
          require_strings_def validate_bundle_fields_def bundle_ok_def int_at_least_def)
  ultimately show ?thesis
    by (simp add: validate_provenance_payload_def sorted_json_obj P_def [symmetric] members json_eq_def)
qed

section \<open>The manifest\<close>

lemma jstr_iff: "jstr j = Some e \<longleftrightarrow> j = JStr e"
  by (cases j) (auto simp: jstr_def)

lemma built_manifest:
  assumes "build_distribution_manifest_payload out d domain pf bf root attestation_root now = Inr M"
    and "read_file d pf = Some message" and "out_decode out message = Some (JObj Q)"
  shows "\<exists>raw report ext sf signature cfg ci.
     read_file d bf = Some raw \<and>
     inspect_distribution_bundle out (jget (as_obj (jget (as_obj (jget Q ''distribution'')) ''bundle'')) ''root_dir'') raw = Inr report \<and>
     jget_default (as_obj (jget Q ''attestation'')) ''signature_ext'' (JStr ''.ssig'') = JStr ext \<and>
     with_suffix_added pf ext = Inr sf \<and> read_file d sf = Some signature \<and>
     attestation_config attestation_root domain = Inr cfg \<and> (\<forall>v \<in> snd ` set ci. no_decimals v) \<and>
     M = [(''$schema'', JStr ''schemas/distribution-manifest.schema.json''), (''schema_version'', JInt 1),
          (''kind'', JStr ''skill-distribution-manifest''), (''generated_at'', JStr (seconds_text now)),
          (''skill'', pick skill_keys (as_obj (jget Q ''skill''))), (''source_snapshot'', jget Q ''source_snapshot''),
          (''bundle'', pick bundle_keys (as_obj (jget (as_obj (jget Q ''distribution'')) ''bundle''))),
          (''file_manifest'', json_or (jget (as_obj (jget Q ''distribution'')) ''file_manifest'') (JList (brp_files report))),
          (''build'', json_or (jget (as_obj (jget Q ''distribution'')) ''build'') (brp_build report)),
          (''registry'', jget Q ''registry''), (''dependencies'', jget Q ''dependencies''),
          (''attestation_bundle'', JObj
             ([(''provenance_path'', JStr (relative_from_root root pf)), (''provenance_sha256'', JStr (out_sha256 out message)),
               (''signature_path'', JStr (relative_from_root root sf)), (''signature_sha256'', JStr (out_sha256 out signature)),
               (''signer_identity'', jget (as_obj (jget Q ''attestation'')) ''signer_identity''),
               (''namespace'', jget (as_obj (jget Q ''attestation'')) ''namespace''),
               (''allowed_signers'', jget (as_obj (jget Q ''attestation'')) ''allowed_signers''),
               (''required_formats'', JList (JStr ''ssh'' # (if requires_ci cfg then [JStr ''ci''] else [])))] @ ci))]"
proof -
  have prov: "load_object out d pf = Inr Q" using assms(2,3) by (simp add: load_object_Inr)
  from assms(1) [unfolded build_distribution_manifest_payload_def rbind_Inr_iff] prov
  obtain dis sb raw report att ext sf cfg skill pd sd ci where
    steps: "dict_or_empty (jget Q ''distribution'') = Inr dis" "dict_or_empty (jget dis ''bundle'') = Inr sb"
      "read_bytes d bf = Inr raw" "inspect_distribution_bundle out (jget sb ''root_dir'') raw = Inr report"
      "dict_or_empty (jget Q ''attestation'') = Inr att"
      "jget_default att ''signature_ext'' (JStr ''.ssig'') = JStr ext" "with_suffix_added pf ext = Inr sf"
      "attestation_config attestation_root domain = Inr cfg" "dict_or_empty (jget Q ''skill'') = Inr skill"
      "sha256_file out d pf = Inr pd" "sha256_file out d sf = Inr sd" "ci_references out d root pf = Inr ci"
    and M: "M = [(''$schema'', JStr ''schemas/distribution-manifest.schema.json''), (''schema_version'', JInt 1),
          (''kind'', JStr ''skill-distribution-manifest''), (''generated_at'', JStr (seconds_text now)),
          (''skill'', pick skill_keys skill), (''source_snapshot'', jget Q ''source_snapshot''),
          (''bundle'', pick bundle_keys sb),
          (''file_manifest'', json_or (jget dis ''file_manifest'') (JList (brp_files report))),
          (''build'', json_or (jget dis ''build'') (brp_build report)),
          (''registry'', jget Q ''registry''), (''dependencies'', jget Q ''dependencies''),
          (''attestation_bundle'', JObj
             ([(''provenance_path'', JStr (relative_from_root root pf)), (''provenance_sha256'', JStr pd),
               (''signature_path'', JStr (relative_from_root root sf)), (''signature_sha256'', JStr sd),
               (''signer_identity'', jget att ''signer_identity''), (''namespace'', jget att ''namespace''),
               (''allowed_signers'', jget att ''allowed_signers''),
               (''required_formats'', JList (JStr ''ssh'' # (if requires_ci cfg then [JStr ''ci''] else [])))] @ ci))]"
    by (auto simp: jstr_iff)
  note same = steps(1,2,5,9) [THEN dict_or_empty_as_obj]
  have "read_file d bf = Some raw" using steps(3) by (simp add: read_bytes_def)
  moreover obtain signature where "read_file d sf = Some signature" "sd = out_sha256 out signature"
    using steps(11) by (auto simp: sha256_file_def read_bytes_def res_simps)
  moreover have "pd = out_sha256 out message"
    using steps(10) assms(2) by (simp add: sha256_file_def read_bytes_def)
  moreover have "\<forall>v \<in> snd ` set ci. no_decimals v"
    using steps(12) by (auto simp: ci_references_def Let_def res_simps split: if_splits)
  ultimately show ?thesis using steps(4,6-8) M same by (simp only:) blast
qed

section \<open>Paths of the documents\<close>

text \<open>A component of a path that \<open>resolve\<close> keeps.\<close>

definition component :: "string \<Rightarrow> bool" where
  "component w \<longleftrightarrow> w \<noteq> [] \<and> CHR ''/'' \<notin> set w \<and> w \<noteq> ''.'' \<and> w \<noteq> ''..''"

lemma path_word_component: "path_word w \<Longrightarrow> component w"
  by (auto simp: path_word_def component_def blank_iff)

lemma component_literals:
  "component ''skills''" "component ''provenance''" "component ''skill.tar.gz''" "component ''manifest.json''"
  by (simp_all add: component_def)

lemma resolve_components: "list_all component ws \<Longrightarrow> resolve_from base ws = base @ ws"
  by (induction ws arbitrary: base) (auto simp: component_def)

lemma under_components:
  assumes "list_all component ws" and "ws \<noteq> []"
  shows "under base (join ''/'' ws) = base @ ws"
proof -
  have "\<not> is_absolute (join ''/'' ws)"
    using assms
    by (cases ws; cases "tl ws") (auto simp: is_absolute_def starts_with_def component_def neq_Nil_conv)
  moreover have "split_on (CHR ''/'') (join [CHR ''/''] ws) = ws"
    using assms by (intro split_on_join) (auto simp: component_def list_all_iff)
  ultimately show ?thesis using assms(1) by (simp add: under_def resolve_components)
qed

lemma relative_components: "relative_from_root root (root @ ws) = relative_text ws"
  by (simp add: relative_from_root_def is_relative_to_def)

lemma provenance_name_component:
  assumes "snapshot_ok s"
  shows "component (provenance_name s)" "component (provenance_name s @ ''.ssig'')"
  using assms
  by (auto simp: snapshot_ok_def path_word_def component_def provenance_name_def provenance_basename_def)

lemma materialized_under:
  assumes "snapshot_ok s" and "component name"
  shows "under root (materialized_path env s name) =
     root @ [''skills'', prn_slug (snp_namespace s), skl_slug (snp_skill s), ver_version (snp_version s), name]"
proof -
  have "list_all component [''skills'', prn_slug (snp_namespace s), skl_slug (snp_skill s), ver_version (snp_version s), name]"
    using assms by (simp add: snapshot_ok_def path_word_component component_literals)
  from under_components [OF this, of root] show ?thesis
    by (simp add: materialized_path_def release_dir_def)
qed

lemma provenance_under:
  assumes "component name"
  shows "under root (''provenance/'' @ name) = root @ [''provenance'', name]"
  using under_components [of "[''provenance'', name]" root] assms by (simp add: component_literals)

text \<open>The signature of a provenance document stands beside it.\<close>

lemma stem_and_suffix: "name_stem n @ name_suffix n = n"
  by (simp add: name_stem_def name_suffix_def Let_def)

lemma signature_beside:
  assumes "with_suffix_added (root @ [''provenance'', provenance_name s]) ''.ssig'' = Inr sf"
  shows "sf = root @ [''provenance'', provenance_name s @ ''.ssig'']"
proof -
  have "sf = root @ [''provenance'', name_stem (provenance_name s) @ name_suffix (provenance_name s) @ ''.ssig'']"
    using assms by (simp add: with_suffix_added_def Let_def rbind_Inr_iff file_name_def with_name_def butlast_append)
  then show ?thesis using stem_and_suffix [of "provenance_name s"] by (simp flip: append_assoc)
qed

section \<open>The signature verifies\<close>

lemma strip_starts: "strip s \<noteq> [] \<Longrightarrow> \<not> is_space (hd (strip s))"
proof (cases "lstrip s")
  case (Cons c t)
  then have "\<not> is_space c" by (simp add: lstrip_def dropWhile_eq_Cons_conv)
  then show ?thesis by (simp add: strip_def Cons rstrip_Cons)
qed (simp add: strip_def rstrip_def)

lemma signer_line_Inr:
  assumes "signer_line p n line = Inr es" and "e \<in> set es"
  shows "strip line \<noteq> [] \<and> \<not> starts_with ''#'' (strip line) \<and> strip (fst e) \<noteq> []"
proof -
  define stripped where "stripped = strip line"
  have s: "stripped \<noteq> []" "\<not> starts_with ''#'' stripped" "fst e = takeWhile (\<lambda>c. \<not> is_space c) stripped"
    using assms by (auto simp: signer_line_def Let_def res_simps split_identity_def stripped_def split: if_splits)
  have "\<not> is_space (hd stripped)" using strip_starts s(1) by (simp add: stripped_def)
  then have "strip (fst e) \<noteq> []"
    using s(1) unfolding s(3) blank_iff by (cases stripped) simp_all
  with s show ?thesis by (simp add: stripped_def)
qed

lemma allowed_signers_entries:
  assumes "parse_allowed_signers d p = Inr entries" and "entries \<noteq> []"
  shows "\<exists>raw ls. read_file d p = Some raw \<and> signer_entries d p = Inr ls \<and> ls \<noteq> [] \<and> (\<forall>e \<in> set entries. strip (fst e) \<noteq> [])"
proof -
  have there: "path_exists d p" using assms by (auto simp: parse_allowed_signers_def split: if_splits)
  with assms(1) obtain raw es where raw: "read_file d p = Some raw"
    and es: "map_res (\<lambda>(n, line). signer_line p n line) (enumerate 1 (split_lines raw)) = Inr es" "entries = concat es"
    by (auto simp: parse_allowed_signers_def res_simps from_client_def read_bytes_def)
  have line: "\<exists>line \<in> set (split_lines raw). strip line \<noteq> [] \<and> \<not> starts_with ''#'' (strip line) \<and> strip (fst e) \<noteq> []"
    if "e \<in> set entries" for e
  proof -
    have "e \<in> set (concat es)" using that es(2) by simp
    then obtain x where x: "x \<in> set es" "e \<in> set x" by auto
    then obtain q where q: "q \<in> set (enumerate 1 (split_lines raw))" "(case q of (n, line) \<Rightarrow> signer_line p n line) = Inr x"
      using es(1) imageI [OF x(1), of Inr] unfolding map_res_Inr by (metis (no_types, lifting) imageE list.set_map)
    obtain n line where line: "q = (n, line)" by (cases q)
    then have "line \<in> set (split_lines raw)"
      using q(1) by (metis enumerate_eq_zip set_zip_rightD)
    then show ?thesis using signer_line_Inr [OF _ x(2)] q(2) line by auto
  qed
  have "filter (\<lambda>l. l \<noteq> [] \<and> \<not> starts_with ''#'' l) (map strip (split_lines raw)) \<noteq> []"
    using assms(2) line by (fastforce simp: filter_empty_conv neq_Nil_conv)
  with there raw line show ?thesis by (auto simp: signer_entries_def read_bytes_def)
qed

text \<open>The documents contain no carriage return, so reading them as text changes nothing.\<close>

lemma universal_newlines_id: "CHR 0x0D \<notin> set s \<Longrightarrow> universal_newlines s = s"
  by (induction s) auto

lemma digits_no_return: "CHR 0x0D \<notin> set (digits_of n)"
  using digits_of_digits [of n] by (auto simp: is_digit_def code_def)

lemma str_of_int_no_return: "CHR 0x0D \<notin> set (str_of_int i)"
  by (simp add: str_of_int_def digits_no_return)

lemma hex_digit_no_return: "n < 16 \<Longrightarrow> hex_digit n \<noteq> CHR 0x0D"
proof
  assume "n < 16" and "hex_digit n = CHR 0x0D"
  then have "hex_value (CHR 0x0D) = n" using hex_digit_value by metis
  moreover have "hex_value (CHR 0x0D) = 0" by code_simp
  moreover have "hex_digit 0 \<noteq> CHR 0x0D" by code_simp
  ultimately show False using \<open>hex_digit n = CHR 0x0D\<close> by simp
qed

lemma quote_no_return: "CHR 0x0D \<notin> set (quote s)"
proof -
  have "CHR 0x0D \<notin> set (escape_char c)" for c
  proof (cases "code c < 32")
    case True
    then have "code c div 16 < 16" "code c mod 16 < 16" by simp_all
    then show ?thesis
      using True hex_digit_no_return [of "code c div 16"] hex_digit_no_return [of "code c mod 16"]
      by (auto simp: escape_char_def Let_def)
  next
    case False
    then show ?thesis by (auto simp: escape_char_def Let_def control_codes code_def)
  qed
  then show ?thesis by (simp add: quote_def)
qed

lemma join_no_return: "c \<notin> set sep \<Longrightarrow> \<forall>p \<in> set ps. c \<notin> set p \<Longrightarrow> c \<notin> set (join sep ps)"
  by (induction sep ps rule: join.induct) auto

lemma enclosed_no_return:
  assumes "l \<noteq> CHR 0x0D" "r \<noteq> CHR 0x0D" "\<forall>p \<in> set ps. CHR 0x0D \<notin> set p"
  shows "CHR 0x0D \<notin> set (enclosed l r k ps)"
proof -
  have line: "CHR 0x0D \<notin> set (new_line m)" for m by (simp add: new_line_def)
  then have "CHR 0x0D \<notin> set (join (CHR '','' # new_line (Suc k)) ps)" using assms(3) by (intro join_no_return) simp_all
  with line assms(1,2) show ?thesis by (simp add: enclosed_def)
qed

lemma print_indented_no_return: "CHR 0x0D \<notin> set (print_indented b k j)"
proof (induction j arbitrary: k)
  case (JFloat m e)
  then show ?case by (simp add: print_float_def pad_left_def Let_def digits_no_return)
next
  case (JList xs)
  then show ?case by (simp add: enclosed_no_return)
next
  case (JObj m)
  have "CHR 0x0D \<notin> set (quote (fst p) @ '': '' @ print_indented b (Suc k) (snd p))" if "p \<in> set m" for p
    using JObj [of p "snd p" "Suc k"] that quote_no_return by (simp add: snds.simps)
  then show ?case by (cases b) (simp_all add: Let_def enclosed_no_return)
qed (simp_all add: quote_no_return str_of_int_no_return)

lemma canonical_as_text: "universal_newlines (canonical_json_bytes j) = canonical_json_bytes j"
  by (rule universal_newlines_id) (simp add: canonical_json_bytes_def print_indented_no_return)

lemma attestation_verifies:
  assumes P: "P = build_provenance_payload env s r b mp (provenance_name s @ ''.ssig'') cfg who now"
    and valid: "validate_provenance_payload (sorted_json (JObj P)) = Inr []"
    and read: "read_file d pf = Some message" "out_decode out message = Some (sorted_json (JObj P))"
    and pf: "pf = root @ [''provenance'', provenance_name s]" and ok: "snapshot_ok s"
    and cfg: "attestation_config repo domain = Inr cfg" "signs_with_ssh cfg" "acf_namespace cfg = JStr ns"
    and signers: "read_file d (acf_allowed_path cfg) = Some allowed" "signer_entries d (acf_allowed_path cfg) = Inr ls" "ls \<noteq> []"
    and who: "strip who \<noteq> []"
    and signature: "read_file d (root @ [''provenance'', provenance_name s @ ''.ssig'']) = Some signature"
      "fst (out_ssh_verify out allowed who ns signature (universal_newlines message))"
    and no_log: "\<not> path_exists d (with_name pf (name_stem (file_name pf) @ ''.transparency.json''))"
  shows "\<exists>v. verify_attestation out d domain pf None None None repo = Inr v \<and> atd_formats v = [''ssh'']"
proof -
  define Q where "Q = reread P"
  note members = provenance_members [of env s r b mp "provenance_name s @ ''.ssig''" cfg who now, folded P]
  have parsed: "parse_attestation out d pf = Inr (JObj Q)"
    using read valid by (simp add: parse_attestation_def decode_file_def read_bytes_def sorted_json_obj Q_def)
  have att: "as_obj (jget Q ''attestation'') = reread (as_obj (attestation_payload cfg (provenance_name s @ ''.ssig'') who))"
    by (simp add: Q_def members)
  have beside: "under (butlast pf) (provenance_name s @ ''.ssig'') = root @ [''provenance'', provenance_name s @ ''.ssig'']"
    using under_components [of "[provenance_name s @ ''.ssig'']" "butlast pf"] provenance_name_component(2) [OF ok]
    by (simp add: pf butlast_append)
  have who': "who \<noteq> []" using who by (auto simp: blank_iff)
  obtain accepted reply where answer: "out_ssh_verify out allowed who ns signature (universal_newlines message) = (True, reply)"
    using signature(2) by (metis prod.collapse)
  have "jget Q ''attestation'' = JObj (reread (as_obj (attestation_payload cfg (provenance_name s @ ''.ssig'') who)))"
    by (simp add: Q_def members attestation_payload_def sorted_json_obj)
  then have ssh: "\<exists>v. verify_ssh_attestation out d pf (JObj Q) cfg None None None repo = Inr v"
    using signers signature(1) read(1) cfg(3) who' answer beside read_file_exists [OF signature(1)]
    by (simp add: verify_ssh_attestation_def attestation_payload_def truthy_text_def jstr_def chosen_signers_def
          chosen_namespace_def read_bytes_def Let_def)
  have form: "jget (domain_object (JObj Q) ''attestation'') ''format'' = JStr ''ssh''"
    using cfg(2) by (simp add: domain_object_def att attestation_payload_def signs_with_ssh_def)
  have "\<not> requires_ci cfg" using cfg(2) by (simp add: requires_ci_def signs_with_ssh_def)
  with ssh obtain v where v: "verify_ssh_format out d cfg pf (JObj Q) None None None repo = Inr v" "atd_formats v = [''ssh'']"
    by (auto simp: verify_ssh_format_def)
  have "summarize_log_state out d pf Q repo = Inr None"
    using no_log by (simp add: summarize_log_state_def Q_def members as_obj_def Let_def)
  with v form show ?thesis by (simp add: verify_attestation_def parsed cfg(1))
qed

section \<open>The bundle's files and build\<close>

definition entry_form :: "json \<Rightarrow> bool" where
  "entry_form e \<longleftrightarrow> (\<exists>p h n m. e = JObj [(''path'', JStr p), (''sha256'', JStr h), (''size'', JInt n), (''mode'', JStr m)])"

lemma inspected_entries:
  assumes "inspect_distribution_bundle out root raw = Inr report"
  shows "\<forall>e \<in> set (brp_files report). entry_form e"
    and "\<exists>ms. out_members out raw = Some ms \<and> length (brp_files report) = length (filter bmb_isfile ms)"
    and "\<exists>a b c d e f g. brp_build report = JObj [(''archive_format'', JStr ''tar.gz''), (''gzip_mtime'', JInt a),
           (''tar_mtime'', JInt b), (''tar_uid'', JInt c), (''tar_gid'', JInt d), (''tar_uname'', the_only e),
           (''tar_gname'', the_only f), (''builder'', g)] \<and> no_decimals g"
proof -
  obtain ms entries mtime where run: "out_members out raw = Some ms"
      "map_res (manifest_entry out root) (filter bmb_isfile ms) = Inr entries"
      "brp_files report = sort_key entry_path_key entries"
      "brp_build report = JObj
            [(''archive_format'', JStr ''tar.gz''), (''gzip_mtime'', JInt mtime),
             (''tar_mtime'', least_of (map bmb_mtime (filter bmb_isfile ms))),
             (''tar_uid'', least_of (map bmb_uid (filter bmb_isfile ms))),
             (''tar_gid'', least_of (map bmb_gid (filter bmb_isfile ms))),
             (''tar_uname'', the_only (map bmb_uname (filter bmb_isfile ms))),
             (''tar_gname'', the_only (map bmb_gname (filter bmb_isfile ms))),
             (''builder'', JObj [(''python'', JStr (fst (out_python out))), (''implementation'', JStr (snd (out_python out)))])]"
    using assms by (auto simp: inspect_distribution_bundle_def Let_def res_simps)
  have images: "map (manifest_entry out root) (filter bmb_isfile ms) = map Inr entries"
    using run(2) by (simp add: map_res_Inr)
  have "entry_form e" if "e \<in> set entries" for e
  proof -
    have "Inr e \<in> set (map (manifest_entry out root) (filter bmb_isfile ms))" using that by (simp add: images)
    then obtain b where "manifest_entry out root b = Inr e" by auto
    then show ?thesis by (auto simp: manifest_entry_def res_simps entry_form_def)
  qed
  then show "\<forall>e \<in> set (brp_files report). entry_form e" by (simp add: run(3))
  have "length entries = length (filter bmb_isfile ms)" using images by (metis length_map)
  then show "\<exists>ms. out_members out raw = Some ms \<and> length (brp_files report) = length (filter bmb_isfile ms)"
    using run(1,3) by auto
  show "\<exists>a b c d e f g. brp_build report = JObj [(''archive_format'', JStr ''tar.gz''), (''gzip_mtime'', JInt a),
           (''tar_mtime'', JInt b), (''tar_uid'', JInt c), (''tar_gid'', JInt d), (''tar_uname'', the_only e),
           (''tar_gname'', the_only f), (''builder'', g)] \<and> no_decimals g"
    unfolding run(4) least_of_def by fastforce
qed

lemma normalized_reread:
  assumes "\<forall>e \<in> set xs. entry_form e"
  shows "normalize_file_manifest (JList (map sorted_json xs)) = normalize_file_manifest (JList xs)"
    and "normalize_file_manifest (JList xs) \<noteq> None"
proof -
  let ?pick = "\<lambda>e. pick [''path'', ''sha256'', ''size'', ''mode''] (as_obj e)"
  have "?pick (sorted_json e) = ?pick e" "is_obj e" "is_obj (sorted_json e)" if "e \<in> set xs" for e
    using assms that by (auto simp: entry_form_def pick_def is_obj_def sorted_json_obj)
  then have "map ?pick (map sorted_json xs) = map ?pick xs" "list_all is_obj xs" "list_all is_obj (map sorted_json xs)"
    by (auto simp: list_all_iff)
  then show "normalize_file_manifest (JList (map sorted_json xs)) = normalize_file_manifest (JList xs)"
    and "normalize_file_manifest (JList xs) \<noteq> None"
    by (simp_all add: normalize_file_manifest_def comp_def cong: map_cong)
qed

lemma files_verify:
  assumes "inspect_distribution_bundle out root raw = Inr report" and "brp_files report \<noteq> []"
  shows "verify_file_manifest (sorted_json (JList (brp_files report))) JNull (Some report) = Inr ()"
proof -
  note form = inspected_entries(1) [OF assms(1)]
  obtain n where n: "normalize_file_manifest (JList (brp_files report)) = Some n"
    using normalized_reread(2) [OF form] by auto
  have given: "none_if_empty (JList (map sorted_json (brp_files report))) = JList (map sorted_json (brp_files report))"
    using assms(2) by (simp add: none_if_empty_def split: list.splits)
  have "normalize_file_manifest JNull = None" by (simp add: normalize_file_manifest_def)
  with n given show ?thesis
    by (simp add: verify_file_manifest_def normalized_reread(1) [OF form] Let_def option_eq_def)
qed

lemma build_verifies:
  assumes "inspect_distribution_bundle out root raw = Inr report"
  shows "verify_build_metadata (sorted_json (brp_build report)) JNull (Some report) = Inr ()"
proof -
  obtain a b c d e f g m where build: "brp_build report = JObj m" and
    m: "m = [(''archive_format'', JStr ''tar.gz''), (''gzip_mtime'', JInt a),
           (''tar_mtime'', JInt b), (''tar_uid'', JInt c), (''tar_gid'', JInt d), (''tar_uname'', the_only e),
           (''tar_gname'', the_only f), (''builder'', g)]"
    using inspected_entries(3) [OF assms] by blast
  have leaf: "sorted_json (the_only xs) = the_only xs" for xs by (simp add: the_only_def split: list.splits)
  have same: "normalize_build (JObj (reread m)) False = normalize_build (JObj m) False"
    by (simp add: m normalize_build_def pick_def leaf)
  have given: "none_if_no_members (JObj (reread m)) = JObj (reread m)"
    using reread_empty [of m] by (auto simp: m none_if_no_members_def split: list.splits)
  have some: "normalize_build (JObj x) b = Some (pick ([''archive_format'', ''gzip_mtime'', ''tar_mtime'', ''tar_uid'', ''tar_gid'',
       ''tar_uname'', ''tar_gname''] @ (if b then [''builder''] else [])) x)" for x b
    by (simp add: normalize_build_def)
  have none: "normalize_build JNull b = None" for b by (simp add: normalize_build_def)
  show ?thesis
    unfolding build sorted_json_obj verify_build_metadata_def Let_def given option.case none
    by (simp add: build same, simp add: some option_eq_def)
qed

lemma no_decimals_sorted [simp]: "no_decimals (sorted_json j) = no_decimals j"
proof (induction j)
  case (JList xs)
  then show ?case by (auto simp: list_all_iff)
next
  case (JObj m)
  then show ?case by (fastforce simp: sorted_json.simps(2) list_all_iff snds.simps)
qed simp_all

lemma no_decimals_jget: "no_decimals (JObj m) \<Longrightarrow> no_decimals (jget m k)"
  by (force simp: jget_def list_all_iff dest: map_of_SomeD split: option.splits)

lemma no_decimals_as_obj: "no_decimals j \<Longrightarrow> no_decimals (JObj (as_obj j))"
  by (cases j) (simp_all add: as_obj_def)

lemma no_decimals_pick: "no_decimals (JObj m) \<Longrightarrow> no_decimals (pick keys m)"
  by (auto simp: pick_def list_all_iff no_decimals_jget simp del: no_decimals.simps(2) no_decimals_obj)
     (simp add: list_all_iff no_decimals_jget)

lemma no_decimals_report:
  assumes "inspect_distribution_bundle out root raw = Inr report"
  shows "no_decimals (JList (brp_files report))" "no_decimals (brp_build report)"
proof -
  show "no_decimals (JList (brp_files report))"
    using inspected_entries(1) [OF assms] by (auto simp: list_all_iff entry_form_def)
  have "no_decimals (the_only xs)" for xs by (simp add: the_only_def split: list.splits)
  then show "no_decimals (brp_build report)"
    using inspected_entries(3) [OF assms] by (auto simp: list_all_iff)
qed

section \<open>The manifest verifies\<close>

text \<open>The paths of the four documents below the artifact root, and what a disk holds there.\<close>

definition provenance_file :: "host_env \<Rightarrow> release_snapshot \<Rightarrow> abs_path" where
  "provenance_file env s = env_artifacts env @ [''provenance'', provenance_name s]"

definition signature_file :: "host_env \<Rightarrow> release_snapshot \<Rightarrow> abs_path" where
  "signature_file env s = env_artifacts env @ [''provenance'', provenance_name s @ ''.ssig'']"

definition release_file :: "host_env \<Rightarrow> release_snapshot \<Rightarrow> string \<Rightarrow> abs_path" where
  "release_file env s name =
     env_artifacts env @ [''skills'', prn_slug (snp_namespace s), skl_slug (snp_skill s), ver_version (snp_version s), name]"

definition holds_documents ::
    "host_env \<Rightarrow> release_snapshot \<Rightarrow> stored_bundle \<Rightarrow> string \<Rightarrow> string \<Rightarrow> disk \<Rightarrow> bool" where
  "holds_documents env s b message signature d \<longleftrightarrow>
     read_file d (release_file env s ''skill.tar.gz'') = Some (stb_data b) \<and>
     read_file d (provenance_file env s) = Some message \<and> read_file d (signature_file env s) = Some signature"

lemma manifest_parts:
  assumes P: "P = build_provenance_payload env s r b (materialized_path env s ''manifest.json'') (provenance_name s @ ''.ssig'') cfg who now"
    and ok: "snapshot_ok s"
    and cfg: "attestation_config (env_repo env) domain = Inr cfg" "signs_with_ssh cfg"
    and docs: "holds_documents env s b message signature d"
    and decode: "out_decode out message = Some (sorted_json (JObj P))"
    and built: "build_distribution_manifest_payload out d domain (provenance_file env s)
        (release_file env s ''skill.tar.gz'') (env_artifacts env) (env_repo env) now = Inr M"
  shows "\<exists>report. inspect_distribution_bundle out (JStr (stb_root_dir b)) (stb_data b) = Inr report \<and>
     jget M ''kind'' = JStr ''skill-distribution-manifest'' \<and> jget M ''schema_version'' = JInt 1 \<and>
     jget M ''skill'' = pick skill_keys (reread (as_obj (jget P ''skill''))) \<and>
     jget M ''source_snapshot'' = sorted_json (jget P ''source_snapshot'') \<and>
     jget M ''bundle'' = pick bundle_keys (reread (as_obj (jget (as_obj (jget P ''distribution'')) ''bundle''))) \<and>
     jget M ''file_manifest'' = JList (brp_files report) \<and> jget M ''build'' = brp_build report \<and>
     jget M ''registry'' = sorted_json (jget P ''registry'') \<and> jget M ''dependencies'' = sorted_json (jget P ''dependencies'') \<and>
     (\<exists>ci. jget M ''attestation_bundle'' = JObj ([(''provenance_path'', JStr (''provenance/'' @ provenance_name s)),
        (''provenance_sha256'', JStr (out_sha256 out message)),
        (''signature_path'', JStr (''provenance/'' @ provenance_name s @ ''.ssig'')),
        (''signature_sha256'', JStr (out_sha256 out signature)), (''signer_identity'', JStr who),
        (''namespace'', sorted_json (acf_namespace cfg)), (''allowed_signers'', JStr (acf_allowed_signers cfg)),
        (''required_formats'', JList [JStr ''ssh''])] @ ci)) \<and>
     (no_decimals (JObj P) \<longrightarrow> no_decimals (JObj M))"
proof -
  note members = provenance_members [of env s r b "materialized_path env s ''manifest.json''" "provenance_name s @ ''.ssig''" cfg who now, folded P]
  have att: "as_obj (jget (reread P) ''attestation'') = reread (as_obj (attestation_payload cfg (provenance_name s @ ''.ssig'') who))"
    by (simp add: members)
  have ext: "jget_default (reread (as_obj (attestation_payload cfg (provenance_name s @ ''.ssig'') who))) ''signature_ext'' x = JStr e \<Longrightarrow> e = ''.ssig''" for x e
  proof -
    assume "jget_default (reread (as_obj (attestation_payload cfg (provenance_name s @ ''.ssig'') who))) ''signature_ext'' x = JStr e"
    moreover have "jget (reread (as_obj (attestation_payload cfg (provenance_name s @ ''.ssig'') who))) ''signature_ext'' = JStr ''.ssig''"
      using cfg(2) by (simp add: attestation_payload_def signs_with_ssh_def)
    ultimately show "e = ''.ssig''" by (simp add: jget_default_def jget_def split: option.splits)
  qed
  have paths: "relative_from_root (env_artifacts env) (provenance_file env s) = ''provenance/'' @ provenance_name s"
    "relative_from_root (env_artifacts env) (signature_file env s) = ''provenance/'' @ provenance_name s @ ''.ssig''"
    by (simp_all add: provenance_file_def signature_file_def relative_components relative_text_def)
  have plain: "\<not> requires_ci cfg" using cfg(2) by (simp add: requires_ci_def signs_with_ssh_def)
  note disk = docs [unfolded holds_documents_def]
  from built_manifest [OF built conjunct1 [OF conjunct2 [OF disk]] decode [unfolded sorted_json_obj]]
  obtain raw report e sf sig cfg' ci where
    b: "read_file d (release_file env s ''skill.tar.gz'') = Some raw"
      "inspect_distribution_bundle out (jget (as_obj (jget (as_obj (jget (reread P) ''distribution'')) ''bundle'')) ''root_dir'') raw = Inr report"
      "jget_default (as_obj (jget (reread P) ''attestation'')) ''signature_ext'' (JStr ''.ssig'') = JStr e"
      "with_suffix_added (provenance_file env s) e = Inr sf" "read_file d sf = Some sig"
      "attestation_config (env_repo env) domain = Inr cfg'" "\<forall>v \<in> snd ` set ci. no_decimals v" and
    M: "M = [(''$schema'', JStr ''schemas/distribution-manifest.schema.json''), (''schema_version'', JInt 1),
          (''kind'', JStr ''skill-distribution-manifest''), (''generated_at'', JStr (seconds_text now)),
          (''skill'', pick skill_keys (as_obj (jget (reread P) ''skill''))), (''source_snapshot'', jget (reread P) ''source_snapshot''),
          (''bundle'', pick bundle_keys (as_obj (jget (as_obj (jget (reread P) ''distribution'')) ''bundle''))),
          (''file_manifest'', json_or (jget (as_obj (jget (reread P) ''distribution'')) ''file_manifest'') (JList (brp_files report))),
          (''build'', json_or (jget (as_obj (jget (reread P) ''distribution'')) ''build'') (brp_build report)),
          (''registry'', jget (reread P) ''registry''), (''dependencies'', jget (reread P) ''dependencies''),
          (''attestation_bundle'', JObj
             ([(''provenance_path'', JStr (relative_from_root (env_artifacts env) (provenance_file env s))),
               (''provenance_sha256'', JStr (out_sha256 out message)),
               (''signature_path'', JStr (relative_from_root (env_artifacts env) sf)), (''signature_sha256'', JStr (out_sha256 out sig)),
               (''signer_identity'', jget (as_obj (jget (reread P) ''attestation'')) ''signer_identity''),
               (''namespace'', jget (as_obj (jget (reread P) ''attestation'')) ''namespace''),
               (''allowed_signers'', jget (as_obj (jget (reread P) ''attestation'')) ''allowed_signers''),
               (''required_formats'', JList (JStr ''ssh'' # (if requires_ci cfg' then [JStr ''ci''] else [])))] @ ci))]"
    by blast
  have same: "raw = stb_data b" "e = ''.ssig''" "cfg' = cfg" using b(1,3,6) disk cfg(1) ext att by auto
  then have sf: "sf = signature_file env s" using signature_beside [of "env_artifacts env" s sf] b(4)
    by (simp add: provenance_file_def signature_file_def)
  then have sig: "sig = signature" using b(5) disk by simp
  have dist: "jget (as_obj (distribution_payload p h n rd c mp)) ''file_manifest'' = JNull"
      "jget (as_obj (distribution_payload p h n rd c mp)) ''build'' = JNull"
      "jget (as_obj (jget (as_obj (distribution_payload p h n rd c mp)) ''bundle'')) ''root_dir'' = JStr rd" for p h n rd c mp
    by (simp_all add: distribution_payload_def)
  have leaves: "no_decimals (JObj M)" if "no_decimals (JObj P)"
  proof -
    have Q: "no_decimals (JObj (reread P))" using no_decimals_sorted [of "JObj P"] that by (simp only: sorted_json_obj)
    have member: "no_decimals (jget (reread P) k)" "no_decimals (JObj (as_obj (jget (reread P) k)))" for k
      using no_decimals_jget [OF Q] no_decimals_as_obj by blast+
    have inner: "no_decimals (jget (as_obj (jget (reread P) k)) k')" "no_decimals (JObj (as_obj (jget (as_obj (jget (reread P) k)) k')))" for k k'
      using no_decimals_jget [OF member(2)] no_decimals_as_obj by blast+
    have or: "no_decimals (json_or x y)" if "no_decimals x" "no_decimals y" for x y
      using that by (simp add: json_or_def)
    show ?thesis
      using b(7) no_decimals_report [OF b(2)]
      unfolding M no_decimals.simps list.pred_inject snd_conv list_all_append
      by (intro conjI or no_decimals_pick member inner) (simp_all add: list_all_iff)
  qed
  show ?thesis
    using b(2) plain leaves
    by (intro exI [of _ report] conjI exI [of _ ci])
       (simp_all add: M same sf sig paths members dist json_or_def attestation_payload_def del: no_decimals_obj no_decimals.simps(2))
qed

lemma uploaded_text: "strip ''uploaded-bundle'' \<noteq> []"
  by code_simp

lemma manifest_valid:
  assumes P: "P = build_provenance_payload env s r b (materialized_path env s ''manifest.json'') (provenance_name s @ ''.ssig'') cfg who now"
    and ok: "snapshot_ok s" and b: "bundle_ok b" and cfg: "signs_with_ssh cfg"
    and digests: "\<forall>x. strip (out_sha256 out x) \<noteq> []"
    and kind: "jget M ''kind'' = JStr ''skill-distribution-manifest''" "jget M ''schema_version'' = JInt 1"
    and skill: "jget M ''skill'' = pick skill_keys (reread (as_obj (jget P ''skill'')))"
    and snapshot: "jget M ''source_snapshot'' = sorted_json (jget P ''source_snapshot'')"
    and bnd: "jget M ''bundle'' = pick bundle_keys (reread (as_obj (jget (as_obj (jget P ''distribution'')) ''bundle'')))"
    and contexts: "jget M ''registry'' = sorted_json (jget P ''registry'')" "jget M ''dependencies'' = sorted_json (jget P ''dependencies'')"
    and att: "jget M ''attestation_bundle'' = JObj ([(''provenance_path'', JStr (''provenance/'' @ provenance_name s)),
        (''provenance_sha256'', JStr (out_sha256 out message)),
        (''signature_path'', JStr (''provenance/'' @ provenance_name s @ ''.ssig'')),
        (''signature_sha256'', JStr (out_sha256 out signature)), (''signer_identity'', JStr who),
        (''namespace'', sorted_json (acf_namespace cfg)), (''allowed_signers'', JStr (acf_allowed_signers cfg)),
        (''required_formats'', JList [JStr ''ssh''])] @ ci)"
  shows "validate_distribution_manifest (reread M) = Inr []"
proof -
  define f where "f = provenance_facts_of env s"
  note members = provenance_members [of env s r b "materialized_path env s ''manifest.json''" "provenance_name s @ ''.ssig''" cfg who now, folded P f_def]
  note texts = facts_text(1-5) [OF ok, of env, folded f_def] facts_text(6,7) [OF ok, of f]
  have "validate_manifest_skill (reread M) = []"
    using texts
    by (simp add: validate_manifest_skill_def skill pick_def skill_keys_def members skill_payload_def sorted_json_obj require_strings_def)
  moreover have "validate_manifest_snapshot (reread M) = []"
    using texts uploaded_text
    by (simp add: validate_manifest_snapshot_def snapshot members build_source_snapshot_def sorted_json_obj require_strings_def is_bool_def)
  moreover have "validate_manifest_bundle (reread M) = []"
    using b
    by (simp add: validate_manifest_bundle_def bnd pick_def bundle_keys_def members distribution_payload_def sorted_json_obj
          require_strings_def bundle_ok_def int_at_least_def)
  moreover have "validate_context (reread M) ''registry'' = []" "validate_context (reread M) ''dependencies'' = []"
    by (simp_all add: validate_context_def contexts members build_registry_payload_def dependencies_payload_def sorted_json_obj
          context_arrays_def is_list_def)
  moreover have "validate_attestation_bundle (reread M) = Inr []"
    using cfg digests
    by (simp add: validate_attestation_bundle_def att sorted_json_obj require_strings_def attestation_keys_def
          validate_formats_def one_of_def signs_with_ssh_def)
  ultimately show ?thesis
    by (simp add: validate_distribution_manifest_def kind json_eq_def)
qed

text \<open>What the documents are verified with: the configuration, the signer and the signature.\<close>

definition trusted_signature :: "host_env \<Rightarrow> att_config \<Rightarrow> string \<Rightarrow> string \<Rightarrow> string \<Rightarrow> disk \<Rightarrow> bool" where
  "trusted_signature env cfg who signature message d \<longleftrightarrow>
     (\<exists>allowed ls ns output. read_file d (acf_allowed_path cfg) = Some allowed \<and>
        signer_entries d (acf_allowed_path cfg) = Inr ls \<and> ls \<noteq> [] \<and> acf_namespace cfg = JStr ns \<and>
        out_ssh_verify (env_out env) allowed who ns signature message = (True, output))"

lemma documents_verify:
  assumes P: "P = build_provenance_payload env s r b (materialized_path env s ''manifest.json'') (provenance_name s @ ''.ssig'') cfg who now"
    and ok: "snapshot_ok s" and b: "bundle_ok b" "stb_sha256 b = out_sha256 (env_out env) (stb_data b)"
      "stb_path b = materialized_path env s ''skill.tar.gz''"
      "inspect_distribution_bundle (env_out env) JNull (stb_data b) = Inr report0" "stb_file_count b = length (brp_files report0)"
    and cfg: "attestation_config (env_repo env) (site_signing (env_site env)) = Inr cfg" "signs_with_ssh cfg" "strip who \<noteq> []"
    and git: "\<forall>args v. env_git env args = Some v \<longrightarrow> strip v \<noteq> []"
    and digests: "\<forall>x. strip (out_sha256 (env_out env) x) \<noteq> []"
    and message: "message = canonical_json_bytes (JObj P)"
    and decode: "out_decode (env_out env) message = Some (sorted_json (JObj P))"
      "out_decode (env_out env) (canonical_json_bytes (JObj M)) = Some (sorted_json (JObj M))"
    and built: "build_distribution_manifest_payload (env_out env) d0 (site_signing (env_site env)) (provenance_file env s)
        (release_file env s ''skill.tar.gz'') (env_artifacts env) (env_repo env) now = Inr M"
    and docs: "holds_documents env s b message signature d0" "holds_documents env s b message signature d"
    and manifest: "read_file d (release_file env s ''manifest.json'') = Some (canonical_json_bytes (JObj M))"
    and signature: "trusted_signature env cfg who signature message d"
    and no_log: "\<not> path_exists d (with_name (provenance_file env s) (name_stem (provenance_name s) @ ''.transparency.json''))"
  shows "\<exists>v. verify_distribution_manifest (env_out env) d (site_signing (env_site env))
     (under (env_artifacts env) (materialized_path env s ''manifest.json'')) (env_artifacts env) (env_repo env) = Inr v"
proof -
  define out where "out = env_out env"
  define root where "root = env_artifacts env"
  define mf where "mf = release_file env s ''manifest.json''"
  define bf where "bf = release_file env s ''skill.tar.gz''"
  define pf where "pf = provenance_file env s"
  define sf where "sf = signature_file env s"
  define pr where "pr = ''provenance/'' @ provenance_name s"
  define sr where "sr = ''provenance/'' @ provenance_name s @ ''.ssig''"
  have mf_under: "under root (materialized_path env s ''manifest.json'') = mf"
    by (simp add: root_def mf_def release_file_def materialized_under [OF ok component_literals(4)])
  note members = provenance_members [of env s r b "materialized_path env s ''manifest.json''" "provenance_name s @ ''.ssig''" cfg who now, folded P]
  obtain report ci where parts: "inspect_distribution_bundle out (JStr (stb_root_dir b)) (stb_data b) = Inr report"
     "jget M ''kind'' = JStr ''skill-distribution-manifest''" "jget M ''schema_version'' = JInt 1"
     "jget M ''skill'' = pick skill_keys (reread (as_obj (jget P ''skill'')))"
     "jget M ''source_snapshot'' = sorted_json (jget P ''source_snapshot'')"
     "jget M ''bundle'' = pick bundle_keys (reread (as_obj (jget (as_obj (jget P ''distribution'')) ''bundle'')))"
     "jget M ''file_manifest'' = JList (brp_files report)" "jget M ''build'' = brp_build report"
     "jget M ''registry'' = sorted_json (jget P ''registry'')" "jget M ''dependencies'' = sorted_json (jget P ''dependencies'')"
     "jget M ''attestation_bundle'' = JObj ([(''provenance_path'', JStr (pr)),
        (''provenance_sha256'', JStr (out_sha256 out message)),
        (''signature_path'', JStr (sr)),
        (''signature_sha256'', JStr (out_sha256 out signature)), (''signer_identity'', JStr who),
        (''namespace'', sorted_json (acf_namespace cfg)), (''allowed_signers'', JStr (acf_allowed_signers cfg)),
        (''required_formats'', JList [JStr ''ssh''])] @ ci)"
    using manifest_parts [OF P ok cfg(1,2) docs(1) decode(1) built] unfolding out_def pr_def sr_def by blast
  have "validate_distribution_manifest (reread M) = Inr []"
    by (rule manifest_valid [OF P ok b(1) cfg(2) digests [folded out_def] parts(2-6,9,10) parts(11) [unfolded pr_def sr_def]])
  then have loaded: "load_manifest out d mf = Inr (reread M)"
    using manifest decode(2)
    by (simp add: load_manifest_def load_object_def decode_file_def read_bytes_def mf_def out_def sorted_json_obj)
  have disk: "read_file d bf = Some (stb_data b)" "read_file d pf = Some message" "read_file d sf = Some signature"
    using docs(2) by (simp_all add: holds_documents_def bf_def pf_def sf_def)
  have refs: "under root (pr) = pf" "under root (sr) = sf"
    "under root (stb_path b) = bf"
    unfolding pr_def sr_def root_def pf_def sf_def bf_def provenance_file_def signature_file_def release_file_def b(3)
    by (simp_all only: provenance_under [OF provenance_name_component(1) [OF ok]]
          provenance_under [OF provenance_name_component(2) [OF ok]] materialized_under [OF ok component_literals(3)])
  have relative: "\<not> is_absolute pr" "\<not> is_absolute sr" "\<not> is_absolute (stb_path b)"
    by (simp_all add: pr_def sr_def is_absolute_def starts_with_def b(3) materialized_path_def release_dir_def)
  have found: "existing_ref d root mf label (JStr (pr)) = Inr pf"
      "existing_ref d root mf label (JStr (sr)) = Inr sf"
      "existing_ref d root mf label (JStr (stb_path b)) = Inr bf" for label
    using relative disk [THEN read_file_exists] by (simp_all add: existing_ref_def resolve_manifest_ref_def refs str_of_def)
  have provenance: "load_object out d pf = Inr (reread P)"
    using disk(2) decode(1) by (simp add: load_object_Inr out_def sorted_json_obj)
  have bnd: "as_obj (jget P ''distribution'') = [(''manifest_path'', JStr (materialized_path env s ''manifest.json'')),
       (''bundle'', JObj [(''path'', JStr (stb_path b)), (''format'', JStr ''tar.gz''), (''sha256'', JStr (stb_sha256 b)),
              (''size'', JInt (int (length (stb_data b)))), (''root_dir'', JStr (stb_root_dir b)),
              (''file_count'', JInt (int (stb_file_count b)))])]"
    by (simp add: members distribution_payload_def)
  let ?refs = "as_obj (jget (reread M) ''attestation_bundle'')" and ?signed = "as_obj (jget (reread M) ''bundle'')"
  have fields: "jget ?refs ''provenance_path'' = JStr (pr)"
      "jget ?refs ''provenance_sha256'' = JStr (out_sha256 out message)"
      "jget ?refs ''signature_path'' = JStr (sr)"
      "jget ?refs ''signature_sha256'' = JStr (out_sha256 out signature)" "jget ?refs ''required_formats'' = JList [JStr ''ssh'']"
      "jget ?signed ''path'' = JStr (stb_path b)" "jget ?signed ''sha256'' = JStr (stb_sha256 b)"
      "jget ?signed ''size'' = JInt (int (length (stb_data b)))"
    by (simp_all add: parts(6,11) pick_def bundle_keys_def bnd)
  note fields = fields [simplified]
  have artifacts: "verify_artifact_metadata out d (reread M) pf sf bf = Inr ()"
    by (simp add: verify_artifact_metadata_def check_digest_def sha256_file_def read_bytes_def disk fields b(2) out_def [symmetric] Let_def)
  obtain att where formats: "verify_attestation_formats out d (site_signing (env_site env)) mf (reread M) pf root (env_repo env) = Inr att"
  proof -
    from signature obtain allowed ls ns reply where trust: "read_file d (acf_allowed_path cfg) = Some allowed"
        "signer_entries d (acf_allowed_path cfg) = Inr ls" "ls \<noteq> []" "acf_namespace cfg = JStr ns"
        "out_ssh_verify out allowed who ns signature message = (True, reply)"
      by (auto simp: trusted_signature_def out_def)
    have "validate_provenance_payload (sorted_json (JObj P)) = Inr []"
    proof -
      have "strip (materialized_path env s ''manifest.json'') \<noteq> []" "strip (provenance_name s @ ''.ssig'') \<noteq> []"
        using ssig_text by (simp_all add: materialized_path_def release_dir_def)
      from provenance_valid [OF ok cfg(2) b(1) this cfg(3) git] show ?thesis by (simp add: P)
    qed
    from attestation_verifies [OF P this disk(2) decode(1) [folded out_def] _ ok cfg(1,2) trust(4,1-3) cfg(3), of root]
    obtain v where v: "verify_attestation out d (site_signing (env_site env)) pf None None None (env_repo env) = Inr v"
        "atd_formats v = [''ssh'']"
      using disk(3) trust(5) no_log
      by (auto simp: pf_def provenance_file_def sf_def signature_file_def root_def message canonical_as_text file_name_def)
    then show ?thesis
      using fields(5) by (intro that [of "v\<lparr>atd_formats := sort [''ssh'']\<rparr>"]) (simp add: verify_attestation_formats_def Let_def)
  qed
  have signed: "dict_or_empty (jget (reread P) ''distribution'') = Inr (reread (as_obj (jget P ''distribution'')))"
      "jget (reread (as_obj (jget P ''distribution''))) ''bundle'' = JObj (reread (as_obj (jget (as_obj (jget P ''distribution'')) ''bundle'')))"
      "jget (reread (as_obj (jget P ''distribution''))) ''file_manifest'' = JNull"
      "jget (reread (as_obj (jget P ''distribution''))) ''build'' = JNull"
      "reread (as_obj (jget (as_obj (jget P ''distribution'')) ''bundle'')) \<noteq> []"
      "jget (reread (as_obj (jget (as_obj (jget P ''distribution'')) ''bundle''))) ''root_dir'' = JStr (stb_root_dir b)"
    by (simp_all add: members distribution_payload_def dict_or_empty_def sorted_json_obj)
  have files: "brp_files report \<noteq> []"
    using inspected_entries(2) [OF parts(1)] inspected_entries(2) [OF b(4) [folded out_def]] b(1,5) by (auto simp: bundle_ok_def)
  have actual: "actual_bundle_metadata out (reread M) (reread (as_obj (jget P ''distribution''))) (JStr (stb_root_dir b)) (stb_data b) = Inr (Some report)"
    using files parts(1) by (simp add: actual_bundle_metadata_def parts(7))
  have core: "verify_signed_core_fields (reread M) (reread P) (reread (as_obj (jget (as_obj (jget P ''distribution'')) ''bundle''))) = Inr ()"
    by (simp add: verify_signed_core_fields_def core_fields_def parts(4-6) pick_def skill_keys_def bundle_keys_def bnd
          members skill_payload_def build_source_snapshot_def)
  obtain Q sd sb where Q: "Q = reread P" and sd: "sd = reread (as_obj (jget P ''distribution''))"
      and sb: "sb = reread (as_obj (jget (as_obj (jget P ''distribution'')) ''bundle''))" by blast
  have some: "jget sd ''bundle'' = JObj sb" "sb \<noteq> []" using signed(2,5) by (simp_all only: sd sb) simp
  then have whole: "truthy (jget sd ''bundle'')" "dict_or_empty (jget sd ''bundle'') = Inr sb" by (simp_all add: dict_or_empty_def)
  have members_of: "dict_or_empty (jget Q ''distribution'') = Inr sd" "jget sb ''root_dir'' = JStr (stb_root_dir b)"
      "jget sd ''file_manifest'' = JNull" "jget sd ''build'' = JNull"
    using signed by (simp_all only: Q sd sb)
  obtain N where N: "N = reread M" by blast
  have contexts: "json_eq (jget N ''registry'') (jget Q ''registry'')" "json_eq (jget N ''dependencies'') (jget Q ''dependencies'')"
    by (simp_all add: N Q parts(9,10))
  have listed: "verify_file_manifest (jget N ''file_manifest'') JNull (Some report) = Inr ()"
      "verify_build_metadata (jget N ''build'') JNull (Some report) = Inr ()"
    using files_verify [OF parts(1) files] build_verifies [OF parts(1)] by (simp_all add: N parts(7,8))
  have refs_found: "existing_ref d root mf label (jget (as_obj (jget N ''attestation_bundle'')) ''provenance_path'') = Inr pf"
      "existing_ref d root mf label (jget (as_obj (jget N ''attestation_bundle'')) ''signature_path'') = Inr sf"
      "existing_ref d root mf label (jget (as_obj (jget N ''bundle'')) ''path'') = Inr bf" for label
    using found by (simp_all add: N fields)
  note steps = loaded [folded N] refs_found artifacts [folded N] formats [folded N] provenance [folded Q] whole members_of contexts listed
    actual [folded N sd] core [folded N Q sb]
  have "read_bytes d bf = Inr (stb_data b)" using disk(1) by (simp add: read_bytes_def)
  then show ?thesis
    unfolding out_def [symmetric] root_def [symmetric] mf_under verify_distribution_manifest_def
    by (simp add: mf_under steps Let_def)
qed

section \<open>What the host is relied on for\<close>

text \<open>
  Git prints no blank values and digests are not blank; a document is read back as it was
  written; \<open>tarfile\<close> shows the server's validation and the client's inspection the same members
  of the same bytes; and \<open>ssh-keygen -Y verify\<close> accepts what \<open>ssh-keygen -Y sign\<close> wrote when the
  allowed-signers file gives the key to the identity.
\<close>

definition host_laws :: "host_env \<Rightarrow> bool" where
  "host_laws env \<longleftrightarrow>
     (\<forall>args v. env_git env args = Some v \<longrightarrow> strip v \<noteq> []) \<and>
     (\<forall>x. strip (out_sha256 (env_out env) x) \<noteq> []) \<and>
     (\<forall>j. no_decimals j \<longrightarrow> out_decode (env_out env) (canonical_json_bytes j) = Some (sorted_json j)) \<and>
     (\<forall>raw a ms. lib_open (env_lib env) raw = Some a \<longrightarrow> out_members (env_out env) raw = Some ms \<longrightarrow>
        map bmb_name ms = map tar_name (arc_members a) \<and>
        map bmb_isfile ms = map (\<lambda>m. tar_kind m = TarFile) (arc_members a)) \<and>
     (\<forall>disk m e c. env_compatibility env disk m e = Inr c \<longrightarrow> no_decimals (JObj c))"

definition signing_law :: "host_env \<Rightarrow> bool" where
  "signing_law env \<longleftrightarrow>
     (\<forall>d p allowed entries key public_key who ns message signature.
        read_file d p = Some allowed \<longrightarrow> parse_allowed_signers d p = Inr entries \<longrightarrow>
        public_key_from_key_path env d key = Inr public_key \<longrightarrow> who \<in> set (signer_identities_for_key entries public_key) \<longrightarrow>
        env_sign env key ns message = Inr (Some signature) \<longrightarrow>
        fst (out_ssh_verify (env_out env) allowed who ns signature message))"

lemma loaded_bundle:
  assumes load: "load_bundle env s d disk = Inr b" and laws: "host_laws env" and ok: "snapshot_ok s"
  shows "bundle_ok b" "stb_sha256 b = out_sha256 (env_out env) (stb_data b)"
    "stb_path b = materialized_path env s ''skill.tar.gz''"
    "\<exists>report. inspect_distribution_bundle (env_out env) JNull (stb_data b) = Inr report \<and> stb_file_count b = length (brp_files report)"
proof -
  obtain v where content: "skill_content_bundle_data env (snapshot_content_id s) d disk = Inr (stb_data b, stb_file_count b, stb_root_dir b)"
    and canonical: "canonicalize_skill_bundle (env_lib env) (skl_slug (snp_skill s)) (stb_data b) = Inr v"
    and fields: "stb_sha256 b = out_sha256 (env_out env) (stb_data b)" "stb_path b = materialized_path env s ''skill.tar.gz''"
    using load by (auto simp: load_bundle_def res_simps from_service_def)
  show "stb_sha256 b = out_sha256 (env_out env) (stb_data b)" "stb_path b = materialized_path env s ''skill.tar.gz''"
    by (rule fields)+
  obtain p report where report: "inspect_distribution_bundle (env_out env) JNull (stb_data b) = Inr report"
      "stb_file_count b = length (brp_files report)" "bundle_root_dir (env_out env) p (stb_data b) = Inr (stb_root_dir b)"
    using content by (auto simp: skill_content_bundle_data_def res_simps from_client_def)
  then show "\<exists>report. inspect_distribution_bundle (env_out env) JNull (stb_data b) = Inr report \<and> stb_file_count b = length (brp_files report)"
    by blast
  obtain t where "extract_validated_bundle (lib_open (env_lib env)) (skl_slug (snp_skill s)) (stb_data b) = Inr t"
    using canonical by (auto simp: canonicalize_skill_bundle_def res_simps)
  then obtain a x where a: "lib_open (env_lib env) (stb_data b) = Some a" "ext_files x \<noteq> 0"
      "fold_res (extract_member (skl_slug (snp_skill s))) (arc_members a) no_extraction = Inr x"
    unfolding extract_Inr by blast
  have e: "extracted (skl_slug (snp_skill s)) (arc_members a) x" by (rule extraction_history [OF a(3)])
  obtain ms where ms: "out_members (env_out env) (stb_data b) = Some ms" "length (brp_files report) = length (filter bmb_isfile ms)"
    using inspected_entries(2) [OF report(1)] by blast
  have agree: "map bmb_name ms = map tar_name (arc_members a)" "map bmb_isfile ms = map (\<lambda>m. tar_kind m = TarFile) (arc_members a)"
    using laws a(1) ms(1) by (auto simp: host_laws_def)
  have count: "length (filter f xs) = length (filter id (map f xs))" for f :: "'x \<Rightarrow> bool" and xs
    by (induction xs) simp_all
  have "ext_files x = length (filter (\<lambda>m. tar_kind m = TarFile) (arc_members a))"
    using e by (simp add: extracted_def file_members_def)
  moreover have "length (filter bmb_isfile ms) = length (filter (\<lambda>m. tar_kind m = TarFile) (arc_members a))"
    by (simp only: count [of bmb_isfile ms] count [of "\<lambda>m. tar_kind m = TarFile" "arc_members a"] agree(2))
  ultimately have "0 < stb_file_count b" using a(2) report(2) ms(2) by simp
  moreover have "stb_root_dir b = skl_slug (snp_skill s)"
  proof -
    have "find (\<lambda>parts. parts \<noteq> []) (map (\<lambda>m. pure_parts (bmb_name m)) ms) = find (\<lambda>parts. parts \<noteq> []) (map pure_parts (map bmb_name ms))"
      by (simp add: comp_def)
    also have "\<dots> = find (\<lambda>parts. parts \<noteq> []) (map (\<lambda>m. pure_parts (tar_name m)) (arc_members a))"
      by (simp add: agree(1) comp_def)
    finally have "find (\<lambda>parts. parts \<noteq> []) (map (\<lambda>m. pure_parts (tar_name m)) (arc_members a)) \<noteq> None \<and>
        stb_root_dir b = hd (the (find (\<lambda>parts. parts \<noteq> []) (map (\<lambda>m. pure_parts (tar_name m)) (arc_members a))))"
      using report(3) ms(1) by (auto simp: bundle_root_dir_def res_simps from_client_def)
    moreover have "hd (pure_parts (tar_name m)) = skl_slug (snp_skill s)" if "m \<in> set (arc_members a)" for m
      using e that by (auto simp: extracted_def member_ok_def good_path_def member_path_def path_parts_def pure_parts_def is_absolute_def)
    moreover have "z \<in> set xs" if "find f xs = Some z" for z :: "string list" and xs f
      using that by (auto simp: find_Some_iff)
    ultimately show ?thesis by fastforce
  qed
  moreover have "strip (stb_sha256 b) \<noteq> []" using laws fields(1) by (simp add: host_laws_def)
  moreover have "strip (stb_path b) \<noteq> []" by (simp add: fields(2) materialized_path_def release_dir_def)
  ultimately show "bundle_ok b" using ok by (simp add: bundle_ok_def snapshot_ok_def path_word_def)
qed

lemma provenance_no_decimals:
  assumes "signs_with_ssh cfg" and "acf_namespace cfg = JStr ns" and "rel_compatibility_json r = json_dumps (JObj c)" and "no_decimals (JObj c)"
  shows "no_decimals (JObj (build_provenance_payload env s r b mp sig cfg who now))"
proof -
  have git: "no_decimals (git_value env args)" for args by (simp add: git_value_def jopt_def split: option.splits)
  have parts: "no_decimals (gtx_url (pvf_git (provenance_facts_of env s)))" "no_decimals (gtx_branch (pvf_git (provenance_facts_of env s)))"
      "no_decimals (gtx_upstream (pvf_git (provenance_facts_of env s)))" "no_decimals (gtx_head (pvf_git (provenance_facts_of env s)))"
    by (simp_all add: provenance_facts_of_def extract_git_context_def git)
  have "no_decimals (jopt JStr x)" for x by (simp add: jopt_def split: option.splits)
  moreover have "no_decimals (acf_policy_mode cfg)" "no_decimals (acf_format cfg)" "no_decimals (acf_signature_ext cfg)"
    using assms(1) by (auto simp: signs_with_ssh_def)
  ultimately show ?thesis
    using parts assms(2-4)
    by (simp add: build_provenance_payload_def Let_def provenance_parts build_dependency_step_def json_or_def list_all_iff
          del: no_decimals_obj)
qed
end
