(* ===== verification/Materialized.thy ===== *)
theory Materialized
  imports ReleaseDocuments
begin

text \<open>
  A materialization that succeeds leaves a release that is materialized: its rows name the files
  it wrote, the manifest passes the client's verification, and materializing the release again
  finds it current and changes nothing.
\<close>

section \<open>Steps that succeed\<close>

lemma step_Inr:
  "step_bind m f s = (Inr y, t) \<longleftrightarrow> (\<exists>x u. m s = (Inr x, u) \<and> f x u = (Inr y, t))"
  "step_return x s = (Inr x', t) \<longleftrightarrow> x' = x \<and> t = s"
  "reading g s = (Inr x', t) \<longleftrightarrow> g (hs_db s) (hs_disk s) = Inr x' \<and> t = s"
  "on_disk h s = (Inr u, t) \<longleftrightarrow> (\<exists>d. h (hs_disk s) = Inr d \<and> t = s\<lparr>hs_disk := d\<rparr>)"
  "on_rows k s = (Inr z, t) \<longleftrightarrow> (\<exists>d. k (hs_db s) = Inr (z, d) \<and> t = s\<lparr>hs_db := d\<rparr>)"
  by (auto simp: step_bind_def step_return_def reading_def on_disk_def on_rows_def split: prod.splits sum.splits)

text \<open>A heartbeat that touches no file and no row but those of the job queue.\<close>

definition release_rows :: "db \<Rightarrow> release list \<times> skill_version list \<times> skill list \<times> principal list \<times> artifact list \<times> skill_content list" where
  "release_rows d = (db_releases d, db_versions d, db_skills d, db_principals d, db_artifacts d, db_contents d)"

definition quiet :: "unit step \<Rightarrow> bool" where
  "quiet beat \<longleftrightarrow> (\<forall>s. hs_disk (snd (beat s)) = hs_disk s \<and> release_rows (hs_db (snd (beat s))) = release_rows (hs_db s))"

lemma quiet_beat:
  assumes "quiet beat" and "beat s = (x, t)"
  shows "hs_disk t = hs_disk s" "db_releases (hs_db t) = db_releases (hs_db s)" "db_versions (hs_db t) = db_versions (hs_db s)"
    "db_skills (hs_db t) = db_skills (hs_db s)" "db_principals (hs_db t) = db_principals (hs_db s)"
    "db_artifacts (hs_db t) = db_artifacts (hs_db s)" "db_contents (hs_db t) = db_contents (hs_db s)"
  using assms by (auto simp: quiet_def release_rows_def dest: spec [of _ s])

section \<open>Artifact rows\<close>

definition row_saved :: "host_env \<Rightarrow> id \<Rightarrow> string \<Rightarrow> string \<Rightarrow> id \<Rightarrow> artifact list \<Rightarrow> bool" where
  "row_saved env release_id kind data i arts \<longleftrightarrow>
     (\<exists>a. row_get art_id arts i = Some a \<and> art_release_id a = Some release_id \<and> art_kind a = kind \<and>
        art_sha256 a = out_sha256 (env_out env) data \<and> art_size_bytes a = int (length data))"

lemma upsert_frame:
  assumes "upsert_artifact release_id kind path sha n d = (a, d')"
  shows "db_releases d' = db_releases d" "db_versions d' = db_versions d" "db_skills d' = db_skills d"
    "db_principals d' = db_principals d" "rows_ok art_id (db_artifacts d) \<Longrightarrow> rows_ok art_id (db_artifacts d')"
  using assms by (auto simp: upsert_artifact_def Let_def intro!: rows_ok_insert split: option.splits)

lemma upsert_row:
  assumes "upsert_artifact release_id kind path sha n d = (a, d')" and "rows_ok art_id (db_artifacts d)"
  shows "row_get art_id (db_artifacts d') (art_id a) = Some a" "art_release_id a = Some release_id" "art_kind a = kind"
    "art_sha256 a = sha" "art_size_bytes a = n"
    and "row_get art_id (db_artifacts d) i = Some b \<Longrightarrow> art_kind b \<noteq> kind \<Longrightarrow> row_get art_id (db_artifacts d') i = Some b"
proof -
  note u = assms(1) [unfolded upsert_artifact_def Let_def]
  have "row_get art_id (db_artifacts d') (art_id a) = Some a \<and> art_release_id a = Some release_id \<and> art_kind a = kind \<and>
      art_sha256 a = sha \<and> art_size_bytes a = n \<and>
      (row_get art_id (db_artifacts d) i = Some b \<longrightarrow> art_kind b \<noteq> kind \<longrightarrow> row_get art_id (db_artifacts d') i = Some b)"
  proof (cases "last_where art_id (\<lambda>a. art_release_id a = Some release_id \<and> art_kind a = kind) (db_artifacts d)")
    case None
    then show ?thesis using u by (auto simp: row_simps)
  next
    case (Some a0)
    from last_where_Some [OF Some] have "row_get art_id (db_artifacts d) (art_id a0) = Some a0" "art_release_id a0 = Some release_id" "art_kind a0 = kind"
      using row_get_unique [OF assms(2)] by auto
    then show ?thesis using u Some by (auto simp: row_simps)
  qed
  then show "row_get art_id (db_artifacts d') (art_id a) = Some a" "art_release_id a = Some release_id" "art_kind a = kind"
    "art_sha256 a = sha" "art_size_bytes a = n"
    and "row_get art_id (db_artifacts d) i = Some b \<Longrightarrow> art_kind b \<noteq> kind \<Longrightarrow> row_get art_id (db_artifacts d') i = Some b"
    by blast+
qed

lemma upsert_saves:
  assumes "upsert_artifact release_id kind path (out_sha256 (env_out env) data) (int (length data)) d = (a, d')"
    and "rows_ok art_id (db_artifacts d)"
  shows "row_saved env release_id kind data (art_id a) (db_artifacts d')"
    and "row_saved env release_id' kind' data' i (db_artifacts d) \<Longrightarrow> kind' \<noteq> kind \<Longrightarrow> row_saved env release_id' kind' data' i (db_artifacts d')"
  using upsert_row [OF assms] by (auto simp: row_saved_def)

text \<open>The row is the one the release's rows have under its key.\<close>

lemma saved_found:
  assumes "row_saved env release_id kind data i (db_artifacts d)" and "rows_ok art_id (db_artifacts d)"
  shows "\<exists>a. find (\<lambda>a. art_id a = i) (rev (get_artifacts_for_release release_id d)) = Some a \<and> art_kind a = kind \<and>
     art_sha256 a = out_sha256 (env_out env) data \<and> art_size_bytes a = int (length data) \<and> a \<in> set (get_artifacts_for_release release_id d)"
proof -
  from assms(1) obtain a where a: "row_get art_id (db_artifacts d) i = Some a" "art_release_id a = Some release_id" "art_kind a = kind"
      "art_sha256 a = out_sha256 (env_out env) data" "art_size_bytes a = int (length data)"
    by (auto simp: row_saved_def)
  have there: "a \<in> set (get_artifacts_for_release release_id d)" "art_id a = i"
    using row_get_Some [OF a(1)] a(2) by (auto simp: get_artifacts_for_release_def)
  then obtain b where b: "find (\<lambda>a. art_id a = i) (rev (get_artifacts_for_release release_id d)) = Some b"
    by (metis (mono_tags) find_None_iff option.exhaust set_rev)
  then have "b \<in> set (rev (get_artifacts_for_release release_id d))" "art_id b = i"
    by (metis find_Some_iff nth_mem) (metis (mono_tags, lifting) b find_Some_iff)
  then have "b = a"
    using row_get_unique [OF assms(2), of b] a(1) by (simp add: get_artifacts_for_release_def)
  then show ?thesis using a b there by simp
qed

lemma four_rows:
  assumes "row_saved env release_id ''bundle'' x1 i1 (db_artifacts d)" "row_saved env release_id ''manifest'' x2 i2 (db_artifacts d)"
    "row_saved env release_id ''provenance'' x3 i3 (db_artifacts d)" "row_saved env release_id ''signature'' x4 i4 (db_artifacts d)"
    and ok: "rows_ok art_id (db_artifacts d)"
  shows "4 \<le> length (get_artifacts_for_release release_id d)"
proof -
  let ?kinds = "[''bundle'', ''manifest'', ''provenance'', ''signature'']"
  have kind: "k \<in> art_kind ` set (get_artifacts_for_release release_id d)" if "row_saved env release_id k x i (db_artifacts d)" for k x i
    using saved_found [OF that ok] by blast
  have "set ?kinds \<subseteq> art_kind ` set (get_artifacts_for_release release_id d)"
    unfolding list.set insert_subset using assms(1-4) [THEN kind] by blast
  then have "card (set ?kinds) \<le> card (art_kind ` set (get_artifacts_for_release release_id d))" by (intro card_mono) simp_all
  also have "\<dots> \<le> length (get_artifacts_for_release release_id d)"
    using card_image_le [of "set (get_artifacts_for_release release_id d)" art_kind] card_length [of "get_artifacts_for_release release_id d"] by simp
  finally show ?thesis by simp
qed

section \<open>The history of a materialization\<close>

definition ready_release :: "release \<Rightarrow> id \<Rightarrow> id \<Rightarrow> id \<Rightarrow> id \<Rightarrow> time \<Rightarrow> release" where
  "ready_release r manifest_id bundle_id signature_id provenance_id now =
     r\<lparr>rel_state := RelReady, rel_manifest_artifact := Some manifest_id, rel_bundle_artifact := Some bundle_id,
       rel_signature_artifact := Some signature_id, rel_provenance_artifact := Some provenance_id, rel_ready_at := Some now\<rparr>"

definition with_compatibility :: "release \<Rightarrow> (string \<times> json) list \<Rightarrow> release" where
  "with_compatibility r c = r\<lparr>rel_compatibility_json := json_dumps (JObj c)\<rparr>"

text \<open>The files, written one after the other from \<open>d0\<close> to \<open>d4\<close>.\<close>

definition files_written ::
    "host_env \<Rightarrow> release_snapshot \<Rightarrow> time \<Rightarrow> disk \<Rightarrow> stored_bundle \<Rightarrow> (string \<times> json) list \<Rightarrow> stored_provenance \<Rightarrow>
     string \<Rightarrow> disk \<Rightarrow> disk \<Rightarrow> disk \<Rightarrow> disk \<Rightarrow> bool" where
  "files_written env s now d0 b c p manifest d1 d2 d3 d4 \<longleftrightarrow>
     put_artifact env (stb_data b) (stb_path b) d0 = Inr d1 \<and>
     env_compatibility env d1 (stb_metadata b) (openclaw_runtime_evidence s b now) = Inr c \<and>
     make_provenance env s (with_compatibility (snp_release s) c) b now d1 = Inr p \<and>
     put_artifact env (stp_bytes p) (stp_path p) d1 = Inr d2 \<and>
     put_artifact env (stp_signature p) (stp_signature_path p) d2 = Inr d3 \<and>
     make_manifest env s b p now d3 = Inr manifest \<and>
     put_artifact env manifest (materialized_path env s ''manifest.json'') d3 = Inr d4"

definition rows_written ::
    "host_env \<Rightarrow> id \<Rightarrow> stored_bundle \<Rightarrow> stored_provenance \<Rightarrow> string \<Rightarrow> release \<Rightarrow> db \<Rightarrow> bool" where
  "rows_written env release_id b p manifest r d \<longleftrightarrow>
     rows_ok art_id (db_artifacts d) \<and>
     rel_state r = RelReady \<and>
     (\<exists>bi mi pi si. rel_bundle_artifact r = Some bi \<and> rel_manifest_artifact r = Some mi \<and>
       rel_provenance_artifact r = Some pi \<and> rel_signature_artifact r = Some si \<and>
       row_saved env release_id ''bundle'' (stb_data b) bi (db_artifacts d) \<and>
       row_saved env release_id ''manifest'' manifest mi (db_artifacts d) \<and>
       row_saved env release_id ''provenance'' (stp_bytes p) pi (db_artifacts d) \<and>
       row_saved env release_id ''signature'' (stp_signature p) si (db_artifacts d))"

lemma snapshot_after:
  assumes snap: "get_release_snapshot i d = Inr s"
    and r: "rel_id r = i" "rel_version_id r = rel_version_id (snp_release s)"
    and d': "row_get rel_id (db_releases d') i = Some r" "db_versions d' = db_versions d" "db_skills d' = db_skills d" "db_principals d' = db_principals d"
  shows "get_release_snapshot i d' = Inr (s\<lparr>snp_release := r\<rparr>)"
  using snap r d'
  by (auto simp: get_release_snapshot_def res_simps get_release_or_404_def get_skill_version_or_404_def get_skill_or_404_def get_namespace_or_404_def)

lemma snapshot_release: "get_release_snapshot i d = Inr s \<Longrightarrow> row_get rel_id (db_releases d) i = Some (snp_release s)"
  by (auto simp: get_release_snapshot_def res_simps get_release_or_404_def)

lemma rematerialize_history:
  assumes run: "rematerialize env beat s now st = (Inr (r, arts), t)" and q: "quiet beat"
    and ok: "rows_ok art_id (db_artifacts (hs_db st))" and snap: "get_release_snapshot release_id (hs_db st) = Inr s"
  shows "\<exists>d b c p manifest d1 d2 d3. load_bundle env s d (hs_disk st) = Inr b \<and>
     files_written env s now (hs_disk st) b c p manifest d1 d2 d3 (hs_disk t) \<and>
     rows_written env release_id b p manifest r (hs_db t) \<and> rel_id r = release_id \<and>
     rel_version_id r = rel_version_id (snp_release s) \<and> arts = get_artifacts_for_release release_id (hs_db t) \<and>
     get_release_snapshot release_id (hs_db t) = Inr (s\<lparr>snp_release := r\<rparr>)"
proof -
  have rid: "rel_id (snp_release s) = release_id" using row_get_Some [OF snapshot_release [OF snap]] by simp
  from run obtain u1 b u2 u3 r1 u4 p u5 u6 manifest u7 u8 bundle_row u9 manifest_row u10 provenance_row u11 signature_row u12 marked u13 where
    b1: "beat st = (Inr (), u1)" and stored: "build_and_store_bundle env s u1 = (Inr b, u2)" and b2: "beat u2 = (Inr (), u3)" and
    compat: "persist_platform_compatibility env (snp_release s) b (openclaw_runtime_evidence s b now) u3 = (Inr r1, u4)" and
    prov: "build_and_store_provenance env s r1 b now u4 = (Inr p, u5)" and b3: "beat u5 = (Inr (), u6)" and
    man: "build_and_store_manifest env s b p now u6 = (Inr manifest, u7)" and b4: "beat u7 = (Inr (), u8)" and
    up1: "upsert_data env (rel_id r1) ''bundle'' (stb_path b) (stb_data b) u8 = (Inr bundle_row, u9)" and
    up2: "upsert_data env (rel_id r1) ''manifest'' (materialized_path env s ''manifest.json'') manifest u9 = (Inr manifest_row, u10)" and
    up3: "upsert_data env (rel_id r1) ''provenance'' (stp_path p) (stp_bytes p) u10 = (Inr provenance_row, u11)" and
    up4: "upsert_data env (rel_id r1) ''signature'' (stp_signature_path p) (stp_signature p) u11 = (Inr signature_row, u12)" and
    mark: "on_rows (mark_release_ready r1 (art_id manifest_row) (art_id bundle_row) (art_id signature_row) (art_id provenance_row) now) u12 =
       (Inr marked, u13)" and
    last: "reading (\<lambda>d _. rbind (from_service (get_release_or_404 (rel_id r1) d)) (\<lambda>r'.
       Inr (r', get_artifacts_for_release (rel_id r1) d))) u13 = (Inr (r, arts), t)"
    unfolding rematerialize_def step_Inr(1) by (elim exE conjE) simp
  note q1 = quiet_beat [OF q b1] and q2 = quiet_beat [OF q b2] and q3 = quiet_beat [OF q b3] and q4 = quiet_beat [OF q b4]
  from stored have s1: "load_bundle env s (hs_db u1) (hs_disk u1) = Inr b" "put_artifact env (stb_data b) (stb_path b) (hs_disk u1) = Inr (hs_disk u2)"
      "hs_db u2 = hs_db u1"
    by (auto simp: build_and_store_bundle_def step_Inr)
  from compat obtain c where s2: "env_compatibility env (hs_disk u3) (stb_metadata b) (openclaw_runtime_evidence s b now) = Inr c"
      "r1 = with_compatibility (snp_release s) c" "hs_db u4 = put_release r1 (hs_db u3)" "hs_disk u4 = hs_disk u3"
    by (auto simp: persist_platform_compatibility_def step_Inr from_client_def with_compatibility_def Let_def split: sum.splits)
  from prov have s3: "make_provenance env s r1 b now (hs_disk u4) = Inr p"
      "\<exists>d2. put_artifact env (stp_bytes p) (stp_path p) (hs_disk u4) = Inr d2 \<and>
         put_artifact env (stp_signature p) (stp_signature_path p) d2 = Inr (hs_disk u5)" "hs_db u5 = hs_db u4"
    by (auto simp: build_and_store_provenance_def step_Inr)
  from man have s4: "make_manifest env s b p now (hs_disk u6) = Inr manifest"
      "put_artifact env manifest (materialized_path env s ''manifest.json'') (hs_disk u6) = Inr (hs_disk u7)" "hs_db u7 = hs_db u6"
    by (auto simp: build_and_store_manifest_def step_Inr)
  have r1: "rel_id r1 = release_id" "rel_version_id r1 = rel_version_id (snp_release s)" by (simp_all add: s2(2) with_compatibility_def rid)
  have ups: "upsert_artifact release_id ''bundle'' (stb_path b) (out_sha256 (env_out env) (stb_data b)) (int (length (stb_data b))) (hs_db u8) =
        (bundle_row, hs_db u9)"
      "upsert_artifact release_id ''manifest'' (materialized_path env s ''manifest.json'') (out_sha256 (env_out env) manifest) (int (length manifest)) (hs_db u9) =
        (manifest_row, hs_db u10)"
      "upsert_artifact release_id ''provenance'' (stp_path p) (out_sha256 (env_out env) (stp_bytes p)) (int (length (stp_bytes p))) (hs_db u10) =
        (provenance_row, hs_db u11)"
      "upsert_artifact release_id ''signature'' (stp_signature_path p) (out_sha256 (env_out env) (stp_signature p)) (int (length (stp_signature p))) (hs_db u11) =
        (signature_row, hs_db u12)"
      "hs_disk u12 = hs_disk u8"
    using up1 up2 up3 up4 by (auto simp: upsert_data_def step_Inr r1)
  define r2 where "r2 = ready_release r1 (art_id manifest_row) (art_id bundle_row) (art_id signature_row) (art_id provenance_row) now"
  have r2: "rel_id r2 = release_id" "rel_version_id r2 = rel_version_id (snp_release s)" by (simp_all add: r2_def ready_release_def r1)
  from mark obtain d where d: "mark_release_ready r1 (art_id manifest_row) (art_id bundle_row) (art_id signature_row) (art_id provenance_row) now (hs_db u12) =
       Inr (marked, d)" "u13 = u12\<lparr>hs_db := d\<rparr>"
    by (auto simp: step_Inr)
  have marked: "db_releases d = row_set rel_id r2 (db_releases (hs_db u12))" "db_versions d = db_versions (hs_db u12)"
      "db_skills d = db_skills (hs_db u12)" "db_principals d = db_principals (hs_db u12)" "db_artifacts d = db_artifacts (hs_db u12)"
    using d(1) by (auto simp: mark_release_ready_def res_simps put_release_def Let_def r2_def ready_release_def)
  have t: "hs_db t = d" "hs_disk t = hs_disk u8" "row_get rel_id (db_releases d) release_id = Some r" "arts = get_artifacts_for_release release_id d"
    using last d(2) ups(5) by (auto simp: step_Inr res_simps from_service_def get_release_or_404_def r1 split: sum.splits)
  note frames = upsert_frame [OF ups(1)] upsert_frame [OF ups(2)] upsert_frame [OF ups(3)] upsert_frame [OF ups(4)]
  have "row_get rel_id (db_releases d) release_id = Some r2"
    using snapshot_release [OF snap]
    by (simp add: marked frames q1 q2 q3 q4 s1(3) s2(3) s3(3) s4(3) put_release_def row_simps r1 r2)
  then have r: "r = r2" using t(3) by simp
  have a8: "rows_ok art_id (db_artifacts (hs_db u8))"
    using ok by (simp add: q1 q2 q3 q4 s1(3) s2(3) s3(3) s4(3) put_release_def)
  note a9 = frames(5) [OF a8] note a10 = frames(10) [OF a9] note a11 = frames(15) [OF a10] note a12 = frames(20) [OF a11]
  note saves = upsert_saves [OF ups(1) a8] upsert_saves [OF ups(2) a9] upsert_saves [OF ups(3) a10] upsert_saves [OF ups(4) a11]
  have rows: "rows_written env release_id b p manifest r (hs_db t)"
    unfolding rows_written_def t(1) marked
    using a12 saves(7) saves(5) [THEN saves(8)] saves(3) [THEN saves(6), THEN saves(8)] saves(1) [THEN saves(4), THEN saves(6), THEN saves(8)]
    by (simp add: r r2_def ready_release_def)
  have snap': "get_release_snapshot release_id (hs_db t) = Inr (s\<lparr>snp_release := r\<rparr>)"
    by (rule snapshot_after [OF snap _ _ t(3) [folded t(1)]])
      (simp_all add: r r2 t(1) marked frames q1 q2 q3 q4 s1(3) s2(3) s3(3) s4(3) put_release_def)
  from s3(2) obtain d2 where d2: "put_artifact env (stp_bytes p) (stp_path p) (hs_disk u4) = Inr d2"
      "put_artifact env (stp_signature p) (stp_signature_path p) d2 = Inr (hs_disk u5)" by blast
  have "files_written env s now (hs_disk st) b c p manifest (hs_disk u2) d2 (hs_disk u5) (hs_disk t)"
    unfolding files_written_def using s1 s2 s3 s4 d2 q1(1) q2(1) q3(1) q4(1) t(2) by simp
  then show ?thesis
    using s1(1) q1(1) rows snap' r r2 t by (metis (no_types))
qed

section \<open>The files of a materialization\<close>

lemma provenance_companion:
  assumes "snapshot_ok s"
  shows "\<exists>x. provenance_name s = x @ ''.json'' \<and> name_stem (provenance_name s) = x"
proof -
  let ?x = "prn_slug (snp_namespace s) @ ''--'' @ skl_slug (snp_skill s) @ ''-'' @ ver_version (snp_version s)"
  have n: "provenance_name s = ?x @ ''.json''" by (simp add: provenance_name_def provenance_basename_def)
  have "name_stem (x @ ''.json'') = x" if "x \<noteq> []" for x
    using that by (simp add: name_stem_def name_suffix_def Let_def)
  from this [of ?x] n show ?thesis by (metis append_is_Nil_conv list.distinct(1))
qed

lemma written_documents:
  assumes files: "files_written env s now d0 b c p manifest d1 d2 d3 d4" and ok: "snapshot_ok s"
    and paths: "stb_path b = materialized_path env s ''skill.tar.gz''" "stp_path p = ''provenance/'' @ provenance_name s"
      "stp_signature_path p = ''provenance/'' @ provenance_name s @ ''.ssig''"
  shows "holds_documents env s b (stp_bytes p) (stp_signature p) d3" "holds_documents env s b (stp_bytes p) (stp_signature p) d4"
    "read_file d4 (release_file env s ''manifest.json'') = Some manifest"
    "\<not> is_relative_to q (env_artifacts env) \<Longrightarrow> read_file d4 q = read_file d1 q"
    "\<not> path_exists d0 (with_name (provenance_file env s) (name_stem (provenance_name s) @ ''.transparency.json'')) \<Longrightarrow>
     \<not> path_exists d4 (with_name (provenance_file env s) (name_stem (provenance_name s) @ ''.transparency.json''))"
proof -
  note u = provenance_under [OF provenance_name_component(1) [OF ok]] provenance_under [OF provenance_name_component(2) [OF ok]]
    materialized_under [OF ok component_literals(3)] materialized_under [OF ok component_literals(4)]
  note w = files [unfolded files_written_def]
  have read: "read_file d1 q = (if q = release_file env s ''skill.tar.gz'' \<or> q = object_path env (stb_data b) then Some (stb_data b) else read_file d0 q)"
     "read_file d2 q = (if q = provenance_file env s \<or> q = object_path env (stp_bytes p) then Some (stp_bytes p) else read_file d1 q)"
     "read_file d3 q = (if q = signature_file env s \<or> q = object_path env (stp_signature p) then Some (stp_signature p) else read_file d2 q)"
     "read_file d4 q = (if q = release_file env s ''manifest.json'' \<or> q = object_path env manifest then Some manifest else read_file d3 q)" for q
    unfolding release_file_def provenance_file_def signature_file_def
    by (rule put_artifact_Inr(1) [of _ _ "stb_path b", unfolded paths u] put_artifact_Inr(1) [of _ _ "stp_path p", unfolded paths u]
          put_artifact_Inr(1) [of _ _ "stp_signature_path p", unfolded paths u] put_artifact_Inr(1) [of _ _ "materialized_path env s ''manifest.json''", unfolded u],
        use w paths in \<open>simp only:\<close>)+
  note places = release_file_def provenance_file_def signature_file_def object_path_def
  obtain x where x: "provenance_name s = x @ ''.json''" "name_stem (provenance_name s) = x" using provenance_companion [OF ok] by blast
  let ?log = "with_name (provenance_file env s) (x @ ''.transparency.json'')"
  let ?places = "{release_file env s ''skill.tar.gz'', release_file env s ''manifest.json'', provenance_file env s, signature_file env s}"
  have apart: "distinct [release_file env s ''skill.tar.gz'', release_file env s ''manifest.json'', provenance_file env s, signature_file env s]"
    by (simp add: places)
  have object: "q \<noteq> object_path env y" if "q \<in> ?places" for q y
    using that by (auto simp: places)
  have below: "is_relative_to q (env_artifacts env)" if "q \<in> ?places \<or> q = object_path env y" for q y
    using that by (auto simp: places is_relative_to_def)
  have other: "\<not> is_relative_to q ?log" if "q \<in> ?places \<or> q = object_path env y" for q y
    using that by (elim disjE insertE emptyE) (simp_all add: places x(1) with_name_def is_relative_to_def butlast_append)
  have kept: "read_file d4 q = read_file d1 q" "read_file d4 q = read_file d0 q" if "\<And>y. \<not> (q \<in> ?places \<or> q = object_path env y)" for q
    using that by (simp_all add: read)
  show "holds_documents env s b (stp_bytes p) (stp_signature p) d3" "holds_documents env s b (stp_bytes p) (stp_signature p) d4"
      "read_file d4 (release_file env s ''manifest.json'') = Some manifest"
    using apart object [OF insertI1] object [OF insertI2 [OF insertI1]] object [OF insertI2 [OF insertI2 [OF insertI1]]]
      object [OF insertI2 [OF insertI2 [OF insertI2 [OF insertI1]]]] unfolding holds_documents_def read by auto
  show "read_file d4 q = read_file d1 q" if "\<not> is_relative_to q (env_artifacts env)"
    using that kept(1) [of q] below [of q] by blast
  show "\<not> path_exists d4 (with_name (provenance_file env s) (name_stem (provenance_name s) @ ''.transparency.json''))"
    if "\<not> path_exists d0 (with_name (provenance_file env s) (name_stem (provenance_name s) @ ''.transparency.json''))"
    using that other kept(2) unfolding x(2) path_exists_iff by metis
qed

lemma made_provenance:
  assumes made: "make_provenance env s r b now d = Inr p"
    and cfg: "attestation_config (env_repo env) (site_signing (env_site env)) = Inr cfg" "signs_with_ssh cfg" and law: "signing_law env"
  shows "\<exists>who P ns. strip who \<noteq> [] \<and> acf_namespace cfg = JStr ns \<and>
     P = build_provenance_payload env s r b (materialized_path env s ''manifest.json'') (provenance_name s @ ''.ssig'') cfg who now \<and>
     stp_bytes p = canonical_json_bytes (JObj P) \<and> stp_path p = ''provenance/'' @ provenance_name s \<and>
     stp_signature_path p = ''provenance/'' @ provenance_name s @ ''.ssig'' \<and> trusted_signature env cfg who (stp_signature p) (stp_bytes p) d"
proof -
  have ext: "acf_signature_ext cfg = JStr ''.ssig''" using cfg(2) by (simp add: signs_with_ssh_def)
  from made obtain key who signature where
    who: "resolve_signer_identity env d cfg key = Inr who" and
    signed: "sign_provenance env key (acf_namespace cfg) (stp_bytes p) = Inr signature" and
    p: "stp_bytes p = canonical_json_bytes (JObj (build_provenance_payload env s r b (materialized_path env s ''manifest.json'')
          (provenance_name s @ ''.ssig'') cfg who now))" "stp_signature p = signature" "stp_path p = ''provenance/'' @ provenance_name s"
      "stp_signature_path p = ''provenance/'' @ provenance_name s @ ''.ssig''"
    by (auto simp: make_provenance_def res_simps from_client_def cfg(1) ext jstr_def Let_def split: sum.splits)
  from who obtain entries public_key where e: "parse_allowed_signers d (acf_allowed_path cfg) = Inr entries" "entries \<noteq> []"
      "public_key_from_key_path env d key = Inr public_key" "who \<in> set (signer_identities_for_key entries public_key)"
    by (auto simp: resolve_signer_identity_def res_simps) (auto split: list.splits)
  from allowed_signers_entries [OF e(1,2)] obtain allowed ls where l: "read_file d (acf_allowed_path cfg) = Some allowed"
      "signer_entries d (acf_allowed_path cfg) = Inr ls" "ls \<noteq> []" "\<forall>e \<in> set entries. strip (fst e) \<noteq> []" by blast
  have visible: "strip who \<noteq> []"
    using e(4) l(4) by (auto simp: signer_identities_for_key_def split: option.splits)
  from signed obtain ns where ns: "acf_namespace cfg = JStr ns" "env_sign env key ns (stp_bytes p) = Inr (Some signature)"
    by (auto simp: sign_provenance_def res_simps jstr_iff) (auto split: sum.splits option.splits)
  have "fst (out_ssh_verify (env_out env) allowed who ns signature (stp_bytes p))"
    using law l(1) e(1,3,4) ns(2) unfolding signing_law_def by blast
  then have "trusted_signature env cfg who (stp_signature p) (stp_bytes p) d"
    using l ns(1) p(2) by (cases "out_ssh_verify (env_out env) allowed who ns signature (stp_bytes p)") (auto simp: trusted_signature_def)
  then show ?thesis using visible ns(1) p by blast
qed

lemma trust_kept:
  assumes "trusted_signature env cfg who signature message d" and "read_file d' (acf_allowed_path cfg) = read_file d (acf_allowed_path cfg)"
  shows "trusted_signature env cfg who signature message d'"
proof -
  from assms(1) obtain allowed where "read_file d (acf_allowed_path cfg) = Some allowed" by (auto simp: trusted_signature_def)
  then have "signer_entries d' (acf_allowed_path cfg) = signer_entries d (acf_allowed_path cfg)"
    using assms(2) by (simp add: signer_entries_def read_bytes_def read_file_exists)
  then show ?thesis using assms by (simp add: trusted_signature_def)
qed

section \<open>A materialized release is current\<close>

lemma current_iff:
  "existing_materialization_is_current env s r arts d = Inr True \<longleftrightarrow>
     rel_state r = RelReady \<and> all_artifacts_named r \<and> 4 \<le> length arts \<and> artifact_rows_match env s r arts d \<and>
     (\<exists>v. verify_distribution_manifest (env_out env) d (site_signing (env_site env))
        (under (env_artifacts env) (materialized_path env s ''manifest.json'')) (env_artifacts env) (env_repo env) = Inr v)"
  by (auto simp: existing_materialization_is_current_def res_simps verified_or_false_def split: sum.splits dist_error.splits)

lemma snapshot_names [simp]:
  "materialized_path env (s\<lparr>snp_release := r\<rparr>) name = materialized_path env s name"
  "provenance_name (s\<lparr>snp_release := r\<rparr>) = provenance_name s"
  "materialized_files env (s\<lparr>snp_release := r\<rparr>) = materialized_files env s"
  by (simp_all add: materialized_path_def provenance_name_def materialized_files_def)

lemma current_names [simp]:
  "existing_materialization_is_current env (s\<lparr>snp_release := r\<rparr>) = existing_materialization_is_current env s"
  by (simp add: existing_materialization_is_current_def artifact_rows_match_def fun_eq_iff)

lemma rows_match:
  assumes rows: "rows_written env release_id b p manifest r d" and ok: "snapshot_ok s"
    and docs: "holds_documents env s b (stp_bytes p) (stp_signature p) disk"
    and manifest: "read_file disk (release_file env s ''manifest.json'') = Some manifest"
  shows "artifact_rows_match env s r (get_artifacts_for_release release_id d) disk"
    and "rel_state r = RelReady" "all_artifacts_named r" "4 \<le> length (get_artifacts_for_release release_id d)"
proof -
  from rows obtain bi mi pi si where ids: "rel_bundle_artifact r = Some bi" "rel_manifest_artifact r = Some mi"
      "rel_provenance_artifact r = Some pi" "rel_signature_artifact r = Some si" and ready: "rel_state r = RelReady" and
    saved: "row_saved env release_id ''bundle'' (stb_data b) bi (db_artifacts d)" "row_saved env release_id ''manifest'' manifest mi (db_artifacts d)"
       "row_saved env release_id ''provenance'' (stp_bytes p) pi (db_artifacts d)"
       "row_saved env release_id ''signature'' (stp_signature p) si (db_artifacts d)" and rok: "rows_ok art_id (db_artifacts d)"
    by (auto simp: rows_written_def)
  show "rel_state r = RelReady" "all_artifacts_named r" by (simp_all add: ready all_artifacts_named_def ids)
  show "4 \<le> length (get_artifacts_for_release release_id d)" by (rule four_rows [OF saved rok])
  note u = provenance_under [OF provenance_name_component(1) [OF ok]] provenance_under [OF provenance_name_component(2) [OF ok]]
    materialized_under [OF ok component_literals(3)] materialized_under [OF ok component_literals(4)]
  have files: "read_file disk (under (env_artifacts env) (materialized_path env s ''skill.tar.gz'')) = Some (stb_data b)"
      "read_file disk (under (env_artifacts env) (materialized_path env s ''manifest.json'')) = Some manifest"
      "read_file disk (under (env_artifacts env) (''provenance/'' @ provenance_name s)) = Some (stp_bytes p)"
      "read_file disk (under (env_artifacts env) (''provenance/'' @ provenance_name s @ ''.ssig'')) = Some (stp_signature p)"
    using docs manifest unfolding u
    by (simp_all add: holds_documents_def release_file_def provenance_file_def signature_file_def)
  have "row_matches_file (env_out env) (get_artifacts_for_release release_id d) r kind (Some x)"
    if "row_saved env release_id kind x i (db_artifacts d)" "release_artifact_id r kind = Some i" for kind x i
    using saved_found [OF that(1) rok] that(2) by (auto simp: row_matches_file_def)
  note matches = this [OF saved(1)] this [OF saved(2)] this [OF saved(3)] this [OF saved(4)]
  show "artifact_rows_match env s r (get_artifacts_for_release release_id d) disk"
    unfolding artifact_rows_match_def materialized_files_def list.pred_inject split_conv files
    using matches by (simp add: release_artifact_id_def ids)
qed

lemma rematerialized_verifies:
  assumes files: "files_written env s now d0 b c p manifest d1 d2 d3 d4" and load: "load_bundle env s d d0 = Inr b"
    and laws: "host_laws env" "signing_law env" and ok: "snapshot_ok s"
    and cfg: "attestation_config (env_repo env) (site_signing (env_site env)) = Inr cfg" "signs_with_ssh cfg"
      "\<not> is_relative_to (acf_allowed_path cfg) (env_artifacts env)"
    and no_log: "\<not> path_exists d0 (with_name (provenance_file env s) (name_stem (provenance_name s) @ ''.transparency.json''))"
  shows "holds_documents env s b (stp_bytes p) (stp_signature p) d4" "read_file d4 (release_file env s ''manifest.json'') = Some manifest"
    and "\<exists>v. verify_distribution_manifest (env_out env) d4 (site_signing (env_site env))
        (under (env_artifacts env) (materialized_path env s ''manifest.json'')) (env_artifacts env) (env_repo env) = Inr v"
proof -
  note w = files [unfolded files_written_def]
  note b = loaded_bundle [OF load laws(1) ok]
  from made_provenance [OF conjunct1 [OF conjunct2 [OF conjunct2 [OF w]]] cfg(1,2) laws(2)] obtain who P ns where p:
      "strip who \<noteq> []" "acf_namespace cfg = JStr ns"
      "P = build_provenance_payload env s (with_compatibility (snp_release s) c) b (materialized_path env s ''manifest.json'')
         (provenance_name s @ ''.ssig'') cfg who now"
      "stp_bytes p = canonical_json_bytes (JObj P)" "stp_path p = ''provenance/'' @ provenance_name s"
      "stp_signature_path p = ''provenance/'' @ provenance_name s @ ''.ssig''"
      "trusted_signature env cfg who (stp_signature p) (stp_bytes p) d1"
    by blast
  note docs = written_documents [OF files ok b(3) p(5,6)]
  show "holds_documents env s b (stp_bytes p) (stp_signature p) d4" "read_file d4 (release_file env s ''manifest.json'') = Some manifest"
    by (rule docs(2,3))+
  have places: "under (env_artifacts env) (stp_path p) = provenance_file env s"
      "under (env_artifacts env) (stb_path b) = release_file env s ''skill.tar.gz''"
    unfolding p(5) b(3) provenance_file_def release_file_def
    by (rule provenance_under [OF provenance_name_component(1) [OF ok]] materialized_under [OF ok component_literals(3)])+
  from w obtain M where M: "build_distribution_manifest_payload (env_out env) d3 (site_signing (env_site env)) (provenance_file env s)
       (release_file env s ''skill.tar.gz'') (env_artifacts env) (env_repo env) now = Inr M" "manifest = canonical_json_bytes (JObj M)"
    by (auto simp: make_manifest_def places res_simps from_client_def split: sum.splits)
  have "no_decimals (JObj c)" using w laws(1) by (auto simp: host_laws_def)
  then have leaves: "no_decimals (JObj P)"
    unfolding p(3) by (intro provenance_no_decimals [OF cfg(2) p(2)]) (simp_all add: with_compatibility_def)
  have reads: "no_decimals j \<Longrightarrow> out_decode (env_out env) (canonical_json_bytes j) = Some (sorted_json j)" for j
    using laws(1) by (simp add: host_laws_def)
  have decode: "out_decode (env_out env) (stp_bytes p) = Some (sorted_json (JObj P))" unfolding p(4) by (rule reads [OF leaves])
  have "no_decimals (JObj M)" using manifest_parts [OF p(3) ok cfg(1,2) docs(1) decode M(1)] leaves by blast
  note decode' = reads [OF this]
  from b(4) obtain report where report: "inspect_distribution_bundle (env_out env) JNull (stb_data b) = Inr report"
      "stb_file_count b = length (brp_files report)" by blast
  show "\<exists>v. verify_distribution_manifest (env_out env) d4 (site_signing (env_site env))
        (under (env_artifacts env) (materialized_path env s ''manifest.json'')) (env_artifacts env) (env_repo env) = Inr v"
    by (rule documents_verify [OF p(3) ok b(1-3) report cfg(1,2) p(1) _ _ p(4) decode decode' M(1) docs(1,2) docs(3) [unfolded M(2)]
          trust_kept [OF p(7) docs(4) [OF cfg(3)]] docs(5) [OF no_log]])
      (use laws(1) in \<open>auto simp: host_laws_def\<close>)
qed


section \<open>The provenance document conforms to its schema\<close>


section \<open>An artifact directory\<close>

text \<open>
  A release of the sample skill, waiting to be materialized, on a host whose archive reader knows
  one bundle and whose signing key is the one the allowed-signers file lists.
\<close>

definition depot_gz :: string where
  "depot_gz = [CHR 0x1F, CHR 0x8B, CHR ''x'', CHR ''x'', CHR ''x'', CHR ''x'', CHR ''x'', CHR ''x'']"

definition depot_metadata :: "(string \<times> json) list" where
  "depot_metadata = [(''name'', JStr ''demo''), (''publisher'', JStr ''alice''), (''qualified_name'', JStr ''alice/demo''), (''version'', JStr ''1.0.0'')]"

definition depot_lib :: content_lib where
  "depot_lib =
     \<lparr>lib_open = (\<lambda>raw. if raw = depot_gz
        then Some \<lparr>arc_members = [\<lparr>tar_name = ''demo/_meta.json'', tar_kind = TarFile, tar_executable = False, tar_data = ''meta''\<rparr>], arc_broken = False\<rparr>
        else None),
      lib_tar_gz = (\<lambda>_. depot_gz), lib_decode = (\<lambda>_. Some (JObj depot_metadata)), lib_validate = (\<lambda>_ _. None)\<rparr>"

definition depot_outside :: outside where
  "depot_outside =
     \<lparr>out_sha256 = (\<lambda>_. ''d''), out_decode = read_document,
      out_members = (\<lambda>raw. if raw = depot_gz
        then Some [\<lparr>bmb_name = ''demo/_meta.json'', bmb_isfile = True, bmb_islink = False, bmb_isdir = False, bmb_data = ''meta'', bmb_mode = 420,
           bmb_mtime = 0, bmb_uid = 0, bmb_gid = 0, bmb_uname = [], bmb_gname = []\<rparr>]
        else None),
      out_python = (''3.12'', ''CPython''), out_ssh_verify = (\<lambda>allowed who ns signature message. (True, []))\<rparr>"

definition depot_env :: host_env where
  "depot_env =
     \<lparr>env_site = \<lparr>site_outside = depot_outside, site_signing = Inr (JObj []), site_artifacts = [''a''], site_repo = [''r'']\<rparr>,
      env_lib = depot_lib, env_git = (\<lambda>_. None), env_var = (\<lambda>_. Some ''k.pub''), env_home = (\<lambda>k. [k]),
      env_public_key = (\<lambda>_. Inl []), env_sign = (\<lambda>_ _ _. Inr (Some ''signed'')), env_source_mode = (\<lambda>_. JNull),
      env_compatibility = (\<lambda>_ _ _. Inr [])\<rparr>"

definition depot_release :: release where
  "depot_release = (sample_release 1 1 1)\<lparr>rel_state := RelPreparing\<rparr>"

definition depot_version :: skill_version where
  "depot_version = (sample_version 1 1)\<lparr>ver_manifest_json := json_dumps (JObj [(''metadata'', JObj depot_metadata)])\<rparr>"

definition depot_db :: db where
  "depot_db = empty_db\<lparr>db_principals := sample_principals, db_skills := [sample_skill 1 1 ''demo''], db_versions := [depot_version],
     db_releases := [depot_release],
     db_contents := [\<lparr>cnt_id = 1, cnt_public_id = ''p'', cnt_skill_id = 1, cnt_storage_uri = ''c'', cnt_sha256 = ''d'', cnt_size_bytes = 8, cnt_declared_version = ''1.0.0'', cnt_metadata_json = json_dumps (JObj []), cnt_state = CntConsumed, cnt_created_by = 1, cnt_created_at = 0, cnt_consumed_at = None\<rparr>]\<rparr>"

definition depot :: host_state where
  "depot = \<lparr>hs_db = depot_db, hs_committed = depot_db,
     hs_disk = [([''a'', ''c''], depot_gz), ([''k.pub''], ''ssh-ed25519 AA''), ([''r'', ''config'', ''allowed_signers''], ''me ssh-ed25519 AA'')]\<rparr>"

definition depot_snapshot :: release_snapshot where
  "depot_snapshot = \<lparr>snp_release = depot_release, snp_version = depot_version, snp_skill = sample_skill 1 1 ''demo'',
     snp_namespace = hd sample_principals, snp_manifest = [(''metadata'', JObj depot_metadata)]\<rparr>"

definition depot_stored :: stored_bundle where
  "depot_stored = \<lparr>stb_data = depot_gz, stb_file_count = 1, stb_root_dir = ''demo'', stb_sha256 = ''d'',
     stb_path = ''skills/alice/demo/1.0.0/skill.tar.gz'', stb_metadata = depot_metadata, stb_source_mode = JNull\<rparr>"

definition depot_signing :: att_config where
  "depot_signing = projr (attestation_config [''r''] (Inr (JObj [])))"

lemma depot_config: "attestation_config (env_repo depot_env) (site_signing (env_site depot_env)) = Inr depot_signing" "signs_with_ssh depot_signing"
  by code_simp+

lemma depot_begins: "get_release_snapshot 1 depot_db = Inr depot_snapshot" "snapshot_ok depot_snapshot"
  by code_simp+

lemma depot_tree:
  "extract_validated_bundle (lib_open depot_lib) ''demo'' depot_gz =
     Inr [([''demo''], Directory), ([''demo'', ''_meta.json''], Regular \<lparr>fil_executable = False, fil_data = ''meta''\<rparr>)]"
  "skill_files ''demo'' [([''demo''], Directory), ([''demo'', ''_meta.json''], Regular \<lparr>fil_executable = False, fil_data = ''meta''\<rparr>)] =
     [([''_meta.json''], \<lparr>fil_executable = False, fil_data = ''meta''\<rparr>)]"
  by (simp add: extraction_defs depot_lib_def) (simp add: skill_files_def)

lemma depot_canonical:
  "canonicalize_skill_bundle depot_lib ''demo'' depot_gz = Inr \<lparr>bun_data = depot_gz, bun_version = ''1.0.0'', bun_metadata = depot_metadata\<rparr>"
  by (simp add: canonicalize_skill_bundle_def depot_tree)
    (simp add: depot_lib_def depot_gz_def depot_metadata_def max_bundle_bytes_def validated_metadata_def declared_version_def
       deterministic_bundle_def)

lemma depot_identity: "validate_hosted_skill_identity depot_metadata ''alice'' ''demo'' = Inr ()"
  by code_simp

lemma depot_content: "skill_content_bundle_data depot_env 1 depot_db (hs_disk depot) = Inr (depot_gz, 1, ''demo'')"
proof -
  have row: "row_get cnt_id (db_contents depot_db) 1 \<noteq> None" "cnt_storage_uri (the (row_get cnt_id (db_contents depot_db) 1)) = ''c''"
    "artifact_object_path [''a''] ''c'' = Inr [''a'', ''c'']" "read_file (hs_disk depot) [''a'', ''c''] = Some depot_gz"
    by code_simp+
  obtain report where "inspect_distribution_bundle depot_outside JNull depot_gz = Inr report" "length (brp_files report) = 1"
    by (simp add: inspect_distribution_bundle_def depot_outside_def manifest_entry_def gzip_mtime_def depot_gz_def member_rel_path_def Let_def)
  moreover have "bundle_root_dir depot_outside [''a'', ''c''] depot_gz = Inr ''demo''"
    by code_simp
  ultimately show ?thesis
    using row by (auto simp: skill_content_bundle_data_def depot_env_def from_client_def)
qed

lemma depot_bundle: "load_bundle depot_env depot_snapshot depot_db (hs_disk depot) = Inr depot_stored"
proof -
  have s: "snapshot_content_id depot_snapshot = 1" "skl_slug (snp_skill depot_snapshot) = ''demo''" "prn_slug (snp_namespace depot_snapshot) = ''alice''"
      "ver_version (snp_version depot_snapshot) = ''1.0.0''" "snapshot_metadata depot_snapshot = depot_metadata"
      "materialized_path depot_env depot_snapshot ''skill.tar.gz'' = ''skills/alice/demo/1.0.0/skill.tar.gz''"
      "env_lib depot_env = depot_lib" "env_source_mode depot_env = (\<lambda>_. JNull)" "out_sha256 (env_out depot_env) = (\<lambda>_. ''d'')"
    by (simp_all add: depot_snapshot_def snapshot_content_id_def depot_version_def sample_version_def sample_skill_def sample_principals_def
         snapshot_metadata_def jget_def materialized_path_def release_dir_def depot_env_def depot_outside_def)
  show ?thesis
    unfolding load_bundle_def s depot_content
    by (simp only: rbind_simps split_conv depot_canonical from_service_def s)
       (simp add: depot_identity s depot_stored_def)
qed

definition depot_disk1 :: disk where
  "depot_disk1 = hs_disk depot @ [([''a'', ''objects'', ''sha256'', ''d''], depot_gz), ([''a'', ''skills'', ''alice'', ''demo'', ''1.0.0'', ''skill.tar.gz''], depot_gz)]"

lemma depot_puts: "put_artifact depot_env depot_gz ''skills/alice/demo/1.0.0/skill.tar.gz'' (hs_disk depot) = Inr depot_disk1"
  by code_simp

lemma depot_signer: "resolve_attestation_key depot_env depot_signing = Inr ''k.pub''"
   "resolve_signer_identity depot_env depot_disk1 depot_signing ''k.pub'' = Inr ''me''"
  by code_simp+

text \<open>The documents, with the text of the manifest left open.\<close>

definition depot_release1 :: release where
  "depot_release1 = with_compatibility depot_release []"

definition depot_message :: string where
  "depot_message = canonical_json_bytes (JObj (build_provenance_payload depot_env depot_snapshot depot_release1 depot_stored
     (materialized_path depot_env depot_snapshot ''manifest.json'') (provenance_name depot_snapshot @ ''.ssig'') depot_signing ''me'' 50))"

definition depot_provenance :: stored_provenance where
  "depot_provenance = \<lparr>stp_bytes = depot_message, stp_signature = ''signed'', stp_path = ''provenance/alice--demo-1.0.0.json'',
     stp_signature_path = ''provenance/alice--demo-1.0.0.json.ssig''\<rparr>"

definition depot_disk3 :: "string \<Rightarrow> disk" where
  "depot_disk3 m = hs_disk depot @
     [([''a'', ''objects'', ''sha256'', ''d''], ''signed''), ([''a'', ''skills'', ''alice'', ''demo'', ''1.0.0'', ''skill.tar.gz''], depot_gz),
      ([''a'', ''provenance'', ''alice--demo-1.0.0.json''], m), ([''a'', ''provenance'', ''alice--demo-1.0.0.json.ssig''], ''signed'')]"

lemma depot_names: "provenance_name depot_snapshot = ''alice--demo-1.0.0.json''"
  "materialized_path depot_env depot_snapshot ''manifest.json'' = ''skills/alice/demo/1.0.0/manifest.json''"
  by code_simp+

lemma depot_made: "make_provenance depot_env depot_snapshot depot_release1 depot_stored 50 depot_disk1 = Inr depot_provenance"
proof -
  have fields: "acf_signature_ext depot_signing = JStr ''.ssig''" "acf_namespace depot_signing = JStr ''infinitas-skill''"
    by code_simp+
  have sign: "env_sign depot_env = (\<lambda>_ _ _. Inr (Some ''signed''))" by (simp add: depot_env_def)
  show ?thesis
    unfolding make_provenance_def depot_config depot_message_def [symmetric] fields
    by (simp add: from_client_def depot_signer jstr_def sign_provenance_def sign fields depot_provenance_def Let_def
        flip: depot_message_def) (simp add: depot_names)
qed

definition depot_disk2 :: "string \<Rightarrow> disk" where
  "depot_disk2 m = hs_disk depot @
     [([''a'', ''objects'', ''sha256'', ''d''], m), ([''a'', ''skills'', ''alice'', ''demo'', ''1.0.0'', ''skill.tar.gz''], depot_gz),
      ([''a'', ''provenance'', ''alice--demo-1.0.0.json''], m)]"

definition depot_disk4 :: "string \<Rightarrow> string \<Rightarrow> disk" where
  "depot_disk4 m x = AList.update [''a'', ''objects'', ''sha256'', ''d''] x (depot_disk3 m) @
     [([''a'', ''skills'', ''alice'', ''demo'', ''1.0.0'', ''manifest.json''], x)]"

lemma depot_writes:
  "put_artifact depot_env m ''provenance/alice--demo-1.0.0.json'' depot_disk1 = Inr (depot_disk2 m)"
  "put_artifact depot_env ''signed'' ''provenance/alice--demo-1.0.0.json.ssig'' (depot_disk2 m) = Inr (depot_disk3 m)"
  "put_artifact depot_env x ''skills/alice/demo/1.0.0/manifest.json'' (depot_disk3 m) = Inr (depot_disk4 m x)"
  by code_simp+

lemma manifest_builds:
  assumes P: "P = build_provenance_payload env s r b mp (provenance_name s @ ''.ssig'') cfg who now"
    and decode: "out_decode (env_out env) message = Some (sorted_json (JObj P))"
    and docs: "holds_documents env s b message signature d" and bnd: "inspect_distribution_bundle (env_out env) (JStr (stb_root_dir b)) (stb_data b) = Inr report"
    and cfg: "attestation_config (env_repo env) (site_signing (env_site env)) = Inr cfg" "signs_with_ssh cfg"
    and ok: "snapshot_ok s" and no_ci: "\<not> path_exists d (companion_ci_path (provenance_file env s))"
  shows "\<exists>M. build_distribution_manifest_payload (env_out env) d (site_signing (env_site env)) (provenance_file env s)
     (release_file env s ''skill.tar.gz'') (env_artifacts env) (env_repo env) now = Inr M"
proof -
  note members = provenance_members [of env s r b mp "provenance_name s @ ''.ssig''" cfg who now, folded P]
  have files: "read_file d (release_file env s ''skill.tar.gz'') = Some (stb_data b)" "read_file d (provenance_file env s) = Some message"
      "read_file d (signature_file env s) = Some signature"
    using docs by (simp_all add: holds_documents_def)
  have loaded: "load_object (env_out env) d (provenance_file env s) = Inr (reread P)"
    using files(2) decode by (simp add: load_object_Inr sorted_json_obj)
  obtain Q sd sb at sk where Q: "Q = reread P" "sd = reread (as_obj (jget P ''distribution''))"
      "sb = reread (as_obj (jget (as_obj (jget P ''distribution'')) ''bundle''))" "at = reread (as_obj (jget P ''attestation''))"
      "sk = reread (as_obj (jget P ''skill''))" by blast
  have all: "dict_or_empty (jget Q ''distribution'') = Inr sd" "truthy (jget sd ''bundle'')" "dict_or_empty (jget sd ''bundle'') = Inr sb"
      "jget sb ''root_dir'' = JStr (stb_root_dir b)" "dict_or_empty (jget Q ''attestation'') = Inr at" "dict_or_empty (jget Q ''skill'') = Inr sk"
    by (simp_all add: Q members distribution_payload_def attestation_payload_def skill_payload_def dict_or_empty_def sorted_json_obj)
  have "jget at ''signature_ext'' = JStr ''.ssig''"
    using cfg(2) by (simp add: Q members attestation_payload_def signs_with_ssh_def)
  then have ext: "jget_default at ''signature_ext'' (JStr ''.ssig'') = JStr ''.ssig''"
    by (simp add: jget_default_def jget_def split: option.splits)
  obtain x where x: "provenance_name s = x @ ''.json''" "name_stem (provenance_name s) = x" using provenance_companion [OF ok] by blast
  then have "name_suffix (provenance_name s) = ''.json''" using stem_and_suffix [of "provenance_name s"] by simp
  with x have sf: "with_suffix_added (provenance_file env s) ''.ssig'' = Inr (signature_file env s)"
    by (simp add: with_suffix_added_def provenance_file_def signature_file_def file_name_def with_name_def butlast_append starts_with_def)
  show ?thesis
    using loaded all ext sf files no_ci cfg(1) bnd
    by (simp add: build_distribution_manifest_payload_def Q(1) [symmetric] jstr_def read_bytes_def sha256_file_def ci_references_def read_file_exists Let_def)
qed

lemma depot_laws: "host_laws depot_env" "signing_law depot_env"
proof -
  have "map bmb_name ms = map tar_name (arc_members a) \<and> map bmb_isfile ms = map (\<lambda>m. tar_kind m = TarFile) (arc_members a)"
    if "lib_open (env_lib depot_env) raw = Some a" "out_members (env_out depot_env) raw = Some ms" for raw a ms
    using that by (auto simp: depot_env_def depot_lib_def depot_outside_def split: if_splits)
  moreover have "strip ''d'' \<noteq> []" by code_simp
  ultimately show "host_laws depot_env"
    using canonical_json_reads_back
    by (simp add: host_laws_def) (simp add: depot_env_def depot_outside_def)
  show "signing_law depot_env" by (simp add: signing_law_def depot_env_def depot_outside_def)
qed

lemma depot_manifest: "\<exists>x. make_manifest depot_env depot_snapshot depot_stored depot_provenance 50 (depot_disk3 depot_message) = Inr x"
proof -
  have files: "under (env_artifacts depot_env) (stp_path depot_provenance) = provenance_file depot_env depot_snapshot"
      "under (env_artifacts depot_env) (stb_path depot_stored) = release_file depot_env depot_snapshot ''skill.tar.gz''"
    by (simp only: depot_provenance_def stored_provenance.simps) code_simp+
  have "no_decimals (JObj (build_provenance_payload depot_env depot_snapshot depot_release1 depot_stored
     (materialized_path depot_env depot_snapshot ''manifest.json'') (provenance_name depot_snapshot @ ''.ssig'') depot_signing ''me'' 50))"
    by (rule provenance_no_decimals [OF depot_config(2), of "''infinitas-skill''" _ "[]"]) (code_simp, simp_all add: depot_release1_def with_compatibility_def)
  then have decode: "out_decode (env_out depot_env) depot_message = Some (sorted_json (JObj (build_provenance_payload depot_env depot_snapshot
     depot_release1 depot_stored (materialized_path depot_env depot_snapshot ''manifest.json'') (provenance_name depot_snapshot @ ''.ssig'')
     depot_signing ''me'' 50)))"
    using depot_laws(1) unfolding host_laws_def depot_message_def by blast
  have docs: "holds_documents depot_env depot_snapshot depot_stored m ''signed'' (depot_disk3 m)" for m
    by code_simp
  obtain report where report: "inspect_distribution_bundle (env_out depot_env) (JStr (stb_root_dir depot_stored)) (stb_data depot_stored) = Inr report"
    by (simp add: inspect_distribution_bundle_def depot_env_def depot_outside_def depot_stored_def manifest_entry_def gzip_mtime_def depot_gz_def
        member_rel_path_def pure_parts_def is_absolute_def starts_with_def Let_def)
  have "\<not> path_exists (depot_disk3 m) (companion_ci_path (provenance_file depot_env depot_snapshot))" for m
    by code_simp
  from manifest_builds [OF refl decode docs report depot_config depot_begins(2) this]
  show ?thesis by (auto simp: make_manifest_def files from_client_def)
qed

text \<open>Every step of the materialization succeeds, and the heartbeat does nothing.\<close>

lemma upsert_step:
  "upsert_data env i kind path data st =
     (let (a, d) = upsert_artifact i kind path (out_sha256 (env_out env) data) (int (length data)) (hs_db st) in (Inr a, st\<lparr>hs_db := d\<rparr>))"
  by (simp add: upsert_data_def on_rows_def Let_def split: prod.splits)

lemma depot_rows:
  assumes "row_get rel_id (db_releases d) (rel_id r) \<noteq> None" and "db_versions d = db_versions depot_db" "db_skills d = db_skills depot_db"
    "db_principals d = db_principals depot_db" and "rel_version_id r = 1"
  shows "\<exists>r' d'. mark_release_ready r a b c e now d = Inr (r', d') \<and> row_get rel_id (db_releases d') (rel_id r) \<noteq> None"
proof -
  have rows: "row_get ver_id (db_versions depot_db) 1 = Some depot_version" "row_get skl_id (db_skills depot_db) (ver_skill_id depot_version) =
      Some (sample_skill 1 1 ''demo'')" "row_get prn_id (db_principals depot_db) 1 = Some (hd sample_principals)"
      "skl_namespace_id (sample_skill 1 1 ''demo'') = 1"
    by code_simp+
  show ?thesis
    using assms by (auto simp: mark_release_ready_def res_simps put_release_def get_release_snapshot_def get_release_or_404_def Let_def
        get_skill_version_or_404_def get_skill_or_404_def get_namespace_or_404_def row_simps rows)
qed

definition depot_stage :: "db \<Rightarrow> disk \<Rightarrow> host_state" where
  "depot_stage d disk = \<lparr>hs_db = d, hs_committed = depot_db, hs_disk = disk\<rparr>"

lemma depot_stage_simps [simp]:
  "hs_db (depot_stage d disk) = d" "hs_disk (depot_stage d disk) = disk"
  "depot_stage d disk\<lparr>hs_db := d'\<rparr> = depot_stage d' disk" "depot_stage d disk\<lparr>hs_disk := disk'\<rparr> = depot_stage d disk'"
  by (simp_all add: depot_stage_def)

lemma depot_stage_start: "depot = depot_stage depot_db (hs_disk depot)"
  by (simp add: depot_stage_def depot_def)

lemmas step_defs = step_bind_def reading_def on_disk_def on_rows_def step_return_def

lemma depot_steps:
  "build_and_store_bundle depot_env depot_snapshot (depot_stage depot_db (hs_disk depot)) = (Inr depot_stored, depot_stage depot_db depot_disk1)"
  "persist_platform_compatibility depot_env depot_release depot_stored e (depot_stage d disk) =
     (Inr depot_release1, depot_stage (put_release depot_release1 d) disk)"
  "build_and_store_provenance depot_env depot_snapshot depot_release1 depot_stored 50 (depot_stage d depot_disk1) =
     (Inr depot_provenance, depot_stage d (depot_disk3 depot_message))"
proof -
  have "stb_path depot_stored = ''skills/alice/demo/1.0.0/skill.tar.gz''" "stb_data depot_stored = depot_gz" by (simp_all add: depot_stored_def)
  then show "build_and_store_bundle depot_env depot_snapshot (depot_stage depot_db (hs_disk depot)) = (Inr depot_stored, depot_stage depot_db depot_disk1)"
    by (simp only: build_and_store_bundle_def step_defs depot_stage_simps depot_bundle depot_puts prod.case sum.case)
  have "env_compatibility depot_env = (\<lambda>_ _ _. Inr [])" by (simp add: depot_env_def)
  then show "persist_platform_compatibility depot_env depot_release depot_stored e (depot_stage d disk) =
     (Inr depot_release1, depot_stage (put_release depot_release1 d) disk)"
    by (simp add: persist_platform_compatibility_def step_defs from_client_def depot_release1_def with_compatibility_def Let_def)
  have "stp_path depot_provenance = ''provenance/alice--demo-1.0.0.json''" "stp_bytes depot_provenance = depot_message"
      "stp_signature_path depot_provenance = ''provenance/alice--demo-1.0.0.json.ssig''" "stp_signature depot_provenance = ''signed''"
    by (simp_all add: depot_provenance_def)
  then show "build_and_store_provenance depot_env depot_snapshot depot_release1 depot_stored 50 (depot_stage d depot_disk1) =
     (Inr depot_provenance, depot_stage d (depot_disk3 depot_message))"
    by (simp only: build_and_store_provenance_def step_defs depot_stage_simps depot_made depot_writes prod.case sum.case)
qed

lemma depot_stale: "existing_materialization_is_current depot_env depot_snapshot depot_release arts disk = Inr False"
  by (simp add: existing_materialization_is_current_def depot_release_def)

lemma depot_materializes: "\<exists>r arts t. materialize_release depot_env (step_return ()) 1 50 depot = (Inr (r, arts), t)"
proof -
  obtain x where x: "make_manifest depot_env depot_snapshot depot_stored depot_provenance 50 (depot_disk3 depot_message) = Inr x"
    using depot_manifest by blast
  have manifest: "build_and_store_manifest depot_env depot_snapshot depot_stored depot_provenance 50 (depot_stage d (depot_disk3 depot_message)) =
      (Inr x, depot_stage d (depot_disk4 depot_message x))" for d
    by (simp only: build_and_store_manifest_def step_defs depot_stage_simps x depot_names depot_writes prod.case sum.case)
  let ?d0 = "put_release depot_release1 depot_db"
  have upsert: "\<exists>a d'. upsert_data depot_env i k p y (depot_stage d disk) = (Inr a, depot_stage d' disk) \<and> db_releases d' = db_releases d \<and>
      db_versions d' = db_versions d \<and> db_skills d' = db_skills d \<and> db_principals d' = db_principals d" for i k p y d disk
    using upsert_frame(1-4) by (cases "upsert_artifact i k p (out_sha256 (env_out depot_env) y) (int (length y)) d") (auto simp: upsert_step)
  let ?i = "rel_id depot_release1" and ?disk = "depot_disk4 depot_message x"
  obtain a1 d1 where u1: "upsert_data depot_env ?i ''bundle'' (stb_path depot_stored) (stb_data depot_stored) (depot_stage ?d0 ?disk) = (Inr a1, depot_stage d1 ?disk)"
      "db_releases d1 = db_releases ?d0 \<and> db_versions d1 = db_versions ?d0 \<and> db_skills d1 = db_skills ?d0 \<and> db_principals d1 = db_principals ?d0"
    using upsert by meson
  obtain a2 d2 where u2: "upsert_data depot_env ?i ''manifest'' (materialized_path depot_env depot_snapshot ''manifest.json'') x (depot_stage d1 ?disk) =
        (Inr a2, depot_stage d2 ?disk)"
      "db_releases d2 = db_releases d1 \<and> db_versions d2 = db_versions d1 \<and> db_skills d2 = db_skills d1 \<and> db_principals d2 = db_principals d1"
    using upsert by meson
  obtain a3 d3 where u3: "upsert_data depot_env ?i ''provenance'' (stp_path depot_provenance) (stp_bytes depot_provenance) (depot_stage d2 ?disk) =
        (Inr a3, depot_stage d3 ?disk)"
      "db_releases d3 = db_releases d2 \<and> db_versions d3 = db_versions d2 \<and> db_skills d3 = db_skills d2 \<and> db_principals d3 = db_principals d2"
    using upsert by meson
  obtain a4 d4 where u4: "upsert_data depot_env ?i ''signature'' (stp_signature_path depot_provenance) (stp_signature depot_provenance) (depot_stage d3 ?disk) =
        (Inr a4, depot_stage d4 ?disk)"
      "db_releases d4 = db_releases d3 \<and> db_versions d4 = db_versions d3 \<and> db_skills d4 = db_skills d3 \<and> db_principals d4 = db_principals d3"
    using upsert by meson
  have there: "row_get rel_id (db_releases ?d0) ?i \<noteq> None" "rel_version_id depot_release1 = 1"
    by code_simp+
  then obtain r' d5 where m: "mark_release_ready depot_release1 (art_id a2) (art_id a1) (art_id a4) (art_id a3) 50 d4 = Inr (r', d5)"
      "row_get rel_id (db_releases d5) ?i \<noteq> None"
    using depot_rows [of d4 depot_release1 "art_id a2" "art_id a1" "art_id a4" "art_id a3" 50] u1(2) u2(2) u3(2) u4(2)
    by (auto simp: put_release_def)
  then obtain r where r: "get_release_or_404 ?i d5 = Inr r" by (auto simp: get_release_or_404_def)
  have snap: "snp_release depot_snapshot = depot_release" by (simp add: depot_snapshot_def)
  show ?thesis
    unfolding materialize_release_def rematerialize_def
    by (subst depot_stage_start, simp only: step_defs depot_stage_simps depot_begins(1) from_service_def reraise_simps snap depot_stale depot_steps manifest
          u1(1) u2(1) u3(1) u4(1) m(1) r rbind_simps prod.case sum.case if_False ex_simps) blast
qed



end
