(* ===== verification/Worker.thy ===== *)
theory Worker
  imports Materialized AuthoringEffects JobProtocol
begin

text \<open>
  The worker, \<open>server/worker.py\<close>: it claims the jobs of the queue one after the other, renews
  their leases while it works, materializes releases or prunes contents, and records the
  outcome.  A job is worked on in one session, its lease is renewed in another.
\<close>

section \<open>The worker's surroundings\<close>

text \<open>\<open>wrk_str\<close> is the text of an exception, \<open>str(exc)\<close>; the clock is read once per job.\<close>

record worker_env =
  wrk_host :: host_env
  wrk_ttl_hours :: int
  wrk_str :: "host_error \<Rightarrow> string"

definition repo_op_error :: "string \<Rightarrow> host_error" where
  "repo_op_error m = FromService (RepoOpError m)"

definition step_fail :: "host_error \<Rightarrow> 'a step" where
  "step_fail e s = (Inl e, s)"

definition job_log_lines :: "id \<Rightarrow> string list \<Rightarrow> unit step" where
  "job_log_lines i lines =
     on_rows (\<lambda>d. Inr ((), d\<lparr>db_jobs := row_update (\<lambda>j. job_id j = i) (\<lambda>j. append_job_log j lines) (db_jobs d)\<rparr>))"

section \<open>The lease\<close>

text \<open>Renewed in a session of its own: the rows committed change, those of the job's session do not.\<close>

definition renew_job_lease :: "id \<Rightarrow> time \<Rightarrow> unit step" where
  "renew_job_lease i now s =
     (case row_get job_id (db_jobs (hs_committed s)) i of
        None \<Rightarrow> (Inl (repo_op_error (''job '' @ str_of_int i @ '' not found during lease renewal'')), s)
      | Some j \<Rightarrow>
          if job_status j \<noteq> JobRunning
          then (Inl (repo_op_error (''job '' @ str_of_int i @ '' is no longer running during lease renewal'')), s)
          else (Inr (), s\<lparr>hs_committed := snd (heartbeat_job j default_job_lease_seconds now (hs_committed s))\<rparr>))"

text \<open>\<open>session.refresh(job)\<close>: the committed row replaces the session's.\<close>

definition refresh_job :: "id \<Rightarrow> job step" where
  "refresh_job i s =
     (case row_get job_id (db_jobs (hs_committed s)) i of
        None \<Rightarrow> (Inl (repo_op_error ''could not refresh instance''), s)
      | Some j \<Rightarrow> (Inr j, s\<lparr>hs_db := (hs_db s)\<lparr>db_jobs := row_set job_id j (db_jobs (hs_db s))\<rparr>\<rparr>))"

section \<open>The kinds of jobs\<close>

definition payload_release_id :: "job \<Rightarrow> id host" where
  "payload_release_id j =
     (let v = jget (load_job_payload j) ''release_id'' in
      rbind (or_raise (int_of_json (json_or v (JInt 0)))
               (repo_op_error ''materialize_release job has invalid release_id payload'')) (\<lambda>i.
      rbind (require (0 < i) (repo_op_error ''materialize_release job is missing release_id payload'')) (\<lambda>_. Inr i)))"

definition resolve_release_id :: "job \<Rightarrow> id host" where
  "resolve_release_id j =
     (case job_release_id j of
        Some i \<Rightarrow> if 0 < i then Inr i else payload_release_id j
      | None \<Rightarrow> payload_release_id j)"

text \<open>
  \<open>except (TypeError, ValueError)\<close> around the finalization of an intent: the text of a value
  that cannot be hashed is a \<open>TypeError\<close>.
\<close>

definition intent_error :: "svc_error \<Rightarrow> svc_error" where
  "intent_error e =
     (case e of
        ValueError _ \<Rightarrow> RepoOpError ''materialize_release job has invalid publish_intent_id''
      | RuntimeError m \<Rightarrow>
          if m = ''unhashable'' then RepoOpError ''materialize_release job has invalid publish_intent_id'' else e
      | _ \<Rightarrow> e)"

definition intent_state_text :: "intent_state \<Rightarrow> string" where
  "intent_state_text st =
     (case st of IntentPending \<Rightarrow> ''pending'' | IntentActivated \<Rightarrow> ''activated'' | IntentSuppressed \<Rightarrow> ''suppressed'')"

definition finalize_job_intent :: "job \<Rightarrow> time \<Rightarrow> unit step" where
  "finalize_job_intent j now =
     (let v = jget (load_job_payload j) ''publish_intent_id'' in
      if \<not> truthy v then step_return ()
      else step_bind (reading (\<lambda>_ _. or_raise (int_of_json v)
                       (repo_op_error ''materialize_release job has invalid publish_intent_id''))) (\<lambda>i.
           step_bind (on_rows (\<lambda>d. reraise intent_error (finalize_publish_intent i now d))) (\<lambda>finalized.
           job_log_lines (job_id j)
             [''Agent publish intent '' @ str_of_int (int_id finalized) @ '': '' @ intent_state_text (int_state finalized)])))"

definition process_materialize_release_job :: "worker_env \<Rightarrow> job \<Rightarrow> time \<Rightarrow> unit step" where
  "process_materialize_release_job w j now =
     step_bind (reading (\<lambda>_ _. resolve_release_id j)) (\<lambda>release_id.
     step_bind (materialize_release (wrk_host w) (renew_job_lease (job_id j) now) release_id now) (\<lambda>(r, arts).
     step_bind (finalize_job_intent j now) (\<lambda>_.
     step_bind (\<lambda>s. on_disk (refresh_projection_snapshot (env_artifacts (wrk_host w)) now (hs_db s)) s) (\<lambda>_.
     job_log_lines (job_id j)
       [''materialized release '' @ str_of_int (rel_id r) @ '' with '' @ str_of_int (int (length arts)) @ '' artifacts'']))))"

text \<open>The artifact directory as the list of its files, and the disk with only some of them left.\<close>

definition artifact_files :: "abs_path \<Rightarrow> disk \<Rightarrow> files" where
  "artifact_files root d = map (\<lambda>(p, _). relative_from_root root p) (filter (\<lambda>(p, _). is_relative_to p root) d)"

definition keep_artifacts :: "abs_path \<Rightarrow> files \<Rightarrow> disk \<Rightarrow> disk" where
  "keep_artifacts root fs = filter (\<lambda>(p, _). \<not> is_relative_to p root \<or> relative_from_root root p \<in> set fs)"

definition prune_summary_text :: "prune_summary \<Rightarrow> string" where
  "prune_summary_text p =
     ''pruned pending skill contents: {'' @ py_repr ''expired'' @ '': '' @ str_of_int (int (prn_expired p)) @ '', '' @
     py_repr ''public_paths_removed'' @ '': '' @ str_of_int (int (prn_paths p)) @ '', '' @
     py_repr ''objects_removed'' @ '': '' @ str_of_int (int (prn_objects p)) @ ''}''"

definition process_prune_skill_contents_job :: "worker_env \<Rightarrow> job \<Rightarrow> time \<Rightarrow> unit step" where
  "process_prune_skill_contents_job w j now =
     (let root = env_artifacts (wrk_host w) in
      step_bind (reading (\<lambda>_ _. or_raise (int_of_json (json_or (jget (load_job_payload j) ''limit'') (JInt 1000)))
        (repo_op_error ''prune_skill_contents job has invalid limit payload''))) (\<lambda>limit.
      step_bind (\<lambda>s.
        let (summary, d, fs) = prune_expired_skill_contents (wrk_ttl_hours w) (max 1 (min limit 10000)) None now
                                 (hs_db s) (artifact_files root (hs_disk s))
        in (Inr summary, s\<lparr>hs_db := d, hs_disk := keep_artifacts root fs (hs_disk s)\<rparr>)) (\<lambda>summary.
      job_log_lines (job_id j) [prune_summary_text summary])))"

section \<open>Failures\<close>

definition retryable_patterns :: "string list" where
  "retryable_patterns =
     [''timeout'', ''timed out'', ''connection refused'', ''connection reset'', ''temporary failure'',
      ''could not resolve host'', ''name or service not known'', ''network is unreachable'', ''no space left on device'']"

definition is_retryable_error :: "string \<Rightarrow> bool" where
  "is_retryable_error message = list_ex (\<lambda>p. contains p (lower message)) retryable_patterns"

definition audit_materialization_failure :: "job \<Rightarrow> string \<Rightarrow> bool \<Rightarrow> db \<Rightarrow> unit svc" where
  "audit_materialization_failure j message permanent d =
     (if job_kind j \<noteq> ''materialize_release'' then Inr ((), d)
      else (case resolve_release_id j of
        Inl _ \<Rightarrow> Inr ((), d)
      | Inr i \<Rightarrow>
          (case row_get rel_id (db_releases d) i of
             None \<Rightarrow> Inr ((), d)
           | Some r \<Rightarrow>
               (let d1 = (if permanent then snd (mark_release_materialization_failed r d) else d) in
                rbind (get_release_snapshot (rel_id r) d1) (\<lambda>s.
                Inr ((), append_audit_event ''release'' (str_of_int (rel_id r)) ''release.materialization_failed''
                  ''system:worker'' (Some (skl_namespace_id (snp_skill s)))
                  [(''object_id'', JInt (skl_id (snp_skill s))), (''release_id'', JInt (rel_id r)),
                   (''version_id'', JInt (ver_id (snp_version s))), (''version'', JStr (ver_version (snp_version s))),
                   (''job_id'', JInt (job_id j)), (''error'', JStr (take 1000 message))] d1))))))"

definition record_failure :: "worker_env \<Rightarrow> id \<Rightarrow> host_error \<Rightarrow> time \<Rightarrow> unit step" where
  "record_failure w i e now =
     on_rows (\<lambda>d. rbind (or_raise (row_get job_id (db_jobs d) i) (RuntimeError ''job row lost'')) (\<lambda>j.
       let (j', d1) = fail_job j (wrk_str w e) (is_retryable_error (wrk_str w e)) now d
       in audit_materialization_failure j' (wrk_str w e) (job_status j' = JobFailed) d1))"

section \<open>One job\<close>

definition process_job_body :: "worker_env \<Rightarrow> id \<Rightarrow> time \<Rightarrow> unit step" where
  "process_job_body w i now =
     step_bind (renew_job_lease i now) (\<lambda>_.
     step_bind (refresh_job i) (\<lambda>j.
     step_bind (if job_kind j = ''materialize_release'' then process_materialize_release_job w j now
                else if job_kind j = ''prune_skill_contents'' then process_prune_skill_contents_job w j now
                else step_fail (repo_op_error (''unsupported job kind: '' @ job_kind j))) (\<lambda>_.
     on_rows (\<lambda>d. rbind (or_raise (row_get job_id (db_jobs d) i) (RuntimeError ''job row lost'')) (\<lambda>j'.
       Inr ((), snd (complete_job j' now d)))))))"

text \<open>
  \<open>_process_job_under_snapshot_lock\<close>: the session starts from the committed rows; it commits what
  the job did, or what it did up to its failure together with the record of the failure, which
  is raised again; when recording fails too everything is rolled back, and the files stay.
\<close>

definition process_job :: "worker_env \<Rightarrow> id \<Rightarrow> time \<Rightarrow> unit step" where
  "process_job w i now st =
     (let s0 = st\<lparr>hs_db := hs_committed st\<rparr> in
      case row_get job_id (db_jobs (hs_db s0)) i of
        None \<Rightarrow> (Inl (repo_op_error (''job '' @ str_of_int i @ '' not found'')), s0)
      | Some _ \<Rightarrow>
          (case process_job_body w i now s0 of
             (Inr _, t) \<Rightarrow> (Inr (), t\<lparr>hs_committed := hs_db t\<rparr>)
           | (Inl e, t) \<Rightarrow>
               (case record_failure w i e now t of
                  (Inr _, u) \<Rightarrow> (Inl e, u\<lparr>hs_committed := hs_db u\<rparr>)
                | (Inl e', u) \<Rightarrow> (Inl e', u\<lparr>hs_db := hs_committed u\<rparr>))))"

section \<open>The loop\<close>

text \<open>
  \<open>clock k\<close> is the time of the \<open>k\<close>-th round; \<open>None\<close> is a loop that has not ended within the
  rounds given.  The errors of a job are suppressed, those of a claim are not.
\<close>

fun run_worker_loop ::
    "worker_env \<Rightarrow> (nat \<Rightarrow> time) \<Rightarrow> nat option \<Rightarrow> bool \<Rightarrow> nat \<Rightarrow> nat \<Rightarrow> nat \<Rightarrow> host_state \<Rightarrow>
     (host_error + nat) option \<times> host_state" where
  "run_worker_loop w clock limit daemon 0 k processed st = (None, st)"
| "run_worker_loop w clock limit daemon (Suc fuel) k processed st =
     (if (case limit of None \<Rightarrow> False | Some n \<Rightarrow> n \<le> processed) then (Some (Inr processed), st)
      else (case claim_next_job default_job_lease_seconds (clock k) (hs_committed st) of
        Inl e \<Rightarrow> (Some (Inl (FromService e)), st)
      | Inr (None, d) \<Rightarrow>
          if \<not> daemon then (Some (Inr processed), st\<lparr>hs_committed := d\<rparr>)
          else run_worker_loop w clock limit daemon fuel (Suc k) processed (st\<lparr>hs_committed := d\<rparr>)
      | Inr (Some j, d) \<Rightarrow>
          run_worker_loop w clock limit daemon fuel (Suc k) (Suc processed)
            (snd (process_job w (job_id j) (clock k) (st\<lparr>hs_committed := d\<rparr>)))))"

section \<open>What steps keep\<close>

definition keeps :: "(host_state \<Rightarrow> bool) \<Rightarrow> 'a step \<Rightarrow> bool" where
  "keeps Q m \<longleftrightarrow> (\<forall>s. Q s \<longrightarrow> Q (snd (m s)))"

text \<open>
  A property of the jobs alone: files and the rows of other tables do not matter to it.  What
  the materialization does between two heartbeats cannot break it.
\<close>

locale job_property =
  fixes Q :: "host_state \<Rightarrow> bool"
  assumes files_irrelevant: "Q s \<Longrightarrow> Q (s\<lparr>hs_disk := x\<rparr>)"
    and other_rows_irrelevant: "Q s \<Longrightarrow> db_jobs d = db_jobs (hs_db s) \<Longrightarrow> Q (s\<lparr>hs_db := d\<rparr>)"
begin

lemma keeps_bind: "keeps Q m \<Longrightarrow> (\<And>x. keeps Q (f x)) \<Longrightarrow> keeps Q (step_bind m f)"
  by (auto simp: keeps_def step_bind_def split: prod.splits sum.splits)

lemma keeps_return: "keeps Q (step_return x)"
  by (simp add: keeps_def step_return_def)

lemma keeps_fail: "keeps Q (step_fail e)"
  by (simp add: keeps_def step_fail_def)

lemma keeps_reading: "keeps Q (reading g)"
  by (simp add: keeps_def reading_def)

lemma keeps_disk: "keeps Q (on_disk h)"
  by (auto simp: keeps_def on_disk_def files_irrelevant split: sum.splits)

lemma keeps_rows: "(\<And>d x d'. k d = Inr (x, d') \<Longrightarrow> db_jobs d' = db_jobs d) \<Longrightarrow> keeps Q (on_rows k)"
  by (auto simp: keeps_def on_rows_def intro!: other_rows_irrelevant split: sum.splits)

lemma keeps_upsert: "keeps Q (upsert_data env i kind p data)"
  unfolding upsert_data_def by (rule keeps_rows) (auto simp: upsert_artifact_def Let_def split: option.splits)

lemma keeps_ready: "keeps Q (on_rows (mark_release_ready r a b c e now))"
  by (rule keeps_rows) (auto simp: mark_release_ready_def res_simps put_release_def Let_def)

lemma keeps_parts:
  "keeps Q (build_and_store_bundle env s)" "keeps Q (persist_platform_compatibility env r b e)"
  "keeps Q (build_and_store_provenance env s r b now)" "keeps Q (build_and_store_manifest env s b p now)"
  unfolding build_and_store_bundle_def persist_platform_compatibility_def build_and_store_provenance_def
    build_and_store_manifest_def Let_def
  by (intro keeps_bind keeps_reading keeps_disk keeps_return keeps_rows; simp add: put_release_def)+

lemma keeps_materialize: "keeps Q beat \<Longrightarrow> keeps Q (materialize_release env beat i now)"
  unfolding materialize_release_def rematerialize_def
  by (intro keeps_bind keeps_reading) (auto intro!: keeps_bind keeps_reading keeps_parts keeps_upsert keeps_ready)

end

section \<open>The queue while a job is worked on\<close>

text \<open>
  Both the committed rows and the session's satisfy the invariant of the queue with at most \<open>n\<close>
  claims left, and in both the job at work is running in its \<open>a\<close>-th attempt.
\<close>

definition running_row :: "id \<Rightarrow> int \<Rightarrow> db \<Rightarrow> bool" where
  "running_row i a d \<longleftrightarrow>
     (case row_get job_id (db_jobs d) i of None \<Rightarrow> False | Some j \<Rightarrow> job_status j = JobRunning \<and> job_attempts j = a)"

definition queue_within :: "nat \<Rightarrow> db \<Rightarrow> bool" where
  "queue_within n d \<longleftrightarrow> jobs_ok d \<and> queue_budget d \<le> n"

definition at_work :: "id \<Rightarrow> int \<Rightarrow> nat \<Rightarrow> host_state \<Rightarrow> bool" where
  "at_work i a n s \<longleftrightarrow> queue_within n (hs_committed s) \<and> running_row i a (hs_committed s) \<and>
     queue_within n (hs_db s) \<and> running_row i a (hs_db s)"

lemma same_jobs: "db_jobs d = db_jobs d' \<Longrightarrow> queue_within n d = queue_within n d' \<and> running_row i a d = running_row i a d'"
  by (simp add: queue_within_def jobs_ok_def queue_budget_def running_row_def)

interpretation work: job_property "at_work i a n"
  by unfold_locales (auto simp: at_work_def dest: same_jobs)

lemma queue_within_replace:
  assumes q: "queue_within n d" and old: "row_get job_id (db_jobs d) i = Some old" and j: "job_ok j" "job_id j = i"
    and le: "job_budget j \<le> job_budget old"
  shows "queue_within n (d\<lparr>db_jobs := row_set job_id j (db_jobs d)\<rparr>)"
proof -
  have ok: "jobs_ok d" and "queue_budget d \<le> n" using q by (simp_all add: queue_within_def)
  moreover have "job_id old = i" "old \<in> set (db_jobs d)" using row_get_Some [OF old] by simp_all
  moreover have "row_set job_id j (db_jobs d) = map (\<lambda>r. if job_id r = job_id old then j else r) (db_jobs d)"
    using \<open>job_id old = i\<close> j(2) by (simp add: row_set_def row_update_def)
  ultimately have "queue_budget (d\<lparr>db_jobs := row_set job_id j (db_jobs d)\<rparr>) + job_budget old \<le> n + job_budget j"
    using sum_list_replace [of "db_jobs d" old j] by (simp add: queue_budget_def jobs_ok_def)
  then show ?thesis using jobs_ok_set [OF ok j(1)] le by (simp add: queue_within_def)
qed

lemma running_row_set:
  assumes "running_row i a d" and "job_id j = i" and "job_status j = JobRunning" and "job_attempts j = a"
  shows "running_row i a (d\<lparr>db_jobs := row_set job_id j (db_jobs d)\<rparr>)"
  using assms by (auto simp: running_row_def row_simps split: option.splits)

lemma keeps_renew: "keeps (at_work i a n) (renew_job_lease i now)"
  unfolding keeps_def
proof (intro allI impI)
  fix s assume w: "at_work i a n s"
  then obtain j where j: "row_get job_id (db_jobs (hs_committed s)) i = Some j" "job_status j = JobRunning" "job_attempts j = a"
    by (auto simp: at_work_def running_row_def split: option.splits)
  have "job_ok j" "job_id j = i" using w j(1) jobs_ok_row by (auto simp: at_work_def queue_within_def)
  define j' where "j' = j\<lparr>job_heartbeat_at := Some now,
      job_lease_expires_at := Some (lease_deadline now default_job_lease_seconds), job_updated_at := now\<rparr>"
  have "job_ok j'" "job_id j' = i" "job_status j' = JobRunning" "job_attempts j' = a" "job_budget j' \<le> job_budget j"
    using \<open>job_ok j\<close> \<open>job_id j = i\<close> j(2,3) by (simp_all add: j'_def job_ok_def job_budget_def)
  then have "queue_within n ((hs_committed s)\<lparr>db_jobs := row_set job_id j' (db_jobs (hs_committed s))\<rparr>)"
      "running_row i a ((hs_committed s)\<lparr>db_jobs := row_set job_id j' (db_jobs (hs_committed s))\<rparr>)"
    using w by (auto simp: at_work_def intro!: queue_within_replace [OF _ j(1)] running_row_set)
  then show "at_work i a n (snd (renew_job_lease i now s))"
    using w j by (simp add: renew_job_lease_def heartbeat_job_def Let_def at_work_def j'_def)
qed

lemma keeps_refresh: "keeps (at_work i a n) (refresh_job i)"
  unfolding keeps_def
proof (intro allI impI)
  fix s assume w: "at_work i a n s"
  then obtain j where j: "row_get job_id (db_jobs (hs_committed s)) i = Some j" "job_status j = JobRunning" "job_attempts j = a"
    by (auto simp: at_work_def running_row_def split: option.splits)
  from w obtain old where old: "row_get job_id (db_jobs (hs_db s)) i = Some old" "job_status old = JobRunning" "job_attempts old = a"
    by (auto simp: at_work_def running_row_def split: option.splits)
  have "job_ok j" "job_id j = i" using w j(1) jobs_ok_row by (auto simp: at_work_def queue_within_def)
  moreover have "job_budget j \<le> job_budget old" using j old by (simp add: job_budget_def)
  ultimately have "queue_within n ((hs_db s)\<lparr>db_jobs := row_set job_id j (db_jobs (hs_db s))\<rparr>)"
      "running_row i a ((hs_db s)\<lparr>db_jobs := row_set job_id j (db_jobs (hs_db s))\<rparr>)"
    using w j by (auto simp: at_work_def intro!: queue_within_replace [OF _ old(1)] running_row_set)
  then show "at_work i a n (snd (refresh_job i s))"
    using w j by (simp add: refresh_job_def at_work_def)
qed

text \<open>Log lines do not count.\<close>

lemma logged_jobs:
  assumes "db_jobs d' = row_update p (\<lambda>j. append_job_log j lines) (db_jobs d)"
  shows "queue_within n d' = queue_within n d" "running_row i a d' = running_row i a d"
proof -
  have same: "job_ok (append_job_log j lines) = job_ok j" "job_budget (append_job_log j lines) = job_budget j" for j
    by (auto simp: job_ok_def job_budget_def split: job_status.splits)
  have "rows_ok job_id (db_jobs d') = rows_ok job_id (db_jobs d)"
    by (simp add: assms rows_ok_def row_update_ids)
  moreover have "list_all job_ok (row_update p (\<lambda>j. append_job_log j lines) t) = list_all job_ok t" for t
    by (induction t) (simp_all add: row_update_def same)
  moreover have "map job_budget (db_jobs d') = map job_budget (db_jobs d)"
    by (simp add: assms row_update_def comp_def same if_distrib cong: if_cong)
  ultimately show "queue_within n d' = queue_within n d" by (simp add: queue_within_def jobs_ok_def queue_budget_def assms flip: list_all_iff)
  show "running_row i a d' = running_row i a d"
    by (auto simp: running_row_def assms row_get_update split: option.splits)
qed

lemma keeps_log: "keeps (at_work i a n) (job_log_lines k lines)"
  by (simp add: keeps_def job_log_lines_def on_rows_def at_work_def
        logged_jobs [of "_\<lparr>db_jobs := row_update (\<lambda>j. job_id j = k) (\<lambda>j. append_job_log j lines) (db_jobs _)\<rparr>"])

lemma finalize_jobs: "finalize_publish_intent k now d = Inr (x, d') \<Longrightarrow> db_jobs d' = db_jobs d"
proof (cases "row_get int_id (db_intents d) k")
  case (Some i)
  assume x: "finalize_publish_intent k now d = Inr (x, d')"
  show ?thesis
  proof (cases "int_state i \<in> {IntentActivated, IntentSuppressed}")
    case False
    show ?thesis
    proof (cases "row_get rel_id (db_releases d) (int_release_id i)")
      case r: (Some r)
      show ?thesis
      proof (cases "publication_block (service_of_principal (int_principal_id i) d) r")
        case (Inr blocked)
        then show ?thesis
          using x Some False r by (cases blocked; cases "open_public_exposure (rel_id r) d")
            (auto simp: finalize_publish_intent_def res_simps put_intent_def Let_def)
      qed (use x Some False r in \<open>simp add: finalize_publish_intent_def\<close>)
    qed (use x Some False in \<open>auto simp: finalize_publish_intent_def put_intent_def Let_def\<close>)
  qed (use x Some in \<open>auto simp: finalize_publish_intent_def\<close>)
qed (simp add: finalize_publish_intent_def)

lemma reraise_Inr_iff: "reraise h m = Inr y \<longleftrightarrow> m = Inr y"
  by (cases m) (simp_all add: reraise_def)

lemma keeps_work:
  "keeps (at_work i a n) (process_materialize_release_job w j now)" if "job_id j = i"
  unfolding process_materialize_release_job_def finalize_job_intent_def Let_def split_def that
proof (intro work.keeps_bind work.keeps_reading work.keeps_materialize keeps_renew keeps_log)
  show "keeps (at_work i a n) (\<lambda>s. on_disk (refresh_projection_snapshot (env_artifacts (wrk_host w)) now (hs_db s)) s)"
    using work.keeps_disk by (auto simp: keeps_def)
  show "keeps (at_work i a n) (if c then step_return () else step_bind (reading g)
      (\<lambda>k. step_bind (on_rows (\<lambda>d. reraise intent_error (finalize_publish_intent k now d))) (\<lambda>f. job_log_lines i (lines f))))" for c g lines
    by (auto intro!: work.keeps_bind work.keeps_reading work.keeps_return keeps_log work.keeps_rows finalize_jobs simp: reraise_Inr_iff)
qed

lemma keeps_prune: "keeps (at_work i a n) (process_prune_skill_contents_job w j now)"
  unfolding process_prune_skill_contents_job_def Let_def
proof (intro work.keeps_bind work.keeps_reading keeps_log)
  fix limit
  show "keeps (at_work i a n) (\<lambda>s. case prune_expired_skill_contents (wrk_ttl_hours w) (max 1 (min limit 10000)) None now (hs_db s)
      (artifact_files (env_artifacts (wrk_host w)) (hs_disk s)) of (summary, d, fs) \<Rightarrow>
      (Inr summary, s\<lparr>hs_db := d, hs_disk := keep_artifacts (env_artifacts (wrk_host w)) fs (hs_disk s)\<rparr>))"
    by (auto simp: keeps_def prune_expired_skill_contents_def Let_def intro!: work.files_irrelevant work.other_rows_irrelevant)
qed

section \<open>One job and the queue\<close>

lemma keeps_refreshed:
  assumes "\<And>j. job_id j = i \<Longrightarrow> keeps (at_work i a n) (f j)"
  shows "keeps (at_work i a n) (step_bind (refresh_job i) f)"
proof -
  have "job_id j = i" if "refresh_job i s = (Inr j, t)" for j s t
    using that row_get_Some [of job_id _ i] by (auto simp: refresh_job_def split: option.splits)
  then show ?thesis
    using assms keeps_refresh [of i a n] unfolding keeps_def step_bind_def by (fastforce split: prod.splits sum.splits)
qed

lemma body_outcome:
  assumes "at_work i a n s" and "process_job_body w i now s = (r, t)"
  shows "case r of Inl _ \<Rightarrow> at_work i a n t | Inr _ \<Rightarrow> queue_within n (hs_db t)"
proof -
  define work where "work = step_bind (renew_job_lease i now) (\<lambda>_. step_bind (refresh_job i) (\<lambda>j.
     if job_kind j = ''materialize_release'' then process_materialize_release_job w j now
     else if job_kind j = ''prune_skill_contents'' then process_prune_skill_contents_job w j now
     else step_fail (repo_op_error (''unsupported job kind: '' @ job_kind j))))"
  have "keeps (at_work i a n) (if job_kind j = ''materialize_release'' then process_materialize_release_job w j now
     else if job_kind j = ''prune_skill_contents'' then process_prune_skill_contents_job w j now
     else step_fail (repo_op_error (''unsupported job kind: '' @ job_kind j)))" if "job_id j = i" for j
    using that keeps_work keeps_prune work.keeps_fail by auto
  then have "keeps (at_work i a n) work"
    unfolding work_def by (rule work.keeps_bind [OF keeps_renew keeps_refreshed])
  moreover have "process_job_body w i now s = step_bind work (\<lambda>_. on_rows (\<lambda>d. rbind (or_raise (row_get job_id (db_jobs d) i)
      (RuntimeError ''job row lost'')) (\<lambda>j'. Inr ((), snd (complete_job j' now d))))) s"
    by (auto simp: process_job_body_def work_def step_bind_def split: prod.splits sum.splits)
  ultimately have body: "case work s of (Inl e, u) \<Rightarrow> r = Inl e \<and> t = u | (Inr _, u) \<Rightarrow>
      on_rows (\<lambda>d. rbind (or_raise (row_get job_id (db_jobs d) i) (RuntimeError ''job row lost'')) (\<lambda>j'. Inr ((), snd (complete_job j' now d)))) u = (r, t)"
    and kept: "at_work i a n (snd (work s))"
    using assms by (auto simp: step_bind_def keeps_def split: prod.splits sum.splits)
  show ?thesis
  proof (cases "work s")
    case (Pair x u)
    then have u: "at_work i a n u" using kept by simp
    then obtain j where j: "row_get job_id (db_jobs (hs_db u)) i = Some j" "job_status j = JobRunning"
      by (auto simp: at_work_def running_row_def split: option.splits)
    have q: "queue_within n (hs_db u)" using u by (simp add: at_work_def)
    have "job_ok j" "job_id j = i" using q jobs_ok_row [OF _ j(1)] by (auto simp: queue_within_def)
    then have "queue_within n (snd (complete_job j now (hs_db u)))"
      unfolding complete_job_def Let_def snd_conv using j(2)
      by (intro queue_within_replace [OF q j(1)]) (simp_all add: job_ok_def job_budget_def)
    then show ?thesis using body Pair u j by (cases x) (auto simp: on_rows_def)
  qed
qed

lemma failure_outcome:
  assumes w: "at_work i a n t" and r: "record_failure w i e now t = (r, u)"
  shows "case r of Inl _ \<Rightarrow> hs_committed u = hs_committed t | Inr _ \<Rightarrow> queue_within n (hs_db u)"
proof -
  obtain j where j: "row_get job_id (db_jobs (hs_db t)) i = Some j" "job_status j = JobRunning"
    using w by (auto simp: at_work_def running_row_def split: option.splits)
  have q: "queue_within n (hs_db t)" using w by (simp add: at_work_def)
  have ok: "job_ok j" "job_id j = i" using q jobs_ok_row [OF _ j(1)] by (auto simp: queue_within_def)
  let ?m = "wrk_str w e"
  obtain j' d1 where f: "fail_job j ?m (is_retryable_error ?m) now (hs_db t) = (j', d1)" by fastforce
  have "queue_within n d1"
    using f ok j(2) queue_within_replace [OF q j(1), of j']
    by (auto simp: fail_job_def Let_def job_ok_def job_budget_def split: if_splits)
  moreover have "queue_within n d2 = queue_within n d" if "audit_materialization_failure jj m p d = Inr ((), d2)" for jj m p d d2
  proof -
    have "db_jobs d2 = db_jobs d"
      using that by (auto simp: audit_materialization_failure_def mark_release_materialization_failed_def put_release_def res_simps Let_def
          split: if_splits sum.splits option.splits)
    then show ?thesis using same_jobs by blast
  qed
  ultimately show ?thesis
    using r j f by (auto simp: record_failure_def on_rows_def split: sum.splits)
qed

lemma process_job_queue:
  assumes "queue_within n (hs_committed st)" and "running_row i a (hs_committed st)"
  shows "queue_within n (hs_committed (snd (process_job w i now st)))"
proof -
  define s0 where "s0 = st\<lparr>hs_db := hs_committed st\<rparr>"
  have work: "at_work i a n s0" using assms by (simp add: s0_def at_work_def)
  obtain r t where body: "process_job_body w i now s0 = (r, t)" by fastforce
  have out: "process_job w i now st = (case r of Inr _ \<Rightarrow> (Inr (), t\<lparr>hs_committed := hs_db t\<rparr>)
     | Inl e \<Rightarrow> (case record_failure w i e now t of (Inr _, u) \<Rightarrow> (Inl e, u\<lparr>hs_committed := hs_db u\<rparr>)
          | (Inl e', u) \<Rightarrow> (Inl e', u\<lparr>hs_db := hs_committed u\<rparr>)))"
    using assms(2) body by (auto simp: process_job_def s0_def running_row_def Let_def split: option.splits sum.splits)
  show ?thesis
  proof (cases r)
    case (Inr x)
    then show ?thesis using body_outcome [OF work body] by (simp add: out)
  next
    case (Inl e)
    obtain q u where rec: "record_failure w i e now t = (q, u)" by fastforce
    have t: "at_work i a n t" using body_outcome [OF work body] Inl by simp
    show ?thesis
      using failure_outcome [OF t rec] t rec Inl by (cases q) (simp_all add: out at_work_def)
  qed
qed

lemma loop_drains:
  assumes "queue_within n (hs_committed st)" and "n < fuel"
  shows "\<exists>m t. run_worker_loop w clock None False fuel k p st = (Some (Inr (p + m)), t) \<and> m \<le> n \<and>
     queue_within (n - m) (hs_committed t) \<and> claimable (clock (k + m)) (db_jobs (hs_committed t)) = None"
  using assms
proof (induction fuel arbitrary: n k p st)
  case 0
  then show ?case by simp
next
  case (Suc fuel)
  have ok: "jobs_ok (hs_committed st)" using Suc.prems(1) by (simp add: queue_within_def)
  show ?case
  proof (cases "claimable (clock k) (db_jobs (hs_committed st))")
    case None
    then show ?thesis using Suc.prems(1) by (auto simp: claim_next_job_None intro!: exI [of _ 0])
  next
    case (Some q)
    from claim_next_job_Some [OF _ Some, of default_job_lease_seconds] ok obtain j d where c: "claim_next_job default_job_lease_seconds (clock k) (hs_committed st) = Inr (Some j, d)"
      by (auto simp: jobs_ok_def)
    define st1 where "st1 = snd (process_job w (job_id j) (clock k) (st\<lparr>hs_committed := d\<rparr>))"
    have left: "queue_budget d < n" using claim_spends_budget [OF ok c] Suc.prems(1) by (simp add: queue_within_def)
    have "job_id q \<in> job_id ` set (db_jobs (hs_committed st))"
      using Some by (auto simp: claimable_def split: option.splits dest: first_where_Some)
    then obtain old where old: "row_get job_id (db_jobs (hs_committed st)) (job_id q) = Some old"
      using row_get_None [of job_id "db_jobs (hs_committed st)"] by (metis option.exhaust)
    have "job_id old = job_id q" using row_get_Some [OF old] by simp
    with old have "queue_within (n - 1) d" "running_row (job_id j) (job_attempts j) d"
      using claim_job_ok [OF ok c] left Some
      by (auto simp: queue_within_def running_row_def row_get_map split: option.splits)
    then have "queue_within (n - 1) (hs_committed st1)"
      using process_job_queue [of "n - 1" "st\<lparr>hs_committed := d\<rparr>"] by (simp add: st1_def)
    moreover have "n - 1 < fuel" using Suc.prems(2) left by linarith
    ultimately obtain m t where
      "run_worker_loop w clock None False fuel (Suc k) (Suc p) st1 = (Some (Inr (Suc p + m)), t)" "m \<le> n - 1"
      "queue_within (n - 1 - m) (hs_committed t)" "claimable (clock (Suc k + m)) (db_jobs (hs_committed t)) = None"
      using Suc.IH [of "n - 1" st1 "Suc k" "Suc p"] by blast
    then show ?thesis using c left by (intro exI [of _ "Suc m"] exI [of _ t]) (auto simp: st1_def)
  qed
qed

section \<open>A job that another worker has finished\<close>

text \<open>
  The failure is recorded whatever the state of the row: when the lease cannot be renewed because
  the job was completed in the meantime, the completed job is marked as failed.
\<close>

lemma finished_job_marked_failed:
  assumes j: "row_get job_id (db_jobs (hs_committed st)) i = Some j" "job_status j = JobCompleted" "job_kind j = ''prune_skill_contents''"
    and told: "\<not> is_retryable_error (wrk_str w (repo_op_error (''job '' @ str_of_int i @ '' is no longer running during lease renewal'')))"
  shows "\<exists>e t j'. process_job w i now st = (Inl e, t) \<and> row_get job_id (db_jobs (hs_committed t)) i = Some j' \<and> job_status j' = JobFailed"
proof -
  let ?e = "repo_op_error (''job '' @ str_of_int i @ '' is no longer running during lease renewal'')"
  have body: "process_job_body w i now s = (Inl ?e, s)" if "hs_committed s = hs_committed st" for s
    using that j by (simp add: process_job_body_def step_bind_def renew_job_lease_def)
  have "job_id j = i" using row_get_Some [OF j(1)] by simp
  then show ?thesis
    using j told unfolding process_job_def Let_def
    by (simp add: body record_failure_def on_rows_def fail_job_def audit_materialization_failure_def Let_def row_simps)
qed

section \<open>Properties\<close>

text \<open>C37. A batch worker comes to an end and leaves nothing to do.  Whatever its jobs do, it returns after at most as many
  jobs as the queue has claims left (eleven for a fresh job), with the invariant of the queue
  intact, and at that time no job is queued and none has an expired lease unless its attempts are used up.\<close>

theorem worker_drains_queue:
  assumes "jobs_ok (hs_committed st)" and "queue_budget (hs_committed st) < fuel"
  shows "\<exists>n t. run_worker_loop w clock None False fuel 0 0 st = (Some (Inr n), t) \<and> n \<le> queue_budget (hs_committed st) \<and>
     jobs_ok (hs_committed t) \<and>
     list_all (\<lambda>j. job_status j \<noteq> JobQueued \<and> \<not> (running_job_is_stale (clock n) j \<and> job_attempts j < max_job_attempts))
       (db_jobs (hs_committed t))"
proof -
  obtain m t where m: "run_worker_loop w clock None False fuel 0 0 st = (Some (Inr m), t)" "m \<le> queue_budget (hs_committed st)"
      "queue_within (queue_budget (hs_committed st) - m) (hs_committed t)" "claimable (clock m) (db_jobs (hs_committed t)) = None"
    using loop_drains [of "queue_budget (hs_committed st)" st fuel w clock 0 0] assms by (auto simp: queue_within_def)
  have "list_all (\<lambda>j. job_status j \<noteq> JobQueued \<and> \<not> (running_job_is_stale (clock m) j \<and> job_attempts j < max_job_attempts))
       (db_jobs (hs_committed t))"
    using m(4) by (auto simp: claimable_def list_all_iff first_where_None split: option.splits)
  with m show ?thesis by (auto simp: queue_within_def)
qed

definition depot_worker :: worker_env where
  "depot_worker = \<lparr>wrk_host = depot_env, wrk_ttl_hours = 24, wrk_str = (\<lambda>_. ''timeout'')\<rparr>"

definition depot_queue :: host_state where
  "depot_queue = depot\<lparr>hs_committed := snd (enqueue_job ''materialize_release'' None None (Some 1) [] 10 depot_db)\<rparr>"

lemma worker_drains_queue_witness:
  "\<exists>n t. run_worker_loop depot_worker int None False 12 0 0 depot_queue = (Some (Inr n), t) \<and> n \<le> 11 \<and>
     list_all (\<lambda>j. job_status j \<noteq> JobQueued) (db_jobs (hs_committed t))"
proof -
  have "db_jobs depot_db = []" by (simp add: depot_db_def empty_db_def)
  then have "jobs_ok depot_db" "queue_budget (hs_committed depot_queue) = 11"
    by (simp_all add: jobs_ok_def rows_ok_def queue_budget_def depot_queue_def enqueue_job_def Let_def job_budget_def max_job_attempts_def)
  then show ?thesis
    using worker_drains_queue [of depot_queue 12 depot_worker int] enqueue_job_ok [of depot_db]
    by (auto simp: depot_queue_def list_all_iff)
qed
end
