(* ===== verification/Spec2Isabelle.thy ===== *)
theory Spec2Isabelle
  imports JobProtocol ExposureProtocol ShareLinks PlannerCases PromotionReview AuthoringProtocol DistributionCases DiscoveryCases Sessions Worker
begin

text \<open>
  A verification development for the infinitas-skill registry: a server that stores skill
  versions, releases them, exposes releases to audiences under review, and hands out
  credentials for them, together with a command-line client.

  \<^bold>\<open>The program and its model.\<close>  The server (\<open>server/\<close>) is a set of modules over one
  SQL database.  A request runs a router function, which authenticates a credential, checks
  scopes and ownership, and calls service functions that read and write rows; the session is
  committed when the function returns and rolled back when it raises.  The model keeps that
  shape: \<open>db\<close> (theory ServerDb) has one list of rows per table, each row a record with the
  columns of the ORM class; a service function is a function of the database, returning
  \<open>Inl e\<close> for a raised exception and \<open>Inr (x, d')\<close> for a result with the new rows, and
  \<open>run_transaction\<close> is the session around a request.  The current time is an argument
  (microseconds since the epoch), as are random tokens and the hash functions, which are
  library code.  Unique indexes the code relies on are checked where it flushes, a violation
  being the exception \<open>IntegrityError\<close>.

  \<^bold>\<open>Theories.\<close>
  \<^item> Prelude: the error monad, tables of rows with unique ids, and their lemmas.
  \<^item> PyText, PyTime, PyJson: the parts of Python's str, int, datetime and json the code uses.
  \<^item> ServerDb: the rows (\<open>models.py\<close> of every module), sessions (\<open>server/db.py\<close>), actors
    and audit events (\<open>modules/shared\<close>, \<open>modules/audit/service.py\<close>).  SampleDb: a concrete
    database for the witnesses.
  \<^item> Jobs, JobProtocol: the job queue (\<open>server/jobs.py\<close>), its row invariant, the workers and
    their leases as a step relation, and the budget that bounds the claims.
  \<^item> RateLimit: both limiters of \<open>server/rate_limit.py\<close>, a locale for what a limiter promises
    to its callers, interpreted on both, and the exact sliding-window and fixed-window counts.
  \<^item> Credentials: \<open>modules/identity/service.py\<close> and \<open>modules/access/authn.py\<close>,
    \<open>product_scope.py\<close>.  CredentialPolicy: \<open>modules/access/credential_policy.py\<close>.
  \<^item> Release: \<open>modules/release/service.py\<close> and \<open>router.py\<close>.  AgentPublish:
    \<open>modules/release/agent_publish_service.py\<close>.
  \<^item> Review: \<open>modules/review\<close>.  Exposure: \<open>modules/exposure\<close> and the review routes.
    ExposureProtocol: both as a state machine over requests.
  \<^item> Access: \<open>modules/access/authz.py\<close> and \<open>service.py\<close>.  ShareLinks:
    \<open>modules/access/share_links.py\<close> with its state machine.
  \<^item> Content: validation and canonical form of uploaded bundles
    (\<open>modules/authoring/content.py\<close>, \<open>install/distribution.py\<close>).  Authoring: skills, contents
    and versions (\<open>service.py\<close>, \<open>repository.py\<close>, \<open>events.py\<close>, the storage of
    \<open>modules/release/storage.py\<close>, the routes).  ChangeSets: \<open>collaboration_service.py\<close> and
    \<open>data_snapshot_service.py\<close>.  AuthoringEffects: what each operation does to the tables and
    to the artifact directory.  AuthoringProtocol: all of them as a step relation on the
    database, the files and the clock, with its invariant.
  \<^item> SemVer: \<open>install/version_constraints.py\<close>.  Ordering, Dependencies, Candidates: the
    orders, dependency entries and candidate checks of \<open>install/source_resolution.py\<close> and
    \<open>target_validation.py\<close>.  Planner, Planning, PlanOrder, PlannerCases: the search of
    \<open>install/service.py\<close> and the plan of \<open>plan_builder.py\<close>, its soundness, completeness and
    termination, the order of the steps, and the cases where it goes wrong.
  \<^item> TeamPolicy, SkillIdentity, PromotionReview: \<open>policy/team_policy.py\<close>,
    \<open>policy/skill_identity.py\<close>, \<open>policy/reviews.py\<close> and \<open>policy/review_evaluation.py\<close>.
  \<^item> Disk: the files of a directory tree, paths, and the outside programs the client calls
    (ssh-keygen, sha256, gzip and tar, the JSON decoder) as a record of functions.  Attestation:
    provenance payloads, ssh and CI attestations and transparency log entries
    (\<open>release/attestation.py\<close>, \<open>attestation_validation.py\<close>, \<open>transparency_log.py\<close>).
    Distribution: bundles, manifests and their verification (\<open>install/distribution_*.py\<close>) and
    what a verified manifest guarantees; DistributionCases: concrete ones, and the CI payload
    that needs no signature.
  \<^item> JsonText: indented and canonical JSON documents (\<open>modules/release/bundle.py\<close>) and how
    they are read back.  VersionSort: \<open>modules/shared/version_sort.py\<close>.  Discovery: the rows of
    active exposures with their artifacts, catalogs, searches, installs and the catalog files
    (\<open>modules/discovery\<close>); DiscoveryCases: what they show, and the prerelease they prefer.
  \<^item> Sessions: session cookies, bearer tokens, CSRF tokens and the guards of routes
    (\<open>modules/identity/auth.py\<close>, \<open>guards.py\<close>).

  \<^bold>\<open>What is proved.\<close>  State-machine invariants over arbitrary sequences of requests (review
  cannot be bypassed, open exposures are unique, share links are used at most as often as
  they allow, job leases exclude each other, every version is sealed from one content, accepted
  change sets follow their base, what can still be used stays on disk), functional correctness
  of authentication and authorization (who is let in, and who is not), exact counts of both
  limiters, confinement of uploaded archives, the order of versions and the meaning of
  constraints, soundness, completeness and termination of the dependency planner, the review
  gate, what a verified distribution guarantees, what catalogs show and session cookies open,
  and the places where the code does not do what it means to (the findings
  of the manifest).

  \<^bold>\<open>Bounds.\<close>  Two functions take fuel.  The planner's search takes the interpreter's recursion
  limit, as the code does not bound it itself: \<open>search_bound\<close> is proved to be enough for
  qualified dependencies, and the bare cycle for which no limit is enough is a property of its
  own.  The visit of the plan takes the number of selected keys plus one, which is never
  exhausted.  Other recursions are structural or, for decimal digits, on a decreasing number.
  Column lengths are not modelled.  Integers are Python's, hence unbounded; the limit of 4300
  digits of \<open>int()\<close> is not modelled.

  \<^bold>\<open>Not modelled.\<close>  HTTP parsing and response views, HTML and read models, the file system
  (artifact storage, bundles, git), signing and hashing programs, migrations and logging; the
  manifest lists every part with its reason.  Concurrency is that of committed transactions
  in sequence; a worker's steps between two commits are separate steps of JobProtocol.
\<close>

end
